(* ===== verification/Api_Types.thy ===== *)
theory Api_Types
  imports Prelude
begin

text \<open>
  The data of \<^verbatim>\<open>api/v1alpha1\<close>: the workflow graph (ADR-0001), the external system bindings
  (ADR-0003), the node result envelope and its claims (ADR-0004), the Attempt and its ledger
  (ADR-0005), the review claim (ADR-0006/0007) and the Workflow specification. Each Go struct is
  a record with the struct's fields in the struct's order; a pointer field is an option. String
  enumerations stay strings, as in the sources, because every switch over them has a default
  branch that unknown values reach. Fields that no modelled operation reads or writes
  (Kubernetes conditions, type meta) are left out.
\<close>

section \<open>Workflow graph (graph\_types.go)\<close>

record CapabilityRequirement =
  req_Binding :: string
  req_Capability :: string

record RetryPolicy =
  rp_MaxAttempts :: int
  rp_InitialDelay :: string
  rp_MaxDelay :: string

record NodeSpec =
  node_ID :: string
  node_Type :: string
  node_Label :: string
  node_Config :: string
  node_Outputs :: "string list"
  node_When :: string
  node_Timeout :: string
  node_Requires :: "CapabilityRequirement list"
  node_Background :: "bool option"
  node_Retry :: "RetryPolicy option"

definition IsBackground :: "NodeSpec \<Rightarrow> bool" where
  "IsBackground n \<longleftrightarrow> (case node_Background n of None \<Rightarrow> False | Some b \<Rightarrow> b)"

record EdgeSpec =
  edge_From :: string
  edge_To :: string
  edge_When :: string
  edge_MaxRetries :: int

record GraphSpec =
  graph_Nodes :: "NodeSpec list"
  graph_Edges :: "EdgeSpec list"

text \<open>The Go zero values, for the struct literals of the sources that set a few fields only.\<close>

definition NodeSpec0 :: NodeSpec where
  "NodeSpec0 = \<lparr>node_ID = [], node_Type = [], node_Label = [], node_Config = [], node_Outputs = [],
     node_When = [], node_Timeout = [], node_Requires = [], node_Background = None, node_Retry = None\<rparr>"

definition EdgeSpec0 :: EdgeSpec where
  "EdgeSpec0 = \<lparr>edge_From = [], edge_To = [], edge_When = [], edge_MaxRetries = 0\<rparr>"

section \<open>External system bindings (binding\_types.go)\<close>

record SecretRef =
  sref_Name :: string
  sref_Key :: string

record BindingTarget =
  bt_Host :: string
  bt_Object :: string
  bt_Branch :: string
  bt_Extra :: "(string, string) gomap"

record ExternalSystemBinding =
  bind_Name :: string
  bind_BindingRole :: string
  bind_SurfaceKind :: string
  bind_ConnectionProfile :: string
  bind_Target :: BindingTarget
  bind_Granted :: "string list"
  bind_AuthRef :: "SecretRef option"

section \<open>Node result envelope and claims (result\_types.go)\<close>

abbreviation (input) ClaimTrustObserved :: string where "ClaimTrustObserved \<equiv> ''observed''"
abbreviation (input) ClaimTrustValidated :: string where "ClaimTrustValidated \<equiv> ''validated''"

abbreviation (input) NodeResultStatusOK :: string where "NodeResultStatusOK \<equiv> ''ok''"
abbreviation (input) NodeResultStatusSkipped :: string where "NodeResultStatusSkipped \<equiv> ''skipped''"
abbreviation (input) NodeResultStatusFailed :: string where "NodeResultStatusFailed \<equiv> ''failed''"

record Claim =
  claim_Type :: string
  claim_Binding :: string
  claim_ExternalID :: string
  claim_URL :: string
  claim_TrustClass :: string
  claim_ValidatedBy :: string

record Artifact =
  art_Name :: string
  art_Path :: string
  art_Hash :: string

record EvidenceReference =
  ev_Binding :: string
  ev_Kind :: string
  ev_Identifier :: string
  ev_URL :: string

record Provenance =
  prov_TriggeredBy :: string
  prov_TriggerSource :: string
  prov_ProducedAt :: instant

record NodeResultEnvelope =
  env_NodeID :: string
  env_RunID :: string
  env_Status :: string
  env_Attempt :: int
  env_Summary :: string
  env_Artifacts :: "Artifact list"
  env_Claims :: "Claim list"
  env_Payload :: string
  env_Provenance :: Provenance
  env_References :: "EvidenceReference list"
  env_ProducedAt :: instant
  env_DurationMs :: int

definition NodeResultEnvelope0 :: NodeResultEnvelope where
  "NodeResultEnvelope0 = \<lparr>env_NodeID = [], env_RunID = [], env_Status = [], env_Attempt = 0,
     env_Summary = [], env_Artifacts = [], env_Claims = [], env_Payload = [],
     env_Provenance = \<lparr>prov_TriggeredBy = [], prov_TriggerSource = [], prov_ProducedAt = zero_time\<rparr>,
     env_References = [], env_ProducedAt = zero_time, env_DurationMs = 0\<rparr>"

section \<open>Attempts (attempt\_types.go)\<close>

abbreviation (input) AttemptPhaseReconciling :: string where "AttemptPhaseReconciling \<equiv> ''reconciling''"
abbreviation (input) AttemptPhaseValidated :: string where "AttemptPhaseValidated \<equiv> ''validated''"
abbreviation (input) AttemptPhaseSuperseded :: string where "AttemptPhaseSuperseded \<equiv> ''superseded''"
abbreviation (input) AttemptPhaseFailed :: string where "AttemptPhaseFailed \<equiv> ''failed''"

abbreviation (input) ObjectiveKindDocumentationSync :: string where
  "ObjectiveKindDocumentationSync \<equiv> ''documentation-sync''"
abbreviation (input) ObjectiveKindPRReview :: string where "ObjectiveKindPRReview \<equiv> ''pr-review''"
abbreviation (input) ObjectiveKindForkSync :: string where "ObjectiveKindForkSync \<equiv> ''fork-sync''"
abbreviation (input) ObjectiveKindDeploymentChange :: string where
  "ObjectiveKindDeploymentChange \<equiv> ''deployment-change''"

record Subject =
  subj_Binding :: string
  subj_Object :: string

record ObjectiveSpec =
  obj_Kind :: string
  obj_PrimarySubject :: Subject
  obj_RelatedSubjects :: "Subject list"
  obj_DesiredOutcome :: string
  obj_TargetedState :: string

record AttemptSpec =
  aspec_Objective :: ObjectiveSpec
  aspec_WorkflowRef :: string
  aspec_Bindings :: "ExternalSystemBinding list"
  aspec_Owner :: string

record RunProgress =
  prog_Turn :: int
  prog_Turns :: int
  prog_Model :: string
  prog_TokensIn :: int
  prog_TokensOut :: int
  prog_UpdatedAt :: "instant option"

record ReviewClaimStatus =
  rc_PR :: string
  rc_HeadSHA :: string
  rc_Label :: string
  rc_ArmedSince :: "instant option"
  rc_DispatchedAt :: "instant option"
  rc_DispatchedJob :: string
  rc_Released :: bool
  rc_ReleaseReason :: string
  rc_DeadDispatches :: int
  rc_DispatchLostReleases :: int
  rc_LastDispatchLostAt :: "instant option"
  rc_DismissedAt :: "instant option"
  rc_HoldNote :: string
  rc_HoldCause :: string

record RunRecord =
  run_Name :: string
  run_StartedAt :: instant
  run_EndedAt :: instant
  run_Phase :: string

record AttemptStatus =
  st_ObservedGeneration :: int
  st_Phase :: string
  st_Runs :: "RunRecord list"
  st_NodeResults :: "NodeResultEnvelope list"
  st_Evidence :: "EvidenceReference list"
  st_CompactedRuns :: int
  st_CompactedNodeResults :: int
  st_CompactedEvidence :: int
  st_CompactedThrough :: instant
  st_LastRunAt :: instant
  st_Message :: string
  st_Review :: "ReviewClaimStatus option"
  st_Progress :: "RunProgress option"

definition ReviewClaimStatus0 :: ReviewClaimStatus where
  "ReviewClaimStatus0 = \<lparr>rc_PR = [], rc_HeadSHA = [], rc_Label = [], rc_ArmedSince = None,
     rc_DispatchedAt = None, rc_DispatchedJob = [], rc_Released = False, rc_ReleaseReason = [],
     rc_DeadDispatches = 0, rc_DispatchLostReleases = 0, rc_LastDispatchLostAt = None,
     rc_DismissedAt = None, rc_HoldNote = [], rc_HoldCause = []\<rparr>"

definition AttemptStatus0 :: AttemptStatus where
  "AttemptStatus0 = \<lparr>st_ObservedGeneration = 0, st_Phase = [], st_Runs = [], st_NodeResults = [],
     st_Evidence = [], st_CompactedRuns = 0, st_CompactedNodeResults = 0, st_CompactedEvidence = 0,
     st_CompactedThrough = zero_time, st_LastRunAt = zero_time, st_Message = [], st_Review = None,
     st_Progress = None\<rparr>"

text \<open>
  The object metadata is Kubernetes'; the fields are the ones the sources read. The resource
  version is the token of the optimistic lock.
\<close>

record Attempt =
  at_Name :: string
  at_Namespace :: string
  at_Labels :: "(string, string) gomap"
  at_UID :: string
  at_CreationTimestamp :: instant
  at_ResourceVersion :: nat
  at_Spec :: AttemptSpec
  at_Status :: AttemptStatus

definition RunTerminalPhase :: "string \<Rightarrow> bool" where
  "RunTerminalPhase phase \<longleftrightarrow> phase = ''succeeded'' \<or> phase = ''failed''"

definition TotalRuns :: "AttemptStatus \<Rightarrow> int" where
  "TotalRuns s = int (length (st_Runs s)) + st_CompactedRuns s"

definition TotalNodeResults :: "AttemptStatus \<Rightarrow> int" where
  "TotalNodeResults s = int (length (st_NodeResults s)) + st_CompactedNodeResults s"

definition TotalEvidence :: "AttemptStatus \<Rightarrow> int" where
  "TotalEvidence s = int (length (st_Evidence s)) + st_CompactedEvidence s"

section \<open>Gates and objective kinds (gates.go)\<close>

definition GateObjectiveKinds :: "(string, string) gomap" where
  "GateObjectiveKinds =
     [(''wiki-lint'', ObjectiveKindDocumentationSync),
      (''pr-review'', ObjectiveKindPRReview),
      (''fork-maintenance'', ObjectiveKindForkSync),
      (''noop'', ObjectiveKindDocumentationSync)]"

definition ObjectiveKindForGate :: "string \<Rightarrow> string" where
  "ObjectiveKindForGate gateName =
     (case map_of GateObjectiveKinds gateName of
        Some kind \<Rightarrow> kind
      | None \<Rightarrow> ObjectiveKindDocumentationSync)"

section \<open>Labels (labels.go)\<close>

abbreviation (input) OwnerLabel :: string where "OwnerLabel \<equiv> ''harmostes.dev/owner''"
abbreviation (input) WorkflowLabel :: string where "WorkflowLabel \<equiv> ''harmostes.dev/workflow''"
abbreviation (input) ReviewClaimLabel :: string where "ReviewClaimLabel \<equiv> ''harmostes.dev/review-claim''"
abbreviation (input) ReviewClaimReleased :: string where "ReviewClaimReleased \<equiv> ''released''"
abbreviation (input) ObjectiveKindLabel :: string where "ObjectiveKindLabel \<equiv> ''harmostes.dev/objective-kind''"

section \<open>Workflows (workflow\_types.go)\<close>

record PluginRef =
  plug_Name :: string
  plug_Image :: string
  plug_ConfigMap :: string
  plug_Args :: "string list"
  plug_Timeout :: string

record ForkSource =
  fork_URL :: string
  fork_Branch :: string

record WebhookSpec =
  whs_Secret :: string
  whs_SecretRef :: "SecretRef option"
  whs_URL :: string

record SourceSpec =
  src_Kind :: string
  src_Repo :: string
  src_Branch :: string
  src_Revision :: string
  src_Schedule :: string
  src_Topic :: string
  src_Language :: string
  src_Fork :: "ForkSource option"
  src_Webhook :: "WebhookSpec option"

record PrepareSpec =
  prep_Plugin :: PluginRef
  prep_Output :: string
  prep_Detect :: string
  prep_Config :: string

record TaskTemplate =
  task_Name :: string
  task_ConfigMap :: string
  task_Key :: string

record ModelWindow =
  mw_Model :: string
  mw_Start :: string
  mw_End :: string
  mw_TZ :: string

record ExtensionPin =
  pin_Name :: string
  pin_Source :: string
  pin_Integrity :: string

record HarnessRef =
  hr_Runtime :: string
  hr_Source :: string
  hr_Integrity :: string

record AgentSpec =
  agent_Enabled :: "bool option"
  agent_Model :: string
  agent_Models :: "ModelWindow list"
  agent_Skill :: string
  agent_Tools :: "string list"
  agent_Extensions :: "ExtensionPin list"
  agent_ExcludeTools :: "string list"
  agent_NoMCP :: "bool option"
  agent_Thinking :: string
  agent_ToolBudget :: "int option"
  agent_TaskTemplate :: TaskTemplate
  agent_GatePlugin :: PluginRef
  agent_MaxFixes :: int
  agent_Timeout :: int
  agent_Scope :: string

definition EnabledOrDefault :: "AgentSpec \<Rightarrow> bool" where
  "EnabledOrDefault a \<longleftrightarrow> (case agent_Enabled a of None \<Rightarrow> True | Some b \<Rightarrow> b)"

record ReviewReadySpec =
  rr_Label :: string
  rr_Horizon :: string
  rr_DispatchTimeout :: string
  rr_MaxConcurrent :: int
  rr_RunBound :: string

record CacheSpec =
  cache_PVC :: string
  cache_Git :: bool
  cache_Go :: bool
  cache_NPM :: bool

record SessionsSpec =
  sess_PVC :: string
  sess_TTL :: string

record SharedAttachment =
  att_Name :: string
  att_Scope :: string
  att_PVC :: string
  att_MountPath :: string

abbreviation (input) AttachmentScopeWorkflow :: string where "AttachmentScopeWorkflow \<equiv> ''workflow''"
abbreviation (input) AttachmentScopeRepository :: string where "AttachmentScopeRepository \<equiv> ''repository''"
abbreviation (input) AttachmentScopeAttempt :: string where "AttachmentScopeAttempt \<equiv> ''attempt''"

record WorkflowSpec =
  wspec_Source :: SourceSpec
  wspec_TemplateRef :: string
  wspec_Config :: string
  wspec_Prepare :: PrepareSpec
  wspec_Agent :: AgentSpec
  wspec_DeployPlugin :: PluginRef
  wspec_Graph :: "GraphSpec option"
  wspec_ReviewReady :: "ReviewReadySpec option"
  wspec_Bindings :: "ExternalSystemBinding list"
  wspec_Cache :: "CacheSpec option"
  wspec_Sessions :: "SessionsSpec option"
  wspec_Attachments :: "SharedAttachment list"
  wspec_PluginsConfigMapRef :: string
  wspec_Disabled :: bool

text \<open>The aggregates of the Review-Ready Gate and the memo of its refusals (\<^verbatim>\<open>reviewready.go\<close>).\<close>

record ReviewRefusal =
  ref_Repo :: string
  ref_PR :: int
  ref_HeadSHA :: string
  ref_Reason :: string
  ref_At :: "instant option"
  ref_VerdictURL :: string
  ref_Emitted :: bool
  ref_HostNotified :: bool

record ReviewReadyStatus =
  rrs_LiveClaims :: int
  rrs_Capacity :: int
  rrs_LastDecision :: string
  rrs_LastReason :: string
  rrs_LastSweepAbortAt :: "instant option"
  rrs_LastWake :: string
  rrs_Refusals :: "ReviewRefusal list"

record Condition =
  cond_Type :: string
  cond_Status :: bool
  cond_Reason :: string
  cond_Message :: string
  cond_ObservedGeneration :: int
  cond_LastTransitionTime :: instant

record WorkflowStatus =
  ws_ObservedGeneration :: int
  ws_LastProcessedRevision :: string
  ws_LastAgentCommit :: string
  ws_LastRigHash :: string
  ws_GateStatus :: string
  ws_ReviewReady :: "ReviewReadyStatus option"
  ws_LastRunAt :: instant
  ws_Message :: string
  ws_Conditions :: "Condition list"

record Workflow =
  wf_Name :: string
  wf_Namespace :: string
  wf_Labels :: "(string, string) gomap"
  wf_Annotations :: "(string, string) gomap"
  wf_Generation :: int
  wf_ResourceVersion :: nat
  wf_Spec :: WorkflowSpec
  wf_Status :: WorkflowStatus

text \<open>The parts of a WorkflowTemplate's specification that workflows inherit (\<^verbatim>\<open>workflowtemplate_types.go\<close>).\<close>

record TemplateSourceSpec =
  tss_Forge :: string
  tss_Repo :: string
  tss_Path :: string
  tss_Branch :: string
  tss_SecretRef :: "SecretRef option"

record WorkflowTemplateSpec =
  wts_Prepare :: PrepareSpec
  wts_Agent :: AgentSpec
  wts_DeployPlugin :: PluginRef
  wts_ReviewReady :: "ReviewReadySpec option"
  wts_Cache :: "CacheSpec option"
  wts_Source :: "TemplateSourceSpec option"
  wts_PluginsConfigMapRef :: string
  wts_Sessions :: "SessionsSpec option"
  wts_Attachments :: "SharedAttachment list"

text \<open>The zero values of the types above.\<close>

definition PluginRef0 :: PluginRef where
  "PluginRef0 = \<lparr>plug_Name = [], plug_Image = [], plug_ConfigMap = [], plug_Args = [], plug_Timeout = []\<rparr>"

definition SourceSpec0 :: SourceSpec where
  "SourceSpec0 = \<lparr>src_Kind = [], src_Repo = [], src_Branch = [], src_Revision = [], src_Schedule = [],
     src_Topic = [], src_Language = [], src_Fork = None, src_Webhook = None\<rparr>"

definition PrepareSpec0 :: PrepareSpec where
  "PrepareSpec0 = \<lparr>prep_Plugin = PluginRef0, prep_Output = [], prep_Detect = [], prep_Config = []\<rparr>"

definition TaskTemplate0 :: TaskTemplate where
  "TaskTemplate0 = \<lparr>task_Name = [], task_ConfigMap = [], task_Key = []\<rparr>"

definition AgentSpec0 :: AgentSpec where
  "AgentSpec0 = \<lparr>agent_Enabled = None, agent_Model = [], agent_Models = [], agent_Skill = [], agent_Tools = [],
     agent_Extensions = [], agent_ExcludeTools = [], agent_NoMCP = None, agent_Thinking = [],
     agent_ToolBudget = None, agent_TaskTemplate = TaskTemplate0, agent_GatePlugin = PluginRef0,
     agent_MaxFixes = 0, agent_Timeout = 0, agent_Scope = []\<rparr>"

definition WorkflowSpec0 :: WorkflowSpec where
  "WorkflowSpec0 = \<lparr>wspec_Source = SourceSpec0, wspec_TemplateRef = [], wspec_Config = [],
     wspec_Prepare = PrepareSpec0, wspec_Agent = AgentSpec0, wspec_DeployPlugin = PluginRef0,
     wspec_Graph = None, wspec_ReviewReady = None, wspec_Bindings = [], wspec_Cache = None,
     wspec_Sessions = None, wspec_Attachments = [], wspec_PluginsConfigMapRef = [], wspec_Disabled = False\<rparr>"

definition WorkflowStatus0 :: WorkflowStatus where
  "WorkflowStatus0 = \<lparr>ws_ObservedGeneration = 0, ws_LastProcessedRevision = [], ws_LastAgentCommit = [],
     ws_LastRigHash = [], ws_GateStatus = [], ws_ReviewReady = None, ws_LastRunAt = zero_time,
     ws_Message = [], ws_Conditions = []\<rparr>"

definition Workflow0 :: Workflow where
  "Workflow0 = \<lparr>wf_Name = [], wf_Namespace = [], wf_Labels = [], wf_Annotations = [], wf_Generation = 0,
     wf_ResourceVersion = 0, wf_Spec = WorkflowSpec0, wf_Status = WorkflowStatus0\<rparr>"

lemmas workflow0_defs = PluginRef0_def SourceSpec0_def PrepareSpec0_def TaskTemplate0_def AgentSpec0_def
  WorkflowSpec0_def WorkflowStatus0_def Workflow0_def

lemmas [model_defs] = IsBackground_def NodeSpec0_def EdgeSpec0_def NodeResultEnvelope0_def
  ReviewClaimStatus0_def AttemptStatus0_def RunTerminalPhase_def TotalRuns_def
  TotalNodeResults_def TotalEvidence_def GateObjectiveKinds_def ObjectiveKindForGate_def
  EnabledOrDefault_def workflow0_defs

lemma ObjectiveKindForGate_range:
  "ObjectiveKindForGate g \<in>
     {ObjectiveKindDocumentationSync, ObjectiveKindPRReview, ObjectiveKindForkSync}"
  by (auto simp: ObjectiveKindForGate_def GateObjectiveKinds_def split: if_splits)

end
