(* ===== verification/Capability.thy ===== *)
theory Capability
  imports Api_Types "HOL-Library.Multiset"
begin

text \<open>
  Surface Capability Policy (\<^verbatim>\<open>internal/capability/policy.go\<close>, ADR-0003). \<open>Authorize\<close> indexes the
  granted capabilities per binding name and lists every unmet requirement; \<open>AuthorizeNode\<close> is
  the form the kernel calls before it executes a node; \<open>FormatViolations\<close> renders the denial.
  The lemmas characterise authorisation against the declared bindings: exactly the requirements
  that no binding in force grants are reported, in the order of the requirements, and the
  rendering does not depend on that order.
\<close>

record Violation =
  vio_NodeID :: string
  vio_Binding :: string
  vio_Capability :: string
  vio_Reason :: string

abbreviation (input) reasonBindingMissing :: string where "reasonBindingMissing \<equiv> ''binding not declared''"
abbreviation (input) reasonCapabilityMissing :: string where
  "reasonCapabilityMissing \<equiv> ''capability not granted''"

text \<open>
  The index \<^verbatim>\<open>granted[b.Name] = caps\<close>: a later binding of the same name replaces an earlier one.
\<close>

definition granted_index :: "ExternalSystemBinding list \<Rightarrow> (string, string list) gomap" where
  "granted_index bindings = fold (\<lambda>b m. map_set (bind_Name b) (bind_Granted b) m) bindings []"

definition check_requirement ::
  "(string, string list) gomap \<Rightarrow> CapabilityRequirement \<Rightarrow> Violation list" where
  "check_requirement granted req =
     (case map_of granted (req_Binding req) of
        None \<Rightarrow> [\<lparr>vio_NodeID = [], vio_Binding = req_Binding req,
                  vio_Capability = req_Capability req, vio_Reason = reasonBindingMissing\<rparr>]
      | Some caps \<Rightarrow>
          if req_Capability req \<notin> set caps \<and> ''*'' \<notin> set caps
          then [\<lparr>vio_NodeID = [], vio_Binding = req_Binding req,
                  vio_Capability = req_Capability req, vio_Reason = reasonCapabilityMissing\<rparr>]
          else [])"

definition Authorize ::
  "ExternalSystemBinding list \<Rightarrow> CapabilityRequirement list \<Rightarrow> Violation list" where
  "Authorize bindings requires =
     (if requires = [] then []
      else let granted = granted_index bindings in concat (map (check_requirement granted) requires))"

definition AuthorizeNode :: "ExternalSystemBinding list \<Rightarrow> NodeSpec \<Rightarrow> Violation list" where
  "AuthorizeNode bindings node =
     map (\<lambda>v. v\<lparr>vio_NodeID := node_ID node\<rparr>) (Authorize bindings (node_Requires node))"

text \<open>\<^verbatim>\<open>(*Error).Error\<close> and \<^verbatim>\<open>NewError\<close>: the aggregate error, \<^const>\<open>None\<close> for a nil error.\<close>

definition Error_text :: "Violation list \<Rightarrow> string" where
  "Error_text vs =
     (if vs = [] then ''capability: denied''
      else ''capability: '' @ show_nat (length vs) @ '' violation(s): '' @
        Join (map (\<lambda>v. vio_Capability v @ '': '' @ vio_Reason v @ '' on '' @ quoted (vio_Binding v)) vs) ''; '')"

definition NewError :: "Violation list \<Rightarrow> string option" where
  "NewError vs = (if vs = [] then None else Some (Error_text vs))"

definition violation_key :: "Violation \<Rightarrow> string \<times> string \<times> string" where
  "violation_key v = (vio_NodeID v, vio_Binding v, vio_Capability v)"

definition format_violation :: "Violation \<Rightarrow> string" where
  "format_violation v =
     (if vio_NodeID v \<noteq> []
      then ''node '' @ quoted (vio_NodeID v) @ '' requires '' @ vio_Capability v @ '' on binding '' @
             quoted (vio_Binding v) @ '' '' @ em_dash @ '' '' @ vio_Reason v
      else vio_Capability v @ '' on binding '' @ quoted (vio_Binding v) @ '' '' @ em_dash @ '' '' @
             vio_Reason v)"

definition FormatViolations :: "Violation list \<Rightarrow> string" where
  "FormatViolations vs =
     (if vs = [] then []
      else ''capability policy: '' @ Join (map format_violation (sort_key violation_key vs)) ''; '')"

lemmas [model_defs] = granted_index_def check_requirement_def Authorize_def AuthorizeNode_def
  Error_text_def NewError_def violation_key_def format_violation_def FormatViolations_def

section \<open>Specification: the binding in force grants the capability\<close>

text \<open>The capability set in force for a name is that of the last binding declared under it.\<close>

definition binding_in_force :: "ExternalSystemBinding list \<Rightarrow> string \<Rightarrow> ExternalSystemBinding option" where
  "binding_in_force bindings name = find (\<lambda>b. bind_Name b = name) (rev bindings)"

definition satisfied :: "ExternalSystemBinding list \<Rightarrow> CapabilityRequirement \<Rightarrow> bool" where
  "satisfied bindings req \<longleftrightarrow>
     (\<exists>b. binding_in_force bindings (req_Binding req) = Some b \<and>
          (req_Capability req \<in> set (bind_Granted b) \<or> ''*'' \<in> set (bind_Granted b)))"

lemma granted_index_snoc:
  "granted_index (bs @ [b]) = map_set (bind_Name b) (bind_Granted b) (granted_index bs)"
  by (simp add: granted_index_def)

lemma granted_index_lookup:
  "map_of (granted_index bs) name = map_option bind_Granted (binding_in_force bs name)"
  by (induction bs rule: rev_induct)
     (auto simp: granted_index_snoc binding_in_force_def granted_index_def [of "[]"])

definition violation_of :: "ExternalSystemBinding list \<Rightarrow> string \<Rightarrow> CapabilityRequirement \<Rightarrow> Violation" where
  "violation_of bindings nodeID req =
     \<lparr>vio_NodeID = nodeID, vio_Binding = req_Binding req, vio_Capability = req_Capability req,
      vio_Reason = (if binding_in_force bindings (req_Binding req) = None then reasonBindingMissing
                    else reasonCapabilityMissing)\<rparr>"

lemma check_requirement_eq:
  "check_requirement (granted_index bs) req =
     (if satisfied bs req then [] else [violation_of bs [] req])"
  by (auto simp: check_requirement_def granted_index_lookup satisfied_def violation_of_def
      split: option.splits)

lemma Authorize_eq:
  "Authorize bs reqs = map (violation_of bs []) (filter (\<lambda>r. \<not> satisfied bs r) reqs)"
proof -
  have "concat (map (check_requirement (granted_index bs)) reqs) =
      map (violation_of bs []) (filter (\<lambda>r. \<not> satisfied bs r) reqs)"
    by (induction reqs) (auto simp: check_requirement_eq)
  then show ?thesis by (simp add: Authorize_def)
qed

lemma violation_of_stamp: "(violation_of bs [] req)\<lparr>vio_NodeID := n\<rparr> = violation_of bs n req"
  by (simp add: violation_of_def)

lemma AuthorizeNode_eq:
  "AuthorizeNode bs node =
     map (violation_of bs (node_ID node)) (filter (\<lambda>r. \<not> satisfied bs r) (node_Requires node))"
  by (simp add: AuthorizeNode_def Authorize_eq violation_of_stamp comp_def)

lemma AuthorizeNode_empty_iff:
  "AuthorizeNode bs node = [] \<longleftrightarrow> (\<forall>req \<in> set (node_Requires node). satisfied bs req)"
  by (auto simp: AuthorizeNode_eq filter_empty_conv)

lemma AuthorizeNode_no_requires [simp]: "node_Requires node = [] \<Longrightarrow> AuthorizeNode bs node = []"
  by (simp add: AuthorizeNode_eq)

lemma inj_violation_key: "v \<in> set (AuthorizeNode bs node) \<Longrightarrow> w \<in> set (AuthorizeNode bs node) \<Longrightarrow>
    violation_key v = violation_key w \<Longrightarrow> v = w"
  by (auto simp: AuthorizeNode_eq violation_of_def violation_key_def)

section \<open>Properties\<close>

text \<open>
  Capability policy: the violations reported for a node are exactly its unmet requirements
  (every one of them, in the order of the node's list), each stamped with the node and with the
  reason that says whether the binding is missing or only the capability. Hence the kernel
  refuses a node exactly when one of its requirements is not granted by the binding in force.
\<close>

theorem authorize_node_complete:
  "AuthorizeNode bs node =
     map (violation_of bs (node_ID node)) (filter (\<lambda>r. \<not> satisfied bs r) (node_Requires node)) \<and>
   (AuthorizeNode bs node = [] \<longleftrightarrow> list_all (satisfied bs) (node_Requires node))"
  by (simp add: AuthorizeNode_eq list_all_iff filter_empty_conv)

text \<open>
  The denial text of a node does not depend on the order in which the violations were
  found: the rendering sorts them, and permuting a node's requirements renders the same text.
\<close>

theorem format_violations_stable:
  assumes "mset (AuthorizeNode bs node) = mset vs"
  shows "FormatViolations vs = FormatViolations (AuthorizeNode bs node)"
proof -
  have "sort_key violation_key vs = sort_key violation_key (AuthorizeNode bs node)"
  proof (rule sort_key_inj_key_eq)
    have "set vs = set (AuthorizeNode bs node)" using assms by (metis set_mset_mset)
    then show "inj_on violation_key (set vs)" by (auto intro: inj_onI inj_violation_key)
  qed (simp_all add: assms)
  moreover have "vs = [] \<longleftrightarrow> AuthorizeNode bs node = []" using assms by (metis mset_zero_iff)
  ultimately show ?thesis by (simp add: FormatViolations_def)
qed

theorem format_violations_stable_witness:
  "FormatViolations
     (rev (AuthorizeNode [] (NodeSpec0\<lparr>node_Requires := [\<lparr>req_Binding = ''a'', req_Capability = ''x''\<rparr>,
        \<lparr>req_Binding = ''b'', req_Capability = ''y''\<rparr>]\<rparr>))) =
   FormatViolations
     (AuthorizeNode [] (NodeSpec0\<lparr>node_Requires := [\<lparr>req_Binding = ''a'', req_Capability = ''x''\<rparr>,
        \<lparr>req_Binding = ''b'', req_Capability = ''y''\<rparr>]\<rparr>))"
  by (rule format_violations_stable) simp

end
