(* ===== verification/Glob.thy ===== *)
theory Glob
  imports Prelude "HOL-Library.While_Combinator"
begin

text \<open>
  The wildcard matcher \<^verbatim>\<open>MatchGlob\<close> of \<^verbatim>\<open>internal/claim/trust.go\<close>. The source is an index loop that
  remembers the last star and backtracks to it; it is kept as a loop (\<^const>\<open>while_option\<close>) over
  the loop's own variables. The theory proves that the loop always stops and that its answer is
  that of the recursive reference matcher \<open>glob\<close>, which tries every way a star can match.
\<close>

record glob_state =
  g_pi :: nat
  g_si :: nat
  g_star :: "nat option"
  g_match :: nat
  g_failed :: bool

definition glob_init :: glob_state where
  "glob_init = \<lparr>g_pi = 0, g_si = 0, g_star = None, g_match = 0, g_failed = False\<rparr>"

definition glob_guard :: "string \<Rightarrow> glob_state \<Rightarrow> bool" where
  "glob_guard s g \<longleftrightarrow> \<not> g_failed g \<and> g_si g < length s"

definition glob_body :: "string \<Rightarrow> string \<Rightarrow> glob_state \<Rightarrow> glob_state" where
  "glob_body pattern s g =
     (if g_pi g < length pattern \<and> pattern ! g_pi g = CHR ''*''
      then g\<lparr>g_star := Some (g_pi g), g_match := g_si g, g_pi := Suc (g_pi g)\<rparr>
      else if g_pi g < length pattern \<and> pattern ! g_pi g = s ! g_si g
      then g\<lparr>g_pi := Suc (g_pi g), g_si := Suc (g_si g)\<rparr>
      else (case g_star g of
              Some st \<Rightarrow> g\<lparr>g_pi := Suc st, g_match := Suc (g_match g), g_si := Suc (g_match g)\<rparr>
            | None \<Rightarrow> g\<lparr>g_failed := True\<rparr>))"

text \<open>The loop and the trailing-star loop after it; \<^const>\<open>None\<close> would be divergence.\<close>

definition MatchGlob_run :: "string \<Rightarrow> string \<Rightarrow> bool option" where
  "MatchGlob_run pattern s =
     (case while_option (glob_guard s) (glob_body pattern s) glob_init of
        None \<Rightarrow> None
      | Some g \<Rightarrow>
          if g_failed g then Some False
          else Some (dropWhile (\<lambda>c. c = CHR ''*'') (drop (g_pi g) pattern) = []))"

definition MatchGlob :: "string \<Rightarrow> string \<Rightarrow> bool" where
  "MatchGlob pattern s \<longleftrightarrow> MatchGlob_run pattern s = Some True"

section \<open>The reference matcher\<close>

fun glob :: "string \<Rightarrow> string \<Rightarrow> bool" where
  "glob [] s = (s = [])"
| "glob (c # p) [] = (c = CHR ''*'' \<and> glob p [])"
| "glob (c # p) (d # s) =
     (if c = CHR ''*'' then glob p (d # s) \<or> glob (c # p) s else c = d \<and> glob p s)"

lemma glob_star_iff: "glob (CHR ''*'' # p) s \<longleftrightarrow> (\<exists>j \<le> length s. glob p (drop j s))"
proof (induction s)
  case Nil
  then show ?case by simp
next
  case (Cons d s)
  have "(\<exists>j \<le> length (d # s). glob p (drop j (d # s))) \<longleftrightarrow>
      glob p (d # s) \<or> (\<exists>j \<le> length s. glob p (drop j s))"
  proof
    assume "\<exists>j \<le> length (d # s). glob p (drop j (d # s))"
    then obtain j where "j \<le> length (d # s)" "glob p (drop j (d # s))" by blast
    then show "glob p (d # s) \<or> (\<exists>j \<le> length s. glob p (drop j s))" by (cases j) auto
  next
    assume "glob p (d # s) \<or> (\<exists>j \<le> length s. glob p (drop j s))"
    then show "\<exists>j \<le> length (d # s). glob p (drop j (d # s))"
      by (metis drop0 drop_Suc_Cons le0 length_Cons not_less_eq_eq)
  qed
  with Cons show ?case by simp
qed

lemma glob_empty_string: "glob p [] \<longleftrightarrow> dropWhile (\<lambda>c. c = CHR ''*'') p = []"
  by (induction p) auto

lemma glob_literal_prefix:
  "CHR ''*'' \<notin> set lit \<Longrightarrow> glob (lit @ q) t \<longleftrightarrow> (\<exists>t'. t = lit @ t' \<and> glob q t')"
proof (induction lit arbitrary: t)
  case Nil
  then show ?case by simp
next
  case (Cons c lit)
  then show ?case by (cases t) auto
qed

section \<open>The loop invariant\<close>

text \<open>
  What the loop knows: without a star seen, the rest of the pattern must match the rest of the
  string; after a star at \<open>st\<close>, either that, or the pattern behind the star matches at a later
  start than \<open>match\<close>. The text between the star and the pattern index is literal and has been
  matched against the string from \<open>match\<close> on.
\<close>

definition glob_rest :: "string \<Rightarrow> string \<Rightarrow> glob_state \<Rightarrow> bool" where
  "glob_rest p s g \<longleftrightarrow>
     glob (drop (g_pi g) p) (drop (g_si g) s) \<or>
     (case g_star g of None \<Rightarrow> False
      | Some st \<Rightarrow> \<exists>j > g_match g. j \<le> length s \<and> glob (drop (Suc st) p) (drop j s))"

definition glob_shape :: "string \<Rightarrow> string \<Rightarrow> glob_state \<Rightarrow> bool" where
  "glob_shape p s g \<longleftrightarrow>
     g_pi g \<le> length p \<and> g_si g \<le> length s \<and>
     (case g_star g of None \<Rightarrow> True
      | Some st \<Rightarrow> st < g_pi g \<and> g_match g \<le> g_si g \<and>
          (\<exists>lit. CHR ''*'' \<notin> set lit \<and> drop (Suc st) p = lit @ drop (g_pi g) p \<and>
                 g_si g = g_match g + length lit))"

definition glob_inv :: "string \<Rightarrow> string \<Rightarrow> glob_state \<Rightarrow> bool" where
  "glob_inv p s g \<longleftrightarrow> glob_shape p s g \<and>
     (if g_failed g then \<not> glob p s else glob p s = glob_rest p s g)"

lemma glob_inv_init: "glob_inv p s glob_init"
  by (simp add: glob_inv_def glob_shape_def glob_rest_def glob_init_def)

text \<open>A later start of the pattern behind the old star is a later start behind the new one.\<close>

lemma glob_behind_new_star:
  assumes lit: "CHR ''*'' \<notin> set lit"
    and gl: "glob (lit @ CHR ''*'' # q) (drop j s)" and j: "m < j" "j \<le> length s"
  shows "\<exists>k > m + length lit. k \<le> length s \<and> glob q (drop k s)"
proof -
  from gl lit obtain t' where t': "drop j s = lit @ t'" and st: "glob (CHR ''*'' # q) t'"
    by (auto simp: glob_literal_prefix)
  from st obtain i where i: "i \<le> length t'" "glob q (drop i t')" by (auto simp: glob_star_iff)
  have t'_eq: "t' = drop (j + length lit) s"
    using t' by (metis add.commute append_eq_conv_conj drop_drop)
  have "length t' = length s - (j + length lit)" by (simp add: t'_eq)
  moreover have "j + length lit \<le> length s"
    using t' j(2) by (metis add_le_cancel_left le_add_diff_inverse length_append length_drop le_add1)
  ultimately have "j + length lit + i \<le> length s" using i(1) by simp
  moreover have "glob q (drop (j + length lit + i) s)" using i(2) by (simp add: t'_eq add.commute)
  ultimately show ?thesis using j(1) by (intro exI [of _ "j + length lit + i"]) simp
qed

lemma glob_body_star:
  assumes inv: "glob_inv p s g" and grd: "glob_guard s g"
    and star: "g_pi g < length p" "p ! g_pi g = CHR ''*''"
  shows "glob_inv p s (glob_body p s g)"
proof -
  let ?g = "glob_body p s g"
  let ?q = "drop (Suc (g_pi g)) p"
  have g': "?g = g\<lparr>g_star := Some (g_pi g), g_match := g_si g, g_pi := Suc (g_pi g)\<rparr>"
    using star by (simp add: glob_body_def)
  have dp: "drop (g_pi g) p = CHR ''*'' # ?q" using star by (metis Cons_nth_drop_Suc)
  have nf: "\<not> g_failed g" and si: "g_si g < length s" using grd by (auto simp: glob_guard_def)
  have new: "glob_rest p s ?g \<longleftrightarrow> (\<exists>j \<ge> g_si g. j \<le> length s \<and> glob ?q (drop j s))"
    using si by (auto simp: glob_rest_def g' le_less)
  have first: "glob (drop (g_pi g) p) (drop (g_si g) s) \<longleftrightarrow>
      (\<exists>j \<ge> g_si g. j \<le> length s \<and> glob ?q (drop j s))"
  proof
    assume "glob (drop (g_pi g) p) (drop (g_si g) s)"
    then obtain i where "i \<le> length s - g_si g" "glob ?q (drop i (drop (g_si g) s))"
      by (auto simp: dp glob_star_iff)
    then show "\<exists>j \<ge> g_si g. j \<le> length s \<and> glob ?q (drop j s)"
      using si by (intro exI [of _ "g_si g + i"]) (auto simp: add.commute)
  next
    assume "\<exists>j \<ge> g_si g. j \<le> length s \<and> glob ?q (drop j s)"
    then obtain j where "g_si g \<le> j" "j \<le> length s" "glob ?q (drop j s)" by blast
    then show "glob (drop (g_pi g) p) (drop (g_si g) s)"
      by (auto simp: dp glob_star_iff intro!: exI [of _ "j - g_si g"])
  qed
  have "glob_rest p s g \<longleftrightarrow> (\<exists>j \<ge> g_si g. j \<le> length s \<and> glob ?q (drop j s))"
  proof (cases "g_star g")
    case None
    then show ?thesis using first by (simp add: glob_rest_def)
  next
    case (Some st)
    from inv Some obtain lit where lit: "CHR ''*'' \<notin> set lit"
      "drop (Suc st) p = lit @ drop (g_pi g) p" "g_si g = g_match g + length lit"
      by (auto simp: glob_inv_def glob_shape_def)
    have "(\<exists>j \<ge> g_si g. j \<le> length s \<and> glob ?q (drop j s))"
      if "g_match g < j" "j \<le> length s" "glob (drop (Suc st) p) (drop j s)" for j
      using glob_behind_new_star [of lit ?q j s "g_match g"] that lit by (auto simp: dp intro: less_imp_le)
    then show ?thesis using first Some by (auto simp: glob_rest_def)
  qed
  with inv nf new have "glob p s = glob_rest p s ?g" by (simp add: glob_inv_def)
  moreover have "glob_shape p s ?g" using inv star si by (auto simp: glob_inv_def glob_shape_def g')
  ultimately show ?thesis using nf by (simp add: glob_inv_def g')
qed

lemma glob_body_same:
  assumes inv: "glob_inv p s g" and grd: "glob_guard s g"
    and same: "g_pi g < length p" "p ! g_pi g \<noteq> CHR ''*''" "p ! g_pi g = s ! g_si g"
  shows "glob_inv p s (glob_body p s g)"
proof -
  let ?g = "glob_body p s g"
  have g': "?g = g\<lparr>g_pi := Suc (g_pi g), g_si := Suc (g_si g)\<rparr>"
    using same by (simp add: glob_body_def)
  have nf: "\<not> g_failed g" and si: "g_si g < length s" using grd by (auto simp: glob_guard_def)
  have dp: "drop (g_pi g) p = p ! g_pi g # drop (Suc (g_pi g)) p" using same by (metis Cons_nth_drop_Suc)
  have ds: "drop (g_si g) s = p ! g_pi g # drop (Suc (g_si g)) s"
    using si same(3) by (metis Cons_nth_drop_Suc)
  have "glob_rest p s ?g = glob_rest p s g"
    using same(2) by (simp add: glob_rest_def g' dp ds split: option.split)
  moreover have "glob_shape p s ?g"
  proof (cases "g_star g")
    case None
    then show ?thesis using inv same si by (auto simp: glob_inv_def glob_shape_def g')
  next
    case (Some st)
    from inv Some obtain lit where lit: "CHR ''*'' \<notin> set lit"
      "drop (Suc st) p = lit @ drop (g_pi g) p" "g_si g = g_match g + length lit" "st < g_pi g"
      by (auto simp: glob_inv_def glob_shape_def)
    show ?thesis unfolding glob_shape_def g' using Some lit same si inv
      by (auto simp: glob_inv_def glob_shape_def dp intro!: exI [of _ "lit @ [p ! g_pi g]"])
  qed
  ultimately show ?thesis using inv nf by (simp add: glob_inv_def g')
qed

lemma glob_body_mismatch:
  assumes inv: "glob_inv p s g" and grd: "glob_guard s g"
    and mis: "\<not> (g_pi g < length p \<and> p ! g_pi g = CHR ''*'')"
      "\<not> (g_pi g < length p \<and> p ! g_pi g = s ! g_si g)"
  shows "glob_inv p s (glob_body p s g)"
proof -
  have nf: "\<not> g_failed g" and si: "g_si g < length s" using grd by (auto simp: glob_guard_def)
  have ds: "drop (g_si g) s = s ! g_si g # drop (Suc (g_si g)) s" using si by (metis Cons_nth_drop_Suc)
  have no: "\<not> glob (drop (g_pi g) p) (drop (g_si g) s)"
  proof (cases "g_pi g < length p")
    case True
    then have "drop (g_pi g) p = p ! g_pi g # drop (Suc (g_pi g)) p" by (metis Cons_nth_drop_Suc)
    then show ?thesis using mis True by (simp add: ds)
  next
    case False
    then show ?thesis by (simp add: ds)
  qed
  show ?thesis
  proof (cases "g_star g")
    case None
    then have "glob_body p s g = g\<lparr>g_failed := True\<rparr>" using mis by (auto simp: glob_body_def)
    then show ?thesis using inv nf no None by (simp add: glob_inv_def glob_shape_def glob_rest_def)
  next
    case (Some st)
    then have g': "glob_body p s g = g\<lparr>g_pi := Suc st, g_match := Suc (g_match g), g_si := Suc (g_match g)\<rparr>"
      using mis by (auto simp: glob_body_def)
    have bounds: "st < g_pi g" "g_pi g \<le> length p" "g_match g \<le> g_si g"
      using inv Some by (auto simp: glob_inv_def glob_shape_def)
    have "glob_shape p s (glob_body p s g)"
      unfolding glob_shape_def g' using Some bounds si by (auto intro!: exI [of _ "[]"])
    moreover have "glob_rest p s (glob_body p s g) = glob_rest p s g"
    proof -
      have "(\<exists>j > g_match g. j \<le> length s \<and> glob (drop (Suc st) p) (drop j s)) \<longleftrightarrow>
          glob (drop (Suc st) p) (drop (Suc (g_match g)) s) \<or>
          (\<exists>j > Suc (g_match g). j \<le> length s \<and> glob (drop (Suc st) p) (drop j s))"
        using bounds(3) si by (metis Suc_leI le_less_trans less_Suc_eq Suc_lessI lessI less_or_eq_imp_le)
      then show ?thesis using no Some by (simp add: glob_rest_def g')
    qed
    ultimately show ?thesis using inv nf by (simp add: glob_inv_def g')
  qed
qed

lemma glob_inv_body: "glob_inv p s g \<Longrightarrow> glob_guard s g \<Longrightarrow> glob_inv p s (glob_body p s g)"
  by (metis glob_body_star glob_body_same glob_body_mismatch)

section \<open>Termination and correctness of the loop\<close>

definition glob_measure :: "string \<Rightarrow> string \<Rightarrow> (glob_state \<Rightarrow> nat) list" where
  "glob_measure p s =
     [\<lambda>g. if g_failed g then 0 else 1,
      \<lambda>g. case g_star g of None \<Rightarrow> Suc (length p) | Some st \<Rightarrow> length p - st,
      \<lambda>g. length s - g_match g,
      \<lambda>g. length s - g_si g]"

lemma glob_body_decreases:
  assumes "glob_inv p s g" and "glob_guard s g"
  shows "(glob_body p s g, g) \<in> measures (glob_measure p s)"
  using assms
  by (auto simp: glob_measure_def glob_body_def glob_guard_def glob_inv_def glob_shape_def
      split: option.splits)

lemma glob_loop_stops: "\<exists>g. while_option (glob_guard s) (glob_body p s) glob_init = Some g"
  by (rule wf_rel_while_option_Some [where R = "measures (glob_measure p s)" and P = "glob_inv p s"])
     (auto simp: glob_body_decreases glob_inv_body glob_inv_init)

lemma glob_inv_final:
  assumes "glob_inv p s g" and "\<not> glob_guard s g" and "\<not> g_failed g"
  shows "glob p s \<longleftrightarrow> dropWhile (\<lambda>c. c = CHR ''*'') (drop (g_pi g) p) = []"
proof -
  have si: "g_si g = length s" using assms by (auto simp: glob_guard_def glob_inv_def glob_shape_def)
  have no: "\<not> glob (drop (Suc st) p) (drop j s)"
    if st: "g_star g = Some st" and j: "g_match g < j" "j \<le> length s" for st j
  proof
    assume gl: "glob (drop (Suc st) p) (drop j s)"
    from assms(1) st obtain lit where lit: "CHR ''*'' \<notin> set lit"
      "drop (Suc st) p = lit @ drop (g_pi g) p" "length s = g_match g + length lit"
      by (auto simp: glob_inv_def glob_shape_def si [symmetric])
    from gl lit obtain t' where "drop j s = lit @ t'" by (auto simp: glob_literal_prefix)
    then have "length lit \<le> length s - j" by (metis le_add1 length_append length_drop)
    then show False using lit(3) j by simp
  qed
  have "glob p s \<longleftrightarrow> glob (drop (g_pi g) p) []"
    using assms(1,3) si no by (auto simp: glob_inv_def glob_rest_def split: option.splits)
  then show ?thesis by (simp add: glob_empty_string)
qed

lemma MatchGlob_run_eq: "MatchGlob_run p s = Some (glob p s)"
proof -
  obtain g where g: "while_option (glob_guard s) (glob_body p s) glob_init = Some g"
    using glob_loop_stops by blast
  have inv: "glob_inv p s g"
    by (rule while_option_rule [where P = "glob_inv p s", OF _ g glob_inv_init]) (rule glob_inv_body)
  have "\<not> glob_guard s g" using g by (rule while_option_stop)
  then show ?thesis using inv glob_inv_final [OF inv] g
    by (auto simp: MatchGlob_run_def glob_inv_def)
qed

lemma MatchGlob_eq: "MatchGlob p s = glob p s"
  by (simp add: MatchGlob_def MatchGlob_run_eq)

text \<open>
  C37. \<^verbatim>\<open>MatchGlob\<close>, the backtracking index loop, returns for every pattern and every string, and
  its answer is that of the reference matcher in which a star matches any run of characters.
\<close>

theorem match_glob_correct: "MatchGlob_run pattern s = Some (glob pattern s)"
  by (rule MatchGlob_run_eq)

end
