(* ===== verification/Claim_Trust.thy ===== *)
theory Claim_Trust
  imports Api_Types Glob
begin

text \<open>
  The fact-promotion policy of \<^verbatim>\<open>internal/claim/trust.go\<close> (ADR-0004). \<open>Enforce\<close> is the trust
  boundary (a non-deterministic node cannot validate its own claims), \<open>Promote\<close> is the only
  way up (a deterministic validator promotes the observed claims in its scope), \<open>HasValidated\<close>
  is what the Attempt phase machine reads. The sources update the claims in place through
  slices that the envelopes share; here each operation returns the updated envelopes.
\<close>

record ValidationScope =
  scope_ClaimTypes :: "string list"
  scope_Bindings :: "string list"

definition scope_IsEmpty :: "ValidationScope \<Rightarrow> bool" where
  "scope_IsEmpty s \<longleftrightarrow> scope_ClaimTypes s = []"

fun contains :: "string list \<Rightarrow> string \<Rightarrow> bool" where
  "contains [] needle = False"
| "contains (h # hs) needle = (h = needle \<or> contains hs needle)"

definition scope_matches :: "ValidationScope \<Rightarrow> Claim \<Rightarrow> bool" where
  "scope_matches s c \<longleftrightarrow>
     \<not> (scope_Bindings s \<noteq> [] \<and> \<not> contains (scope_Bindings s) (claim_Binding c)) \<and>
     list_ex (\<lambda>pat. MatchGlob pat (claim_Type c)) (scope_ClaimTypes s)"

record Promotion =
  promo_FromNodeID :: string
  promo_ClaimIndex :: nat
  promo_Claim :: Claim
  promo_ValidatedBy :: string

section \<open>Enforce\<close>

definition demote :: "Claim \<Rightarrow> Claim" where
  "demote c = (if claim_TrustClass c = ClaimTrustValidated
               then c\<lparr>claim_TrustClass := ClaimTrustObserved, claim_ValidatedBy := []\<rparr> else c)"

text \<open>The number of demoted claims and the envelope after the demotion.\<close>

definition Enforce :: "bool \<Rightarrow> NodeResultEnvelope \<Rightarrow> nat \<times> NodeResultEnvelope" where
  "Enforce deterministic env =
     (if deterministic then (0, env)
      else (length (filter (\<lambda>c. claim_TrustClass c = ClaimTrustValidated) (env_Claims env)),
            env\<lparr>env_Claims := map demote (env_Claims env)\<rparr>))"

section \<open>Promote\<close>

definition promotable :: "ValidationScope \<Rightarrow> Claim \<Rightarrow> bool" where
  "promotable scope c \<longleftrightarrow> claim_TrustClass c = ClaimTrustObserved \<and> scope_matches scope c"

definition promote_claim :: "string \<Rightarrow> ValidationScope \<Rightarrow> Claim \<Rightarrow> Claim" where
  "promote_claim validator scope c =
     (if promotable scope c
      then c\<lparr>claim_TrustClass := ClaimTrustValidated, claim_ValidatedBy := validator\<rparr> else c)"

text \<open>The inner loop over one envelope's claims, from index \<open>i\<close> on.\<close>

fun promote_claims ::
  "string \<Rightarrow> ValidationScope \<Rightarrow> string \<Rightarrow> nat \<Rightarrow> Claim list \<Rightarrow> Promotion list" where
  "promote_claims validator scope nodeID i [] = []"
| "promote_claims validator scope nodeID i (c # cs) =
     (if promotable scope c
      then \<lparr>promo_FromNodeID = nodeID, promo_ClaimIndex = i,
            promo_Claim = promote_claim validator scope c, promo_ValidatedBy = validator\<rparr> #
           promote_claims validator scope nodeID (Suc i) cs
      else promote_claims validator scope nodeID (Suc i) cs)"

definition Promote ::
  "(string, NodeResultEnvelope) gomap \<Rightarrow> string \<Rightarrow> ValidationScope \<Rightarrow>
     (string, NodeResultEnvelope) gomap \<times> Promotion list" where
  "Promote envelopes validatorNodeID scope =
     (if scope_IsEmpty scope then (envelopes, [])
      else (map (\<lambda>(nodeID, env).
                  (nodeID, env\<lparr>env_Claims := map (promote_claim validatorNodeID scope) (env_Claims env)\<rparr>))
              envelopes,
            concat (map (\<lambda>(nodeID, env). promote_claims validatorNodeID scope nodeID 0 (env_Claims env))
              envelopes)))"

definition HasValidated :: "NodeResultEnvelope list \<Rightarrow> bool" where
  "HasValidated envs =
     list_ex (\<lambda>env. list_ex (\<lambda>c. claim_TrustClass c = ClaimTrustValidated) (env_Claims env)) envs"

lemmas [model_defs] = scope_IsEmpty_def scope_matches_def demote_def Enforce_def promotable_def
  promote_claim_def Promote_def HasValidated_def

section \<open>What both operations keep: the asserted fact\<close>

definition fact_of :: "Claim \<Rightarrow> string \<times> string \<times> string \<times> string" where
  "fact_of c = (claim_Type c, claim_Binding c, claim_ExternalID c, claim_URL c)"

text \<open>
  The contract of a trust decision: it may change the trust class and the validator of a claim
  and nothing else of the envelope, so the asserted facts stay what the node asserted.
\<close>

locale trust_decision =
  fixes decide :: "Claim \<Rightarrow> Claim"
  assumes keeps_fact: "fact_of (decide c) = fact_of c"
    and stable: "decide (decide c) = decide c"
begin

definition decide_envelope :: "NodeResultEnvelope \<Rightarrow> NodeResultEnvelope" where
  "decide_envelope env = env\<lparr>env_Claims := map decide (env_Claims env)\<rparr>"

lemma envelope_facts: "map fact_of (env_Claims (decide_envelope env)) = map fact_of (env_Claims env)"
  by (simp add: decide_envelope_def keeps_fact)

lemma envelope_count: "length (env_Claims (decide_envelope env)) = length (env_Claims env)"
  by (simp add: decide_envelope_def)

lemma envelope_rest:
  "(decide_envelope env)\<lparr>env_Claims := cs\<rparr> = env\<lparr>env_Claims := cs\<rparr>"
  by (simp add: decide_envelope_def)

lemma envelope_stable: "decide_envelope (decide_envelope env) = decide_envelope env"
  by (simp add: decide_envelope_def stable comp_def)

end

lemma contains_iff [simp]: "contains hs n \<longleftrightarrow> n \<in> set hs"
  by (induction hs) auto

lemma scope_matches_iff:
  "scope_matches s c \<longleftrightarrow>
     (scope_Bindings s = [] \<or> claim_Binding c \<in> set (scope_Bindings s)) \<and>
     (\<exists>pat \<in> set (scope_ClaimTypes s). glob pat (claim_Type c))"
  by (auto simp: scope_matches_def MatchGlob_eq list_ex_iff)

lemma scope_matches_trust [simp]:
  "scope_matches s (c\<lparr>claim_TrustClass := t, claim_ValidatedBy := v\<rparr>) = scope_matches s c"
  by (simp add: scope_matches_def)

interpretation enforce: trust_decision demote
  by unfold_locales (simp_all add: demote_def fact_of_def)

interpretation promote: trust_decision "promote_claim validator scope" for validator scope
  by unfold_locales (simp_all add: promote_claim_def fact_of_def promotable_def)

lemma Enforce_eq:
  "\<not> d \<Longrightarrow> snd (Enforce d env) = enforce.decide_envelope env"
  by (simp add: Enforce_def enforce.decide_envelope_def)

lemma Promote_eq:
  "\<not> scope_IsEmpty scope \<Longrightarrow>
     fst (Promote envs v scope) = map (\<lambda>(n, env). (n, promote.decide_envelope v scope env)) envs"
  by (simp add: Promote_def promote.decide_envelope_def)

lemma Promote_empty [simp]: "scope_IsEmpty scope \<Longrightarrow> Promote envs v scope = (envs, [])"
  by (simp add: Promote_def)

lemma promotable_promoted [simp]: "\<not> promotable scope (promote_claim v scope c)"
  by (simp add: promote_claim_def promotable_def)

lemma promote_claims_Nil_iff:
  "promote_claims v scope n i cs = [] \<longleftrightarrow> (\<forall>c \<in> set cs. \<not> promotable scope c)"
  by (induction cs arbitrary: i) auto

lemma set_promote_claims:
  "p \<in> set (promote_claims v scope n i cs) \<longleftrightarrow>
     (\<exists>j < length cs. promotable scope (cs ! j) \<and>
        p = \<lparr>promo_FromNodeID = n, promo_ClaimIndex = i + j,
             promo_Claim = promote_claim v scope (cs ! j), promo_ValidatedBy = v\<rparr>)"
proof (induction cs arbitrary: i)
  case Nil
  then show ?case by simp
next
  case (Cons c cs)
  show ?case
  proof (cases "promotable scope c")
    case True
    then show ?thesis using Cons.IH [of "Suc i"] by (auto simp: less_Suc_eq_0_disj)
  next
    case False
    then show ?thesis using Cons.IH [of "Suc i"] by (auto simp: less_Suc_eq_0_disj)
  qed
qed

lemma keys_Promote [simp]: "map fst (fst (Promote envs v scope)) = map fst envs"
  by (auto simp: Promote_def)

lemma map_of_Promote:
  "map_of (fst (Promote envs v scope)) n =
     map_option (\<lambda>env. if scope_IsEmpty scope then env else promote.decide_envelope v scope env) (map_of envs n)"
proof (cases "scope_IsEmpty scope")
  case True
  then show ?thesis by (cases "map_of envs n") auto
next
  case False
  then show ?thesis by (simp add: Promote_eq map_of_map)
qed

lemma trust_promote_claim:
  "claim_TrustClass (promote_claim v scope c) = ClaimTrustValidated \<longleftrightarrow>
     claim_TrustClass c = ClaimTrustValidated \<or> promotable scope c"
  by (simp add: promote_claim_def)

lemma HasValidated_iff:
  "HasValidated envs \<longleftrightarrow>
     (\<exists>env \<in> set envs. \<exists>c \<in> set (env_Claims env). claim_TrustClass c = ClaimTrustValidated)"
  by (auto simp: HasValidated_def list_ex_iff)

section \<open>Properties\<close>

text \<open>
  The trust boundary: after \<^verbatim>\<open>Enforce\<close> the envelope of a non-deterministic node holds no
  validated claim and no demoted claim keeps a validator; the number reported is the number of
  claims that were demoted; the facts, their number and every other field of the envelope stay
  as they were, and a deterministic node's envelope is not touched at all.
\<close>

theorem enforce_no_self_validation:
  "(case Enforce deterministic env of (demoted, env') \<Rightarrow>
     (deterministic \<longrightarrow> demoted = 0 \<and> env' = env) \<and>
     (\<not> deterministic \<longrightarrow>
        \<not> HasValidated [env'] \<and>
        demoted = length (filter (\<lambda>c. claim_TrustClass c = ClaimTrustValidated) (env_Claims env)) \<and>
        (\<forall>i < length (env_Claims env).
           claim_TrustClass (env_Claims env ! i) = ClaimTrustValidated \<longrightarrow>
           claim_ValidatedBy (env_Claims env' ! i) = [])) \<and>
     map fact_of (env_Claims env') = map fact_of (env_Claims env) \<and>
     env'\<lparr>env_Claims := []\<rparr> = env\<lparr>env_Claims := []\<rparr>)"
proof (cases deterministic)
  case True
  then show ?thesis by (simp add: Enforce_def)
next
  case False
  have "snd (Enforce deterministic env) = enforce.decide_envelope env"
    using False by (rule Enforce_eq)
  moreover have "\<not> HasValidated [enforce.decide_envelope env]"
    by (auto simp: HasValidated_iff enforce.decide_envelope_def demote_def)
  moreover have "\<forall>i < length (env_Claims env). claim_TrustClass (env_Claims env ! i) = ClaimTrustValidated \<longrightarrow>
      claim_ValidatedBy (env_Claims (enforce.decide_envelope env) ! i) = []"
    by (simp add: enforce.decide_envelope_def demote_def)
  moreover have "fst (Enforce deterministic env) =
      length (filter (\<lambda>c. claim_TrustClass c = ClaimTrustValidated) (env_Claims env))"
    using False by (simp add: Enforce_def)
  ultimately show ?thesis
    using False enforce.envelope_facts [of env] enforce.envelope_rest [of "[]" env]
    by (auto split: prod.splits)
qed

theorem enforce_no_self_validation_witness:
  "claim_TrustClass (env_Claims (snd (Enforce False
     (NodeResultEnvelope0\<lparr>env_Claims := [\<lparr>claim_Type = ''wiki.page.updated'', claim_Binding = ''wiki'',
        claim_ExternalID = ''p'', claim_URL = [], claim_TrustClass = ''validated'',
        claim_ValidatedBy = ''self''\<rparr>]\<rparr>))) ! 0) = ''observed''"
proof -
  let ?env = "NodeResultEnvelope0\<lparr>env_Claims := [\<lparr>claim_Type = ''wiki.page.updated'', claim_Binding = ''wiki'',
        claim_ExternalID = ''p'', claim_URL = [], claim_TrustClass = ''validated'',
        claim_ValidatedBy = ''self''\<rparr>]\<rparr>"
  have "\<not> HasValidated [snd (Enforce False ?env)]"
    using enforce_no_self_validation [of False ?env] by (simp split: prod.splits)
  then show ?thesis by (simp add: Enforce_def HasValidated_def demote_def NodeResultEnvelope0_def)
qed

text \<open>
  Promotion: an envelope's claim is validated after \<^verbatim>\<open>Promote\<close> exactly when it was validated
  before or was an observed claim inside the validator's scope; each promoted claim names the
  validator, no claim is added, dropped or changed in what it asserts, every other field of
  every envelope stays, and the list returned names exactly the promoted claims.
\<close>

theorem promote_exact:
  assumes "\<not> scope_IsEmpty scope"
  shows "(\<forall>n. map_of (fst (Promote envs v scope)) n =
           map_option (\<lambda>env. env\<lparr>env_Claims := map (promote_claim v scope) (env_Claims env)\<rparr>) (map_of envs n)) \<and>
    (\<forall>c. fact_of (promote_claim v scope c) = fact_of c \<and>
       (claim_TrustClass (promote_claim v scope c) = ClaimTrustValidated \<longleftrightarrow>
          claim_TrustClass c = ClaimTrustValidated \<or>
          (claim_TrustClass c = ClaimTrustObserved \<and>
           (scope_Bindings scope = [] \<or> claim_Binding c \<in> set (scope_Bindings scope)) \<and>
           list_ex (\<lambda>pat. glob pat (claim_Type c)) (scope_ClaimTypes scope))) \<and>
       (promote_claim v scope c = c \<or> claim_ValidatedBy (promote_claim v scope c) = v)) \<and>
    (\<forall>p. p \<in> set (snd (Promote envs v scope)) \<longleftrightarrow>
       (\<exists>nd env j. (nd, env) \<in> set envs \<and> j < length (env_Claims env) \<and>
          promotable scope (env_Claims env ! j) \<and>
          p = \<lparr>promo_FromNodeID = nd, promo_ClaimIndex = j,
               promo_Claim = promote_claim v scope (env_Claims env ! j), promo_ValidatedBy = v\<rparr>))"
proof (intro conjI allI)
  fix n
  show "map_of (fst (Promote envs v scope)) n =
      map_option (\<lambda>env. env\<lparr>env_Claims := map (promote_claim v scope) (env_Claims env)\<rparr>) (map_of envs n)"
    using assms by (simp add: map_of_Promote promote.decide_envelope_def)
next
  fix c
  show "fact_of (promote_claim v scope c) = fact_of c" by (rule promote.keeps_fact)
  show "claim_TrustClass (promote_claim v scope c) = ClaimTrustValidated \<longleftrightarrow>
      claim_TrustClass c = ClaimTrustValidated \<or>
      (claim_TrustClass c = ClaimTrustObserved \<and>
       (scope_Bindings scope = [] \<or> claim_Binding c \<in> set (scope_Bindings scope)) \<and>
       list_ex (\<lambda>pat. glob pat (claim_Type c)) (scope_ClaimTypes scope))"
    by (simp add: trust_promote_claim promotable_def scope_matches_iff list_ex_iff)
  show "promote_claim v scope c = c \<or> claim_ValidatedBy (promote_claim v scope c) = v"
    by (simp add: promote_claim_def)
next
  fix p
  show "p \<in> set (snd (Promote envs v scope)) \<longleftrightarrow>
      (\<exists>nd env j. (nd, env) \<in> set envs \<and> j < length (env_Claims env) \<and>
         promotable scope (env_Claims env ! j) \<and>
         p = \<lparr>promo_FromNodeID = nd, promo_ClaimIndex = j,
              promo_Claim = promote_claim v scope (env_Claims env ! j), promo_ValidatedBy = v\<rparr>)"
    using assms by (fastforce simp: Promote_def set_promote_claims)
qed

definition example_scope :: ValidationScope where
  "example_scope = \<lparr>scope_ClaimTypes = [''wiki.*''], scope_Bindings = []\<rparr>"

theorem promote_exact_witness:
  "\<not> scope_IsEmpty example_scope \<and>
   map_of (fst (Promote [(''agent'', NodeResultEnvelope0)] ''gate'' example_scope)) ''agent'' =
     Some NodeResultEnvelope0"
proof -
  have h: "\<not> scope_IsEmpty example_scope" by (simp add: example_scope_def scope_IsEmpty_def)
  have "map_of (fst (Promote [(''agent'', NodeResultEnvelope0)] ''gate'' example_scope)) ''agent'' =
      map_option (\<lambda>env. env\<lparr>env_Claims := map (promote_claim ''gate'' example_scope) (env_Claims env)\<rparr>)
        (map_of [(''agent'', NodeResultEnvelope0)] ''agent'')"
    using promote_exact [OF h, of "[(''agent'', NodeResultEnvelope0)]" "''gate''"] by blast
  then show ?thesis using h by (simp add: NodeResultEnvelope0_def)
qed

text \<open>
  Promotion is idempotent (promoting again with the same scope changes nothing and reports
  nothing) and, although Go iterates the envelope map in an unspecified order, the resulting
  envelopes do not depend on that order; a run holds a validated claim after the promotion
  exactly when it did before or something was promoted.
\<close>

theorem promote_idempotent_deterministic:
  assumes "wf_map envs" and "wf_map envs'" and "set envs' = set envs"
  shows "Promote (fst (Promote envs v scope)) w scope = (fst (Promote envs v scope), []) \<and>
    map_of (fst (Promote envs' v scope)) = map_of (fst (Promote envs v scope)) \<and>
    set (snd (Promote envs' v scope)) = set (snd (Promote envs v scope)) \<and>
    (HasValidated (map snd (fst (Promote envs v scope))) \<longleftrightarrow>
       HasValidated (map snd envs) \<or> snd (Promote envs v scope) \<noteq> [])"
proof (cases "scope_IsEmpty scope")
  case True
  then show ?thesis using map_of_permute [OF assms(1) assms(3) assms(2)] by simp
next
  case False
  have "map_of (fst (Promote envs' v scope)) = map_of (fst (Promote envs v scope))"
    using map_of_permute [OF assms(1) assms(3) assms(2)] by (simp add: map_of_Promote fun_eq_iff)
  moreover have "set (snd (Promote envs' v scope)) = set (snd (Promote envs v scope))"
    using False assms(3) by (simp add: Promote_def)
  moreover have "promote_claims v' scope n i (map (promote_claim v scope) cs) = []" for v' n i cs
    by (simp add: promote_claims_Nil_iff)
  then have "Promote (fst (Promote envs v scope)) w scope = (fst (Promote envs v scope), [])"
    using False promotable_promoted [of scope v]
    by (auto simp: Promote_def comp_def case_prod_beta promote_claim_def)
  moreover have "HasValidated (map snd (fst (Promote envs v scope))) \<longleftrightarrow>
      HasValidated (map snd envs) \<or> snd (Promote envs v scope) \<noteq> []"
  proof -
    have "snd (Promote envs v scope) \<noteq> [] \<longleftrightarrow>
        (\<exists>(n, env) \<in> set envs. \<exists>c \<in> set (env_Claims env). promotable scope c)"
      using False by (simp add: Promote_def promote_claims_Nil_iff case_prod_beta)
    moreover have "HasValidated (map snd (fst (Promote envs v scope))) \<longleftrightarrow>
        (\<exists>x \<in> set envs. \<exists>c \<in> set (env_Claims (snd x)).
           claim_TrustClass c = ClaimTrustValidated \<or> promotable scope c)"
      using False by (simp add: HasValidated_iff Promote_def case_prod_beta trust_promote_claim)
    ultimately show ?thesis by (auto simp: HasValidated_iff case_prod_beta)
  qed
  ultimately show ?thesis by blast
qed

theorem promote_idempotent_deterministic_witness:
  "map_of (fst (Promote [(''b'', NodeResultEnvelope0), (''a'', NodeResultEnvelope0)] ''g'' example_scope)) =
   map_of (fst (Promote [(''a'', NodeResultEnvelope0), (''b'', NodeResultEnvelope0)] ''g'' example_scope))"
proof -
  have "wf_map [(''a'', NodeResultEnvelope0), (''b'', NodeResultEnvelope0)]"
    "wf_map [(''b'', NodeResultEnvelope0), (''a'', NodeResultEnvelope0)]"
    "set [(''b'', NodeResultEnvelope0), (''a'', NodeResultEnvelope0)] =
     set [(''a'', NodeResultEnvelope0), (''b'', NodeResultEnvelope0)]"
    by (auto simp: wf_map_def)
  from promote_idempotent_deterministic [OF this, of "''g''" example_scope "''g''"] show ?thesis by blast
qed

end
