(* ===== verification/Graph_Node.thy ===== *)
theory Graph_Node
  imports Api_Types Claim_Trust
begin

text \<open>
  Node execution below the graph walk (\<^verbatim>\<open>internal/graph/node.go\<close>, \<^verbatim>\<open>config.go\<close> and the executors
  \<^verbatim>\<open>plugin\<close>, \<^verbatim>\<open>gate\<close>, \<^verbatim>\<open>branch\<close>, \<^verbatim>\<open>agent\<close>, \<^verbatim>\<open>dapr-*\<close>, with the parts of \<^verbatim>\<open>internal/worker/plugin.go\<close>
  they call). What lies outside the repository (the operating system, the Dapr sidecar, the agent
  process, Go's text/template and JSON packages) is the parameter \<open>'w runtime\<close>: operations on
  an arbitrary world \<open>'w\<close>. A call returns its result, its error text (\<^const>\<open>None\<close> for a nil error)
  and the new world. Tracing spans are not modelled.
\<close>

section \<open>Statuses, outputs, results (node.go)\<close>

abbreviation (input) StatusGreen :: string where "StatusGreen \<equiv> ''green''"
abbreviation (input) StatusFailed :: string where "StatusFailed \<equiv> ''failed''"
abbreviation (input) StatusSkipped :: string where "StatusSkipped \<equiv> ''skipped''"

abbreviation (input) ExecutionClassWorkload :: string where "ExecutionClassWorkload \<equiv> ''workload''"
abbreviation (input) ExecutionClassPureOrchestration :: string where
  "ExecutionClassPureOrchestration \<equiv> ''pure-orchestration''"

text \<open>The dynamic values (\<^verbatim>\<open>any\<close>) a node outputs.\<close>

datatype anyval = VNull | VBool bool | VStr string | VInt int
  | VMap "(string \<times> anyval) list" | VList "anyval list"

type_synonym NodeOutputs = "(string, anyval) gomap"

record NodeEnv =
  ne_Workflow :: string
  ne_RunID :: string
  ne_Namespace :: string
  ne_Workdir :: string
  ne_Source :: string
  ne_SourceURL :: string
  ne_SourceBranch :: string
  ne_SourceLanguage :: string
  ne_WorkspaceDir :: string
  ne_Shadow :: string
  ne_State :: string
  ne_ExtraEnv :: "string list"
  ne_Inputs :: "(string, NodeOutputs) gomap"

record NodeResult =
  nr_Status :: string
  nr_Outputs :: NodeOutputs
  nr_Feedback :: string
  nr_Envelope :: "NodeResultEnvelope option"
  nr_Transient :: bool
  nr_Attempt :: int

definition NodeResult0 :: NodeResult where
  "NodeResult0 = \<lparr>nr_Status = [], nr_Outputs = [], nr_Feedback = [], nr_Envelope = None,
     nr_Transient = False, nr_Attempt = 0\<rparr>"

definition failed_result :: "string \<Rightarrow> NodeResult" where
  "failed_result feedback = NodeResult0\<lparr>nr_Status := StatusFailed, nr_Feedback := feedback\<rparr>"

section \<open>The runtime the executors call\<close>

text \<open>A context is its deadline, if any; cancellation of the run is a fact of the world.\<close>

type_synonym ctx = "instant option"

record cmd_error =
  ce_ExitCode :: "int option"  \<comment> \<open>Some for an ExitError\<close>
  ce_Text :: string

record Usage =
  us_Input :: int
  us_Output :: int
  us_CacheRead :: int
  us_CacheWrite :: int
  us_Cost :: string  \<comment> \<open>the decimal rendering of the float\<close>

text \<open>\<^verbatim>\<open>Usage.Total\<close> and \<^verbatim>\<open>Usage.String\<close>; the cost is kept as its \<^verbatim>\<open>%.4f\<close> rendering.\<close>

definition Usage_Total :: "Usage \<Rightarrow> int" where
  "Usage_Total u = us_Input u + us_Output u + us_CacheRead u + us_CacheWrite u"

definition Usage_String :: "Usage \<Rightarrow> string" where
  "Usage_String u = show_int (us_Input u) @ '' in / '' @ show_int (us_Output u) @ '' out / '' @
     show_int (us_CacheRead u + us_CacheWrite u) @ '' cache / $'' @ us_Cost u"

record SessionMeta =
  sm_Workflow :: string
  sm_RunID :: string
  sm_Model :: string
  sm_Skill :: string

record AgentResult =
  ar_Green :: bool
  ar_Attempts :: int
  ar_Usage :: Usage
  ar_Turns :: int
  ar_SessionJSON :: string

record PluginResult =
  pr_Artifact :: string
  pr_Changed :: "bool option"
  pr_Event :: "(string, anyval) gomap"
  pr_Status :: string

record PluginEnv =
  pe_Workflow :: string
  pe_Namespace :: string
  pe_Phase :: string
  pe_Spec :: string
  pe_Source :: string
  pe_Workdir :: string
  pe_State :: string
  pe_SourceURL :: string
  pe_SourceBranch :: string
  pe_SourceLanguage :: string
  pe_WorkspaceDir :: string
  pe_Shadow :: string

record GatePlugin =
  gp_Command :: string
  gp_Args :: "string list"
  gp_Env :: PluginEnv
  gp_ExtraEnv :: "string list"
  gp_Name :: string
  gp_Timeout :: string

record 'w runtime =
  rt_now :: "'w \<Rightarrow> instant"
  rt_cancelled :: "'w \<Rightarrow> bool"
  rt_wait :: "ctx \<Rightarrow> duration \<Rightarrow> 'w \<Rightarrow> bool \<times> 'w"  \<comment> \<open>True: the context was done first\<close>
  rt_command :: "ctx \<Rightarrow> string \<Rightarrow> string list \<Rightarrow> string \<Rightarrow> string list \<Rightarrow> 'w \<Rightarrow> (string \<times> cmd_error option) \<times> 'w"
  rt_template :: "string \<Rightarrow> (string, NodeOutputs) gomap \<Rightarrow> string option"
  rt_getenv :: "string \<Rightarrow> string"
  rt_resolve :: "PluginRef \<Rightarrow> string \<Rightarrow> string + (string \<times> string list)"
  rt_task :: "string \<Rightarrow> string + string"
  rt_agent :: "ctx \<Rightarrow> string \<Rightarrow> GatePlugin option \<Rightarrow> int \<Rightarrow> SessionMeta \<Rightarrow> 'w \<Rightarrow> (string + AgentResult) \<times> 'w"
  rt_getState :: "string \<Rightarrow> string \<Rightarrow> 'w \<Rightarrow> (string + string) \<times> 'w"
  rt_saveState :: "string \<Rightarrow> string \<Rightarrow> string \<Rightarrow> 'w \<Rightarrow> string option \<times> 'w"
  rt_publish :: "string \<Rightarrow> string \<Rightarrow> string \<Rightarrow> 'w \<Rightarrow> string option \<times> 'w"
  rt_decodeResult :: "string \<Rightarrow> PluginResult option"
  rt_encode :: "anyval \<Rightarrow> string"
  rt_encodeResult :: "PluginResult \<Rightarrow> string option"  \<comment> \<open>None: the marshalling error\<close>
  rt_emit :: "string \<Rightarrow> string \<Rightarrow> (string \<times> anyval) list \<Rightarrow> 'w \<Rightarrow> 'w"  \<comment> \<open>timeline writer, errors only logged\<close>

text \<open>
  \<^verbatim>\<open>Dependencies\<close>: which of the optional collaborators are wired (a nil interface is \<^const>\<open>False\<close>).
\<close>

record Dependencies =
  deps_PluginResolver :: bool
  deps_TaskResolver :: bool
  deps_DaprClient :: bool
  deps_StateStore :: string
  deps_KubeClient :: bool
  deps_SessionMeta :: SessionMeta
  deps_Timeline :: bool

definition ctx_err :: "'w runtime \<Rightarrow> ctx \<Rightarrow> 'w \<Rightarrow> string option" where
  "ctx_err rt c w =
     (if rt_cancelled rt w then Some ''context canceled''
      else (case c of None \<Rightarrow> None
            | Some d \<Rightarrow> if d \<le> rt_now rt w then Some ''context deadline exceeded'' else None))"

definition WithTimeout :: "'w runtime \<Rightarrow> ctx \<Rightarrow> duration \<Rightarrow> 'w \<Rightarrow> ctx" where
  "WithTimeout rt c d w =
     (let t = rt_now rt w + d in Some (case c of None \<Rightarrow> t | Some t0 \<Rightarrow> min t0 t))"

text \<open>The idiom that bounds a context by an optional duration string; an invalid one is ignored.\<close>

definition bounded_ctx :: "'w runtime \<Rightarrow> ctx \<Rightarrow> string \<Rightarrow> 'w \<Rightarrow> ctx" where
  "bounded_ctx rt c timeout w =
     (if timeout = [] then c
      else (case positive_duration timeout of None \<Rightarrow> c | Some d \<Rightarrow> WithTimeout rt c d w))"

section \<open>Registry (node.go)\<close>

type_synonym 'w execute_fn = "ctx \<Rightarrow> NodeSpec \<Rightarrow> NodeEnv \<Rightarrow> 'w \<Rightarrow> (NodeResult \<times> string option) \<times> 'w"

record 'w NodeExecutor =
  nx_Type :: string
  nx_Deterministic :: bool
  nx_ExecutionClass :: string
  nx_Execute :: "'w execute_fn"

type_synonym 'w Registry = "(string, 'w NodeExecutor) gomap"

definition Register :: "'w NodeExecutor \<Rightarrow> 'w Registry \<Rightarrow> 'w Registry" where
  "Register x r = map_set (nx_Type x) x r"

definition Types :: "'w Registry \<Rightarrow> string list" where
  "Types r = sort (map_keys r)"

definition Has :: "'w Registry \<Rightarrow> string \<Rightarrow> bool" where
  "Has r t \<longleftrightarrow> map_of r t \<noteq> None"

text \<open>The verb \<^verbatim>\<open>%s\<close> renders a slice in brackets, its elements separated by blanks.\<close>

definition Get :: "'w Registry \<Rightarrow> string \<Rightarrow> string + 'w NodeExecutor" where
  "Get r t =
     (case map_of r t of
        None \<Rightarrow> Inl (''graph: no executor registered for node type '' @ quoted t @
                  '' (registered: ['' @ Join (Types r) '' '' @ ''])'')
      | Some x \<Rightarrow> Inr x)"

section \<open>Node configurations (config.go)\<close>

record PluginNodeConfig =
  pc_Name :: string
  pc_Args :: "string list"
  pc_ConfigMap :: string
  pc_Timeout :: string
  pc_Config :: string

definition ToPluginRef :: "PluginNodeConfig \<Rightarrow> PluginRef" where
  "ToPluginRef c = \<lparr>plug_Name = pc_Name c, plug_Image = [], plug_ConfigMap = pc_ConfigMap c,
     plug_Args = pc_Args c, plug_Timeout = []\<rparr>"

record GateNodeConfig =
  gc_Plugin :: PluginNodeConfig
  gc_Validates :: "ValidationScope list"

record AgentNodeConfig =
  ac_Model :: string
  ac_Skill :: string
  ac_Task :: string
  ac_Tools :: "string list"
  ac_Gate :: "GateNodeConfig option"
  ac_MaxFixes :: int
  ac_Scope :: string

record BranchNodeConfig =
  bc_Condition :: string

record DaprStateGetConfig =
  sg_Store :: string
  sg_Key :: string

record DaprStateSetConfig =
  ss_Store :: string
  ss_Key :: string
  ss_Value :: string

record DaprPublishConfig =
  dp_Pubsub :: string
  dp_Topic :: string
  dp_Payload :: string

text \<open>
  The JSON codec: one decoder per configuration type (\<^const>\<open>Inl\<close> is the error text of
  \<^verbatim>\<open>json.Unmarshal\<close>), one encoder per type that the compiler marshals.
\<close>

record codec =
  dec_plugin :: "string \<Rightarrow> string + PluginNodeConfig"
  dec_gate :: "string \<Rightarrow> string + GateNodeConfig"
  dec_agent :: "string \<Rightarrow> string + AgentNodeConfig"
  dec_branch :: "string \<Rightarrow> string + BranchNodeConfig"
  dec_get :: "string \<Rightarrow> string + DaprStateGetConfig"
  dec_set :: "string \<Rightarrow> string + DaprStateSetConfig"
  dec_pub :: "string \<Rightarrow> string + DaprPublishConfig"
  enc_plugin :: "PluginNodeConfig \<Rightarrow> string"
  enc_agent :: "AgentNodeConfig \<Rightarrow> string"

definition PluginNodeConfig0 :: PluginNodeConfig where
  "PluginNodeConfig0 = \<lparr>pc_Name = [], pc_Args = [], pc_ConfigMap = [], pc_Timeout = [], pc_Config = []\<rparr>"

definition GateNodeConfig0 :: GateNodeConfig where
  "GateNodeConfig0 = \<lparr>gc_Plugin = PluginNodeConfig0, gc_Validates = []\<rparr>"

definition AgentNodeConfig0 :: AgentNodeConfig where
  "AgentNodeConfig0 = \<lparr>ac_Model = [], ac_Skill = [], ac_Task = [], ac_Tools = [], ac_Gate = None,
     ac_MaxFixes = 0, ac_Scope = []\<rparr>"

definition parseConfig :: "(string \<Rightarrow> string + 'c) \<Rightarrow> 'c \<Rightarrow> string \<Rightarrow> string + 'c" where
  "parseConfig dec zero raw =
     (if raw = [] then Inr zero
      else (case dec raw of Inl e \<Rightarrow> Inl (''parse config: '' @ e) | Inr c \<Rightarrow> Inr c))"

section \<open>Running a plugin process (worker/plugin.go)\<close>

definition EnvSlice :: "PluginEnv \<Rightarrow> string list \<Rightarrow> string list" where
  "EnvSlice e extra =
     [''HARMOSTES_WORKFLOW='' @ pe_Workflow e,
      ''HARMOSTES_NAMESPACE='' @ pe_Namespace e,
      ''HARMOSTES_PHASE='' @ pe_Phase e,
      ''HARMOSTES_SPEC='' @ pe_Spec e,
      ''HARMOSTES_SOURCE='' @ pe_Source e,
      ''HARMOSTES_WORKDIR='' @ pe_Workdir e,
      ''HARMOSTES_STATE='' @ pe_State e,
      ''HARMOSTES_SOURCE_URL='' @ pe_SourceURL e,
      ''HARMOSTES_SOURCE_BRANCH='' @ pe_SourceBranch e,
      ''HARMOSTES_SOURCE_LANGUAGE='' @ pe_SourceLanguage e,
      ''HARMOSTES_WORKSPACE_DIR='' @ pe_WorkspaceDir e,
      ''HARMOSTES_SHADOW='' @ pe_Shadow e] @ extra"

definition envToPluginEnv :: "NodeEnv \<Rightarrow> string \<Rightarrow> string \<Rightarrow> PluginEnv" where
  "envToPluginEnv env phase specJSON =
     \<lparr>pe_Workflow = ne_Workflow env, pe_Namespace = ne_Namespace env, pe_Phase = phase,
      pe_Spec = specJSON, pe_Source = ne_Source env, pe_Workdir = ne_Workdir env,
      pe_State = ne_State env, pe_SourceURL = ne_SourceURL env,
      pe_SourceBranch = ne_SourceBranch env, pe_SourceLanguage = ne_SourceLanguage env,
      pe_WorkspaceDir = ne_WorkspaceDir env, pe_Shadow = ne_Shadow env\<rparr>"

definition PluginResult0 :: PluginResult where
  "PluginResult0 = \<lparr>pr_Artifact = [], pr_Changed = None, pr_Event = [], pr_Status = []\<rparr>"

text \<open>
  The last non-blank line of the output, decoded; the zero result when it is not JSON. The
  scanner's buffer is 1 MiB: a longer line ends the scan.
\<close>

definition lastJSONLine :: "'w runtime \<Rightarrow> string \<Rightarrow> PluginResult" where
  "lastJSONLine rt combined =
     (case rev (filter (\<lambda>l. l \<noteq> [])
              (map TrimSpace (takeWhile (\<lambda>l. length l < 1048576) (split_on (CHR 0x0A) combined)))) of
        [] \<Rightarrow> PluginResult0
      | l # _ \<Rightarrow> (case rt_decodeResult rt l of None \<Rightarrow> PluginResult0 | Some res \<Rightarrow> res))"

definition RunPlugin ::
  "'w runtime \<Rightarrow> ctx \<Rightarrow> string \<Rightarrow> string list \<Rightarrow> PluginEnv \<Rightarrow> string list \<Rightarrow> 'w \<Rightarrow>
     (PluginResult \<times> string \<times> cmd_error option) \<times> 'w" where
  "RunPlugin rt c command args env extraEnv w =
     (case rt_command rt c command args (pe_Workdir env) (EnvSlice env extraEnv) w of
        ((out, err), w') \<Rightarrow> ((lastJSONLine rt out, out, err), w'))"

text \<open>\<^verbatim>\<open>GatePlugin.Run\<close>: green, the trimmed output, and the context's error when it was done.\<close>

definition GatePlugin_Run ::
  "'w runtime \<Rightarrow> GatePlugin \<Rightarrow> ctx \<Rightarrow> 'w \<Rightarrow> (bool \<times> string \<times> string option) \<times> 'w" where
  "GatePlugin_Run rt g c w =
     (let c' = bounded_ctx rt c (gp_Timeout g) w
      in case rt_command rt c' (gp_Command g) (gp_Args g) (pe_Workdir (gp_Env g))
                (EnvSlice (gp_Env g) (gp_ExtraEnv g)) w of
           ((out, err), w') \<Rightarrow>
             (case ctx_err rt c' w' of
                Some e \<Rightarrow> ((False, TrimSpace out, Some e), w')
              | None \<Rightarrow> ((err = None, TrimSpace out, None), w')))"

section \<open>Executors\<close>

subsection \<open>plugin\<close>

definition transientExitCode :: "int \<Rightarrow> bool" where
  "transientExitCode code \<longleftrightarrow> code = 75 \<or> code = 69"

text \<open>
  Redaction of HTTP basic-auth credentials, \<^verbatim>\<open>(https?://)[^\s/@:]+:[^\s/@]+@\<close> replaced by its
  first group. The user part ends at the first byte of white space, slash, at sign or colon and
  the password at the first of white space, slash or at sign, so the regular expression has one
  candidate match per position and the scan below finds it.
\<close>

definition re_space :: "char \<Rightarrow> bool" where
  "re_space c \<longleftrightarrow> c \<in> {CHR '' '', CHR 0x09, CHR 0x0A, CHR 0x0C, CHR 0x0D}"

definition user_char :: "char \<Rightarrow> bool" where
  "user_char c \<longleftrightarrow> \<not> re_space c \<and> c \<noteq> CHR ''/'' \<and> c \<noteq> CHR ''@'' \<and> c \<noteq> CHR '':''"

definition pass_char :: "char \<Rightarrow> bool" where
  "pass_char c \<longleftrightarrow> \<not> re_space c \<and> c \<noteq> CHR ''/'' \<and> c \<noteq> CHR ''@''"

text \<open>The text behind a credential pair at the head of the string, if there is one.\<close>

definition match_cred :: "string \<Rightarrow> string option" where
  "match_cred s =
     (let user = takeWhile user_char s; r = dropWhile user_char s in
      if user \<noteq> [] \<and> r \<noteq> [] \<and> hd r = CHR '':'' then
        (let pass = takeWhile pass_char (tl r); r' = dropWhile pass_char (tl r) in
         if pass \<noteq> [] \<and> r' \<noteq> [] \<and> hd r' = CHR ''@'' then Some (tl r') else None)
      else None)"

definition match_scheme :: "string \<Rightarrow> (string \<times> string) option" where
  "match_scheme s =
     (if HasPrefix s ''http://'' then Some (''http://'', drop 7 s)
      else if HasPrefix s ''https://'' then Some (''https://'', drop 8 s)
      else None)"

lemma match_cred_shorter: "match_cred s = Some r \<Longrightarrow> length r < length s"
proof -
  assume a: "match_cred s = Some r"
  let ?r = "dropWhile user_char s"
  have "length ?r \<le> length s" by (rule length_dropWhile_le)
  moreover have "length (dropWhile pass_char (tl ?r)) \<le> length (tl ?r)" by (rule length_dropWhile_le)
  moreover have "r = tl (dropWhile pass_char (tl ?r))" "dropWhile pass_char (tl ?r) \<noteq> []"
    using a by (auto simp: match_cred_def Let_def split: if_splits)
  ultimately show ?thesis by (cases "dropWhile pass_char (tl ?r)") auto
qed

lemma match_scheme_shorter: "match_scheme s = Some (p, r) \<Longrightarrow> length r \<le> length s"
  by (auto simp: match_scheme_def split: if_splits)

function Redact :: "string \<Rightarrow> string" where
  "Redact s =
     (case s of
        [] \<Rightarrow> []
      | ch # cs \<Rightarrow>
          (case match_scheme s of
             None \<Rightarrow> ch # Redact cs
           | Some (scheme, rest) \<Rightarrow>
               (case match_cred rest of
                  None \<Rightarrow> ch # Redact cs
                | Some behind \<Rightarrow> scheme @ Redact behind)))"
  by pat_completeness auto
termination
  by (relation "measure length")
     (auto dest!: match_cred_shorter match_scheme_shorter)

declare Redact.simps [simp del]

text \<open>
  The last \<open>n\<close> non-blank lines; the loop drops the oldest line whenever it holds more than \<open>n\<close>.
\<close>

definition TrimRight :: "char \<Rightarrow> string \<Rightarrow> string" where
  "TrimRight ch s = rev (dropWhile (\<lambda>c. c = ch) (rev s))"

definition tailLines :: "string \<Rightarrow> nat \<Rightarrow> string list" where
  "tailLines s n =
     fold (\<lambda>l out. if TrimSpace l = [] then out
                   else let out' = out @ [l] in if n < length out' then tl out' else out')
       (split_on (CHR 0x0A) (TrimRight (CHR 0x0A) s)) []"

text \<open>\<^verbatim>\<open>utf8.RuneStart\<close>: not a continuation byte.\<close>

definition RuneStart :: "char \<Rightarrow> bool" where
  "RuneStart c \<longleftrightarrow> (of_char c :: nat) div 64 \<noteq> 2"

fun rune_cut :: "string \<Rightarrow> nat \<Rightarrow> nat" where
  "rune_cut s 0 = 0"
| "rune_cut s (Suc n) = (if RuneStart (s ! Suc n) then Suc n else rune_cut s n)"

definition truncateForTimeline :: "string \<Rightarrow> nat \<Rightarrow> string" where
  "truncateForTimeline s n = (if length s \<le> n then s else take (rune_cut s n) s @ ellipsis)"

definition plugin_tail_payload ::
  "'w runtime \<Rightarrow> PluginNodeConfig \<Rightarrow> PluginResult \<Rightarrow> string \<Rightarrow> (string \<times> anyval) list" where
  "plugin_tail_payload rt cfg res out =
     [(''plugin'', VStr (pc_Name cfg)), (''tail'', VList (map VStr (tailLines (Redact out) 20)))] @
     (if pr_Artifact res = [] then []
      else (case rt_encodeResult rt res of
              None \<Rightarrow> []
            | Some b \<Rightarrow> [(''artifact'', VStr (truncateForTimeline (Redact b) (128 * 1024)))]))"

definition plugin_outputs :: "PluginResult \<Rightarrow> bool \<Rightarrow> NodeOutputs" where
  "plugin_outputs res changed =
     fold (\<lambda>(k, v) m. map_set k v m) (pr_Event res)
       [(''artifact'', VStr (pr_Artifact res)), (''status'', VStr (pr_Status res)),
        (''changed'', VBool changed)]"

text \<open>What the executor makes of a finished process.\<close>

definition plugin_verdict :: "PluginResult \<Rightarrow> string \<Rightarrow> cmd_error option \<Rightarrow> NodeResult" where
  "plugin_verdict res out runErr =
     (case runErr of
        Some err \<Rightarrow>
          NodeResult0\<lparr>nr_Status := StatusFailed,
            nr_Feedback := (if TrimSpace out = [] then take 512 (Redact (ce_Text err)) else out),
            nr_Transient := (case ce_ExitCode err of None \<Rightarrow> False | Some n \<Rightarrow> transientExitCode n)\<rparr>
      | None \<Rightarrow>
          if pr_Changed res = Some False
          then NodeResult0\<lparr>nr_Status := StatusSkipped, nr_Outputs := plugin_outputs res False, nr_Feedback := out\<rparr>
          else NodeResult0\<lparr>nr_Status := StatusGreen, nr_Outputs := plugin_outputs res True, nr_Feedback := out\<rparr>)"

definition PluginExecutor_Execute :: "'w runtime \<Rightarrow> codec \<Rightarrow> Dependencies \<Rightarrow> 'w execute_fn" where
  "PluginExecutor_Execute rt cd deps c node env w =
     (case parseConfig (dec_plugin cd) PluginNodeConfig0 (node_Config node) of
        Inl e \<Rightarrow> ((failed_result e, Some e), w)
      | Inr cfg \<Rightarrow>
          (case rt_resolve rt (ToPluginRef cfg) ''plugin'' of
             Inl e \<Rightarrow> ((failed_result (''resolve plugin: '' @ e), Some e), w)
           | Inr (command, args) \<Rightarrow>
               let pluginEnv = envToPluginEnv env ''plugin'' (node_Config node);
                   c' = bounded_ctx rt c (pc_Timeout cfg) w
               in case RunPlugin rt c' command args pluginEnv (ne_ExtraEnv env) w of
                    ((res, out, runErr), w') \<Rightarrow>
                      ((plugin_verdict res out runErr, None),
                       if deps_Timeline deps
                       then rt_emit rt ''plugin.tail'' (node_ID node) (plugin_tail_payload rt cfg res out) w'
                       else w')))"

subsection \<open>gate\<close>

definition GateExecutor_Execute :: "'w runtime \<Rightarrow> codec \<Rightarrow> 'w execute_fn" where
  "GateExecutor_Execute rt cd c node env w =
     (case parseConfig (dec_gate cd) GateNodeConfig0 (node_Config node) of
        Inl e \<Rightarrow> ((failed_result e, Some e), w)
      | Inr cfg \<Rightarrow>
          (case rt_resolve rt (ToPluginRef (gc_Plugin cfg)) ''gate'' of
             Inl e \<Rightarrow> ((failed_result (''resolve gate plugin: '' @ e), Some e), w)
           | Inr (command, args) \<Rightarrow>
               let gate = \<lparr>gp_Command = command, gp_Args = args,
                     gp_Env = envToPluginEnv env ''gate'' (node_Config node), gp_ExtraEnv = [],
                     gp_Name = pc_Name (gc_Plugin cfg), gp_Timeout = pc_Timeout (gc_Plugin cfg)\<rparr>
               in (case GatePlugin_Run rt gate c w of
                     ((green, feedback, gateErr), w') \<Rightarrow>
                       (case gateErr of
                          Some e \<Rightarrow> ((failed_result e, Some e), w')
                        | None \<Rightarrow>
                            ((NodeResult0\<lparr>nr_Status := (if green then StatusGreen else StatusFailed),
                                nr_Outputs := [(''green'', VBool green)], nr_Feedback := feedback\<rparr>, None), w')))))"

definition AsAgentGate :: "'w runtime \<Rightarrow> GateNodeConfig \<Rightarrow> NodeEnv \<Rightarrow> string + GatePlugin" where
  "AsAgentGate rt g env =
     (case rt_resolve rt (ToPluginRef (gc_Plugin g)) ''gate'' of
        Inl e \<Rightarrow> Inl e
      | Inr (command, args) \<Rightarrow>
          Inr \<lparr>gp_Command = command, gp_Args = args, gp_Env = envToPluginEnv env ''gate'' [],
               gp_ExtraEnv = [], gp_Name = pc_Name (gc_Plugin g), gp_Timeout = pc_Timeout (gc_Plugin g)\<rparr>)"

subsection \<open>branch\<close>

definition evaluateCondition :: "'w runtime \<Rightarrow> string \<Rightarrow> (string, NodeOutputs) gomap \<Rightarrow> bool" where
  "evaluateCondition rt condition inputs \<longleftrightarrow>
     condition \<noteq> [] \<and>
     (case rt_template rt condition inputs of
        None \<Rightarrow> False
      | Some text \<Rightarrow> EqualFold (TrimSpace text) ''true'')"

definition BranchExecutor_Execute :: "'w runtime \<Rightarrow> codec \<Rightarrow> 'w execute_fn" where
  "BranchExecutor_Execute rt cd c node env w =
     (case parseConfig (dec_branch cd) \<lparr>bc_Condition = []\<rparr> (node_Config node) of
        Inl e \<Rightarrow> ((failed_result e, Some e), w)
      | Inr cfg \<Rightarrow>
          let changed = evaluateCondition rt (bc_Condition cfg) (ne_Inputs env)
          in ((NodeResult0\<lparr>nr_Status := StatusGreen, nr_Outputs := [(''changed'', VBool changed)],
                 nr_Feedback := ''branch: changed='' @ (if changed then ''true'' else ''false'')\<rparr>, None), w))"

subsection \<open>agent\<close>

definition looksLikeRef :: "string \<Rightarrow> bool" where
  "looksLikeRef s \<longleftrightarrow>
     s \<noteq> [] \<and> \<not> list_ex (\<lambda>c. c = CHR '' '' \<or> c = CHR 0x0A \<or> c = CHR 0x09) s \<and>
     list_ex (\<lambda>c. c = CHR ''/'' \<or> c = CHR '':'') s"

abbreviation (input) blank_line :: string where "blank_line \<equiv> [CHR 0x0A, CHR 0x0A]"

definition agent_task :: "'w runtime \<Rightarrow> AgentNodeConfig \<Rightarrow> string \<Rightarrow> string" where
  "agent_task rt cfg task =
     (let t1 = (if ac_Scope cfg \<noteq> [] then task @ blank_line @ ac_Scope cfg else task);
          note = rt_getenv rt ''HARMOSTES_SESSION_NOTE'';
          t2 = (if note \<noteq> [] then t1 @ blank_line @ note else t1);
          j = rt_getenv rt ''HARMOSTES_RESEARCH_JOURNAL''
      in if j \<noteq> [] then t2 @ blank_line @ ''Prior runs of this workflow (newest first) '' @ em_dash @
              '' known outcomes; do not redo failed approaches:'' @ [CHR 0x0A] @ j
         else t2)"

definition usage_value :: "Usage \<Rightarrow> anyval" where
  "usage_value u = VMap [(''input'', VInt (us_Input u)), (''output'', VInt (us_Output u)),
     (''cacheRead'', VInt (us_CacheRead u)), (''cacheWrite'', VInt (us_CacheWrite u)),
     (''cost'', VStr (us_Cost u))]"

text \<open>The two best-effort writes to the Dapr state store behind a finished agent.\<close>

definition AgentExecutor_persist ::
  "'w runtime \<Rightarrow> Dependencies \<Rightarrow> NodeEnv \<Rightarrow> AgentResult \<Rightarrow> 'w \<Rightarrow> 'w" where
  "AgentExecutor_persist rt deps env result w =
     (let st = deps_StateStore deps;
          wired = (deps_DaprClient deps \<and> st \<noteq> []);
          runID = (if ne_RunID env = [] then ne_Workflow env else ne_RunID env);
          u = ar_Usage result;
          w1 = (if wired \<and> 0 < ar_Turns result
                then snd (rt_saveState rt st (ne_Workflow env @ '':'' @ runID @ '':session'')
                           (ar_SessionJSON result) w)
                else w)
      in if wired \<and> 0 < Usage_Total u
         then snd (rt_saveState rt st (ne_Workflow env @ '':usage:last'')
                (rt_encode rt (VMap [(''workflow'', VStr (ne_Workflow env)), (''input'', VInt (us_Input u)),
                   (''output'', VInt (us_Output u)), (''cacheRead'', VInt (us_CacheRead u)),
                   (''cost'', VStr (us_Cost u)), (''green'', VBool (ar_Green result)),
                   (''attempts'', VInt (ar_Attempts result))])) w1)
         else w1)"

text \<open>The inline gate of the configuration, \<^const>\<open>Inl\<close> its feedback and error.\<close>

definition agent_gate ::
  "'w runtime \<Rightarrow> Dependencies \<Rightarrow> NodeSpec \<Rightarrow> NodeEnv \<Rightarrow> AgentNodeConfig \<Rightarrow> (string \<times> string) + GatePlugin option" where
  "agent_gate rt deps node env cfg =
     (case ac_Gate cfg of
        None \<Rightarrow> Inr None
      | Some g \<Rightarrow>
          if \<not> deps_PluginResolver deps
          then (let e = ''agent node '' @ quoted (node_ID node) @ '' has inline gate but no plugin resolver wired''
                in Inl (e, e))
          else (case AsAgentGate rt g env of
                  Inl e \<Rightarrow> Inl (''resolve gate: '' @ e, e)
                | Inr gate \<Rightarrow> Inr (Some gate)))"

definition agent_verdict :: "'w runtime \<Rightarrow> AgentNodeConfig \<Rightarrow> AgentResult \<Rightarrow> NodeResult" where
  "agent_verdict rt cfg result =
     (let status = (if ar_Green result then StatusGreen else StatusFailed); u = ar_Usage result
      in NodeResult0\<lparr>nr_Status := status,
           nr_Outputs := [(''green'', VBool (ar_Green result)), (''attempts'', VInt (ar_Attempts result)),
             (''usage'', usage_value u), (''model'', VStr (ac_Model cfg)), (''turns'', VInt (ar_Turns result))],
           nr_Feedback := ''agent '' @ status @ '' after '' @ show_int (ar_Attempts result) @
             '' attempt(s), '' @ Usage_String u,
           nr_Envelope := Some (NodeResultEnvelope0\<lparr>env_Payload :=
             rt_encode rt (VMap [(''usage'', usage_value u), (''model'', VStr (ac_Model cfg)),
               (''turns'', VInt (ar_Turns result))])\<rparr>)\<rparr>)"

definition AgentExecutor_Execute :: "'w runtime \<Rightarrow> codec \<Rightarrow> Dependencies \<Rightarrow> 'w execute_fn" where
  "AgentExecutor_Execute rt cd deps c node env w =
     (case parseConfig (dec_agent cd) AgentNodeConfig0 (node_Config node) of
        Inl e \<Rightarrow> ((failed_result e, Some e), w)
      | Inr cfg \<Rightarrow>
          (case (if deps_TaskResolver deps \<and> looksLikeRef (ac_Task cfg) then rt_task rt (ac_Task cfg)
                 else Inr (ac_Task cfg)) of
             Inl e \<Rightarrow> ((failed_result (''resolve task: '' @ e), Some e), w)
           | Inr task0 \<Rightarrow>
               (case agent_gate rt deps node env cfg of
                  Inl (feedback, e) \<Rightarrow> ((failed_result feedback, Some e), w)
                | Inr gate \<Rightarrow>
                    let maxFixes = (if ac_MaxFixes cfg < 1 then 1 else ac_MaxFixes cfg);
                        meta0 = deps_SessionMeta deps;
                        meta = meta0\<lparr>sm_Workflow := (if sm_Workflow meta0 = [] then ne_Workflow env
                                                    else sm_Workflow meta0),
                                     sm_RunID := ne_RunID env\<rparr>
                    in (case rt_agent rt c (agent_task rt cfg task0) gate maxFixes meta w of
                          (Inl e, w') \<Rightarrow> ((failed_result e, Some e), w')
                        | (Inr result, w') \<Rightarrow>
                            ((agent_verdict rt cfg result, None), AgentExecutor_persist rt deps env result w')))))"

subsection \<open>dapr-state-get, dapr-state-set, dapr-publish\<close>

definition resolveTemplate :: "'w runtime \<Rightarrow> string \<Rightarrow> (string, NodeOutputs) gomap \<Rightarrow> string" where
  "resolveTemplate rt tmpl inputs =
     (if \<not> Contains tmpl ''{{'' then tmpl
      else (case rt_template rt tmpl inputs of None \<Rightarrow> tmpl | Some text \<Rightarrow> text))"

definition errNoDaprClient :: "NodeResult \<times> string option" where
  "errNoDaprClient =
     (let e = ''dapr node executed without a Dapr client '' @ em_dash @ '' wire dapr.Client in Dependencies''
      in (failed_result e, Some e))"

definition StateGetExecutor_Execute :: "'w runtime \<Rightarrow> codec \<Rightarrow> bool \<Rightarrow> 'w execute_fn" where
  "StateGetExecutor_Execute rt cd wired c node env w =
     (if \<not> wired then (errNoDaprClient, w)
      else (case parseConfig (dec_get cd) \<lparr>sg_Store = [], sg_Key = []\<rparr> (node_Config node) of
              Inl e \<Rightarrow> ((failed_result e, Some e), w)
            | Inr cfg \<Rightarrow>
                (case rt_getState rt (sg_Store cfg) (resolveTemplate rt (sg_Key cfg) (ne_Inputs env)) w of
                   (Inl e, w') \<Rightarrow> ((failed_result (''dapr get-state: '' @ e), Some e), w')
                 | (Inr value, w') \<Rightarrow>
                     ((NodeResult0\<lparr>nr_Status := StatusGreen, nr_Outputs := [(''value'', VStr value)]\<rparr>, None), w'))))"

definition StateSetExecutor_Execute :: "'w runtime \<Rightarrow> codec \<Rightarrow> bool \<Rightarrow> 'w execute_fn" where
  "StateSetExecutor_Execute rt cd wired c node env w =
     (if \<not> wired then (errNoDaprClient, w)
      else (case parseConfig (dec_set cd) \<lparr>ss_Store = [], ss_Key = [], ss_Value = []\<rparr> (node_Config node) of
              Inl e \<Rightarrow> ((failed_result e, Some e), w)
            | Inr cfg \<Rightarrow>
                let key = resolveTemplate rt (ss_Key cfg) (ne_Inputs env);
                    value = resolveTemplate rt (ss_Value cfg) (ne_Inputs env)
                in (case rt_saveState rt (ss_Store cfg) key value w of
                      (Some e, w') \<Rightarrow> ((failed_result (''dapr save-state: '' @ e), Some e), w')
                    | (None, w') \<Rightarrow>
                        ((NodeResult0\<lparr>nr_Status := StatusGreen, nr_Outputs := [(''key'', VStr key)]\<rparr>, None), w'))))"

definition PublishExecutor_Execute :: "'w runtime \<Rightarrow> codec \<Rightarrow> bool \<Rightarrow> 'w execute_fn" where
  "PublishExecutor_Execute rt cd wired c node env w =
     (if \<not> wired then (errNoDaprClient, w)
      else (case parseConfig (dec_pub cd) \<lparr>dp_Pubsub = [], dp_Topic = [], dp_Payload = []\<rparr> (node_Config node) of
              Inl e \<Rightarrow> ((failed_result e, Some e), w)
            | Inr cfg \<Rightarrow>
                (case rt_publish rt (dp_Pubsub cfg) (dp_Topic cfg)
                        (resolveTemplate rt (dp_Payload cfg) (ne_Inputs env)) w of
                   (Some e, w') \<Rightarrow> ((failed_result (''dapr publish: '' @ e), Some e), w')
                 | (None, w') \<Rightarrow>
                     ((NodeResult0\<lparr>nr_Status := StatusGreen, nr_Outputs := [(''topic'', VStr (dp_Topic cfg))]\<rparr>, None), w'))))"

lemmas [model_defs] = NodeResult0_def failed_result_def Usage_Total_def Usage_String_def ctx_err_def
  WithTimeout_def bounded_ctx_def Register_def Types_def Has_def Get_def ToPluginRef_def PluginNodeConfig0_def
  GateNodeConfig0_def AgentNodeConfig0_def parseConfig_def EnvSlice_def envToPluginEnv_def
  PluginResult0_def lastJSONLine_def RunPlugin_def GatePlugin_Run_def transientExitCode_def
  re_space_def user_char_def pass_char_def match_cred_def match_scheme_def
  TrimRight_def tailLines_def RuneStart_def truncateForTimeline_def plugin_tail_payload_def
  plugin_outputs_def plugin_verdict_def PluginExecutor_Execute_def GateExecutor_Execute_def
  AsAgentGate_def evaluateCondition_def BranchExecutor_Execute_def looksLikeRef_def agent_task_def
  usage_value_def AgentExecutor_persist_def agent_gate_def agent_verdict_def AgentExecutor_Execute_def
  resolveTemplate_def errNoDaprClient_def StateGetExecutor_Execute_def StateSetExecutor_Execute_def
  PublishExecutor_Execute_def

section \<open>A concrete runtime\<close>

text \<open>
  An instance of the parameters, on which the executors compute: the world is the clock, a
  command runs for one second and fails with the exit code its first argument stands for.
\<close>

definition sample_runtime :: "instant runtime" where
  "sample_runtime =
     \<lparr>rt_now = (\<lambda>w. w), rt_cancelled = (\<lambda>w. False), rt_wait = (\<lambda>c d w. (False, w + d)),
      rt_command = (\<lambda>c cmd args dir envs w.
        (if args = [''tempfail''] then (''busy'', Some \<lparr>ce_ExitCode = Some 75, ce_Text = ''exit status 75''\<rparr>)
         else if args = [''fail''] then (''broken'', Some \<lparr>ce_ExitCode = Some 1, ce_Text = ''exit status 1''\<rparr>)
         else (''done'', None), w + 1000000000)),
      rt_template = (\<lambda>t ins. Some ''true''), rt_getenv = (\<lambda>k. []),
      rt_resolve = (\<lambda>ref phase. Inr (plug_Name ref, plug_Args ref)),
      rt_task = (\<lambda>t. Inr t),
      rt_agent = (\<lambda>c t g m meta w. (Inr \<lparr>ar_Green = True, ar_Attempts = 1,
        ar_Usage = \<lparr>us_Input = 0, us_Output = 0, us_CacheRead = 0, us_CacheWrite = 0, us_Cost = ''0.0000''\<rparr>,
        ar_Turns = 1, ar_SessionJSON = []\<rparr>, w + 1000000000)),
      rt_getState = (\<lambda>st k w. (Inr [], w)), rt_saveState = (\<lambda>st k v w. (None, w)),
      rt_publish = (\<lambda>ps t b w. (None, w)), rt_decodeResult = (\<lambda>l. None),
      rt_encode = (\<lambda>v. []), rt_encodeResult = (\<lambda>r. Some []), rt_emit = (\<lambda>k n p w. w)\<rparr>"

text \<open>In this codec a configuration is the plugin's one argument.\<close>

definition sample_codec :: codec where
  "sample_codec =
     \<lparr>dec_plugin = (\<lambda>s. Inr (PluginNodeConfig0\<lparr>pc_Args := [s]\<rparr>)),
      dec_gate = (\<lambda>s. Inr (GateNodeConfig0\<lparr>gc_Plugin := PluginNodeConfig0\<lparr>pc_Args := [s]\<rparr>\<rparr>)),
      dec_agent = (\<lambda>s. Inr (AgentNodeConfig0\<lparr>ac_Task := s\<rparr>)),
      dec_branch = (\<lambda>s. Inr \<lparr>bc_Condition = s\<rparr>), dec_get = (\<lambda>s. Inl s), dec_set = (\<lambda>s. Inl s),
      dec_pub = (\<lambda>s. Inl s), enc_plugin = (\<lambda>c. concat (pc_Args c)), enc_agent = ac_Task\<rparr>"

definition sample_deps :: Dependencies where
  "sample_deps = \<lparr>deps_PluginResolver = True, deps_TaskResolver = True, deps_DaprClient = True,
     deps_StateStore = ''harmostes-state'', deps_KubeClient = False,
     deps_SessionMeta = \<lparr>sm_Workflow = [], sm_RunID = [], sm_Model = [], sm_Skill = []\<rparr>, deps_Timeline = True\<rparr>"

definition NodeEnv0 :: NodeEnv where
  "NodeEnv0 = \<lparr>ne_Workflow = [], ne_RunID = [], ne_Namespace = [], ne_Workdir = [], ne_Source = [],
     ne_SourceURL = [], ne_SourceBranch = [], ne_SourceLanguage = [], ne_WorkspaceDir = [],
     ne_Shadow = [], ne_State = [], ne_ExtraEnv = [], ne_Inputs = []\<rparr>"

lemmas sample_defs = sample_runtime_def sample_codec_def sample_deps_def NodeEnv0_def

section \<open>Lemmas\<close>

lemma plugin_verdict_transient:
  "nr_Transient (plugin_verdict res out err) \<longleftrightarrow>
     (\<exists>ce. err = Some ce \<and> (ce_ExitCode ce = Some 75 \<or> ce_ExitCode ce = Some 69))"
  by (auto simp: plugin_verdict_def NodeResult0_def transientExitCode_def split: option.splits)

lemma plugin_verdict_status:
  "nr_Status (plugin_verdict res out err) =
     (if err \<noteq> None then StatusFailed else if pr_Changed res = Some False then StatusSkipped else StatusGreen)"
  by (auto simp: plugin_verdict_def NodeResult0_def split: option.splits)

lemma fold_tail:
  assumes "length acc \<le> n"
  shows "fold (\<lambda>l out. if P l then out
           else let out' = out @ [l] in if n < length out' then tl out' else out') ls acc =
         drop (length (acc @ filter (\<lambda>l. \<not> P l) ls) - n) (acc @ filter (\<lambda>l. \<not> P l) ls)"
  using assms
proof (induction ls arbitrary: acc)
  case Nil
  then show ?case by simp
next
  case (Cons l ls)
  show ?case
  proof (cases "P l \<or> length acc < n")
    case True
    then show ?thesis
    proof (cases "P l")
      case False
      then show ?thesis using True Cons.IH [of "acc @ [l]"] by (simp add: Let_def del: drop_append)
    qed (use Cons in simp)
  next
    case False
    then have full: "length acc = n" and "\<not> P l" using Cons.prems by auto
    have "length (tl (acc @ [l])) \<le> n" using full by simp
    from Cons.IH [OF this] full \<open>\<not> P l\<close> show ?thesis
      by (cases acc) (auto simp: Let_def)
  qed
qed

lemma tailLines_eq:
  "tailLines s n =
     (let ls = filter (\<lambda>l. TrimSpace l \<noteq> []) (split_on (CHR 0x0A) (TrimRight (CHR 0x0A) s))
      in drop (length ls - n) ls)"
  unfolding tailLines_def by (subst fold_tail) (simp_all add: Let_def)

lemma rune_cut_le: "rune_cut s n \<le> n"
  by (induction n) auto

lemma rune_cut_boundary: "rune_cut s n = 0 \<or> RuneStart (s ! rune_cut s n)"
  by (induction n) auto

lemma match_scheme_Nil [simp]: "match_scheme [] = None"
  by (simp add: match_scheme_def HasPrefix_def)

lemma Redact_Nil [simp]: "Redact [] = []"
  by (simp add: Redact.simps)

lemma Redact_credential:
  assumes "match_scheme s = Some (scheme, rest)" and "match_cred rest = Some behind"
  shows "Redact s = scheme @ Redact behind"
proof -
  obtain ch cs where "s = ch # cs" using assms(1) by (cases s) auto
  then show ?thesis using assms by (subst Redact.simps) simp
qed

lemma Redact_plain:
  assumes "\<And>scheme rest. match_scheme (ch # cs) = Some (scheme, rest) \<Longrightarrow> match_cred rest = None"
  shows "Redact (ch # cs) = ch # Redact cs"
  using assms by (subst Redact.simps) (auto split: option.splits)

text \<open>Every position holds a credential pair or is copied.\<close>

lemma Redact_scan:
  obtains (nil) "s = []"
    | (hit) scheme rest behind where "match_scheme s = Some (scheme, rest)" "match_cred rest = Some behind"
        "Redact s = scheme @ Redact behind" "length scheme + length behind < length s"
    | (copy) ch cs where "s = ch # cs" "Redact s = ch # Redact cs"
proof (cases "\<exists>scheme rest behind. match_scheme s = Some (scheme, rest) \<and> match_cred rest = Some behind")
  case True
  then obtain scheme rest behind where h: "match_scheme s = Some (scheme, rest)" "match_cred rest = Some behind"
    by blast
  have "length scheme + length rest \<le> length s"
    using h(1) by (auto simp: match_scheme_def HasPrefix_iff split: if_splits)
  with match_cred_shorter [OF h(2)] show ?thesis by (intro hit [OF h Redact_credential [OF h]]) linarith
next
  case False
  show ?thesis
  proof (cases s)
    case (Cons ch cs)
    moreover have "match_cred rest = None" if "match_scheme (ch # cs) = Some (scheme, rest)" for scheme rest
      using False that Cons by (cases "match_cred rest") auto
    ultimately show ?thesis using Redact_plain [of ch cs] copy by simp
  qed (use nil in simp)
qed

lemma length_Redact: "length (Redact s) \<le> length s"
proof (induction s rule: length_induct)
  case (1 s)
  show ?case
  proof (cases s rule: Redact_scan)
    case (hit scheme rest behind)
    then have "length (Redact behind) \<le> length behind" using "1.IH" by simp
    then show ?thesis using hit by simp
  qed (use "1.IH" in auto)
qed

section \<open>Properties\<close>

text \<open>
  A plugin node's outcome is a function of its exit: with a configuration that parses and a
  plugin that resolves, the node fails exactly when the process ended with an error, it is
  skipped exactly when the process succeeded and reported \<^verbatim>\<open>changed=false\<close>, it is marked retryable
  exactly when the exit code is 75 or 69, and a process error is never a system error.
\<close>

theorem plugin_outcome:
  assumes "parseConfig (dec_plugin cd) PluginNodeConfig0 (node_Config node) = Inr cfg"
    and "rt_resolve rt (ToPluginRef cfg) ''plugin'' = Inr (command, args)"
    and "rt_command rt (bounded_ctx rt c (pc_Timeout cfg) w) command args (ne_Workdir env)
           (EnvSlice (envToPluginEnv env ''plugin'' (node_Config node)) (ne_ExtraEnv env)) w = ((out, err), w')"
  shows "(case PluginExecutor_Execute rt cd deps c node env w of ((r, sysErr), w'') \<Rightarrow>
     sysErr = None \<and>
     (nr_Status r = StatusFailed \<longleftrightarrow> err \<noteq> None) \<and>
     (nr_Status r = StatusSkipped \<longleftrightarrow> err = None \<and> pr_Changed (lastJSONLine rt out) = Some False) \<and>
     (nr_Status r = StatusGreen \<longleftrightarrow> err = None \<and> pr_Changed (lastJSONLine rt out) \<noteq> Some False) \<and>
     (nr_Transient r \<longleftrightarrow> (\<exists>ce. err = Some ce \<and> (ce_ExitCode ce = Some 75 \<or> ce_ExitCode ce = Some 69))))"
proof -
  have "pe_Workdir (envToPluginEnv env ''plugin'' (node_Config node)) = ne_Workdir env"
    by (simp add: envToPluginEnv_def)
  then have "fst (PluginExecutor_Execute rt cd deps c node env w) =
      (plugin_verdict (lastJSONLine rt out) out err, None)"
    using assms by (simp add: PluginExecutor_Execute_def RunPlugin_def)
  then obtain w'' where "PluginExecutor_Execute rt cd deps c node env w =
      ((plugin_verdict (lastJSONLine rt out) out err, None), w'')"
    by (metis prod.collapse)
  then show ?thesis by (simp add: plugin_verdict_status plugin_verdict_transient)
qed

theorem plugin_outcome_witness:
  "nr_Transient (fst (fst (PluginExecutor_Execute sample_runtime sample_codec sample_deps None
     (NodeSpec0\<lparr>node_Config := ''tempfail''\<rparr>) NodeEnv0 0)))"
proof -
  have "case PluginExecutor_Execute sample_runtime sample_codec sample_deps None
      (NodeSpec0\<lparr>node_Config := ''tempfail''\<rparr>) NodeEnv0 0 of ((r, sysErr), w'') \<Rightarrow>
     sysErr = None \<and>
     (nr_Status r = StatusFailed \<longleftrightarrow> Some \<lparr>ce_ExitCode = Some 75, ce_Text = ''exit status 75''\<rparr> \<noteq> None) \<and>
     (nr_Status r = StatusSkipped \<longleftrightarrow> Some \<lparr>ce_ExitCode = Some 75, ce_Text = ''exit status 75''\<rparr> = None \<and>
        pr_Changed (lastJSONLine sample_runtime ''busy'') = Some False) \<and>
     (nr_Status r = StatusGreen \<longleftrightarrow> Some \<lparr>ce_ExitCode = Some 75, ce_Text = ''exit status 75''\<rparr> = None \<and>
        pr_Changed (lastJSONLine sample_runtime ''busy'') \<noteq> Some False) \<and>
     (nr_Transient r \<longleftrightarrow> (\<exists>ce. Some \<lparr>ce_ExitCode = Some 75, ce_Text = ''exit status 75''\<rparr> = Some ce \<and>
        (ce_ExitCode ce = Some 75 \<or> ce_ExitCode ce = Some 69)))"
    by (rule plugin_outcome [where cfg = "PluginNodeConfig0\<lparr>pc_Args := [''tempfail'']\<rparr>" and
          command = "[]" and args = "[''tempfail'']" and w' = 1000000000])
       (simp_all add: sample_defs model_defs)
  then show ?thesis by (simp split: prod.splits)
qed

text \<open>
  A gate is green only by a clean exit inside its time: the gate node is green exactly when
  the command ended without an error and the evaluation's context was not done; a gate that was
  killed by its deadline is a system error with the context's text, never gate feedback.
\<close>

theorem gate_green_exact:
  assumes "parseConfig (dec_gate cd) GateNodeConfig0 (node_Config node) = Inr cfg"
    and "rt_resolve rt (ToPluginRef (gc_Plugin cfg)) ''gate'' = Inr (command, args)"
    and "c' = bounded_ctx rt c (pc_Timeout (gc_Plugin cfg)) w"
    and "rt_command rt c' command args (ne_Workdir env)
           (EnvSlice (envToPluginEnv env ''gate'' (node_Config node)) []) w = ((out, err), w')"
  shows "(case GateExecutor_Execute rt cd c node env w of ((r, sysErr), w'') \<Rightarrow>
     (nr_Status r = StatusGreen \<longleftrightarrow> err = None \<and> ctx_err rt c' w' = None) \<and>
     sysErr = ctx_err rt c' w' \<and>
     (ctx_err rt c' w' = None \<longrightarrow> nr_Feedback r = TrimSpace out) \<and>
     nr_Status r \<in> {StatusGreen, StatusFailed} \<and> w'' = w')"
proof -
  let ?gate = "\<lparr>gp_Command = command, gp_Args = args, gp_Env = envToPluginEnv env ''gate'' (node_Config node),
    gp_ExtraEnv = [], gp_Name = pc_Name (gc_Plugin cfg), gp_Timeout = pc_Timeout (gc_Plugin cfg)\<rparr>"
  have "GatePlugin_Run rt ?gate c w =
      (case ctx_err rt c' w' of
         Some e \<Rightarrow> ((False, TrimSpace out, Some e), w')
       | None \<Rightarrow> ((err = None, TrimSpace out, None), w'))"
    using assms(4) by (simp add: GatePlugin_Run_def Let_def envToPluginEnv_def assms(3))
  then show ?thesis
    by (simp add: GateExecutor_Execute_def assms(1,2) failed_result_def NodeResult0_def
        split: option.splits)
qed

theorem gate_green_exact_witness:
  "nr_Status (fst (fst (GateExecutor_Execute sample_runtime sample_codec None
     (NodeSpec0\<lparr>node_Config := ''fail''\<rparr>) NodeEnv0 0))) \<noteq> StatusGreen"
proof -
  have "case GateExecutor_Execute sample_runtime sample_codec None
      (NodeSpec0\<lparr>node_Config := ''fail''\<rparr>) NodeEnv0 0 of ((r, sysErr), w'') \<Rightarrow>
     (nr_Status r = StatusGreen \<longleftrightarrow>
        Some \<lparr>ce_ExitCode = Some 1, ce_Text = ''exit status 1''\<rparr> = None \<and>
        ctx_err sample_runtime None 1000000000 = None) \<and>
     sysErr = ctx_err sample_runtime None 1000000000 \<and>
     (ctx_err sample_runtime None 1000000000 = None \<longrightarrow> nr_Feedback r = TrimSpace ''broken'') \<and>
     nr_Status r \<in> {StatusGreen, StatusFailed} \<and> w'' = 1000000000"
    by (rule gate_green_exact [where
          cfg = "GateNodeConfig0\<lparr>gc_Plugin := PluginNodeConfig0\<lparr>pc_Args := [''fail'']\<rparr>\<rparr>" and
          command = "[]" and args = "[''fail'']"])
       (simp_all add: sample_defs model_defs)
  then show ?thesis by (simp split: prod.splits)
qed

text \<open>
  What the timeline keeps of a plugin's output is bounded and cut cleanly: the tail is the
  last \<open>n\<close> non-blank lines in order, a truncated payload is at most \<open>n\<close> bytes of the text and the
  ellipsis, it is a prefix of the text and never ends inside a UTF-8 sequence, and redaction
  never lengthens a text and removes the credentials of a URL it meets.
\<close>

theorem timeline_payload_bounds:
  "length (tailLines s n) \<le> n \<and>
   (\<exists>older. older @ tailLines s n =
      filter (\<lambda>l. TrimSpace l \<noteq> []) (split_on (CHR 0x0A) (TrimRight (CHR 0x0A) s))) \<and>
   (length s \<le> n \<and> truncateForTimeline s n = s \<or>
    (\<exists>cut. cut \<le> n \<and> n < length s \<and> truncateForTimeline s n = take cut s @ ellipsis \<and>
       (cut = 0 \<or> RuneStart (s ! cut)))) \<and>
   length (Redact s) \<le> length s"
proof -
  let ?ls = "filter (\<lambda>l. TrimSpace l \<noteq> []) (split_on (CHR 0x0A) (TrimRight (CHR 0x0A) s))"
  have "take (length ?ls - n) ?ls @ tailLines s n = ?ls"
    by (simp add: tailLines_eq Let_def)
  moreover have "length (tailLines s n) \<le> n"
    by (simp add: tailLines_eq Let_def)
  moreover have "length s \<le> n \<and> truncateForTimeline s n = s \<or>
    (\<exists>cut. cut \<le> n \<and> n < length s \<and> truncateForTimeline s n = take cut s @ ellipsis \<and>
       (cut = 0 \<or> RuneStart (s ! cut)))"
    using rune_cut_le [of s n] rune_cut_boundary [of s n]
    by (cases "length s \<le> n") (auto simp: truncateForTimeline_def)
  ultimately show ?thesis using length_Redact by blast
qed

text \<open>
  Redaction is one pass: it strips a credential pair at the head of a URL and goes on behind
  it, but text that only becomes a credential pair by that deletion is left in place, so a text
  can still hold credentials afterwards and a second redaction strips more.
\<close>

theorem redact_one_pass:
  "(\<forall>s scheme rest behind. match_scheme s = Some (scheme, rest) \<and> match_cred rest = Some behind \<longrightarrow>
      Redact s = scheme @ Redact behind) \<and>
   Redact ''https://u:p@q:r@h'' = ''https://q:r@h'' \<and>
   Redact (Redact ''https://u:p@q:r@h'') = ''https://h''"
proof -
  have plain: "Redact ''h'' = ''h''" "Redact ''q:r@h'' = ''q:r@h''"
    by (simp_all add: Redact.simps match_scheme_def HasPrefix_def)
  have "match_scheme ''https://u:p@q:r@h'' = Some (''https://'', ''u:p@q:r@h'')"
    "match_cred ''u:p@q:r@h'' = Some ''q:r@h''"
    "match_scheme ''https://q:r@h'' = Some (''https://'', ''q:r@h'')"
    "match_cred ''q:r@h'' = Some ''h''"
    by (simp_all add: match_scheme_def HasPrefix_def match_cred_def user_char_def pass_char_def re_space_def)
  then have "Redact ''https://u:p@q:r@h'' = ''https://'' @ Redact ''q:r@h''"
    "Redact ''https://q:r@h'' = ''https://'' @ Redact ''h''"
    using Redact_credential by blast+
  then show ?thesis by (simp add: plain Redact_credential)
qed

theorem redact_one_pass_witness: "Redact ''http://u:p@h'' = ''http://h''"
proof -
  have "match_scheme ''http://u:p@h'' = Some (''http://'', ''u:p@h'') \<and> match_cred ''u:p@h'' = Some ''h''"
    by (simp add: match_scheme_def HasPrefix_def match_cred_def user_char_def pass_char_def re_space_def)
  then have "Redact ''http://u:p@h'' = ''http://'' @ Redact ''h''" using redact_one_pass by blast
  then show ?thesis by (simp add: Redact.simps match_scheme_def HasPrefix_def)
qed

end
