(* ===== verification/Graph_Executor.thy ===== *)
theory Graph_Executor
  imports Graph_Node Capability
begin

text \<open>
  The graph walk of \<^verbatim>\<open>internal/graph/executor.go\<close>: the retry budget of a node, the edge
  conditions, the envelope every finalised node gets, claim promotion, and \<^verbatim>\<open>Execute\<close>, the
  breadth-first walk from the entry nodes. The state of a walk is a record: the world of the
  runtime, the result under construction, the queue, the traversal counts, and the trace of what
  the walk did (lifecycle events, dead letters, checkpoints, recorded envelopes, timeline rows
  handed to the outside; executor calls and enqueued edges as marks for the statements). Log lines and tracing spans are not modelled. A JSON marshalling error makes
  the sources skip the publication; it is the \<^const>\<open>None\<close> of the marshalling parameter.
\<close>

abbreviation (input) MaxIterations :: nat where "MaxIterations \<equiv> 1000"
abbreviation (input) DefaultStateStore :: string where "DefaultStateStore \<equiv> ''harmostes-state''"
abbreviation (input) DefaultPubSub :: string where "DefaultPubSub \<equiv> ''harmostes-pubsub''"
abbreviation (input) LifecycleTopic :: string where "LifecycleTopic \<equiv> ''harmostes-events''"
abbreviation (input) DeadLetterTopic :: string where "DeadLetterTopic \<equiv> ''harmostes-dead-letter''"
abbreviation (input) NodeTypeExternal :: string where "NodeTypeExternal \<equiv> ''external''"

section \<open>Data\<close>

record LifecycleEvent =
  le_Event :: string
  le_Pipeline :: string
  le_Attempt :: string
  le_Node :: string
  le_NodeType :: string
  le_Status :: string
  le_Feedback :: string
  le_Outputs :: NodeOutputs
  le_DurationMs :: int
  le_Timestamp :: instant
  le_Envelope :: "NodeResultEnvelope option"
  le_TriggeredBy :: string
  le_TriggerSource :: string

definition LifecycleEvent0 :: LifecycleEvent where
  "LifecycleEvent0 = \<lparr>le_Event = [], le_Pipeline = [], le_Attempt = [], le_Node = [], le_NodeType = [],
     le_Status = [], le_Feedback = [], le_Outputs = [], le_DurationMs = 0, le_Timestamp = zero_time,
     le_Envelope = None, le_TriggeredBy = [], le_TriggerSource = []\<rparr>"

record DeadLetterEvent =
  dl_Pipeline :: string
  dl_FailedNode :: string
  dl_Error :: string
  dl_NodeResults :: "(string, NodeResult) gomap"
  dl_TriggeredBy :: string
  dl_TriggerSource :: string
  dl_Timestamp :: instant

record ExecutionResult =
  xr_Status :: string
  xr_NodeResults :: "(string, NodeResult) gomap"
  xr_NodeEnvelopes :: "(string, NodeResultEnvelope) gomap"
  xr_Message :: string

record WorkflowContext =
  wc_Name :: string
  wc_Namespace :: string
  wc_Workdir :: string
  wc_Source :: string
  wc_SourceURL :: string
  wc_SourceBranch :: string
  wc_SourceLanguage :: string
  wc_WorkspaceDir :: string
  wc_Shadow :: string
  wc_State :: string
  wc_ExtraEnv :: "string list"
  wc_ExtraEnvForNode :: "(NodeSpec \<Rightarrow> string list \<Rightarrow> string list option) option"

definition extraEnvFor :: "WorkflowContext \<Rightarrow> NodeSpec \<Rightarrow> string list" where
  "extraEnvFor c node =
     (case wc_ExtraEnvForNode c of
        None \<Rightarrow> wc_ExtraEnv c
      | Some hook \<Rightarrow> (case hook node (wc_ExtraEnv c) of None \<Rightarrow> wc_ExtraEnv c | Some scoped \<Rightarrow> scoped))"

text \<open>
  The executor. \<open>ge_dapr\<close> and \<open>ge_timeline\<close> say whether the optional client and writer are wired;
  the marshalling functions are those of the JSON package.
\<close>

record 'w GraphExecutor =
  ge_registry :: "'w Registry"
  ge_dapr :: bool
  ge_stateStore :: string
  ge_pubsub :: string
  ge_timeline :: bool
  ge_triggeredBy :: string
  ge_triggerSource :: string
  ge_bindings :: "ExternalSystemBinding list"
  ge_runID :: string
  ge_attemptName :: string
  ge_onNodeResult :: "(NodeResultEnvelope \<Rightarrow> 'w \<Rightarrow> 'w) option"
  ge_wfCtx :: WorkflowContext
  ge_marshalEvent :: "LifecycleEvent \<Rightarrow> string option"
  ge_marshalDead :: "DeadLetterEvent \<Rightarrow> string option"
  ge_marshalResult :: "NodeResult \<Rightarrow> string option"

text \<open>What the walk does to the outside, in order.\<close>

datatype effect =
    Lifecycle LifecycleEvent
  | DeadLetter DeadLetterEvent
  | Checkpoint string NodeResult
  | Recorded NodeResultEnvelope
  | Timeline string string "(string \<times> anyval) list"
  | Executed string int  \<comment> \<open>executor called: node, attempt\<close>
  | Enqueued EdgeSpec  \<comment> \<open>the edge put its target on the queue\<close>

record 'w walk =
  wk_world :: 'w
  wk_trace :: "effect list"
  wk_result :: ExecutionResult
  wk_queue :: "string list"
  wk_edgeCount :: "(string, int) gomap"

section \<open>Retry policy\<close>

record retryPolicy =
  pol_maxAttempts :: int
  pol_initialDelay :: duration
  pol_maxDelay :: duration

abbreviation (input) defaultRetryInitialDelay :: duration where "defaultRetryInitialDelay \<equiv> 5 * second"
abbreviation (input) defaultRetryMaxDelay :: duration where "defaultRetryMaxDelay \<equiv> minute"
abbreviation (input) maxRetryAttemptsCap :: int where "maxRetryAttemptsCap \<equiv> 5"

definition retryPolicyOf :: "RetryPolicy option \<Rightarrow> retryPolicy" where
  "retryPolicyOf spec =
     (case spec of
        None \<Rightarrow> \<lparr>pol_maxAttempts = 1, pol_initialDelay = 0, pol_maxDelay = 0\<rparr>
      | Some sp \<Rightarrow>
          if rp_MaxAttempts sp \<le> 1 then \<lparr>pol_maxAttempts = 1, pol_initialDelay = 0, pol_maxDelay = 0\<rparr>
          else
            let m = (if maxRetryAttemptsCap < rp_MaxAttempts sp then maxRetryAttemptsCap else rp_MaxAttempts sp);
                i = (case positive_duration (rp_InitialDelay sp) of None \<Rightarrow> defaultRetryInitialDelay | Some d \<Rightarrow> d);
                x = (case positive_duration (rp_MaxDelay sp) of None \<Rightarrow> defaultRetryMaxDelay | Some d \<Rightarrow> d)
            in \<lparr>pol_maxAttempts = m, pol_initialDelay = i, pol_maxDelay = (if x < i then i else x)\<rparr>)"

text \<open>
  The doubling loop of \<^verbatim>\<open>delayFor\<close> from index \<open>i\<close> on; the product is a 64-bit count of nanoseconds.
\<close>

function delay_loop :: "duration \<Rightarrow> int \<Rightarrow> int \<Rightarrow> duration \<Rightarrow> duration" where
  "delay_loop maxDelay attempt i d =
     (if i < attempt \<and> d < maxDelay then delay_loop maxDelay attempt (i + 1) (wrap64 (d * 2)) else d)"
  by pat_completeness auto
termination by (relation "measure (\<lambda>(m, attempt, i, d). nat (attempt - i))") auto

declare delay_loop.simps [simp del]

definition delayFor :: "retryPolicy \<Rightarrow> int \<Rightarrow> duration" where
  "delayFor p attempt =
     (let d = delay_loop (pol_maxDelay p) attempt 1 (pol_initialDelay p)
      in if pol_maxDelay p < d then pol_maxDelay p else d)"

section \<open>Topology\<close>

definition build_nodeMap :: "GraphSpec \<Rightarrow> (string, NodeSpec) gomap" where
  "build_nodeMap graph = fold (\<lambda>n m. map_set (node_ID n) n m) (graph_Nodes graph) []"

definition isExternalNode :: "(string, NodeSpec) gomap \<Rightarrow> string \<Rightarrow> bool" where
  "isExternalNode nodeMap i = (case map_of nodeMap i of None \<Rightarrow> False | Some n \<Rightarrow> node_Type n = NodeTypeExternal)"

text \<open>\<^verbatim>\<open>outEdges[i]\<close>: the edges of the node in the order of the specification.\<close>

definition outEdges :: "GraphSpec \<Rightarrow> string \<Rightarrow> EdgeSpec list" where
  "outEdges graph i = filter (\<lambda>e. edge_From e = i) (graph_Edges graph)"

definition inDegree :: "GraphSpec \<Rightarrow> (string, NodeSpec) gomap \<Rightarrow> string \<Rightarrow> nat" where
  "inDegree graph nodeMap i =
     length (filter (\<lambda>e. edge_To e = i \<and> edge_MaxRetries e = 0 \<and> \<not> isExternalNode nodeMap (edge_From e))
       (graph_Edges graph))"

definition entryNodes :: "GraphSpec \<Rightarrow> (string, NodeSpec) gomap \<Rightarrow> string list" where
  "entryNodes graph nodeMap =
     map node_ID (filter (\<lambda>n. inDegree graph nodeMap (node_ID n) = 0 \<and> node_Type n \<noteq> NodeTypeExternal)
       (graph_Nodes graph))"

text \<open>The first background node that has an edge to a node that executes.\<close>

definition background_nonleaf :: "GraphSpec \<Rightarrow> (string, NodeSpec) gomap \<Rightarrow> NodeSpec option" where
  "background_nonleaf graph nodeMap =
     find (\<lambda>n. IsBackground n \<and>
        list_ex (\<lambda>e. \<not> isExternalNode nodeMap (edge_To e)) (outEdges graph (node_ID n)))
       (graph_Nodes graph)"

section \<open>Results and envelopes\<close>

definition snapshotOutputs :: "(string, NodeResult) gomap \<Rightarrow> (string, NodeOutputs) gomap" where
  "snapshotOutputs results = map (\<lambda>(i, r). (i, nr_Outputs r)) results"

definition getBoolOutput :: "NodeOutputs \<Rightarrow> string \<Rightarrow> bool" where
  "getBoolOutput outputs key =
     (case map_of outputs key of
        Some (VBool b) \<Rightarrow> b
      | Some (VStr s) \<Rightarrow> EqualFold s ''true''
      | _ \<Rightarrow> False)"

definition shouldTraverse ::
  "'w runtime \<Rightarrow> EdgeSpec \<Rightarrow> NodeResult \<Rightarrow> (string, NodeResult) gomap \<Rightarrow> bool" where
  "shouldTraverse rt edge sourceResult allResults =
     (if edge_When edge = ''always'' then True
      else if edge_When edge = [] \<or> edge_When edge = ''green'' then nr_Status sourceResult = StatusGreen
      else if edge_When edge = ''failed'' then nr_Status sourceResult = StatusFailed
      else if edge_When edge = ''changed'' then getBoolOutput (nr_Outputs sourceResult) ''changed''
      else if edge_When edge = ''unchanged'' then \<not> getBoolOutput (nr_Outputs sourceResult) ''changed''
      else evaluateCondition rt (edge_When edge) (snapshotOutputs allResults))"

definition envelopeStatus :: "string \<Rightarrow> string" where
  "envelopeStatus s =
     (if s = StatusGreen then NodeResultStatusOK
      else if s = StatusSkipped then NodeResultStatusSkipped
      else NodeResultStatusFailed)"

definition Milliseconds :: "duration \<Rightarrow> int" where
  "Milliseconds d = d sdiv 1000000"

definition synthesizeEnvelope ::
  "'w GraphExecutor \<Rightarrow> instant \<Rightarrow> string \<Rightarrow> NodeResult \<Rightarrow> int \<Rightarrow> NodeResultEnvelope" where
  "synthesizeEnvelope e now nodeID nr durationMs =
     (let env = NodeResultEnvelope0\<lparr>env_NodeID := nodeID, env_RunID := ge_runID e,
            env_Status := envelopeStatus (nr_Status nr), env_DurationMs := durationMs,
            env_Attempt := nr_Attempt nr,
            env_Provenance := \<lparr>prov_TriggeredBy = ge_triggeredBy e, prov_TriggerSource = ge_triggerSource e,
                               prov_ProducedAt = now\<rparr>,
            env_ProducedAt := now\<rparr>;
          env1 = (case nr_Envelope nr of
                    None \<Rightarrow> env
                  | Some x \<Rightarrow> env\<lparr>env_Summary := env_Summary x, env_Artifacts := env_Artifacts x,
                                  env_Claims := env_Claims x, env_Payload := env_Payload x,
                                  env_References := env_References x\<rparr>)
      in if env_Summary env1 = [] then env1\<lparr>env_Summary := nr_Feedback nr\<rparr> else env1)"

text \<open>
  A synthesised envelope shares its claims with the executor's envelope in the node result (one
  Go slice), so what enforcement and promotion write to the one is seen in the other.
\<close>

definition share_claims :: "(string, NodeResultEnvelope) gomap \<Rightarrow> (string, NodeResult) gomap \<Rightarrow> (string, NodeResult) gomap" where
  "share_claims envs results =
     map (\<lambda>(i, r). (i,
        case (nr_Envelope r, map_of envs i) of
          (Some x, Some env) \<Rightarrow> r\<lparr>nr_Envelope := Some (x\<lparr>env_Claims := env_Claims env\<rparr>)\<rparr>
        | _ \<Rightarrow> r)) results"

section \<open>Effects\<close>

definition publishLifecycle ::
  "'w runtime \<Rightarrow> 'w GraphExecutor \<Rightarrow> LifecycleEvent \<Rightarrow> 'w walk \<Rightarrow> 'w walk" where
  "publishLifecycle rt e ev s =
     (if \<not> ge_dapr e then s
      else let ev' = ev\<lparr>le_Timestamp := rt_now rt (wk_world s), le_TriggeredBy := ge_triggeredBy e,
                       le_TriggerSource := ge_triggerSource e, le_Attempt := ge_attemptName e\<rparr>
           in (case ge_marshalEvent e ev' of
                 None \<Rightarrow> s
               | Some b \<Rightarrow> s\<lparr>wk_world := snd (rt_publish rt (ge_pubsub e) LifecycleTopic b (wk_world s)),
                              wk_trace := wk_trace s @ [Lifecycle ev']\<rparr>))"

definition publishDeadLetter ::
  "'w runtime \<Rightarrow> 'w GraphExecutor \<Rightarrow> string \<Rightarrow> string \<Rightarrow> string \<Rightarrow> 'w walk \<Rightarrow> 'w walk" where
  "publishDeadLetter rt e pipelineName failedNode errMsg s =
     (if \<not> ge_dapr e then s
      else let ev = \<lparr>dl_Pipeline = pipelineName, dl_FailedNode = failedNode, dl_Error = errMsg,
                     dl_NodeResults = xr_NodeResults (wk_result s), dl_TriggeredBy = ge_triggeredBy e,
                     dl_TriggerSource = ge_triggerSource e, dl_Timestamp = rt_now rt (wk_world s)\<rparr>
           in (case ge_marshalDead e ev of
                 None \<Rightarrow> s
               | Some b \<Rightarrow> s\<lparr>wk_world := snd (rt_publish rt (ge_pubsub e) DeadLetterTopic b (wk_world s)),
                              wk_trace := wk_trace s @ [DeadLetter ev]\<rparr>))"

definition checkpoint ::
  "'w runtime \<Rightarrow> 'w GraphExecutor \<Rightarrow> string \<Rightarrow> string \<Rightarrow> NodeResult \<Rightarrow> 'w walk \<Rightarrow> 'w walk" where
  "checkpoint rt e pipelineName nodeID result s =
     (if \<not> ge_dapr e then s
      else (case ge_marshalResult e result of
              None \<Rightarrow> s
            | Some data \<Rightarrow>
                let key = ''pipeline/'' @ pipelineName @ ''/nodes/'' @ nodeID
                in s\<lparr>wk_world := snd (rt_saveState rt (ge_stateStore e) key data (wk_world s)),
                     wk_trace := wk_trace s @ [Checkpoint key result]\<rparr>))"

definition record_envelope :: "'w GraphExecutor \<Rightarrow> NodeResultEnvelope \<Rightarrow> 'w walk \<Rightarrow> 'w walk" where
  "record_envelope e env s =
     (case ge_onNodeResult e of
        None \<Rightarrow> s
      | Some f \<Rightarrow> s\<lparr>wk_world := f env (wk_world s), wk_trace := wk_trace s @ [Recorded env]\<rparr>)"

definition emit_timeline ::
  "'w runtime \<Rightarrow> 'w GraphExecutor \<Rightarrow> string \<Rightarrow> string \<Rightarrow> (string \<times> anyval) list \<Rightarrow> 'w walk \<Rightarrow> 'w walk" where
  "emit_timeline rt e kind nodeID payload s =
     (if \<not> ge_timeline e then s
      else s\<lparr>wk_world := rt_emit rt kind nodeID payload (wk_world s),
             wk_trace := wk_trace s @ [Timeline kind nodeID payload]\<rparr>)"

definition set_result :: "string \<Rightarrow> NodeResult \<Rightarrow> NodeResultEnvelope \<Rightarrow> 'w walk \<Rightarrow> 'w walk" where
  "set_result nodeID r env s =
     s\<lparr>wk_result := (wk_result s)\<lparr>xr_NodeResults := map_set nodeID r (xr_NodeResults (wk_result s)),
                                  xr_NodeEnvelopes := map_set nodeID env (xr_NodeEnvelopes (wk_result s))\<rparr>\<rparr>"

definition fail_result :: "string \<Rightarrow> 'w walk \<Rightarrow> 'w walk" where
  "fail_result message s =
     s\<lparr>wk_result := (wk_result s)\<lparr>xr_Status := StatusFailed, xr_Message := message\<rparr>\<rparr>"

section \<open>Failure seam and edge traversal\<close>

text \<open>True when the run failed.\<close>

definition unhandledNodeFailure ::
  "'w runtime \<Rightarrow> 'w GraphExecutor \<Rightarrow> string \<Rightarrow> NodeSpec \<Rightarrow> string \<Rightarrow> 'w walk \<Rightarrow> bool \<times> 'w walk" where
  "unhandledNodeFailure rt e pipelineName node message s =
     (if IsBackground node then (False, s)
      else (True,
        publishDeadLetter rt e pipelineName (node_ID node) message
          (publishLifecycle rt e
             (LifecycleEvent0\<lparr>le_Event := ''pipeline.failed'', le_Pipeline := pipelineName,
                le_Status := StatusFailed, le_Feedback := message\<rparr>)
             (fail_result message s))))"

definition edge_key :: "EdgeSpec \<Rightarrow> string" where
  "edge_key edge = edge_From edge @ right_arrow @ edge_To edge"

definition enqueueEdge ::
  "(string, NodeSpec) gomap \<Rightarrow> EdgeSpec \<Rightarrow> 'w walk \<Rightarrow> bool \<times> 'w walk" where
  "enqueueEdge nodeMap edge s =
     (if isExternalNode nodeMap (edge_To edge) then (True, s)
      else
        let key = edge_key edge;
            n = map_get (wk_edgeCount s) key 0 + 1;
            s1 = s\<lparr>wk_edgeCount := map_set key n (wk_edgeCount s)\<rparr>
        in if 0 < edge_MaxRetries edge \<and> edge_MaxRetries edge < n then (False, s1)
           else (True, s1\<lparr>wk_queue := wk_queue s1 @ [edge_To edge], wk_trace := wk_trace s1 @ [Enqueued edge]\<rparr>))"

text \<open>The loop over a node's outgoing edges; the flag says that some traversal was handled.\<close>

fun follow_edges ::
  "'w runtime \<Rightarrow> (string, NodeSpec) gomap \<Rightarrow> NodeResult \<Rightarrow> EdgeSpec list \<Rightarrow> bool \<times> 'w walk \<Rightarrow> bool \<times> 'w walk" where
  "follow_edges rt nodeMap r [] hs = hs"
| "follow_edges rt nodeMap r (edge # edges) (handled, s) =
     (if shouldTraverse rt edge r (xr_NodeResults (wk_result s))
      then (case enqueueEdge nodeMap edge s of
              (ok, s') \<Rightarrow> follow_edges rt nodeMap r edges (handled \<or> ok, s'))
      else follow_edges rt nodeMap r edges (handled, s))"

text \<open>\<^verbatim>\<open>continue\<close>, or \<^verbatim>\<open>return result, err\<close>.\<close>

datatype verdict = Continue | Return "string option"

definition route_failure ::
  "'w runtime \<Rightarrow> 'w GraphExecutor \<Rightarrow> GraphSpec \<Rightarrow> (string, NodeSpec) gomap \<Rightarrow> string \<Rightarrow> NodeSpec \<Rightarrow>
     NodeResult \<Rightarrow> string \<Rightarrow> 'w walk \<Rightarrow> verdict \<times> 'w walk" where
  "route_failure rt e graph nodeMap pipelineName node r message s =
     (case follow_edges rt nodeMap r (outEdges graph (node_ID node)) (False, s) of
        (handled, s1) \<Rightarrow>
          if handled then (Continue, s1)
          else (case unhandledNodeFailure rt e pipelineName node message s1 of
                  (fatal, s2) \<Rightarrow> (if fatal then Return None else Continue, s2)))"

section \<open>One node\<close>

definition node_env :: "'w GraphExecutor \<Rightarrow> NodeSpec \<Rightarrow> 'w walk \<Rightarrow> NodeEnv" where
  "node_env e node s =
     (let c = ge_wfCtx e in
      \<lparr>ne_Workflow = wc_Name c, ne_RunID = ge_runID e, ne_Namespace = wc_Namespace c,
       ne_Workdir = wc_Workdir c, ne_Source = wc_Source c, ne_SourceURL = wc_SourceURL c,
       ne_SourceBranch = wc_SourceBranch c, ne_SourceLanguage = wc_SourceLanguage c,
       ne_WorkspaceDir = wc_WorkspaceDir c, ne_Shadow = wc_Shadow c, ne_State = wc_State c,
       ne_ExtraEnv = extraEnvFor c node, ne_Inputs = snapshotOutputs (xr_NodeResults (wk_result s))\<rparr>)"

definition node_failed_event ::
  "string \<Rightarrow> NodeSpec \<Rightarrow> string \<Rightarrow> int \<Rightarrow> NodeResultEnvelope \<Rightarrow> LifecycleEvent" where
  "node_failed_event pipelineName node feedback ms env =
     LifecycleEvent0\<lparr>le_Event := ''node.failed'', le_Pipeline := pipelineName, le_Node := node_ID node,
       le_NodeType := node_Type node, le_Status := StatusFailed, le_Feedback := feedback,
       le_DurationMs := ms, le_Envelope := Some env\<rparr>"

definition denied_step ::
  "'w runtime \<Rightarrow> 'w GraphExecutor \<Rightarrow> GraphSpec \<Rightarrow> (string, NodeSpec) gomap \<Rightarrow> string \<Rightarrow> NodeSpec \<Rightarrow>
     Violation list \<Rightarrow> 'w walk \<Rightarrow> verdict \<times> 'w walk" where
  "denied_step rt e graph nodeMap pipelineName node violations s =
     (let feedback = FormatViolations violations;
          start = rt_now rt (wk_world s);
          denied = NodeResult0\<lparr>nr_Status := StatusFailed, nr_Feedback := feedback\<rparr>;
          env = synthesizeEnvelope e (rt_now rt (wk_world s)) (node_ID node) denied
                  (Milliseconds (rt_now rt (wk_world s) - start));
          s1 = checkpoint rt e pipelineName (node_ID node) denied
                 (record_envelope e env (set_result (node_ID node) denied env s));
          s2 = publishLifecycle rt e (node_failed_event pipelineName node feedback
                 (Milliseconds (rt_now rt (wk_world s1) - start)) env) s1
      in route_failure rt e graph nodeMap pipelineName node denied
           (''node '' @ node_ID node @ '' denied by capability policy: '' @ feedback) s2)"

text \<open>A node type without an executor: recorded, and fatal unless the node is background.\<close>

definition missing_executor_step ::
  "'w runtime \<Rightarrow> 'w GraphExecutor \<Rightarrow> string \<Rightarrow> NodeSpec \<Rightarrow> instant \<Rightarrow> string \<Rightarrow> 'w walk \<Rightarrow> verdict \<times> 'w walk" where
  "missing_executor_step rt e pipelineName node start err s =
     (let errResult = NodeResult0\<lparr>nr_Status := StatusFailed, nr_Feedback := err\<rparr>;
          env = synthesizeEnvelope e (rt_now rt (wk_world s)) (node_ID node) errResult
                  (Milliseconds (rt_now rt (wk_world s) - start));
          s1 = record_envelope e env (set_result (node_ID node) errResult env s);
          s2 = publishLifecycle rt e (node_failed_event pipelineName node err
                 (Milliseconds (rt_now rt (wk_world s1) - start)) env) s1
      in (case unhandledNodeFailure rt e pipelineName node (''node '' @ node_ID node @ '': '' @ err) s2 of
            (fatal, s3) \<Rightarrow> (if fatal then Return None else Continue, s3)))"

text \<open>One call of the executor with the adjustments of its result.\<close>

definition attribute_timeout :: "string \<Rightarrow> NodeResult \<Rightarrow> NodeResult" where
  "attribute_timeout timeoutStr r =
     r\<lparr>nr_Feedback := ''timed out after '' @ timeoutStr @
        (if nr_Feedback r = [] then [] else '' '' @ em_dash @ '' last output: '' @ nr_Feedback r)\<rparr>"

definition adjust_result :: "NodeResult \<Rightarrow> string option \<Rightarrow> string \<Rightarrow> bool \<Rightarrow> NodeResult" where
  "adjust_result r execErr timeoutStr ctxDone =
     (let r1 = (case execErr of
                  None \<Rightarrow> r
                | Some err \<Rightarrow> r\<lparr>nr_Status := StatusFailed,
                                nr_Feedback := (if nr_Feedback r = [] then err else nr_Feedback r)\<rparr>);
          r2 = (if timeoutStr \<noteq> [] \<and> ctxDone \<and> nr_Status r1 = StatusFailed
                then attribute_timeout timeoutStr r1 else r1)
      in if nr_Status r2 = [] then r2\<lparr>nr_Status := StatusGreen\<rparr> else r2)"

definition try_once ::
  "'w runtime \<Rightarrow> 'w NodeExecutor \<Rightarrow> NodeSpec \<Rightarrow> NodeEnv \<Rightarrow> ctx \<Rightarrow> string \<Rightarrow> int \<Rightarrow> 'w walk \<Rightarrow> NodeResult \<times> 'w walk" where
  "try_once rt exec node env execCtx timeoutStr attempt s =
     (case nx_Execute exec execCtx node env (wk_world s) of
        ((r, execErr), w) \<Rightarrow>
          (adjust_result r execErr timeoutStr (ctx_err rt execCtx w \<noteq> None),
           s\<lparr>wk_world := w, wk_trace := wk_trace s @ [Executed (node_ID node) attempt]\<rparr>))"

definition announce_retry ::
  "'w runtime \<Rightarrow> 'w GraphExecutor \<Rightarrow> string \<Rightarrow> NodeSpec \<Rightarrow> retryPolicy \<Rightarrow> instant \<Rightarrow> int \<Rightarrow> NodeResult \<Rightarrow>
     'w walk \<Rightarrow> 'w walk" where
  "announce_retry rt e pipelineName node policy start attempt r s =
     emit_timeline rt e ''node.retry'' (node_ID node)
       [(''type'', VStr (node_Type node)), (''attempt'', VInt attempt),
        (''of'', VInt (pol_maxAttempts policy)), (''delayMs'', VInt (Milliseconds (delayFor policy attempt))),
        (''feedback'', VStr (truncateForTimeline (Redact (nr_Feedback r)) 200))]
       (publishLifecycle rt e
          (LifecycleEvent0\<lparr>le_Event := ''node.retry'', le_Pipeline := pipelineName,
             le_Node := node_ID node, le_NodeType := node_Type node,
             le_Status := StatusFailed, le_Feedback := nr_Feedback r,
             le_DurationMs := Milliseconds (rt_now rt (wk_world s) - start)\<rparr>) s)"

function retry_loop ::
  "'w runtime \<Rightarrow> 'w GraphExecutor \<Rightarrow> 'w NodeExecutor \<Rightarrow> string \<Rightarrow> NodeSpec \<Rightarrow> NodeEnv \<Rightarrow> ctx \<Rightarrow> string \<Rightarrow>
     retryPolicy \<Rightarrow> instant \<Rightarrow> int \<Rightarrow> 'w walk \<Rightarrow> NodeResult \<times> 'w walk" where
  "retry_loop rt e exec pipelineName node env execCtx timeoutStr policy start attempt s =
     (case try_once rt exec node env execCtx timeoutStr attempt s of
        (r, s1) \<Rightarrow>
          if \<not> nr_Transient r \<or> pol_maxAttempts policy \<le> attempt \<or> ctx_err rt execCtx (wk_world s1) \<noteq> None
          then (r\<lparr>nr_Attempt := attempt\<rparr>, s1)
          else
            let s2 = announce_retry rt e pipelineName node policy start attempt r s1
            in (case rt_wait rt execCtx (delayFor policy attempt) (wk_world s2) of
                  (expired, w) \<Rightarrow>
                    if expired then (r\<lparr>nr_Attempt := attempt\<rparr>, s2\<lparr>wk_world := w\<rparr>)
                    else retry_loop rt e exec pipelineName node env execCtx timeoutStr policy start
                           (attempt + 1) (s2\<lparr>wk_world := w\<rparr>)))"
  by pat_completeness auto
termination
  by (relation "measure (\<lambda>(rt, e, exec, pn, node, env, c, ts, policy, start, attempt, s).
        nat (pol_maxAttempts policy - attempt))") auto

declare retry_loop.simps [simp del]

definition nodeValidationScopes :: "codec \<Rightarrow> NodeSpec \<Rightarrow> ValidationScope list" where
  "nodeValidationScopes cd node =
     (if node_Type node \<noteq> ''gate'' then []
      else (case parseConfig (dec_gate cd) GateNodeConfig0 (node_Config node) of
              Inl err \<Rightarrow> []
            | Inr cfg \<Rightarrow> gc_Validates cfg))"

definition publish_promotion ::
  "'w runtime \<Rightarrow> 'w GraphExecutor \<Rightarrow> string \<Rightarrow> string \<Rightarrow> Promotion \<Rightarrow> 'w walk \<Rightarrow> 'w walk" where
  "publish_promotion rt e pipelineName nodeID p s =
     (case map_of (xr_NodeEnvelopes (wk_result s)) (promo_FromNodeID p) of
        None \<Rightarrow> s
      | Some env \<Rightarrow> publishLifecycle rt e
          (LifecycleEvent0\<lparr>le_Event := ''claim.validated'', le_Pipeline := pipelineName,
             le_Node := promo_FromNodeID p, le_Envelope := Some env,
             le_Feedback := ''validated by '' @ nodeID\<rparr>) s)"

definition apply_scope ::
  "'w runtime \<Rightarrow> 'w GraphExecutor \<Rightarrow> string \<Rightarrow> string \<Rightarrow> ValidationScope \<Rightarrow> 'w walk \<Rightarrow> 'w walk" where
  "apply_scope rt e pipelineName nodeID scope s =
     (case Promote (xr_NodeEnvelopes (wk_result s)) nodeID scope of
        (envs, promotions) \<Rightarrow>
          fold (publish_promotion rt e pipelineName nodeID) promotions
            (s\<lparr>wk_result := (wk_result s)\<lparr>xr_NodeEnvelopes := envs,
                 xr_NodeResults := share_claims envs (xr_NodeResults (wk_result s))\<rparr>\<rparr>))"

definition applyPromotions ::
  "'w runtime \<Rightarrow> codec \<Rightarrow> 'w GraphExecutor \<Rightarrow> string \<Rightarrow> NodeSpec \<Rightarrow> 'w walk \<Rightarrow> 'w walk" where
  "applyPromotions rt cd e pipelineName node s =
     fold (apply_scope rt e pipelineName (node_ID node)) (nodeValidationScopes cd node) s"

definition completed_payload :: "NodeSpec \<Rightarrow> NodeResult \<Rightarrow> int \<Rightarrow> (string \<times> anyval) list" where
  "completed_payload node r durationMs =
     [(''type'', VStr (node_Type node)), (''status'', VStr (nr_Status r)), (''durationMs'', VInt durationMs)] @
     (if nr_Feedback r = [] then []
      else [(''feedback'', VStr (truncateForTimeline (Redact (nr_Feedback r)) 200))])"

text \<open>Recording of an executed node: timeline, envelope under enforcement, checkpoint, event.\<close>

definition record_execution ::
  "'w runtime \<Rightarrow> 'w GraphExecutor \<Rightarrow> 'w NodeExecutor \<Rightarrow> string \<Rightarrow> NodeSpec \<Rightarrow> instant \<Rightarrow> NodeResult \<Rightarrow>
     'w walk \<Rightarrow> NodeResult \<times> 'w walk" where
  "record_execution rt e exec pipelineName node start r s =
     (let durationMs = Milliseconds (rt_now rt (wk_world s) - start);
          s1 = emit_timeline rt e ''node.completed'' (node_ID node) (completed_payload node r durationMs) s;
          env = snd (Enforce (nx_Deterministic exec)
                  (synthesizeEnvelope e (rt_now rt (wk_world s1)) (node_ID node) r durationMs));
          r' = (case nr_Envelope r of
                  None \<Rightarrow> r
                | Some x \<Rightarrow> r\<lparr>nr_Envelope := Some (x\<lparr>env_Claims := env_Claims env\<rparr>)\<rparr>);
          s2 = checkpoint rt e pipelineName (node_ID node) r'
                 (record_envelope e env (set_result (node_ID node) r' env s1));
          s3 = publishLifecycle rt e
                 (LifecycleEvent0\<lparr>le_Event := (if nr_Status r' = StatusFailed then ''node.failed'' else ''node.completed''),
                    le_Pipeline := pipelineName, le_Node := node_ID node, le_NodeType := node_Type node,
                    le_Status := nr_Status r', le_Feedback := nr_Feedback r', le_Outputs := nr_Outputs r',
                    le_DurationMs := durationMs, le_Envelope := Some env\<rparr>) s2
      in (r', s3))"

definition execute_step ::
  "'w runtime \<Rightarrow> codec \<Rightarrow> 'w GraphExecutor \<Rightarrow> GraphSpec \<Rightarrow> (string, NodeSpec) gomap \<Rightarrow> ctx \<Rightarrow> string \<Rightarrow>
     NodeSpec \<Rightarrow> NodeEnv \<Rightarrow> instant \<Rightarrow> 'w NodeExecutor \<Rightarrow> 'w walk \<Rightarrow> verdict \<times> 'w walk" where
  "execute_step rt cd e graph nodeMap c pipelineName node env start exec s =
     (let execCtx = bounded_ctx rt c (node_Timeout node) (wk_world s);
          timeoutStr = (if node_Timeout node \<noteq> [] \<and> positive_duration (node_Timeout node) \<noteq> None
                        then node_Timeout node else []);
          s1 = emit_timeline rt e ''node.started'' (node_ID node) [(''type'', VStr (node_Type node))] s
      in case retry_loop rt e exec pipelineName node env execCtx timeoutStr
                (retryPolicyOf (node_Retry node)) start 1 s1 of
           (r, s2) \<Rightarrow>
             (case record_execution rt e exec pipelineName node start r s2 of
                (r', s3) \<Rightarrow>
                  if nr_Status r' = StatusFailed
                  then route_failure rt e graph nodeMap pipelineName node r'
                         (''node '' @ node_ID node @ '' failed: '' @ nr_Feedback r') s3
                  else
                    let s4 = (if nr_Status r' = StatusGreen \<and> nx_Deterministic exec
                              then applyPromotions rt cd e pipelineName node s3 else s3)
                    in (Continue, snd (follow_edges rt nodeMap r' (outEdges graph (node_ID node)) (False, s4)))))"

definition visit_node ::
  "'w runtime \<Rightarrow> codec \<Rightarrow> 'w GraphExecutor \<Rightarrow> GraphSpec \<Rightarrow> (string, NodeSpec) gomap \<Rightarrow> ctx \<Rightarrow> string \<Rightarrow>
     NodeSpec \<Rightarrow> 'w walk \<Rightarrow> verdict \<times> 'w walk" where
  "visit_node rt cd e graph nodeMap c pipelineName node s =
     (let env = node_env e node s; violations = AuthorizeNode (ge_bindings e) node in
      if violations \<noteq> [] then denied_step rt e graph nodeMap pipelineName node violations s
      else
        let start = rt_now rt (wk_world s);
            s1 = publishLifecycle rt e
                   (LifecycleEvent0\<lparr>le_Event := ''node.started'', le_Pipeline := pipelineName,
                      le_Node := node_ID node, le_NodeType := node_Type node\<rparr>) s
        in (case Get (ge_registry e) (node_Type node) of
              Inl err \<Rightarrow> missing_executor_step rt e pipelineName node start err s1
            | Inr exec \<Rightarrow> execute_step rt cd e graph nodeMap c pipelineName node env start exec s1))"

section \<open>The walk\<close>

function walk_loop ::
  "'w runtime \<Rightarrow> codec \<Rightarrow> 'w GraphExecutor \<Rightarrow> GraphSpec \<Rightarrow> (string, NodeSpec) gomap \<Rightarrow> ctx \<Rightarrow> string \<Rightarrow>
     nat \<Rightarrow> 'w walk \<Rightarrow> string option \<times> 'w walk" where
  "walk_loop rt cd e graph nodeMap c pipelineName iterations s =
     (case wk_queue s of
        [] \<Rightarrow>
          (None, publishLifecycle rt e
             (LifecycleEvent0\<lparr>le_Event := ''pipeline.completed'', le_Pipeline := pipelineName,
                le_Status := StatusGreen\<rparr>)
             (s\<lparr>wk_result := (wk_result s)\<lparr>xr_Message := ''pipeline completed''\<rparr>\<rparr>))
      | nodeID # queue \<Rightarrow>
          if MaxIterations \<le> iterations
          then (let msg = ''max iterations (1000) exceeded '' @ em_dash @ '' possible infinite loop''
                in (Some msg, fail_result msg s))
          else
            let s1 = s\<lparr>wk_queue := queue\<rparr> in
            (case map_of nodeMap nodeID of
               None \<Rightarrow> (let msg = ''edge references unknown node '' @ quoted nodeID
                        in (Some msg, fail_result msg s1))
             | Some node \<Rightarrow>
                 (case visit_node rt cd e graph nodeMap c pipelineName node s1 of
                    (Return err, s2) \<Rightarrow> (err, s2)
                  | (Continue, s2) \<Rightarrow> walk_loop rt cd e graph nodeMap c pipelineName (iterations + 1) s2)))"
  by pat_completeness auto
termination
  by (relation "measure (\<lambda>(rt, cd, e, graph, nodeMap, c, pn, iterations, s). MaxIterations - iterations)") auto

declare walk_loop.simps [simp del]

definition initial_walk :: "'w \<Rightarrow> 'w walk" where
  "initial_walk w =
     \<lparr>wk_world = w, wk_trace = [],
      wk_result = \<lparr>xr_Status = StatusGreen, xr_NodeResults = [], xr_NodeEnvelopes = [], xr_Message = []\<rparr>,
      wk_queue = [], wk_edgeCount = []\<rparr>"

definition Execute ::
  "'w runtime \<Rightarrow> codec \<Rightarrow> 'w GraphExecutor \<Rightarrow> ctx \<Rightarrow> GraphSpec \<Rightarrow> string \<Rightarrow> 'w \<Rightarrow> string option \<times> 'w walk" where
  "Execute rt cd e c graph pipelineName w =
     (let nodeMap = build_nodeMap graph; s0 = initial_walk w in
      case background_nonleaf graph nodeMap of
        Some n \<Rightarrow>
          (let msg = ''node '' @ node_ID n @ '': background nodes must be leaves (has outgoing edges)''
           in (Some msg, fail_result msg s0))
      | None \<Rightarrow>
          (case entryNodes graph nodeMap of
             [] \<Rightarrow> (Some ''graph has no entry nodes (all nodes have incoming edges)'',
                    fail_result (''no entry nodes '' @ em_dash @ '' graph is a pure cycle'') s0)
           | queue \<Rightarrow>
               walk_loop rt cd e graph nodeMap c pipelineName 0
                 (publishLifecycle rt e
                    (LifecycleEvent0\<lparr>le_Event := ''pipeline.started'', le_Pipeline := pipelineName\<rparr>)
                    (s0\<lparr>wk_queue := queue\<rparr>))))"

lemmas [model_defs] = LifecycleEvent0_def extraEnvFor_def retryPolicyOf_def delayFor_def
  build_nodeMap_def isExternalNode_def outEdges_def inDegree_def entryNodes_def background_nonleaf_def
  snapshotOutputs_def getBoolOutput_def shouldTraverse_def envelopeStatus_def Milliseconds_def
  synthesizeEnvelope_def share_claims_def publishLifecycle_def publishDeadLetter_def checkpoint_def
  record_envelope_def emit_timeline_def set_result_def fail_result_def unhandledNodeFailure_def
  edge_key_def enqueueEdge_def route_failure_def node_env_def node_failed_event_def denied_step_def
  missing_executor_step_def attribute_timeout_def adjust_result_def try_once_def announce_retry_def nodeValidationScopes_def
  publish_promotion_def apply_scope_def applyPromotions_def completed_payload_def record_execution_def
  execute_step_def visit_node_def initial_walk_def Execute_def

end
