(* ===== verification/Graph_Walk.thy ===== *)
theory Graph_Walk
  imports Graph_Executor
begin

text \<open>
  Properties of the graph walk. The locale \<open>walk_invariant\<close> is the contract between the walk and
  a property of its states: when every elementary change of the walk keeps the property, the
  whole of \<^verbatim>\<open>Execute\<close> keeps it up to its last step, which is one of four exits. Each safety
  property of the walk is an interpretation of that locale.
\<close>

section \<open>Effects that no property depends on\<close>

definition routine :: "effect \<Rightarrow> bool" where
  "routine x = (case x of
       Lifecycle ev \<Rightarrow> le_Event ev \<noteq> ''pipeline.failed'' \<and> le_Event ev \<noteq> ''pipeline.completed''
     | Checkpoint k r \<Rightarrow> True
     | Timeline k n p \<Rightarrow> True
     | _ \<Rightarrow> False)"

lemma publishLifecycle_result [simp]: "wk_result (publishLifecycle rt e ev s) = wk_result s"
  by (simp add: publishLifecycle_def Let_def split: option.splits)

lemma checkpoint_result [simp]: "wk_result (checkpoint rt e pn n r s) = wk_result s"
  by (simp add: checkpoint_def Let_def split: option.splits)

lemma record_envelope_result [simp]: "wk_result (record_envelope e env s) = wk_result s"
  by (simp add: record_envelope_def split: option.splits)

lemma emit_timeline_result [simp]: "wk_result (emit_timeline rt e k n p s) = wk_result s"
  by (simp add: emit_timeline_def)

lemma publishDeadLetter_result [simp]: "wk_result (publishDeadLetter rt e pn n m s) = wk_result s"
  by (simp add: publishDeadLetter_def Let_def split: option.splits)

lemma enqueueEdge_result [simp]: "wk_result (snd (enqueueEdge nm edge s)) = wk_result s"
  by (simp add: enqueueEdge_def Let_def)

lemma follow_edges_result [simp]: "wk_result (snd (follow_edges rt nm r es hs)) = wk_result (snd hs)"
proof (induction es arbitrary: hs)
  case (Cons edge es)
  obtain h s where hs: "hs = (h, s)" by (cases hs)
  obtain ok s' where q: "enqueueEdge nm edge s = (ok, s')" by fastforce
  then have "wk_result s' = wk_result s" using enqueueEdge_result [of nm edge s] by simp
  then show ?case using Cons hs q by simp
qed simp

text \<open>The marks and records in a trace; what the last step of a run adds is not among them.\<close>

definition core :: "effect list \<Rightarrow> effect list" where
  "core = filter (\<lambda>x. case x of Recorded env \<Rightarrow> True | Executed n k \<Rightarrow> True | Enqueued ed \<Rightarrow> True | _ \<Rightarrow> False)"

lemma core_publish [simp]: "core (wk_trace (publishLifecycle rt e ev s)) = core (wk_trace s)"
  by (simp add: publishLifecycle_def Let_def core_def split: option.splits)

lemma core_dead [simp]: "core (wk_trace (publishDeadLetter rt e pn n m s)) = core (wk_trace s)"
  by (simp add: publishDeadLetter_def Let_def core_def split: option.splits)

lemma core_checkpoint [simp]: "core (wk_trace (checkpoint rt e pn n r s)) = core (wk_trace s)"
  by (simp add: checkpoint_def Let_def core_def split: option.splits)

lemma core_emit [simp]: "core (wk_trace (emit_timeline rt e k n p s)) = core (wk_trace s)"
  by (simp add: emit_timeline_def core_def)

lemma in_core:
  "Recorded env \<in> set (core tr) \<longleftrightarrow> Recorded env \<in> set tr"
  "Executed n k \<in> set (core tr) \<longleftrightarrow> Executed n k \<in> set tr"
  by (auto simp: core_def)

lemma env_NodeID_synthesizeEnvelope [simp]: "env_NodeID (synthesizeEnvelope e now n r ms) = n"
  by (simp add: synthesizeEnvelope_def Let_def NodeResultEnvelope0_def split: option.splits)

lemma env_NodeID_Enforce [simp]: "env_NodeID (snd (Enforce d env)) = env_NodeID env"
  by (simp add: Enforce_def)

lemma env_Claims_synthesizeEnvelope:
  "env_Claims (synthesizeEnvelope e now n r ms) = (case nr_Envelope r of None \<Rightarrow> [] | Some x \<Rightarrow> env_Claims x)"
  by (simp add: synthesizeEnvelope_def Let_def NodeResultEnvelope0_def split: option.splits)

lemma build_nodeMap_ID:
  assumes "map_of (build_nodeMap graph) n = Some node"
  shows "node_ID node = n \<and> node \<in> set (graph_Nodes graph)"
proof -
  let ?I = "\<lambda>m. \<forall>k v. map_of m k = Some v \<longrightarrow> node_ID v = k \<and> v \<in> set (graph_Nodes graph)"
  have "?I (build_nodeMap graph)"
    unfolding build_nodeMap_def by (rule fold_invariant [where P = ?I]) auto
  then show ?thesis using assms by blast
qed

lemma outEdges_subset: "set (outEdges graph n) \<subseteq> set (graph_Edges graph)"
  by (auto simp: outEdges_def)

section \<open>The invariant contract\<close>

locale walk_invariant =
  fixes rt :: "'w runtime" and cd :: codec and e :: "'w GraphExecutor" and graph :: GraphSpec
    and P :: "'w walk \<Rightarrow> bool" and Q :: "NodeSpec \<Rightarrow> bool"
  assumes world: "P s \<Longrightarrow> P (s\<lparr>wk_world := w\<rparr>)"
    and noted: "P s \<Longrightarrow> routine x \<Longrightarrow> P (s\<lparr>wk_trace := wk_trace s @ [x]\<rparr>)"
    and popped: "P s \<Longrightarrow> wk_queue s = n # q \<Longrightarrow> map_of (build_nodeMap graph) n = Some node \<Longrightarrow>
      P (s\<lparr>wk_queue := q\<rparr>) \<and> Q node"
    and refused: "P s \<Longrightarrow> Q node \<Longrightarrow> nr_Envelope r = None \<Longrightarrow> env_Claims env = [] \<Longrightarrow>
      P (set_result (node_ID node) r env s)"
    and executed: "P s \<Longrightarrow> Q node \<Longrightarrow> AuthorizeNode (ge_bindings e) node = [] \<Longrightarrow>
      P (s\<lparr>wk_trace := wk_trace s @ [Executed (node_ID node) k]\<rparr>)"
    and finished: "P s \<Longrightarrow> Q node \<Longrightarrow> Get (ge_registry e) (node_Type node) = Inr exec \<Longrightarrow>
      (\<not> nx_Deterministic exec \<longrightarrow> \<not> HasValidated [env]) \<Longrightarrow> P (set_result (node_ID node) r env s)"
    and recorded: "P s \<Longrightarrow> map_of (xr_NodeEnvelopes (wk_result s)) (env_NodeID env) = Some env \<Longrightarrow>
      P (s\<lparr>wk_trace := wk_trace s @ [Recorded env]\<rparr>)"
    and promoted: "P s \<Longrightarrow> Q node \<Longrightarrow> node_Type node = ''gate'' \<Longrightarrow>
      Get (ge_registry e) (node_Type node) = Inr exec \<Longrightarrow> nx_Deterministic exec \<Longrightarrow>
      Promote (xr_NodeEnvelopes (wk_result s)) (node_ID node) scope = (envs, ps) \<Longrightarrow>
      P (s\<lparr>wk_result := (wk_result s)\<lparr>xr_NodeEnvelopes := envs,
           xr_NodeResults := share_claims envs (xr_NodeResults (wk_result s))\<rparr>\<rparr>)"
    and traversed: "P s \<Longrightarrow> edge \<in> set (graph_Edges graph) \<Longrightarrow>
      P (snd (enqueueEdge (build_nodeMap graph) edge s))"
begin

lemma world_noted:
  assumes "P s" and "routine x"
  shows "P (s\<lparr>wk_world := w, wk_trace := wk_trace s @ [x]\<rparr>)"
  using noted [OF world [OF assms(1), of w] assms(2)] by simp

lemma keeps_publish:
  assumes "P s" and "le_Event ev \<noteq> ''pipeline.failed''" and "le_Event ev \<noteq> ''pipeline.completed''"
  shows "P (publishLifecycle rt e ev s)"
  using assms by (auto simp: publishLifecycle_def Let_def routine_def intro!: world_noted split: option.splits)

lemma keeps_checkpoint: "P s \<Longrightarrow> P (checkpoint rt e pn n r s)"
  by (auto simp: checkpoint_def Let_def routine_def intro!: world_noted split: option.splits)

lemma keeps_emit: "P s \<Longrightarrow> P (emit_timeline rt e k n p s)"
  by (auto simp: emit_timeline_def routine_def intro!: world_noted)

lemma keeps_record:
  assumes "P s" and "map_of (xr_NodeEnvelopes (wk_result s)) (env_NodeID env) = Some env"
  shows "P (record_envelope e env s)"
  using recorded [OF world [OF assms(1)], where env = env] assms
  by (simp add: record_envelope_def split: option.splits)

lemma keeps_follow:
  "P (snd hs) \<Longrightarrow> set es \<subseteq> set (graph_Edges graph) \<Longrightarrow>
     P (snd (follow_edges rt (build_nodeMap graph) r es hs))"
proof (induction es arbitrary: hs)
  case (Cons edge es)
  obtain h s where hs: "hs = (h, s)" by (cases hs)
  obtain ok s' where q: "enqueueEdge (build_nodeMap graph) edge s = (ok, s')" by fastforce
  have "P s'" using traversed [of s edge] Cons.prems hs q by simp
  then show ?case using Cons hs q by simp
qed simp

lemma keeps_try:
  assumes "P s" and "Q node" and "AuthorizeNode (ge_bindings e) node = []"
  shows "P (snd (try_once rt exec node env c ts attempt s))"
  using executed [OF world [OF assms(1)] assms(2,3)] by (simp add: try_once_def split: prod.splits)

lemma keeps_retry:
  assumes "Q node" and "AuthorizeNode (ge_bindings e) node = []"
  shows "P s \<Longrightarrow> P (snd (retry_loop rt e exec pn node env c ts policy start attempt s))"
proof (induction "nat (pol_maxAttempts policy - attempt)" arbitrary: attempt s rule: less_induct)
  case less
  obtain r s1 where t: "try_once rt exec node env c ts attempt s = (r, s1)" by fastforce
  have s1: "P s1" using keeps_try [OF less.prems assms, of exec env c ts attempt] t by simp
  define s2 where "s2 = announce_retry rt e pn node policy start attempt r s1"
  have s2: "P s2" unfolding s2_def announce_retry_def by (intro keeps_emit keeps_publish s1) simp_all
  obtain ex w where wt: "rt_wait rt c (delayFor policy attempt) (wk_world s2) = (ex, w)" by fastforce
  have "P (snd (retry_loop rt e exec pn node env c ts policy start (attempt + 1) (s2\<lparr>wk_world := w\<rparr>)))"
    if "\<not> pol_maxAttempts policy \<le> attempt"
    using less.hyps [OF _ world [OF s2]] that by simp
  then show ?case
    using t s1 world [OF s2] wt by (subst retry_loop.simps) (simp add: s2_def [symmetric] Let_def)
qed

lemma keeps_unhandled:
  assumes "P s" and "unhandledNodeFailure rt e pn node msg s = (fatal, s')"
  shows "\<not> fatal \<and> P s' \<or> fatal \<and> \<not> IsBackground node"
  using assms by (auto simp: unhandledNodeFailure_def split: if_splits)

text \<open>How a visit of a node ends: the walk goes on with the property, or the run fails fatally.\<close>

definition fatal_exit :: "string \<Rightarrow> NodeSpec \<Rightarrow> 'w walk \<Rightarrow> bool" where
  "fatal_exit pn node s' \<longleftrightarrow>
     (\<exists>s1 msg r. P s1 \<and> Q node \<and> \<not> IsBackground node \<and>
        map_of (xr_NodeResults (wk_result s1)) (node_ID node) = Some r \<and> nr_Status r = StatusFailed \<and>
        s' = snd (unhandledNodeFailure rt e pn node msg s1))"

definition good_visit :: "string \<Rightarrow> NodeSpec \<Rightarrow> verdict \<times> 'w walk \<Rightarrow> bool" where
  "good_visit pn node vs \<longleftrightarrow>
     fst vs = Continue \<and> P (snd vs) \<or> fst vs = Return None \<and> fatal_exit pn node (snd vs)"

lemma good_unhandled:
  assumes "P s" and "Q node" and "map_of (xr_NodeResults (wk_result s)) (node_ID node) = Some r"
    and "nr_Status r = StatusFailed"
  shows "good_visit pn node (case unhandledNodeFailure rt e pn node msg s of
           (fatal, s2) \<Rightarrow> (if fatal then Return None else Continue, s2))"
proof -
  obtain fatal s2 where u: "unhandledNodeFailure rt e pn node msg s = (fatal, s2)" by fastforce
  show ?thesis
  proof (cases fatal)
    case True
    then have "fatal_exit pn node s2"
      unfolding fatal_exit_def using assms u keeps_unhandled [OF assms(1) u] by (metis snd_conv)
    then show ?thesis using True u by (simp add: good_visit_def)
  next
    case False
    then show ?thesis using u keeps_unhandled [OF assms(1) u] by (simp add: good_visit_def)
  qed
qed

lemma good_route:
  assumes "P s" and "Q node" and "map_of (xr_NodeResults (wk_result s)) (node_ID node) = Some r'"
    and "nr_Status r' = StatusFailed"
  shows "good_visit pn node (route_failure rt e graph (build_nodeMap graph) pn node r msg s)"
proof -
  obtain h s1 where f: "follow_edges rt (build_nodeMap graph) r (outEdges graph (node_ID node)) (False, s) = (h, s1)"
    by fastforce
  have "P s1" using keeps_follow [of "(False, s)" "outEdges graph (node_ID node)" r] assms(1) f outEdges_subset
    by (metis snd_conv)
  moreover have "wk_result s1 = wk_result s"
    using follow_edges_result [of rt "build_nodeMap graph" r "outEdges graph (node_ID node)" "(False, s)"] f by simp
  ultimately show ?thesis
    using f good_unhandled [of s1 node r' pn msg] assms by (simp add: route_failure_def good_visit_def)
qed

lemma map_of_set_result [simp]:
  "map_of (xr_NodeResults (wk_result (set_result n r env s))) n = Some r"
  "map_of (xr_NodeEnvelopes (wk_result (set_result n r env s))) n = Some env"
  by (simp_all add: set_result_def)

lemma good_denied:
  assumes "P s" and "Q node"
  shows "good_visit pn node (denied_step rt e graph (build_nodeMap graph) pn node violations s)"
  unfolding denied_step_def Let_def
  by (rule good_route [where r' = "NodeResult0\<lparr>nr_Status := StatusFailed, nr_Feedback := FormatViolations violations\<rparr>"])
     (auto simp: node_failed_event_def env_Claims_synthesizeEnvelope NodeResult0_def
       intro!: keeps_publish keeps_checkpoint keeps_record refused assms)

lemma good_missing:
  assumes "P s" and "Q node"
  shows "good_visit pn node (missing_executor_step rt e pn node start err s)"
  unfolding missing_executor_step_def Let_def
  by (rule good_unhandled [where r = "NodeResult0\<lparr>nr_Status := StatusFailed, nr_Feedback := err\<rparr>"])
     (auto simp: node_failed_event_def env_Claims_synthesizeEnvelope NodeResult0_def
       intro!: keeps_publish keeps_record refused assms)

lemma keeps_scope:
  assumes "P s" and "Q node" and "node_Type node = ''gate''"
    and "Get (ge_registry e) (node_Type node) = Inr exec" and "nx_Deterministic exec"
  shows "P (apply_scope rt e pn (node_ID node) scope s)"
proof -
  obtain envs ps where p: "Promote (xr_NodeEnvelopes (wk_result s)) (node_ID node) scope = (envs, ps)"
    by fastforce
  have "P (publish_promotion rt e pn (node_ID node) q t)" if "P t" for q t
    using that by (auto simp: publish_promotion_def intro!: keeps_publish split: option.splits)
  then show ?thesis
    using promoted [OF assms p] p
    by (auto simp: apply_scope_def intro!: fold_invariant [where P = P])
qed

lemma keeps_promotions:
  assumes "P s" and "Q node" and "Get (ge_registry e) (node_Type node) = Inr exec" and "nx_Deterministic exec"
  shows "P (applyPromotions rt cd e pn node s)"
proof (cases "node_Type node = ''gate''")
  case True
  then show ?thesis
    unfolding applyPromotions_def using assms
    by (intro fold_invariant [where P = P] keeps_scope) simp_all
next
  case False
  then show ?thesis using assms(1) by (simp add: applyPromotions_def nodeValidationScopes_def)
qed

lemma enforced:
  "\<not> d \<Longrightarrow> \<not> HasValidated [snd (Enforce d env)]"
  by (auto simp: HasValidated_iff Enforce_def demote_def)

lemma keeps_record_execution:
  assumes "P s" and "Q node" and "Get (ge_registry e) (node_Type node) = Inr exec"
    and "record_execution rt e exec pn node start r s = (r', s')"
  shows "P s' \<and> map_of (xr_NodeResults (wk_result s')) (node_ID node) = Some r'"
proof -
  define s1 where "s1 = emit_timeline rt e ''node.completed'' (node_ID node)
    (completed_payload node r (Milliseconds (rt_now rt (wk_world s) - start))) s"
  define env where "env = snd (Enforce (nx_Deterministic exec)
    (synthesizeEnvelope e (rt_now rt (wk_world s1)) (node_ID node) r
       (Milliseconds (rt_now rt (wk_world s) - start))))"
  have "P s1" unfolding s1_def by (rule keeps_emit [OF assms(1)])
  then have "P (set_result (node_ID node) r' env s1)"
    using enforced by (intro finished [OF _ assms(2,3)]) (simp_all add: env_def)
  then have "P (publishLifecycle rt e ev (checkpoint rt e pn (node_ID node) r'
      (record_envelope e env (set_result (node_ID node) r' env s1))))"
    if "le_Event ev = ''node.failed'' \<or> le_Event ev = ''node.completed''" for ev
    using that by (intro keeps_publish keeps_checkpoint keeps_record) (auto simp: env_def)
  then show ?thesis
    using assms(4) by (auto simp: record_execution_def Let_def s1_def [symmetric] env_def [symmetric])
qed

lemma good_execute:
  assumes "P s" and "Q node" and "AuthorizeNode (ge_bindings e) node = []"
    and "Get (ge_registry e) (node_Type node) = Inr exec"
  shows "good_visit pn node (execute_step rt cd e graph (build_nodeMap graph) c pn node env start exec s)"
proof -
  obtain r s2 where a: "retry_loop rt e exec pn node env (bounded_ctx rt c (node_Timeout node) (wk_world s))
      (if node_Timeout node \<noteq> [] \<and> positive_duration (node_Timeout node) \<noteq> None then node_Timeout node else [])
      (retryPolicyOf (node_Retry node)) start 1
      (emit_timeline rt e ''node.started'' (node_ID node) [(''type'', VStr (node_Type node))] s) = (r, s2)"
    by fastforce
  obtain r' s3 where b: "record_execution rt e exec pn node start r s2 = (r', s3)" by fastforce
  have "P s2" using keeps_retry [OF assms(2,3) keeps_emit [OF assms(1)]] a by (metis snd_conv)
  note s3 = keeps_record_execution [OF this assms(2,4) b]
  define s4 where "s4 = (if nr_Status r' = StatusGreen \<and> nx_Deterministic exec
    then applyPromotions rt cd e pn node s3 else s3)"
  have "P s4" using s3 keeps_promotions assms by (simp add: s4_def)
  then have "P (snd (follow_edges rt (build_nodeMap graph) r' (outEdges graph (node_ID node)) (False, s4)))"
    using outEdges_subset by (intro keeps_follow) simp_all
  then have green: "good_visit pn node
      (Continue, snd (follow_edges rt (build_nodeMap graph) r' (outEdges graph (node_ID node)) (False, s4)))"
    by (simp add: good_visit_def)
  have "execute_step rt cd e graph (build_nodeMap graph) c pn node env start exec s =
      (if nr_Status r' = StatusFailed
       then route_failure rt e graph (build_nodeMap graph) pn node r'
              (''node '' @ node_ID node @ '' failed: '' @ nr_Feedback r') s3
       else (Continue, snd (follow_edges rt (build_nodeMap graph) r' (outEdges graph (node_ID node)) (False, s4))))"
    using a b by (simp add: execute_step_def Let_def s4_def)
  then show ?thesis using green good_route [of s3 node r'] s3 assms(2) by simp
qed

lemma good_visit_node:
  assumes "P s" and "Q node"
  shows "good_visit pn node (visit_node rt cd e graph (build_nodeMap graph) c pn node s)"
proof (cases "AuthorizeNode (ge_bindings e) node = []")
  case True
  have s1: "P (publishLifecycle rt e (LifecycleEvent0\<lparr>le_Event := ''node.started'', le_Pipeline := pn,
      le_Node := node_ID node, le_NodeType := node_Type node\<rparr>) s)"
    by (intro keeps_publish assms) simp_all
  show ?thesis
    using True good_missing [OF s1 assms(2)] good_execute [OF s1 assms(2) True]
    by (simp add: visit_node_def Let_def split: sum.splits)
next
  case False
  then show ?thesis using good_denied [OF assms] by (simp add: visit_node_def)
qed

text \<open>The four ways out of the loop, with the property in the state before the last step.\<close>

definition good_exit :: "string \<Rightarrow> string option \<times> 'w walk \<Rightarrow> bool" where
  "good_exit pn es \<longleftrightarrow>
     (\<exists>s1. P s1 \<and> wk_queue s1 = [] \<and> fst es = None \<and>
        snd es = publishLifecycle rt e (LifecycleEvent0\<lparr>le_Event := ''pipeline.completed'', le_Pipeline := pn,
           le_Status := StatusGreen\<rparr>) (s1\<lparr>wk_result := (wk_result s1)\<lparr>xr_Message := ''pipeline completed''\<rparr>\<rparr>)) \<or>
     (\<exists>s1 msg. P s1 \<and> fst es = Some msg \<and> snd es = fail_result msg (s1\<lparr>wk_queue := wk_queue (snd es)\<rparr>)) \<or>
     (\<exists>node. node \<in> set (graph_Nodes graph) \<and> fst es = None \<and> fatal_exit pn node (snd es))"

lemma good_walk: "P s \<Longrightarrow> good_exit pn (walk_loop rt cd e graph (build_nodeMap graph) c pn k s)"
proof (induction "MaxIterations - k" arbitrary: k s rule: less_induct)
  case less
  show ?case
  proof (cases "wk_queue s")
    case Nil
    then show ?thesis using less.prems by (subst walk_loop.simps) (auto simp: good_exit_def)
  next
    case (Cons n q)
    show ?thesis
    proof (cases "MaxIterations \<le> k \<or> map_of (build_nodeMap graph) n = None")
      case True
      then show ?thesis using less.prems Cons
        by (subst walk_loop.simps) (auto simp: good_exit_def fail_result_def Let_def)
    next
      case False
      then obtain node where node: "map_of (build_nodeMap graph) n = Some node" by blast
      note pop = popped [OF less.prems Cons node]
      obtain v s2 where v: "visit_node rt cd e graph (build_nodeMap graph) c pn node (s\<lparr>wk_queue := q\<rparr>) = (v, s2)"
        by fastforce
      have good: "good_visit pn node (v, s2)"
        using good_visit_node [of "s\<lparr>wk_queue := q\<rparr>" node pn c] pop v by simp
      have step: "walk_loop rt cd e graph (build_nodeMap graph) c pn k s =
          (case v of Continue \<Rightarrow> walk_loop rt cd e graph (build_nodeMap graph) c pn (k + 1) s2
           | Return err \<Rightarrow> (err, s2))"
        using False Cons node v by (subst walk_loop.simps) simp
      show ?thesis
      proof (cases v)
        case Continue
        have "MaxIterations - (k + 1) < MaxIterations - k" using False by linarith
        then show ?thesis using less.hyps [of "k + 1" s2] good Continue step by (simp add: good_visit_def)
      next
        case (Return err)
        then show ?thesis using good step build_nodeMap_ID [OF node] by (auto simp: good_visit_def good_exit_def)
      qed
    qed
  qed
qed

lemma good_Execute:
  assumes "\<And>queue. queue = entryNodes graph (build_nodeMap graph) \<Longrightarrow> P ((initial_walk w)\<lparr>wk_queue := queue\<rparr>)"
  shows "good_exit pn (Execute rt cd e c graph pn w) \<or>
    (\<exists>err msg. Execute rt cd e c graph pn w = (Some err, fail_result msg (initial_walk w)))"
proof -
  have "P (publishLifecycle rt e (LifecycleEvent0\<lparr>le_Event := ''pipeline.started'', le_Pipeline := pn\<rparr>)
      ((initial_walk w)\<lparr>wk_queue := entryNodes graph (build_nodeMap graph)\<rparr>))"
    by (intro keeps_publish assms) simp_all
  from good_walk [OF this] show ?thesis
    by (auto simp: Execute_def Let_def split: option.splits list.splits)
qed

lemma exit_core:
  assumes "good_exit pn (err, s')"
  obtains s1 where "P s1" "core (wk_trace s') = core (wk_trace s1)"
    "xr_NodeEnvelopes (wk_result s') = xr_NodeEnvelopes (wk_result s1)"
    "xr_NodeResults (wk_result s') = xr_NodeResults (wk_result s1)"
proof -
  have "\<exists>s1. P s1 \<and> core (wk_trace s') = core (wk_trace s1) \<and>
      xr_NodeEnvelopes (wk_result s') = xr_NodeEnvelopes (wk_result s1) \<and>
      xr_NodeResults (wk_result s') = xr_NodeResults (wk_result s1)"
    using assms unfolding good_exit_def
  proof (elim disjE exE conjE, goal_cases)
    case (1 s1)
    then show ?case by (intro exI [of _ s1]) simp
  next
    case (2 s1 msg)
    have eq: "s' = fail_result msg (s1\<lparr>wk_queue := wk_queue s'\<rparr>)" using 2 by simp
    show ?case by (rule exI [of _ s1], subst eq, subst eq, subst eq) (simp add: fail_result_def 2(1))
  next
    case (3 node)
    then show ?case unfolding fatal_exit_def by (auto simp: unhandledNodeFailure_def fail_result_def)
  qed
  then show thesis using that by blast
qed

lemma Execute_core:
  assumes "\<And>queue. queue = entryNodes graph (build_nodeMap graph) \<Longrightarrow> P ((initial_walk w)\<lparr>wk_queue := queue\<rparr>)"
    and "Execute rt cd e c graph pn w = (err, s')"
  obtains s1 where "P s1" "core (wk_trace s') = core (wk_trace s1)"
    "xr_NodeEnvelopes (wk_result s') = xr_NodeEnvelopes (wk_result s1)"
    "xr_NodeResults (wk_result s') = xr_NodeResults (wk_result s1)"
proof -
  consider "good_exit pn (err, s')" | msg where "s' = fail_result msg (initial_walk w)"
    using good_Execute [OF assms(1), of pn c] assms(2) by auto
  then show thesis
  proof cases
    case 1
    then show ?thesis by (rule exit_core) (rule that)
  next
    case 2
    then show ?thesis
      using that [OF assms(1) [OF refl]] by (simp add: fail_result_def)
  qed
qed

end

end
