(* ===== verification/Graph_Props.thy ===== *)
theory Graph_Props
  imports Graph_Walk
begin

text \<open>
  The guarantees of the graph walk: trust (ADR-0004), capability policy and external nodes
  (ADR-0003), loop-back bounds, the failure contract with its dead letters and background nodes,
  the retry budget, and the bound on the work of a run. The safety properties are interpretations
  of the contract \<open>walk_invariant\<close> of \<^verbatim>\<open>Graph_Walk\<close>.
\<close>

section \<open>Trust\<close>

definition deterministic_node :: "'w GraphExecutor \<Rightarrow> NodeSpec \<Rightarrow> bool" where
  "deterministic_node e node =
     (case Get (ge_registry e) (node_Type node) of Inl err \<Rightarrow> False | Inr x \<Rightarrow> nx_Deterministic x)"

text \<open>
  A claim of node \<open>n\<close> has a licence when it is not validated, or a deterministic node asserted it,
  or a deterministic gate of the graph stamped it.
\<close>

definition licensed :: "'w GraphExecutor \<Rightarrow> GraphSpec \<Rightarrow> string \<Rightarrow> Claim \<Rightarrow> bool" where
  "licensed e graph n c \<longleftrightarrow>
     claim_TrustClass c \<noteq> ClaimTrustValidated \<or>
     list_ex (\<lambda>node. node_ID node = n \<and> deterministic_node e node) (graph_Nodes graph) \<or>
     list_ex (\<lambda>gate. node_Type gate = ''gate'' \<and> deterministic_node e gate \<and>
                     claim_ValidatedBy c = node_ID gate) (graph_Nodes graph)"

definition trust_inv :: "'w GraphExecutor \<Rightarrow> GraphSpec \<Rightarrow> 'w walk \<Rightarrow> bool" where
  "trust_inv e graph s \<longleftrightarrow>
     (\<forall>n env. map_of (xr_NodeEnvelopes (wk_result s)) n = Some env \<longrightarrow>
        list_all (licensed e graph n) (env_Claims env)) \<and>
     (\<forall>env. Recorded env \<in> set (wk_trace s) \<longrightarrow> list_all (licensed e graph (env_NodeID env)) (env_Claims env))"

lemma licensed_promote:
  assumes "licensed e graph n c" and "gate \<in> set (graph_Nodes graph)" and "node_Type gate = ''gate''"
    and "deterministic_node e gate"
  shows "licensed e graph n (promote_claim (node_ID gate) scope c)"
proof (cases "promotable scope c")
  case True
  then show ?thesis using assms by (auto simp: licensed_def promote_claim_def list_ex_iff)
qed (use assms in \<open>simp add: promote_claim_def\<close>)

interpretation trust: walk_invariant rt cd e graph "trust_inv e graph" "\<lambda>node. node \<in> set (graph_Nodes graph)"
  for rt cd e graph
proof (unfold_locales, goal_cases)
  case (3 s n q node)
  then show ?case using build_nodeMap_ID [OF 3(3)] by (simp add: trust_inv_def)
next
  case (6 s node exec env r)
  have "licensed e graph (node_ID node) c" if "c \<in> set (env_Claims env)" for c
  proof (cases "nx_Deterministic exec")
    case True
    then show ?thesis using 6 by (auto simp: licensed_def deterministic_node_def list_ex_iff)
  next
    case False
    then show ?thesis using 6 that by (auto simp: licensed_def HasValidated_iff)
  qed
  then show ?case using 6 by (simp add: trust_inv_def set_result_def list_all_iff)
next
  case (8 s node exec scope envs ps)
  have gate: "deterministic_node e node" using 8 by (simp add: deterministic_node_def)
  have "list_all (licensed e graph n) (env_Claims env)" if "map_of envs n = Some env" for n env
  proof -
    have "map_of (fst (Promote (xr_NodeEnvelopes (wk_result s)) (node_ID node) scope)) n = Some env"
      using 8(6) that by simp
    then obtain env0 where "map_of (xr_NodeEnvelopes (wk_result s)) n = Some env0"
      and env: "env = (if scope_IsEmpty scope then env0 else promote.decide_envelope (node_ID node) scope env0)"
      by (auto simp: map_of_Promote)
    then have "list_all (licensed e graph n) (env_Claims env0)" using 8(1) by (simp add: trust_inv_def)
    then show ?thesis
      using licensed_promote [OF _ 8(2,3) gate]
      by (auto simp: env promote.decide_envelope_def list_all_iff)
  qed
  then show ?case using 8(1) by (simp add: trust_inv_def)
qed (auto simp: trust_inv_def routine_def set_result_def enqueueEdge_def Let_def)

section \<open>Capability policy and external nodes\<close>

definition policy_inv :: "'w GraphExecutor \<Rightarrow> GraphSpec \<Rightarrow> 'w walk \<Rightarrow> bool" where
  "policy_inv e graph s \<longleftrightarrow>
     (\<forall>n k. Executed n k \<in> set (wk_trace s) \<longrightarrow>
        list_ex (\<lambda>node. node_ID node = n \<and> AuthorizeNode (ge_bindings e) node = [] \<and>
                        node_Type node \<noteq> NodeTypeExternal) (graph_Nodes graph)) \<and>
     (\<forall>n \<in> set (wk_queue s). \<not> isExternalNode (build_nodeMap graph) n)"

interpretation policy: walk_invariant rt cd e graph "policy_inv e graph"
    "\<lambda>node. node \<in> set (graph_Nodes graph) \<and> node_Type node \<noteq> NodeTypeExternal"
  for rt cd e graph
proof (unfold_locales, goal_cases)
  case (3 s n q node)
  then have "\<not> isExternalNode (build_nodeMap graph) n" by (simp add: policy_inv_def)
  then have "node_Type node \<noteq> NodeTypeExternal" using 3(3) by (simp add: isExternalNode_def)
  then show ?case using 3 build_nodeMap_ID [OF 3(3)] by (simp add: policy_inv_def)
qed (auto simp: policy_inv_def routine_def set_result_def enqueueEdge_def Let_def list_ex_iff)

section \<open>Loop-back bounds\<close>

definition traversals :: "EdgeSpec \<Rightarrow> effect list \<Rightarrow> nat" where
  "traversals edge tr = length (filter (\<lambda>x. x = Enqueued edge) tr)"

definition key_traversals :: "string \<Rightarrow> effect list \<Rightarrow> nat" where
  "key_traversals key tr = length (filter (\<lambda>x. case x of Enqueued e \<Rightarrow> edge_key e = key | _ \<Rightarrow> False) tr)"

definition retries_inv :: "'w walk \<Rightarrow> bool" where
  "retries_inv s \<longleftrightarrow>
     (\<forall>key. int (key_traversals key (wk_trace s)) \<le> map_get (wk_edgeCount s) key 0) \<and>
     (\<forall>edge. 0 < edge_MaxRetries edge \<longrightarrow> int (traversals edge (wk_trace s)) \<le> edge_MaxRetries edge)"

lemma traversals_le_key: "traversals edge tr \<le> key_traversals (edge_key edge) tr"
  unfolding traversals_def key_traversals_def by (induction tr) auto

lemma traversals_snoc:
  "traversals edge (tr @ [x]) = traversals edge tr + (if x = Enqueued edge then 1 else 0)"
  "key_traversals key (tr @ [x]) =
     key_traversals key tr + (case x of Enqueued e \<Rightarrow> if edge_key e = key then 1 else 0 | _ \<Rightarrow> 0)"
  by (auto simp: traversals_def key_traversals_def split: effect.splits)

lemma retries_enqueue:
  assumes "retries_inv s"
  shows "retries_inv (snd (enqueueEdge nm edge s))"
proof (cases "isExternalNode nm (edge_To edge)")
  case True
  then show ?thesis using assms by (simp add: enqueueEdge_def)
next
  case False
  let ?n = "map_get (wk_edgeCount s) (edge_key edge) 0 + 1"
  have k: "int (key_traversals key (wk_trace s)) \<le> map_get (wk_edgeCount s) key 0" for key
    using assms by (simp add: retries_inv_def)
  have c: "int (traversals edge (wk_trace s)) < ?n"
    using k [of "edge_key edge"] traversals_le_key [of edge "wk_trace s"] by linarith
  have k': "int (key_traversals key (wk_trace s)) + 1 \<le> map_get (wk_edgeCount s) key 0 + 1" for key
    using k [of key] by simp
  show ?thesis
  proof (cases "0 < edge_MaxRetries edge \<and> edge_MaxRetries edge < ?n")
    case True
    then show ?thesis
      using assms False k order_trans [OF k [of "edge_key edge"]]
      by (auto simp: enqueueEdge_def Let_def retries_inv_def)
  next
    case cap: False
    have "int (traversals edge (wk_trace s)) + 1 \<le> edge_MaxRetries edge" if "0 < edge_MaxRetries edge"
      using that cap c by linarith
    then show ?thesis
      using assms False cap k' by (auto simp: enqueueEdge_def Let_def retries_inv_def traversals_snoc)
  qed
qed

interpretation retries: walk_invariant rt cd e graph retries_inv "\<lambda>node. True" for rt cd e graph
  by unfold_locales
     (auto simp: retries_enqueue, auto simp: retries_inv_def routine_def set_result_def traversals_snoc split: effect.splits)

section \<open>The failure contract\<close>

definition pending_inv :: "'w walk \<Rightarrow> bool" where
  "pending_inv s \<longleftrightarrow> xr_Status (wk_result s) = StatusGreen \<and>
     (\<forall>d. DeadLetter d \<notin> set (wk_trace s)) \<and>
     (\<forall>ev. Lifecycle ev \<in> set (wk_trace s) \<longrightarrow>
        le_Event ev \<noteq> ''pipeline.failed'' \<and> le_Event ev \<noteq> ''pipeline.completed'')"

interpretation pending: walk_invariant rt cd e graph pending_inv "\<lambda>node. node \<in> set (graph_Nodes graph)"
  for rt cd e graph
proof (unfold_locales, goal_cases)
  case (3 s n q node)
  then show ?case using build_nodeMap_ID [OF 3(3)] by (simp add: pending_inv_def)
qed (auto simp: pending_inv_def routine_def set_result_def enqueueEdge_def Let_def)

lemma dead_published:
  assumes "ge_dapr e" and "\<forall>d. ge_marshalDead e d \<noteq> None"
  shows "\<exists>d. wk_trace (publishDeadLetter rt e pn n m s) = wk_trace s @ [DeadLetter d] \<and> dl_FailedNode d = n"
proof -
  let ?d = "\<lparr>dl_Pipeline = pn, dl_FailedNode = n, dl_Error = m,
    dl_NodeResults = xr_NodeResults (wk_result s), dl_TriggeredBy = ge_triggeredBy e,
    dl_TriggerSource = ge_triggerSource e, dl_Timestamp = rt_now rt (wk_world s)\<rparr>"
  obtain b where "ge_marshalDead e ?d = Some b" using assms(2) by blast
  then show ?thesis using assms(1) by (simp add: publishDeadLetter_def)
qed

lemma fatal_step:
  assumes "\<not> IsBackground node"
  shows "wk_result (snd (unhandledNodeFailure rt e pn node msg s)) =
      (wk_result s)\<lparr>xr_Status := StatusFailed, xr_Message := msg\<rparr>"
    and "ge_dapr e \<Longrightarrow> \<forall>d. ge_marshalDead e d \<noteq> None \<Longrightarrow>
      \<exists>d. last (wk_trace (snd (unhandledNodeFailure rt e pn node msg s))) = DeadLetter d \<and> dl_FailedNode d = node_ID node"
    and "DeadLetter d \<in> set (wk_trace (snd (unhandledNodeFailure rt e pn node msg s))) \<Longrightarrow>
      DeadLetter d \<in> set (wk_trace s) \<or>
      last (wk_trace (snd (unhandledNodeFailure rt e pn node msg s))) = DeadLetter d \<and> dl_Error d = msg"
proof -
  show "wk_result (snd (unhandledNodeFailure rt e pn node msg s)) =
      (wk_result s)\<lparr>xr_Status := StatusFailed, xr_Message := msg\<rparr>"
    using assms by (simp add: unhandledNodeFailure_def fail_result_def)
next
  assume w: "ge_dapr e" "\<forall>d. ge_marshalDead e d \<noteq> None"
  obtain t where t: "snd (unhandledNodeFailure rt e pn node msg s) = publishDeadLetter rt e pn (node_ID node) msg t"
    using assms by (simp add: unhandledNodeFailure_def)
  from dead_published [OF w, of rt pn "node_ID node" msg t] show "\<exists>d. last (wk_trace (snd (unhandledNodeFailure rt e pn node msg s))) = DeadLetter d \<and>
      dl_FailedNode d = node_ID node"
    unfolding t by auto
next
  assume "DeadLetter d \<in> set (wk_trace (snd (unhandledNodeFailure rt e pn node msg s)))"
  then show "DeadLetter d \<in> set (wk_trace s) \<or>
      last (wk_trace (snd (unhandledNodeFailure rt e pn node msg s))) = DeadLetter d \<and> dl_Error d = msg"
    using assms by (auto simp: unhandledNodeFailure_def publishDeadLetter_def publishLifecycle_def fail_result_def
        Let_def split: option.splits if_splits)
qed

section \<open>The retry loop\<close>

definition executions :: "effect list \<Rightarrow> effect list" where
  "executions = filter (\<lambda>x. case x of Executed n k \<Rightarrow> True | _ \<Rightarrow> False)"

lemma executions_core: "executions tr = executions (core tr)"
  by (induction tr) (auto simp: executions_def core_def split: effect.splits)

lemma executions_frame [simp]:
  "executions (wk_trace (publishLifecycle rt e ev s)) = executions (wk_trace s)"
  "executions (wk_trace (publishDeadLetter rt e pn n m s)) = executions (wk_trace s)"
  "executions (wk_trace (checkpoint rt e pn n r s)) = executions (wk_trace s)"
  "executions (wk_trace (emit_timeline rt e k n p s)) = executions (wk_trace s)"
  by (metis executions_core core_publish, metis executions_core core_dead,
      metis executions_core core_checkpoint, metis executions_core core_emit)

lemma executions_snoc:
  "executions (tr @ [x]) = executions tr @ (case x of Executed n k \<Rightarrow> [x] | _ \<Rightarrow> [])"
  by (simp add: executions_def split: effect.splits)

lemma executions_record [simp]: "executions (wk_trace (record_envelope e env s)) = executions (wk_trace s)"
  by (simp add: record_envelope_def executions_snoc split: option.splits)

lemma executions_set_result [simp]: "executions (wk_trace (set_result n r env s)) = executions (wk_trace s)"
  by (simp add: set_result_def)

lemma executions_fail [simp]: "executions (wk_trace (fail_result m s)) = executions (wk_trace s)"
  by (simp add: fail_result_def)

lemma executions_enqueue [simp]: "executions (wk_trace (snd (enqueueEdge nm edge s))) = executions (wk_trace s)"
  by (simp add: enqueueEdge_def Let_def executions_snoc)

lemma executions_follow [simp]:
  "executions (wk_trace (snd (follow_edges rt nm r es hs))) = executions (wk_trace (snd hs))"
proof (induction es arbitrary: hs)
  case (Cons edge es)
  obtain h s where hs: "hs = (h, s)" by (cases hs)
  obtain ok s' where q: "enqueueEdge nm edge s = (ok, s')" by fastforce
  then have "executions (wk_trace s') = executions (wk_trace s)" using executions_enqueue [of nm edge s] by simp
  then show ?case using Cons hs q by simp
qed simp

lemma executions_unhandled [simp]:
  "executions (wk_trace (snd (unhandledNodeFailure rt e pn node m s))) = executions (wk_trace s)"
  by (simp add: unhandledNodeFailure_def)

lemma executions_route [simp]:
  "executions (wk_trace (snd (route_failure rt e g nm pn node r m s))) = executions (wk_trace s)"
proof -
  obtain h s1 where f: "follow_edges rt nm r (outEdges g (node_ID node)) (False, s) = (h, s1)" by fastforce
  then have "executions (wk_trace s1) = executions (wk_trace s)"
    using executions_follow [of rt nm r "outEdges g (node_ID node)" "(False, s)"] by simp
  moreover have "executions (wk_trace (snd (unhandledNodeFailure rt e pn node m s1))) = executions (wk_trace s1)"
    by simp
  ultimately show ?thesis using f by (simp add: route_failure_def case_prod_beta)
qed

lemma executions_promotions [simp]:
  "executions (wk_trace (applyPromotions rt cd e pn node s)) = executions (wk_trace s)"
proof -
  let ?I = "\<lambda>t. executions (wk_trace t) = executions (wk_trace s)"
  have pub: "?I (publish_promotion rt e pn n q t)" if "?I t" for n q t
    using that by (simp add: publish_promotion_def split: option.splits)
  have "?I (apply_scope rt e pn (node_ID node) scope t)" if "?I t" for scope t
    using that by (auto simp: apply_scope_def intro!: fold_invariant [where P = ?I] pub split: prod.splits)
  then show ?thesis unfolding applyPromotions_def by (intro fold_invariant [where P = ?I]) simp_all
qed

lemma retry_loop_attempts:
  assumes "attempt \<le> pol_maxAttempts policy"
    and "retry_loop rt e exec pn node env c ts policy start attempt s = (r, s')"
  shows "attempt \<le> nr_Attempt r \<and> nr_Attempt r \<le> pol_maxAttempts policy \<and>
    executions (wk_trace s') = executions (wk_trace s) @ map (Executed (node_ID node)) [attempt..nr_Attempt r]"
  using assms
proof (induction "nat (pol_maxAttempts policy - attempt)" arbitrary: attempt s rule: less_induct)
  case less
  obtain r1 s1 where t: "try_once rt exec node env c ts attempt s = (r1, s1)" by fastforce
  have x1: "executions (wk_trace s1) = executions (wk_trace s) @ [Executed (node_ID node) attempt]"
    using t by (auto simp: try_once_def executions_snoc split: prod.splits)
  define s2 where "s2 = announce_retry rt e pn node policy start attempt r1 s1"
  have x2: "executions (wk_trace s2) = executions (wk_trace s1)" by (simp add: s2_def announce_retry_def)
  obtain ex w where wt: "rt_wait rt c (delayFor policy attempt) (wk_world s2) = (ex, w)" by fastforce
  have eq: "retry_loop rt e exec pn node env c ts policy start attempt s =
      (if \<not> nr_Transient r1 \<or> pol_maxAttempts policy \<le> attempt \<or> ctx_err rt c (wk_world s1) \<noteq> None
       then (r1\<lparr>nr_Attempt := attempt\<rparr>, s1)
       else if ex then (r1\<lparr>nr_Attempt := attempt\<rparr>, s2\<lparr>wk_world := w\<rparr>)
       else retry_loop rt e exec pn node env c ts policy start (attempt + 1) (s2\<lparr>wk_world := w\<rparr>))"
    using t wt by (subst retry_loop.simps) (simp add: s2_def [symmetric] Let_def)
  show ?case
  proof (cases "(\<not> nr_Transient r1 \<or> pol_maxAttempts policy \<le> attempt \<or> ctx_err rt c (wk_world s1) \<noteq> None) \<or> ex")
    case True
    then have "nr_Attempt r = attempt \<and> executions (wk_trace s') = executions (wk_trace s1)"
      using less.prems(2) eq x2 by (auto split: if_splits)
    then show ?thesis using less.prems(1) x1 by simp
  next
    case False
    have ih: "attempt + 1 \<le> nr_Attempt r \<and> nr_Attempt r \<le> pol_maxAttempts policy \<and>
        executions (wk_trace s') = executions (wk_trace (s2\<lparr>wk_world := w\<rparr>)) @
          map (Executed (node_ID node)) [attempt + 1..nr_Attempt r]"
      using less.prems False eq by (intro less.hyps) auto
    then show ?thesis using x1 x2 by (simp add: upto_rec1)
  qed
qed

lemma policy_attempts: "1 \<le> pol_maxAttempts (retryPolicyOf sp) \<and> pol_maxAttempts (retryPolicyOf sp) \<le> 5"
  by (auto simp: retryPolicyOf_def Let_def split: option.splits)

lemma visit_executions:
  "length (executions (wk_trace (snd (visit_node rt cd e g nm c pn node s)))) \<le>
     length (executions (wk_trace s)) + 5"
proof -
  have den: "executions (wk_trace (snd (denied_step rt e g nm pn node vs s))) = executions (wk_trace s)" for vs
    by (simp add: denied_step_def Let_def)
  have mis: "executions (wk_trace (snd (missing_executor_step rt e pn node st err t))) = executions (wk_trace t)"
    for st err t
  proof -
    have "executions (wk_trace (snd (case unhandledNodeFailure rt e pn node m u of
        (fatal, s3) \<Rightarrow> (if fatal then Return None else Continue, s3)))) = executions (wk_trace u)" for m u
      using executions_unhandled [of rt e pn node m u] by (simp add: case_prod_beta)
    then show ?thesis by (simp add: missing_executor_step_def Let_def)
  qed
  have exe: "length (executions (wk_trace (snd (execute_step rt cd e g nm c pn node env st x t)))) \<le>
      length (executions (wk_trace t)) + 5" for env st x t
  proof -
    define t1 where "t1 = emit_timeline rt e ''node.started'' (node_ID node) [(''type'', VStr (node_Type node))] t"
    obtain r s2 where a: "retry_loop rt e x pn node env (bounded_ctx rt c (node_Timeout node) (wk_world t))
        (if node_Timeout node \<noteq> [] \<and> positive_duration (node_Timeout node) \<noteq> None then node_Timeout node else [])
        (retryPolicyOf (node_Retry node)) st 1 t1 = (r, s2)" by fastforce
    obtain r' s3 where b: "record_execution rt e x pn node st r s2 = (r', s3)" by fastforce
    have "length (executions (wk_trace s2)) \<le> length (executions (wk_trace t1)) + 5"
    proof -
      have "nr_Attempt r \<le> 5" "executions (wk_trace s2) =
          executions (wk_trace t1) @ map (Executed (node_ID node)) [1..nr_Attempt r]"
        using retry_loop_attempts [OF _ a] policy_attempts [of "node_Retry node"] by simp_all
      then show ?thesis by simp
    qed
    moreover have "executions (wk_trace s3) = executions (wk_trace s2)"
      using b by (auto simp: record_execution_def Let_def)
    moreover have "executions (wk_trace t1) = executions (wk_trace t)" by (simp add: t1_def)
    ultimately show ?thesis using a b by (simp add: execute_step_def Let_def t1_def)
  qed
  show ?thesis
  proof (cases "AuthorizeNode (ge_bindings e) node = []")
    case False
    then show ?thesis using den by (simp add: visit_node_def)
  next
    case True
    then show ?thesis using exe mis
      by (cases "Get (ge_registry e) (node_Type node)")
         (simp_all add: visit_node_def Let_def, metis executions_frame(1))
  qed
qed

lemma walk_executions:
  "k \<le> MaxIterations \<Longrightarrow>
   length (executions (wk_trace (snd (walk_loop rt cd e g nm c pn k s)))) \<le>
     length (executions (wk_trace s)) + 5 * (MaxIterations - k)"
proof (induction "MaxIterations - k" arbitrary: k s rule: less_induct)
  case less
  show ?case
  proof (cases "wk_queue s = [] \<or> MaxIterations \<le> k \<or> map_of nm (hd (wk_queue s)) = None")
    case True
    then show ?thesis by (subst walk_loop.simps) (auto simp: Let_def split: list.splits)
  next
    case False
    then obtain n q node where q: "wk_queue s = n # q" and node: "map_of nm n = Some node"
      by (cases "wk_queue s") auto
    obtain v s2 where v: "visit_node rt cd e g nm c pn node (s\<lparr>wk_queue := q\<rparr>) = (v, s2)" by fastforce
    have s2: "length (executions (wk_trace s2)) \<le> length (executions (wk_trace s)) + 5"
      using visit_executions [of rt cd e g nm c pn node "s\<lparr>wk_queue := q\<rparr>"] v by simp
    have ih: "length (executions (wk_trace (snd (walk_loop rt cd e g nm c pn (k + 1) s2)))) \<le>
        length (executions (wk_trace s2)) + 5 * (MaxIterations - (k + 1))"
      using False by (intro less.hyps) linarith+
    show ?thesis
      using False q node v s2 ih by (subst walk_loop.simps) (cases v; simp)
  qed
qed

section \<open>A concrete run\<close>

text \<open>
  A graph of three nodes: a plugin, an agent whose executor claims to have validated a fact, and
  an external node the agent's failure is drawn to; a capability-protected deployment hangs off
  the agent.
\<close>

definition boast :: Claim where
  "boast = \<lparr>claim_Type = ''wiki.page.updated'', claim_Binding = ''wiki'', claim_ExternalID = ''p'',
     claim_URL = [], claim_TrustClass = ClaimTrustValidated, claim_ValidatedBy = ''write''\<rparr>"

definition boasting_agent :: "instant NodeExecutor" where
  "boasting_agent = \<lparr>nx_Type = ''agent'', nx_Deterministic = False, nx_ExecutionClass = ExecutionClassWorkload,
     nx_Execute = (\<lambda>c node env w. ((NodeResult0\<lparr>nr_Status := StatusGreen,
        nr_Envelope := Some (NodeResultEnvelope0\<lparr>env_Claims := [boast]\<rparr>)\<rparr>, None), w + 1))\<rparr>"

definition sample_plugin :: "instant NodeExecutor" where
  "sample_plugin = \<lparr>nx_Type = ''plugin'', nx_Deterministic = True, nx_ExecutionClass = ExecutionClassWorkload,
     nx_Execute = PluginExecutor_Execute sample_runtime sample_codec sample_deps\<rparr>"

definition sample_executor :: "instant GraphExecutor" where
  "sample_executor =
     \<lparr>ge_registry = [(''plugin'', sample_plugin), (''agent'', boasting_agent)], ge_dapr = True,
      ge_stateStore = DefaultStateStore, ge_pubsub = DefaultPubSub, ge_timeline = False,
      ge_triggeredBy = ''system'', ge_triggerSource = ''schedule'', ge_bindings = [], ge_runID = ''run-1'',
      ge_attemptName = ''a-1'', ge_onNodeResult = Some (\<lambda>env w. w),
      ge_wfCtx = \<lparr>wc_Name = ''wf'', wc_Namespace = [], wc_Workdir = [], wc_Source = [], wc_SourceURL = [],
        wc_SourceBranch = [], wc_SourceLanguage = [], wc_WorkspaceDir = [], wc_Shadow = [], wc_State = [],
        wc_ExtraEnv = [], wc_ExtraEnvForNode = None\<rparr>,
      ge_marshalEvent = (\<lambda>ev. Some []), ge_marshalDead = (\<lambda>d. Some []), ge_marshalResult = (\<lambda>r. Some [])\<rparr>"

definition sample_graph :: GraphSpec where
  "sample_graph = \<lparr>graph_Nodes =
       [NodeSpec0\<lparr>node_ID := ''write'', node_Type := ''agent''\<rparr>,
        NodeSpec0\<lparr>node_ID := ''ship'', node_Type := ''plugin'', node_Config := ''go'',
          node_Requires := [\<lparr>req_Binding = ''wiki'', req_Capability = ''push''\<rparr>]\<rparr>],
     graph_Edges = [EdgeSpec0\<lparr>edge_From := ''write'', edge_To := ''ship'', edge_MaxRetries := 2\<rparr>,
                    EdgeSpec0\<lparr>edge_From := ''write'', edge_To := ''ship''\<rparr>]\<rparr>"

lemmas walk_sample_defs = boast_def boasting_agent_def sample_plugin_def sample_executor_def sample_graph_def

definition sample_exit :: "string option \<times> instant walk" where
  "sample_exit = Execute sample_runtime sample_codec sample_executor None sample_graph ''p'' 0"

lemma sample_run:
  "fst sample_exit = None \<and> xr_Status (wk_result (snd sample_exit)) = StatusFailed \<and>
   map_option (map claim_TrustClass \<circ> env_Claims)
     (map_of (xr_NodeEnvelopes (wk_result (snd sample_exit))) ''write'') = Some [ClaimTrustObserved] \<and>
   executions (wk_trace (snd sample_exit)) = [Executed ''write'' 1]"
  by code_simp

section \<open>Properties\<close>

text \<open>
  C1. Trust is never self-granted: in the result of a run, and in every envelope handed to the
  recorder while it ran, a validated claim either comes from a node whose executor is
  deterministic or carries the stamp of a gate node of the graph whose executor is deterministic.
\<close>

theorem execute_trust:
  "(case Execute rt cd e c graph pn w of (err, s) \<Rightarrow>
     (\<forall>n env. map_of (xr_NodeEnvelopes (wk_result s)) n = Some env \<longrightarrow>
        list_all (licensed e graph n) (env_Claims env)) \<and>
     (\<forall>env. Recorded env \<in> set (wk_trace s) \<longrightarrow>
        list_all (licensed e graph (env_NodeID env)) (env_Claims env)))"
proof -
  obtain err s where x: "Execute rt cd e c graph pn w = (err, s)" by fastforce
  have start: "trust_inv e graph ((initial_walk w)\<lparr>wk_queue := queue\<rparr>)" for queue
    by (simp add: trust_inv_def initial_walk_def)
  obtain s1 where "trust_inv e graph s1" "core (wk_trace s) = core (wk_trace s1)"
    "xr_NodeEnvelopes (wk_result s) = xr_NodeEnvelopes (wk_result s1)"
    using trust.Execute_core [OF start x] by blast
  then show ?thesis using x by (simp add: trust_inv_def) (metis in_core(1))
qed

theorem execute_trust_witness:
  "(case map_of (xr_NodeEnvelopes (wk_result (snd sample_exit))) ''write'' of
      Some env \<Rightarrow> list_all (licensed sample_executor sample_graph ''write'') (env_Claims env) \<and> env_Claims env \<noteq> []
    | None \<Rightarrow> False)"
proof -
  obtain env where env: "map_of (xr_NodeEnvelopes (wk_result (snd sample_exit))) ''write'' = Some env"
    and "map claim_TrustClass (env_Claims env) = [ClaimTrustObserved]"
    using sample_run by auto
  then have "env_Claims env \<noteq> []" by auto
  moreover have "list_all (licensed sample_executor sample_graph ''write'') (env_Claims env)"
    using execute_trust [where rt = sample_runtime and cd = sample_codec and e = sample_executor and c = None
        and graph = sample_graph and pn = "''p''" and w = 0] env
    by (simp add: sample_exit_def case_prod_beta)
  ultimately show ?thesis using env by simp
qed

text \<open>
  C2. Capability policy and external topology: in a graph with distinct node names, whenever an
  executor was called for a node during a run, that node met every one of its capability
  requirements and is not an external (display-only) node.
\<close>

theorem execute_only_authorized:
  assumes "distinct (map node_ID (graph_Nodes graph))"
  shows "(case Execute rt cd e c graph pn w of (err, s) \<Rightarrow>
     (\<forall>n k. Executed n k \<in> set (wk_trace s) \<longrightarrow>
        list_ex (\<lambda>node. node_ID node = n \<and> list_all (satisfied (ge_bindings e)) (node_Requires node) \<and>
                        node_Type node \<noteq> NodeTypeExternal) (graph_Nodes graph)))"
proof -
  obtain err s where x: "Execute rt cd e c graph pn w = (err, s)" by fastforce
  have entry: "\<not> isExternalNode (build_nodeMap graph) n"
    if "n \<in> set (entryNodes graph (build_nodeMap graph))" for n
  proof
    assume "isExternalNode (build_nodeMap graph) n"
    then obtain node where m: "map_of (build_nodeMap graph) n = Some node" "node_Type node = NodeTypeExternal"
      by (auto simp: isExternalNode_def split: option.splits)
    have "\<exists>node' \<in> set (graph_Nodes graph). node_ID node' = n \<and> node_Type node' \<noteq> NodeTypeExternal"
      using that by (auto simp: entryNodes_def)
    then show False using assms m build_nodeMap_ID [OF m(1)] by (metis distinct_map inj_onD)
  qed
  have start: "policy_inv e graph ((initial_walk w)\<lparr>wk_queue := queue\<rparr>)"
    if "queue = entryNodes graph (build_nodeMap graph)" for queue
    using that entry by (simp add: policy_inv_def initial_walk_def)
  obtain s1 where "policy_inv e graph s1" "core (wk_trace s) = core (wk_trace s1)"
    using policy.Execute_core [OF start x] by blast
  then have "policy_inv e graph s1" "\<And>n k. Executed n k \<in> set (wk_trace s) \<longleftrightarrow> Executed n k \<in> set (wk_trace s1)"
    using in_core(2) by metis+
  then show ?thesis using x
    by (auto simp: policy_inv_def list_ex_iff list_all_iff AuthorizeNode_empty_iff)
qed

theorem execute_only_authorized_witness:
  "Executed ''write'' 1 \<in> set (wk_trace (snd sample_exit)) \<and>
   list_ex (\<lambda>node. node_ID node = ''write'' \<and> list_all (satisfied []) (node_Requires node) \<and>
                   node_Type node \<noteq> NodeTypeExternal) (graph_Nodes sample_graph)"
proof -
  have d: "distinct (map node_ID (graph_Nodes sample_graph))" by (simp add: sample_graph_def NodeSpec0_def)
  have x: "Executed ''write'' 1 \<in> set (wk_trace (snd sample_exit))"
  proof -
    have "Executed ''write'' 1 \<in> set (executions (wk_trace (snd sample_exit)))" using sample_run by simp
    then show ?thesis by (simp add: executions_def)
  qed
  moreover have "ge_bindings sample_executor = []" by (simp add: sample_executor_def)
  ultimately show ?thesis
    using execute_only_authorized [OF d, where e = sample_executor and rt = sample_runtime and cd = sample_codec and c = None
      and pn = "''p''" and w = 0]
    by (auto simp: sample_exit_def case_prod_beta)
qed

text \<open>
  C5. Loop-backs are bounded: in a run, an edge with \<^verbatim>\<open>maxRetries > 0\<close> puts its target on the queue at
  most \<^verbatim>\<open>maxRetries\<close> times, parallel edges between the same nodes included.
\<close>

theorem execute_max_retries:
  fixes w :: 'w
  assumes "0 < edge_MaxRetries edge"
  shows "int (traversals edge (wk_trace (snd (Execute rt cd e c graph pn w)))) \<le> edge_MaxRetries edge"
proof -
  obtain err s where x: "Execute rt cd e c graph pn w = (err, s)" by fastforce
  have start: "retries_inv ((initial_walk w)\<lparr>wk_queue := queue\<rparr>)" for queue
    by (simp add: retries_inv_def initial_walk_def traversals_def key_traversals_def)
  obtain s1 :: "'w walk" where s1: "retries_inv s1" "core (wk_trace s) = core (wk_trace s1)"
    using retries.Execute_core [OF start x] by blast
  have "traversals edge (core tr) = traversals edge tr" for tr
    by (induction tr) (auto simp: traversals_def core_def split: effect.splits)
  then have "traversals edge (wk_trace s) = traversals edge (wk_trace s1)" using s1(2) by metis
  then show ?thesis using x s1(1) assms by (simp add: retries_inv_def)
qed

theorem execute_max_retries_witness:
  "int (traversals (EdgeSpec0\<lparr>edge_From := ''write'', edge_To := ''ship'', edge_MaxRetries := 2\<rparr>)
     (wk_trace (snd sample_exit))) \<le> 2"
  using execute_max_retries [where edge = "EdgeSpec0\<lparr>edge_From := ''write'', edge_To := ''ship'', edge_MaxRetries := 2\<rparr>"
    and rt = sample_runtime and cd = sample_codec and e = sample_executor and c = None and graph = sample_graph
    and pn = "''p''" and w = 0]
  by (simp add: sample_exit_def EdgeSpec0_def)

text \<open>
  C4. Every run ends, and its work is bounded: an execution of a graph calls executors at most
  \<open>5 * 1000\<close> times, whatever the graph, the executors and the environment do.
\<close>

theorem execute_work_bound:
  "length (executions (wk_trace (snd (Execute rt cd e c graph pn w)))) \<le> 5 * MaxIterations"
proof -
  have "length (executions (wk_trace (snd (walk_loop rt cd e graph nm c pn 0 (publishLifecycle rt e ev
      ((initial_walk w)\<lparr>wk_queue := q\<rparr>)))))) \<le> 5 * MaxIterations" for nm ev q
  proof -
    have "executions (wk_trace (publishLifecycle rt e ev ((initial_walk w)\<lparr>wk_queue := q\<rparr>))) = []"
      by (simp add: initial_walk_def) (simp add: executions_def)
    then show ?thesis
      using walk_executions [where k = 0 and s = "publishLifecycle rt e ev ((initial_walk w)\<lparr>wk_queue := q\<rparr>)"
          and rt = rt and cd = cd and e = e and g = graph and nm = nm and c = c and pn = pn]
      by simp
  qed
  then show ?thesis
    by (simp add: Execute_def Let_def split: option.splits list.splits)
       (simp add: initial_walk_def executions_def)
qed

text \<open>
  C3. The failure contract. A run ends green or failed. A green run returned no error, emptied
  its queue, and published neither a pipeline failure nor a dead letter. A dead letter is the
  last thing a run does: it then failed without an execution error, and the letter names a
  foreground node whose result is failed, with the run's message; a run that fails this way does
  publish it when the client is wired and the letter can be marshalled. So the failure of a
  background node alone never fails a run.
\<close>

theorem execute_failure_contract:
  fixes w :: 'w
  shows "(case Execute rt cd e c graph pn w of (err, s) \<Rightarrow>
     (xr_Status (wk_result s) = StatusGreen \<or> xr_Status (wk_result s) = StatusFailed) \<and>
     (xr_Status (wk_result s) = StatusGreen \<longrightarrow> err = None \<and> wk_queue s = [] \<and>
        (\<forall>d. DeadLetter d \<notin> set (wk_trace s)) \<and>
        (\<forall>ev. Lifecycle ev \<in> set (wk_trace s) \<longrightarrow> le_Event ev \<noteq> ''pipeline.failed'')) \<and>
     (\<forall>d. DeadLetter d \<in> set (wk_trace s) \<longrightarrow>
        xr_Status (wk_result s) = StatusFailed \<and> err = None \<and> last (wk_trace s) = DeadLetter d \<and>
        dl_Error d = xr_Message (wk_result s)) \<and>
     (xr_Status (wk_result s) = StatusFailed \<and> err = None \<longrightarrow>
        list_ex (\<lambda>node. \<not> IsBackground node \<and>
          (\<exists>r. map_of (xr_NodeResults (wk_result s)) (node_ID node) = Some r \<and> nr_Status r = StatusFailed) \<and>
          (ge_dapr e \<and> (\<forall>d. ge_marshalDead e d \<noteq> None) \<longrightarrow>
             (\<exists>d. last (wk_trace s) = DeadLetter d \<and> dl_FailedNode d = node_ID node)))
        (graph_Nodes graph)))"
proof -
  obtain err s where x: "Execute rt cd e c graph pn w = (err, s)" by fastforce
  have start: "pending_inv ((initial_walk w)\<lparr>wk_queue := queue\<rparr>)" for queue
    by (simp add: pending_inv_def initial_walk_def)
  consider (completed) s1 :: "'w walk" where "pending_inv s1" "wk_queue s1 = []" "err = None"
        "s = publishLifecycle rt e (LifecycleEvent0\<lparr>le_Event := ''pipeline.completed'', le_Pipeline := pn,
           le_Status := StatusGreen\<rparr>) (s1\<lparr>wk_result := (wk_result s1)\<lparr>xr_Message := ''pipeline completed''\<rparr>\<rparr>)"
    | (aborted) s1 :: "'w walk" and msg q where "pending_inv s1" "err \<noteq> None" "s = fail_result msg (s1\<lparr>wk_queue := q\<rparr>)"
    | (fatal) node s1 msg r where "node \<in> set (graph_Nodes graph)" "err = None" "pending_inv s1"
        "\<not> IsBackground node" "map_of (xr_NodeResults (wk_result s1)) (node_ID node) = Some r"
        "nr_Status r = StatusFailed" "s = snd (unhandledNodeFailure rt e pn node msg s1)"
  proof -
    from pending.good_Execute [OF start, where rt = rt and cd = cd and e = e and c = c and graph = graph and pn = pn]
    show thesis
    proof
      assume "pending.good_exit rt e graph pn (Execute rt cd e c graph pn w)"
      then show thesis unfolding pending.good_exit_def pending.fatal_exit_def x
        using completed aborted fatal by simp blast
    next
      assume "\<exists>err msg. Execute rt cd e c graph pn w = (Some err, fail_result msg (initial_walk w))"
      then obtain er msg where "Execute rt cd e c graph pn w = (Some er, fail_result msg (initial_walk w))" by blast
      then have "err \<noteq> None" "s = fail_result msg ((initial_walk w)\<lparr>wk_queue := []\<rparr>)"
        using x by (simp_all add: initial_walk_def)
      then show thesis using aborted [of "(initial_walk w)\<lparr>wk_queue := []\<rparr>" msg "[]"] start by simp
    qed
  qed
  then show ?thesis
  proof cases
    case completed
    then show ?thesis using x by (auto simp: pending_inv_def publishLifecycle_def Let_def LifecycleEvent0_def split: option.splits)
  next
    case aborted
    then show ?thesis using x by (auto simp: pending_inv_def fail_result_def)
  next
    case fatal
    have "list_ex (\<lambda>node. \<not> IsBackground node \<and>
          (\<exists>r. map_of (xr_NodeResults (wk_result s)) (node_ID node) = Some r \<and> nr_Status r = StatusFailed) \<and>
          (ge_dapr e \<and> (\<forall>d. ge_marshalDead e d \<noteq> None) \<longrightarrow>
             (\<exists>d. last (wk_trace s) = DeadLetter d \<and> dl_FailedNode d = node_ID node)))
        (graph_Nodes graph)"
      unfolding list_ex_iff using fatal fatal_step(1,2) [where node = node and rt = rt and e = e and pn = pn and msg = msg and s = s1]
      by (intro bexI [of _ node]) auto
    moreover have "xr_Status (wk_result s) = StatusFailed \<and> err = None \<and> last (wk_trace s) = DeadLetter d \<and>
        dl_Error d = xr_Message (wk_result s)" if "DeadLetter d \<in> set (wk_trace s)" for d
      using that fatal fatal_step(1,3) [where node = node and rt = rt and e = e and pn = pn and msg = msg and s = s1] by (auto simp: pending_inv_def)
    ultimately show ?thesis using x fatal fatal_step(1) [where node = node and rt = rt and e = e and pn = pn and msg = msg and s = s1] by simp
  qed
qed

theorem execute_failure_contract_witness:
  "list_ex (\<lambda>node. \<not> IsBackground node \<and>
     (\<exists>r. map_of (xr_NodeResults (wk_result (snd sample_exit))) (node_ID node) = Some r \<and> nr_Status r = StatusFailed) \<and>
     (\<exists>d. last (wk_trace (snd sample_exit)) = DeadLetter d \<and> dl_FailedNode d = node_ID node))
   (graph_Nodes sample_graph)"
proof -
  have "ge_dapr sample_executor" "\<forall>d. ge_marshalDead sample_executor d \<noteq> None"
    by (simp_all add: sample_executor_def)
  then show ?thesis
    using execute_failure_contract [where rt = sample_runtime and cd = sample_codec and e = sample_executor
        and c = None and graph = sample_graph and pn = "''p''" and w = 0] sample_run
    by (simp add: sample_exit_def case_prod_beta)
qed

text \<open>
  The retry budget: a node is tried at least once and at most as often as its declarative
  policy says, never more than five times; the executor calls of one visit are numbered from 1
  without gaps and the result carries the number of the last one.
\<close>

theorem retry_budget:
  "(case retry_loop rt e exec pn node env c ts (retryPolicyOf (node_Retry node)) start 1 s of (r, s') \<Rightarrow>
     1 \<le> nr_Attempt r \<and>
     nr_Attempt r \<le> (case node_Retry node of None \<Rightarrow> 1 | Some sp \<Rightarrow> max 1 (min 5 (rp_MaxAttempts sp))) \<and>
     executions (wk_trace s') = executions (wk_trace s) @ map (Executed (node_ID node)) [1..nr_Attempt r])"
proof -
  obtain r s' where x: "retry_loop rt e exec pn node env c ts (retryPolicyOf (node_Retry node)) start 1 s = (r, s')"
    by fastforce
  have "pol_maxAttempts (retryPolicyOf (node_Retry node)) =
      (case node_Retry node of None \<Rightarrow> 1 | Some sp \<Rightarrow> max 1 (min 5 (rp_MaxAttempts sp)))"
    by (auto simp: retryPolicyOf_def Let_def split: option.splits)
  then show ?thesis
    using x retry_loop_attempts [OF _ x] policy_attempts [of "node_Retry node"] by simp
qed

lemma delay_loop_closed:
  assumes "0 \<le> d" and "m \<le> 2 ^ 62" and "i \<le> attempt"
  shows "min m (delay_loop m attempt i d) = min m (d * 2 ^ nat (attempt - i))"
  using assms(1,3)
proof (induction "nat (attempt - i)" arbitrary: i d)
  case 0
  then have "attempt = i" by simp
  then show ?case by (simp add: delay_loop.simps)
next
  case (Suc n)
  then have lt: "i < attempt" and n: "n = nat (attempt - (i + 1))" by simp_all
  have pow: "nat (attempt - i) = Suc (nat (attempt - (i + 1)))" using lt by simp
  show ?case
  proof (cases "d < m")
    case True
    then have "wrap64 (d * 2) = d * 2" using Suc.prems assms(2) by (intro wrap64_id) simp_all
    then have "delay_loop m attempt i d = delay_loop m attempt (i + 1) (d * 2)"
      using True lt by (subst delay_loop.simps) simp
    then show ?thesis using Suc.hyps(1) [OF n, of "d * 2"] Suc.prems lt pow by (simp add: mult.assoc)
  next
    case False
    have "d * 1 \<le> d * 2 ^ nat (attempt - i)" using Suc.prems by (intro mult_left_mono) simp_all
    then show ?thesis using False by (subst delay_loop.simps) simp
  qed
qed

text \<open>
  Backoff: the delay before the retry that follows attempt \<open>k\<close> is the initial delay doubled
  \<open>k - 1\<close> times, capped by the maximal delay, so it stays between the two and never overflows, for
  every policy whose maximal delay is at most \<open>2 ^ 62\<close> nanoseconds (146 years).
\<close>

theorem backoff_exact:
  assumes "pol_maxDelay (retryPolicyOf spec) \<le> 2 ^ 62" and "1 \<le> k"
  shows "delayFor (retryPolicyOf spec) k =
      min (pol_maxDelay (retryPolicyOf spec)) (pol_initialDelay (retryPolicyOf spec) * 2 ^ nat (k - 1)) \<and>
    pol_initialDelay (retryPolicyOf spec) \<le> delayFor (retryPolicyOf spec) k \<and>
    delayFor (retryPolicyOf spec) k \<le> pol_maxDelay (retryPolicyOf spec)"
proof -
  let ?p = "retryPolicyOf spec"
  have p: "0 \<le> pol_initialDelay ?p" "pol_initialDelay ?p \<le> pol_maxDelay ?p"
    by (auto simp: retryPolicyOf_def Let_def dest!: positive_duration_pos split: option.splits)
  have "delayFor ?p k = min (pol_maxDelay ?p) (delay_loop (pol_maxDelay ?p) k 1 (pol_initialDelay ?p))"
    by (simp add: delayFor_def Let_def)
  also have "\<dots> = min (pol_maxDelay ?p) (pol_initialDelay ?p * 2 ^ nat (k - 1))"
    using p assms by (intro delay_loop_closed)
  finally have eq: "delayFor ?p k = min (pol_maxDelay ?p) (pol_initialDelay ?p * 2 ^ nat (k - 1))" .
  have "pol_initialDelay ?p * 1 \<le> pol_initialDelay ?p * 2 ^ nat (k - 1)"
    using p(1) by (intro mult_left_mono) simp_all
  then show ?thesis using eq p(2) by simp
qed

theorem backoff_exact_witness:
  "delayFor (retryPolicyOf (Some \<lparr>rp_MaxAttempts = 4, rp_InitialDelay = [], rp_MaxDelay = []\<rparr>)) 3 = 20 * second"
proof -
  let ?p = "retryPolicyOf (Some \<lparr>rp_MaxAttempts = 4, rp_InitialDelay = [], rp_MaxDelay = []\<rparr>)"
  have "pol_maxDelay ?p = minute" "pol_initialDelay ?p = 5 * second"
    by (simp_all add: retryPolicyOf_def positive_duration_def ParseDuration_def)
  then show ?thesis
    using backoff_exact [of "Some \<lparr>rp_MaxAttempts = 4, rp_InitialDelay = [], rp_MaxDelay = []\<rparr>" 3] by simp
qed

text \<open>
  Malformed graphs are refused before anything happens: a background node with an edge to a
  node that executes, or a graph without an entry node, makes \<^verbatim>\<open>Execute\<close> return an error with a
  failed result; no effect was produced and the world is untouched.
\<close>

theorem malformed_graph_refused:
  assumes "list_ex (\<lambda>n. IsBackground n \<and>
      list_ex (\<lambda>ed. edge_From ed = node_ID n \<and> \<not> isExternalNode (build_nodeMap graph) (edge_To ed)) (graph_Edges graph))
      (graph_Nodes graph) \<or>
    list_all (\<lambda>n. node_Type n = NodeTypeExternal \<or>
      list_ex (\<lambda>ed. edge_To ed = node_ID n \<and> edge_MaxRetries ed = 0 \<and>
        \<not> isExternalNode (build_nodeMap graph) (edge_From ed)) (graph_Edges graph)) (graph_Nodes graph)"
  shows "(case Execute rt cd e c graph pn w of (err, s) \<Rightarrow>
     err \<noteq> None \<and> xr_Status (wk_result s) = StatusFailed \<and> wk_trace s = [] \<and> wk_world s = w \<and>
     xr_NodeResults (wk_result s) = [])"
proof -
  have "entryNodes graph (build_nodeMap graph) = []"
    if "list_all (\<lambda>n. node_Type n = NodeTypeExternal \<or>
      list_ex (\<lambda>ed. edge_To ed = node_ID n \<and> edge_MaxRetries ed = 0 \<and>
        \<not> isExternalNode (build_nodeMap graph) (edge_From ed)) (graph_Edges graph)) (graph_Nodes graph)"
    using that by (auto simp: entryNodes_def inDegree_def filter_empty_conv list_all_iff list_ex_iff)
  moreover have "background_nonleaf graph (build_nodeMap graph) \<noteq> None"
    if "list_ex (\<lambda>n. IsBackground n \<and>
      list_ex (\<lambda>ed. edge_From ed = node_ID n \<and> \<not> isExternalNode (build_nodeMap graph) (edge_To ed)) (graph_Edges graph))
      (graph_Nodes graph)"
    using that by (auto simp: background_nonleaf_def outEdges_def find_None_iff list_ex_iff)
  ultimately show ?thesis
    using assms
    by (auto simp: Execute_def Let_def fail_result_def initial_walk_def split: option.splits list.splits)
qed

theorem malformed_graph_refused_witness:
  "fst (Execute sample_runtime sample_codec sample_executor None \<lparr>graph_Nodes = [], graph_Edges = []\<rparr> ''p'' 0) \<noteq> None"
  using malformed_graph_refused [where graph = "\<lparr>graph_Nodes = [], graph_Edges = []\<rparr>" and rt = sample_runtime
    and cd = sample_codec and e = sample_executor and c = None and pn = "''p''" and w = 0]
  by (simp add: case_prod_beta)

text \<open>
  The kernel owns the authoritative fields of an envelope: whatever an executor returns, the
  envelope's node, run, attempt, duration, provenance and time are the kernel's, its status is
  the canonical form of the node's final status, and its summary is not empty unless the
  executor gave neither a summary nor feedback; only the enrichment (artifacts, claims,
  payload, references) is the executor's.
\<close>

theorem envelope_kernel_fields:
  "(let env = synthesizeEnvelope e now n r ms in
     env_NodeID env = n \<and> env_RunID env = ge_runID e \<and> env_Attempt env = nr_Attempt r \<and>
     env_DurationMs env = ms \<and> env_ProducedAt env = now \<and>
     env_Provenance env = \<lparr>prov_TriggeredBy = ge_triggeredBy e, prov_TriggerSource = ge_triggerSource e,
                           prov_ProducedAt = now\<rparr> \<and>
     (env_Status env = NodeResultStatusOK \<longleftrightarrow> nr_Status r = StatusGreen) \<and>
     (env_Status env = NodeResultStatusSkipped \<longleftrightarrow> nr_Status r = StatusSkipped) \<and>
     (env_Status env = NodeResultStatusFailed \<longleftrightarrow> nr_Status r \<noteq> StatusGreen \<and> nr_Status r \<noteq> StatusSkipped) \<and>
     (env_Summary env = [] \<longleftrightarrow>
        nr_Feedback r = [] \<and> (case nr_Envelope r of None \<Rightarrow> True | Some x \<Rightarrow> env_Summary x = [])) \<and>
     (case nr_Envelope r of
        None \<Rightarrow> env_Claims env = [] \<and> env_Artifacts env = [] \<and> env_Payload env = [] \<and> env_References env = []
      | Some x \<Rightarrow> env_Claims env = env_Claims x \<and> env_Artifacts env = env_Artifacts x \<and>
                  env_Payload env = env_Payload x \<and> env_References env = env_References x))"
  by (simp add: synthesizeEnvelope_def Let_def NodeResultEnvelope0_def envelopeStatus_def split: option.splits)

end
