(* ===== verification/Graph_Compile.thy ===== *)
theory Graph_Compile
  imports Graph_Executor
begin

text \<open>
  The compiler from a declarative Workflow to a pipeline graph (\<^verbatim>\<open>internal/graph/compile.go\<close>).
  Node configurations are marshalled with the JSON codec; the sources drop the marshalling error,
  so an encoder of the codec returns the empty text when the configuration cannot be marshalled.
\<close>

definition wikiLintScope :: "string \<Rightarrow> string" where
  "wikiLintScope workflowName =
     ''SCOPE: this Workflow owns exactly ONE project: '' @ workflowName @
     ''. Work ONLY on raw/arch/'' @ workflowName @
     ''/, its model.c4, and wiki/entities/'' @ workflowName @
     ''.md (plus index.md/log.md). Do NOT read or modify any other project'' @
     '' under raw/arch/ '' @ em_dash @ '' those are owned by other Workflows.''"

definition taskRef :: "TaskTemplate \<Rightarrow> string" where
  "taskRef tt = (if task_ConfigMap tt \<noteq> [] \<and> task_Key tt \<noteq> []
                 then task_ConfigMap tt @ ''/'' @ task_Key tt else task_Name tt)"

definition prepare_config :: "WorkflowSpec \<Rightarrow> PluginNodeConfig" where
  "prepare_config sp =
     (let p = prep_Plugin (wspec_Prepare sp) in
      \<lparr>pc_Name = plug_Name p, pc_Args = plug_Args p, pc_ConfigMap = plug_ConfigMap p, pc_Timeout = [],
       pc_Config = prep_Config (wspec_Prepare sp)\<rparr>)"

definition deploy_config :: "WorkflowSpec \<Rightarrow> PluginNodeConfig" where
  "deploy_config sp =
     (let p = wspec_DeployPlugin sp in
      \<lparr>pc_Name = plug_Name p, pc_Args = plug_Args p, pc_ConfigMap = plug_ConfigMap p, pc_Timeout = [],
       pc_Config = []\<rparr>)"

definition agent_config :: "string \<Rightarrow> AgentSpec \<Rightarrow> AgentNodeConfig" where
  "agent_config wfName a =
     (let g = agent_GatePlugin a in
      \<lparr>ac_Model = agent_Model a, ac_Skill = agent_Skill a, ac_Task = taskRef (agent_TaskTemplate a),
       ac_Tools = agent_Tools a,
       ac_Gate = Some \<lparr>gc_Plugin = \<lparr>pc_Name = plug_Name g, pc_Args = plug_Args g, pc_ConfigMap = plug_ConfigMap g,
                          pc_Timeout = plug_Timeout g, pc_Config = []\<rparr>, gc_Validates = []\<rparr>,
       ac_MaxFixes = (if agent_MaxFixes a = 0 then 3 else agent_MaxFixes a),
       ac_Scope = wikiLintScope wfName\<rparr>)"

definition CompileWorkflow :: "codec \<Rightarrow> Workflow \<Rightarrow> GraphSpec" where
  "CompileWorkflow cd wfl =
     (let sp = wf_Spec wfl;
          prepareName = plug_Name (prep_Plugin (wspec_Prepare sp));
          deployName = plug_Name (wspec_DeployPlugin sp);
          model = agent_Model (wspec_Agent sp);
          prepareNode = NodeSpec0\<lparr>node_ID := ''prepare'', node_Type := ''plugin'',
            node_Label := (if prepareName = [] then ''prepare'' else prepareName),
            node_Config := enc_plugin cd (prepare_config sp),
            node_Timeout := plug_Timeout (prep_Plugin (wspec_Prepare sp))\<rparr>;
          agentNode = NodeSpec0\<lparr>node_ID := ''agent'', node_Type := ''agent'',
            node_Label := (if model \<noteq> [] then ''agent '' @ middle_dot @ '' '' @ model else ''agent''),
            node_Config := enc_agent cd (agent_config (wf_Name wfl) (wspec_Agent sp))\<rparr>;
          deployNode = NodeSpec0\<lparr>node_ID := ''deploy'', node_Type := ''plugin'',
            node_Label := (if deployName = [] then ''deploy'' else deployName),
            node_Config := enc_plugin cd (deploy_config sp),
            node_Timeout := plug_Timeout (wspec_DeployPlugin sp)\<rparr>
      in if EnabledOrDefault (wspec_Agent sp)
         then \<lparr>graph_Nodes = [prepareNode, agentNode, deployNode],
               graph_Edges = [EdgeSpec0\<lparr>edge_From := ''prepare'', edge_To := ''agent''\<rparr>,
                              EdgeSpec0\<lparr>edge_From := ''agent'', edge_To := ''deploy''\<rparr>]\<rparr>
         else \<lparr>graph_Nodes = [prepareNode, deployNode],
               graph_Edges = [EdgeSpec0\<lparr>edge_From := ''prepare'', edge_To := ''deploy''\<rparr>]\<rparr>)"

definition CompileTemplate :: "codec \<Rightarrow> WorkflowTemplateSpec \<Rightarrow> GraphSpec" where
  "CompileTemplate cd t =
     CompileWorkflow cd (Workflow0\<lparr>wf_Spec := WorkflowSpec0\<lparr>wspec_Prepare := wts_Prepare t, wspec_Agent := wts_Agent t,
       wspec_DeployPlugin := wts_DeployPlugin t\<rparr>\<rparr>)"

lemmas compile_defs = CompileWorkflow_def prepare_config_def deploy_config_def agent_config_def Let_def

section \<open>Well-formed graphs\<close>

text \<open>
  What the walk needs of a graph: distinct names, edges between declared nodes, no loop-backs,
  background nodes only as leaves, an entry.
\<close>

definition wf_graph :: "GraphSpec \<Rightarrow> bool" where
  "wf_graph graph \<longleftrightarrow>
     distinct (map node_ID (graph_Nodes graph)) \<and>
     list_all (\<lambda>ed. edge_From ed \<in> set (map node_ID (graph_Nodes graph)) \<and>
                    edge_To ed \<in> set (map node_ID (graph_Nodes graph))) (graph_Edges graph) \<and>
     background_nonleaf graph (build_nodeMap graph) = None \<and>
     entryNodes graph (build_nodeMap graph) \<noteq> []"

lemma compiled_enabled:
  assumes "EnabledOrDefault (wspec_Agent (wf_Spec wfl))"
  shows "map node_ID (graph_Nodes (CompileWorkflow cd wfl)) = [''prepare'', ''agent'', ''deploy'']"
    and "map (\<lambda>ed. (edge_From ed, edge_To ed)) (graph_Edges (CompileWorkflow cd wfl)) =
      [(''prepare'', ''agent''), (''agent'', ''deploy'')]"
  using assms by (simp_all add: compile_defs NodeSpec0_def EdgeSpec0_def)

lemma compiled_disabled:
  assumes "\<not> EnabledOrDefault (wspec_Agent (wf_Spec wfl))"
  shows "map node_ID (graph_Nodes (CompileWorkflow cd wfl)) = [''prepare'', ''deploy'']"
    and "map (\<lambda>ed. (edge_From ed, edge_To ed)) (graph_Edges (CompileWorkflow cd wfl)) = [(''prepare'', ''deploy'')]"
  using assms by (simp_all add: compile_defs NodeSpec0_def EdgeSpec0_def)

lemma compiled_no_background: "n \<in> set (graph_Nodes (CompileWorkflow cd wfl)) \<Longrightarrow> \<not> IsBackground n"
  by (auto simp: compile_defs NodeSpec0_def IsBackground_def split: if_splits)

lemma compiled_entry: "entryNodes (CompileWorkflow cd wfl) (build_nodeMap (CompileWorkflow cd wfl)) = [''prepare'']"
  unfolding entryNodes_def inDegree_def build_nodeMap_def isExternalNode_def
  by (cases "EnabledOrDefault (wspec_Agent (wf_Spec wfl))") (simp_all add: CompileWorkflow_def Let_def NodeSpec0_def EdgeSpec0_def)

lemma compiled_wf: "wf_graph (CompileWorkflow cd wfl)"
proof -
  have "background_nonleaf (CompileWorkflow cd wfl) (build_nodeMap (CompileWorkflow cd wfl)) = None"
    using compiled_no_background by (auto simp: background_nonleaf_def find_None_iff)
  then show ?thesis
    unfolding wf_graph_def compiled_entry
    by (cases "EnabledOrDefault (wspec_Agent (wf_Spec wfl))")
       (simp_all add: compiled_enabled(1) compiled_disabled(1), simp_all add: compile_defs EdgeSpec0_def)
qed

lemma compiled_edges:
  "list_all (\<lambda>ed. edge_When ed = [] \<and> edge_MaxRetries ed = 0) (graph_Edges (CompileWorkflow cd wfl))"
  by (simp add: CompileWorkflow_def Let_def EdgeSpec0_def)

lemma compiled_nodes:
  "list_all (\<lambda>n. \<not> IsBackground n \<and> node_Type n = (if node_ID n = ''agent'' then ''agent'' else ''plugin''))
     (graph_Nodes (CompileWorkflow cd wfl))"
  by (simp add: CompileWorkflow_def Let_def NodeSpec0_def IsBackground_def)

section \<open>Properties\<close>

text \<open>
  A compiled workflow is a well-formed chain: names are distinct, every edge joins declared
  nodes, nothing is background, the only entry is the prepare node, and the chain is
  prepare, agent, deploy when the agent is enabled (the default) and prepare, deploy otherwise;
  plain edges only, so a step runs only behind a green predecessor.
\<close>

theorem compile_chain:
  "(let graph = CompileWorkflow cd wfl in
     wf_graph graph \<and> entryNodes graph (build_nodeMap graph) = [''prepare''] \<and>
     map node_ID (graph_Nodes graph) =
       (if EnabledOrDefault (wspec_Agent (wf_Spec wfl)) then [''prepare'', ''agent'', ''deploy'']
        else [''prepare'', ''deploy'']) \<and>
     map (\<lambda>ed. (edge_From ed, edge_To ed)) (graph_Edges graph) =
       zip (butlast (map node_ID (graph_Nodes graph))) (tl (map node_ID (graph_Nodes graph))) \<and>
     list_all (\<lambda>ed. edge_When ed = [] \<and> edge_MaxRetries ed = 0) (graph_Edges graph) \<and>
     list_all (\<lambda>n. \<not> IsBackground n \<and> node_Type n = (if node_ID n = ''agent'' then ''agent'' else ''plugin''))
       (graph_Nodes graph))"
  using compiled_wf [of cd wfl] compiled_entry [of cd wfl] compiled_edges [of cd wfl] compiled_nodes [of cd wfl]
  by (cases "EnabledOrDefault (wspec_Agent (wf_Spec wfl))")
     (simp_all add: Let_def compiled_enabled compiled_disabled)

text \<open>
  What the executors read back from a compiled workflow is what the workflow declared: under a
  codec whose decoder inverts its encoder (and never encodes to the empty text), the prepare and
  deploy nodes resolve the workflow's plugin references, the agent node carries its model, skill,
  tools and task, its inline gate keeps the declared timeout, and an unset fix budget is three.
\<close>

theorem compile_config_roundtrip:
  assumes "\<And>c. c = prepare_config (wf_Spec wfl) \<or> c = deploy_config (wf_Spec wfl) \<Longrightarrow>
      enc_plugin cd c \<noteq> [] \<and> dec_plugin cd (enc_plugin cd c) = Inr c"
    and "\<And>c. c = agent_config (wf_Name wfl) (wspec_Agent (wf_Spec wfl)) \<Longrightarrow>
      enc_agent cd c \<noteq> [] \<and> dec_agent cd (enc_agent cd c) = Inr c"
    and "EnabledOrDefault (wspec_Agent (wf_Spec wfl))"
    and "graph_Nodes (CompileWorkflow cd wfl) = [prep, agent, deploy]"
  shows "map_sum id ToPluginRef (parseConfig (dec_plugin cd) PluginNodeConfig0 (node_Config prep)) =
      Inr ((prep_Plugin (wspec_Prepare (wf_Spec wfl)))\<lparr>plug_Image := [], plug_Timeout := []\<rparr>) \<and>
    map_sum id ToPluginRef (parseConfig (dec_plugin cd) PluginNodeConfig0 (node_Config deploy)) =
      Inr ((wspec_DeployPlugin (wf_Spec wfl))\<lparr>plug_Image := [], plug_Timeout := []\<rparr>) \<and>
    node_Timeout prep = plug_Timeout (prep_Plugin (wspec_Prepare (wf_Spec wfl))) \<and>
    node_Timeout deploy = plug_Timeout (wspec_DeployPlugin (wf_Spec wfl)) \<and>
    (\<exists>cfg g. parseConfig (dec_agent cd) AgentNodeConfig0 (node_Config agent) = Inr cfg \<and>
       ac_Model cfg = agent_Model (wspec_Agent (wf_Spec wfl)) \<and>
       ac_Skill cfg = agent_Skill (wspec_Agent (wf_Spec wfl)) \<and>
       ac_Tools cfg = agent_Tools (wspec_Agent (wf_Spec wfl)) \<and>
       ac_Task cfg = taskRef (agent_TaskTemplate (wspec_Agent (wf_Spec wfl))) \<and>
       ac_MaxFixes cfg \<noteq> 0 \<and> ac_Gate cfg = Some g \<and>
       (pc_Timeout (gc_Plugin g)) = plug_Timeout (agent_GatePlugin (wspec_Agent (wf_Spec wfl))) \<and>
       ToPluginRef (gc_Plugin g) =
         (agent_GatePlugin (wspec_Agent (wf_Spec wfl)))\<lparr>plug_Image := [], plug_Timeout := []\<rparr>)"
proof -
  let ?sp = "wf_Spec wfl"
  have n: "node_Config prep = enc_plugin cd (prepare_config ?sp)"
    "node_Config deploy = enc_plugin cd (deploy_config ?sp)"
    "node_Config agent = enc_agent cd (agent_config (wf_Name wfl) (wspec_Agent ?sp))"
    "node_Timeout prep = plug_Timeout (prep_Plugin (wspec_Prepare ?sp))"
    "node_Timeout deploy = plug_Timeout (wspec_DeployPlugin ?sp)"
    using assms(3,4) by (auto simp: CompileWorkflow_def Let_def)
  have "parseConfig (dec_plugin cd) PluginNodeConfig0 (node_Config prep) = Inr (prepare_config ?sp)"
    "parseConfig (dec_plugin cd) PluginNodeConfig0 (node_Config deploy) = Inr (deploy_config ?sp)"
    "parseConfig (dec_agent cd) AgentNodeConfig0 (node_Config agent) =
       Inr (agent_config (wf_Name wfl) (wspec_Agent ?sp))"
    using assms(1,2) by (simp_all add: n parseConfig_def)
  then show ?thesis
    using n(4,5) by (simp add: prepare_config_def deploy_config_def agent_config_def ToPluginRef_def Let_def)
qed

text \<open>A workflow whose plugins have names only, and a codec that inverts on its configurations.\<close>

definition sample_workflow :: Workflow where
  "sample_workflow = Workflow0\<lparr>wf_Name := ''w'', wf_Namespace := ''ns'',
     wf_Spec := WorkflowSpec0\<lparr>wspec_Prepare := PrepareSpec0\<lparr>prep_Plugin := PluginRef0\<lparr>plug_Name := ''fetch''\<rparr>\<rparr>,
       wspec_Agent := AgentSpec0\<lparr>agent_Model := ''m'',
         agent_TaskTemplate := \<lparr>task_Name = ''t'', task_ConfigMap = [], task_Key = []\<rparr>,
         agent_GatePlugin := PluginRef0\<lparr>plug_Name := ''wiki-lint'', plug_Timeout := ''2m''\<rparr>\<rparr>,
       wspec_DeployPlugin := PluginRef0\<lparr>plug_Name := ''push''\<rparr>\<rparr>\<rparr>"

definition name_codec :: codec where
  "name_codec = sample_codec
     \<lparr>enc_plugin := (\<lambda>c. CHR ''p'' # pc_Name c), dec_plugin := (\<lambda>s. Inr (PluginNodeConfig0\<lparr>pc_Name := tl s\<rparr>)),
      enc_agent := (\<lambda>c. CHR ''a'' # ac_Model c),
      dec_agent := (\<lambda>s. Inr ((agent_config ''w'' (wspec_Agent (wf_Spec sample_workflow)))\<lparr>ac_Model := tl s\<rparr>))\<rparr>"

theorem compile_config_roundtrip_witness:
  "map_sum id ToPluginRef (parseConfig (dec_plugin name_codec) PluginNodeConfig0
     (node_Config (graph_Nodes (CompileWorkflow name_codec sample_workflow) ! 0))) =
   Inr (PluginRef0\<lparr>plug_Name := ''fetch''\<rparr>)"
proof -
  have en: "EnabledOrDefault (wspec_Agent (wf_Spec sample_workflow))"
    by (simp add: sample_workflow_def workflow0_defs EnabledOrDefault_def)
  obtain prep agent deploy where g: "graph_Nodes (CompileWorkflow name_codec sample_workflow) = [prep, agent, deploy]"
    using en by (simp add: CompileWorkflow_def Let_def)
  have "map_sum id ToPluginRef (parseConfig (dec_plugin name_codec) PluginNodeConfig0 (node_Config prep)) =
      Inr ((prep_Plugin (wspec_Prepare (wf_Spec sample_workflow)))\<lparr>plug_Image := [], plug_Timeout := []\<rparr>)"
    by (rule compile_config_roundtrip [THEN conjunct1, OF _ _ en g])
       (auto simp: name_codec_def sample_workflow_def workflow0_defs prepare_config_def deploy_config_def agent_config_def
         PluginNodeConfig0_def PluginRef0_def)
  then show ?thesis using g by (simp add: sample_workflow_def workflow0_defs)
qed

text \<open>
  The compiled agent's scope: every compiled workflow confines its agent to the workflow's own
  project, whatever its gate is; and a task template with a ConfigMap and a key compiles to a
  reference that the agent executor recognises as one, provided it holds no blank.
\<close>

theorem compile_scope_and_task:
  "ac_Scope (agent_config n a) \<noteq> [] \<and>
   (task_ConfigMap tt \<noteq> [] \<and> task_Key tt \<noteq> [] \<and>
      list_all (\<lambda>c. c \<noteq> CHR '' '' \<and> c \<noteq> CHR 0x0A \<and> c \<noteq> CHR 0x09) (task_ConfigMap tt @ task_Key tt) \<longrightarrow>
    looksLikeRef (taskRef tt))"
  by (auto simp: agent_config_def wikiLintScope_def Let_def looksLikeRef_def taskRef_def list_all_iff list_ex_iff)

theorem compile_scope_and_task_witness:
  "looksLikeRef (taskRef \<lparr>task_Name = ''t'', task_ConfigMap = ''tasks'', task_Key = ''pr-review''\<rparr>)"
  using compile_scope_and_task [of "''w''" "wspec_Agent (wf_Spec sample_workflow)"
    "\<lparr>task_Name = ''t'', task_ConfigMap = ''tasks'', task_Key = ''pr-review''\<rparr>"]
  by simp

end
