(* ===== verification/Attempt_Identity.thy ===== *)
theory Attempt_Identity
  imports Api_Types
begin

text \<open>
  Objective derivation and Attempt names (\<^verbatim>\<open>internal/attempt/attempt.go\<close>, ADR-0005): the objective
  of a workflow run, its identity string, and the DNS-1123 name under which the Attempt of that
  identity is stored. The name ends in twelve hexadecimal digits of the 64-bit FNV-1a hash
  (\<^verbatim>\<open>hash/fnv\<close>). The parameter \<open>urlPath\<close> is the path component of \<^verbatim>\<open>net/url\<close>'s \<^verbatim>\<open>Parse\<close>, \<^const>\<open>None\<close>
  for a parse error.
\<close>

record TriggerContext =
  trig_Revision :: string
  trig_Source :: string

definition DeriveKind :: "Workflow \<Rightarrow> string" where
  "DeriveKind w =
     (if (case src_Fork (wspec_Source (wf_Spec w)) of None \<Rightarrow> False | Some f \<Rightarrow> fork_URL f \<noteq> [])
      then ObjectiveKindForkSync
      else if wspec_ReviewReady (wf_Spec w) \<noteq> None then ObjectiveKindPRReview
      else ObjectiveKindForGate (plug_Name (agent_GatePlugin (wspec_Agent (wf_Spec w)))))"

definition DeriveTargetedState :: "Workflow \<Rightarrow> TriggerContext \<Rightarrow> string" where
  "DeriveTargetedState w trigger =
     (if trig_Revision trigger \<noteq> [] then trig_Revision trigger
      else if src_Revision (wspec_Source (wf_Spec w)) \<noteq> [] then src_Revision (wspec_Source (wf_Spec w))
      else ''head'')"

definition DesiredOutcome :: "string \<Rightarrow> string" where
  "DesiredOutcome kind =
     (if kind = ObjectiveKindDocumentationSync then ''source documentation reflected in the wiki KB''
      else if kind = ObjectiveKindPRReview then ''PR reviewed with structured feedback posted to the host''
      else if kind = ObjectiveKindForkSync then ''fork release branch synced to upstream with a green build''
      else if kind = ObjectiveKindDeploymentChange then ''cluster reaches the declared desired state''
      else ''objective achieved'')"

definition RepoID :: "(string \<Rightarrow> string option) \<Rightarrow> string \<Rightarrow> string" where
  "RepoID urlPath gitURL =
     (let s = TrimSpace gitURL in
      if s = [] then []
      else
        let https = (case urlPath s of
                       Some p \<Rightarrow> if p \<noteq> [] then TrimSuffix (TrimPrefix p ''/'') ''.git'' else s
                     | None \<Rightarrow> s)
        in (case IndexByte s (CHR '':'') of
              Some i \<Rightarrow> if 0 < i \<and> Contains (take i s) ''@'' then TrimSuffix (drop (i + 1) s) ''.git'' else https
            | None \<Rightarrow> https))"

definition deriveSubjects :: "(string \<Rightarrow> string option) \<Rightarrow> Workflow \<Rightarrow> string \<Rightarrow> Subject \<times> Subject list" where
  "deriveSubjects urlPath w kind =
     (let src = wspec_Source (wf_Spec w);
          source = \<lparr>subj_Binding = ''source'', subj_Object = src_Repo src\<rparr>
      in case src_Fork src of
           Some f \<Rightarrow>
             if kind = ObjectiveKindForkSync
             then (\<lparr>subj_Binding = ''fork'', subj_Object = RepoID urlPath (fork_URL f)\<rparr>,
                   if src_Repo src \<noteq> [] then [source] else [])
             else (source, [])
         | None \<Rightarrow> (source, []))"

definition DeriveObjective :: "(string \<Rightarrow> string option) \<Rightarrow> Workflow \<Rightarrow> TriggerContext \<Rightarrow> ObjectiveSpec" where
  "DeriveObjective urlPath w trigger =
     (let kind = DeriveKind w in
      case deriveSubjects urlPath w kind of
        (primary, related) \<Rightarrow>
          \<lparr>obj_Kind = kind, obj_PrimarySubject = primary, obj_RelatedSubjects = related,
           obj_DesiredOutcome = DesiredOutcome kind, obj_TargetedState = DeriveTargetedState w trigger\<rparr>)"

definition Identity :: "ObjectiveSpec \<Rightarrow> string" where
  "Identity obj = obj_Kind obj @ ''|'' @ subj_Object (obj_PrimarySubject obj) @ ''|'' @ obj_TargetedState obj"

text \<open>FNV-1a: exclusive or with the byte, then multiplication by the prime, modulo \<open>2 ^ 64\<close>.\<close>

definition fnv_step :: "char \<Rightarrow> 64 word \<Rightarrow> 64 word" where
  "fnv_step c h = (h XOR of_nat (of_char c)) * 1099511628211"

definition fnv64a :: "string \<Rightarrow> 64 word" where
  "fnv64a s = fold fnv_step s 14695981039346656037"

text \<open>\<^verbatim>\<open>h.Sum(nil)\<close>: the eight bytes of the hash, most significant first.\<close>

definition sum_bytes :: "64 word \<Rightarrow> nat list" where
  "sum_bytes h = map (\<lambda>i. unat (take_bit 8 (drop_bit (8 * i) h))) [7, 6, 5, 4, 3, 2, 1, 0]"

definition toHex :: "nat list \<Rightarrow> string" where
  "toHex b = concat (map (\<lambda>v. [hex_digit (v div 16), hex_digit (v mod 16)]) b)"

text \<open>The loop of \<^verbatim>\<open>sanitizeDNS\<close>: the flag says that the last byte written for this run was a hyphen.\<close>

definition dns_char :: "char \<Rightarrow> bool" where
  "dns_char c \<longleftrightarrow> (CHR ''a'' \<le> c \<and> c \<le> CHR ''z'') \<or> (CHR ''0'' \<le> c \<and> c \<le> CHR ''9'')"

fun dns_loop :: "bool \<Rightarrow> string \<Rightarrow> string" where
  "dns_loop prevDash [] = []"
| "dns_loop prevDash (r # rs) =
     (if dns_char r then r # dns_loop False rs
      else if prevDash then dns_loop True rs
      else CHR ''-'' # dns_loop True rs)"

definition Trim :: "char \<Rightarrow> string \<Rightarrow> string" where
  "Trim ch s = rev (dropWhile (\<lambda>c. c = ch) (rev (dropWhile (\<lambda>c. c = ch) s)))"

definition sanitizeDNS :: "string \<Rightarrow> string" where
  "sanitizeDNS s = Trim (CHR ''-'') (dns_loop False (ToLower s))"

definition AttemptName :: "string \<Rightarrow> string \<Rightarrow> string" where
  "AttemptName workflowName identity =
     (let hash = take 12 (toHex (sum_bytes (fnv64a identity)));
          base = sanitizeDNS workflowName;
          maxBase = 63 - length ''attempt-'' - length ''-'' - 12
      in ''attempt-'' @ (if maxBase < length base then take maxBase base else base) @ ''-'' @ hash)"

lemmas [model_defs] = DeriveKind_def DeriveTargetedState_def DesiredOutcome_def RepoID_def
  deriveSubjects_def DeriveObjective_def Identity_def fnv_step_def fnv64a_def sum_bytes_def toHex_def
  dns_char_def Trim_def sanitizeDNS_def AttemptName_def

section \<open>Lemmas\<close>

text \<open>A Kubernetes object name: a DNS-1123 label.\<close>

definition dns_label :: "string \<Rightarrow> bool" where
  "dns_label s \<longleftrightarrow> s \<noteq> [] \<and> length s \<le> 63 \<and> list_all (\<lambda>c. dns_char c \<or> c = CHR ''-'') s \<and>
     dns_char (hd s) \<and> dns_char (last s)"

lemma dns_char_hex: "n < 16 \<Longrightarrow> dns_char (hex_digit n)"
  by (auto simp: dns_char_def hex_digit_def less_eq_char_def)

lemma dns_char_dash [simp]: "\<not> dns_char (CHR ''-'')"
  by (simp add: dns_char_def less_eq_char_def)

lemma length_toHex: "length (toHex b) = 2 * length b"
  by (simp add: toHex_def length_concat comp_def sum_list_triv)

lemma toHex_chars: "\<forall>v \<in> set b. v < 256 \<Longrightarrow> c \<in> set (toHex b) \<Longrightarrow> dns_char c"
  by (auto simp: toHex_def intro!: dns_char_hex)

lemma length_hash: "length (take 12 (toHex (sum_bytes h))) = 12"
  by (simp add: length_toHex sum_bytes_def)

lemma unat_byte: "unat (take_bit 8 (h :: 64 word)) < 256"
  using take_bit_nat_less_exp [of 8 "unat h"] by (simp add: unsigned_take_bit_eq)

lemma hash_chars: "c \<in> set (take 12 (toHex (sum_bytes h))) \<Longrightarrow> dns_char c"
  by (drule in_set_takeD, erule toHex_chars [rotated]) (simp add: sum_bytes_def unat_byte)

lemma set_dns_loop: "c \<in> set (dns_loop p s) \<Longrightarrow> dns_char c \<or> c = CHR ''-''"
  by (induction p s rule: dns_loop.induct) (auto split: if_splits)

lemma set_sanitizeDNS: "c \<in> set (sanitizeDNS s) \<Longrightarrow> dns_char c \<or> c = CHR ''-''"
  using set_dns_loop [of c False "ToLower s"]
  by (auto simp: sanitizeDNS_def Trim_def dest!: set_dropWhileD)

lemma Trim_ends:
  assumes "Trim ch s \<noteq> []"
  shows "hd (Trim ch s) \<noteq> ch \<and> last (Trim ch s) \<noteq> ch"
proof -
  define d where "d = dropWhile (\<lambda>c. c = ch) s"
  define t where "t = dropWhile (\<lambda>c. c = ch) (rev d)"
  have eq: "Trim ch s = rev t" by (simp add: Trim_def t_def d_def)
  then have ne: "t \<noteq> []" using assms by simp
  then have "hd t \<noteq> ch" unfolding t_def by (rule hd_dropWhile)
  then have l: "last (rev t) \<noteq> ch" using ne by (simp add: last_rev)
  have split: "d = rev t @ rev (takeWhile (\<lambda>c. c = ch) (rev d))"
    using takeWhile_dropWhile_id [of "\<lambda>c. c = ch" "rev d"] by (metis rev_append rev_rev_ident t_def)
  then have hd: "hd d = hd (rev t)" using ne by (metis hd_append2 rev_is_Nil_conv)
  have "d \<noteq> []" using ne split by (metis append_is_Nil_conv rev_is_Nil_conv)
  then have "hd d \<noteq> ch" unfolding d_def by (rule hd_dropWhile)
  then show ?thesis using l hd eq by simp
qed

lemma sanitizeDNS_ends:
  assumes "sanitizeDNS s \<noteq> []"
  shows "dns_char (hd (sanitizeDNS s)) \<and> dns_char (last (sanitizeDNS s))"
  using assms Trim_ends [of "CHR ''-''" "dns_loop False (ToLower s)"] set_sanitizeDNS [of _ s]
    hd_in_set [OF assms] last_in_set [OF assms]
  by (metis sanitizeDNS_def)

lemma Identity_targeted_inj:
  assumes "obj_Kind a = obj_Kind b" and "subj_Object (obj_PrimarySubject a) = subj_Object (obj_PrimarySubject b)"
  shows "Identity a = Identity b \<longleftrightarrow> obj_TargetedState a = obj_TargetedState b"
  using assms by (simp add: Identity_def)

lemma split_bar:
  assumes "CHR ''|'' \<notin> set x" and "CHR ''|'' \<notin> set y" and "x @ ''|'' @ u = y @ ''|'' @ v"
  shows "x = y \<and> u = v"
  using assms
proof (induction x arbitrary: y)
  case Nil
  then show ?case by (cases y) auto
next
  case (Cons c x)
  then show ?case by (cases y) auto
qed

section \<open>Properties\<close>

text \<open>
  An Attempt name is always a DNS-1123 label: between 22 and 63 bytes of lower-case letters,
  digits and hyphens, with a letter or digit at both ends, for every workflow name and identity.
  For one workflow, two identities share a name exactly when the twelve hexadecimal digits of
  their hashes agree.
\<close>

theorem attempt_name_dns:
  "dns_label (AttemptName w i) \<and> 21 \<le> length (AttemptName w i) \<and>
   (AttemptName w i = AttemptName w j \<longleftrightarrow>
      take 12 (toHex (sum_bytes (fnv64a i))) = take 12 (toHex (sum_bytes (fnv64a j))))"
proof -
  define hash where "hash = take 12 (toHex (sum_bytes (fnv64a i)))"
  define base where "base = (if 42 < length (sanitizeDNS w) then take 42 (sanitizeDNS w) else sanitizeDNS w)"
  have name: "AttemptName w i = ''attempt-'' @ base @ ''-'' @ hash"
    by (simp add: AttemptName_def Let_def base_def hash_def)
  have len: "length base \<le> 42" "length hash = 12"
    using length_hash [of "fnv64a i"] by (simp_all add: base_def hash_def)
  have chars: "dns_char c \<or> c = CHR ''-''" if "c \<in> set base \<or> c \<in> set hash" for c
    using that set_sanitizeDNS [of c w] hash_chars [of c] by (auto simp: base_def hash_def dest: in_set_takeD split: if_splits)
  have "hash \<noteq> []" using len by auto
  then have "dns_char (last hash)" using hash_chars [of "last hash" "fnv64a i"] by (simp add: hash_def)
  moreover have "list_all (\<lambda>c. dns_char c \<or> c = CHR ''-'') ''attempt-''" "dns_char (CHR ''a'')"
    by (simp_all add: dns_char_def less_eq_char_def)
  ultimately have "dns_label (AttemptName w i)"
    using len chars \<open>hash \<noteq> []\<close> unfolding dns_label_def name by (auto simp: list_all_iff)
  moreover have "AttemptName w i = AttemptName w j \<longleftrightarrow> hash = take 12 (toHex (sum_bytes (fnv64a j)))"
    by (simp add: AttemptName_def Let_def hash_def)
  ultimately show ?thesis using name len by (simp add: hash_def)
qed

text \<open>
  The objective identity separates objectives: when kinds and subjects hold no bar, two
  objectives have the same identity exactly when kind, primary subject and targeted state agree;
  and a derived objective has one of the declared kinds and a non-empty targeted state.
\<close>

theorem objective_identity:
  assumes "CHR ''|'' \<notin> set (obj_Kind a @ subj_Object (obj_PrimarySubject a))"
    and "CHR ''|'' \<notin> set (obj_Kind b @ subj_Object (obj_PrimarySubject b))"
  shows "(Identity a = Identity b \<longleftrightarrow>
      obj_Kind a = obj_Kind b \<and> subj_Object (obj_PrimarySubject a) = subj_Object (obj_PrimarySubject b) \<and>
      obj_TargetedState a = obj_TargetedState b) \<and>
    obj_Kind (DeriveObjective urlPath w t) \<in>
      {ObjectiveKindDocumentationSync, ObjectiveKindPRReview, ObjectiveKindForkSync} \<and>
    obj_TargetedState (DeriveObjective urlPath w t) \<noteq> [] \<and>
    CHR ''|'' \<notin> set (obj_Kind (DeriveObjective urlPath w t))"
proof -
  have "obj_Kind a = obj_Kind b \<and> subj_Object (obj_PrimarySubject a) = subj_Object (obj_PrimarySubject b) \<and>
      obj_TargetedState a = obj_TargetedState b" if eq: "Identity a = Identity b"
  proof -
    have na: "CHR ''|'' \<notin> set (obj_Kind a)" "CHR ''|'' \<notin> set (obj_Kind b)"
      "CHR ''|'' \<notin> set (subj_Object (obj_PrimarySubject a))" "CHR ''|'' \<notin> set (subj_Object (obj_PrimarySubject b))"
      using assms by (simp_all del: One_nat_def)
    from split_bar [OF na(1,2) eq [unfolded Identity_def]] split_bar [OF na(3,4)]
    show ?thesis by blast
  qed
  moreover have k: "obj_Kind (DeriveObjective urlPath w t) = DeriveKind w"
    "obj_TargetedState (DeriveObjective urlPath w t) = DeriveTargetedState w t"
    by (simp_all add: DeriveObjective_def Let_def split: prod.splits)
  moreover have kind: "DeriveKind w \<in> {ObjectiveKindDocumentationSync, ObjectiveKindPRReview, ObjectiveKindForkSync}"
    using ObjectiveKindForGate_range by (simp add: DeriveKind_def)
  moreover have "CHR ''|'' \<notin> set (DeriveKind w)" using kind by auto
  moreover have "DeriveTargetedState w t \<noteq> []" by (simp add: DeriveTargetedState_def)
  moreover have "Identity a = Identity b" if "obj_Kind a = obj_Kind b"
    "subj_Object (obj_PrimarySubject a) = subj_Object (obj_PrimarySubject b)" "obj_TargetedState a = obj_TargetedState b"
    using that by (simp add: Identity_def)
  ultimately show ?thesis by (metis (no_types, lifting))
qed

definition sample_objective :: "string \<Rightarrow> ObjectiveSpec" where
  "sample_objective state = \<lparr>obj_Kind = ObjectiveKindPRReview,
     obj_PrimarySubject = \<lparr>subj_Binding = ''source'', subj_Object = ''o/r''\<rparr>, obj_RelatedSubjects = [],
     obj_DesiredOutcome = [], obj_TargetedState = state\<rparr>"

theorem objective_identity_witness:
  "Identity (sample_objective ''abc'') \<noteq> Identity (sample_objective ''def'')"
  using objective_identity [of "sample_objective ''abc''" "sample_objective ''def''"]
  by (simp add: sample_objective_def)

end
