(* ===== verification/Attempt_Ledger.thy ===== *)
theory Attempt_Ledger
  imports Attempt_Identity Claim_Trust
begin

text \<open>
  The Attempt ledger of \<^verbatim>\<open>internal/attempt/lifecycle.go\<close>: the pure merges (run records, node
  results, evidence), the compaction that keeps the status under the etcd limit, the status
  mutators of the run life cycle, and \<^verbatim>\<open>patchAttemptStatus\<close>, the one write primitive. The merges
  share the contract \<open>keyed_ledger\<close>. The Kubernetes API is a parameter: the record \<open>'w Client\<close> of
  operations on an arbitrary world \<open>'w\<close>.
\<close>

section \<open>Bounds\<close>

abbreviation (input) MaxStatusNodeResults :: nat where "MaxStatusNodeResults \<equiv> 200"
abbreviation (input) MaxStatusRuns :: nat where "MaxStatusRuns \<equiv> 400"
abbreviation (input) MaxStatusEvidence :: nat where "MaxStatusEvidence \<equiv> 200"
abbreviation (input) MaxStatusBytes :: nat where "MaxStatusBytes \<equiv> 1048576"
abbreviation (input) MinTailEnvelopes :: nat where "MinTailEnvelopes \<equiv> 32"
abbreviation (input) MaxStatusPayloadBytes :: nat where "MaxStatusPayloadBytes \<equiv> 4096"
abbreviation (input) MaxStatusSummaryBytes :: nat where "MaxStatusSummaryBytes \<equiv> 1024"
abbreviation (input) MaxStatusMessageBytes :: nat where "MaxStatusMessageBytes \<equiv> 4096"

section \<open>Merges\<close>

fun upsertNodeResult :: "NodeResultEnvelope list \<Rightarrow> NodeResultEnvelope \<Rightarrow> NodeResultEnvelope list" where
  "upsertNodeResult [] env = [env]"
| "upsertNodeResult (x # xs) env =
     (if env_NodeID x = env_NodeID env \<and> env_RunID x = env_RunID env then env # xs
      else x # upsertNodeResult xs env)"

fun upsertRun :: "RunRecord list \<Rightarrow> RunRecord \<Rightarrow> RunRecord list" where
  "upsertRun [] r = [r]"
| "upsertRun (x # xs) r =
     (if run_Name x = run_Name r
      then (if run_StartedAt r = zero_time then r\<lparr>run_StartedAt := run_StartedAt x\<rparr> else r) # xs
      else x # upsertRun xs r)"

definition evidenceKey :: "EvidenceReference \<Rightarrow> string" where
  "evidenceKey e = ev_Binding e @ ''/'' @ ev_Kind e @ ''/'' @ ev_Identifier e"

text \<open>The loop over the added references; \<open>seen\<close> is the set of keys of the list built so far.\<close>

fun evidence_loop ::
  "string list \<Rightarrow> EvidenceReference list \<Rightarrow> EvidenceReference list \<Rightarrow> EvidenceReference list" where
  "evidence_loop seen existing [] = existing"
| "evidence_loop seen existing (e # es) =
     (if evidenceKey e \<in> set seen then evidence_loop seen existing es
      else evidence_loop (evidenceKey e # seen) (existing @ [e]) es)"

definition appendUniqueEvidence ::
  "EvidenceReference list \<Rightarrow> EvidenceReference list \<Rightarrow> EvidenceReference list" where
  "appendUniqueEvidence existing add = evidence_loop (map evidenceKey existing) existing add"

section \<open>Compaction\<close>

definition envelopeBytes :: "NodeResultEnvelope \<Rightarrow> nat" where
  "envelopeBytes env =
     length (env_NodeID env) + length (env_RunID env) + length (env_Status env) + length (env_Summary env) +
     length (env_Payload env) + 64 +
     sum_list (map (\<lambda>c. length (claim_Type c) + length (claim_Binding c) + length (claim_ExternalID c) +
       length (claim_URL c) + 32) (env_Claims env)) +
     sum_list (map (\<lambda>r. length (ev_Kind r) + length (ev_Identifier r) + length (ev_URL r) + 32) (env_References env)) +
     sum_list (map (\<lambda>a. length (art_Name a) + length (art_Path a) + length (art_Hash a) + 32) (env_Artifacts env))"

definition later :: "instant \<Rightarrow> instant \<Rightarrow> instant" where
  "later through t = (if through < t then t else through)"

text \<open>The byte eviction: the head leaves while the estimate exceeds the budget, down to the floor.\<close>

function evict_bytes :: "nat \<Rightarrow> nat \<Rightarrow> AttemptStatus \<Rightarrow> nat \<times> AttemptStatus" where
  "evict_bytes sz dropped s =
     (if MinTailEnvelopes < length (st_NodeResults s) \<and> MaxStatusBytes < sz
      then evict_bytes (sz - envelopeBytes (hd (st_NodeResults s))) (dropped + 1)
             (s\<lparr>st_CompactedThrough := later (st_CompactedThrough s) (env_ProducedAt (hd (st_NodeResults s))),
                st_NodeResults := tl (st_NodeResults s),
                st_CompactedNodeResults := st_CompactedNodeResults s + 1\<rparr>)
      else (dropped, s))"
  by pat_completeness auto
termination by (relation "measure (\<lambda>(sz, dropped, s). length (st_NodeResults s))") auto

declare evict_bytes.simps [simp del]

definition compact_nodes :: "AttemptStatus \<Rightarrow> nat \<times> AttemptStatus" where
  "compact_nodes s =
     (let drp = length (st_NodeResults s) - MaxStatusNodeResults in
      if 0 < drp
      then (drp, s\<lparr>st_CompactedThrough := foldl later (st_CompactedThrough s) (map env_ProducedAt (take drp (st_NodeResults s))),
                   st_NodeResults := drop drp (st_NodeResults s),
                   st_CompactedNodeResults := st_CompactedNodeResults s + int drp\<rparr>)
      else (0, s))"

definition compact_runs :: "AttemptStatus \<Rightarrow> nat \<times> AttemptStatus" where
  "compact_runs s =
     (let drp = length (st_Runs s) - MaxStatusRuns in
      if 0 < drp
      then (drp, s\<lparr>st_Runs := drop drp (st_Runs s), st_CompactedRuns := st_CompactedRuns s + int drp\<rparr>)
      else (0, s))"

definition compact_evidence :: "AttemptStatus \<Rightarrow> nat \<times> AttemptStatus" where
  "compact_evidence s =
     (let drp = length (st_Evidence s) - MaxStatusEvidence in
      if 0 < drp
      then (drp, s\<lparr>st_Evidence := drop drp (st_Evidence s), st_CompactedEvidence := st_CompactedEvidence s + int drp\<rparr>)
      else (0, s))"

definition compactStatus :: "AttemptStatus \<Rightarrow> nat \<times> AttemptStatus" where
  "compactStatus s =
     (case evict_bytes (sum_list (map envelopeBytes (st_NodeResults s))) 0 s of (d1, s1) \<Rightarrow>
      (case compact_nodes s1 of (d2, s2) \<Rightarrow>
       (case compact_runs s2 of (d3, s3) \<Rightarrow>
        (case compact_evidence s3 of (d4, s4) \<Rightarrow> (d1 + d2 + d3 + d4, s4)))))"

definition boundEnvelope :: "NodeResultEnvelope \<Rightarrow> NodeResultEnvelope" where
  "boundEnvelope env =
     (let e1 = (if MaxStatusPayloadBytes < length (env_Payload env) then env\<lparr>env_Payload := []\<rparr> else env)
      in if MaxStatusSummaryBytes < length (env_Summary e1)
         then e1\<lparr>env_Summary := take MaxStatusSummaryBytes (env_Summary e1)\<rparr> else e1)"

section \<open>Status mutators of the run life cycle\<close>

definition run_started :: "instant \<Rightarrow> string \<Rightarrow> AttemptStatus \<Rightarrow> AttemptStatus" where
  "run_started now runName s =
     s\<lparr>st_Runs := upsertRun (st_Runs s)
          \<lparr>run_Name = runName, run_StartedAt = now, run_EndedAt = zero_time, run_Phase = ''running''\<rparr>,
       st_LastRunAt := now\<rparr>"

record RunOutcome =
  out_RunName :: string
  out_Phase :: string
  out_Envelopes :: "NodeResultEnvelope list"
  out_Message :: string

definition outcome_phase :: "RunOutcome \<Rightarrow> string" where
  "outcome_phase outcome =
     (if out_Phase outcome = ''failed'' then AttemptPhaseFailed
      else if HasValidated (out_Envelopes outcome) then AttemptPhaseValidated
      else AttemptPhaseReconciling)"

definition run_outcome :: "instant \<Rightarrow> RunOutcome \<Rightarrow> AttemptStatus \<Rightarrow> AttemptStatus" where
  "run_outcome now outcome s =
     (let envs = map boundEnvelope (out_Envelopes outcome);
          s1 = s\<lparr>st_Runs := upsertRun (st_Runs s)
                 \<lparr>run_Name = out_RunName outcome, run_StartedAt = zero_time, run_EndedAt = now,
                  run_Phase = out_Phase outcome\<rparr>,
               st_NodeResults := foldl upsertNodeResult (st_NodeResults s) envs,
               st_Evidence := foldl (\<lambda>ev env. appendUniqueEvidence ev (env_References env)) (st_Evidence s) envs,
               st_LastRunAt := now,
               st_Phase := outcome_phase outcome\<rparr>
      in if out_Message outcome \<noteq> []
         then s1\<lparr>st_Message := take MaxStatusMessageBytes (out_Message outcome)\<rparr> else s1)"

definition set_progress :: "instant \<Rightarrow> RunProgress \<Rightarrow> AttemptStatus \<Rightarrow> AttemptStatus" where
  "set_progress now p s = s\<lparr>st_Progress := Some (p\<lparr>prog_UpdatedAt := Some now\<rparr>)\<rparr>"

definition add_node_result :: "NodeResultEnvelope \<Rightarrow> AttemptStatus \<Rightarrow> AttemptStatus" where
  "add_node_result env s = s\<lparr>st_NodeResults := upsertNodeResult (st_NodeResults s) (boundEnvelope env)\<rparr>"

section \<open>The Kubernetes client\<close>

datatype err_kind = NotFound | AlreadyExists | Conflict
  | DeadDispatchBreaker | RecentlyDismissed | ChurnBudgetExhausted | TriggerCooldown | OtherError

record error =
  err_Kind :: err_kind
  err_Text :: string

text \<open>\<^verbatim>\<open>fmt.Errorf("prefix%w", err)\<close>: the text changes, what \<^verbatim>\<open>errors.Is\<close> finds does not.\<close>

definition wrap_error :: "string \<Rightarrow> error \<Rightarrow> error" where
  "wrap_error prefix e = e\<lparr>err_Text := prefix @ err_Text e\<rparr>"

text \<open>
  A label selector: required values and labels that must not exist. A patch carries the object
  it was computed from (its resource version is the optimistic lock) and the new object.
  \<open>cl_retries\<close> is the number of retries behind the first call of \<^verbatim>\<open>retry.RetryOnConflict\<close> with the
  default backoff and \<open>cl_pause\<close> the wait between two calls.
\<close>

record 'w Client =
  cl_now :: "'w \<Rightarrow> instant"
  cl_get :: "string \<Rightarrow> string \<Rightarrow> 'w \<Rightarrow> (error + Attempt) \<times> 'w"
  cl_create :: "Attempt \<Rightarrow> 'w \<Rightarrow> (error + Attempt) \<times> 'w"
  cl_patchStatus :: "Attempt \<Rightarrow> Attempt \<Rightarrow> 'w \<Rightarrow> error option \<times> 'w"
  cl_patch :: "Attempt \<Rightarrow> Attempt \<Rightarrow> 'w \<Rightarrow> error option \<times> 'w"
  cl_delete :: "string \<Rightarrow> string \<Rightarrow> 'w \<Rightarrow> error option \<times> 'w"
  cl_list :: "string \<Rightarrow> (string \<times> string) list \<Rightarrow> string list \<Rightarrow> 'w \<Rightarrow> (error + Attempt list) \<times> 'w"
  cl_setOwner :: "Workflow \<Rightarrow> Attempt \<Rightarrow> error + Attempt"
  cl_retries :: nat
  cl_pause :: "'w \<Rightarrow> 'w"

text \<open>
  \<^verbatim>\<open>retry.RetryOnConflict\<close>: call again while the error is a conflict and calls are left. The value
  \<open>x\<close> stands for the variables that the Go closure captures: they keep their values between calls.
\<close>

fun RetryOnConflict ::
  "nat \<Rightarrow> ('w \<Rightarrow> 'w) \<Rightarrow> ('x \<Rightarrow> 'w \<Rightarrow> (error option \<times> 'x) \<times> 'w) \<Rightarrow> 'x \<Rightarrow> 'w \<Rightarrow> (error option \<times> 'x) \<times> 'w" where
  "RetryOnConflict n pause f x w =
     (case f x w of
        ((None, x'), w') \<Rightarrow> ((None, x'), w')
      | ((Some e, x'), w') \<Rightarrow>
          (case n of
             0 \<Rightarrow> ((Some e, x'), w')
           | Suc m \<Rightarrow> if err_Kind e = Conflict then RetryOnConflict m pause f x' (pause w')
                      else ((Some e, x'), w')))"

declare RetryOnConflict.simps [simp del]

text \<open>One call of the closure inside \<^verbatim>\<open>patchAttemptStatus\<close>: get, mutate, compact, patch.\<close>

definition patch_once ::
  "'w Client \<Rightarrow> string \<Rightarrow> string \<Rightarrow> ('x \<Rightarrow> instant \<Rightarrow> AttemptStatus \<Rightarrow> 'x \<times> AttemptStatus) \<Rightarrow> 'x \<Rightarrow> 'w \<Rightarrow>
     (error option \<times> 'x) \<times> 'w" where
  "patch_once c namespace attemptName mutate x w =
     (case cl_get c namespace attemptName w of
        (Inl e, w1) \<Rightarrow> ((Some (wrap_error (''get attempt '' @ attemptName @ '': '') e), x), w1)
      | (Inr at, w1) \<Rightarrow>
          (case mutate x (cl_now c w1) (at_Status at) of
             (x', s) \<Rightarrow>
               (case cl_patchStatus c at (at\<lparr>at_Status := snd (compactStatus s)\<rparr>) w1 of
                  (e, w2) \<Rightarrow> ((e, x'), w2))))"

definition patchAttemptStatus_with ::
  "'w Client \<Rightarrow> string \<Rightarrow> string \<Rightarrow> ('x \<Rightarrow> instant \<Rightarrow> AttemptStatus \<Rightarrow> 'x \<times> AttemptStatus) \<Rightarrow> 'x \<Rightarrow> 'w \<Rightarrow>
     (error option \<times> 'x) \<times> 'w" where
  "patchAttemptStatus_with c namespace attemptName mutate x w =
     RetryOnConflict (cl_retries c) (cl_pause c) (patch_once c namespace attemptName mutate) x w"

text \<open>The common case: the closure captures no variable that it changes.\<close>

definition patchAttemptStatus ::
  "'w Client \<Rightarrow> string \<Rightarrow> string \<Rightarrow> (instant \<Rightarrow> AttemptStatus \<Rightarrow> AttemptStatus) \<Rightarrow> 'w \<Rightarrow> error option \<times> 'w" where
  "patchAttemptStatus c namespace attemptName mutate w =
     (case patchAttemptStatus_with c namespace attemptName (\<lambda>u now s. (u, mutate now s)) () w of
        ((e, u), w') \<Rightarrow> (e, w'))"

definition RecordRunStarted :: "'w Client \<Rightarrow> string \<Rightarrow> string \<Rightarrow> string \<Rightarrow> 'w \<Rightarrow> error option \<times> 'w" where
  "RecordRunStarted c namespace attemptName runName w =
     (let now = cl_now c w in patchAttemptStatus c namespace attemptName (\<lambda>t. run_started now runName) w)"

definition RecordRunOutcome :: "'w Client \<Rightarrow> string \<Rightarrow> string \<Rightarrow> RunOutcome \<Rightarrow> 'w \<Rightarrow> error option \<times> 'w" where
  "RecordRunOutcome c namespace attemptName outcome w =
     (let now = cl_now c w in patchAttemptStatus c namespace attemptName (\<lambda>t. run_outcome now outcome) w)"

definition RecordProgress :: "'w Client \<Rightarrow> string \<Rightarrow> string \<Rightarrow> RunProgress \<Rightarrow> 'w \<Rightarrow> error option \<times> 'w" where
  "RecordProgress c namespace attemptName p w =
     (let now = cl_now c w in patchAttemptStatus c namespace attemptName (\<lambda>t. set_progress now p) w)"

definition UpsertNodeResult :: "'w Client \<Rightarrow> string \<Rightarrow> string \<Rightarrow> NodeResultEnvelope \<Rightarrow> 'w \<Rightarrow> error option \<times> 'w" where
  "UpsertNodeResult c namespace attemptName env w =
     patchAttemptStatus c namespace attemptName (\<lambda>t. add_node_result env) w"

section \<open>Resolving an Attempt\<close>

record ResolveOptions =
  ro_Namespace :: string
  ro_WorkflowRef :: string
  ro_Owner :: "Workflow option"
  ro_Scheme :: bool

fun lastSlash :: "string \<Rightarrow> nat option" where
  "lastSlash [] = None"
| "lastSlash (c # cs) =
     (case lastSlash cs of
        Some i \<Rightarrow> Some (Suc i)
      | None \<Rightarrow> if c = CHR ''/'' then Some 0 else None)"

definition ownerName :: "ResolveOptions \<Rightarrow> string" where
  "ownerName opts =
     (case ro_Owner opts of
        Some w \<Rightarrow> wf_Name w
      | None \<Rightarrow> (case lastSlash (ro_WorkflowRef opts) of
                   Some i \<Rightarrow> drop (i + 1) (ro_WorkflowRef opts)
                 | None \<Rightarrow> ro_WorkflowRef opts))"

definition ownerValue :: "Workflow option \<Rightarrow> string" where
  "ownerValue w = (case w of None \<Rightarrow> [] | Some x \<Rightarrow> map_get (wf_Labels x) OwnerLabel [])"

definition AttemptSpecFromObjective :: "ObjectiveSpec \<Rightarrow> ResolveOptions \<Rightarrow> AttemptSpec" where
  "AttemptSpecFromObjective obj opts =
     \<lparr>aspec_Objective = obj, aspec_WorkflowRef = ro_WorkflowRef opts,
      aspec_Bindings = (case ro_Owner opts of None \<Rightarrow> [] | Some w \<Rightarrow> wspec_Bindings (wf_Spec w)),
      aspec_Owner = ownerValue (ro_Owner opts)\<rparr>"

definition new_attempt :: "string \<Rightarrow> ObjectiveSpec \<Rightarrow> ResolveOptions \<Rightarrow> Attempt" where
  "new_attempt name obj opts =
     \<lparr>at_Name = name, at_Namespace = ro_Namespace opts,
      at_Labels = [(WorkflowLabel, ownerName opts), (OwnerLabel, ownerValue (ro_Owner opts)),
                   (ObjectiveKindLabel, obj_Kind obj)],
      at_UID = [], at_CreationTimestamp = zero_time, at_ResourceVersion = 0,
      at_Spec = AttemptSpecFromObjective obj opts,
      at_Status = AttemptStatus0\<lparr>st_Phase := AttemptPhaseReconciling\<rparr>\<rparr>"

text \<open>The Attempt and whether this call created it, or the error.\<close>

definition ResolveOrCreate ::
  "'w Client \<Rightarrow> ObjectiveSpec \<Rightarrow> ResolveOptions \<Rightarrow> 'w \<Rightarrow> (error + Attempt \<times> bool) \<times> 'w" where
  "ResolveOrCreate c obj opts w =
     (let name = AttemptName (ownerName opts) (Identity obj); ns = ro_Namespace opts in
      case cl_get c ns name w of
        (Inr existing, w1) \<Rightarrow> (Inr (existing, False), w1)
      | (Inl e, w1) \<Rightarrow>
          if err_Kind e \<noteq> NotFound then (Inl (wrap_error (''get attempt '' @ name @ '': '') e), w1)
          else
            (case (case ro_Owner opts of
                     Some owner \<Rightarrow> if ro_Scheme opts then cl_setOwner c owner (new_attempt name obj opts)
                                    else Inr (new_attempt name obj opts)
                   | None \<Rightarrow> Inr (new_attempt name obj opts)) of
               Inl e2 \<Rightarrow> (Inl (wrap_error ''set attempt owner: '' e2), w1)
             | Inr a \<Rightarrow>
                 (case cl_create c a w1 of
                    (Inr stored, w2) \<Rightarrow> (Inr (stored, True), w2)
                  | (Inl e3, w2) \<Rightarrow>
                      if err_Kind e3 \<noteq> AlreadyExists
                      then (Inl (wrap_error (''create attempt '' @ name @ '': '') e3), w2)
                      else (case cl_get c (at_Namespace a) name w2 of
                              (Inl e4, w3) \<Rightarrow> (Inl (wrap_error (''re-get raced attempt '' @ name @ '': '') e4), w3)
                            | (Inr got, w3) \<Rightarrow> (Inr (got, False), w3)))))"

lemmas [model_defs] = evidenceKey_def appendUniqueEvidence_def envelopeBytes_def later_def compact_nodes_def
  compact_runs_def compact_evidence_def compactStatus_def boundEnvelope_def run_started_def outcome_phase_def
  run_outcome_def set_progress_def add_node_result_def wrap_error_def patch_once_def patchAttemptStatus_with_def
  patchAttemptStatus_def RecordRunStarted_def RecordRunOutcome_def RecordProgress_def UpsertNodeResult_def
  ownerName_def ownerValue_def AttemptSpecFromObjective_def new_attempt_def ResolveOrCreate_def

end
