(* ===== verification/Ledger_Props.thy ===== *)
theory Ledger_Props
  imports Attempt_Ledger
begin

text \<open>
  Properties of the Attempt ledger. The merges of run records, node results and evidence are
  three instances of one contract, \<open>keyed_ledger\<close>: one entry per key, idempotent, order kept. The
  compaction keeps every tail inside its window and the totals exact. The write primitive
  applies a mutation to the object it replaces, so concurrent writers lose no update.
\<close>

section \<open>Keyed ledgers\<close>

locale keyed_ledger =
  fixes key :: "'a \<Rightarrow> 'k" and merge :: "'a \<Rightarrow> 'a \<Rightarrow> 'a" and upsert :: "'a list \<Rightarrow> 'a \<Rightarrow> 'a list"
  assumes upsert_Nil: "upsert [] x = [x]"
    and upsert_Cons: "upsert (y # ys) x = (if key y = key x then merge y x # ys else y # upsert ys x)"
    and key_merge: "key y = key x \<Longrightarrow> key (merge y x) = key x"
    and merge_again: "key y = key x \<Longrightarrow> merge (merge y x) x = merge y x"
    and merge_self: "merge x x = x"
begin

lemma keys_upsert: "map key (upsert ys x) = map key ys @ (if key x \<in> key ` set ys then [] else [key x])"
  by (induction ys) (auto simp: upsert_Nil upsert_Cons key_merge)

lemma distinct_upsert: "distinct (map key ys) \<Longrightarrow> distinct (map key (upsert ys x))"
  by (auto simp: keys_upsert)

lemma length_upsert: "length (upsert ys x) = length ys + (if key x \<in> key ` set ys then 0 else 1)"
  using arg_cong [OF keys_upsert, of length] by (simp split: if_splits)

lemma lookup_upsert:
  "find (\<lambda>y. key y = k) (upsert ys x) =
     (if k = key x
      then Some (case find (\<lambda>y. key y = k) ys of None \<Rightarrow> x | Some y \<Rightarrow> merge y x)
      else find (\<lambda>y. key y = k) ys)"
  by (induction ys) (auto simp: upsert_Nil upsert_Cons key_merge)

definition settled :: "'a list \<Rightarrow> 'a \<Rightarrow> bool" where
  "settled ys x \<longleftrightarrow> (\<exists>y. find (\<lambda>y. key y = key x) ys = Some y \<and> merge y x = y)"

lemma settled_upsert: "settled (upsert ys x) x"
proof (cases "find (\<lambda>y. key y = key x) ys")
  case None
  then show ?thesis by (simp add: settled_def lookup_upsert merge_self)
next
  case (Some y)
  then have "key y = key x" by (auto simp: find_Some_iff)
  then show ?thesis using Some by (simp add: settled_def lookup_upsert merge_again)
qed

lemma settled_other: "settled ys x \<Longrightarrow> key z \<noteq> key x \<Longrightarrow> settled (upsert ys z) x"
  by (auto simp: settled_def lookup_upsert)

lemma upsert_settled: "settled ys x \<Longrightarrow> upsert ys x = ys"
proof (induction ys)
  case (Cons y ys)
  then show ?case by (cases "key y = key x") (auto simp: settled_def upsert_Cons)
qed (simp add: settled_def)

lemma upsert_idem: "upsert (upsert ys x) x = upsert ys x"
  by (rule upsert_settled [OF settled_upsert])

lemma settled_foldl_keep:
  "settled ys x \<Longrightarrow> key x \<notin> key ` set xs \<Longrightarrow> settled (foldl upsert ys xs) x"
proof (induction xs arbitrary: ys)
  case (Cons a xs)
  then have "key a \<noteq> key x" by auto
  then show ?case using Cons settled_other [of ys x a] by simp
qed simp

lemma settled_foldl:
  "distinct (map key xs) \<Longrightarrow> x \<in> set xs \<Longrightarrow> settled (foldl upsert ys xs) x"
  by (induction xs arbitrary: ys) (auto intro: settled_foldl_keep settled_upsert)

lemma foldl_settled: "\<forall>x \<in> set xs. settled ys x \<Longrightarrow> foldl upsert ys xs = ys"
  by (induction xs) (auto simp: upsert_settled)

text \<open>Recording a batch again, in any part and order, changes nothing.\<close>

lemma record_twice:
  assumes "distinct (map key xs)" and "set zs \<subseteq> set xs"
  shows "foldl upsert (foldl upsert ys xs) zs = foldl upsert ys xs"
  using assms by (intro foldl_settled) (auto intro: settled_foldl)

lemma keys_foldl: "key ` set (foldl upsert ys xs) = key ` set ys \<union> key ` set xs"
proof (induction xs arbitrary: ys)
  case (Cons x xs)
  have "set (map key (upsert ys x)) = insert (key x) (key ` set ys)" unfolding keys_upsert by auto
  then show ?case using Cons by auto
qed simp

lemma key_upsert: "key x \<in> key ` set (upsert ys x)"
  using keys_foldl [of ys "[x]"] by simp

lemma distinct_foldl: "distinct (map key ys) \<Longrightarrow> distinct (map key (foldl upsert ys xs))"
  by (induction xs arbitrary: ys) (auto intro!: distinct_upsert)

end

abbreviation node_key :: "NodeResultEnvelope \<Rightarrow> string \<times> string" where
  "node_key env \<equiv> (env_NodeID env, env_RunID env)"

definition keep_start :: "RunRecord \<Rightarrow> RunRecord \<Rightarrow> RunRecord" where
  "keep_start old r = (if run_StartedAt r = zero_time then r\<lparr>run_StartedAt := run_StartedAt old\<rparr> else r)"

interpretation nodes: keyed_ledger node_key "\<lambda>old env. env" upsertNodeResult
  by unfold_locales auto

interpretation runs: keyed_ledger run_Name keep_start upsertRun
  by unfold_locales (auto simp: keep_start_def)

lemma evidence_loop_append:
  "set seen = set (map evidenceKey ex) \<Longrightarrow>
   evidence_loop seen ex es = foldl (\<lambda>ex e. if evidenceKey e \<in> set (map evidenceKey ex) then ex else ex @ [e]) ex es"
  by (induction es arbitrary: seen ex) auto

interpretation evidence: keyed_ledger evidenceKey "\<lambda>old e. old" "\<lambda>ex e. appendUniqueEvidence ex [e]"
  by unfold_locales (auto simp: appendUniqueEvidence_def)

lemma appendUniqueEvidence_foldl:
  "appendUniqueEvidence ex es = foldl (\<lambda>ex e. appendUniqueEvidence ex [e]) ex es"
proof -
  have "appendUniqueEvidence ex [e] = (if evidenceKey e \<in> set (map evidenceKey ex) then ex else ex @ [e])" for ex e
    by (simp add: appendUniqueEvidence_def)
  then show ?thesis by (simp add: appendUniqueEvidence_def evidence_loop_append)
qed

lemma evidence_again:
  "foldl (\<lambda>ex e. appendUniqueEvidence ex [e]) (foldl (\<lambda>ex e. appendUniqueEvidence ex [e]) ev es) es =
   foldl (\<lambda>ex e. appendUniqueEvidence ex [e]) ev es"
proof (rule evidence.foldl_settled, rule ballI)
  fix e assume "e \<in> set es"
  then have "evidenceKey e \<in> evidenceKey ` set (foldl (\<lambda>ex e. appendUniqueEvidence ex [e]) ev es)"
    by (simp add: evidence.keys_foldl)
  then show "evidence.settled (foldl (\<lambda>ex e. appendUniqueEvidence ex [e]) ev es) e"
    by (auto simp: evidence.settled_def find_None_iff
        simp flip: not_None_eq)
qed

lemma distinct_appendUniqueEvidence:
  "distinct (map evidenceKey ex) \<Longrightarrow> distinct (map evidenceKey (appendUniqueEvidence ex es))"
  by (subst appendUniqueEvidence_foldl) (rule evidence.distinct_foldl)

section \<open>Compaction\<close>

lemma later_max: "later a t = max a t"
  by (simp add: later_def max_def)

abbreviation tail_bytes :: "NodeResultEnvelope list \<Rightarrow> nat" where
  "tail_bytes envs \<equiv> sum_list (map envelopeBytes envs)"

text \<open>What dropping the first \<open>k\<close> node results does to a status.\<close>

definition drop_nodes :: "nat \<Rightarrow> AttemptStatus \<Rightarrow> AttemptStatus" where
  "drop_nodes k s =
     s\<lparr>st_CompactedThrough := foldl later (st_CompactedThrough s) (map env_ProducedAt (take k (st_NodeResults s))),
       st_NodeResults := drop k (st_NodeResults s),
       st_CompactedNodeResults := st_CompactedNodeResults s + int k\<rparr>"

lemma drop_nodes_0 [simp]: "drop_nodes 0 s = s"
  by (simp add: drop_nodes_def)

lemma drop_nodes_add: "k \<le> length (st_NodeResults s) \<Longrightarrow> drop_nodes j (drop_nodes k s) = drop_nodes (k + j) s"
  by (simp add: drop_nodes_def take_add) (simp add: add.commute)

lemma evict_bytes_spec:
  "\<exists>k. evict_bytes (tail_bytes (st_NodeResults s)) d s = (d + k, drop_nodes k s) \<and>
     k \<le> length (st_NodeResults s) \<and>
     (length (st_NodeResults s) - k \<le> MinTailEnvelopes \<or> tail_bytes (drop k (st_NodeResults s)) \<le> MaxStatusBytes) \<and>
     (0 < k \<longrightarrow> MinTailEnvelopes \<le> length (st_NodeResults s) - k)"
proof (induction "length (st_NodeResults s)" arbitrary: s d)
  case 0
  then show ?case by (subst evict_bytes.simps) (simp add: exI [of _ 0])
next
  case (Suc n)
  then obtain x xs where nr: "st_NodeResults s = x # xs" by (metis length_Suc_conv)
  show ?case
  proof (cases "MinTailEnvelopes < length (st_NodeResults s) \<and> MaxStatusBytes < tail_bytes (st_NodeResults s)")
    case False
    then have "evict_bytes (tail_bytes (st_NodeResults s)) d s = (d + 0, drop_nodes 0 s)"
      by (subst evict_bytes.simps) (simp only: if_False, simp)
    then show ?thesis using False by (intro exI [of _ 0]) auto
  next
    case True
    let ?s = "drop_nodes 1 s"
    have s': "st_NodeResults ?s = xs" using nr by (simp add: drop_nodes_def)
    have step: "evict_bytes (tail_bytes (st_NodeResults s)) d s = evict_bytes (tail_bytes (st_NodeResults ?s)) (d + 1) ?s"
      using True nr by (subst evict_bytes.simps) (simp add: drop_nodes_def)
    obtain k where k: "evict_bytes (tail_bytes (st_NodeResults ?s)) (d + 1) ?s = (d + 1 + k, drop_nodes k ?s)"
      "k \<le> length xs" "length xs - k \<le> MinTailEnvelopes \<or> tail_bytes (drop k xs) \<le> MaxStatusBytes"
      "0 < k \<longrightarrow> MinTailEnvelopes \<le> length xs - k"
      using Suc.hyps(1) [of ?s "d + 1"] Suc.hyps(2) s' nr by auto
    have "MinTailEnvelopes \<le> length xs - k" using True nr k(4) by (cases "k = 0") auto
    then show ?thesis
      using step k nr by (intro exI [of _ "Suc k"]) (simp add: drop_nodes_add)
  qed
qed

lemma compact_nodes_eq: "compact_nodes s =
    (length (st_NodeResults s) - MaxStatusNodeResults, drop_nodes (length (st_NodeResults s) - MaxStatusNodeResults) s)"
  by (simp add: compact_nodes_def drop_nodes_def Let_def)

lemma compact_runs_eq: "compact_runs s =
    (let k = length (st_Runs s) - MaxStatusRuns in
     (k, s\<lparr>st_Runs := drop k (st_Runs s), st_CompactedRuns := st_CompactedRuns s + int k\<rparr>))"
  by (simp add: compact_runs_def Let_def)

lemma compact_evidence_eq: "compact_evidence s =
    (let k = length (st_Evidence s) - MaxStatusEvidence in
     (k, s\<lparr>st_Evidence := drop k (st_Evidence s), st_CompactedEvidence := st_CompactedEvidence s + int k\<rparr>))"
  by (simp add: compact_evidence_def Let_def)

text \<open>Compaction in closed form: three tails lose a prefix each, the counters say how much.\<close>

definition trimmed :: "nat \<Rightarrow> AttemptStatus \<Rightarrow> AttemptStatus" where
  "trimmed k s =
     (let r = length (st_Runs s) - MaxStatusRuns; e = length (st_Evidence s) - MaxStatusEvidence in
      (drop_nodes k s)\<lparr>st_Runs := drop r (st_Runs s), st_CompactedRuns := st_CompactedRuns s + int r,
        st_Evidence := drop e (st_Evidence s), st_CompactedEvidence := st_CompactedEvidence s + int e\<rparr>)"

definition evicted :: "AttemptStatus \<Rightarrow> nat" where
  "evicted s =
     (let k = fst (evict_bytes (tail_bytes (st_NodeResults s)) 0 s)
      in k + (length (st_NodeResults s) - k - MaxStatusNodeResults))"

lemma compactStatus_eq:
  "compactStatus s =
     (evicted s + (length (st_Runs s) - MaxStatusRuns) + (length (st_Evidence s) - MaxStatusEvidence),
      trimmed (evicted s) s)"
proof -
  obtain k where k: "evict_bytes (tail_bytes (st_NodeResults s)) 0 s = (k, drop_nodes k s)"
    and le: "k \<le> length (st_NodeResults s)"
    using evict_bytes_spec [of s 0] by auto
  then show ?thesis
    by (simp add: compactStatus_def compact_nodes_eq compact_runs_eq compact_evidence_eq Let_def evicted_def
        trimmed_def drop_nodes_add) (simp add: drop_nodes_def)
qed

lemma evicted_bounds:
  "evicted s \<le> length (st_NodeResults s)"
  "length (st_NodeResults s) - evicted s \<le> MaxStatusNodeResults"
  "length (st_NodeResults s) - evicted s \<le> MinTailEnvelopes \<or>
     tail_bytes (drop (evicted s) (st_NodeResults s)) \<le> MaxStatusBytes"
  "0 < evicted s \<longrightarrow> MinTailEnvelopes \<le> length (st_NodeResults s) - evicted s"
proof -
  obtain k where k: "evict_bytes (tail_bytes (st_NodeResults s)) 0 s = (k, drop_nodes k s)"
    and le: "k \<le> length (st_NodeResults s)"
    and b: "length (st_NodeResults s) - k \<le> MinTailEnvelopes \<or> tail_bytes (drop k (st_NodeResults s)) \<le> MaxStatusBytes"
    and f: "0 < k \<longrightarrow> MinTailEnvelopes \<le> length (st_NodeResults s) - k"
    using evict_bytes_spec [of s 0] by auto
  have ev: "evicted s = k + (length (st_NodeResults s) - k - MaxStatusNodeResults)" by (simp add: evicted_def k)
  show "evicted s \<le> length (st_NodeResults s)" "length (st_NodeResults s) - evicted s \<le> MaxStatusNodeResults"
    "0 < evicted s \<longrightarrow> MinTailEnvelopes \<le> length (st_NodeResults s) - evicted s"
    using ev le f by auto
  have "tail_bytes (drop j xs) \<le> tail_bytes xs" for j xs
    by (metis append_take_drop_id le_add2 map_append sum_list_append)
  from this [of "length (st_NodeResults s) - k - MaxStatusNodeResults" "drop k (st_NodeResults s)"]
  show "length (st_NodeResults s) - evicted s \<le> MinTailEnvelopes \<or>
      tail_bytes (drop (evicted s) (st_NodeResults s)) \<le> MaxStatusBytes"
    using b ev by (auto simp: add.commute)
qed

lemma evict_none:
  "length (st_NodeResults s) \<le> MinTailEnvelopes \<or> tail_bytes (st_NodeResults s) \<le> MaxStatusBytes \<Longrightarrow>
   length (st_NodeResults s) \<le> MaxStatusNodeResults \<Longrightarrow> evicted s = 0"
  by (subst evicted_def, subst evict_bytes.simps) auto

lemma trimmed_sel [simp]:
  "st_NodeResults (trimmed k s) = drop k (st_NodeResults s)"
  "st_Runs (trimmed k s) = drop (length (st_Runs s) - MaxStatusRuns) (st_Runs s)"
  "st_Evidence (trimmed k s) = drop (length (st_Evidence s) - MaxStatusEvidence) (st_Evidence s)"
  "st_Phase (trimmed k s) = st_Phase s" "st_Review (trimmed k s) = st_Review s"
  "st_Message (trimmed k s) = st_Message s" "st_Progress (trimmed k s) = st_Progress s"
  "st_LastRunAt (trimmed k s) = st_LastRunAt s"
  by (simp_all add: trimmed_def drop_nodes_def Let_def)

lemma foldl_later: "foldl later a ts = Max (insert a (set ts))"
proof (induction ts arbitrary: a)
  case (Cons t ts)
  have "Max (insert (later a t) (set ts)) = Max (insert a (insert t (set ts)))"
    by (cases "ts = []") (simp_all add: later_max max.assoc)
  then show ?case using Cons by (simp del: Max_insert)
qed simp

section \<open>Invariant of the ledger\<close>

definition one_per_key :: "AttemptStatus \<Rightarrow> bool" where
  "one_per_key s \<longleftrightarrow> distinct (map node_key (st_NodeResults s)) \<and> distinct (map run_Name (st_Runs s)) \<and>
     distinct (map evidenceKey (st_Evidence s))"

definition within_windows :: "AttemptStatus \<Rightarrow> bool" where
  "within_windows s \<longleftrightarrow>
     length (st_NodeResults s) \<le> MaxStatusNodeResults \<and> length (st_Runs s) \<le> MaxStatusRuns \<and>
     length (st_Evidence s) \<le> MaxStatusEvidence \<and>
     (length (st_NodeResults s) \<le> MinTailEnvelopes \<or> tail_bytes (st_NodeResults s) \<le> MaxStatusBytes)"

lemma within_windows_compact: "within_windows (snd (compactStatus s))"
  using evicted_bounds [of s] by (simp add: within_windows_def compactStatus_eq) linarith

lemma one_per_key_compact: "one_per_key s \<Longrightarrow> one_per_key (snd (compactStatus s))"
  by (simp add: one_per_key_def compactStatus_eq drop_map [symmetric] distinct_drop)

lemma compact_within: "within_windows s \<Longrightarrow> compactStatus s = (0, s)"
  by (simp add: within_windows_def compactStatus_eq evict_none trimmed_def)

lemma keys_boundEnvelope [simp]: "node_key (boundEnvelope env) = node_key env"
  by (simp add: boundEnvelope_def Let_def)

lemma env_References_boundEnvelope [simp]: "env_References (boundEnvelope env) = env_References env"
  by (simp add: boundEnvelope_def Let_def)

lemma boundEnvelope_idem [simp]: "boundEnvelope (boundEnvelope env) = boundEnvelope env"
  by (simp add: boundEnvelope_def Let_def)

lemma run_outcome_sel:
  "st_NodeResults (run_outcome now out s) =
     foldl upsertNodeResult (st_NodeResults s) (map boundEnvelope (out_Envelopes out))"
  "st_Evidence (run_outcome now out s) =
     foldl (\<lambda>ev env. appendUniqueEvidence ev (env_References env)) (st_Evidence s) (map boundEnvelope (out_Envelopes out))"
  "st_Runs (run_outcome now out s) =
     upsertRun (st_Runs s) \<lparr>run_Name = out_RunName out, run_StartedAt = zero_time, run_EndedAt = now,
                             run_Phase = out_Phase out\<rparr>"
  "st_Phase (run_outcome now out s) = outcome_phase out"
  "st_Review (run_outcome now out s) = st_Review s"
  by (simp_all add: run_outcome_def Let_def)

lemma one_per_key_mutators:
  assumes "one_per_key s"
  shows "one_per_key (run_started now n s)" "one_per_key (run_outcome now out s)"
    "one_per_key (set_progress now p s)" "one_per_key (add_node_result env s)"
proof -
  have "distinct (map evidenceKey (foldl (\<lambda>ev env. appendUniqueEvidence ev (env_References env)) ev envs))"
    if "distinct (map evidenceKey ev)" for ev and envs :: "NodeResultEnvelope list"
    using that by (induction envs arbitrary: ev) (auto intro: distinct_appendUniqueEvidence)
  then show "one_per_key (run_outcome now out s)"
    using assms by (auto simp: one_per_key_def run_outcome_sel intro: nodes.distinct_foldl runs.distinct_upsert)
qed (use assms in \<open>auto simp: one_per_key_def run_started_def set_progress_def add_node_result_def
       intro: nodes.distinct_upsert runs.distinct_upsert\<close>)

section \<open>Properties\<close>

text \<open>
  C34. Compaction: after it every tail is inside its window (200 node results, 400 runs, 200
  evidence rows, and the node results within one mebibyte by estimate unless only 32 are left);
  what is left is the newest part of each list and never fewer than 32 node results were kept
  when any was dropped; the totals (tail plus counter) are unchanged; the number reported is the
  number of dropped entries; the boundary instant is the latest of the old one and the dropped
  node results; phase, claim, message and progress are untouched; and a second compaction does
  nothing.
\<close>

theorem compact_status_contract:
  "(case compactStatus s of (dropped, s') \<Rightarrow>
     within_windows s' \<and>
     (\<exists>ns rs es. st_NodeResults s = ns @ st_NodeResults s' \<and> st_Runs s = rs @ st_Runs s' \<and>
        st_Evidence s = es @ st_Evidence s' \<and> dropped = length ns + length rs + length es \<and>
        (ns = [] \<or> MinTailEnvelopes \<le> length (st_NodeResults s')) \<and>
        st_CompactedThrough s' = Max (insert (st_CompactedThrough s) (env_ProducedAt ` set ns))) \<and>
     TotalNodeResults s' = TotalNodeResults s \<and> TotalRuns s' = TotalRuns s \<and> TotalEvidence s' = TotalEvidence s \<and>
     st_Phase s' = st_Phase s \<and> st_Review s' = st_Review s \<and> st_Message s' = st_Message s \<and>
     st_Progress s' = st_Progress s \<and> compactStatus s' = (0, s'))"
proof -
  let ?s = "trimmed (evicted s) s"
  have "within_windows ?s" using within_windows_compact [of s] by (simp add: compactStatus_eq)
  moreover have "st_CompactedThrough ?s =
      Max (insert (st_CompactedThrough s) (env_ProducedAt ` set (take (evicted s) (st_NodeResults s))))"
    by (simp add: trimmed_def drop_nodes_def Let_def foldl_later)
  moreover have "TotalNodeResults ?s = TotalNodeResults s" "TotalRuns ?s = TotalRuns s" "TotalEvidence ?s = TotalEvidence s"
    using evicted_bounds(1) [of s]
    by (auto simp: TotalNodeResults_def TotalRuns_def TotalEvidence_def trimmed_def drop_nodes_def Let_def)
  moreover have "\<exists>ns rs es. st_NodeResults s = ns @ st_NodeResults ?s \<and> st_Runs s = rs @ st_Runs ?s \<and>
        st_Evidence s = es @ st_Evidence ?s \<and> fst (compactStatus s) = length ns + length rs + length es \<and>
        (ns = [] \<or> MinTailEnvelopes \<le> length (st_NodeResults ?s)) \<and>
        st_CompactedThrough ?s = Max (insert (st_CompactedThrough s) (env_ProducedAt ` set ns))"
  proof (intro exI conjI)
    show "st_NodeResults s = take (evicted s) (st_NodeResults s) @ st_NodeResults ?s"
      "st_Runs s = take (length (st_Runs s) - MaxStatusRuns) (st_Runs s) @ st_Runs ?s"
      "st_Evidence s = take (length (st_Evidence s) - MaxStatusEvidence) (st_Evidence s) @ st_Evidence ?s"
      by simp_all
    show "fst (compactStatus s) = length (take (evicted s) (st_NodeResults s)) +
        length (take (length (st_Runs s) - MaxStatusRuns) (st_Runs s)) +
        length (take (length (st_Evidence s) - MaxStatusEvidence) (st_Evidence s))"
      using evicted_bounds(1) [of s] by (simp add: compactStatus_eq)
    show "take (evicted s) (st_NodeResults s) = [] \<or> MinTailEnvelopes \<le> length (st_NodeResults ?s)"
      using evicted_bounds(4) [of s] by auto
  qed (use calculation in simp)
  ultimately show ?thesis
    using compact_within [of ?s] by (simp add: compactStatus_eq [of s] del: trimmed_sel) (simp add: compactStatus_eq)
qed

text \<open>
  C36. The ledger invariant: whatever a writer of the run life cycle does (run started, run
  outcome, progress, one node result), the status that reaches the API server is inside the
  windows, and it has one entry per run name, per (node, run) and per evidence key whenever the
  status it was computed from had.
\<close>

theorem ledger_invariant:
  assumes "one_per_key s"
    and "mutate \<in> {run_started now n, run_outcome now out, set_progress now p, add_node_result env}"
  shows "one_per_key (snd (compactStatus (mutate s))) \<and> within_windows (snd (compactStatus (mutate s)))"
  using assms one_per_key_mutators [OF assms(1)] one_per_key_compact within_windows_compact by blast

theorem ledger_invariant_witness:
  "one_per_key (snd (compactStatus (run_started 5 ''job-1'' AttemptStatus0))) \<and>
   within_windows (snd (compactStatus (run_started 5 ''job-1'' AttemptStatus0)))"
  by (rule ledger_invariant [where n = "''job-1''" and now = 5]) (simp_all add: one_per_key_def AttemptStatus0_def)

text \<open>
  Recording is idempotent: envelopes that were recorded one by one as the nodes completed are
  not duplicated when the run's outcome records them again, and recording an outcome twice
  leaves runs, node results and evidence as they were after the first time.
\<close>

theorem outcome_idempotent:
  assumes "distinct (map node_key (out_Envelopes out))"
  shows "st_NodeResults (run_outcome now out (foldl (\<lambda>s env. add_node_result env s) s (out_Envelopes out))) =
      st_NodeResults (foldl (\<lambda>s env. add_node_result env s) s (out_Envelopes out)) \<and>
    st_NodeResults (run_outcome now' out (run_outcome now out s)) = st_NodeResults (run_outcome now out s) \<and>
    st_Evidence (run_outcome now' out (run_outcome now out s)) = st_Evidence (run_outcome now out s) \<and>
    map run_Name (st_Runs (run_outcome now' out (run_outcome now out s))) = map run_Name (st_Runs (run_outcome now out s))"
proof (intro conjI)
  let ?b = "map boundEnvelope (out_Envelopes out)"
  have d: "distinct (map node_key ?b)" using assms by (simp add: comp_def)
  have inc: "st_NodeResults (foldl (\<lambda>s env. add_node_result env s) s envs) =
      foldl upsertNodeResult (st_NodeResults s) (map boundEnvelope envs)" for envs
    by (induction envs arbitrary: s) (simp_all add: add_node_result_def)
  show "st_NodeResults (run_outcome now out (foldl (\<lambda>s env. add_node_result env s) s (out_Envelopes out))) =
      st_NodeResults (foldl (\<lambda>s env. add_node_result env s) s (out_Envelopes out))"
    "st_NodeResults (run_outcome now' out (run_outcome now out s)) = st_NodeResults (run_outcome now out s)"
    by (simp_all add: run_outcome_sel inc nodes.record_twice [OF d subset_refl])
  show "map run_Name (st_Runs (run_outcome now' out (run_outcome now out s))) = map run_Name (st_Runs (run_outcome now out s))"
    unfolding run_outcome_sel
    using runs.key_upsert [of "\<lparr>run_Name = out_RunName out, run_StartedAt = zero_time, run_EndedAt = now,
      run_Phase = out_Phase out\<rparr>" "st_Runs s"]
    by (subst runs.keys_upsert) simp
  have flat: "foldl (\<lambda>ev env. appendUniqueEvidence ev (env_References env)) ev envs =
      foldl (\<lambda>ev e. appendUniqueEvidence ev [e]) ev (concat (map env_References envs))" for ev envs
    by (induction envs arbitrary: ev) (simp_all add: appendUniqueEvidence_foldl [of _ "env_References _"])
  show "st_Evidence (run_outcome now' out (run_outcome now out s)) = st_Evidence (run_outcome now out s)"
    unfolding run_outcome_sel flat by (rule evidence_again)
qed

text \<open>
  The phase follows the outcome (ADR-0004 and ADR-0005): a failed run makes the Attempt
  failed; another run makes it validated exactly when one of its envelopes holds a validated
  claim, and reconciling otherwise; the run's record is terminal with the run's phase and end
  time and keeps the start time recorded before; an existing claim is not touched.
\<close>

theorem outcome_phase_and_run:
  "(st_Phase (run_outcome now out s) = AttemptPhaseFailed \<longleftrightarrow> out_Phase out = ''failed'') \<and>
   (st_Phase (run_outcome now out s) = AttemptPhaseValidated \<longleftrightarrow>
      out_Phase out \<noteq> ''failed'' \<and> HasValidated (out_Envelopes out)) \<and>
   (st_Phase (run_outcome now out s) = AttemptPhaseReconciling \<longleftrightarrow>
      out_Phase out \<noteq> ''failed'' \<and> \<not> HasValidated (out_Envelopes out)) \<and>
   find (\<lambda>r. run_Name r = out_RunName out) (st_Runs (run_outcome now out s)) =
     Some \<lparr>run_Name = out_RunName out,
           run_StartedAt = (case find (\<lambda>r. run_Name r = out_RunName out) (st_Runs s) of
                              None \<Rightarrow> zero_time | Some r \<Rightarrow> run_StartedAt r),
           run_EndedAt = now, run_Phase = out_Phase out\<rparr> \<and>
   st_Review (run_outcome now out s) = st_Review s"
  by (auto simp: run_outcome_sel outcome_phase_def runs.lookup_upsert keep_start_def split: option.splits)

section \<open>The write primitive\<close>

text \<open>
  Optimistic concurrency as the API server documents it: every stored version of an object is
  one object (\<open>obj\<close>, by name and resource version); a get returns a stored version; a patch that
  succeeds replaced the current version, which is the one the patch was computed from, and this
  commit is in the log of commits of the world.
\<close>

definition versioned_get :: "'w Client \<Rightarrow> (string \<Rightarrow> string \<Rightarrow> nat \<Rightarrow> Attempt) \<Rightarrow> bool" where
  "versioned_get c obj \<longleftrightarrow>
     (\<forall>ns n w a w'. cl_get c ns n w = (Inr a, w') \<longrightarrow>
        at_Namespace a = ns \<and> at_Name a = n \<and> a = obj ns n (at_ResourceVersion a))"

definition locked_patch ::
  "'w Client \<Rightarrow> (string \<Rightarrow> string \<Rightarrow> nat \<Rightarrow> Attempt) \<Rightarrow> ('w \<Rightarrow> (Attempt \<times> Attempt) list) \<Rightarrow> bool" where
  "locked_patch c obj log \<longleftrightarrow>
     (\<forall>base new w w'. cl_patchStatus c base new w = (None, w') \<longrightarrow>
        (\<exists>before current. log w' = before @ [(current, new)] \<and>
           at_ResourceVersion current = at_ResourceVersion base \<and>
           current = obj (at_Namespace base) (at_Name base) (at_ResourceVersion current)))"

lemma RetryOnConflict_success:
  assumes "RetryOnConflict n pause f x w = ((None, x'), w')"
  obtains y v where "f y v = ((None, x'), w')"
  using assms
proof (induction n pause f x w rule: RetryOnConflict.induct)
  case (1 n pause f x w)
  show ?case
  proof (cases "fst (fst (f x w))")
    case None
    then have "f x w = ((None, x'), w')"
      using 1(3) by (subst (asm) RetryOnConflict.simps) (auto split: prod.splits option.splits)
    then show ?thesis by (rule 1(2))
  next
    case (Some e)
    then obtain y v where fx: "f x w = ((Some e, y), v)" by (metis prod.collapse)
    then obtain m where "n = Suc m" "err_Kind e = Conflict" "RetryOnConflict m pause f y (pause v) = ((None, x'), w')"
      using 1(3) by (subst (asm) RetryOnConflict.simps) (auto split: nat.splits if_splits)
    then show ?thesis using 1(1) [of "(Some e, y)" v "Some e" y e m] fx 1(2) by auto
  qed
qed

text \<open>
  C35. No lost update: when the write primitive reports success, it committed the mutation (and
  the compaction) of exactly the object that was current at the commit, whatever other writers
  did between its read and its write.
\<close>

theorem patch_no_lost_update:
  assumes "versioned_get c obj" and "locked_patch c obj log"
    and "patchAttemptStatus c ns n mutate w = (None, w')"
  shows "\<exists>before current now. log w' = before @
      [(current, current\<lparr>at_Status := snd (compactStatus (mutate now (at_Status current)))\<rparr>)] \<and>
    at_Namespace current = ns \<and> at_Name current = n"
proof -
  have "RetryOnConflict (cl_retries c) (cl_pause c) (patch_once c ns n (\<lambda>u now s. (u, mutate now s))) () w = ((None, ()), w')"
    using assms(3) by (auto simp: patchAttemptStatus_def patchAttemptStatus_with_def split: prod.splits)
  then obtain y v where once: "patch_once c ns n (\<lambda>u now s. (u, mutate now s)) y v = ((None, ()), w')"
    by (rule RetryOnConflict_success)
  obtain at w1 where g: "cl_get c ns n v = (Inr at, w1)"
    and p: "cl_patchStatus c at (at\<lparr>at_Status := snd (compactStatus (mutate (cl_now c w1) (at_Status at)))\<rparr>) w1 = (None, w')"
    using once by (auto simp: patch_once_def split: prod.splits sum.splits)
  have a: "at_Namespace at = ns" "at_Name at = n" "at = obj ns n (at_ResourceVersion at)"
    using assms(1) g unfolding versioned_get_def by blast+
  obtain before current where "log w' = before @
      [(current, at\<lparr>at_Status := snd (compactStatus (mutate (cl_now c w1) (at_Status at)))\<rparr>)]"
    "at_ResourceVersion current = at_ResourceVersion at"
    "current = obj (at_Namespace at) (at_Name at) (at_ResourceVersion current)"
    using assms(2) p unfolding locked_patch_def by blast
  moreover from this have "current = at" using a by metis
  ultimately show ?thesis using a by blast
qed

text \<open>A store that holds one Attempt and accepts one write.\<close>

definition one_attempt :: Attempt where
  "one_attempt = \<lparr>at_Name = ''a'', at_Namespace = ''ns'', at_Labels = [], at_UID = ''u1'', at_CreationTimestamp = 1,
     at_ResourceVersion = 7,
     at_Spec = \<lparr>aspec_Objective = sample_objective ''abc'', aspec_WorkflowRef = ''ns/w'', aspec_Bindings = [], aspec_Owner = []\<rparr>,
     at_Status = AttemptStatus0\<rparr>"

definition one_write_client :: "(Attempt \<times> Attempt) list Client" where
  "one_write_client =
     \<lparr>cl_now = (\<lambda>w. 5),
      cl_get = (\<lambda>ns n w. (if ns = ''ns'' \<and> n = ''a'' then Inr one_attempt else Inl \<lparr>err_Kind = NotFound, err_Text = []\<rparr>, w)),
      cl_create = (\<lambda>a w. (Inr a, w)),
      cl_patchStatus = (\<lambda>base new w. if w = [] \<and> base = one_attempt then (None, [(one_attempt, new)])
                                     else (Some \<lparr>err_Kind = Conflict, err_Text = []\<rparr>, w)),
      cl_patch = (\<lambda>base new w. (None, w)), cl_delete = (\<lambda>ns n w. (None, w)),
      cl_list = (\<lambda>ns eqs absent w. (Inr [], w)), cl_setOwner = (\<lambda>ow a. Inr a), cl_retries = 3, cl_pause = (\<lambda>w. w)\<rparr>"

theorem patch_no_lost_update_witness:
  "\<exists>before current now. snd (patchAttemptStatus one_write_client ''ns'' ''a'' (\<lambda>t. run_started 5 ''job-1'') []) = before @
      [(current, current\<lparr>at_Status := snd (compactStatus (run_started 5 ''job-1'' (at_Status current)))\<rparr>)] \<and>
    at_Namespace current = ''ns'' \<and> at_Name current = ''a''"
proof -
  have "versioned_get one_write_client (\<lambda>ns n v. one_attempt)"
    by (auto simp: versioned_get_def one_write_client_def one_attempt_def)
  moreover have "locked_patch one_write_client (\<lambda>ns n v. one_attempt) (\<lambda>w. w)"
    by (auto simp: locked_patch_def one_write_client_def split: if_splits)
  moreover obtain w' where "patchAttemptStatus one_write_client ''ns'' ''a'' (\<lambda>t. run_started 5 ''job-1'') [] = (None, w')"
    by (simp add: patchAttemptStatus_def patchAttemptStatus_with_def RetryOnConflict.simps patch_once_def one_write_client_def)
  ultimately show ?thesis using patch_no_lost_update [where n = "''a''" and ns = "''ns''"] by fastforce
qed

theorem outcome_idempotent_witness:
  "st_NodeResults (run_outcome 2 \<lparr>out_RunName = ''r'', out_Phase = ''succeeded'',
       out_Envelopes = [NodeResultEnvelope0\<lparr>env_NodeID := ''n''\<rparr>], out_Message = []\<rparr>
     (run_outcome 1 \<lparr>out_RunName = ''r'', out_Phase = ''succeeded'',
       out_Envelopes = [NodeResultEnvelope0\<lparr>env_NodeID := ''n''\<rparr>], out_Message = []\<rparr> AttemptStatus0)) =
   [NodeResultEnvelope0\<lparr>env_NodeID := ''n''\<rparr>]"
proof -
  let ?out = "\<lparr>out_RunName = ''r'', out_Phase = ''succeeded'',
    out_Envelopes = [NodeResultEnvelope0\<lparr>env_NodeID := ''n''\<rparr>], out_Message = []\<rparr>"
  have "st_NodeResults (run_outcome 2 ?out (run_outcome 1 ?out AttemptStatus0)) =
      st_NodeResults (run_outcome 1 ?out AttemptStatus0)"
    using outcome_idempotent [of ?out] by simp
  then show ?thesis by (simp add: run_outcome_sel AttemptStatus0_def boundEnvelope_def NodeResultEnvelope0_def)
qed

end
