(* ===== verification/Review_Ready.thy ===== *)
theory Review_Ready
  imports Api_Types
begin

text \<open>
  The configuration and the refusal memo of the Review-Ready Gate
  (\<^verbatim>\<open>api/v1alpha1/reviewready.go\<close>, ADR-0006): effective durations with their fail-closed defaults,
  the cancellation set of release reasons, and the bounded memo of refused heads. A nil
  \<^verbatim>\<open>*ReviewReadySpec\<close> receiver is \<^const>\<open>None\<close>.
\<close>

abbreviation (input) OneShotRunBound :: duration where "OneShotRunBound \<equiv> 30 * minute"
abbreviation (input) MinDispatchMargin :: duration where "MinDispatchMargin \<equiv> 5 * minute"
abbreviation (input) MaxRunBound :: duration where "MaxRunBound \<equiv> 2 * hour"
abbreviation (input) MaxDeadDispatchesPerHead :: int where "MaxDeadDispatchesPerHead \<equiv> 3"
abbreviation (input) MaxDispatchLostReleases :: int where "MaxDispatchLostReleases \<equiv> 3"
abbreviation (input) MaxReviewRefusals :: nat where "MaxReviewRefusals \<equiv> 16"

abbreviation (input) ReleaseReasonDispatchLost :: string where "ReleaseReasonDispatchLost \<equiv> ''dispatch-lost''"
abbreviation (input) ReleaseReasonHorizon :: string where "ReleaseReasonHorizon \<equiv> ''horizon''"
abbreviation (input) ReleaseReasonDispatchTimeout :: string where
  "ReleaseReasonDispatchTimeout \<equiv> ''dispatch-timeout''"
abbreviation (input) ReleaseReasonSuperseded :: string where "ReleaseReasonSuperseded \<equiv> ''superseded''"
abbreviation (input) ReleaseReasonPRClosed :: string where "ReleaseReasonPRClosed \<equiv> ''pr-closed''"
abbreviation (input) ReleaseReasonPointerInvalid :: string where "ReleaseReasonPointerInvalid \<equiv> ''pointer-invalid''"
abbreviation (input) ReleaseReasonReaped :: string where "ReleaseReasonReaped \<equiv> ''reaped''"

definition IsCancellationRelease :: "string \<Rightarrow> bool" where
  "IsCancellationRelease reason \<longleftrightarrow> reason = ReleaseReasonSuperseded \<or> reason = ReleaseReasonPRClosed"

definition RunBoundDuration :: "ReviewReadySpec option \<Rightarrow> duration" where
  "RunBoundDuration r =
     (case r of
        None \<Rightarrow> OneShotRunBound
      | Some sp \<Rightarrow>
          if rr_RunBound sp = [] then OneShotRunBound
          else (case ParseDuration (rr_RunBound sp) of
                  Some d \<Rightarrow> if 0 < d \<and> d \<le> MaxRunBound then d else OneShotRunBound
                | None \<Rightarrow> OneShotRunBound))"

definition EffectiveMaxConcurrent :: "ReviewReadySpec option \<Rightarrow> int \<Rightarrow> int" where
  "EffectiveMaxConcurrent r fleetDefault =
     (case r of
        None \<Rightarrow> fleetDefault
      | Some sp \<Rightarrow> if rr_MaxConcurrent sp \<le> 0 then fleetDefault else rr_MaxConcurrent sp)"

definition HorizonDuration :: "ReviewReadySpec option \<Rightarrow> duration" where
  "HorizonDuration r =
     (case r of
        None \<Rightarrow> 6 * hour
      | Some sp \<Rightarrow>
          if rr_Horizon sp = [] then 6 * hour
          else (case ParseDuration (rr_Horizon sp) of
                  Some d \<Rightarrow> if 0 < d then d else 6 * hour
                | None \<Rightarrow> 6 * hour))"

definition DispatchTimeoutDuration :: "ReviewReadySpec option \<Rightarrow> duration" where
  "DispatchTimeoutDuration r =
     (let bound = RunBoundDuration r; def = bound + 15 * minute in
      case r of
        None \<Rightarrow> def
      | Some sp \<Rightarrow>
          if rr_DispatchTimeout sp = [] then def
          else (case ParseDuration (rr_DispatchTimeout sp) of
                  Some d \<Rightarrow> if bound + MinDispatchMargin \<le> d then d else def
                | None \<Rightarrow> def))"

definition EffectiveLabel :: "ReviewReadySpec option \<Rightarrow> string" where
  "EffectiveLabel r =
     (case r of None \<Rightarrow> ''needs-review'' | Some sp \<Rightarrow> if rr_Label sp = [] then ''needs-review'' else rr_Label sp)"

section \<open>The refusal memo\<close>

definition same_head :: "ReviewRefusal \<Rightarrow> ReviewRefusal \<Rightarrow> bool" where
  "same_head x r \<longleftrightarrow> ref_Repo x = ref_Repo r \<and> ref_PR x = ref_PR r \<and> ref_HeadSHA x = ref_HeadSHA r"

text \<open>The loop finds the first entry of the head at index \<open>i\<close>; \<open>earlier\<close> holds the entries in front of it.\<close>

fun record_refusal_loop :: "ReviewRefusal list \<Rightarrow> ReviewRefusal \<Rightarrow> ReviewRefusal list \<Rightarrow> ReviewRefusal list option" where
  "record_refusal_loop earlier r [] = None"
| "record_refusal_loop earlier r (x # xs) =
     (if same_head x r
      then Some ((if ref_VerdictURL x = ref_VerdictURL r then r\<lparr>ref_HostNotified := ref_HostNotified x\<rparr> else r)
                 # earlier @ xs)
      else record_refusal_loop (earlier @ [x]) r xs)"

definition RecordReviewRefusal :: "ReviewRefusal list \<Rightarrow> ReviewRefusal \<Rightarrow> ReviewRefusal list" where
  "RecordReviewRefusal memo r =
     (let out = (case record_refusal_loop [] r memo of Some out \<Rightarrow> out | None \<Rightarrow> r # memo)
      in if MaxReviewRefusals < length out then take MaxReviewRefusals out else out)"

fun ReviewRefusalFor :: "ReviewRefusal list \<Rightarrow> string \<Rightarrow> int \<Rightarrow> ReviewRefusal option" where
  "ReviewRefusalFor [] repo pr = None"
| "ReviewRefusalFor (x # xs) repo pr =
     (if ref_Repo x = repo \<and> ref_PR x = pr then Some x else ReviewRefusalFor xs repo pr)"

definition Matches :: "ReviewRefusal \<Rightarrow> string \<Rightarrow> bool" where
  "Matches r headSHA =
     (if ref_HeadSHA r = [] \<or> headSHA = [] then False
      else let memo = ToLower (ref_HeadSHA r); head = ToLower headSHA
           in if length memo \<le> length head then HasPrefix head memo else HasPrefix memo head)"

definition RecordRefusal :: "ReviewReadyStatus \<Rightarrow> ReviewRefusal \<Rightarrow> ReviewReadyStatus" where
  "RecordRefusal s r = s\<lparr>rrs_Refusals := RecordReviewRefusal (rrs_Refusals s) r\<rparr>"

definition RefusalFor :: "ReviewReadyStatus \<Rightarrow> string \<Rightarrow> int \<Rightarrow> ReviewRefusal option" where
  "RefusalFor s repo pr = ReviewRefusalFor (rrs_Refusals s) repo pr"

lemmas [model_defs] = IsCancellationRelease_def RunBoundDuration_def EffectiveMaxConcurrent_def
  HorizonDuration_def DispatchTimeoutDuration_def EffectiveLabel_def same_head_def RecordReviewRefusal_def
  Matches_def RecordRefusal_def RefusalFor_def

section \<open>Lemmas\<close>

lemma RunBound_range: "0 < RunBoundDuration r \<and> RunBoundDuration r \<le> MaxRunBound"
  by (auto simp: RunBoundDuration_def split: option.splits)

lemma Horizon_pos: "0 < HorizonDuration r"
  by (auto simp: HorizonDuration_def split: option.splits)

lemma DispatchTimeout_margin: "RunBoundDuration r + MinDispatchMargin \<le> DispatchTimeoutDuration r"
  by (auto simp: DispatchTimeoutDuration_def Let_def split: option.splits)

definition refusal_key :: "ReviewRefusal \<Rightarrow> string \<times> int \<times> string" where
  "refusal_key r = (ref_Repo r, ref_PR r, ref_HeadSHA r)"

lemma same_head_key: "same_head x r \<longleftrightarrow> refusal_key x = refusal_key r"
  by (simp add: same_head_def refusal_key_def)

lemma refusal_key_notified [simp]: "refusal_key (r\<lparr>ref_HostNotified := b\<rparr>) = refusal_key r"
  by (simp add: refusal_key_def)

lemma record_refusal_loop_eq:
  "record_refusal_loop earlier r xs =
     (case find (\<lambda>x. same_head x r) xs of
        None \<Rightarrow> None
      | Some x \<Rightarrow> Some ((if ref_VerdictURL x = ref_VerdictURL r then r\<lparr>ref_HostNotified := ref_HostNotified x\<rparr> else r)
          # earlier @ remove1 x xs))"
proof (induction xs arbitrary: earlier)
  case (Cons y ys)
  show ?case
  proof (cases "same_head y r")
    case False
    then have "y \<noteq> x" if "find (\<lambda>x. same_head x r) ys = Some x" for x
      using that by (auto simp: find_Some_iff)
    then show ?thesis using False Cons by (auto split: option.splits)
  qed simp
qed simp

text \<open>The memo before pruning: the refreshed entry in front, the old entry of the head gone.\<close>

lemma RecordReviewRefusal_eq:
  "RecordReviewRefusal memo r =
     take MaxReviewRefusals
       ((case find (\<lambda>x. same_head x r) memo of
           None \<Rightarrow> r
         | Some x \<Rightarrow> if ref_VerdictURL x = ref_VerdictURL r then r\<lparr>ref_HostNotified := ref_HostNotified x\<rparr> else r)
        # (case find (\<lambda>x. same_head x r) memo of None \<Rightarrow> memo | Some x \<Rightarrow> remove1 x memo))"
  by (simp add: RecordReviewRefusal_def record_refusal_loop_eq Let_def split: option.splits)

lemma remove1_key:
  "distinct (map refusal_key xs) \<Longrightarrow> x \<in> set xs \<Longrightarrow> remove1 x xs = filter (\<lambda>y. refusal_key y \<noteq> refusal_key x) xs"
proof (induction xs)
  case (Cons y ys)
  have "filter (\<lambda>z. refusal_key z \<noteq> refusal_key y) ys = ys"
    using Cons.prems(1) by (intro filter_True ballI notI) (simp, metis image_eqI)
  then show ?case using Cons by auto
qed simp

lemma remaining_memo:
  assumes "distinct (map refusal_key memo)"
  shows "(case find (\<lambda>x. same_head x r) memo of None \<Rightarrow> memo | Some x \<Rightarrow> remove1 x memo) =
     filter (\<lambda>y. refusal_key y \<noteq> refusal_key r) memo"
proof (cases "find (\<lambda>x. same_head x r) memo")
  case None
  then have "filter (\<lambda>y. refusal_key y \<noteq> refusal_key r) memo = memo"
    by (intro filter_True) (auto simp: find_None_iff same_head_key)
  then show ?thesis using None by simp
next
  case (Some x)
  then have "x \<in> set memo" "refusal_key x = refusal_key r"
    by (auto simp: find_Some_iff same_head_key)
  then show ?thesis using Some remove1_key [OF assms] by simp
qed

section \<open>Properties\<close>

text \<open>
  Exactly-once by construction: whatever strings are configured, the effective run bound is
  positive and at most two hours, the horizon is positive, and the dispatch timeout leaves at
  least the minimal margin over the run bound, so a dispatch that is older than the timeout
  belongs to a run that its wall has already ended.
\<close>

theorem dispatch_timeout_margin:
  "0 < RunBoundDuration r \<and> RunBoundDuration r \<le> MaxRunBound \<and> 0 < HorizonDuration r \<and>
   RunBoundDuration r + MinDispatchMargin \<le> DispatchTimeoutDuration r"
  using RunBound_range Horizon_pos DispatchTimeout_margin by blast

text \<open>
  The refusal memo: recording keeps it at sixteen entries or fewer and at one entry per head;
  the new refusal is in front, with the notification state of the entry it replaces exactly when
  the verdict link is the same; the other entries keep their order and at most the oldest is
  dropped.
\<close>

theorem refusal_memo_bounded:
  assumes "distinct (map refusal_key memo)"
  shows "length (RecordReviewRefusal memo r) \<le> MaxReviewRefusals \<and>
    distinct (map refusal_key (RecordReviewRefusal memo r)) \<and>
    refusal_key (hd (RecordReviewRefusal memo r)) = refusal_key r \<and>
    (ref_HostNotified (hd (RecordReviewRefusal memo r)) \<longleftrightarrow>
       (case find (\<lambda>x. same_head x r) memo of
          None \<Rightarrow> ref_HostNotified r
        | Some x \<Rightarrow> if ref_VerdictURL x = ref_VerdictURL r then ref_HostNotified x else ref_HostNotified r)) \<and>
    tl (RecordReviewRefusal memo r) =
      take (MaxReviewRefusals - 1) (filter (\<lambda>y. refusal_key y \<noteq> refusal_key r) memo)"
proof -
  let ?h = "case find (\<lambda>x. same_head x r) memo of
      None \<Rightarrow> r
    | Some x \<Rightarrow> if ref_VerdictURL x = ref_VerdictURL r then r\<lparr>ref_HostNotified := ref_HostNotified x\<rparr> else r"
  let ?f = "filter (\<lambda>y. refusal_key y \<noteq> refusal_key r) memo"
  have eq: "RecordReviewRefusal memo r = ?h # take (MaxReviewRefusals - 1) ?f"
    unfolding RecordReviewRefusal_eq remaining_memo [OF assms] by (simp add: numeral_eq_Suc)
  have k: "refusal_key ?h = refusal_key r" by (simp split: option.splits)
  have "distinct (map refusal_key ?f)" using assms by (simp add: distinct_map_filter)
  then have "distinct (map refusal_key (take (MaxReviewRefusals - 1) ?f))" by (simp add: take_map [symmetric] distinct_take)
  moreover have "refusal_key r \<notin> refusal_key ` set (take (MaxReviewRefusals - 1) ?f)"
    by (auto dest: in_set_takeD)
  ultimately show ?thesis unfolding eq using k by (auto split: option.splits)
qed

definition sample_refusal :: "string \<Rightarrow> ReviewRefusal" where
  "sample_refusal sha = \<lparr>ref_Repo = ''h/o/r'', ref_PR = 7, ref_HeadSHA = sha, ref_Reason = [], ref_At = None,
     ref_VerdictURL = ''u'', ref_Emitted = False, ref_HostNotified = False\<rparr>"

theorem refusal_memo_bounded_witness:
  "tl (RecordReviewRefusal [sample_refusal ''a'', sample_refusal ''b''] (sample_refusal ''b'')) = [sample_refusal ''a'']"
  using refusal_memo_bounded [of "[sample_refusal ''a'', sample_refusal ''b'']" "sample_refusal ''b''"]
  by (simp add: sample_refusal_def refusal_key_def)

end
