(* ===== verification/Attempt_Claim.thy ===== *)
theory Attempt_Claim
  imports Attempt_Ledger Review_Ready
begin

text \<open>
  Review claims (\<^verbatim>\<open>internal/attempt/claim.go\<close>, ADR-0007): the Attempt is the claim. Arming,
  dispatching, releasing and finalising are status mutations (pure functions here) that go through
  the ledger's write primitive; the release marker is a label, kept by two writers with the same
  discipline; \<^verbatim>\<open>ArmClaim\<close> composes resolution, the guards, the supersession of other claims on the
  same pull request, the marker and the arming write.
\<close>

section \<open>Texts\<close>

definition shortSHA :: "string \<Rightarrow> string" where
  "shortSHA sha = (if 8 < length sha then take 8 sha else sha)"

text \<open>\<^verbatim>\<open>d.Round(time.Minute).String()\<close>: half a minute rounds away from zero.\<close>

definition round_minute :: "duration \<Rightarrow> int" where
  "round_minute d = (if d < 0 then - ((- d + 30 * second) div minute) else (d + 30 * second) div minute)"

definition minutes_text :: "int \<Rightarrow> string" where
  "minutes_text k =
     (if k = 0 then ''0s''
      else (if k < 0 then ''-'' else []) @
        (let m = \<bar>k\<bar> in
         (if 60 \<le> m then show_int (m div 60) @ ''h'' else []) @ show_int (m mod 60) @ ''m0s''))"

section \<open>Status mutations\<close>

text \<open>\<^verbatim>\<open>if s.Review == nil { s.Review = &ReviewClaimStatus{} }\<close>\<close>

definition review_of :: "AttemptStatus \<Rightarrow> ReviewClaimStatus" where
  "review_of s = (case st_Review s of None \<Rightarrow> ReviewClaimStatus0 | Some r \<Rightarrow> r)"

definition DispatchLostWindowOpen :: "instant \<Rightarrow> ReviewClaimStatus option \<Rightarrow> duration \<Rightarrow> duration \<Rightarrow> bool" where
  "DispatchLostWindowOpen now r claimAge horizon =
     (case r of
        None \<Rightarrow> False
      | Some x \<Rightarrow> (case rc_LastDispatchLostAt x of None \<Rightarrow> claimAge | Some t \<Rightarrow> now - t) < horizon)"

definition arm_review ::
  "instant \<Rightarrow> string \<Rightarrow> string \<Rightarrow> string \<Rightarrow> bool \<Rightarrow> bool \<Rightarrow> ReviewClaimStatus \<Rightarrow> ReviewClaimStatus" where
  "arm_review now pr headSHA label humanRequest budgetExpiry r =
     (let sameClaim = (rc_PR r = pr \<and> rc_HeadSHA r = headSHA);
          wasReleased = rc_Released r;
          wasHorizon = (rc_ReleaseReason r = ReleaseReasonHorizon);
          wasDispatchLost = (rc_ReleaseReason r = ReleaseReasonDispatchLost);
          r1 = r\<lparr>rc_PR := pr, rc_HeadSHA := headSHA, rc_Label := label\<rparr>;
          r2 = (if \<not> sameClaim \<or> rc_ArmedSince r1 = None \<or> wasHorizon \<or> (humanRequest \<and> wasDispatchLost)
                then r1\<lparr>rc_ArmedSince := Some now\<rparr> else r1);
          r3 = (if wasReleased then r2\<lparr>rc_DispatchedAt := None\<rparr> else r2);
          r4 = (if \<not> sameClaim \<or> humanRequest \<or> budgetExpiry
                then r3\<lparr>rc_DeadDispatches := 0, rc_DispatchLostReleases := 0\<rparr> else r3)
      in r4\<lparr>rc_Released := False, rc_ReleaseReason := []\<rparr>)"

definition arm_status ::
  "instant \<Rightarrow> string \<Rightarrow> string \<Rightarrow> string \<Rightarrow> bool \<Rightarrow> bool \<Rightarrow> AttemptStatus \<Rightarrow> AttemptStatus" where
  "arm_status now pr headSHA label humanRequest budgetExpiry s =
     (let s1 = (if st_Phase s = [] then s\<lparr>st_Phase := AttemptPhaseReconciling\<rparr> else s);
          s2 = s1\<lparr>st_Review := Some (arm_review now pr headSHA label humanRequest budgetExpiry (review_of s1))\<rparr>
      in if st_Phase s2 = AttemptPhaseFailed \<or> st_Phase s2 = AttemptPhaseValidated \<or> st_Phase s2 = AttemptPhaseSuperseded
         then s2\<lparr>st_Phase := AttemptPhaseReconciling, st_Message := []\<rparr> else s2)"

definition dispatch_intent :: "instant \<Rightarrow> AttemptStatus \<Rightarrow> AttemptStatus" where
  "dispatch_intent now s =
     s\<lparr>st_Review := Some ((review_of s)\<lparr>rc_DispatchedAt := Some now, rc_DispatchLostReleases := 0\<rparr>)\<rparr>"

definition claim_dispatched :: "string \<Rightarrow> instant \<Rightarrow> AttemptStatus \<Rightarrow> AttemptStatus" where
  "claim_dispatched jobName now s =
     s\<lparr>st_Review := Some ((review_of s)\<lparr>rc_DispatchedAt := Some now, rc_DispatchedJob := jobName,
                                       rc_DispatchLostReleases := 0\<rparr>)\<rparr>"

definition release_status :: "string \<Rightarrow> instant \<Rightarrow> AttemptStatus \<Rightarrow> AttemptStatus" where
  "release_status reason now s =
     (let r1 = (review_of s)\<lparr>rc_Released := True, rc_ReleaseReason := reason\<rparr>;
          r2 = (if reason = ReleaseReasonDispatchLost
                then r1\<lparr>rc_DispatchLostReleases := rc_DispatchLostReleases r1 + 1, rc_LastDispatchLostAt := Some now\<rparr>
                else r1);
          r3 = (if reason = ReleaseReasonHorizon then r2\<lparr>rc_DismissedAt := Some now\<rparr> else r2);
          s1 = s\<lparr>st_Review := Some r3\<rparr>
      in if reason = ''consumed'' then s1\<lparr>st_Phase := AttemptPhaseValidated\<rparr>
         else if reason = ReleaseReasonSuperseded then s1\<lparr>st_Phase := AttemptPhaseSuperseded\<rparr>
         else s1)"

definition unfinished :: "RunRecord \<Rightarrow> bool" where
  "unfinished r \<longleftrightarrow> run_Phase r = [] \<or> run_Phase r = ''running''"

definition finalizeRunningRuns :: "AttemptStatus \<Rightarrow> instant \<Rightarrow> bool \<times> AttemptStatus" where
  "finalizeRunningRuns s now =
     (list_ex unfinished (st_Runs s),
      s\<lparr>st_Runs := map (\<lambda>r. if unfinished r then r\<lparr>run_Phase := ''failed'', run_EndedAt := now\<rparr> else r) (st_Runs s)\<rparr>)"

text \<open>
  The captured variables are \<open>(recorded, deadDispatches)\<close>; the closure sets \<open>recorded\<close> but never
  clears it.
\<close>

definition release_dead ::
  "string \<Rightarrow> bool \<times> int \<Rightarrow> instant \<Rightarrow> AttemptStatus \<Rightarrow> (bool \<times> int) \<times> AttemptStatus" where
  "release_dead reason captured now s =
     (let r = review_of s in
      if rc_Released r then ((fst captured, rc_DeadDispatches r), s\<lparr>st_Review := Some r\<rparr>)
      else
        let r1 = r\<lparr>rc_Released := True, rc_ReleaseReason := reason\<rparr>;
            dispatched = (rc_DispatchedAt r1 \<noteq> None);
            r2 = (if dispatched then r1\<lparr>rc_DeadDispatches := rc_DeadDispatches r1 + 1\<rparr> else r1);
            s1 = snd (finalizeRunningRuns (s\<lparr>st_Review := Some r2\<rparr>) now);
            s2 = (if st_Phase s1 = [] \<or> st_Phase s1 = AttemptPhaseReconciling
                  then s1\<lparr>st_Phase := AttemptPhaseFailed,
                          st_Message := ''run ended without a verdict ('' @ reason @ '')''\<rparr>
                  else s1)
        in ((fst captured \<or> dispatched, rc_DeadDispatches r2), s2))"

definition finalize_cancelled :: "string \<Rightarrow> instant \<Rightarrow> AttemptStatus \<Rightarrow> AttemptStatus" where
  "finalize_cancelled reason now s =
     (case st_Review s of
        None \<Rightarrow> s
      | Some r \<Rightarrow>
          if \<not> rc_Released r \<or> \<not> IsCancellationRelease (rc_ReleaseReason r) then s
          else
            (case finalizeRunningRuns s now of
               (finalizedRun, s1) \<Rightarrow>
                 let s2 = (if st_Phase s1 = [] \<or> st_Phase s1 = AttemptPhaseReconciling
                           then s1\<lparr>st_Phase := (if reason = ReleaseReasonSuperseded then AttemptPhaseSuperseded
                                                else AttemptPhaseFailed)\<rparr>
                           else s1)
                 in if finalizedRun
                    then s2\<lparr>st_Message := ''review cancelled ('' @ reason @ '') '' @ em_dash @
                           '' Job deleted before the run bound; the gate finalized this ledger as the death observer''\<rparr>
                    else if st_Message s2 = []
                    then s2\<lparr>st_Message := ''review cancelled ('' @ reason @ '') '' @ em_dash @
                           '' Job deleted after the run had already ended; the run record tells its own story''\<rparr>
                    else s2))"

definition set_hold :: "string \<Rightarrow> string \<Rightarrow> AttemptStatus \<Rightarrow> AttemptStatus" where
  "set_hold note cause s = s\<lparr>st_Review := Some ((review_of s)\<lparr>rc_HoldNote := note, rc_HoldCause := cause\<rparr>)\<rparr>"

section \<open>Writers\<close>

definition MarkDispatchIntent :: "'w Client \<Rightarrow> string \<Rightarrow> string \<Rightarrow> 'w \<Rightarrow> error option \<times> 'w" where
  "MarkDispatchIntent c namespace attemptName w = patchAttemptStatus c namespace attemptName dispatch_intent w"

definition MarkClaimDispatched :: "'w Client \<Rightarrow> string \<Rightarrow> string \<Rightarrow> string \<Rightarrow> 'w \<Rightarrow> error option \<times> 'w" where
  "MarkClaimDispatched c namespace attemptName jobName w =
     patchAttemptStatus c namespace attemptName (claim_dispatched jobName) w"

definition CompleteDispatchEdge :: "'w Client \<Rightarrow> string \<Rightarrow> string \<Rightarrow> string \<Rightarrow> 'w \<Rightarrow> error option \<times> 'w" where
  "CompleteDispatchEdge c namespace attemptName jobName w =
     (case cl_get c namespace attemptName w of
        (Inl e, w1) \<Rightarrow> (Some (wrap_error (''get attempt '' @ attemptName @ '': '') e), w1)
      | (Inr at, w1) \<Rightarrow>
          if (case st_Review (at_Status at) of None \<Rightarrow> False | Some r \<Rightarrow> rc_DispatchedJob r \<noteq> []) then (None, w1)
          else MarkClaimDispatched c namespace attemptName jobName w1)"

text \<open>The closure of \<^verbatim>\<open>markClaimReleased\<close>.\<close>

definition mark_released_once :: "'w Client \<Rightarrow> string \<Rightarrow> string \<Rightarrow> unit \<Rightarrow> 'w \<Rightarrow> (error option \<times> unit) \<times> 'w" where
  "mark_released_once c namespace name u w =
     (case cl_get c namespace name w of
        (Inl e, w1) \<Rightarrow> ((Some e, u), w1)
      | (Inr at, w1) \<Rightarrow>
          if map_get (at_Labels at) ReviewClaimLabel [] = ReviewClaimReleased then ((None, u), w1)
          else if (case st_Review (at_Status at) of None \<Rightarrow> True | Some r \<Rightarrow> \<not> rc_Released r) then ((None, u), w1)
          else (case cl_patch c at (at\<lparr>at_Labels := map_set ReviewClaimLabel ReviewClaimReleased (at_Labels at)\<rparr>) w1 of
                  (e, w2) \<Rightarrow> ((e, u), w2)))"

definition markClaimReleased :: "'w Client \<Rightarrow> string \<Rightarrow> string \<Rightarrow> 'w \<Rightarrow> error option \<times> 'w" where
  "markClaimReleased c namespace name w =
     (case RetryOnConflict (cl_retries c) (cl_pause c) (mark_released_once c namespace name) () w of
        ((e, u), w') \<Rightarrow> (e, w'))"

definition mark_live_once :: "'w Client \<Rightarrow> string \<Rightarrow> string \<Rightarrow> unit \<Rightarrow> 'w \<Rightarrow> (error option \<times> unit) \<times> 'w" where
  "mark_live_once c namespace name u w =
     (case cl_get c namespace name w of
        (Inl e, w1) \<Rightarrow> ((Some e, u), w1)
      | (Inr at, w1) \<Rightarrow>
          if map_of (at_Labels at) ReviewClaimLabel = None then ((None, u), w1)
          else (case cl_patch c at (at\<lparr>at_Labels := AList.delete ReviewClaimLabel (at_Labels at)\<rparr>) w1 of
                  (e, w2) \<Rightarrow> ((e, u), w2)))"

definition markClaimLive :: "'w Client \<Rightarrow> string \<Rightarrow> string \<Rightarrow> 'w \<Rightarrow> error option \<times> 'w" where
  "markClaimLive c namespace name w =
     (case RetryOnConflict (cl_retries c) (cl_pause c) (mark_live_once c namespace name) () w of
        ((e, u), w') \<Rightarrow> (e, w'))"

definition ReleaseClaim :: "'w Client \<Rightarrow> string \<Rightarrow> string \<Rightarrow> string \<Rightarrow> 'w \<Rightarrow> error option \<times> 'w" where
  "ReleaseClaim c namespace attemptName reason w =
     (case patchAttemptStatus c namespace attemptName (release_status reason) w of
        (Some e, w1) \<Rightarrow> (Some e, w1)
      | (None, w1) \<Rightarrow> markClaimReleased c namespace attemptName w1)"

text \<open>\<open>(recorded, deadDispatches, err)\<close>\<close>

definition ReleaseClaimDead ::
  "'w Client \<Rightarrow> string \<Rightarrow> string \<Rightarrow> string \<Rightarrow> 'w \<Rightarrow> (bool \<times> int \<times> error option) \<times> 'w" where
  "ReleaseClaimDead c namespace attemptName reason w =
     (case patchAttemptStatus_with c namespace attemptName (release_dead reason) (False, 0) w of
        ((Some e, (recorded, dead)), w1) \<Rightarrow> ((recorded, dead, Some e), w1)
      | ((None, (recorded, dead)), w1) \<Rightarrow>
          if recorded
          then (case markClaimReleased c namespace attemptName w1 of (e, w2) \<Rightarrow> ((recorded, dead, e), w2))
          else ((recorded, dead, None), w1))"

definition FinalizeCancelledClaim :: "'w Client \<Rightarrow> string \<Rightarrow> string \<Rightarrow> string \<Rightarrow> 'w \<Rightarrow> error option \<times> 'w" where
  "FinalizeCancelledClaim c namespace attemptName reason w =
     (if \<not> IsCancellationRelease reason then (None, w)
      else patchAttemptStatus c namespace attemptName (finalize_cancelled reason) w)"

definition SetClaimHold :: "'w Client \<Rightarrow> string \<Rightarrow> string \<Rightarrow> string \<Rightarrow> string \<Rightarrow> 'w \<Rightarrow> (bool \<times> error option) \<times> 'w" where
  "SetClaimHold c namespace attemptName note cause w =
     (case cl_get c namespace attemptName w of
        (Inl e, w1) \<Rightarrow> ((False, Some (wrap_error (''get attempt '' @ attemptName @ '': '') e)), w1)
      | (Inr at, w1) \<Rightarrow>
          if (case st_Review (at_Status at) of None \<Rightarrow> False | Some r \<Rightarrow> rc_HoldNote r = note \<and> rc_HoldCause r = cause)
          then ((False, None), w1)
          else (case patchAttemptStatus c namespace attemptName (\<lambda>t. set_hold note cause) w1 of
                  (Some e, w2) \<Rightarrow> ((False, Some e), w2)
                | (None, w2) \<Rightarrow> ((True, None), w2)))"

section \<open>Listing and arming\<close>

definition is_live_claim :: "Workflow \<Rightarrow> Attempt \<Rightarrow> bool" where
  "is_live_claim w a \<longleftrightarrow>
     (case st_Review (at_Status a) of None \<Rightarrow> False | Some r \<Rightarrow> \<not> rc_Released r) \<and>
     map_get (at_Labels a) ObjectiveKindLabel [] = DeriveKind w \<and>
     aspec_WorkflowRef (at_Spec a) = wf_Namespace w @ ''/'' @ wf_Name w"

definition LiveReviewClaims :: "'w Client \<Rightarrow> Workflow \<Rightarrow> 'w \<Rightarrow> (error + Attempt list) \<times> 'w" where
  "LiveReviewClaims c wfl w =
     (case cl_list c (wf_Namespace wfl) [(WorkflowLabel, wf_Name wfl)] [ReviewClaimLabel] w of
        (Inl e, w1) \<Rightarrow> (Inl (wrap_error ''list attempts: '' e), w1)
      | (Inr items, w1) \<Rightarrow> (Inr (filter (is_live_claim wfl) items), w1))"

text \<open>
  The guards of an automatic arm, read off the resolved object: a refusal, or whether the churn
  budget has expired.
\<close>

definition arm_budget ::
  "instant \<Rightarrow> Attempt \<Rightarrow> ReviewClaimStatus \<Rightarrow> string \<Rightarrow> duration \<Rightarrow> error + bool" where
  "arm_budget now at r headSHA horizon =
     (let claimAge = (if at_CreationTimestamp at = zero_time then 0 else now - at_CreationTimestamp at);
          windowOpen = DispatchLostWindowOpen now (Some r) claimAge horizon
      in if MaxDispatchLostReleases \<le> rc_DispatchLostReleases r \<and> windowOpen
         then Inl \<lparr>err_Kind = ChurnBudgetExhausted,
                err_Text = ''dispatch-lost churn budget exhausted: '' @ shortSHA headSHA @ '' '' @ em_dash @ '' '' @
                  show_int (rc_DispatchLostReleases r) @
                  '' consecutive never-dispatched releases within the horizon window (max '' @
                  show_int MaxDispatchLostReleases @
                  ''); re-apply the label for a fresh review now, or wait out the horizon and the budget self-clears''\<rparr>
         else Inr (0 < rc_DispatchLostReleases r \<and> \<not> windowOpen))"

definition arm_guard ::
  "instant \<Rightarrow> Workflow \<Rightarrow> Attempt \<Rightarrow> bool \<Rightarrow> string \<Rightarrow> string \<Rightarrow> bool \<Rightarrow> error + bool" where
  "arm_guard now wfl at created pr headSHA humanRequest =
     (case st_Review (at_Status at) of
        None \<Rightarrow> Inr False
      | Some r \<Rightarrow>
          if humanRequest \<or> created \<or> rc_PR r \<noteq> pr \<or> rc_HeadSHA r \<noteq> headSHA then Inr False
          else
            let spec = wspec_ReviewReady (wf_Spec wfl); horizon = HorizonDuration spec in
            (case (if spec = None then None else rc_DismissedAt r) of
               Some t \<Rightarrow>
                 if now - t < horizon
                 then Inl \<lparr>err_Kind = RecentlyDismissed,
                        err_Text = ''recently dismissed by horizon: '' @ shortSHA headSHA @ '' (dismissed '' @
                          minutes_text (round_minute (now - t)) @ '' ago) '' @ em_dash @
                          '' automatic re-arm refused; re-apply the label to request a fresh review''\<rparr>
                 else arm_budget now at r headSHA horizon
             | None \<Rightarrow> arm_budget now at r headSHA horizon))"

text \<open>An aborted arm deletes the object it created; the deletion error is only noted.\<close>

definition armAbandon :: "'w Client \<Rightarrow> Workflow \<Rightarrow> Attempt \<Rightarrow> bool \<Rightarrow> error \<Rightarrow> 'w \<Rightarrow> error \<times> 'w" where
  "armAbandon c wfl at created armErr w =
     (if \<not> created then (armErr, w)
      else (case cl_delete c (wf_Namespace wfl) (at_Name at) w of
              (None, w1) \<Rightarrow> (armErr, w1)
            | (Some delErr, w1) \<Rightarrow>
                if err_Kind delErr = NotFound then (armErr, w1)
                else (armErr\<lparr>err_Text := err_Text armErr @ '' (cleanup: the created-but-unstamped attempt '' @
                        at_Name at @ '' could not be deleted: '' @ err_Text delErr @ '')''\<rparr>, w1)))"

text \<open>The supersession loop: the name and the error of the first release that fails.\<close>

fun supersede_others ::
  "'w Client \<Rightarrow> Workflow \<Rightarrow> Attempt \<Rightarrow> string \<Rightarrow> Attempt list \<Rightarrow> 'w \<Rightarrow> error option \<times> 'w" where
  "supersede_others c wfl at pr [] w = (None, w)"
| "supersede_others c wfl at pr (x # xs) w =
     (if at_Name x = at_Name at \<or> rc_PR (review_of (at_Status x)) \<noteq> pr then supersede_others c wfl at pr xs w
      else (case ReleaseClaim c (wf_Namespace wfl) (at_Name x) ReleaseReasonSuperseded w of
              (Some e, w1) \<Rightarrow> (Some (wrap_error (''supersede '' @ at_Name x @ '': '') e), w1)
            | (None, w1) \<Rightarrow> supersede_others c wfl at pr xs w1))"

definition breaker_open :: "Attempt \<Rightarrow> string \<Rightarrow> string \<Rightarrow> bool \<Rightarrow> bool" where
  "breaker_open at pr headSHA humanRequest \<longleftrightarrow>
     (case st_Review (at_Status at) of
        None \<Rightarrow> False
      | Some cur \<Rightarrow> rc_PR cur = pr \<and> rc_HeadSHA cur = headSHA \<and> MaxDeadDispatchesPerHead \<le> rc_DeadDispatches cur \<and>
          \<not> humanRequest)"

definition breaker_error :: "Attempt \<Rightarrow> string \<Rightarrow> error" where
  "breaker_error at headSHA =
     \<lparr>err_Kind = DeadDispatchBreaker,
      err_Text = ''dead-dispatch breaker open: '' @ show_int (rc_DeadDispatches (review_of (at_Status at))) @
        '' dispatched reviews of '' @ shortSHA headSHA @ '' died without a verdict '' @ em_dash @
        '' automatic re-arm refused; push a new commit or re-issue an explicit label request to override '' @
        ''(on Forgejo any label edit on a labeled PR counts)''\<rparr>"

text \<open>Everything of \<^verbatim>\<open>ArmClaim\<close> after the guards; \<open>Some\<close> is the error that aborts the arm.\<close>

definition arm_commit ::
  "'w Client \<Rightarrow> Workflow \<Rightarrow> Attempt \<Rightarrow> string \<Rightarrow> string \<Rightarrow> string \<Rightarrow> bool \<Rightarrow> bool \<Rightarrow> 'w \<Rightarrow> error option \<times> 'w" where
  "arm_commit c wfl at pr headSHA label humanRequest budgetExpiry w =
     (case LiveReviewClaims c wfl w of
        (Inl e, w1) \<Rightarrow> (Some (wrap_error ''list live claims: '' e), w1)
      | (Inr others, w1) \<Rightarrow>
          (case supersede_others c wfl at pr others w1 of
             (Some e, w2) \<Rightarrow> (Some e, w2)
           | (None, w2) \<Rightarrow>
               if breaker_open at pr headSHA humanRequest then (Some (breaker_error at headSHA), w2)
               else (case markClaimLive c (wf_Namespace wfl) (at_Name at) w2 of
                       (Some e, w3) \<Rightarrow> (Some (wrap_error ''unmark released claim: '' e), w3)
                     | (None, w3) \<Rightarrow>
                         let now = cl_now c w3 in
                         patchAttemptStatus c (wf_Namespace wfl) (at_Name at)
                           (\<lambda>t. arm_status now pr headSHA label humanRequest budgetExpiry) w3)))"

definition ArmClaim ::
  "'w Client \<Rightarrow> (string \<Rightarrow> string option) \<Rightarrow> bool \<Rightarrow> Workflow \<Rightarrow> string \<Rightarrow> string \<Rightarrow> string \<Rightarrow> bool \<Rightarrow> 'w \<Rightarrow>
     (error + Attempt) \<times> 'w" where
  "ArmClaim c urlPath scheme wfl pr headSHA label humanRequest w =
     (case ResolveOrCreate c (DeriveObjective urlPath wfl \<lparr>trig_Revision = headSHA, trig_Source = ''webhook''\<rparr>)
             \<lparr>ro_Namespace = wf_Namespace wfl, ro_WorkflowRef = wf_Namespace wfl @ ''/'' @ wf_Name wfl,
              ro_Owner = Some wfl, ro_Scheme = scheme\<rparr> w of
        (Inl e, w1) \<Rightarrow> (Inl (wrap_error ''resolve claim attempt: '' e), w1)
      | (Inr (at, created), w1) \<Rightarrow>
          (case arm_guard (cl_now c w1) wfl at created pr headSHA humanRequest of
             Inl e \<Rightarrow> (Inl e, w1)
           | Inr budgetExpiry \<Rightarrow>
               (case arm_commit c wfl at pr headSHA label humanRequest budgetExpiry w1 of
                  (None, w2) \<Rightarrow> (Inr at, w2)
                | (Some e, w2) \<Rightarrow> (case armAbandon c wfl at created e w2 of (e', w3) \<Rightarrow> (Inl e', w3)))))"

lemmas [model_defs] = shortSHA_def round_minute_def minutes_text_def review_of_def DispatchLostWindowOpen_def
  arm_review_def arm_status_def dispatch_intent_def claim_dispatched_def release_status_def unfinished_def
  finalizeRunningRuns_def release_dead_def finalize_cancelled_def set_hold_def MarkDispatchIntent_def
  MarkClaimDispatched_def CompleteDispatchEdge_def mark_released_once_def markClaimReleased_def
  mark_live_once_def markClaimLive_def ReleaseClaim_def ReleaseClaimDead_def FinalizeCancelledClaim_def
  SetClaimHold_def is_live_claim_def LiveReviewClaims_def arm_budget_def arm_guard_def armAbandon_def
  breaker_open_def breaker_error_def arm_commit_def ArmClaim_def

end
