(* ===== verification/Api_Store.thy ===== *)
theory Api_Store
  imports Attempt_Claim Ledger_Props
begin

text \<open>
  The contract of the Kubernetes API that the claim writers rely on, as the locale \<open>api_store\<close>:
  \<open>objs\<close> is the content of the store; a call that fails changes nothing; a status patch replaces the
  status and a patch the labels of the stored object; a list returns the objects that the selector
  selects. Nothing is assumed about when a call fails. The write primitive's effect on the store is
  proved once inside the locale. \<open>store_server\<close> is a store with resource versions that satisfies
  the contract.
\<close>

type_synonym object_key = "string \<times> string"

definition selected :: "(string \<times> string) list \<Rightarrow> string list \<Rightarrow> Attempt \<Rightarrow> bool" where
  "selected eqs absent a \<longleftrightarrow>
     (\<forall>(k, v) \<in> set eqs. map_of (at_Labels a) k = Some v) \<and> (\<forall>k \<in> set absent. map_of (at_Labels a) k = None)"

locale api_store =
  fixes c :: "'w Client"
    and objs :: "'w \<Rightarrow> object_key \<Rightarrow> Attempt option"
  assumes stored_key: "objs w (ns, n) = Some a \<Longrightarrow> at_Namespace a = ns \<and> at_Name a = n"
    and get_ok: "cl_get c ns n w = (Inr a, w') \<Longrightarrow> objs w' = objs w \<and> objs w (ns, n) = Some a"
    and get_err: "cl_get c ns n w = (Inl e, w') \<Longrightarrow> objs w' = objs w"
    and create_ok: "cl_create c a w = (Inr b, w') \<Longrightarrow>
      objs w (at_Namespace a, at_Name a) = None \<and> at_Namespace b = at_Namespace a \<and> at_Name b = at_Name a \<and>
      (at_Status b = at_Status a \<or> at_Status b = AttemptStatus0) \<and>
      objs w' = (objs w)((at_Namespace a, at_Name a) \<mapsto> b)"
    and create_err: "cl_create c a w = (Inl e, w') \<Longrightarrow> objs w' = objs w"
    and patchStatus_ok: "cl_patchStatus c base a w = (None, w') \<Longrightarrow>
      \<exists>b v. objs w (at_Namespace a, at_Name a) = Some b \<and>
        objs w' = (objs w)((at_Namespace a, at_Name a) \<mapsto> b\<lparr>at_Status := at_Status a, at_ResourceVersion := v\<rparr>)"
    and patchStatus_err: "cl_patchStatus c base a w = (Some e, w') \<Longrightarrow> objs w' = objs w"
    and patch_ok: "cl_patch c base a w = (None, w') \<Longrightarrow>
      \<exists>b v. objs w (at_Namespace a, at_Name a) = Some b \<and>
        objs w' = (objs w)((at_Namespace a, at_Name a) \<mapsto> b\<lparr>at_Labels := at_Labels a, at_ResourceVersion := v\<rparr>)"
    and patch_err: "cl_patch c base a w = (Some e, w') \<Longrightarrow> objs w' = objs w"
    and delete_ok: "cl_delete c ns n w = (None, w') \<Longrightarrow> objs w' = (objs w)((ns, n) := None)"
    and delete_err: "cl_delete c ns n w = (Some e, w') \<Longrightarrow>
      objs w' = objs w \<and> (err_Kind e = NotFound \<longrightarrow> objs w (ns, n) = None)"
    and list_ok: "cl_list c ns eqs absent w = (Inr xs, w') \<Longrightarrow>
      objs w' = objs w \<and> set xs = {a. \<exists>n. objs w (ns, n) = Some a \<and> selected eqs absent a}"
    and list_err: "cl_list c ns eqs absent w = (Inl e, w') \<Longrightarrow> objs w' = objs w"
    and owner_ok: "cl_setOwner c wfl a = Inr b \<Longrightarrow>
      at_Namespace b = at_Namespace a \<and> at_Name b = at_Name a \<and> at_Status b = at_Status a"
    and pause_ok: "objs (cl_pause c w) = objs w"
begin

lemma retry_store:
  assumes "\<And>x v e x' v'. f x v = ((Some e, x'), v') \<Longrightarrow> objs v' = objs v"
    and "RetryOnConflict n (cl_pause c) f x w = ((r, x'), w')"
  shows "(r \<noteq> None \<longrightarrow> objs w' = objs w) \<and> (r = None \<longrightarrow> (\<exists>y v. objs v = objs w \<and> f y v = ((None, x'), w')))"
  using assms(2)
proof (induction n arbitrary: x w)
  case 0
  then show ?case using assms(1) by (subst (asm) RetryOnConflict.simps) (auto split: prod.splits option.splits)
next
  case (Suc m)
  show ?case
  proof (cases "f x w")
    case (Pair ry v)
    obtain r1 y where ry: "ry = (r1, y)" by (cases ry)
    show ?thesis
    proof (cases "\<exists>e. r1 = Some e \<and> err_Kind e = Conflict")
      case True
      then have "RetryOnConflict m (cl_pause c) f y (cl_pause c v) = ((r, x'), w')"
        using Suc.prems Pair ry by (subst (asm) RetryOnConflict.simps) auto
      moreover have "objs (cl_pause c v) = objs w" using assms(1) True Pair ry pause_ok by auto
      ultimately show ?thesis using Suc.IH by metis
    next
      case False
      then have "((r1, y), v) = ((r, x'), w')"
        using Suc.prems Pair ry by (subst (asm) RetryOnConflict.simps) (auto split: option.splits)
      then show ?thesis using assms(1) Pair ry by auto
    qed
  qed
qed

lemma patch_once_store:
  assumes "patch_once c ns n m x w = ((r, x'), w')"
  shows "(r \<noteq> None \<longrightarrow> objs w' = objs w) \<and>
    (r = None \<longrightarrow> (\<exists>a now v. objs w (ns, n) = Some a \<and> x' = fst (m x now (at_Status a)) \<and>
       objs w' = (objs w)((ns, n) \<mapsto>
         a\<lparr>at_Status := snd (compactStatus (snd (m x now (at_Status a)))), at_ResourceVersion := v\<rparr>)))"
proof (cases "cl_get c ns n w")
  case (Pair g w1)
  show ?thesis
  proof (cases g)
    case (Inl e)
    then show ?thesis using assms Pair get_err by (auto simp: patch_once_def)
  next
    case (Inr a)
    then have o: "objs w1 = objs w" "objs w (ns, n) = Some a" using Pair get_ok by auto
    then have k: "at_Namespace a = ns" "at_Name a = n" using stored_key by auto
    let ?s = "m x (cl_now c w1) (at_Status a)"
    have p: "cl_patchStatus c a (a\<lparr>at_Status := snd (compactStatus (snd ?s))\<rparr>) w1 = (r, w')" "x' = fst ?s"
      using assms Pair Inr by (auto simp: patch_once_def split: prod.splits)
    show ?thesis
    proof (cases r)
      case None
      then show ?thesis using patchStatus_ok [of a "a\<lparr>at_Status := snd (compactStatus (snd ?s))\<rparr>" w1 w'] p o k by auto
    next
      case (Some e)
      then show ?thesis using patchStatus_err p o by auto
    qed
  qed
qed

text \<open>The write primitive: no change when it fails, one mutation of the stored object when it succeeds.\<close>

lemma patch_store:
  assumes "patchAttemptStatus_with c ns n m x w = ((r, x'), w')"
  shows "(r \<noteq> None \<longrightarrow> objs w' = objs w) \<and>
    (r = None \<longrightarrow> (\<exists>a y now v. objs w (ns, n) = Some a \<and> x' = fst (m y now (at_Status a)) \<and>
       objs w' = (objs w)((ns, n) \<mapsto>
         a\<lparr>at_Status := snd (compactStatus (snd (m y now (at_Status a)))), at_ResourceVersion := v\<rparr>)))"
proof -
  have e: "patch_once c ns n m y v = ((Some e, y'), v') \<Longrightarrow> objs v' = objs v" for y v e y' v'
    using patch_once_store [of ns n m y v "Some e" y' v'] by simp
  have "(r \<noteq> None \<longrightarrow> objs w' = objs w) \<and>
      (r = None \<longrightarrow> (\<exists>y v. objs v = objs w \<and> patch_once c ns n m y v = ((None, x'), w')))"
    using assms unfolding patchAttemptStatus_with_def by (rule retry_store [rotated]) (rule e)
  note retried = this
  show ?thesis
  proof (cases r)
    case None
    with retried obtain y v where v: "objs v = objs w" "patch_once c ns n m y v = ((None, x'), w')" by blast
    from patch_once_store [OF v(2)] v(1) None show ?thesis by auto
  qed (use retried in auto)
qed

lemma patch_simple_store:
  assumes "patchAttemptStatus c ns n m w = (r, w')"
  shows "(r \<noteq> None \<longrightarrow> objs w' = objs w) \<and>
    (r = None \<longrightarrow> (\<exists>a now v. objs w (ns, n) = Some a \<and>
       objs w' = (objs w)((ns, n) \<mapsto>
         a\<lparr>at_Status := snd (compactStatus (m now (at_Status a))), at_ResourceVersion := v\<rparr>)))"
proof -
  have "patchAttemptStatus_with c ns n (\<lambda>u now s. (u, m now s)) () w = ((r, ()), w')"
    using assms by (auto simp: patchAttemptStatus_def split: prod.splits)
  from patch_store [OF this] show ?thesis by simp
qed

text \<open>The marker writers touch labels of one object only.\<close>

lemma mark_once_store:
  assumes "mark_released_once c ns n u w = ((r, u'), w') \<or> mark_live_once c ns n u w = ((r, u'), w')"
  shows "(r \<noteq> None \<longrightarrow> objs w' = objs w) \<and>
    (r = None \<longrightarrow> (\<exists>a ls v. objs w (ns, n) = Some a \<and> (objs w' = objs w \<or>
       objs w' = (objs w)((ns, n) \<mapsto> a\<lparr>at_Labels := ls, at_ResourceVersion := v\<rparr>))))"
proof (cases "cl_get c ns n w")
  case (Pair g w1)
  show ?thesis
  proof (cases g)
    case (Inl e)
    then show ?thesis using assms Pair get_err by (auto simp: mark_released_once_def mark_live_once_def)
  next
    case (Inr a)
    then have o: "objs w1 = objs w" "objs w (ns, n) = Some a" using Pair get_ok by auto
    then have k: "at_Namespace a = ns" "at_Name a = n" using stored_key by auto
    consider "r = None" "w' = w1" | ls where "cl_patch c a (a\<lparr>at_Labels := ls\<rparr>) w1 = (r, w')"
      using assms Pair Inr by (auto simp: mark_released_once_def mark_live_once_def split: prod.splits if_splits)
    then show ?thesis
    proof cases
      case 1
      then show ?thesis using o by auto
    next
      case 2
      show ?thesis
      proof (cases r)
        case None
        with 2 have "cl_patch c a (a\<lparr>at_Labels := ls\<rparr>) w1 = (None, w')" by simp
        from patch_ok [OF this] None o k show ?thesis by auto
      next
        case (Some e)
        then show ?thesis using patch_err 2 o by auto
      qed
    qed
  qed
qed

lemma mark_store:
  assumes "markClaimReleased c ns n w = (r, w') \<or> markClaimLive c ns n w = (r, w')"
  shows "(r \<noteq> None \<longrightarrow> objs w' = objs w) \<and>
    (r = None \<longrightarrow> (\<exists>a ls v. objs w (ns, n) = Some a \<and> (objs w' = objs w \<or>
       objs w' = (objs w)((ns, n) \<mapsto> a\<lparr>at_Labels := ls, at_ResourceVersion := v\<rparr>))))"
proof -
  have "\<exists>f \<in> {mark_released_once c ns n, mark_live_once c ns n}.
      RetryOnConflict (cl_retries c) (cl_pause c) f () w = ((r, ()), w')"
    using assms by (auto simp: markClaimReleased_def markClaimLive_def split: prod.splits)
  then obtain f where f: "f \<in> {mark_released_once c ns n, mark_live_once c ns n}"
    "RetryOnConflict (cl_retries c) (cl_pause c) f () w = ((r, ()), w')" by blast
  have once: "f u v = ((q, u'), v') \<Longrightarrow> (q \<noteq> None \<longrightarrow> objs v' = objs v) \<and>
    (q = None \<longrightarrow> (\<exists>a ls x. objs v (ns, n) = Some a \<and> (objs v' = objs v \<or>
       objs v' = (objs v)((ns, n) \<mapsto> a\<lparr>at_Labels := ls, at_ResourceVersion := x\<rparr>))))" for u v q u' v'
    using f(1) mark_once_store [of ns n u v q u' v'] by auto
  then show ?thesis using retry_store [OF _ f(2)] by (metis option.distinct(1))
qed

end

section \<open>A store with resource versions\<close>

record store =
  sv_objects :: "Attempt list"
  sv_clock :: instant
  sv_version :: nat

definition keyed :: "string \<Rightarrow> string \<Rightarrow> Attempt \<Rightarrow> bool" where
  "keyed ns n a \<longleftrightarrow> at_Namespace a = ns \<and> at_Name a = n"

definition store_objs :: "store \<Rightarrow> object_key \<Rightarrow> Attempt option" where
  "store_objs w k = find (keyed (fst k) (snd k)) (sv_objects w)"

definition api_error :: "err_kind \<Rightarrow> error" where
  "api_error k = \<lparr>err_Kind = k, err_Text = ''api''\<rparr>"

definition put :: "Attempt \<Rightarrow> store \<Rightarrow> store" where
  "put a w = w\<lparr>sv_objects := a\<lparr>at_ResourceVersion := sv_version w\<rparr> #
      filter (\<lambda>b. \<not> keyed (at_Namespace a) (at_Name a) b) (sv_objects w),
    sv_version := sv_version w + 1\<rparr>"

text \<open>A patch carries the version of its base; another current version is a conflict.\<close>

definition locked_put :: "(Attempt \<Rightarrow> Attempt) \<Rightarrow> Attempt \<Rightarrow> Attempt \<Rightarrow> store \<Rightarrow> error option \<times> store" where
  "locked_put change base a w =
     (case store_objs w (at_Namespace a, at_Name a) of
        None \<Rightarrow> (Some (api_error NotFound), w)
      | Some b \<Rightarrow> if at_ResourceVersion b = at_ResourceVersion base then (None, put (change b) w)
                  else (Some (api_error Conflict), w))"

definition store_server :: "store Client" where
  "store_server =
     \<lparr>cl_now = sv_clock,
      cl_get = (\<lambda>ns n w. (case store_objs w (ns, n) of None \<Rightarrow> Inl (api_error NotFound) | Some a \<Rightarrow> Inr a, w)),
      cl_create = (\<lambda>a w. case store_objs w (at_Namespace a, at_Name a) of
         Some b \<Rightarrow> (Inl (api_error AlreadyExists), w)
       | None \<Rightarrow> (let b = a\<lparr>at_CreationTimestamp := sv_clock w, at_Status := AttemptStatus0\<rparr>
                  in (Inr (b\<lparr>at_ResourceVersion := sv_version w\<rparr>), put b w))),
      cl_patchStatus = (\<lambda>base a. locked_put (\<lambda>b. b\<lparr>at_Status := at_Status a\<rparr>) base a),
      cl_patch = (\<lambda>base a. locked_put (\<lambda>b. b\<lparr>at_Labels := at_Labels a\<rparr>) base a),
      cl_delete = (\<lambda>ns n w. if store_objs w (ns, n) = None then (Some (api_error NotFound), w)
         else (None, w\<lparr>sv_objects := filter (\<lambda>b. \<not> keyed ns n b) (sv_objects w)\<rparr>)),
      cl_list = (\<lambda>ns eqs absent w. (Inr (filter
         (\<lambda>a. at_Namespace a = ns \<and> store_objs w (ns, at_Name a) = Some a \<and> selected eqs absent a) (sv_objects w)), w)),
      cl_setOwner = (\<lambda>wfl a. Inr a), cl_retries = 3, cl_pause = (\<lambda>w. w\<lparr>sv_clock := sv_clock w + 10\<rparr>)\<rparr>"

lemma store_objs_key: "store_objs w (ns, n) = Some a \<Longrightarrow> at_Namespace a = ns \<and> at_Name a = n"
  by (auto simp: store_objs_def find_Some_iff keyed_def)

lemma find_filter_keyed:
  "find (keyed ns n) (filter (\<lambda>b. \<not> keyed ns' n' b) xs) = (if ns' = ns \<and> n' = n then None else find (keyed ns n) xs)"
  by (induction xs) (auto simp: keyed_def [abs_def])

lemma keyed_put [simp]: "keyed ns n (a\<lparr>at_ResourceVersion := v\<rparr>) \<longleftrightarrow> at_Namespace a = ns \<and> at_Name a = n"
  by (simp add: keyed_def)

lemma store_objs_put:
  "store_objs (put a w) = (store_objs w)((at_Namespace a, at_Name a) \<mapsto> a\<lparr>at_ResourceVersion := sv_version w\<rparr>)"
proof
  fix k
  show "store_objs (put a w) k =
      ((store_objs w)((at_Namespace a, at_Name a) \<mapsto> a\<lparr>at_ResourceVersion := sv_version w\<rparr>)) k"
    by (cases k) (auto simp: store_objs_def put_def find_filter_keyed)
qed

lemma store_objs_clock [simp]: "store_objs (w\<lparr>sv_clock := t\<rparr>) = store_objs w"
  by (rule ext) (simp add: store_objs_def)

lemma locked_put_cases:
  assumes "locked_put change base a w = (r, w')"
  shows "(r \<noteq> None \<longrightarrow> w' = w) \<and> (r = None \<longrightarrow>
    (\<exists>b. store_objs w (at_Namespace a, at_Name a) = Some b \<and> w' = put (change b) w))"
  using assms by (auto simp: locked_put_def split: option.splits if_splits)

lemma locked_put_store:
  assumes "locked_put change base a w = (None, w')"
    and "\<And>b. at_Namespace (change b) = at_Namespace b \<and> at_Name (change b) = at_Name b"
  shows "\<exists>b v. store_objs w (at_Namespace a, at_Name a) = Some b \<and>
    store_objs w' = (store_objs w)((at_Namespace a, at_Name a) \<mapsto> (change b)\<lparr>at_ResourceVersion := v\<rparr>)"
proof -
  obtain b where b: "store_objs w (at_Namespace a, at_Name a) = Some b" "w' = put (change b) w"
    using locked_put_cases [OF assms(1)] by auto
  then have "at_Namespace b = at_Namespace a" "at_Name b = at_Name a" using store_objs_key [OF b(1)] by auto
  then show ?thesis using b assms(2) by (auto simp: store_objs_put)
qed

lemma store_delete: "store_objs (w\<lparr>sv_objects := filter (\<lambda>b. \<not> keyed ns n b) (sv_objects w)\<rparr>) = (store_objs w)((ns, n) := None)"
proof
  fix k
  show "store_objs (w\<lparr>sv_objects := filter (\<lambda>b. \<not> keyed ns n b) (sv_objects w)\<rparr>) k = ((store_objs w)((ns, n) := None)) k"
    by (cases k) (auto simp: store_objs_def find_filter_keyed)
qed

lemma store_list:
  "set (filter (\<lambda>a. at_Namespace a = ns \<and> store_objs w (ns, at_Name a) = Some a \<and> P a) (sv_objects w)) =
     {a. \<exists>n. store_objs w (ns, n) = Some a \<and> P a}"
proof -
  have "a \<in> set (sv_objects w) \<and> at_Namespace a = ns \<and> at_Name a = n" if "store_objs w (ns, n) = Some a" for n a
    using that nth_mem by (fastforce simp: store_objs_def find_Some_iff keyed_def)
  then show ?thesis by auto
qed

interpretation server: api_store store_server store_objs
proof unfold_locales
  fix base a and w w' :: store
  assume "cl_patchStatus store_server base a w = (None, w')"
  then show "\<exists>b v. store_objs w (at_Namespace a, at_Name a) = Some b \<and>
      store_objs w' = (store_objs w)((at_Namespace a, at_Name a) \<mapsto> b\<lparr>at_Status := at_Status a, at_ResourceVersion := v\<rparr>)"
    using locked_put_store [of "\<lambda>b. b\<lparr>at_Status := at_Status a\<rparr>" base a w w'] by (simp add: store_server_def)
next
  fix base a and w w' :: store
  assume "cl_patch store_server base a w = (None, w')"
  then show "\<exists>b v. store_objs w (at_Namespace a, at_Name a) = Some b \<and>
      store_objs w' = (store_objs w)((at_Namespace a, at_Name a) \<mapsto> b\<lparr>at_Labels := at_Labels a, at_ResourceVersion := v\<rparr>)"
    using locked_put_store [of "\<lambda>b. b\<lparr>at_Labels := at_Labels a\<rparr>" base a w w'] by (simp add: store_server_def)
next
  fix ns eqs absent xs and w w' :: store
  assume "cl_list store_server ns eqs absent w = (Inr xs, w')"
  then show "store_objs w' = store_objs w \<and> set xs = {a. \<exists>n. store_objs w (ns, n) = Some a \<and> selected eqs absent a}"
    using store_list [of ns w "selected eqs absent"] by (auto simp: store_server_def)
qed (auto simp: store_server_def store_objs_key store_objs_put store_delete Let_def api_error_def
       dest: locked_put_cases split: option.splits if_splits)

end
