(* ===== verification/Claim_Props.thy ===== *)
theory Claim_Props
  imports Api_Store
begin

text \<open>
  Properties of the review claims. \<open>claim_step\<close> is the life of one claim as a step relation on the
  stored status; its invariant bounds the breaker and ties the release marker, the reason and the
  clocks together. Inside \<open>api_store\<close> the writers are shown to take exactly such steps, which gives
  the store-level properties of \<^verbatim>\<open>ArmClaim\<close>: one live claim per pull request, and no trace of a failed
  arm.
\<close>

section \<open>The life of a claim\<close>

abbreviation (input) stored :: "AttemptStatus \<Rightarrow> AttemptStatus" where
  "stored s \<equiv> snd (compactStatus s)"

inductive claim_step :: "Workflow \<Rightarrow> instant \<Rightarrow> AttemptStatus \<Rightarrow> AttemptStatus \<Rightarrow> bool" for wfl t0 where
  step_arm: "at_CreationTimestamp at = t0 \<Longrightarrow> at_Status at = s \<Longrightarrow>
    arm_guard now wfl at False pr headSHA human = Inr expiry \<Longrightarrow> \<not> breaker_open at pr headSHA human \<Longrightarrow>
    claim_step wfl t0 s (stored (arm_status now' pr headSHA label human expiry s))"
| step_intent: "claim_step wfl t0 s (stored (dispatch_intent now s))"
| step_dispatched: "claim_step wfl t0 s (stored (claim_dispatched jobName now s))"
| step_release: "reason \<noteq> [] \<Longrightarrow> claim_step wfl t0 s (stored (release_status reason now s))"
| step_dead: "reason \<noteq> [] \<Longrightarrow> claim_step wfl t0 s (stored (snd (release_dead reason captured now s)))"
| step_finalize: "claim_step wfl t0 s (stored (finalize_cancelled reason now s))"
| step_hold: "claim_step wfl t0 s (stored (set_hold note cause s))"
| step_run_started: "claim_step wfl t0 s (stored (run_started now runName s))"
| step_run_outcome: "claim_step wfl t0 s (stored (run_outcome now outcome s))"
| step_progress: "claim_step wfl t0 s (stored (set_progress now p s))"
| step_node_result: "claim_step wfl t0 s (stored (add_node_result env s))"

inductive_cases claim_step_elim: "claim_step wfl t0 s s'"

definition claim_ok :: "ReviewClaimStatus \<Rightarrow> bool" where
  "claim_ok r \<longleftrightarrow>
     0 \<le> rc_DeadDispatches r \<and> rc_DeadDispatches r \<le> MaxDeadDispatchesPerHead \<and>
     (\<not> rc_Released r \<longrightarrow> rc_DeadDispatches r < MaxDeadDispatchesPerHead) \<and>
     (rc_Released r \<longleftrightarrow> rc_ReleaseReason r \<noteq> []) \<and>
     0 \<le> rc_DispatchLostReleases r \<and> (0 < rc_DispatchLostReleases r \<longrightarrow> rc_LastDispatchLostAt r \<noteq> None) \<and>
     (rc_PR r \<noteq> [] \<longrightarrow> rc_ArmedSince r \<noteq> None)"

definition phases :: "string list" where
  "phases = [[], AttemptPhaseReconciling, AttemptPhaseValidated, AttemptPhaseSuperseded, AttemptPhaseFailed]"

definition status_ok :: "AttemptStatus \<Rightarrow> bool" where
  "status_ok s \<longleftrightarrow> claim_ok (review_of s) \<and> st_Phase s \<in> set phases \<and> one_per_key s"

lemma stored_sel [simp]:
  "st_Review (stored s) = st_Review s" "st_Phase (stored s) = st_Phase s" "st_Message (stored s) = st_Message s"
  "review_of (stored s) = review_of s"
  by (simp_all add: compactStatus_eq trimmed_def drop_nodes_def Let_def review_of_def)

lemma status_ok_stored [simp]: "status_ok s \<Longrightarrow> status_ok (stored s)"
  by (simp add: status_ok_def one_per_key_compact)

lemma claim_ok_arm:
  assumes "claim_ok r" and "rc_PR r = pr \<and> rc_HeadSHA r = headSHA \<and> \<not> human \<Longrightarrow> rc_DeadDispatches r < MaxDeadDispatchesPerHead"
  shows "claim_ok (arm_review now pr headSHA label human expiry r)"
  using assms by (auto simp: claim_ok_def arm_review_def Let_def)

lemma one_per_key_same:
  "st_NodeResults s' = st_NodeResults s \<Longrightarrow> map run_Name (st_Runs s') = map run_Name (st_Runs s) \<Longrightarrow>
   st_Evidence s' = st_Evidence s \<Longrightarrow> one_per_key s' = one_per_key s"
  by (simp add: one_per_key_def)

lemma finalizeRunningRuns_sel [simp]:
  "st_Review (snd (finalizeRunningRuns s now)) = st_Review s" "st_Phase (snd (finalizeRunningRuns s now)) = st_Phase s"
  "st_NodeResults (snd (finalizeRunningRuns s now)) = st_NodeResults s"
  "st_Evidence (snd (finalizeRunningRuns s now)) = st_Evidence s"
  "st_Message (snd (finalizeRunningRuns s now)) = st_Message s"
  "map run_Name (st_Runs (snd (finalizeRunningRuns s now))) = map run_Name (st_Runs s)"
  by (auto simp: finalizeRunningRuns_def)

lemma review_of_upd [simp]: "review_of (s\<lparr>st_Review := Some r\<rparr>) = r" "review_of (s\<lparr>st_Phase := p\<rparr>) = review_of s"
  "review_of (s\<lparr>st_Message := m\<rparr>) = review_of s"
  by (simp_all add: review_of_def)

lemma arm_status_sel:
  "review_of (arm_status now pr headSHA label human expiry s) = arm_review now pr headSHA label human expiry (review_of s)"
  "st_Phase (arm_status now pr headSHA label human expiry s) =
     (if st_Phase s \<in> set phases then AttemptPhaseReconciling else st_Phase s)"
  "st_NodeResults (arm_status now pr headSHA label human expiry s) = st_NodeResults s"
  "st_Runs (arm_status now pr headSHA label human expiry s) = st_Runs s"
  "st_Evidence (arm_status now pr headSHA label human expiry s) = st_Evidence s"
  by (auto simp: arm_status_def Let_def review_of_def phases_def)

lemma release_status_sel:
  "st_NodeResults (release_status reason now s) = st_NodeResults s"
  "st_Runs (release_status reason now s) = st_Runs s"
  "st_Evidence (release_status reason now s) = st_Evidence s"
  "st_Phase (release_status reason now s) =
     (if reason = ''consumed'' then AttemptPhaseValidated
      else if reason = ReleaseReasonSuperseded then AttemptPhaseSuperseded else st_Phase s)"
  "review_of (release_status reason now s) =
     (let r = review_of s in
      r\<lparr>rc_Released := True, rc_ReleaseReason := reason,
        rc_DispatchLostReleases := rc_DispatchLostReleases r + (if reason = ReleaseReasonDispatchLost then 1 else 0),
        rc_LastDispatchLostAt := (if reason = ReleaseReasonDispatchLost then Some now else rc_LastDispatchLostAt r),
        rc_DismissedAt := (if reason = ReleaseReasonHorizon then Some now else rc_DismissedAt r)\<rparr>)"
  by (simp_all add: release_status_def Let_def)

lemma release_dead_sel:
  "st_NodeResults (snd (release_dead reason cap now s)) = st_NodeResults s"
  "map run_Name (st_Runs (snd (release_dead reason cap now s))) = map run_Name (st_Runs s)"
  "st_Evidence (snd (release_dead reason cap now s)) = st_Evidence s"
  "review_of (snd (release_dead reason cap now s)) =
     (let r = review_of s in
      if rc_Released r then r
      else r\<lparr>rc_Released := True, rc_ReleaseReason := reason,
             rc_DeadDispatches := rc_DeadDispatches r + (if rc_DispatchedAt r = None then 0 else 1)\<rparr>)"
  "st_Phase (snd (release_dead reason cap now s)) =
     (if \<not> rc_Released (review_of s) \<and> (st_Phase s = [] \<or> st_Phase s = AttemptPhaseReconciling)
      then AttemptPhaseFailed else st_Phase s)"
  by (auto simp: release_dead_def Let_def review_of_def)

lemma finalize_cancelled_sel:
  "st_Review (finalize_cancelled reason now s) = st_Review s"
  "st_NodeResults (finalize_cancelled reason now s) = st_NodeResults s"
  "map run_Name (st_Runs (finalize_cancelled reason now s)) = map run_Name (st_Runs s)"
  "st_Evidence (finalize_cancelled reason now s) = st_Evidence s"
  "st_Phase (finalize_cancelled reason now s) \<in>
     {st_Phase s, AttemptPhaseSuperseded, AttemptPhaseFailed}"
  by (auto simp: finalize_cancelled_def finalizeRunningRuns_def Let_def split: option.splits)

lemma status_ok_plain:
  assumes "status_ok s"
  shows "status_ok (dispatch_intent now s)" "status_ok (claim_dispatched jobName now s)"
    "status_ok (set_hold note cause s)" "status_ok (run_started now runName s)"
    "status_ok (set_progress now p s)" "status_ok (add_node_result env s)"
    "status_ok (run_outcome now outcome s)"
proof -
  show "status_ok (run_outcome now outcome s)"
    using assms one_per_key_mutators(2)
    by (simp add: status_ok_def review_of_def run_outcome_sel outcome_phase_def phases_def)
  show "status_ok (run_started now runName s)"
    using assms one_per_key_mutators(1) by (simp add: status_ok_def review_of_def run_started_def)
  show "status_ok (set_progress now p s)"
    using assms one_per_key_mutators(3) by (simp add: status_ok_def review_of_def set_progress_def)
  show "status_ok (add_node_result env s)"
    using assms one_per_key_mutators(4) by (simp add: status_ok_def review_of_def add_node_result_def)
qed (use assms in \<open>simp_all add: status_ok_def claim_ok_def one_per_key_def dispatch_intent_def
       claim_dispatched_def set_hold_def\<close>)

lemma step_status_ok:
  assumes "claim_step wfl t0 s s'" and "status_ok s"
  shows "status_ok s'"
  using assms
proof cases
  case (step_arm at now pr headSHA human expiry now' label)
  have "rc_PR (review_of s) = pr \<and> rc_HeadSHA (review_of s) = headSHA \<and> \<not> human \<Longrightarrow>
      rc_DeadDispatches (review_of s) < MaxDeadDispatchesPerHead"
    using step_arm(3,5) by (auto simp: breaker_open_def review_of_def ReviewClaimStatus0_def split: option.splits)
  then have "status_ok (arm_status now' pr headSHA label human expiry s)"
    using assms(2) claim_ok_arm [of "review_of s"]
    by (simp add: status_ok_def arm_status_sel one_per_key_def phases_def)
  then show ?thesis using step_arm(1) by simp
next
  case (step_release reason now)
  have "status_ok (release_status reason now s)"
    using assms(2) step_release(2)
    by (simp add: status_ok_def release_status_sel one_per_key_def claim_ok_def Let_def) (simp add: phases_def)
  then show ?thesis using step_release(1) by simp
next
  case (step_dead reason captured now)
  have "status_ok (snd (release_dead reason captured now s))"
    using assms(2) step_dead(2)
    by (simp add: status_ok_def release_dead_sel one_per_key_def claim_ok_def Let_def) (auto simp: phases_def)
  then show ?thesis using step_dead(1) by simp
next
  case (step_finalize reason now)
  have "status_ok (finalize_cancelled reason now s)"
    using assms(2) finalize_cancelled_sel [of reason now s]
    by (auto simp: status_ok_def one_per_key_def phases_def review_of_def)
  then show ?thesis using step_finalize by simp
qed (use assms(2) in \<open>simp_all add: status_ok_plain\<close>)

section \<open>Lemmas on the mutations\<close>

lemma arm_again:
  "arm_review t2 pr headSHA label False False (arm_review t1 pr headSHA label human expiry r) =
     arm_review t1 pr headSHA label human expiry r"
proof -
  let ?a = "arm_review t1 pr headSHA label human expiry r"
  have s: "rc_PR ?a = pr" "rc_HeadSHA ?a = headSHA" "rc_Label ?a = label" "rc_Released ?a = False" "rc_ReleaseReason ?a = []" "rc_ArmedSince ?a \<noteq> None"
    by (simp_all add: arm_review_def Let_def)
  have "arm_review t2 pr headSHA label False False x = x"
    if "rc_PR x = pr" "rc_HeadSHA x = headSHA" "rc_Label x = label" "rc_Released x = False" "rc_ReleaseReason x = []" "rc_ArmedSince x \<noteq> None" for x
    using that by (simp add: arm_review_def Let_def)
  then show ?thesis using s by blast
qed

text \<open>One round of churn: an automatic arm whose claim is released without a dispatch.\<close>

definition churn_round :: "string \<Rightarrow> string \<Rightarrow> string \<Rightarrow> instant \<times> instant \<Rightarrow> AttemptStatus \<Rightarrow> AttemptStatus" where
  "churn_round pr headSHA label ts s =
     release_status ReleaseReasonDispatchLost (snd ts) (arm_status (fst ts) pr headSHA label False False s)"

lemma churn_round_review:
  assumes "rc_PR (review_of s) = pr" "rc_HeadSHA (review_of s) = headSHA"
  shows "rc_PR (review_of (churn_round pr headSHA label ts s)) = pr"
    "rc_HeadSHA (review_of (churn_round pr headSHA label ts s)) = headSHA"
    "rc_DispatchLostReleases (review_of (churn_round pr headSHA label ts s)) = rc_DispatchLostReleases (review_of s) + 1"
    "rc_LastDispatchLostAt (review_of (churn_round pr headSHA label ts s)) = Some (snd ts)"
    "rc_DismissedAt (review_of (churn_round pr headSHA label ts s)) = rc_DismissedAt (review_of s)"
    "st_Review (churn_round pr headSHA label ts s) \<noteq> None"
  using assms
  by (simp_all add: churn_round_def release_status_sel arm_status_sel Let_def arm_review_def)
     (simp add: release_status_def Let_def)

lemma churn_rounds:
  assumes "rc_PR (review_of s) = pr" "rc_HeadSHA (review_of s) = headSHA" "st_Review s \<noteq> None"
  shows "let r = review_of (fold (churn_round pr headSHA label) tss s) in
    rc_PR r = pr \<and> rc_HeadSHA r = headSHA \<and>
    rc_DispatchLostReleases r = rc_DispatchLostReleases (review_of s) + int (length tss) \<and>
    rc_LastDispatchLostAt r = (if tss = [] then rc_LastDispatchLostAt (review_of s) else Some (snd (last tss))) \<and>
    rc_DismissedAt r = rc_DismissedAt (review_of s) \<and> st_Review (fold (churn_round pr headSHA label) tss s) \<noteq> None"
  using assms
proof (induction tss arbitrary: s)
  case (Cons ts tss)
  show ?case
    using Cons.IH [of "churn_round pr headSHA label ts s"] churn_round_review [OF Cons.prems(1,2), of label ts]
    by (auto simp: Let_def)
qed simp

lemma review_of_Some: "st_Review s \<noteq> None \<Longrightarrow> st_Review s = Some (review_of s)"
  by (auto simp: review_of_def)

text \<open>What refuses an automatic arm.\<close>

definition dismissal_recent :: "instant \<Rightarrow> Workflow \<Rightarrow> ReviewClaimStatus \<Rightarrow> bool" where
  "dismissal_recent now wfl r \<longleftrightarrow> wspec_ReviewReady (wf_Spec wfl) \<noteq> None \<and>
     (case rc_DismissedAt r of None \<Rightarrow> False | Some t \<Rightarrow> now - t < HorizonDuration (wspec_ReviewReady (wf_Spec wfl)))"

definition budget_window :: "instant \<Rightarrow> Workflow \<Rightarrow> Attempt \<Rightarrow> ReviewClaimStatus \<Rightarrow> bool" where
  "budget_window now wfl at r \<longleftrightarrow>
     DispatchLostWindowOpen now (Some r)
       (if at_CreationTimestamp at = zero_time then 0 else now - at_CreationTimestamp at)
       (HorizonDuration (wspec_ReviewReady (wf_Spec wfl)))"

lemma arm_guard_cases:
  assumes "st_Review (at_Status at) = Some r" "rc_PR r = pr" "rc_HeadSHA r = headSHA"
  shows "dismissal_recent now wfl r \<Longrightarrow>
      \<exists>e. arm_guard now wfl at False pr headSHA False = Inl e \<and> err_Kind e = RecentlyDismissed"
    and "\<not> dismissal_recent now wfl r \<Longrightarrow> MaxDispatchLostReleases \<le> rc_DispatchLostReleases r \<and> budget_window now wfl at r \<Longrightarrow>
      \<exists>e. arm_guard now wfl at False pr headSHA False = Inl e \<and> err_Kind e = ChurnBudgetExhausted"
    and "\<not> dismissal_recent now wfl r \<Longrightarrow> \<not> (MaxDispatchLostReleases \<le> rc_DispatchLostReleases r \<and> budget_window now wfl at r) \<Longrightarrow>
      arm_guard now wfl at False pr headSHA False = Inr (0 < rc_DispatchLostReleases r \<and> \<not> budget_window now wfl at r)"
  using assms
  by (cases "wspec_ReviewReady (wf_Spec wfl)"; cases "rc_DismissedAt r";
      simp add: arm_guard_def arm_budget_def dismissal_recent_def budget_window_def Let_def)+

lemma arm_guard_human: "arm_guard now wfl at created pr headSHA True = Inr False"
  by (simp add: arm_guard_def split: option.splits)

section \<open>The writers on a store\<close>

definition released_at :: "Attempt option \<Rightarrow> bool" where
  "released_at ob \<longleftrightarrow> (\<exists>a. ob = Some a \<and> rc_Released (review_of (at_Status a)))"

text \<open>What the list of live claims selects: the live claims of the workflow without the marker.\<close>

definition live_on :: "Workflow \<Rightarrow> string \<Rightarrow> Attempt \<Rightarrow> bool" where
  "live_on wfl pr a \<longleftrightarrow> selected [(WorkflowLabel, wf_Name wfl)] [ReviewClaimLabel] a \<and> is_live_claim wfl a \<and>
     rc_PR (review_of (at_Status a)) = pr"

lemma live_not_released: "live_on wfl pr a \<Longrightarrow> \<not> rc_Released (review_of (at_Status a))"
  by (auto simp: live_on_def is_live_claim_def review_of_def split: option.splits)

text \<open>The key of the claim object of a head.\<close>

definition claim_key :: "(string \<Rightarrow> string option) \<Rightarrow> Workflow \<Rightarrow> string \<Rightarrow> object_key" where
  "claim_key urlPath wfl headSHA =
     (wf_Namespace wfl, AttemptName (wf_Name wfl)
        (Identity (DeriveObjective urlPath wfl \<lparr>trig_Revision = headSHA, trig_Source = ''webhook''\<rparr>)))"

context api_store
begin

lemma release_claim_store:
  assumes "ReleaseClaim c ns n reason w = (r, w')"
  shows "(\<forall>k. k \<noteq> (ns, n) \<longrightarrow> objs w' k = objs w k) \<and>
    (r = None \<longrightarrow> (\<exists>a a' now. objs w (ns, n) = Some a \<and> objs w' (ns, n) = Some a' \<and>
       at_CreationTimestamp a' = at_CreationTimestamp a \<and>
       at_Status a' = stored (release_status reason now (at_Status a))))"
proof (cases "patchAttemptStatus c ns n (release_status reason) w")
  case (Pair p w1)
  show ?thesis
  proof (cases p)
    case (Some e)
    then show ?thesis using assms Pair patch_simple_store [OF Pair] by (auto simp: ReleaseClaim_def)
  next
    case None
    then have "markClaimReleased c ns n w1 = (r, w')" using assms Pair by (simp add: ReleaseClaim_def)
    then have m: "(r \<noteq> None \<longrightarrow> objs w' = objs w1) \<and> (r = None \<longrightarrow> (\<exists>a ls v. objs w1 (ns, n) = Some a \<and>
        (objs w' = objs w1 \<or> objs w' = (objs w1)((ns, n) \<mapsto> a\<lparr>at_Labels := ls, at_ResourceVersion := v\<rparr>))))"
      using mark_store by blast
    obtain a now v where a: "objs w (ns, n) = Some a" "objs w1 = (objs w)((ns, n) \<mapsto>
        a\<lparr>at_Status := stored (release_status reason now (at_Status a)), at_ResourceVersion := v\<rparr>)"
      using patch_simple_store [OF Pair] None by auto
    show ?thesis using m a by (cases r) auto
  qed
qed

lemma supersede_store:
  assumes "supersede_others c wfl at pr xs w = (r, w')"
  shows "(\<forall>k. fst k \<noteq> wf_Namespace wfl \<or> snd k = at_Name at \<longrightarrow> objs w' k = objs w k) \<and>
    (r = None \<longrightarrow> (\<forall>k. objs w' k = objs w k \<or> released_at (objs w' k)) \<and>
      (\<forall>x \<in> set xs. at_Name x \<noteq> at_Name at \<and> rc_PR (review_of (at_Status x)) = pr \<longrightarrow>
         released_at (objs w' (wf_Namespace wfl, at_Name x))))"
  using assms
proof (induction xs arbitrary: w)
  case (Cons x xs)
  show ?case
  proof (cases "at_Name x = at_Name at \<or> rc_PR (review_of (at_Status x)) \<noteq> pr")
    case True
    then have "supersede_others c wfl at pr xs w = (r, w')" using Cons.prems by auto
    from Cons.IH [OF this] True show ?thesis by auto
  next
    case False
    obtain q w1 where rel: "ReleaseClaim c (wf_Namespace wfl) (at_Name x) ReleaseReasonSuperseded w = (q, w1)" by fastforce
    note R = release_claim_store [OF rel]
    show ?thesis
    proof (cases q)
      case (Some e)
      then show ?thesis using Cons.prems False rel R by auto
    next
      case None
      then have "supersede_others c wfl at pr xs w1 = (r, w')" using Cons.prems False rel by auto
      note IH = Cons.IH [OF this]
      have rx: "released_at (objs w1 (wf_Namespace wfl, at_Name x))"
        using R None by (auto simp: released_at_def release_status_sel Let_def)
      have frame: "\<forall>k. objs w1 k = objs w k \<or> k = (wf_Namespace wfl, at_Name x)" using R by blast
      show ?thesis using IH rx frame False by (smt (verit) fst_conv set_ConsD snd_conv)
    qed
  qed
qed simp

lemma live_list_store:
  assumes "LiveReviewClaims c wfl w = (r, w')"
  shows "objs w' = objs w \<and> (\<forall>xs. r = Inr xs \<longrightarrow> (\<forall>a. a \<in> set xs \<longleftrightarrow>
    (\<exists>n. objs w (wf_Namespace wfl, n) = Some a \<and> selected [(WorkflowLabel, wf_Name wfl)] [ReviewClaimLabel] a \<and>
       is_live_claim wfl a)))"
proof (cases "cl_list c (wf_Namespace wfl) [(WorkflowLabel, wf_Name wfl)] [ReviewClaimLabel] w")
  case (Pair l w1)
  show ?thesis
  proof (cases l)
    case (Inl e)
    then show ?thesis using assms Pair list_err by (auto simp: LiveReviewClaims_def)
  next
    case (Inr items)
    then show ?thesis using assms Pair list_ok [of "wf_Namespace wfl"] by (fastforce simp: LiveReviewClaims_def)
  qed
qed

text \<open>After the guards: a failure leaves the claim's status, a success writes the arm and no other claim of the pull request lives.\<close>

lemma arm_commit_store:
  assumes "arm_commit c wfl at pr headSHA label human expiry w = (r, w')"
    and "objs w (wf_Namespace wfl, at_Name at) = Some at"
  shows "(\<exists>a'. objs w' (wf_Namespace wfl, at_Name at) = Some a' \<and> at_CreationTimestamp a' = at_CreationTimestamp at \<and>
      (case r of
         Some e \<Rightarrow> at_Status a' = at_Status at
       | None \<Rightarrow> \<not> breaker_open at pr headSHA human \<and>
           (\<exists>now. at_Status a' = stored (arm_status now pr headSHA label human expiry (at_Status at))))) \<and>
    (r = None \<longrightarrow> (\<forall>n b. objs w' (wf_Namespace wfl, n) = Some b \<and> live_on wfl pr b \<longrightarrow> n = at_Name at))"
proof -
  let ?k = "(wf_Namespace wfl, at_Name at)"
  obtain l w1 where l: "LiveReviewClaims c wfl w = (l, w1)" by fastforce
  note L = live_list_store [OF l]
  show ?thesis
  proof (cases l)
    case (Inl e)
    then show ?thesis using assms l L by (auto simp: arm_commit_def)
  next
    case (Inr others)
    obtain q w2 where q: "supersede_others c wfl at pr others w1 = (q, w2)" by fastforce
    note S = supersede_store [OF q]
    then have k2: "objs w2 ?k = Some at" using L assms(2) by auto
    show ?thesis
    proof (cases "q \<noteq> None \<or> breaker_open at pr headSHA human")
      case True
      then show ?thesis using assms(1) l Inr q k2 by (auto simp: arm_commit_def split: option.splits)
    next
      case False
      obtain m w3 where m: "markClaimLive c (wf_Namespace wfl) (at_Name at) w2 = (m, w3)" by fastforce
      then have M: "(m \<noteq> None \<longrightarrow> objs w3 = objs w2) \<and> (m = None \<longrightarrow> (\<exists>a ls v. objs w2 ?k = Some a \<and>
          (objs w3 = objs w2 \<or> objs w3 = (objs w2)(?k \<mapsto> a\<lparr>at_Labels := ls, at_ResourceVersion := v\<rparr>))))"
        using mark_store by blast
      then obtain a3 where a3: "objs w3 ?k = Some a3" "at_Status a3 = at_Status at"
        "at_CreationTimestamp a3 = at_CreationTimestamp at" using k2 by (cases m) auto
      have f3: "\<forall>k. k \<noteq> ?k \<longrightarrow> objs w3 k = objs w2 k" using M by (cases m) auto
      show ?thesis
      proof (cases m)
        case (Some e)
        then show ?thesis using assms(1) l Inr q m False a3 by (auto simp: arm_commit_def)
      next
        case None
        let ?f = "\<lambda>t. arm_status (cl_now c w3) pr headSHA label human expiry"
        have p: "patchAttemptStatus c (wf_Namespace wfl) (at_Name at) ?f w3 = (r, w')"
          using assms(1) l Inr q m None False by (simp add: arm_commit_def Let_def)
        note P = patch_simple_store [OF p]
        have f4: "\<forall>k. k \<noteq> ?k \<longrightarrow> objs w' k = objs w2 k" using P f3 by (cases r) auto
        have others: "\<not> live_on wfl pr b" if "objs w' (wf_Namespace wfl, n) = Some b" "n \<noteq> at_Name at" for n b
        proof
          assume b: "live_on wfl pr b"
          have b2: "objs w2 (wf_Namespace wfl, n) = Some b" using f4 that by auto
          then have "\<not> released_at (objs w2 (wf_Namespace wfl, n))" using live_not_released [OF b] by (simp add: released_at_def)
          then have "objs w (wf_Namespace wfl, n) = Some b" using S False L b2 by metis
          then have "b \<in> set others" "at_Name b = n" using L Inr b stored_key by (auto simp: live_on_def)
          then show False using S False b that(2) \<open>\<not> released_at _\<close> by (auto simp: live_on_def)
        qed
        show ?thesis using P a3 False others by (cases r) auto
      qed
    qed
  qed
qed

lemma resolve_store:
  assumes "ResolveOrCreate c obj opts w = (res, w')"
  shows "(case res of
      Inl e \<Rightarrow> objs w' = objs w
    | Inr (at, created) \<Rightarrow>
        at_Name at = AttemptName (ownerName opts) (Identity obj) \<and>
        objs w' (ro_Namespace opts, at_Name at) = Some at \<and>
        (if created then objs w (ro_Namespace opts, at_Name at) = None \<and> st_Review (at_Status at) = None \<and>
                         objs w' = (objs w)((ro_Namespace opts, at_Name at) \<mapsto> at)
         else objs w' = objs w))"
proof -
  let ?n = "AttemptName (ownerName opts) (Identity obj)" and ?ns = "ro_Namespace opts"
  let ?new = "new_attempt ?n obj opts"
  obtain g w1 where g: "cl_get c ?ns ?n w = (g, w1)" by fastforce
  show ?thesis
  proof (cases g)
    case (Inr a)
    then show ?thesis using assms g get_ok [of ?ns ?n w a w1] stored_key by (auto simp: ResolveOrCreate_def)
  next
    case (Inl e)
    then have w1: "objs w1 = objs w" using g get_err by auto
    define own where "own = (case ro_Owner opts of
        Some owner \<Rightarrow> if ro_Scheme opts then cl_setOwner c owner ?new else Inr ?new | None \<Rightarrow> Inr ?new)"
    show ?thesis
    proof (cases "err_Kind e \<noteq> NotFound \<or> (\<exists>e2. own = Inl e2)")
      case True
      then show ?thesis using assms g Inl w1 by (auto simp: ResolveOrCreate_def Let_def own_def [symmetric] split: if_splits)
    next
      case False
      then obtain a where a: "own = Inr a" by (cases own) auto
      then have an: "at_Namespace a = ?ns" "at_Name a = ?n"
        using owner_ok by (auto simp: own_def new_attempt_def split: option.splits if_splits)
      have st: "st_Review (at_Status a) = None \<and> st_Review AttemptStatus0 = None" using a owner_ok
        by (auto simp: own_def new_attempt_def AttemptStatus0_def split: option.splits if_splits)
      obtain cr w2 where cr: "cl_create c a w1 = (cr, w2)" by fastforce
      show ?thesis
      proof (cases cr)
        case (Inr b)
        then have "res = Inr (b, True)" "w' = w2"
          using assms g Inl False a cr by (auto simp: ResolveOrCreate_def Let_def own_def [symmetric])
        then show ?thesis using create_ok [of a w1 b w2] cr Inr an w1 st by auto
      next
        case (Inl e3)
        then have w2: "objs w2 = objs w" using create_err cr w1 by auto
        obtain g2 w3 where g2: "cl_get c ?ns ?n w2 = (g2, w3)" by fastforce
        have "if err_Kind e3 \<noteq> AlreadyExists then (\<exists>e'. res = Inl e') \<and> w' = w2
            else (case g2 of Inl e4 \<Rightarrow> \<exists>e'. res = Inl e' | Inr got \<Rightarrow> res = Inr (got, False)) \<and> w' = w3"
          using assms g \<open>g = Inl e\<close> False a cr Inl g2 an
          by (auto simp: ResolveOrCreate_def Let_def own_def [symmetric] split: sum.splits if_splits)
        then show ?thesis using w2 get_ok [of ?ns ?n w2 _ w3] get_err [of ?ns ?n w2 _ w3] g2 stored_key
          by (cases g2) (auto split: if_splits)
      qed
    qed
  qed
qed

lemma arm_abandon_store:
  assumes "armAbandon c wfl at created e w = (e', w')"
  shows "if created
    then (\<forall>k. k \<noteq> (wf_Namespace wfl, at_Name at) \<longrightarrow> objs w' k = objs w k) \<and>
      (objs w' (wf_Namespace wfl, at_Name at) = None \<or>
       (\<exists>v d v'. cl_delete c (wf_Namespace wfl) (at_Name at) v = (Some d, v') \<and> err_Kind d \<noteq> NotFound))
    else objs w' = objs w"
proof (cases created)
  case True
  obtain d w1 where d: "cl_delete c (wf_Namespace wfl) (at_Name at) w = (d, w1)" by fastforce
  then have "w' = w1" using assms True by (auto simp: armAbandon_def split: option.splits if_splits)
  then show ?thesis
    using True d delete_ok [of "wf_Namespace wfl" "at_Name at" w w1] delete_err [of "wf_Namespace wfl" "at_Name at" w _ w1]
    by (cases d) auto
qed (use assms in \<open>simp add: armAbandon_def\<close>)

lemma arm_claim_store:
  assumes "ArmClaim c urlPath scheme wfl pr headSHA label human w = (res, w')"
  shows "case res of
      Inl e \<Rightarrow>
        (case objs w (claim_key urlPath wfl headSHA) of
           Some a \<Rightarrow> \<exists>a'. objs w' (claim_key urlPath wfl headSHA) = Some a' \<and> at_Status a' = at_Status a
         | None \<Rightarrow> objs w' (claim_key urlPath wfl headSHA) = None \<or>
             (\<exists>v d v'. cl_delete c (wf_Namespace wfl) (snd (claim_key urlPath wfl headSHA)) v = (Some d, v') \<and>
                err_Kind d \<noteq> NotFound))
    | Inr at \<Rightarrow>
        (objs w (claim_key urlPath wfl headSHA) = Some at \<or>
         objs w (claim_key urlPath wfl headSHA) = None \<and> st_Review (at_Status at) = None) \<and>
        (\<exists>a' now now' expiry. objs w' (claim_key urlPath wfl headSHA) = Some a' \<and>
           at_CreationTimestamp a' = at_CreationTimestamp at \<and>
           arm_guard now wfl at False pr headSHA human = Inr expiry \<and> \<not> breaker_open at pr headSHA human \<and>
           at_Status a' = stored (arm_status now' pr headSHA label human expiry (at_Status at))) \<and>
        (\<forall>n b. objs w' (wf_Namespace wfl, n) = Some b \<and> live_on wfl pr b \<longrightarrow>
           (wf_Namespace wfl, n) = claim_key urlPath wfl headSHA)"
proof -
  let ?k = "claim_key urlPath wfl headSHA"
  let ?obj = "DeriveObjective urlPath wfl \<lparr>trig_Revision = headSHA, trig_Source = ''webhook''\<rparr>"
  let ?opts = "\<lparr>ro_Namespace = wf_Namespace wfl, ro_WorkflowRef = wf_Namespace wfl @ ''/'' @ wf_Name wfl,
      ro_Owner = Some wfl, ro_Scheme = scheme\<rparr>"
  obtain q w1 where q: "ResolveOrCreate c ?obj ?opts w = (q, w1)" by fastforce
  note R = resolve_store [OF q]
  show ?thesis
  proof (cases q)
    case (Inl e)
    then have "res = Inl (wrap_error ''resolve claim attempt: '' e)" "w' = w1" using assms q by (auto simp: ArmClaim_def)
    then show ?thesis using R Inl by (auto split: option.splits)
  next
    case (Inr ac)
    obtain at created where ac: "ac = (at, created)" by (cases ac)
    have k: "?k = (wf_Namespace wfl, at_Name at)" and k1: "objs w1 ?k = Some at"
      and old: "if created then objs w ?k = None \<and> st_Review (at_Status at) = None else objs w1 = objs w"
      using R Inr ac by (auto simp: claim_key_def ownerName_def split: if_splits)
    show ?thesis
    proof (cases "arm_guard (cl_now c w1) wfl at created pr headSHA human")
      case (Inl e)
      have "\<not> created" using Inl old by (auto simp: arm_guard_def)
      moreover have "res = Inl e" "w' = w1" using assms q Inr ac Inl by (auto simp: ArmClaim_def)
      ultimately show ?thesis using k1 old by auto
    next
      case (Inr expiry)
      have guard: "arm_guard (cl_now c w1) wfl at False pr headSHA human = Inr expiry"
        using Inr old by (cases created) (auto simp: arm_guard_def split: option.splits)
      obtain m w2 where m: "arm_commit c wfl at pr headSHA label human expiry w1 = (m, w2)" by fastforce
      note C = arm_commit_store [OF m k1 [unfolded k]]
      show ?thesis
      proof (cases m)
        case None
        then have "res = Inr at" "w' = w2" using assms q \<open>q = Inr ac\<close> ac Inr m by (auto simp: ArmClaim_def)
        then show ?thesis using C None guard k k1 old by (auto split: if_splits)
      next
        case (Some e)
        obtain e' w3 where ab: "armAbandon c wfl at created e w2 = (e', w3)" by fastforce
        then have "res = Inl e'" "w' = w3" using assms q \<open>q = Inr ac\<close> ac Inr m Some by (auto simp: ArmClaim_def)
        then show ?thesis using arm_abandon_store [OF ab] C Some k k1 old by (cases created) auto
      qed
    qed
  qed
qed

end

end
