(* ===== verification/Claim_Theorems.thy ===== *)
theory Claim_Theorems
  imports Claim_Props Graph_Compile
begin

text \<open>
  The properties of the review claims (\<^verbatim>\<open>internal/attempt/claim.go\<close>): the invariant of the claim state
  machine, the store-level properties of arming and of the writers, and the contracts of the
  mutations (churn budget, horizon dismissal, death observer, cancellation).
\<close>

lemma release_dead_result:
  "fst (release_dead reason captured now s) =
     (fst captured \<or> \<not> rc_Released (review_of s) \<and> rc_DispatchedAt (review_of s) \<noteq> None,
      rc_DeadDispatches (review_of (snd (release_dead reason captured now s))))"
  "st_Review (snd (release_dead reason captured now s)) \<noteq> None"
  by (simp_all add: release_dead_sel) (simp_all add: release_dead_def Let_def)

section \<open>Properties\<close>

text \<open>
  C11. The breaker and the release marker are consistent in every reachable state: when every writer of
  one claim takes its step on the current status (an arm only when its guards let it through), then
  from a status without a claim the dead dispatches stay between zero and three and below three
  while the claim is live, a claim is released exactly when it has a release reason, a dispatch-lost
  count is backed by the time of the last strike, an armed claim has its clock, the phase is one of
  the known phases, and each list of the ledger keeps one row per key.
\<close>

theorem claim_invariant:
  assumes "(claim_step wfl t0)\<^sup>*\<^sup>* s s'" and "st_Review s = None" and "st_Phase s \<in> set phases" and "one_per_key s"
  shows "claim_ok (review_of s') \<and> st_Phase s' \<in> set phases \<and> one_per_key s'"
proof -
  have "status_ok s" using assms(2-4) by (simp add: status_ok_def claim_ok_def review_of_def ReviewClaimStatus0_def)
  with assms(1) have "status_ok s'" by (induction rule: rtranclp_induct) (auto intro: step_status_ok)
  then show ?thesis by (simp add: status_ok_def)
qed

definition review_workflow :: Workflow where
  "review_workflow = sample_workflow\<lparr>wf_Spec := (wf_Spec sample_workflow)\<lparr>wspec_ReviewReady :=
     Some \<lparr>rr_Label = [], rr_Horizon = [], rr_DispatchTimeout = [], rr_MaxConcurrent = 0, rr_RunBound = []\<rparr>\<rparr>\<rparr>"

theorem claim_invariant_witness:
  "rc_DeadDispatches (review_of (stored (snd (release_dead ''job-death'' (False, 0) 9
     (stored (claim_dispatched ''j'' 5 (stored AttemptStatus0))))))) = 1 \<and>
   claim_ok (review_of (stored (snd (release_dead ''job-death'' (False, 0) 9
     (stored (claim_dispatched ''j'' 5 AttemptStatus0))))))"
proof -
  let ?s = "stored (claim_dispatched ''j'' 5 AttemptStatus0)"
  have "claim_step review_workflow 1 AttemptStatus0 ?s" by (rule step_dispatched)
  moreover have "claim_step review_workflow 1 ?s (stored (snd (release_dead ''job-death'' (False, 0) 9 ?s)))"
    by (rule step_dead) simp
  ultimately have "(claim_step review_workflow 1)\<^sup>*\<^sup>* AttemptStatus0 (stored (snd (release_dead ''job-death'' (False, 0) 9 ?s)))"
    by auto
  from claim_invariant [OF this] show ?thesis
    by (simp add: AttemptStatus0_def phases_def one_per_key_def release_dead_sel claim_dispatched_def
        ReviewClaimStatus0_def Let_def) (simp add: review_of_def ReviewClaimStatus0_def)
qed

text \<open>
  C10. One live claim per pull request: when an arm reports success on a store without interfering
  writers, then no other Attempt of the workflow is a live claim on that pull request.
\<close>

theorem arm_one_live_claim:
  assumes "api_store c objs" and "ArmClaim c urlPath scheme wfl pr headSHA label human w = (Inr at, w')"
  shows "\<forall>n b. objs w' (wf_Namespace wfl, n) = Some b \<and> live_on wfl pr b \<longrightarrow>
    (wf_Namespace wfl, n) = claim_key urlPath wfl headSHA"
  using api_store.arm_claim_store [OF assms] by simp

definition empty_store :: store where
  "empty_store = \<lparr>sv_objects = [], sv_clock = 1000, sv_version = 1\<rparr>"

abbreviation (input) arm_sample :: "string \<Rightarrow> bool \<Rightarrow> store \<Rightarrow> (error + Attempt) \<times> store" where
  "arm_sample headSHA human \<equiv> ArmClaim store_server (\<lambda>u. None) False review_workflow ''7'' headSHA ''l'' human"

lemma arm_sample_twice: "\<not> isl (fst (arm_sample ''abc'' False (snd (arm_sample ''old'' False empty_store))))"
  by code_simp

lemma sample_keys: "claim_key (\<lambda>u. None) review_workflow ''old'' \<noteq> claim_key (\<lambda>u. None) review_workflow ''abc''"
  by code_simp

theorem arm_one_live_claim_witness:
  "\<not> (\<exists>b. store_objs (snd (arm_sample ''abc'' False (snd (arm_sample ''old'' False empty_store))))
       (claim_key (\<lambda>u. None) review_workflow ''old'') = Some b \<and> live_on review_workflow ''7'' b)"
proof -
  obtain at w' where "arm_sample ''abc'' False (snd (arm_sample ''old'' False empty_store)) = (Inr at, w')"
    using arm_sample_twice by (metis isl_def prod.collapse sum.exhaust)
  moreover have "claim_key (\<lambda>u. None) review_workflow ''old'' =
      (wf_Namespace review_workflow, snd (claim_key (\<lambda>u. None) review_workflow ''old''))"
    by (simp add: claim_key_def)
  ultimately show ?thesis
    using arm_one_live_claim [OF server.api_store_axioms] sample_keys by (metis snd_conv)
qed

text \<open>
  A failed or refused arm leaves no trace on the claim: when an arm returns an error, an Attempt
  that existed before has its status unchanged (the breaker's count is the evidence and is not
  clobbered), and an Attempt that this arm created is gone again unless its deletion failed.
\<close>

theorem arm_failure_keeps_claim:
  assumes "api_store c objs" and "ArmClaim c urlPath scheme wfl pr headSHA label human w = (Inl e, w')"
  shows "case objs w (claim_key urlPath wfl headSHA) of
      Some a \<Rightarrow> \<exists>a'. objs w' (claim_key urlPath wfl headSHA) = Some a' \<and> at_Status a' = at_Status a
    | None \<Rightarrow> objs w' (claim_key urlPath wfl headSHA) = None \<or>
        (\<exists>v d v'. cl_delete c (wf_Namespace wfl) (snd (claim_key urlPath wfl headSHA)) v = (Some d, v') \<and>
           err_Kind d \<noteq> NotFound)"
  using api_store.arm_claim_store [OF assms] by simp

definition breaker_attempt :: Attempt where
  "breaker_attempt = one_attempt\<lparr>at_Name := snd (claim_key (\<lambda>u. None) review_workflow ''abc''),
     at_Status := AttemptStatus0\<lparr>st_Review := Some (ReviewClaimStatus0\<lparr>rc_PR := ''7'', rc_HeadSHA := ''abc'',
       rc_Released := True, rc_ReleaseReason := ''job-death'', rc_DeadDispatches := 3\<rparr>)\<rparr>\<rparr>"

definition breaker_store :: store where
  "breaker_store = \<lparr>sv_objects = [breaker_attempt], sv_clock = 1000, sv_version = 9\<rparr>"

lemma arm_sample_refused: "isl (fst (arm_sample ''abc'' False breaker_store))"
  by code_simp

theorem arm_failure_keeps_claim_witness:
  "\<exists>a'. store_objs (snd (arm_sample ''abc'' False breaker_store)) (claim_key (\<lambda>u. None) review_workflow ''abc'') = Some a' \<and>
     at_Status a' = at_Status breaker_attempt"
proof -
  obtain e w' where r: "arm_sample ''abc'' False breaker_store = (Inl e, w')"
    using arm_sample_refused by (metis isl_def prod.collapse)
  have "store_objs breaker_store (claim_key (\<lambda>u. None) review_workflow ''abc'') = Some breaker_attempt"
    by (simp add: store_objs_def breaker_store_def keyed_def breaker_attempt_def one_attempt_def claim_key_def
        review_workflow_def sample_workflow_def workflow0_defs)
  with arm_failure_keeps_claim [OF server.api_store_axioms r] r show ?thesis by simp
qed

text \<open>The writers of one claim, as steps of the stored status.\<close>

definition moved :: "(object_key \<Rightarrow> Attempt option) \<Rightarrow> (object_key \<Rightarrow> Attempt option) \<Rightarrow> object_key \<Rightarrow> Workflow \<Rightarrow> bool" where
  "moved before after k wfl \<longleftrightarrow> (\<forall>k'. k' \<noteq> k \<longrightarrow> after k' = before k') \<and>
     (\<exists>a a'. before k = Some a \<and> after k = Some a' \<and> at_CreationTimestamp a' = at_CreationTimestamp a \<and>
        claim_step wfl (at_CreationTimestamp a) (at_Status a) (at_Status a'))"

context api_store
begin

lemma patch_moved:
  assumes "patchAttemptStatus c ns n m w = (None, w')" and "\<And>now t0 s. claim_step wfl t0 s (stored (m now s))"
  shows "moved (objs w) (objs w') (ns, n) wfl"
  using patch_simple_store [OF assms(1)] assms(2) by (auto simp: moved_def)

lemma release_moved:
  assumes "ReleaseClaim c ns n reason w = (None, w')" and "reason \<noteq> []"
  shows "moved (objs w) (objs w') (ns, n) wfl"
  using release_claim_store [OF assms(1)] assms(2) step_release by (fastforce simp: moved_def)

lemma release_dead_moved:
  assumes "ReleaseClaimDead c ns n reason w = ((recorded, dead, None), w')" and "reason \<noteq> []"
  shows "moved (objs w) (objs w') (ns, n) wfl"
proof -
  obtain p cap w1 where p: "patchAttemptStatus_with c ns n (release_dead reason) (False, 0) w = ((p, cap), w1)"
    by (metis prod.exhaust)
  have pn: "p = None" using assms(1) p by (cases p) (auto simp: ReleaseClaimDead_def split: prod.splits)
  with patch_store [OF p] obtain a y now v where a: "objs w (ns, n) = Some a" "objs w1 = (objs w)((ns, n) \<mapsto>
      a\<lparr>at_Status := stored (snd (release_dead reason y now (at_Status a))), at_ResourceVersion := v\<rparr>)" by auto
  have "w' = w1 \<or> markClaimReleased c ns n w1 = (None, w')"
    using assms(1) p pn by (auto simp: ReleaseClaimDead_def split: prod.splits if_splits)
  then have "\<exists>a1 ls v. objs w1 (ns, n) = Some a1 \<and> (objs w' = objs w1 \<or>
      objs w' = (objs w1)((ns, n) \<mapsto> a1\<lparr>at_Labels := ls, at_ResourceVersion := v\<rparr>))"
    using a mark_store [of ns n w1 None w'] by auto
  then show ?thesis using a step_dead [OF assms(2), of _ _ _ y] by (auto simp: moved_def simp del: split_paired_All split: if_splits)
qed

end



text \<open>
  The churn budget converges: after three or more rounds of automatic arms released without a
  dispatch, an automatic arm of the same pointer is refused for as long as the last of them lies
  within the horizon, and when the horizon has passed the guard lets the arm through and the arm
  starts both counters from zero.
\<close>

theorem churn_budget_converges:
  assumes "st_Review s \<noteq> None" and "rc_PR (review_of s) = pr" and "rc_HeadSHA (review_of s) = headSHA"
    and "0 \<le> rc_DispatchLostReleases (review_of s)" and "rc_DismissedAt (review_of s) = None"
    and "3 \<le> length tss" and "at_Status at = fold (churn_round pr headSHA label) tss s"
  shows "if now - snd (last tss) < HorizonDuration (wspec_ReviewReady (wf_Spec wfl))
    then \<exists>e. arm_guard now wfl at False pr headSHA False = Inl e \<and> err_Kind e = ChurnBudgetExhausted
    else arm_guard now wfl at False pr headSHA False = Inr True \<and>
      rc_DispatchLostReleases (review_of (arm_status now pr headSHA label False True (at_Status at))) = 0 \<and>
      rc_DeadDispatches (review_of (arm_status now pr headSHA label False True (at_Status at))) = 0"
proof -
  let ?r = "review_of (at_Status at)"
  have r: "rc_PR ?r = pr" "rc_HeadSHA ?r = headSHA" "3 \<le> rc_DispatchLostReleases ?r"
    "rc_LastDispatchLostAt ?r = Some (snd (last tss))" "rc_DismissedAt ?r = None" "st_Review (at_Status at) \<noteq> None"
    using churn_rounds [OF assms(2,3,1), of label tss] assms(4-7) by (auto simp: Let_def)
  have d: "\<not> dismissal_recent now wfl ?r" using r(5) by (simp add: dismissal_recent_def)
  have b: "budget_window now wfl at ?r \<longleftrightarrow> now - snd (last tss) < HorizonDuration (wspec_ReviewReady (wf_Spec wfl))"
    using r(4) by (simp add: budget_window_def DispatchLostWindowOpen_def)
  note G = arm_guard_cases [OF review_of_Some [OF r(6)] r(1,2), where now = now and wfl = wfl]
  show ?thesis using G(2) [OF d] G(3) [OF d] b r(3)
    by (auto simp: arm_status_sel arm_review_def Let_def)
qed

theorem churn_budget_converges_witness:
  "\<exists>e. arm_guard 100 review_workflow (one_attempt\<lparr>at_Status := fold (churn_round ''7'' ''abc'' ''l'') [(1, 2), (3, 4), (5, 6)]
       (AttemptStatus0\<lparr>st_Review := Some (ReviewClaimStatus0\<lparr>rc_PR := ''7'', rc_HeadSHA := ''abc''\<rparr>)\<rparr>)\<rparr>)
     False ''7'' ''abc'' False = Inl e \<and> err_Kind e = ChurnBudgetExhausted"
proof -
  let ?s = "AttemptStatus0\<lparr>st_Review := Some (ReviewClaimStatus0\<lparr>rc_PR := ''7'', rc_HeadSHA := ''abc''\<rparr>)\<rparr>"
  let ?a = "one_attempt\<lparr>at_Status := fold (churn_round ''7'' ''abc'' ''l'') [(1, 2), (3, 4), (5, 6)] ?s\<rparr>"
  have "100 - snd (last [(1, 2), (3, 4), (5::int, 6::int)]) < HorizonDuration (wspec_ReviewReady (wf_Spec review_workflow))"
    by (simp add: review_workflow_def HorizonDuration_def)
  with churn_budget_converges [of ?s "''7''" "''abc''" "[(1, 2), (3, 4), (5, 6)]" ?a "''l''" 100 review_workflow]
  show ?thesis by (simp add: ReviewClaimStatus0_def del: fold.simps)
qed

text \<open>
  The named contract of the horizon: a claim dismissed by the horizon and revived by a human has a
  fresh clock and is not refused by any guard, while an automatic arm of the same pointer is refused
  for as long as the dismissal lies within the horizon.
\<close>

theorem dismissal_survives_human_arm:
  assumes "wspec_ReviewReady (wf_Spec wfl) \<noteq> None"
    and "rc_PR (review_of s) = pr" and "rc_HeadSHA (review_of s) = headSHA"
    and "at_Status at = stored (arm_status t1 pr headSHA label True expiry (stored (release_status ReleaseReasonHorizon t s)))"
    and "now - t < HorizonDuration (wspec_ReviewReady (wf_Spec wfl))"
  shows "rc_ArmedSince (review_of (at_Status at)) = Some t1 \<and>
    (\<exists>e. arm_guard now wfl at False pr headSHA False = Inl e \<and> err_Kind e = RecentlyDismissed) \<and>
    arm_guard now wfl at created pr headSHA True = Inr False \<and> \<not> breaker_open at pr headSHA True"
proof -
  let ?r = "review_of (at_Status at)"
  have some: "st_Review (at_Status at) \<noteq> None" using assms(4) by (simp add: arm_status_def Let_def)
  have r: "?r = arm_review t1 pr headSHA label True expiry (review_of (release_status ReleaseReasonHorizon t s))"
    using assms(4) by (simp add: arm_status_sel)
  have f: "rc_PR ?r = pr" "rc_HeadSHA ?r = headSHA" "rc_DismissedAt ?r = Some t" "rc_ArmedSince ?r = Some t1"
    unfolding r by (simp_all add: release_status_sel arm_review_def Let_def)
  have "dismissal_recent now wfl ?r" using assms(1,5) f(3) by (simp add: dismissal_recent_def)
  with arm_guard_cases(1) [OF review_of_Some [OF some] f(1,2)] f(4) show ?thesis
    by (auto simp: arm_guard_human breaker_open_def split: option.splits)
qed

theorem dismissal_survives_human_arm_witness:
  "\<exists>e. arm_guard 100 review_workflow (one_attempt\<lparr>at_Status := stored (arm_status 50 [] [] ''l'' True False
       (stored (release_status ReleaseReasonHorizon 20 AttemptStatus0)))\<rparr>) False [] [] False = Inl e \<and>
     err_Kind e = RecentlyDismissed"
  using dismissal_survives_human_arm [of review_workflow AttemptStatus0 "[]" "[]"
      "one_attempt\<lparr>at_Status := stored (arm_status 50 [] [] ''l'' True False
         (stored (release_status ReleaseReasonHorizon 20 AttemptStatus0)))\<rparr>" 50 "''l''" False 20 100]
  by (simp add: review_workflow_def HorizonDuration_def review_of_def AttemptStatus0_def ReviewClaimStatus0_def)

text \<open>
  One death is counted once: the first observer of a death releases the claim, counts it exactly
  when the claim was live and dispatched, reports the new count, and leaves no run record open; a
  second observer reports that it recorded nothing and changes nothing.
\<close>

theorem dead_observer_once:
  assumes "release_dead reason (False, d0) now s = ((recorded, dead), s1)"
  shows "rc_Released (review_of s1) \<and>
    (recorded \<longleftrightarrow> \<not> rc_Released (review_of s) \<and> rc_DispatchedAt (review_of s) \<noteq> None) \<and>
    dead = rc_DeadDispatches (review_of s) + (if recorded then 1 else 0) \<and>
    rc_DeadDispatches (review_of s1) = dead \<and>
    (rc_Released (review_of s) \<or> list_all (\<lambda>r. \<not> unfinished r) (st_Runs s1)) \<and>
    release_dead reason' (False, d1) now' s1 = ((False, dead), s1)"
proof -
  have s1: "s1 = snd (release_dead reason (False, d0) now s)" "(recorded, dead) = fst (release_dead reason (False, d0) now s)"
    using assms by auto
  have rel: "rc_Released (review_of s1)" "rc_DeadDispatches (review_of s1) = dead" "st_Review s1 \<noteq> None"
    "dead = rc_DeadDispatches (review_of s) + (if recorded then 1 else 0)"
    "recorded \<longleftrightarrow> \<not> rc_Released (review_of s) \<and> rc_DispatchedAt (review_of s) \<noteq> None"
    using s1 by (simp_all add: release_dead_result release_dead_sel Let_def)
  moreover have "rc_Released (review_of s) \<or> list_all (\<lambda>r. \<not> unfinished r) (st_Runs s1)"
    using s1(1) by (auto simp: release_dead_def finalizeRunningRuns_def unfinished_def Let_def list_all_iff)
  moreover have "release_dead reason' (False, d1) now' s1 = ((False, dead), s1)"
    using rel review_of_Some [OF rel(3)] by (simp add: release_dead_def)
  ultimately show ?thesis by blast
qed

theorem dead_observer_once_witness:
  "release_dead ''dispatch-timeout'' (False, 0) 8 (snd (release_dead ''job-death'' (False, 0) 7
       (claim_dispatched ''j'' 5 AttemptStatus0))) =
     ((False, 1), snd (release_dead ''job-death'' (False, 0) 7 (claim_dispatched ''j'' 5 AttemptStatus0)))"
proof -
  have "fst (release_dead ''job-death'' (False, 0) 7 (claim_dispatched ''j'' 5 AttemptStatus0)) = (True, 1)"
    by code_simp
  then have "release_dead ''job-death'' (False, 0) 7 (claim_dispatched ''j'' 5 AttemptStatus0) =
      ((True, 1), snd (release_dead ''job-death'' (False, 0) 7 (claim_dispatched ''j'' 5 AttemptStatus0)))"
    by (simp add: prod_eq_iff)
  from dead_observer_once [OF this] show ?thesis by blast
qed

text \<open>
  Cancellation is ledger hygiene: finalising never changes the claim (no counter moves), changes
  nothing at all when the claim is live again or was released for another reason, otherwise leaves
  no open run and no reconciling phase, and doing it twice is the same as doing it once.
\<close>

theorem finalize_cancelled_safe:
  "st_Review (finalize_cancelled reason now s) = st_Review s \<and>
   finalize_cancelled reason now' (finalize_cancelled reason now s) = finalize_cancelled reason now s \<and>
   (if rc_Released (review_of s) \<and> IsCancellationRelease (rc_ReleaseReason (review_of s))
    then list_all (\<lambda>r. \<not> unfinished r) (st_Runs (finalize_cancelled reason now s)) \<and>
      st_Phase (finalize_cancelled reason now s) \<noteq> AttemptPhaseReconciling \<and> st_Message (finalize_cancelled reason now s) \<noteq> []
    else finalize_cancelled reason now s = s)"
proof (cases "st_Review s")
  case None
  then show ?thesis by (simp add: finalize_cancelled_def review_of_def ReviewClaimStatus0_def)
next
  case (Some r)
  show ?thesis
  proof (cases "rc_Released r \<and> IsCancellationRelease (rc_ReleaseReason r)")
    case False
    then show ?thesis using Some by (auto simp: finalize_cancelled_def review_of_def)
  next
    case True
    define s1 where "s1 = finalize_cancelled reason now s"
    have runs: "\<not> list_ex unfinished (st_Runs s1)" "st_Phase s1 \<noteq> []" "st_Phase s1 \<noteq> AttemptPhaseReconciling"
      "st_Message s1 \<noteq> []" "st_Review s1 = Some r"
      using Some True unfolding s1_def finalize_cancelled_def finalizeRunningRuns_def
      by (simp_all add: Let_def list_ex_iff unfinished_def) auto
    then have "map (\<lambda>r. if unfinished r then r\<lparr>run_Phase := ''failed'', run_EndedAt := now'\<rparr> else r) (st_Runs s1) = st_Runs s1"
      by (auto simp: list_ex_iff intro: map_idI)
    then have "finalize_cancelled reason now' s1 = s1"
      using runs True by (simp add: finalize_cancelled_def finalizeRunningRuns_def Let_def)
    then show ?thesis using runs Some True by (simp add: s1_def list_ex_iff list_all_iff review_of_def)
  qed
qed

text \<open>
  A stale ownership edge: when a dispatched claim dies, is armed again automatically and gets a
  new dispatch intent, the name of the dead Job is still its edge, so completing the edge of the new
  Job returns without writing anything.
\<close>

theorem stale_dispatch_edge:
  assumes "rc_DispatchedJob (review_of s) \<noteq> []"
    and "at_Status at = stored (dispatch_intent t3 (stored (arm_status t2 pr headSHA label human expiry
        (stored (snd (release_dead reason captured t1 s))))))"
    and "cl_get c ns n w = (Inr at, w1)"
  shows "rc_DispatchedAt (review_of (at_Status at)) = Some t3 \<and>
    rc_DispatchedJob (review_of (at_Status at)) = rc_DispatchedJob (review_of s) \<and>
    CompleteDispatchEdge c ns n newJob w = (None, w1)"
proof -
  have "review_of (at_Status at) = (arm_review t2 pr headSHA label human expiry
      (review_of (snd (release_dead reason captured t1 s))))\<lparr>rc_DispatchedAt := Some t3, rc_DispatchLostReleases := 0\<rparr>"
    using assms(2) by (simp add: dispatch_intent_def arm_status_sel)
  then have r: "rc_DispatchedAt (review_of (at_Status at)) = Some t3"
    "rc_DispatchedJob (review_of (at_Status at)) = rc_DispatchedJob (review_of s)"
    by (simp_all add: arm_review_def release_dead_sel Let_def)
  have "st_Review (at_Status at) = Some (review_of (at_Status at))"
    using assms(2) by (intro review_of_Some) (simp add: dispatch_intent_def)
  then show ?thesis using r assms(1,3) by (simp add: CompleteDispatchEdge_def)
qed

definition stale_attempt :: Attempt where
  "stale_attempt = one_attempt\<lparr>at_Status := stored (dispatch_intent 9 (stored (arm_status 8 ''7'' ''abc'' ''l'' False False
     (stored (snd (release_dead ''job-death'' (False, 0) 7 (claim_dispatched ''old-job'' 5 AttemptStatus0)))))))\<rparr>"

theorem stale_dispatch_edge_witness:
  "CompleteDispatchEdge store_server ''ns'' ''a'' ''new-job'' \<lparr>sv_objects = [stale_attempt], sv_clock = 10, sv_version = 8\<rparr> =
     (None, \<lparr>sv_objects = [stale_attempt], sv_clock = 10, sv_version = 8\<rparr>) \<and>
   rc_DispatchedJob (review_of (at_Status stale_attempt)) = ''old-job''"
proof -
  let ?w = "\<lparr>sv_objects = [stale_attempt], sv_clock = 10, sv_version = 8\<rparr>"
  have g: "cl_get store_server ''ns'' ''a'' ?w = (Inr stale_attempt, ?w)"
    by (simp add: store_server_def store_objs_def keyed_def stale_attempt_def one_attempt_def)
  have j: "rc_DispatchedJob (review_of (claim_dispatched ''old-job'' 5 AttemptStatus0)) = ''old-job''"
    by (simp add: claim_dispatched_def)
  have "at_Status stale_attempt = stored (dispatch_intent 9 (stored (arm_status 8 ''7'' ''abc'' ''l'' False False
      (stored (snd (release_dead ''job-death'' (False, 0) 7 (claim_dispatched ''old-job'' 5 AttemptStatus0)))))))"
    by (simp add: stale_attempt_def)
  from stale_dispatch_edge [OF _ this g] j show ?thesis by simp
qed

end
