(* ===== verification/Go_Time.thy ===== *)
theory Go_Time
  imports Prelude
begin

text \<open>
  How Go prints times and durations: \<^verbatim>\<open>Time.Format(time.RFC3339)\<close> in UTC and \<^verbatim>\<open>Duration.String\<close>. An
  instant counts nanoseconds from 1 January of year 1, the zero time of Go.
\<close>

definition civil :: "int \<Rightarrow> int \<times> int \<times> int" where
  "civil days =
     (let z = days + 306; era = z div 146097; doe = z mod 146097;
          yoe = (doe - doe div 1460 + doe div 36524 - doe div 146096) div 365;
          doy = doe - (365 * yoe + yoe div 4 - yoe div 100);
          mp = (5 * doy + 2) div 153;
          d = doy - (153 * mp + 2) div 5 + 1;
          m = (if mp < 10 then mp + 3 else mp - 9)
      in (yoe + era * 400 + (if m \<le> 2 then 1 else 0), m, d))"

definition pad_int :: "nat \<Rightarrow> int \<Rightarrow> string" where
  "pad_int k n = (let t = show_int n in replicate (k - length t) (CHR ''0'') @ t)"

definition RFC3339 :: "instant \<Rightarrow> string" where
  "RFC3339 t =
     (case civil (t div (24 * hour)) of
        (y, m, d) \<Rightarrow>
          let s = t mod (24 * hour) in
          pad_int 4 y @ ''-'' @ pad_int 2 m @ ''-'' @ pad_int 2 d @ ''T'' @
          pad_int 2 (s div hour) @ '':'' @ pad_int 2 (s mod hour div minute) @ '':'' @ pad_int 2 (s mod minute div second) @ ''Z'')"

text \<open>The fraction \<open>u / 10 ^ prec\<close> without trailing zeros, with its point.\<close>

definition frac_text :: "nat \<Rightarrow> int \<Rightarrow> string" where
  "frac_text prec u =
     (let ds = rev (dropWhile (\<lambda>c. c = CHR ''0'') (rev (pad_int prec (u mod 10 ^ prec))))
      in if u mod 10 ^ prec = 0 then [] else CHR ''.'' # ds)"

definition Duration_String :: "duration \<Rightarrow> string" where
  "Duration_String d =
     (let u = \<bar>d\<bar>; neg = (if d < 0 then ''-'' else []) in
      if u = 0 then ''0s''
      else if u < 1000 then neg @ show_int u @ ''ns''
      else if u < 1000000 then neg @ show_int (u div 1000) @ frac_text 3 u @ [CHR 0xC2, CHR 0xB5, CHR ''s'']
      else if u < second then neg @ show_int (u div 1000000) @ frac_text 6 u @ ''ms''
      else
        let secs = u div second; h = secs div 3600; m = secs div 60 mod 60 in
        neg @ (if 0 < h then show_int h @ ''h'' else []) @ (if 0 < h \<or> 0 < m then show_int m @ ''m'' else []) @
        show_int (secs mod 60) @ frac_text 9 u @ ''s'')"

lemmas [go_defs] = civil_def pad_int_def RFC3339_def frac_text_def Duration_String_def

end
