(* ===== verification/Attempt_Janitor.thy ===== *)
theory Attempt_Janitor
  imports Claim_Props Go_Time
begin

text \<open>
  The janitor passes over the Attempts of a namespace (\<^verbatim>\<open>internal/attempt/lifecycle.go\<close>): garbage
  collection past the retention horizon, the reaper of stuck Attempts, and the supersession of
  earlier rounds of one objective. Each pass lists, filters, and works off the selected objects one
  by one; one bad object never blocks the rest.
\<close>

section \<open>Garbage collection\<close>

definition terminal_phase :: "string \<Rightarrow> bool" where
  "terminal_phase p \<longleftrightarrow> p = [] \<or> p = AttemptPhaseValidated \<or> p = AttemptPhaseSuperseded \<or> p = AttemptPhaseFailed"

definition unreleased_claim :: "Attempt \<Rightarrow> bool" where
  "unreleased_claim at \<longleftrightarrow> (case st_Review (at_Status at) of None \<Rightarrow> False | Some r \<Rightarrow> \<not> rc_Released r)"

text \<open>The conditions of the loop body; both cutoffs are computed from one reading of the clock.\<close>

definition gc_due :: "instant \<Rightarrow> duration \<Rightarrow> Attempt \<Rightarrow> bool" where
  "gc_due now olderThan at \<longleftrightarrow>
     (let statuslessBound = (if 24 * hour < olderThan \<or> olderThan \<le> 0 then 24 * hour else olderThan);
          statusless = (st_Phase (at_Status at) = []);
          cut = (if statusless then now - statuslessBound else now - olderThan)
      in terminal_phase (st_Phase (at_Status at)) \<and> at_CreationTimestamp at \<noteq> zero_time \<and>
         \<not> cut < at_CreationTimestamp at \<and> \<not> unreleased_claim at)"

fun gc_loop ::
  "'w Client \<Rightarrow> instant \<Rightarrow> duration \<Rightarrow> Attempt list \<Rightarrow> int \<Rightarrow> error option \<Rightarrow> 'w \<Rightarrow> (int \<times> error option) \<times> 'w" where
  "gc_loop c now olderThan [] gc firstErr w = ((gc, firstErr), w)"
| "gc_loop c now olderThan (at # rest) gc firstErr w =
     (if \<not> gc_due now olderThan at then gc_loop c now olderThan rest gc firstErr w
      else (case cl_delete c (at_Namespace at) (at_Name at) w of
              (Some e, w1) \<Rightarrow>
                if err_Kind e = NotFound then gc_loop c now olderThan rest (gc + 1) firstErr w1
                else gc_loop c now olderThan rest gc (if firstErr = None then Some e else firstErr) w1
            | (None, w1) \<Rightarrow> gc_loop c now olderThan rest (gc + 1) firstErr w1))"

definition GCAttempts :: "'w Client \<Rightarrow> string \<Rightarrow> duration \<Rightarrow> 'w \<Rightarrow> (int \<times> error option) \<times> 'w" where
  "GCAttempts c namespace olderThan w =
     (case cl_list c namespace [] [] w of
        (Inl e, w1) \<Rightarrow> ((0, Some (wrap_error ''list attempts: '' e)), w1)
      | (Inr items, w1) \<Rightarrow> gc_loop c (cl_now c w1) olderThan items 0 None w1)"

section \<open>The reaper\<close>

definition reap_due :: "instant \<Rightarrow> duration \<Rightarrow> Attempt \<Rightarrow> bool" where
  "reap_due now olderThan at \<longleftrightarrow>
     st_Phase (at_Status at) = AttemptPhaseReconciling \<and> at_CreationTimestamp at \<noteq> zero_time \<and>
     \<not> now - olderThan < at_CreationTimestamp at"

definition reap_status :: "Attempt \<Rightarrow> AttemptStatus \<Rightarrow> AttemptStatus" where
  "reap_status at s = s\<lparr>st_Phase := AttemptPhaseFailed,
     st_Message := ''reaped: stuck reconciling since '' @ RFC3339 (at_CreationTimestamp at) @
       '' (no terminal state; suspected worker loss)''\<rparr>"

text \<open>The release before the phase is best effort: its error is dropped.\<close>

definition release_reaped :: "'w Client \<Rightarrow> string \<Rightarrow> Attempt \<Rightarrow> 'w \<Rightarrow> 'w" where
  "release_reaped c namespace at w =
     (if unreleased_claim at then snd (ReleaseClaim c namespace (at_Name at) ReleaseReasonReaped w) else w)"

fun reap_loop :: "'w Client \<Rightarrow> string \<Rightarrow> instant \<Rightarrow> duration \<Rightarrow> Attempt list \<Rightarrow> int \<Rightarrow> 'w \<Rightarrow> int \<times> 'w" where
  "reap_loop c namespace now olderThan [] reaped w = (reaped, w)"
| "reap_loop c namespace now olderThan (at # rest) reaped w =
     (if \<not> reap_due now olderThan at then reap_loop c namespace now olderThan rest reaped w
      else (case patchAttemptStatus c namespace (at_Name at) (\<lambda>t. reap_status at) (release_reaped c namespace at w) of
              (Some e, w1) \<Rightarrow> reap_loop c namespace now olderThan rest reaped w1
            | (None, w1) \<Rightarrow> reap_loop c namespace now olderThan rest (reaped + 1) w1))"

definition ReapStuckAttempts :: "'w Client \<Rightarrow> string \<Rightarrow> duration \<Rightarrow> 'w \<Rightarrow> (int \<times> error option) \<times> 'w" where
  "ReapStuckAttempts c namespace olderThan w =
     (case cl_list c namespace [] [] w of
        (Inl e, w1) \<Rightarrow> ((0, Some (wrap_error ''list attempts: '' e)), w1)
      | (Inr items, w1) \<Rightarrow>
          (case reap_loop c namespace (cl_now c w1) olderThan items 0 w1 of (n, w2) \<Rightarrow> ((n, None), w2)))"

section \<open>Supersession of earlier rounds\<close>

definition objective_of :: "Attempt \<Rightarrow> ObjectiveSpec" where
  "objective_of at = aspec_Objective (at_Spec at)"

definition supersedes :: "Attempt \<Rightarrow> Attempt \<Rightarrow> bool" where
  "supersedes current prior \<longleftrightarrow>
     at_Name prior \<noteq> at_Name current \<and>
     obj_Kind (objective_of prior) = obj_Kind (objective_of current) \<and>
     obj_PrimarySubject (objective_of prior) = obj_PrimarySubject (objective_of current) \<and>
     (let ts = obj_TargetedState (objective_of prior)
      in ts \<noteq> [] \<and> ts \<noteq> ''head'' \<and> ts \<noteq> obj_TargetedState (objective_of current)) \<and>
     st_Phase (at_Status prior) = AttemptPhaseReconciling \<and> \<not> unreleased_claim prior"

definition supersede_status :: "Attempt \<Rightarrow> AttemptStatus \<Rightarrow> AttemptStatus" where
  "supersede_status current s = s\<lparr>st_Phase := AttemptPhaseSuperseded,
     st_Message := ''superseded by '' @ at_Name current @ '' (targeted state moved to '' @
       obj_TargetedState (objective_of current) @ '')''\<rparr>"

fun supersede_loop :: "'w Client \<Rightarrow> string \<Rightarrow> Attempt \<Rightarrow> Attempt list \<Rightarrow> int \<Rightarrow> 'w \<Rightarrow> int \<times> 'w" where
  "supersede_loop c namespace current [] superseded w = (superseded, w)"
| "supersede_loop c namespace current (prior # rest) superseded w =
     (if \<not> supersedes current prior then supersede_loop c namespace current rest superseded w
      else (case patchAttemptStatus c namespace (at_Name prior) (\<lambda>t. supersede_status current) w of
              (Some e, w1) \<Rightarrow> supersede_loop c namespace current rest superseded w1
            | (None, w1) \<Rightarrow> supersede_loop c namespace current rest (superseded + 1) w1))"

definition SupersedePriorAttempts ::
  "'w Client \<Rightarrow> string \<Rightarrow> string \<Rightarrow> Attempt option \<Rightarrow> 'w \<Rightarrow> (int \<times> error option) \<times> 'w" where
  "SupersedePriorAttempts c namespace workflowName current w =
     (case current of
        None \<Rightarrow> ((0, None), w)
      | Some cur \<Rightarrow>
          if obj_TargetedState (objective_of cur) = [] \<or> obj_TargetedState (objective_of cur) = ''head'' then ((0, None), w)
          else (case cl_list c namespace [(''harmostes.dev/workflow'', workflowName)] [] w of
                  (Inl e, w1) \<Rightarrow> ((0, Some (wrap_error ''list attempts: '' e)), w1)
                | (Inr items, w1) \<Rightarrow>
                    (case supersede_loop c namespace cur items 0 w1 of (n, w2) \<Rightarrow> ((n, None), w2))))"

lemmas [model_defs] = terminal_phase_def unreleased_claim_def gc_due_def
  GCAttempts_def reap_due_def reap_status_def release_reaped_def ReapStuckAttempts_def objective_of_def
  supersedes_def supersede_status_def SupersedePriorAttempts_def

section \<open>The passes on a store\<close>

declare split_paired_All [simp del] split_paired_Ex [simp del]

lemma gc_due_facts:
  "gc_due now olderThan a \<Longrightarrow> st_Phase (at_Status a) \<noteq> AttemptPhaseReconciling \<and> at_CreationTimestamp a \<noteq> zero_time \<and>
     \<not> unreleased_claim a \<and>
     at_CreationTimestamp a \<le> now - (if st_Phase (at_Status a) = [] \<and> (24 * hour < olderThan \<or> olderThan \<le> 0)
        then 24 * hour else olderThan)"
  by (auto simp: gc_due_def terminal_phase_def Let_def split: if_splits)

context api_store
begin

lemma gc_loop_store:
  assumes "gc_loop c now olderThan xs gc firstErr w = ((n, e), w')"
    and "set xs \<subseteq> set ys" and "\<forall>a \<in> set ys. objs w0 (at_Namespace a, at_Name a) = Some a"
    and "\<forall>k. objs w k = objs w0 k \<or> objs w k = None \<and> (\<exists>a \<in> set ys. objs w0 k = Some a \<and> gc_due now olderThan a)"
  shows "(\<forall>k. objs w' k = objs w0 k \<or> objs w' k = None \<and> (\<exists>a \<in> set ys. objs w0 k = Some a \<and> gc_due now olderThan a)) \<and>
    (\<forall>k. objs w k = None \<longrightarrow> objs w' k = None) \<and>
    (e = None \<longrightarrow> firstErr = None \<and>
      (\<forall>a \<in> set xs. gc_due now olderThan a \<longrightarrow> objs w' (at_Namespace a, at_Name a) = None))"
  using assms
proof (induction xs arbitrary: gc firstErr w)
  case (Cons at rest)
  let ?k = "(at_Namespace at, at_Name at)"
  show ?case
  proof (cases "gc_due now olderThan at")
    case False
    then show ?thesis using Cons.IH [of gc firstErr w] Cons.prems by auto
  next
    case True
    obtain d w1 where d: "cl_delete c (at_Namespace at) (at_Name at) w = (d, w1)" by fastforce
    have gone: "if d = None \<or> (\<exists>x. d = Some x \<and> err_Kind x = NotFound)
        then objs w1 = (objs w)(?k := None) else objs w1 = objs w"
      using d delete_ok delete_err [of "at_Namespace at" "at_Name at" w _ w1] by (cases d) (auto simp: fun_upd_idem_iff)
    have old: "objs w0 ?k = Some at" using Cons.prems(2,3) by simp
    obtain gc' fe where rest: "gc_loop c now olderThan rest gc' fe w1 = ((n, e), w')"
      and fe: "if d = None \<or> (\<exists>x. d = Some x \<and> err_Kind x = NotFound) then fe = firstErr else fe \<noteq> None"
      using Cons.prems(1) True d by (auto split: option.splits if_splits)
    have inv: "\<forall>k. objs w1 k = objs w0 k \<or> objs w1 k = None \<and> (\<exists>a \<in> set ys. objs w0 k = Some a \<and> gc_due now olderThan a)"
      using gone Cons.prems(2,4) old True by (auto split: if_splits)
    note IH = Cons.IH [OF rest _ Cons.prems(3) inv]
    show ?thesis using IH Cons.prems(2) gone fe by (auto split: if_splits)
  qed
qed simp

lemma gc_store:
  assumes "GCAttempts c ns olderThan w = ((n, e), w')"
  shows "\<exists>now. (\<forall>k. objs w' k = objs w k \<or> objs w' k = None \<and>
      (\<exists>a. objs w k = Some a \<and> gc_due now olderThan a \<and> fst k = ns)) \<and>
    (e = None \<longrightarrow> (\<forall>m a. objs w (ns, m) = Some a \<and> gc_due now olderThan a \<longrightarrow> objs w' (ns, m) = None))"
proof -
  obtain l w1 where l: "cl_list c ns [] [] w = (l, w1)" by fastforce
  show ?thesis
  proof (cases l)
    case (Inl x)
    then show ?thesis using assms l list_err by (auto simp: GCAttempts_def)
  next
    case (Inr xs)
    have xs: "objs w1 = objs w" "set xs = {a. \<exists>m. objs w (ns, m) = Some a}"
      using l Inr list_ok [of ns "[]" "[]" w xs w1] by (auto simp: selected_def)
    have key: "\<forall>a \<in> set xs. objs w1 (at_Namespace a, at_Name a) = Some a" using xs stored_key by fastforce
    have loop: "gc_loop c (cl_now c w1) olderThan xs 0 None w1 = ((n, e), w')" using assms l Inr by (simp add: GCAttempts_def)
    note L = gc_loop_store [OF loop subset_refl key]
    have ns: "at_Namespace a = ns \<and> objs w (ns, at_Name a) = Some a" if "a \<in> set xs" for a
      using that xs stored_key by fastforce
    have "\<forall>k. objs w' k = objs w k \<or> objs w' k = None \<and>
        (\<exists>a. objs w k = Some a \<and> gc_due (cl_now c w1) olderThan a \<and> fst k = ns)"
    proof
      fix k
      consider "objs w' k = objs w k" | a where "a \<in> set xs" "objs w' k = None" "objs w k = Some a" "gc_due (cl_now c w1) olderThan a"
        using L xs by (metis (mono_tags, lifting))
      then show "objs w' k = objs w k \<or> objs w' k = None \<and>
          (\<exists>a. objs w k = Some a \<and> gc_due (cl_now c w1) olderThan a \<and> fst k = ns)"
      proof cases
        case 2
        then have "fst k = ns" using ns stored_key [of w "fst k" "snd k" a] by auto
        then show ?thesis using 2 by blast
      qed blast
    qed
    moreover have "objs w' (ns, m) = None" if "e = None" "objs w (ns, m) = Some a" "gc_due (cl_now c w1) olderThan a" for m a
    proof -
      have "a \<in> set xs" using that xs by blast
      then show ?thesis using L that stored_key [OF that(2)] by auto
    qed
    ultimately show ?thesis by blast
  qed
qed

end


text \<open>A store whose status writes always land, whatever happens to the label writes.\<close>

definition status_writes_land :: "'w Client \<Rightarrow> ('w \<Rightarrow> object_key \<Rightarrow> Attempt option) \<Rightarrow> bool" where
  "status_writes_land c objs \<longleftrightarrow>
     (\<forall>w ns n a. objs w (ns, n) = Some a \<longrightarrow> (\<exists>w1. cl_get c ns n w = (Inr a, w1))) \<and>
     (\<forall>w a new. objs w (at_Namespace new, at_Name new) = Some a \<longrightarrow> (\<exists>w1. cl_patchStatus c a new w = (None, w1)))"

definition failed_at :: "Attempt option \<Rightarrow> bool" where
  "failed_at ob \<longleftrightarrow> (\<exists>a. ob = Some a \<and> st_Phase (at_Status a) = AttemptPhaseFailed)"

context api_store
begin

lemma patch_lands:
  assumes "status_writes_land c objs" and "objs w (ns, n) = Some a"
  shows "\<exists>w'. patchAttemptStatus c ns n m w = (None, w')"
proof -
  obtain w1 where g: "cl_get c ns n w = (Inr a, w1)" using assms unfolding status_writes_land_def by blast
  then have o: "objs w1 (ns, n) = Some a" "at_Namespace a = ns" "at_Name a = n"
    using get_ok [OF g] stored_key assms(2) by auto
  obtain w2 where "cl_patchStatus c a (a\<lparr>at_Status := stored (m (cl_now c w1) (at_Status a))\<rparr>) w1 = (None, w2)"
    using assms(1) o unfolding status_writes_land_def by fastforce
  then show ?thesis using g
    by (simp add: patchAttemptStatus_def patchAttemptStatus_with_def RetryOnConflict.simps patch_once_def)
qed

text \<open>Releasing a claim as reaped keeps the phase, so it never undoes the reaper's phase leg.\<close>

lemma release_reaped_store:
  assumes "objs w (ns, n) = Some a"
  shows "(\<forall>k. k \<noteq> (ns, at_Name x) \<longrightarrow> objs (release_reaped c ns x w) k = objs w k) \<and>
    (\<exists>a'. objs (release_reaped c ns x w) (ns, n) = Some a' \<and> st_Phase (at_Status a') = st_Phase (at_Status a))"
proof (cases "unreleased_claim x")
  case False
  then show ?thesis using assms by (simp add: release_reaped_def)
next
  case True
  obtain p w1 where p: "patchAttemptStatus c ns (at_Name x) (release_status ReleaseReasonReaped) w = (p, w1)" by fastforce
  have w': "\<exists>r. ReleaseClaim c ns (at_Name x) ReleaseReasonReaped w = (r, release_reaped c ns x w)"
    using True by (simp add: release_reaped_def prod_eq_iff)
  have w1: "(\<forall>k. k \<noteq> (ns, at_Name x) \<longrightarrow> objs w1 k = objs w k) \<and>
      (\<exists>a'. objs w1 (ns, n) = Some a' \<and> st_Phase (at_Status a') = st_Phase (at_Status a))"
    using patch_simple_store [OF p] assms by (cases p) (auto simp: release_status_sel split: if_splits)
  show ?thesis
  proof (cases p)
    case (Some e)
    then have "release_reaped c ns x w = w1" using w' p by (auto simp: ReleaseClaim_def)
    then show ?thesis using w1 by simp
  next
    case None
    then obtain r where "markClaimReleased c ns (at_Name x) w1 = (r, release_reaped c ns x w)"
      using w' p by (auto simp: ReleaseClaim_def)
    then have "objs (release_reaped c ns x w) = objs w1 \<or> (\<exists>b ls v. objs w1 (ns, at_Name x) = Some b \<and>
        objs (release_reaped c ns x w) = (objs w1)((ns, at_Name x) \<mapsto> b\<lparr>at_Labels := ls, at_ResourceVersion := v\<rparr>))"
      using mark_store [of ns "at_Name x" w1 r "release_reaped c ns x w"] by auto
    then show ?thesis using w1 by (auto split: if_splits)
  qed
qed

lemma reap_loop_store:
  assumes "status_writes_land c objs" and "reap_loop c ns now olderThan xs reaped w = (n, w')"
    and "\<forall>x \<in> set xs. objs w (ns, at_Name x) \<noteq> None"
  shows "(\<forall>k. (\<forall>x \<in> set xs. reap_due now olderThan x \<longrightarrow> k \<noteq> (ns, at_Name x)) \<longrightarrow> objs w' k = objs w k) \<and>
    (\<forall>k. failed_at (objs w k) \<longrightarrow> failed_at (objs w' k)) \<and>
    (\<forall>x \<in> set xs. reap_due now olderThan x \<longrightarrow> failed_at (objs w' (ns, at_Name x)))"
  using assms(2,3)
proof (induction xs arbitrary: reaped w)
  case (Cons x rest)
  show ?case
  proof (cases "reap_due now olderThan x")
    case False
    then show ?thesis using Cons.IH [of reaped w] Cons.prems by auto
  next
    case True
    let ?w1 = "release_reaped c ns x w"
    obtain a where a: "objs w (ns, at_Name x) = Some a" using Cons.prems(2) by auto
    note R = release_reaped_store [of w ns _ _ x]
    obtain a1 where a1: "objs ?w1 (ns, at_Name x) = Some a1" using R [OF a] by blast
    then obtain w2 where p: "patchAttemptStatus c ns (at_Name x) (\<lambda>t. reap_status x) ?w1 = (None, w2)"
      using patch_lands [OF assms(1)] by blast
    then have loop: "reap_loop c ns now olderThan rest (reaped + 1) w2 = (n, w')" using Cons.prems(1) True by simp
    obtain b v where b: "objs ?w1 (ns, at_Name x) = Some b" "objs w2 = (objs ?w1)((ns, at_Name x) \<mapsto>
        b\<lparr>at_Status := stored (reap_status x (at_Status b)), at_ResourceVersion := v\<rparr>)"
      using patch_simple_store [OF p] by auto
    have fx: "failed_at (objs w2 (ns, at_Name x))" using b by (simp add: failed_at_def reap_status_def)
    have frame: "\<forall>k. k \<noteq> (ns, at_Name x) \<longrightarrow> objs w2 k = objs w k" using b R [OF a] by auto
    have keep: "failed_at (objs w2 k)" if "failed_at (objs w k)" for k
      using that fx frame by (cases "k = (ns, at_Name x)") auto
    have ex: "\<forall>y \<in> set rest. objs w2 (ns, at_Name y) \<noteq> None"
      using Cons.prems(2) frame b(2) by (auto simp: fun_upd_def)
    note IH = Cons.IH [OF loop ex]
    show ?thesis
    proof (intro conjI allI impI ballI)
      fix k
      assume "\<forall>y \<in> set (x # rest). reap_due now olderThan y \<longrightarrow> k \<noteq> (ns, at_Name y)"
      then show "objs w' k = objs w k" using IH frame True by (metis list.set_intros)
    next
      fix k
      assume "failed_at (objs w k)"
      then show "failed_at (objs w' k)" using keep IH by blast
    next
      fix y
      assume "y \<in> set (x # rest)" "reap_due now olderThan y"
      then show "failed_at (objs w' (ns, at_Name y))" using fx IH by auto
    qed
  qed
qed simp

lemma reap_store:
  assumes "status_writes_land c objs" and "ReapStuckAttempts c ns olderThan w = ((n, None), w')"
  shows "\<exists>now. \<forall>k a. objs w k = Some a \<longrightarrow>
    (if fst k = ns \<and> reap_due now olderThan a then failed_at (objs w' k) else objs w' k = Some a)"
proof -
  obtain l w1 where l: "cl_list c ns [] [] w = (l, w1)" by fastforce
  then obtain xs where xs: "l = Inr xs" using assms(2) by (cases l) (auto simp: ReapStuckAttempts_def)
  have o: "objs w1 = objs w" "set xs = {a. \<exists>m. objs w (ns, m) = Some a}"
    using l xs list_ok [of ns "[]" "[]" w xs w1] by (auto simp: selected_def)
  have key: "objs w (ns, at_Name x) = Some x" if "x \<in> set xs" for x using that o stored_key by fastforce
  have loop: "reap_loop c ns (cl_now c w1) olderThan xs 0 w1 = (n, w')"
    using assms(2) l xs by (auto simp: ReapStuckAttempts_def split: prod.splits)
  note L = reap_loop_store [OF assms(1) loop]
  have "if fst k = ns \<and> reap_due (cl_now c w1) olderThan a then failed_at (objs w' k) else objs w' k = Some a"
    if k: "objs w k = Some a" for k a
  proof (cases "fst k = ns \<and> reap_due (cl_now c w1) olderThan a")
    case True
    then have ka: "k = (ns, at_Name a)" using k stored_key [of w "fst k" "snd k" a] by (auto simp: prod_eq_iff)
    then have "a \<in> set xs" using k o by auto
    then show ?thesis using L True ka key o by auto
  next
    case False
    have "\<forall>x \<in> set xs. reap_due (cl_now c w1) olderThan x \<longrightarrow> k \<noteq> (ns, at_Name x)"
      using False k key by fastforce
    then show ?thesis using L False key o k by auto
  qed
  then show ?thesis by blast
qed

end


definition old_attempt :: Attempt where
  "old_attempt = one_attempt\<lparr>at_Status := AttemptStatus0\<lparr>st_Phase := AttemptPhaseReconciling,
     st_Review := Some (ReviewClaimStatus0\<lparr>rc_PR := ''7''\<rparr>)\<rparr>\<rparr>"

definition janitor_store :: store where
  "janitor_store = \<lparr>sv_objects = [old_attempt, one_attempt\<lparr>at_Name := ''b''\<rparr>], sv_clock = 48 * hour, sv_version = 9\<rparr>"

lemma janitor_store_old: "store_objs janitor_store (''ns'', ''a'') = Some old_attempt"
  by (simp add: store_objs_def janitor_store_def keyed_def old_attempt_def one_attempt_def)


lemma server_status_lands: "status_writes_land store_server store_objs"
  by (auto simp: status_writes_land_def store_server_def locked_put_def)


end
