(* ===== verification/Review_Gate.thy ===== *)
theory Review_Gate
  imports Review_Ready Go_Time
begin

text \<open>
  The Review-Ready Gate (\<^verbatim>\<open>internal/review/review.go\<close>, ADR-0006): host resolution, the normalisation
  and merge of commit statuses and check runs, the walk over the conversation, the verdict trailer,
  and \<^verbatim>\<open>Evaluate\<close>, the decision. The HTTP transport with its JSON decoding is a parameter: the record
  \<open>transport\<close> of decoded replies, one operation per reply type. \<^verbatim>\<open>Evaluate\<close> takes the record \<open>API\<close>; one
  evaluation makes each call at most once, so an operation is a function of its arguments.
\<close>

section \<open>Vocabulary\<close>

datatype Decision = DecisionProceed | DecisionWaiting | DecisionStanddown

datatype ReleaseCode = CodeNone | CodePRClosed | CodeConsumed | CodeHorizon | CodeHeadMoved
  | CodeDispatchDead | CodeStanddown | CodeVerdictStanding

record Envelope =
  evl_Repo :: string
  evl_PR :: int
  evl_HeadSHA :: string
  evl_Base :: string
  evl_Label :: string
  evl_RequiredContexts :: "string list"
  evl_GreenContexts :: "string list"
  evl_VerdictURL :: string
  evl_VerdictDecision :: string

record Evaluation =
  eva_Decision :: Decision
  eva_Reason :: string
  eva_Code :: ReleaseCode
  eva_Envelope :: "Envelope option"

datatype HoldCause = HoldCauseNone | HoldCauseCIPending | HoldCauseCIRed | HoldCauseLabelAbsent
  | HoldCauseAPIError | HoldCauseVerdictCheck | HoldCauseDispatched

definition HoldCauseOf :: "string \<Rightarrow> HoldCause" where
  "HoldCauseOf reason =
     (if Contains reason ''ci pending at head'' then HoldCauseCIPending
      else if Contains reason ''ci red at head'' then HoldCauseCIRed
      else if Contains reason ''the review label is absent'' then HoldCauseLabelAbsent
      else if Contains reason ''verdict check failed'' then HoldCauseVerdictCheck
      else if Contains reason ''pr fetch failed'' then HoldCauseAPIError
      else if Contains reason ''review in flight'' then HoldCauseDispatched
      else HoldCauseNone)"

record PullRequest =
  pull_Number :: int
  pull_State :: string
  pull_HeadSHA :: string
  pull_Base :: string
  pull_Labels :: "string list"

fun label_in :: "string \<Rightarrow> string list \<Rightarrow> bool" where
  "label_in label [] = False"
| "label_in label (l # ls) = (if l = label then True else label_in label ls)"

definition HasLabel :: "PullRequest \<Rightarrow> string \<Rightarrow> bool" where
  "HasLabel pr label = label_in label (pull_Labels pr)"

record IssueComment =
  ic_ID :: int
  ic_Body :: string
  ic_HTMLURL :: string

record ReviewThread =
  rt_ID :: int
  rt_Body :: string
  rt_Path :: string
  rt_Resolved :: bool
  rt_IsReply :: bool

section \<open>Hosts\<close>

datatype HostKind = HostGitHub | HostForgejo

record Host =
  host_Kind :: HostKind
  host_APIBase :: string
  host_RepoPath :: string

definition ResolveHost :: "string \<Rightarrow> string + Host" where
  "ResolveHost repo =
     (case split_on (CHR ''/'') (TrimSpace repo) of
        [h, owner, name] \<Rightarrow>
          if h = ''github.com''
          then Inr \<lparr>host_Kind = HostGitHub, host_APIBase = ''https://api.github.com'', host_RepoPath = owner @ ''/'' @ name\<rparr>
          else Inr \<lparr>host_Kind = HostForgejo, host_APIBase = ''https://'' @ h @ ''/api/v1'', host_RepoPath = owner @ ''/'' @ name\<rparr>
      | [owner, name] \<Rightarrow>
          Inr \<lparr>host_Kind = HostGitHub, host_APIBase = ''https://api.github.com'', host_RepoPath = owner @ ''/'' @ name\<rparr>
      | _ \<Rightarrow> Inl (''review: bad repo path '' @ quoted repo @ '' (want host/owner/name or owner/name)''))"

definition TokenEnvNames :: "Host \<Rightarrow> string list" where
  "TokenEnvNames h =
     (case host_Kind h of
        HostGitHub \<Rightarrow> [''HARMOSTES_GIT_TOKEN'', ''HARMOSTES_GITHUB_TOKEN'']
      | HostForgejo \<Rightarrow>
          if Contains (host_APIBase h) ''codeberg.org'' then [''HARMOSTES_CODEBERG_TOKEN'', ''LLM_WIKI_CODEBERG_TOKEN'']
          else if Contains (host_APIBase h) ''git.rezus.cloud'' then [''HARMOSTES_FORGEJO_TOKEN'', ''HARMOSTES_RZC_PASSWORD'']
          else [''HARMOSTES_FORGEJO_TOKEN'', ''HARMOSTES_GIT_TOKEN''])"

section \<open>Commit statuses and check runs\<close>

definition normalizeStatusState :: "string \<Rightarrow> string" where
  "normalizeStatusState s =
     (if s = ''success'' then ''success'' else if s = ''skipped'' then ''success''
      else if s = ''pending'' then ''pending'' else ''failure'')"

definition normalizeCheckRun :: "string \<Rightarrow> string \<Rightarrow> string" where
  "normalizeCheckRun status conclusion =
     (if status \<in> set [''queued'', ''in_progress'', ''waiting'', ''pending'', ''running'', ''blocked''] then ''pending''
      else if conclusion \<in> set [''success'', ''skipped'', ''neutral''] then ''success''
      else if conclusion \<in> set [''failure'', ''cancelled'', ''timed_out'', ''action_required''] then ''failure''
      else ''pending'')"

record raw_status =
  rs_Context :: string
  rs_State :: string
  rs_StatusF :: string
  rs_CreatedAt :: string

record check_run =
  cr_Name :: string
  cr_Status :: string
  cr_Conclusion :: string

datatype http_error = NotFoundReply | HttpStatus int string | OtherFault string

definition http_text :: "http_error \<Rightarrow> string" where
  "http_text e =
     (case e of NotFoundReply \<Rightarrow> ''review: not found''
      | HttpStatus code body \<Rightarrow> ''review: HTTP '' @ show_int code @ '': '' @ body
      | OtherFault t \<Rightarrow> t)"

definition isForbidden :: "http_error \<Rightarrow> bool" where
  "isForbidden e \<longleftrightarrow> (case e of HttpStatus code body \<Rightarrow> code = 403 | _ \<Rightarrow> False)"

text \<open>The decoded replies of \<^verbatim>\<open>a.get\<close> (and of the two page queries), by path.\<close>

record transport =
  tp_pull :: "Host \<Rightarrow> string \<Rightarrow> http_error + PullRequest"
  tp_comments :: "Host \<Rightarrow> string \<Rightarrow> http_error + IssueComment list"
  tp_contexts :: "Host \<Rightarrow> string \<Rightarrow> http_error + string list"
  tp_combined :: "Host \<Rightarrow> string \<Rightarrow> http_error + raw_status list"
  tp_statuses :: "Host \<Rightarrow> string \<Rightarrow> http_error + raw_status list"
  tp_checks :: "Host \<Rightarrow> string \<Rightarrow> http_error + check_run list"
  tp_pulls :: "Host \<Rightarrow> string \<Rightarrow> http_error + PullRequest list"

definition GetPullRequest :: "transport \<Rightarrow> string \<Rightarrow> int \<Rightarrow> string + PullRequest" where
  "GetPullRequest tp repo number =
     (case ResolveHost repo of
        Inl e \<Rightarrow> Inl e
      | Inr host \<Rightarrow>
          (case tp_pull tp host (''/repos/'' @ host_RepoPath host @ ''/pulls/'' @ show_int number) of
             Inl e \<Rightarrow> Inl (http_text e)
           | Inr raw \<Rightarrow> Inr (raw\<lparr>pull_Number := 0\<rparr>)))"

abbreviation (input) maxCommentPages :: nat where "maxCommentPages \<equiv> 10"

text \<open>
  The page walk: pages from \<open>page\<close> on until a short page or the cap; the flag says that the cap cut it
  off.
\<close>

function comment_pages ::
  "(nat \<Rightarrow> http_error + IssueComment list) \<Rightarrow> nat \<Rightarrow> IssueComment list \<Rightarrow> string + (IssueComment list \<times> bool)" where
  "comment_pages fetch page out =
     (if maxCommentPages < page then Inr (out, True)
      else (case fetch page of
              Inl e \<Rightarrow> Inl (http_text e)
            | Inr batch \<Rightarrow>
                if length batch < 100 then Inr (out @ batch, False)
                else comment_pages fetch (page + 1) (out @ batch)))"
  by pat_completeness auto
termination by (relation "measure (\<lambda>(f, page, out). 11 - page)") auto

declare comment_pages.simps [simp del]

definition comments_base :: "Host \<Rightarrow> int \<Rightarrow> string" where
  "comments_base host number =
     ''/repos/'' @ host_RepoPath host @ ''/issues/'' @ show_int number @ ''/comments?'' @
     (if host_Kind host = HostGitHub then ''per_page=100'' else ''limit=100'')"

definition ListComments :: "transport \<Rightarrow> string \<Rightarrow> int \<Rightarrow> instant \<Rightarrow> string + IssueComment list" where
  "ListComments tp repo number since =
     (case ResolveHost repo of
        Inl e \<Rightarrow> Inl e
      | Inr host \<Rightarrow>
          let base = comments_base host number @ (if since = zero_time then [] else ''&since='' @ RFC3339 since) in
          map_sum id fst (comment_pages (\<lambda>page. tp_comments tp host (base @ ''&page='' @ show_nat page)) 1 []))"

definition ListCommentsAll :: "transport \<Rightarrow> string \<Rightarrow> int \<Rightarrow> string + (IssueComment list \<times> bool)" where
  "ListCommentsAll tp repo number =
     (case ResolveHost repo of
        Inl e \<Rightarrow> Inl e
      | Inr host \<Rightarrow>
          comment_pages (\<lambda>page. tp_comments tp host (comments_base host number @ ''&page='' @ show_nat page)) 1 [])"

definition RequiredContexts :: "transport \<Rightarrow> string \<Rightarrow> string \<Rightarrow> string + string list" where
  "RequiredContexts tp repo branch =
     (case ResolveHost repo of
        Inl e \<Rightarrow> Inl e
      | Inr host \<Rightarrow>
          let path = (if host_Kind host = HostGitHub
                      then ''/repos/'' @ host_RepoPath host @ ''/branches/'' @ branch @ ''/protection''
                      else ''/repos/'' @ host_RepoPath host @ ''/branch_protections/'' @ branch)
          in (case tp_contexts tp host path of
                Inr cs \<Rightarrow> Inr cs
              | Inl e \<Rightarrow> if e = NotFoundReply \<or> isForbidden e then Inr [] else Inl (http_text e)))"

text \<open>A surface that is not found has no rows; the first other fault is remembered.\<close>

definition surface :: "http_error option \<Rightarrow> http_error + 'a list \<Rightarrow> http_error option \<times> 'a list" where
  "surface firstErr reply =
     (case reply of
        Inr rows \<Rightarrow> (firstErr, rows)
      | Inl e \<Rightarrow> (if e \<noteq> NotFoundReply \<and> firstErr = None then Some e else firstErr, []))"

definition put_first :: "string \<Rightarrow> string \<Rightarrow> (string, string) gomap \<Rightarrow> (string, string) gomap" where
  "put_first k v states = (if map_of states k = None then map_set k v states else states)"

definition status_value :: "raw_status \<Rightarrow> string" where
  "status_value s = normalizeStatusState (if rs_State s = [] then rs_StatusF s else rs_State s)"

definition add_checks :: "check_run list \<Rightarrow> (string, string) gomap \<Rightarrow> (string, string) gomap" where
  "add_checks = fold (\<lambda>c. put_first (cr_Name c) (normalizeCheckRun (cr_Status c) (cr_Conclusion c)))"

text \<open>\<^verbatim>\<open>precedence[x]\<close>: a state that is not in the map reads as \<open>0\<close>.\<close>

definition precedence :: "string \<Rightarrow> int" where
  "precedence s = map_get [(''success'', 0), (''pending'', 1)] s 0"

definition raw_step ::
  "string list \<Rightarrow> raw_status \<Rightarrow> (string, string) gomap \<times> (string, string) gomap \<Rightarrow>
     (string, string) gomap \<times> (string, string) gomap" where
  "raw_step covered s st =
     (case st of (states, curAt) \<Rightarrow>
        if rs_Context s \<in> set covered then (states, curAt)
        else
          let nv = status_value s; at = map_get curAt (rs_Context s) [] in
          (case map_of states (rs_Context s) of
             None \<Rightarrow> (map_set (rs_Context s) nv states, map_set (rs_Context s) (rs_CreatedAt s) curAt)
           | Some cur \<Rightarrow>
               (if rs_CreatedAt s = at \<and> precedence nv < precedence cur \<or> rs_CreatedAt s > at
                then map_set (rs_Context s) nv states else states,
                map_set (rs_Context s) (rs_CreatedAt s) curAt)))"

definition github_states ::
  "raw_status list \<Rightarrow> check_run list \<Rightarrow> (string, string) gomap" where
  "github_states combined checks =
     add_checks checks (fold (\<lambda>s. put_first (rs_Context s) (normalizeStatusState (rs_State s))) combined [])"

definition forgejo_states ::
  "raw_status list \<Rightarrow> raw_status list \<Rightarrow> check_run list \<Rightarrow> (string, string) gomap" where
  "forgejo_states combined statuses checks =
     (let seeded = fold (\<lambda>s. put_first (rs_Context s) (status_value s)) combined [] in
      add_checks checks (fst (fold (raw_step (map rs_Context combined)) statuses (seeded, []))))"

definition ContextStates :: "transport \<Rightarrow> string \<Rightarrow> string \<Rightarrow> string + (string, string) gomap" where
  "ContextStates tp repo sha =
     (case ResolveHost repo of
        Inl e \<Rightarrow> Inl e
      | Inr host \<Rightarrow>
          let commit = ''/repos/'' @ host_RepoPath host @ ''/commits/'' @ sha in
          (case surface None (tp_combined tp host (commit @ ''/status'')) of (e1, combined) \<Rightarrow>
           (case (if host_Kind host = HostGitHub then (e1, [])
                  else surface e1 (tp_statuses tp host (commit @ ''/statuses''))) of (e2, statuses) \<Rightarrow>
            (case surface e2 (tp_checks tp host (commit @ ''/check-runs'')) of (e3, checks) \<Rightarrow>
              (case e3 of
                 Some e \<Rightarrow> Inl (http_text e)
               | None \<Rightarrow> Inr (if host_Kind host = HostGitHub then github_states combined checks
                              else forgejo_states combined statuses checks))))))"

definition ListLabeledOpenPulls :: "transport \<Rightarrow> string \<Rightarrow> string \<Rightarrow> string + PullRequest list" where
  "ListLabeledOpenPulls tp repo label =
     (case ResolveHost repo of
        Inl e \<Rightarrow> Inl e
      | Inr host \<Rightarrow>
          let q = (if host_Kind host = HostGitHub then ''state=open&sort=created&direction=asc&per_page=50''
                   else ''state=open&sort=oldest&limit=50'')
          in (case tp_pulls tp host (''/repos/'' @ host_RepoPath host @ ''/pulls?'' @ q) of
                Inl e \<Rightarrow> Inl (http_text e)
              | Inr raw \<Rightarrow> Inr (map (\<lambda>p. \<lparr>pull_Number = pull_Number p, pull_State = [], pull_HeadSHA = [],
                                        pull_Base = [], pull_Labels = []\<rparr>)
                             (filter (\<lambda>p. label_in label (pull_Labels p)) raw))))"

text \<open>The four buckets \<open>(red, running, missing, green)\<close>, in the order of the required list.\<close>

fun classifyRequiredContexts ::
  "string list \<Rightarrow> (string, string) gomap \<Rightarrow> string list \<times> string list \<times> string list \<times> string list" where
  "classifyRequiredContexts [] states = ([], [], [], [])"
| "classifyRequiredContexts (c # cs) states =
     (case classifyRequiredContexts cs states of
        (red, running, missing, green) \<Rightarrow>
          let v = map_get states c [] in
          if v = ''success'' then (red, running, missing, c # green)
          else if v = ''failure'' then (c # red, running, missing, green)
          else if v = ''pending'' then (red, c # running, missing, green)
          else if v = ''skipped'' then (red, running, missing, c # green)
          else (red, running, c # missing, green))"

definition ciWaitingHead :: "string \<Rightarrow> string" where
  "ciWaitingHead head = (if 7 < length head then take 7 head else head)"

section \<open>Verdict trailers\<close>

definition is_hex :: "char \<Rightarrow> bool" where
  "is_hex c \<longleftrightarrow> (CHR ''0'' \<le> c \<and> c \<le> CHR ''9'') \<or> (CHR ''a'' \<le> c \<and> c \<le> CHR ''f'')"

text \<open>
  The regular expression \<^verbatim>\<open>verdictTrailer\<close> at the head of a text. The hexadecimal run is followed by a
  blank, so its greedy match is the whole run.
\<close>

definition trailer_tail :: "string \<Rightarrow> string \<Rightarrow> (string \<times> string) option" where
  "trailer_tail decision s =
     (if HasPrefix s (decision @ '' @ '')
      then let r = drop (length decision + 3) s; sha = takeWhile is_hex r in
           if 7 \<le> length sha \<and> length sha \<le> 40 \<and> HasPrefix (dropWhile is_hex r) '' -->''
           then Some (decision, sha) else None
      else None)"

definition trailer_at :: "string \<Rightarrow> (string \<times> string) option" where
  "trailer_at s =
     (if HasPrefix s ''<!-- pr-review: ''
      then let r = drop (length ''<!-- pr-review: '') s in
           (case trailer_tail ''APPROVE'' r of
              Some m \<Rightarrow> Some m
            | None \<Rightarrow> (case trailer_tail ''REQUEST_CHANGES'' r of
                         Some m \<Rightarrow> Some m
                       | None \<Rightarrow> trailer_tail ''COMMENT'' r))
      else None)"

fun verdictTrailer :: "string \<Rightarrow> (string \<times> string) option" where
  "verdictTrailer [] = trailer_at []"
| "verdictTrailer (c # cs) = (case trailer_at (c # cs) of Some m \<Rightarrow> Some m | None \<Rightarrow> verdictTrailer cs)"

definition ShaPrefixMatch :: "string \<Rightarrow> string \<Rightarrow> bool" where
  "ShaPrefixMatch head recorded = HasPrefix (ToLower head) (ToLower recorded)"

fun standingVerdictAt :: "IssueComment list \<Rightarrow> string \<Rightarrow> (string \<times> IssueComment) option" where
  "standingVerdictAt [] headSHA = None"
| "standingVerdictAt (c # cs) headSHA =
     (case verdictTrailer (ic_Body c) of
        None \<Rightarrow> standingVerdictAt cs headSHA
      | Some (decision, sha) \<Rightarrow>
          if ShaPrefixMatch headSHA sha then Some (decision, c) else standingVerdictAt cs headSHA)"

definition hasVerdict :: "IssueComment list \<Rightarrow> bool" where
  "hasVerdict comments = list_ex (\<lambda>c. verdictTrailer (ic_Body c) \<noteq> None) comments"

section \<open>The decision\<close>

record API =
  api_GetPullRequest :: "string \<Rightarrow> int \<Rightarrow> string + PullRequest"
  api_RequiredContexts :: "string \<Rightarrow> string \<Rightarrow> string + string list"
  api_ContextStates :: "string \<Rightarrow> string \<Rightarrow> string + (string, string) gomap"
  api_ListComments :: "string \<Rightarrow> int \<Rightarrow> instant \<Rightarrow> string + IssueComment list"
  api_ListCommentsAll :: "string \<Rightarrow> int \<Rightarrow> string + (IssueComment list \<times> bool)"

definition RESTAPI :: "transport \<Rightarrow> API" where
  "RESTAPI tp = \<lparr>api_GetPullRequest = GetPullRequest tp, api_RequiredContexts = RequiredContexts tp,
     api_ContextStates = ContextStates tp, api_ListComments = ListComments tp, api_ListCommentsAll = ListCommentsAll tp\<rparr>"

text \<open>\<open>prm_clock\<close> is the wall clock, read when \<^verbatim>\<open>Params.Now\<close> is zero.\<close>

record Params =
  prm_Repo :: string
  prm_PR :: int
  prm_Label :: string
  prm_Horizon :: duration
  prm_Now :: instant
  prm_ArmedAt :: instant
  prm_ArmedSha :: string
  prm_WakeSHA :: string
  prm_DispatchedAt :: instant
  prm_DispatchTimeout :: duration
  prm_DisarmHint :: bool
  prm_clock :: instant

record Result =
  res_Evaluation :: Evaluation
  res_NewArmedSha :: string
  res_NewArmedAt :: instant
  res_LabelPresent :: bool

definition waiting :: "string \<Rightarrow> Evaluation" where
  "waiting reason = \<lparr>eva_Decision = DecisionWaiting, eva_Reason = reason, eva_Code = CodeNone, eva_Envelope = None\<rparr>"

definition standdown :: "ReleaseCode \<Rightarrow> string \<Rightarrow> Evaluation" where
  "standdown code reason = \<lparr>eva_Decision = DecisionStanddown, eva_Reason = reason, eva_Code = code, eva_Envelope = None\<rparr>"

abbreviation (input) verdictSinceSlack :: duration where "verdictSinceSlack \<equiv> 5 * minute"

definition armTime :: "instant \<Rightarrow> instant \<Rightarrow> instant" where
  "armTime prev now = (if prev \<noteq> zero_time then prev else now)"

definition nowFrom :: "Params \<Rightarrow> instant" where
  "nowFrom p = (if prm_Now p \<noteq> zero_time then prm_Now p else prm_clock p)"

definition stateWord :: "string \<Rightarrow> string" where
  "stateWord s = (if s = ''closed'' then ''closed'' else s)"

definition pending_parts :: "string list \<Rightarrow> string list \<Rightarrow> string" where
  "pending_parts running missing =
     Join ((if running = [] then [] else [''running: '' @ Join running '', '']) @
           (if missing = [] then [] else [''no records at head: '' @ Join missing '', ''])) ''; ''"

definition labelAbsentHoldNote :: "API \<Rightarrow> Params \<Rightarrow> PullRequest \<Rightarrow> string" where
  "labelAbsentHoldNote api p pr =
     (case api_RequiredContexts api (prm_Repo p) (pull_Base pr) of
        Inl e \<Rightarrow> ''ingress may be lost''
      | Inr required \<Rightarrow>
          if required = [] then ''ingress may be lost''
          else
            (case api_ContextStates api (prm_Repo p) (pull_HeadSHA pr) of
               Inl e \<Rightarrow> ''ingress may be lost''
             | Inr states \<Rightarrow>
                 (case classifyRequiredContexts required states of
                    (red, running, missing, green) \<Rightarrow>
                      let head = ciWaitingHead (pull_HeadSHA pr) in
                      if red \<noteq> []
                      then ''ci red at head '' @ head @ '' ('' @ Join red '', '' @ '') '' @ em_dash @ '' dispatch on green''
                      else if running \<noteq> [] \<or> missing \<noteq> []
                      then ''ci pending at head '' @ head @ '' ('' @ pending_parts running missing @ '') '' @ em_dash @
                           '' dispatch on green''
                      else ''ci green at head '' @ head @ '' '' @ em_dash @
                           '' the review label is absent, so nothing can dispatch; re-apply it to request the review'')))"

definition proceed :: "Params \<Rightarrow> PullRequest \<Rightarrow> string list \<Rightarrow> string list \<Rightarrow> Result" where
  "proceed p pr required green =
     \<lparr>res_Evaluation = \<lparr>eva_Decision = DecisionProceed,
        eva_Reason = ''label present, all required contexts green at head'', eva_Code = CodeNone,
        eva_Envelope = Some \<lparr>evl_Repo = prm_Repo p, evl_PR = prm_PR p, evl_HeadSHA = pull_HeadSHA pr,
          evl_Base = pull_Base pr, evl_Label = prm_Label p, evl_RequiredContexts = required,
          evl_GreenContexts = green, evl_VerdictURL = [], evl_VerdictDecision = []\<rparr>\<rparr>,
      res_NewArmedSha = pull_HeadSHA pr, res_NewArmedAt = armTime (prm_ArmedAt p) (nowFrom p),
      res_LabelPresent = HasLabel pr (prm_Label p)\<rparr>"

definition result :: "Evaluation \<Rightarrow> string \<Rightarrow> instant \<Rightarrow> bool \<Rightarrow> Result" where
  "result ev armedSha armedAt present =
     \<lparr>res_Evaluation = ev, res_NewArmedSha = armedSha, res_NewArmedAt = armedAt, res_LabelPresent = present\<rparr>"

text \<open>The head has moved away from the head the gate armed at.\<close>

definition head_moved :: "Params \<Rightarrow> PullRequest \<Rightarrow> bool" where
  "head_moved p pr \<longleftrightarrow> prm_ArmedSha p \<noteq> [] \<and> prm_ArmedSha p \<noteq> pull_HeadSHA pr"

text \<open>The branch for an open pull request without the label.\<close>

definition eval_label_absent :: "API \<Rightarrow> Params \<Rightarrow> PullRequest \<Rightarrow> instant \<Rightarrow> Result" where
  "eval_label_absent api p pr now =
     (case api_ListComments api (prm_Repo p) (prm_PR p) (armTime (prm_ArmedAt p) now - verdictSinceSlack) of
        Inl e \<Rightarrow>
          result (waiting (''label absent; verdict check failed: '' @ e))
            (if prm_ArmedSha p = [] then pull_HeadSHA pr else prm_ArmedSha p) (armTime (prm_ArmedAt p) now) False
      | Inr comments \<Rightarrow>
          if hasVerdict comments
          then result (standdown CodeConsumed (''label absent (verdict posted '' @ em_dash @ '' consumed)'')) [] zero_time False
          else
            let armedAt = (if head_moved p pr then now else armTime (prm_ArmedAt p) now) in
            if prm_Horizon p < now - armedAt
            then result (standdown CodeHorizon (''horizon exceeded (label absent, no verdict; pending > '' @
                   Duration_String (prm_Horizon p) @ '')'')) [] zero_time False
            else result (waiting (''label absent, no verdict '' @ em_dash @ '' '' @ labelAbsentHoldNote api p pr @
                   '', staying armed'')) (pull_HeadSHA pr) armedAt (HasLabel pr (prm_Label p)))"

text \<open>The branch for a review that is already dispatched.\<close>

definition eval_dispatched :: "API \<Rightarrow> Params \<Rightarrow> PullRequest \<Rightarrow> instant \<Rightarrow> instant \<Rightarrow> Result" where
  "eval_dispatched api p pr now armedAt =
     (let present = HasLabel pr (prm_Label p) in
      case api_ListComments api (prm_Repo p) (prm_PR p) (armTime (prm_ArmedAt p) now - verdictSinceSlack) of
        Inl e \<Rightarrow> result (waiting (''in-flight verdict check failed: '' @ e)) (pull_HeadSHA pr) armedAt present
      | Inr comments \<Rightarrow>
          if hasVerdict comments
          then result (standdown CodeConsumed (''verdict posted '' @ em_dash @ '' consumed'')) [] zero_time present
          else if head_moved p pr
          then result (standdown CodeHeadMoved (''head moved while review in flight (dispatched at '' @ prm_ArmedSha p @
                 '', PR now at '' @ pull_HeadSHA pr @ '') '' @ em_dash @ '' verdict could not land'')) [] zero_time False
          else if 0 < prm_DispatchTimeout p \<and> prm_DispatchTimeout p \<le> now - prm_DispatchedAt p
          then result (standdown CodeDispatchDead (''dispatch presumed dead (no verdict after '' @
                 Duration_String (prm_DispatchTimeout p) @ ''; run bound '' @ Duration_String OneShotRunBound @ '') '' @
                 em_dash @ '' backlog will re-arm'')) [] zero_time present
          else result (waiting (''review in flight '' @ em_dash @ '' dispatched, verdict pending'')) (pull_HeadSHA pr) armedAt present)"

text \<open>The effective required set when the merge rules declare none: every observed context but the gate's own.\<close>

definition observed_required :: "(string, string) gomap \<Rightarrow> string list" where
  "observed_required states = sort (filter (\<lambda>c. \<not> HasPrefix c ''pr-review/'') (map_keys states))"

definition eval_ci :: "API \<Rightarrow> Params \<Rightarrow> PullRequest \<Rightarrow> instant \<Rightarrow> Result" where
  "eval_ci api p pr armedAt =
     (let present = HasLabel pr (prm_Label p); head = pull_HeadSHA pr in
      case api_RequiredContexts api (prm_Repo p) (pull_Base pr) of
        Inl e \<Rightarrow> result (waiting (''merge-rules fetch failed: '' @ e)) head armedAt present
      | Inr declared \<Rightarrow>
          (case api_ContextStates api (prm_Repo p) head of
             Inl e \<Rightarrow> result (waiting (''contexts fetch failed: '' @ e)) head armedAt present
           | Inr states \<Rightarrow>
               let required = (if declared = [] then observed_required states else declared) in
               if required = [] then proceed p pr [] []
               else
                 (case classifyRequiredContexts required states of
                    (red, running, missing, green) \<Rightarrow>
                      if red \<noteq> []
                      then result (waiting (''ci red at head '' @ ciWaitingHead head @ '' ('' @ Join red '', '' @ '') '' @
                             em_dash @ '' staying armed'')) head armedAt present
                      else if running \<noteq> [] \<or> missing \<noteq> []
                      then result (waiting (''ci pending at head '' @ ciWaitingHead head @ '' ('' @
                             pending_parts running missing @ '')'')) head armedAt present
                      else proceed p pr required green)))"

text \<open>The branch for a labelled pull request without a dispatch: the standing verdict, then the checks.\<close>

definition eval_verdict :: "API \<Rightarrow> Params \<Rightarrow> PullRequest \<Rightarrow> instant \<Rightarrow> Result" where
  "eval_verdict api p pr armedAt =
     (let present = HasLabel pr (prm_Label p); head = pull_HeadSHA pr in
      case api_ListCommentsAll api (prm_Repo p) (prm_PR p) of
        Inl e \<Rightarrow> result (waiting (''verdict-standing check failed: '' @ e)) head armedAt present
      | Inr (comments, truncated) \<Rightarrow>
          if truncated
          then result (waiting (''verdict-standing scan inconclusive (conversation exceeds the scan cap) '' @ em_dash @
                 '' staying armed'')) head armedAt present
          else
            (case standingVerdictAt comments head of
               Some (verdict, src) \<Rightarrow>
                 result ((standdown CodeVerdictStanding (''verdict already stands at head '' @ head @ '' ('' @ verdict @ '') '' @
                     em_dash @ '' the gate reviews each head exactly once: push a fix commit (new head), reply on the '' @
                     ''finding threads (fj review reply <pr> <comment-id>), resolve them (fj review resolve), then re-arm''))
                   \<lparr>eva_Envelope := Some \<lparr>evl_Repo = prm_Repo p, evl_PR = prm_PR p, evl_HeadSHA = head, evl_Base = [],
                      evl_Label = prm_Label p, evl_RequiredContexts = [], evl_GreenContexts = [],
                      evl_VerdictURL = ic_HTMLURL src, evl_VerdictDecision = verdict\<rparr>\<rparr>) head armedAt present
             | None \<Rightarrow> eval_ci api p pr armedAt))"

definition Evaluate :: "API \<Rightarrow> Params \<Rightarrow> Result" where
  "Evaluate api p =
     (let now = nowFrom p in
      if prm_DisarmHint p then result (standdown CodePRClosed ''pull request closed'') [] zero_time False
      else
        (case api_GetPullRequest api (prm_Repo p) (prm_PR p) of
           Inl e \<Rightarrow>
             result (waiting (''pr fetch failed: '' @ e))
               (if prm_ArmedSha p = [] then prm_WakeSHA p else prm_ArmedSha p) (armTime (prm_ArmedAt p) now) False
         | Inr pr \<Rightarrow>
             let present = HasLabel pr (prm_Label p) in
             if pull_State pr \<noteq> ''open''
             then result (standdown (if pull_State pr = ''closed'' then CodePRClosed else CodeStanddown)
                    (''pull request '' @ stateWord (pull_State pr))) [] zero_time present
             else if prm_DispatchedAt p = zero_time \<and> head_moved p pr
             then result (standdown CodeHeadMoved (''head moved since arming (armed at '' @ prm_ArmedSha p @ '', PR now at '' @
                    pull_HeadSHA pr @ '') '' @ em_dash @ '' queued claim released for re-arm at the new head'')) [] zero_time present
             else if \<not> present then eval_label_absent api p pr now
             else
               let armedAt = (if head_moved p pr then now else armTime (prm_ArmedAt p) now) in
               if prm_Horizon p < now - armedAt
               then result (standdown CodeHorizon (''horizon exceeded (CI pending > '' @ Duration_String (prm_Horizon p) @ '')''))
                      [] zero_time present
               else if prm_DispatchedAt p \<noteq> zero_time then eval_dispatched api p pr now armedAt
               else eval_verdict api p pr armedAt))"

lemmas [model_defs] = HoldCauseOf_def HasLabel_def ResolveHost_def TokenEnvNames_def normalizeStatusState_def
  normalizeCheckRun_def http_text_def isForbidden_def GetPullRequest_def comments_base_def ListComments_def
  ListCommentsAll_def RequiredContexts_def surface_def put_first_def status_value_def add_checks_def
  precedence_def raw_step_def github_states_def forgejo_states_def ContextStates_def ListLabeledOpenPulls_def
  ciWaitingHead_def is_hex_def trailer_tail_def trailer_at_def ShaPrefixMatch_def
  hasVerdict_def RESTAPI_def waiting_def standdown_def armTime_def nowFrom_def stateWord_def pending_parts_def
  labelAbsentHoldNote_def proceed_def result_def head_moved_def eval_label_absent_def eval_dispatched_def
  observed_required_def eval_ci_def eval_verdict_def Evaluate_def

end
