(* ===== verification/Review_Gate_Props.thy ===== *)
theory Review_Gate_Props
  imports Review_Gate
begin

text \<open>
  Properties of the Review-Ready Gate's decision (\<^verbatim>\<open>internal/review/review.go\<close>): exactly when an evaluation
  proceeds and releases, that a head with a standing verdict is not reviewed again, the verdict
  trailer's round trip, and how the raw statuses fold into one state per context.
\<close>

lemma label_in_iff [simp]: "label_in l ls \<longleftrightarrow> l \<in> set ls"
  by (induction ls) auto

lemma HasLabel_iff: "HasLabel pr l \<longleftrightarrow> l \<in> set (pull_Labels pr)"
  by (simp add: HasLabel_def)


lemma result_sel [simp]:
  "res_Evaluation (result ev s t b) = ev" "res_NewArmedSha (result ev s t b) = s"
  "res_NewArmedAt (result ev s t b) = t" "res_LabelPresent (result ev s t b) = b"
  by (simp_all add: result_def)

lemma evaluation_sel [simp]:
  "eva_Decision (waiting t) = DecisionWaiting" "eva_Code (waiting t) = CodeNone" "eva_Envelope (waiting t) = None"
  "eva_Decision (standdown c t) = DecisionStanddown" "eva_Code (standdown c t) = c" "eva_Envelope (standdown c t) = None"
  by (simp_all add: waiting_def standdown_def)

lemma proceed_sel [simp]:
  "eva_Decision (res_Evaluation (proceed p pr req green)) = DecisionProceed"
  "eva_Code (res_Evaluation (proceed p pr req green)) = CodeNone"
  "res_NewArmedSha (proceed p pr req green) = pull_HeadSHA pr"
  by (simp_all add: proceed_def)

definition green_state :: "(string, string) gomap \<Rightarrow> string \<Rightarrow> bool" where
  "green_state states c \<longleftrightarrow> map_get states c [] = ''success'' \<or> map_get states c [] = ''skipped''"

text \<open>All buckets but green are empty exactly when every required context is green.\<close>

lemma classify_all_green:
  "classifyRequiredContexts req st = (red, running, missing, green) \<Longrightarrow>
     ((red = [] \<and> running = [] \<and> missing = []) \<longleftrightarrow> list_all (green_state st) req) \<and>
     (list_all (green_state st) req \<longrightarrow> green = req)"
  by (induction req arbitrary: red running missing green)
     (auto simp: green_state_def Let_def split: prod.splits if_splits)

definition ci_green :: "API \<Rightarrow> Params \<Rightarrow> PullRequest \<Rightarrow> bool" where
  "ci_green api p pr \<longleftrightarrow>
     (\<exists>declared states. api_RequiredContexts api (prm_Repo p) (pull_Base pr) = Inr declared \<and>
        api_ContextStates api (prm_Repo p) (pull_HeadSHA pr) = Inr states \<and>
        list_all (green_state states) (if declared = [] then observed_required states else declared))"

lemma eval_ci_decision:
  "eva_Decision (res_Evaluation (eval_ci api p pr t)) = (if ci_green api p pr then DecisionProceed else DecisionWaiting)"
proof (cases "api_RequiredContexts api (prm_Repo p) (pull_Base pr)"; cases "api_ContextStates api (prm_Repo p) (pull_HeadSHA pr)")
  fix declared states
  assume r: "api_RequiredContexts api (prm_Repo p) (pull_Base pr) = Inr declared"
    "api_ContextStates api (prm_Repo p) (pull_HeadSHA pr) = Inr states"
  let ?req = "if declared = [] then observed_required states else declared"
  obtain red running missing green where c: "classifyRequiredContexts ?req states = (red, running, missing, green)"
    by (metis prod.exhaust)
  show ?thesis
    using r c classify_all_green [OF c] by (auto simp: eval_ci_def ci_green_def Let_def)
qed (simp_all add: eval_ci_def ci_green_def Let_def)

lemma eval_ci_sel [simp]: "eva_Code (res_Evaluation (eval_ci api p pr t)) = CodeNone"
  "res_NewArmedSha (eval_ci api p pr t) = pull_HeadSHA pr"
  by (auto simp: eval_ci_def Let_def split: sum.splits prod.splits)

lemmas eval_defs = Evaluate_def eval_label_absent_def eval_dispatched_def eval_verdict_def

definition no_standing_verdict :: "API \<Rightarrow> Params \<Rightarrow> PullRequest \<Rightarrow> bool" where
  "no_standing_verdict api p pr \<longleftrightarrow>
     (\<exists>comments. api_ListCommentsAll api (prm_Repo p) (prm_PR p) = Inr (comments, False) \<and>
        standingVerdictAt comments (pull_HeadSHA pr) = None)"

lemma eval_verdict_proceed:
  "eva_Decision (res_Evaluation (eval_verdict api p pr t)) = DecisionProceed \<longleftrightarrow>
     no_standing_verdict api p pr \<and> ci_green api p pr"
  by (auto simp: eval_verdict_def no_standing_verdict_def eval_ci_decision Let_def split: sum.splits option.splits prod.splits)

lemma eval_other_proceed [simp]:
  "eva_Decision (res_Evaluation (eval_label_absent api p pr now)) \<noteq> DecisionProceed"
  "eva_Decision (res_Evaluation (eval_dispatched api p pr now t)) \<noteq> DecisionProceed"
  by (simp_all add: eval_label_absent_def eval_dispatched_def Let_def split: sum.splits)

lemma evaluate_proceed_iff:
  "eva_Decision (res_Evaluation (Evaluate api p)) = DecisionProceed \<longleftrightarrow>
     \<not> prm_DisarmHint p \<and>
     (\<exists>pr. api_GetPullRequest api (prm_Repo p) (prm_PR p) = Inr pr \<and> pull_State pr = ''open'' \<and>
        prm_Label p \<in> set (pull_Labels pr) \<and> (prm_ArmedSha p = [] \<or> prm_ArmedSha p = pull_HeadSHA pr) \<and>
        prm_DispatchedAt p = zero_time \<and> nowFrom p - armTime (prm_ArmedAt p) (nowFrom p) \<le> prm_Horizon p \<and>
        no_standing_verdict api p pr \<and> ci_green api p pr)"
  by (cases "api_GetPullRequest api (prm_Repo p) (prm_PR p)")
     (auto simp: Evaluate_def Let_def eval_verdict_proceed HasLabel_iff head_moved_def)

text \<open>
  C22. When the gate proceeds: an evaluation proceeds exactly when the wake is no disarm, the pull
  request can be read, is open and carries the label, the head is the one the gate armed at (or it
  is not armed yet), nothing is dispatched, the horizon has not passed, the whole conversation could
  be scanned and holds no verdict at this head, and every required context is green, where a
  repository without merge rules requires every context observed at the head. So a dispatched head
  is never dispatched again and a reviewed head never reviewed again.
\<close>

theorem evaluate_proceed_exact:
  "eva_Decision (res_Evaluation (Evaluate api p)) = DecisionProceed \<longleftrightarrow>
     \<not> prm_DisarmHint p \<and>
     (\<exists>pr. api_GetPullRequest api (prm_Repo p) (prm_PR p) = Inr pr \<and> pull_State pr = ''open'' \<and>
        prm_Label p \<in> set (pull_Labels pr) \<and> (prm_ArmedSha p = [] \<or> prm_ArmedSha p = pull_HeadSHA pr) \<and>
        prm_DispatchedAt p = zero_time \<and> nowFrom p - armTime (prm_ArmedAt p) (nowFrom p) \<le> prm_Horizon p \<and>
        no_standing_verdict api p pr \<and> ci_green api p pr)"
  by (rule evaluate_proceed_iff)

definition verdict_window_empty :: "API \<Rightarrow> Params \<Rightarrow> bool" where
  "verdict_window_empty api p \<longleftrightarrow>
     (\<exists>cs. api_ListComments api (prm_Repo p) (prm_PR p) (armTime (prm_ArmedAt p) (nowFrom p) - verdictSinceSlack) = Inr cs \<and>
        \<not> hasVerdict cs)"

lemma eval_label_absent_code:
  "eva_Code (res_Evaluation (eval_label_absent api p pr now)) \<in> {CodeNone, CodeConsumed, CodeHorizon}"
  by (simp add: eval_label_absent_def Let_def split: sum.splits)

lemma eval_verdict_code:
  "eva_Code (res_Evaluation (eval_verdict api p pr t)) \<in> {CodeNone, CodeVerdictStanding}"
  by (auto simp: eval_verdict_def Let_def split: sum.splits option.splits prod.splits)

lemma eval_dispatched_code:
  "eva_Code (res_Evaluation (eval_dispatched api p pr (nowFrom p) t)) = CodeHeadMoved \<longleftrightarrow>
     verdict_window_empty api p \<and> head_moved p pr"
  "eva_Code (res_Evaluation (eval_dispatched api p pr (nowFrom p) t)) = CodeDispatchDead \<longleftrightarrow>
     verdict_window_empty api p \<and> \<not> head_moved p pr \<and> 0 < prm_DispatchTimeout p \<and>
     prm_DispatchTimeout p \<le> nowFrom p - prm_DispatchedAt p"
  "eva_Code (res_Evaluation (eval_dispatched api p pr (nowFrom p) t)) \<noteq> CodePRClosed"
  by (auto simp: eval_dispatched_def verdict_window_empty_def Let_def split: sum.splits)

lemma eval_code_decision:
  "eva_Code (res_Evaluation (eval_label_absent api p pr now)) = CodeNone \<longleftrightarrow>
     eva_Decision (res_Evaluation (eval_label_absent api p pr now)) \<noteq> DecisionStanddown"
  "eva_Code (res_Evaluation (eval_dispatched api p pr now t)) = CodeNone \<longleftrightarrow>
     eva_Decision (res_Evaluation (eval_dispatched api p pr now t)) \<noteq> DecisionStanddown"
  "eva_Code (res_Evaluation (eval_verdict api p pr t)) = CodeNone \<longleftrightarrow>
     eva_Decision (res_Evaluation (eval_verdict api p pr t)) \<noteq> DecisionStanddown"
    apply (simp add: eval_label_absent_def Let_def split: sum.splits)
   apply (simp add: eval_dispatched_def Let_def split: sum.splits)
  apply (auto simp: eval_verdict_def eval_ci_decision Let_def split: sum.splits option.splits prod.splits)
  done

lemma eval_codes [simp]:
  "eva_Code (res_Evaluation (eval_label_absent api p pr now)) \<noteq> CodePRClosed"
  "eva_Code (res_Evaluation (eval_label_absent api p pr now)) \<noteq> CodeHeadMoved"
  "eva_Code (res_Evaluation (eval_label_absent api p pr now)) \<noteq> CodeDispatchDead"
  "eva_Code (res_Evaluation (eval_verdict api p pr t)) \<noteq> CodePRClosed"
  "eva_Code (res_Evaluation (eval_verdict api p pr t)) \<noteq> CodeHeadMoved"
  "eva_Code (res_Evaluation (eval_verdict api p pr t)) \<noteq> CodeDispatchDead"
  using eval_label_absent_code [of api p pr now] eval_verdict_code [of api p pr t] by auto

definition pull_is :: "API \<Rightarrow> Params \<Rightarrow> (PullRequest \<Rightarrow> bool) \<Rightarrow> bool" where
  "pull_is api p P \<longleftrightarrow> \<not> prm_DisarmHint p \<and> (\<exists>pr. api_GetPullRequest api (prm_Repo p) (prm_PR p) = Inr pr \<and> P pr)"

lemma evaluate_release_iff:
  "(eva_Code (res_Evaluation (Evaluate api p)) = CodeNone \<longleftrightarrow> eva_Decision (res_Evaluation (Evaluate api p)) \<noteq> DecisionStanddown) \<and>
   (eva_Code (res_Evaluation (Evaluate api p)) = CodePRClosed \<longleftrightarrow>
      prm_DisarmHint p \<or> pull_is api p (\<lambda>pr. pull_State pr = ''closed'')) \<and>
   (eva_Code (res_Evaluation (Evaluate api p)) = CodeHeadMoved \<longleftrightarrow>
      pull_is api p (\<lambda>pr. pull_State pr = ''open'' \<and> head_moved p pr \<and>
        (prm_DispatchedAt p = zero_time \<or>
         prm_Label p \<in> set (pull_Labels pr) \<and> 0 \<le> prm_Horizon p \<and> verdict_window_empty api p))) \<and>
   (eva_Code (res_Evaluation (Evaluate api p)) = CodeDispatchDead \<longleftrightarrow>
      pull_is api p (\<lambda>pr. pull_State pr = ''open'' \<and> \<not> head_moved p pr \<and> prm_Label p \<in> set (pull_Labels pr) \<and>
        prm_DispatchedAt p \<noteq> zero_time \<and> nowFrom p - armTime (prm_ArmedAt p) (nowFrom p) \<le> prm_Horizon p \<and>
        verdict_window_empty api p \<and> 0 < prm_DispatchTimeout p \<and>
        prm_DispatchTimeout p \<le> nowFrom p - prm_DispatchedAt p))"
proof (cases "api_GetPullRequest api (prm_Repo p) (prm_PR p)")
  case (Inl e)
  then show ?thesis by (simp add: Evaluate_def pull_is_def Let_def)
next
  case (Inr pr)
  then show ?thesis
    by (auto simp: Evaluate_def pull_is_def Let_def HasLabel_iff eval_code_decision eval_dispatched_code)
qed

text \<open>
  What may cancel a running review: a code is reported exactly with a stand-down. The gate stands
  down as closed exactly for a disarm or a pull request the host reports closed. It stands down as
  moved exactly when the open pull request left the armed head and the review is not dispatched yet,
  or it is, carries the label and has no verdict in its window. It gives a dispatch up as dead exactly
  when the head stands, the label is there, no verdict is in its window and the timeout has passed
  within the horizon.
\<close>

theorem evaluate_release_exact:
  "(eva_Code (res_Evaluation (Evaluate api p)) = CodeNone \<longleftrightarrow> eva_Decision (res_Evaluation (Evaluate api p)) \<noteq> DecisionStanddown) \<and>
   (eva_Code (res_Evaluation (Evaluate api p)) = CodePRClosed \<longleftrightarrow>
      prm_DisarmHint p \<or> pull_is api p (\<lambda>pr. pull_State pr = ''closed'')) \<and>
   (eva_Code (res_Evaluation (Evaluate api p)) = CodeHeadMoved \<longleftrightarrow>
      pull_is api p (\<lambda>pr. pull_State pr = ''open'' \<and> head_moved p pr \<and>
        (prm_DispatchedAt p = zero_time \<or>
         prm_Label p \<in> set (pull_Labels pr) \<and> 0 \<le> prm_Horizon p \<and> verdict_window_empty api p))) \<and>
   (eva_Code (res_Evaluation (Evaluate api p)) = CodeDispatchDead \<longleftrightarrow>
      pull_is api p (\<lambda>pr. pull_State pr = ''open'' \<and> \<not> head_moved p pr \<and> prm_Label p \<in> set (pull_Labels pr) \<and>
        prm_DispatchedAt p \<noteq> zero_time \<and> nowFrom p - armTime (prm_ArmedAt p) (nowFrom p) \<le> prm_Horizon p \<and>
        verdict_window_empty api p \<and> 0 < prm_DispatchTimeout p \<and>
        prm_DispatchTimeout p \<le> nowFrom p - prm_DispatchedAt p))"
  by (rule evaluate_release_iff)

section \<open>The conversation\<close>

text \<open>The conversation as the host serves it: the first ten pages of a hundred comments each.\<close>

definition served :: "(nat \<Rightarrow> http_error + IssueComment list) \<Rightarrow> IssueComment list \<Rightarrow> bool" where
  "served fetch thread \<longleftrightarrow> list_all (\<lambda>k. fetch (Suc k) = Inr (take 100 (drop (100 * k) thread))) [0..<10]"

lemma served_page: "served fetch thread \<Longrightarrow> k < 10 \<Longrightarrow> fetch (Suc k) = Inr (take 100 (drop (100 * k) thread))"
  by (auto simp: served_def list_all_iff)

text \<open>The walk returns the first thousand comments and says whether the cap cut it off.\<close>

lemma comment_pages_from:
  "served fetch thread \<Longrightarrow> k \<le> 10 \<Longrightarrow> 100 * k \<le> length thread \<Longrightarrow>
     comment_pages fetch (Suc k) (take (100 * k) thread) = Inr (take 1000 thread, 1000 \<le> length thread)"
proof (induction "10 - k" arbitrary: k)
  case 0
  then have "k = 10" by simp
  with 0 show ?case by (subst comment_pages.simps) simp
next
  case (Suc d)
  then have k: "k < 10" by simp
  note page = served_page [OF Suc.prems(1) k]
  have more: "take (100 * k) thread @ take 100 (drop (100 * k) thread) = take (100 * Suc k) thread"
    by (simp add: take_add [symmetric] add.commute)
  show ?case
  proof (cases "length thread < 100 * Suc k")
    case True
    then have "take (100 * Suc k) thread = thread" "take 1000 thread = thread" "length thread < 1000" using k by auto
    with True k page more show ?thesis by (subst comment_pages.simps) auto
  next
    case False
    then have "comment_pages fetch (Suc (Suc k)) (take (100 * Suc k) thread) = Inr (take 1000 thread, 1000 \<le> length thread)"
      using Suc by (intro Suc.hyps(1)) auto
    with False k page more show ?thesis by (subst comment_pages.simps) auto
  qed
qed

lemma standing_none_iff:
  "standingVerdictAt cs head = None \<longleftrightarrow>
     (\<forall>c\<in>set cs. \<forall>d sha. verdictTrailer (ic_Body c) = Some (d, sha) \<longrightarrow> \<not> ShaPrefixMatch head sha)"
  by (induction cs) (auto split: option.splits)

text \<open>
  C23. Each head is reviewed once: when the host serves the conversation page by page, as documented, and
  one of its comments carries the trailer of a verdict for the head of the pull request, however long
  the conversation is, the gate over the REST adapter does not proceed. With fewer than a thousand
  comments the scan finds the verdict; with more it is inconclusive and the gate waits.
\<close>

theorem reviewed_head_not_dispatched:
  assumes "ResolveHost (prm_Repo p) = Inr host"
    and "served (\<lambda>page. tp_comments tp host (comments_base host (prm_PR p) @ ''&page='' @ show_nat page)) thread"
    and "c \<in> set thread" "verdictTrailer (ic_Body c) = Some (d, sha)"
    and "GetPullRequest tp (prm_Repo p) (prm_PR p) = Inr pr" "ShaPrefixMatch (pull_HeadSHA pr) sha"
  shows "eva_Decision (res_Evaluation (Evaluate (RESTAPI tp) p)) \<noteq> DecisionProceed"
proof
  assume "eva_Decision (res_Evaluation (Evaluate (RESTAPI tp) p)) = DecisionProceed"
  then obtain comments where cs: "ListCommentsAll tp (prm_Repo p) (prm_PR p) = Inr (comments, False)"
    "standingVerdictAt comments (pull_HeadSHA pr) = None"
    using assms(5) by (auto simp: evaluate_proceed_iff no_standing_verdict_def RESTAPI_def)
  have "ListCommentsAll tp (prm_Repo p) (prm_PR p) = Inr (take 1000 thread, 1000 \<le> length thread)"
    using comment_pages_from [OF assms(2), of 0] assms(1) by (simp add: ListCommentsAll_def)
  with cs have "comments = thread" by auto
  with cs(2) assms(3,4,6) show False by (auto simp: standing_none_iff)
qed

text \<open>The trailer of a verdict for a head, as the reviewer posts it.\<close>

definition trailer_text :: "string \<Rightarrow> string \<Rightarrow> string" where
  "trailer_text decision sha = ''<!-- pr-review: '' @ decision @ '' @ '' @ sha @ '' -->''"

lemma hex_run: "list_all is_hex sha \<Longrightarrow> takeWhile is_hex (sha @ '' -->'' @ r) = sha"
  "list_all is_hex sha \<Longrightarrow> dropWhile is_hex (sha @ '' -->'' @ r) = '' -->'' @ r"
  by (induction sha) (simp_all add: is_hex_def less_eq_char_def)

text \<open>
  Verdict round trip: a body that opens with the trailer of a decision the reviewer can post, at an
  abbreviated or full lower-case hexadecimal commit id, reads back as that decision at that id.
\<close>

theorem verdict_trailer_roundtrip:
  assumes "decision \<in> {''APPROVE'', ''REQUEST_CHANGES'', ''COMMENT''}" "list_all is_hex sha"
    and "7 \<le> length sha" "length sha \<le> 40"
  shows "verdictTrailer (trailer_text decision sha @ rest) = Some (decision, sha)"
proof -
  have tail: "trailer_tail decision (decision @ '' @ '' @ sha @ '' -->'' @ rest) = Some (decision, sha)"
    using hex_run [OF assms(2), of rest] assms(3,4) by (simp add: trailer_tail_def HasPrefix_def)
  have other: "trailer_tail ''APPROVE'' (decision @ s) = None" "trailer_tail ''REQUEST_CHANGES'' (decision @ s) = None"
    if "decision \<noteq> ''APPROVE''" "decision = ''REQUEST_CHANGES'' \<longrightarrow> False" for s
    using assms(1) that by (auto simp: trailer_tail_def HasPrefix_def)
  have app: "trailer_tail ''APPROVE'' (''REQUEST_CHANGES'' @ s) = None" for s
    by (simp add: trailer_tail_def HasPrefix_def)
  have "trailer_at (trailer_text decision sha @ rest) = Some (decision, sha)"
    using assms(1) tail other app by (auto simp: trailer_at_def trailer_text_def HasPrefix_def)
  then show ?thesis by (simp add: trailer_text_def)
qed

text \<open>A pull request whose only comment approves its head.\<close>

definition demo_comment :: IssueComment where
  "demo_comment = \<lparr>ic_ID = 1, ic_Body = trailer_text ''APPROVE'' ''abcdef0'', ic_HTMLURL = []\<rparr>"

definition demo_params :: Params where
  "demo_params = \<lparr>prm_Repo = ''o/r'', prm_PR = 7, prm_Label = ''ready'', prm_Horizon = 1000, prm_Now = 500, prm_ArmedAt = 400,
     prm_ArmedSha = [], prm_WakeSHA = [], prm_DispatchedAt = zero_time, prm_DispatchTimeout = 100, prm_DisarmHint = False,
     prm_clock = 500\<rparr>"

definition demo_tp :: transport where
  "demo_tp = \<lparr>tp_pull = (\<lambda>h p. Inr \<lparr>pull_Number = 7, pull_State = ''open'', pull_HeadSHA = ''abcdef01'', pull_Base = ''main'',
       pull_Labels = [''ready'']\<rparr>),
     tp_comments = (\<lambda>h p. Inr (if p = ''/repos/o/r/issues/7/comments?per_page=100&page=1'' then [demo_comment] else [])),
     tp_contexts = (\<lambda>h p. Inl NotFoundReply), tp_combined = (\<lambda>h p. Inr []), tp_statuses = (\<lambda>h p. Inr []),
     tp_checks = (\<lambda>h p. Inr []), tp_pulls = (\<lambda>h p. Inr [])\<rparr>"

definition demo_host :: Host where
  "demo_host = \<lparr>host_Kind = HostGitHub, host_APIBase = ''https://api.github.com'', host_RepoPath = ''o/r''\<rparr>"

lemma reviewed_head_not_dispatched_witness:
  "eva_Decision (res_Evaluation (Evaluate (RESTAPI demo_tp) demo_params)) \<noteq> DecisionProceed"
proof (rule reviewed_head_not_dispatched)
  show "ResolveHost (prm_Repo demo_params) = Inr demo_host" by code_simp
  show "served (\<lambda>page. tp_comments demo_tp demo_host (comments_base demo_host (prm_PR demo_params) @ ''&page='' @ show_nat page))
     [demo_comment]" by code_simp
  show "demo_comment \<in> set [demo_comment]" by simp
  show "verdictTrailer (ic_Body demo_comment) = Some (''APPROVE'', ''abcdef0'')" by code_simp
  show "GetPullRequest demo_tp (prm_Repo demo_params) (prm_PR demo_params) =
     Inr \<lparr>pull_Number = 0, pull_State = ''open'', pull_HeadSHA = ''abcdef01'', pull_Base = ''main'', pull_Labels = [''ready'']\<rparr>"
    by code_simp
  show "ShaPrefixMatch (pull_HeadSHA \<lparr>pull_Number = 0, pull_State = ''open'', pull_HeadSHA = ''abcdef01'', pull_Base = ''main'',
     pull_Labels = [''ready'']\<rparr>) ''abcdef0''" by code_simp
qed

lemma verdict_trailer_roundtrip_witness:
  "verdictTrailer (trailer_text ''COMMENT'' ''0123abc'' @ ''tail'') = Some (''COMMENT'', ''0123abc'')"
  by (rule verdict_trailer_roundtrip) (simp, code_simp, simp, simp)

section \<open>The merged view of the checks\<close>

lemma fold_put_first:
  "map_of (fold (\<lambda>s. put_first (key s) (val s)) xs m) k =
     (case map_of m k of Some v \<Rightarrow> Some v | None \<Rightarrow> map_option val (List.find (\<lambda>s. key s = k) xs))"
  by (induction xs arbitrary: m) (auto simp: put_first_def update_conv' split: option.splits)

lemma raw_step_covered:
  "k \<in> set covered \<Longrightarrow> map_of (fst (raw_step covered s st)) k = map_of (fst st) k"
  by (auto simp: raw_step_def Let_def update_conv' split: prod.splits option.splits)

lemma raw_steps_covered:
  "k \<in> set covered \<Longrightarrow> map_of (fst (fold (raw_step covered) ss st)) k = map_of (fst st) k"
  by (induction ss arbitrary: st) (auto simp: raw_step_covered)

text \<open>
  The combined view decides: at a context that the combined view of a commit lists, the merged state on
  both kinds of host is the normalised state of its first entry there, whatever the status history and
  the check runs say; on GitHub every other context has the state of its first check run.
\<close>

theorem combined_view_decides:
  "map_of (github_states combined checks) k =
     (case List.find (\<lambda>s. rs_Context s = k) combined of
        Some s \<Rightarrow> Some (normalizeStatusState (rs_State s))
      | None \<Rightarrow> map_option (\<lambda>c. normalizeCheckRun (cr_Status c) (cr_Conclusion c)) (List.find (\<lambda>c. cr_Name c = k) checks)) \<and>
   (List.find (\<lambda>s. rs_Context s = k) combined = Some s \<longrightarrow>
      map_of (forgejo_states combined statuses checks) k = Some (status_value s))"
proof -
  have "k \<in> set (map rs_Context combined)" if "List.find (\<lambda>s. rs_Context s = k) combined = Some s"
    using that by (auto simp: find_Some_iff)
  then show ?thesis
    by (auto simp: github_states_def forgejo_states_def add_checks_def fold_put_first raw_steps_covered Let_def split: option.split)
qed

lemma combined_view_decides_witness:
  "map_of (forgejo_states [\<lparr>rs_Context = ''ci'', rs_State = [], rs_StatusF = ''pending'', rs_CreatedAt = []\<rparr>]
     [\<lparr>rs_Context = ''ci'', rs_State = [], rs_StatusF = ''success'', rs_CreatedAt = ''2''\<rparr>]
     [\<lparr>cr_Name = ''ci'', cr_Status = ''completed'', cr_Conclusion = ''success''\<rparr>]) ''ci'' = Some ''pending''"
  using combined_view_decides [of "[\<lparr>rs_Context = ''ci'', rs_State = [], rs_StatusF = ''pending'', rs_CreatedAt = []\<rparr>]"
     "[\<lparr>cr_Name = ''ci'', cr_Status = ''completed'', cr_Conclusion = ''success''\<rparr>]" "''ci''"
     "\<lparr>rs_Context = ''ci'', rs_State = [], rs_StatusF = ''pending'', rs_CreatedAt = []\<rparr>"
     "[\<lparr>rs_Context = ''ci'', rs_State = [], rs_StatusF = ''success'', rs_CreatedAt = ''2''\<rparr>]"]
  by (simp add: status_value_def normalizeStatusState_def)

end
