(* ===== verification/Gate_Wake.thy ===== *)
theory Gate_Wake
  imports Review_Gate_Props Attempt_Claim
begin

text \<open>
  The vocabulary of the gate sweep (\<^verbatim>\<open>internal/gate/sweep.go\<close>): wake actions
  (\<^verbatim>\<open>api/v1alpha1/actions.go\<close>), pull request pointers and the repository scope, the wake as the leading
  candidate, the classification of a stand-down as a release reason, and the refusal notice on the
  pull request. \<^verbatim>\<open>json.Unmarshal\<close> of the instance configuration is the parameter \<open>decode\<close>.
\<close>

section \<open>Wake actions\<close>

definition PullRequestWakeActions :: "string list" where
  "PullRequestWakeActions = [''labeled'', ''unlabeled'', ''synchronize'', ''opened'', ''reopened'', ''closed'',
     ''ready_for_review'', ''label_updated'', ''synchronized'', ''review_requested'', ''review_request_removed'', ''ci_completed'']"

definition deriveRequestShaped :: "string list" where
  "deriveRequestShaped = filter (\<lambda>action. action \<in> set [''labeled'', ''unlabeled'', ''label_updated'', ''review_requested'',
     ''review_request_removed'']) PullRequestWakeActions"

definition RequestShaped :: "string \<Rightarrow> bool" where
  "RequestShaped action \<longleftrightarrow> action \<in> set deriveRequestShaped"

section \<open>Pull request pointers\<close>

definition parsePRPointer :: "string \<Rightarrow> string + string \<times> int" where
  "parsePRPointer s =
     (case LastIndexByte s (CHR ''#'') of
        None \<Rightarrow> Inl ''missing #''
      | Some i \<Rightarrow>
          (case Atoi (drop (i + 1) s) of
             None \<Rightarrow> Inl ''bad PR number''
           | Some n \<Rightarrow>
               if n \<le> 0 then Inl ''bad PR number''
               else if \<not> Contains (take i s) ''/'' then Inl ''bad repo path''
               else Inr (take i s, n)))"

definition pointer_text :: "string \<Rightarrow> int \<Rightarrow> string" where
  "pointer_text repo pr = repo @ ''#'' @ show_int pr"

definition scopeRepos :: "(string \<Rightarrow> string list option) \<Rightarrow> Workflow \<Rightarrow> string list" where
  "scopeRepos decode wfl =
     (let cfg = wspec_Config (wf_Spec wfl) in
      if cfg = [] then [] else (case decode cfg of None \<Rightarrow> [] | Some repos \<Rightarrow> repos))"

definition normalizeRepoPointer :: "string list \<Rightarrow> string \<Rightarrow> string" where
  "normalizeRepoPointer scope repo =
     (if length (split_on (CHR ''/'') repo) \<noteq> 2 then repo
      else (case List.find (\<lambda>r. length (split_on (CHR ''/'') r) = 3 \<and> HasSuffix r (''/'' @ repo)) scope of
              Some r \<Rightarrow> r
            | None \<Rightarrow> ''github.com/'' @ repo))"

definition repoInScope :: "string list \<Rightarrow> string \<Rightarrow> bool" where
  "repoInScope scope repo \<longleftrightarrow>
     list_ex (\<lambda>r. r = repo \<or> length (split_on (CHR ''/'') r) = 2 \<and> repo = ''github.com/'' @ r) scope"

section \<open>The wake\<close>

record GateWake =
  gw_PR :: string
  gw_Action :: string
  gw_Revision :: string
  gw_Repo :: string

record candidate =
  cand_repo :: string
  cand_pr :: int
  cand_pointer :: string
  cand_sha :: string
  cand_request :: bool
  cand_labeled :: bool
  cand_granularLabel :: bool
  cand_humanResolved :: "bool option"
  cand_humanUnknown :: bool

definition plain_candidate :: "string \<Rightarrow> int \<Rightarrow> candidate" where
  "plain_candidate repo pr =
     \<lparr>cand_repo = repo, cand_pr = pr, cand_pointer = pointer_text repo pr, cand_sha = [], cand_request = False,
      cand_labeled = False, cand_granularLabel = False, cand_humanResolved = None, cand_humanUnknown = False\<rparr>"

definition wake :: "string list \<Rightarrow> GateWake \<Rightarrow> candidate option" where
  "wake scope g =
     (if gw_PR g = [] then None
      else (case parsePRPointer (gw_PR g) of
              Inl e \<Rightarrow> None
            | Inr (repo0, pr) \<Rightarrow>
                let repo = normalizeRepoPointer scope repo0 in
                if \<not> repoInScope scope repo then None
                else Some ((plain_candidate repo pr)
                       \<lparr>cand_sha := gw_Revision g,
                        cand_request := RequestShaped (gw_Action g) \<and> gw_Revision g \<noteq> [],
                        cand_labeled := gw_Action g = ''labeled'' \<or> gw_Action g = ''review_requested'',
                        cand_granularLabel := gw_Action g = ''label_updated'' \<or> gw_Action g = ''review_request_removed''\<rparr>)))"

definition humanApplied :: "candidate \<Rightarrow> bool \<Rightarrow> bool" where
  "humanApplied c labelPresent = (case cand_humanResolved c of Some b \<Rightarrow> b | None \<Rightarrow> labelPresent)"

definition candSha :: "candidate \<Rightarrow> string" where
  "candSha c = cand_sha c"

definition wakeRecord :: "GateWake \<Rightarrow> ReviewReadyStatus option \<Rightarrow> string" where
  "wakeRecord g liveAgg =
     (if gw_PR g \<noteq> [] then gw_PR g @ '' ('' @ gw_Action g @ '')''
      else if gw_Repo g \<noteq> []
      then gw_Repo g @ ''@'' @ (if 12 < length (gw_Revision g) then take 12 (gw_Revision g) else gw_Revision g) @
           '' ('' @ gw_Action g @ '')''
      else (case liveAgg of None \<Rightarrow> [] | Some a \<Rightarrow> rrs_LastWake a))"

section \<open>Release reasons\<close>

definition classifyReleaseProse :: "string \<Rightarrow> string" where
  "classifyReleaseProse reason =
     (if Contains reason ''consumed'' then ''consumed''
      else if Contains reason ''presumed dead'' then ReleaseReasonDispatchTimeout
      else if Contains reason ''horizon exceeded'' then ReleaseReasonHorizon
      else if Contains reason ''head moved'' then ReleaseReasonSuperseded
      else if Contains reason ''closed'' then ReleaseReasonPRClosed
      else ''standdown'')"

definition classifyRelease :: "Evaluation \<Rightarrow> string" where
  "classifyRelease ev =
     (case eva_Code ev of
        CodePRClosed \<Rightarrow> ReleaseReasonPRClosed
      | CodeConsumed \<Rightarrow> ''consumed''
      | CodeVerdictStanding \<Rightarrow> ''consumed''
      | CodeHorizon \<Rightarrow> ReleaseReasonHorizon
      | CodeHeadMoved \<Rightarrow> ReleaseReasonSuperseded
      | CodeDispatchDead \<Rightarrow> ReleaseReasonDispatchTimeout
      | CodeStanddown \<Rightarrow> ''standdown''
      | CodeNone \<Rightarrow> classifyReleaseProse (eva_Reason ev))"

definition isIntentionalStop :: "error \<Rightarrow> bool" where
  "isIntentionalStop e \<longleftrightarrow> err_Kind e = DeadDispatchBreaker \<or> err_Kind e = RecentlyDismissed \<or> err_Kind e = ChurnBudgetExhausted"

definition findClaim :: "Attempt list \<Rightarrow> string \<Rightarrow> Attempt option" where
  "findClaim claims pointer =
     List.find (\<lambda>a. case st_Review (at_Status a) of None \<Rightarrow> False
                    | Some r \<Rightarrow> rc_PR r = pointer \<and> \<not> rc_Released r) claims"

section \<open>The refusal notice\<close>

definition refusalNoticeMarkerName :: string where
  "refusalNoticeMarkerName = ''harmostes: review-gate-refusal''"

text \<open>The regular expression \<^verbatim>\<open>refusalNoticeMarker\<close> at the head of a text, and its first match.\<close>

definition marker_at :: "string \<Rightarrow> string option" where
  "marker_at s =
     (let start = ''<!-- '' @ refusalNoticeMarkerName @ '' @ '' in
      if HasPrefix s start
      then let r = drop (length start) s; sha = takeWhile is_hex r in
           if 7 \<le> length sha \<and> length sha \<le> 40 \<and> HasPrefix (dropWhile is_hex r) '' -->'' then Some sha else None
      else None)"

fun refusalNoticeMarker :: "string \<Rightarrow> string option" where
  "refusalNoticeMarker [] = marker_at []"
| "refusalNoticeMarker (c # cs) = (case marker_at (c # cs) of Some sha \<Rightarrow> Some sha | None \<Rightarrow> refusalNoticeMarker cs)"

definition refusalNoticeStanding :: "IssueComment list \<Rightarrow> string \<Rightarrow> bool" where
  "refusalNoticeStanding comments headSHA =
     list_ex (\<lambda>c. case refusalNoticeMarker (ic_Body c) of
                    Some sha \<Rightarrow> ShaPrefixMatch headSHA sha
                  | None \<Rightarrow> Contains (ToLower (ic_Body c)) ''review gate (#567): this head'' \<and>
                            Contains (ToLower (ic_Body c)) (ToLower headSHA)) comments"

definition notice_body :: "ReviewRefusal \<Rightarrow> string" where
  "notice_body ref =
     ''Review gate (#567): this head (`'' @ ref_HeadSHA ref @ ''`) was already reviewed '' @ em_dash @
     '' no new review runs at the same SHA.'' @
     (if ref_VerdictURL ref = [] then [] else '' The verdict: '' @ ref_VerdictURL ref) @ '' '' @ ref_Reason ref @
     '' <!-- '' @ refusalNoticeMarkerName @ '' @ '' @ ref_HeadSHA ref @ '' -->''"

text \<open>The pointer that \<^verbatim>\<open>ReviewRefusalFor\<close> returns points into the memo: a write through it changes that entry.\<close>

fun update_refusal :: "(ReviewRefusal \<Rightarrow> ReviewRefusal) \<Rightarrow> string \<Rightarrow> int \<Rightarrow> ReviewRefusal list \<Rightarrow> ReviewRefusal list" where
  "update_refusal f repo pr [] = []"
| "update_refusal f repo pr (x # xs) =
     (if ref_Repo x = repo \<and> ref_PR x = pr then f x # xs else x # update_refusal f repo pr xs)"

lemmas [model_defs] = PullRequestWakeActions_def deriveRequestShaped_def RequestShaped_def Atoi_def parsePRPointer_def
  pointer_text_def scopeRepos_def normalizeRepoPointer_def repoInScope_def plain_candidate_def wake_def humanApplied_def
  candSha_def wakeRecord_def classifyReleaseProse_def classifyRelease_def isIntentionalStop_def findClaim_def
  refusalNoticeMarkerName_def marker_at_def refusalNoticeStanding_def notice_body_def

end
