(* ===== verification/Gate_Sweep.thy ===== *)
theory Gate_Sweep
  imports Gate_Wake
begin

text \<open>
  The gate sweep (\<^verbatim>\<open>internal/gate/sweep.go\<close>, \<^verbatim>\<open>runGate\<close>): pass A over the claims in flight, the job-death
  pass, the never-dispatched pass, the candidates, the drain to capacity, the cancel pass and the
  aggregates. The collaborators of \<^verbatim>\<open>GateDeps\<close> are a record of operations on a world \<open>'w\<close>: the Kubernetes
  client under the deadline (\<open>gd_client\<close>) and beyond it (\<open>gd_record\<close>), the Jobs, the code host (\<open>gd_api\<close> is
  what one evaluation or one read sees of it), the Workflow status, the timeline, and \<^verbatim>\<open>ctx.Err()\<close>. The
  variables of the sweep are the record \<open>sweep\<close>. Log lines and metric counters are left out; the slices
  of eight characters in two log lines assume a commit id of at least eight characters.
\<close>

section \<open>Jobs (internal/k8s/job.go)\<close>

abbreviation (input) AttemptLabel :: string where "AttemptLabel \<equiv> ''harmostes.dev/attempt''"

record OwnerReference =
  own_Kind :: string
  own_UID :: string

record Job =
  job_Name :: string
  job_Labels :: "(string, string) gomap"
  job_DeletionTimestamp :: "instant option"
  job_CompletionTime :: "instant option"
  job_Conditions :: "(string \<times> string) list"
  job_Controller :: "OwnerReference option"

definition IsJobFailed :: "Job \<Rightarrow> bool" where
  "IsJobFailed j = list_ex (\<lambda>(t, status). t = ''Failed'' \<and> status = ''True'') (job_Conditions j)"

definition job_live :: "Job \<Rightarrow> bool" where
  "job_live j \<longleftrightarrow> job_DeletionTimestamp j = None \<and> job_CompletionTime j = None \<and> \<not> IsJobFailed j"

definition ListActiveJobs :: "error + Job list \<Rightarrow> error + Job list" where
  "ListActiveJobs listed = map_sum id (filter job_live) listed"

definition job_attempt :: "Job \<Rightarrow> string" where
  "job_attempt j = map_get (job_Labels j) AttemptLabel []"

section \<open>The collaborators and the variables of a sweep\<close>

datatype field = FText string | FInt int | FBool bool

record 'w GateDeps =
  gd_client :: "'w Client"
  gd_record :: "'w Client"
  gd_urlPath :: "string \<Rightarrow> string option"
  gd_Scheme :: bool
  gd_decode :: "string \<Rightarrow> string list option"
  gd_FleetMaxConcurrent :: int
  gd_DisableCancelOnSupersede :: bool
  gd_Wake :: GateWake
  gd_done :: "'w \<Rightarrow> string option"
  gd_getStatus :: "string \<Rightarrow> 'w \<Rightarrow> (error + ReviewReadyStatus option) \<times> 'w"
  gd_patchStatus :: "string \<Rightarrow> ReviewReadyStatus \<Rightarrow> 'w \<Rightarrow> error option \<times> 'w"
  gd_listJobs :: "string \<Rightarrow> string \<Rightarrow> 'w \<Rightarrow> (error + Job list) \<times> 'w"
  gd_deleteJob :: "string \<Rightarrow> string \<Rightarrow> 'w \<Rightarrow> error option \<times> 'w"
  gd_api :: "'w \<Rightarrow> API \<times> 'w"
  gd_listPulls :: "string \<Rightarrow> string \<Rightarrow> 'w \<Rightarrow> (string + PullRequest list) \<times> 'w"
  gd_listThreads :: "string \<Rightarrow> int \<Rightarrow> 'w \<Rightarrow> (string + ReviewThread list) \<times> 'w"
  gd_deleteLabel :: "string \<Rightarrow> int \<Rightarrow> string \<Rightarrow> 'w \<Rightarrow> string option \<times> 'w"
  gd_postComment :: "string \<Rightarrow> int \<Rightarrow> string \<Rightarrow> 'w \<Rightarrow> string option \<times> 'w"
  gd_postStatus :: "string \<Rightarrow> string \<Rightarrow> string \<Rightarrow> string \<Rightarrow> string \<Rightarrow> 'w \<Rightarrow> string option \<times> 'w"
  gd_TL :: "(string \<Rightarrow> (string \<times> field) list \<Rightarrow> 'w \<Rightarrow> 'w) option"

record GateDispatch =
  gdis_Envelope :: "Envelope option"
  gdis_Attempt :: string

record 'w sweep =
  sw_world :: 'w
  sw_now :: instant
  sw_liveAgg :: "ReviewReadyStatus option"
  sw_jobs :: "(error + Job list) option"
  sw_out :: "GateDispatch list"
  sw_liveDispatched :: int
  sw_liveOn :: "(string, bool) gomap"
  sw_keepArmed :: "string list"
  sw_releasedInA :: "string list"
  sw_newlyArmed :: "(string, string) gomap"
  sw_refusals :: "ReviewRefusal list"
  sw_lastDecision :: string
  sw_lastReason :: string
  sw_heldRecorded :: bool
  sw_converged :: "string list"
  sw_free :: int
  sw_capacityFull :: bool

abbreviation (input) reDispatchGrace :: duration where "reDispatchGrace \<equiv> 5 * minute"
abbreviation (input) jobDeathGrace :: duration where "jobDeathGrace \<equiv> 2 * minute"
abbreviation (input) nothing_to_evaluate :: string where "nothing_to_evaluate \<equiv> ''nothing to evaluate this cycle''"

abbreviation (input) sw_clock :: "'w GateDeps \<Rightarrow> 'w sweep \<Rightarrow> instant" where
  "sw_clock d s \<equiv> cl_now (gd_client d) (sw_world s)"

abbreviation (input) in_world :: "('w \<Rightarrow> 'w) \<Rightarrow> 'w sweep \<Rightarrow> 'w sweep" where
  "in_world f s \<equiv> s\<lparr>sw_world := f (sw_world s)\<rparr>"

definition decision_text :: "Decision \<Rightarrow> string" where
  "decision_text x = (case x of DecisionProceed \<Rightarrow> ''proceed'' | DecisionWaiting \<Rightarrow> ''waiting'' | DecisionStanddown \<Rightarrow> ''standdown'')"

definition hold_text :: "HoldCause \<Rightarrow> string" where
  "hold_text x = (case x of HoldCauseNone \<Rightarrow> [] | HoldCauseCIPending \<Rightarrow> ''ci-pending'' | HoldCauseCIRed \<Rightarrow> ''ci-red''
     | HoldCauseLabelAbsent \<Rightarrow> ''label-absent'' | HoldCauseAPIError \<Rightarrow> ''api-error'' | HoldCauseVerdictCheck \<Rightarrow> ''verdict-check''
     | HoldCauseDispatched \<Rightarrow> ''dispatched'')"

definition headline :: "Evaluation \<Rightarrow> 'w sweep \<Rightarrow> 'w sweep" where
  "headline ev s = s\<lparr>sw_lastDecision := decision_text (eva_Decision ev), sw_lastReason := eva_Reason ev\<rparr>"

section \<open>Shared steps\<close>

text \<open>\<^verbatim>\<open>activeJobs\<close>: the one list of the sweep, latched with its error.\<close>

definition activeJobs :: "'w GateDeps \<Rightarrow> Workflow \<Rightarrow> 'w sweep \<Rightarrow> 'w sweep" where
  "activeJobs d wfl s =
     (case sw_jobs s of
        Some r \<Rightarrow> s
      | None \<Rightarrow> (case gd_listJobs d (wf_Namespace wfl) (wf_Name wfl) (sw_world s) of
                   (r, w) \<Rightarrow> s\<lparr>sw_jobs := Some r, sw_world := w\<rparr>))"

definition jobSnapshot :: "'w sweep \<Rightarrow> Job list" where
  "jobSnapshot s = (case sw_jobs s of Some (Inr js) \<Rightarrow> js | _ \<Rightarrow> [])"

definition jobListErr :: "'w sweep \<Rightarrow> bool" where
  "jobListErr s = (case sw_jobs s of Some (Inl e) \<Rightarrow> True | _ \<Rightarrow> False)"

definition jobAlive :: "'w sweep \<Rightarrow> string \<Rightarrow> bool" where
  "jobAlive s attemptName = list_ex (\<lambda>j. job_attempt j = attemptName \<and> job_live j) (jobSnapshot s)"

definition jobDeath :: "'w sweep \<Rightarrow> string \<Rightarrow> string" where
  "jobDeath s attemptName =
     (if list_ex (\<lambda>j. job_attempt j = attemptName \<and> job_CompletionTime j \<noteq> None \<and> \<not> IsJobFailed j) (jobSnapshot s) then ''completed''
      else if list_ex (\<lambda>j. job_attempt j = attemptName \<and> IsJobFailed j) (jobSnapshot s) then ''failed''
      else ''vanished'')"

definition evaluate :: "'w GateDeps \<Rightarrow> Params \<Rightarrow> 'w sweep \<Rightarrow> Result \<times> 'w sweep" where
  "evaluate d p s = (case gd_api d (sw_world s) of (api, w) \<Rightarrow> (Evaluate api p, s\<lparr>sw_world := w\<rparr>))"

definition emit :: "'w GateDeps \<Rightarrow> string \<Rightarrow> (string \<times> field) list \<Rightarrow> 'w sweep \<Rightarrow> 'w sweep" where
  "emit d kind row s = (case gd_TL d of None \<Rightarrow> s | Some send \<Rightarrow> in_world (send kind row) s)"

definition emitGate :: "'w GateDeps \<Rightarrow> Evaluation \<Rightarrow> string \<Rightarrow> int \<Rightarrow> 'w sweep \<Rightarrow> 'w sweep" where
  "emitGate d ev repo pr s =
     (let row = [(''reason'', FText (eva_Reason ev)), (''pr'', FInt pr), (''repo'', FText repo)] in
      case eva_Decision ev of
        DecisionProceed \<Rightarrow> emit d ''gate.proceed'' row s
      | DecisionStanddown \<Rightarrow> emit d ''gate.standdown'' row s
      | DecisionWaiting \<Rightarrow>
          if (case sw_liveAgg s of None \<Rightarrow> False
              | Some agg \<Rightarrow> rrs_LastDecision agg = ''waiting'' \<and> rrs_LastReason agg = eva_Reason ev)
          then s else emit d ''gate.waiting'' row s)"

definition releaseClaim :: "'w GateDeps \<Rightarrow> Attempt \<Rightarrow> string \<Rightarrow> 'w sweep \<Rightarrow> 'w sweep" where
  "releaseClaim d at reason =
     in_world (\<lambda>w. snd (ReleaseClaim (gd_client d) (at_Namespace at) (at_Name at) reason w))"

definition releaseDeadClaim :: "'w GateDeps \<Rightarrow> Attempt \<Rightarrow> string \<Rightarrow> 'w sweep \<Rightarrow> 'w sweep" where
  "releaseDeadClaim d at reason =
     in_world (\<lambda>w. snd (ReleaseClaimDead (gd_client d) (at_Namespace at) (at_Name at) reason w))"

definition setHold :: "'w GateDeps \<Rightarrow> Attempt \<Rightarrow> string \<Rightarrow> HoldCause \<Rightarrow> 'w sweep \<Rightarrow> 'w sweep" where
  "setHold d at note cause =
     in_world (\<lambda>w. snd (SetClaimHold (gd_client d) (at_Namespace at) (at_Name at) note (hold_text cause) w))"

definition standDown :: "'w GateDeps \<Rightarrow> string \<Rightarrow> int \<Rightarrow> error \<Rightarrow> 'w sweep \<Rightarrow> 'w sweep" where
  "standDown d repo pr err s =
     emitGate d (standdown CodeNone (err_Text err)) repo pr
       (if sw_heldRecorded s then s else s\<lparr>sw_lastDecision := ''standdown'', sw_lastReason := err_Text err\<rparr>)"

definition notifyRefusalHost :: "'w GateDeps \<Rightarrow> string \<Rightarrow> int \<Rightarrow> 'w sweep \<Rightarrow> 'w sweep" where
  "notifyRefusalHost d repo pr s =
     (case ReviewRefusalFor (sw_refusals s) repo pr of
        None \<Rightarrow> s
      | Some ref \<Rightarrow>
          if ref_HostNotified ref then s
          else
            let mark = (\<lambda>t. t\<lparr>sw_refusals := update_refusal (\<lambda>r. r\<lparr>ref_HostNotified := True\<rparr>) repo pr (sw_refusals t)\<rparr>) in
            (case gd_api d (sw_world s) of
               (api, w) \<Rightarrow>
                 if (case api_ListCommentsAll api repo pr of
                       Inl e \<Rightarrow> False | Inr (comments, truncated) \<Rightarrow> refusalNoticeStanding comments (ref_HeadSHA ref))
                 then mark (s\<lparr>sw_world := w\<rparr>)
                 else (case gd_postComment d repo pr (notice_body ref) w of
                         (Some e, w1) \<Rightarrow> s\<lparr>sw_world := w1\<rparr>
                       | (None, w1) \<Rightarrow> mark (s\<lparr>sw_world := w1\<rparr>))))"

text \<open>\<^verbatim>\<open>convergeConsume\<close>: the label comes off and the merge status is set, once per head and sweep.\<close>

definition open_roots :: "ReviewThread list \<Rightarrow> nat" where
  "open_roots threads = length (filter (\<lambda>t. \<not> rt_IsReply t \<and> \<not> rt_Resolved t) threads)"

definition merge_status :: "string \<Rightarrow> nat \<Rightarrow> string \<times> string" where
  "merge_status verdict openRoots =
     (if verdict = ''APPROVE'' \<and> openRoots = 0 then (''success'', ''reviewed: APPROVE, all threads closed'')
      else (''failure'', ''reviewed: '' @ verdict @ '' '' @ em_dash @ '' open threads must be resolved/carried''))"

definition convergeConsume :: "'w GateDeps \<Rightarrow> Envelope option \<Rightarrow> 'w sweep \<Rightarrow> 'w sweep" where
  "convergeConsume d envelope s =
     (case envelope of
        None \<Rightarrow> s
      | Some env \<Rightarrow>
          if evl_VerdictDecision env = [] \<or> evl_Label env = [] then s
          else
            let key = evl_Repo env @ ''/'' @ show_int (evl_PR env) @ ''/'' @ evl_HeadSHA env in
            if key \<in> set (sw_converged s) then s
            else
              (case gd_deleteLabel d (evl_Repo env) (evl_PR env) (evl_Label env) (sw_world s) of
                 (e, w1) \<Rightarrow>
                   (case gd_listThreads d (evl_Repo env) (evl_PR env) w1 of
                      (Inl e1, w2) \<Rightarrow> s\<lparr>sw_converged := key # sw_converged s, sw_world := w2\<rparr>
                    | (Inr threads, w2) \<Rightarrow>
                        (case merge_status (evl_VerdictDecision env) (open_roots threads) of
                           (state, desc) \<Rightarrow>
                             s\<lparr>sw_converged := key # sw_converged s,
                               sw_world := snd (gd_postStatus d (evl_Repo env) (evl_HeadSHA env) state ''pr-review/verdict'' desc w2)\<rparr>))))"

section \<open>Pass A: the claims in flight\<close>

definition claim_params :: "ReviewReadySpec option \<Rightarrow> instant \<Rightarrow> string \<Rightarrow> int \<Rightarrow> ReviewClaimStatus \<Rightarrow> Params" where
  "claim_params rr now repo pr r =
     \<lparr>prm_Repo = repo, prm_PR = pr, prm_Label = rc_Label r, prm_Horizon = HorizonDuration rr, prm_Now = now,
      prm_ArmedAt = (case rc_ArmedSince r of None \<Rightarrow> zero_time | Some t \<Rightarrow> t), prm_ArmedSha = rc_HeadSHA r, prm_WakeSHA = [],
      prm_DispatchedAt = (case rc_DispatchedAt r of None \<Rightarrow> zero_time | Some t \<Rightarrow> t),
      prm_DispatchTimeout = DispatchTimeoutDuration rr, prm_DisarmHint = False, prm_clock = now\<rparr>"

definition churn_error :: "ReviewClaimStatus \<Rightarrow> error" where
  "churn_error r =
     \<lparr>err_Kind = ChurnBudgetExhausted,
      err_Text = ''dispatch-lost churn budget exhausted: '' @ rc_HeadSHA r @ '' '' @ em_dash @ '' '' @
        show_int (rc_DispatchLostReleases r) @ '' consecutive never-dispatched releases (max '' @
        show_int MaxDispatchLostReleases @ ''); re-apply the label to request a fresh review''\<rparr>"

definition churn_spent :: "'w GateDeps \<Rightarrow> ReviewReadySpec option \<Rightarrow> Attempt \<Rightarrow> 'w sweep \<Rightarrow> bool" where
  "churn_spent d rr c s \<longleftrightarrow>
     (let r = review_of (at_Status c); now = sw_clock d s;
          claimAge = (if at_CreationTimestamp c = zero_time then 0 else now - at_CreationTimestamp c)
      in MaxDispatchLostReleases \<le> rc_DispatchLostReleases r \<and>
         DispatchLostWindowOpen now (Some r) claimAge (HorizonDuration rr))"

text \<open>A queued claim that may proceed: the head moved, the churn budget is spent, or it is dispatched.\<close>

definition queued_proceed ::
  "'w GateDeps \<Rightarrow> ReviewReadySpec option \<Rightarrow> Attempt \<Rightarrow> string \<Rightarrow> int \<Rightarrow> Evaluation \<Rightarrow> 'w sweep \<Rightarrow> 'w sweep" where
  "queued_proceed d rr c repo pr ev s =
     (let r = review_of (at_Status c) in
      if map_option evl_HeadSHA (eva_Envelope ev) \<noteq> Some (rc_HeadSHA r)
      then let s1 = releaseClaim d c ReleaseReasonSuperseded s in
           emitGate d ev repo pr (s1\<lparr>sw_releasedInA := at_Name c # sw_releasedInA s1, sw_liveOn := map_set (rc_PR r) False (sw_liveOn s1)\<rparr>)
      else if churn_spent d rr c s
      then let s1 = standDown d repo pr (churn_error r) s in
           s1\<lparr>sw_releasedInA := at_Name c # sw_releasedInA s1, sw_keepArmed := rc_PR r # sw_keepArmed s1\<rparr>
      else
        setHold d c [] HoldCauseDispatched
          (emitGate d ev repo pr
            (s\<lparr>sw_out := sw_out s @ [\<lparr>gdis_Envelope = eva_Envelope ev, gdis_Attempt = at_Name c\<rparr>],
               sw_keepArmed := rc_PR r # sw_keepArmed s\<rparr>)))"

definition queued_claim :: "'w GateDeps \<Rightarrow> Workflow \<Rightarrow> Attempt \<Rightarrow> 'w sweep \<Rightarrow> 'w sweep" where
  "queued_claim d wfl c s =
     (let r = review_of (at_Status c); rr = wspec_ReviewReady (wf_Spec wfl) in
      case parsePRPointer (rc_PR r) of
        Inl e \<Rightarrow>
          let s1 = releaseClaim d c ReleaseReasonPointerInvalid s in s1\<lparr>sw_releasedInA := at_Name c # sw_releasedInA s1\<rparr>
      | Inr (repo, pr) \<Rightarrow>
          (case evaluate d (claim_params rr (sw_now s) repo pr r) s of
             (res, s1) \<Rightarrow>
               let ev = res_Evaluation res in
               if (case wake (scopeRepos (gd_decode d) wfl) (gd_Wake d) of
                     None \<Rightarrow> False | Some w \<Rightarrow> cand_pointer w = rc_PR r \<and> cand_request w)
               then emitGate d ev repo pr (s1\<lparr>sw_keepArmed := rc_PR r # sw_keepArmed s1\<rparr>)
               else
                 (case eva_Decision ev of
                    DecisionProceed \<Rightarrow> queued_proceed d rr c repo pr ev s1
                  | DecisionStanddown \<Rightarrow>
                      let s2 = releaseClaim d c (classifyRelease ev) s1;
                          s3 = s2\<lparr>sw_releasedInA := at_Name c # sw_releasedInA s2\<rparr>
                      in emitGate d ev repo pr
                           (if eva_Code ev = CodeHeadMoved then s3\<lparr>sw_liveOn := map_set (rc_PR r) False (sw_liveOn s3)\<rparr> else s3)
                  | DecisionWaiting \<Rightarrow>
                      setHold d c (eva_Reason ev) (HoldCauseOf (eva_Reason ev))
                        (emitGate d ev repo pr (s1\<lparr>sw_keepArmed := rc_PR r # sw_keepArmed s1\<rparr>)))))"

text \<open>A dispatched claim past its timeout whose Job is alive is held, not counted dead.\<close>

definition hold_alive :: "'w GateDeps \<Rightarrow> Evaluation \<Rightarrow> string \<Rightarrow> int \<Rightarrow> 'w sweep \<Rightarrow> 'w sweep" where
  "hold_alive d ev repo pr s =
     (let held = eva_Reason ev @ '' (held: Job still alive)'';
          s1 = (if sw_lastDecision s \<noteq> decision_text (eva_Decision ev)
                then s\<lparr>sw_lastDecision := decision_text (eva_Decision ev), sw_lastReason := held\<rparr> else s);
          s2 = s1\<lparr>sw_heldRecorded := True\<rparr>
      in if (case sw_liveAgg s of None \<Rightarrow> True | Some agg \<Rightarrow> rrs_LastReason agg \<noteq> held)
         then emit d ''gate.standdown'' [(''reason'', FText held), (''pr'', FInt pr), (''repo'', FText repo), (''jobAlive'', FBool True)] s2
         else s2)"

definition dispatched_claim :: "'w GateDeps \<Rightarrow> Workflow \<Rightarrow> Attempt \<Rightarrow> 'w sweep \<Rightarrow> 'w sweep" where
  "dispatched_claim d wfl c s0 =
     (let r = review_of (at_Status c); s = s0\<lparr>sw_liveDispatched := sw_liveDispatched s0 + 1\<rparr> in
      case parsePRPointer (rc_PR r) of
        Inl e \<Rightarrow> releaseClaim d c ReleaseReasonPointerInvalid s
      | Inr (repo, pr) \<Rightarrow>
          (case evaluate d (claim_params (wspec_ReviewReady (wf_Spec wfl)) (sw_now s) repo pr r) s of
             (res, s1) \<Rightarrow>
               let ev = res_Evaluation res; reason = classifyRelease ev in
               if eva_Decision ev \<noteq> DecisionStanddown then s1
               else
                 let s2 = (if reason = ReleaseReasonDispatchTimeout then activeJobs d wfl s1 else s1) in
                 if reason = ReleaseReasonDispatchTimeout \<and> jobAlive s2 (at_Name c) then hold_alive d ev repo pr s2
                 else
                   let s3 = (if reason = ReleaseReasonDispatchTimeout then releaseDeadClaim d c reason s2 else releaseClaim d c reason s2);
                       s4 = emitGate d ev repo pr s3
                   in s4\<lparr>sw_liveDispatched := sw_liveDispatched s4 - 1\<rparr>))"

definition inflight_claim :: "'w GateDeps \<Rightarrow> Workflow \<Rightarrow> Attempt \<Rightarrow> 'w sweep \<Rightarrow> 'w sweep" where
  "inflight_claim d wfl c s =
     (let r = review_of (at_Status c); s1 = s\<lparr>sw_liveOn := map_set (rc_PR r) True (sw_liveOn s)\<rparr> in
      if rc_DispatchedAt r = None then queued_claim d wfl c s1 else dispatched_claim d wfl c s1)"

definition inflight_pass :: "'w GateDeps \<Rightarrow> Workflow \<Rightarrow> Attempt list \<Rightarrow> 'w sweep \<Rightarrow> 'w sweep" where
  "inflight_pass d wfl = fold (inflight_claim d wfl)"

section \<open>The job-death pass and the never-dispatched pass\<close>

definition past_death_grace :: "'w GateDeps \<Rightarrow> Attempt \<Rightarrow> 'w sweep \<Rightarrow> bool" where
  "past_death_grace d c s \<longleftrightarrow>
     (case rc_DispatchedAt (review_of (at_Status c)) of None \<Rightarrow> False | Some t \<Rightarrow> jobDeathGrace < sw_clock d s - t)"

definition death_step :: "'w GateDeps \<Rightarrow> Attempt \<Rightarrow> 'w sweep \<Rightarrow> 'w sweep" where
  "death_step d c s =
     (if past_death_grace d c s \<and> \<not> jobAlive s (at_Name c) \<and> jobDeath s (at_Name c) \<noteq> ''completed''
      then releaseDeadClaim d c ReleaseReasonDispatchLost s else s)"

definition job_death_pass :: "'w GateDeps \<Rightarrow> Workflow \<Rightarrow> Attempt list \<Rightarrow> 'w sweep \<Rightarrow> 'w sweep" where
  "job_death_pass d wfl claims s =
     (if list_ex (\<lambda>c. past_death_grace d c s) claims
      then let s1 = activeJobs d wfl s in if jobListErr s1 then s1 else fold (death_step d) claims s1
      else s)"

definition never_step :: "'w GateDeps \<Rightarrow> Attempt \<Rightarrow> 'w sweep \<Rightarrow> 'w sweep" where
  "never_step d c s =
     (let r = review_of (at_Status c) in
      if at_Name c \<in> set (sw_releasedInA s) \<or> rc_DispatchedAt r \<noteq> None \<or> jobAlive s (at_Name c) \<or>
         rc_PR r \<in> set (sw_keepArmed s)
      then s
      else (case rc_ArmedSince r of
              None \<Rightarrow> s
            | Some arm \<Rightarrow>
                if sw_clock d s - arm \<le> reDispatchGrace then s
                else if (case sw_liveAgg s of None \<Rightarrow> False
                         | Some agg \<Rightarrow> (case rrs_LastSweepAbortAt agg of None \<Rightarrow> False
                                          | Some t \<Rightarrow> sw_clock d s - t \<le> reDispatchGrace))
                then releaseClaim d c ''sweep-aborted'' s
                else releaseClaim d c ReleaseReasonDispatchLost s))"

definition never_dispatched_pass :: "'w GateDeps \<Rightarrow> Workflow \<Rightarrow> Attempt list \<Rightarrow> 'w sweep \<Rightarrow> 'w sweep" where
  "never_dispatched_pass d wfl claims s =
     (if gd_done d (sw_world s) \<noteq> None then s
      else let s1 = activeJobs d wfl s in if jobListErr s1 then s1 else fold (never_step d) claims s1)"

section \<open>The candidates\<close>

definition addCand :: "candidate \<Rightarrow> candidate list \<Rightarrow> candidate list" where
  "addCand c cands = (if cand_pointer c \<in> set (map cand_pointer cands) then cands else cands @ [c])"

definition scan_repo ::
  "'w GateDeps \<Rightarrow> Workflow \<Rightarrow> string \<Rightarrow> candidate list \<times> 'w sweep \<Rightarrow> candidate list \<times> 'w sweep" where
  "scan_repo d wfl repo cs =
     (case cs of (cands, s) \<Rightarrow>
        let norm = normalizeRepoPointer (scopeRepos (gd_decode d) wfl) repo;
            label = EffectiveLabel (wspec_ReviewReady (wf_Spec wfl)) in
        (case gd_listPulls d norm label (sw_world s) of
           (Inl e, w) \<Rightarrow>
             let s1 = s\<lparr>sw_world := w\<rparr> in
             (cands, if \<not> sw_heldRecorded s1 \<and> sw_lastReason s1 = nothing_to_evaluate
                     then s1\<lparr>sw_lastDecision := ''waiting'', sw_lastReason := ''labeled scan '' @ norm @ '' failed: '' @ e @ '' '' @
                            em_dash @ '' labeled PRs unevaluated this sweep''\<rparr>
                     else s1)
         | (Inr pulls, w) \<Rightarrow>
             (fold (\<lambda>p. addCand (plain_candidate norm (pull_Number p))) pulls cands, s\<lparr>sw_world := w\<rparr>)))"

definition candidates :: "'w GateDeps \<Rightarrow> Workflow \<Rightarrow> bool \<Rightarrow> 'w sweep \<Rightarrow> candidate list \<times> 'w sweep" where
  "candidates d wfl wakeOnly s =
     (let scope = scopeRepos (gd_decode d) wfl;
          first = (case wake scope (gd_Wake d) of None \<Rightarrow> [] | Some c \<Rightarrow> addCand c [])
      in if wakeOnly then (first, s)
         else if sw_free s \<le> 0 then (first, s\<lparr>sw_capacityFull := True\<rparr>)
         else fold (scan_repo d wfl) scope (first, s))"

section \<open>The drain to capacity\<close>

definition humanOverride :: "'w GateDeps \<Rightarrow> string \<Rightarrow> candidate \<Rightarrow> 'w sweep \<Rightarrow> bool \<times> candidate \<times> 'w sweep" where
  "humanOverride d label cand s =
     (if cand_labeled cand then (True, cand, s)
      else if \<not> cand_granularLabel cand then (False, cand, s)
      else (case cand_humanResolved cand of
              Some b \<Rightarrow> (b, cand, s)
            | None \<Rightarrow>
                (case gd_api d (sw_world s) of
                   (api, w) \<Rightarrow>
                     (case api_GetPullRequest api (cand_repo cand) (cand_pr cand) of
                        Inl e \<Rightarrow> (False, cand\<lparr>cand_humanResolved := Some False, cand_humanUnknown := True\<rparr>, s\<lparr>sw_world := w\<rparr>)
                      | Inr pr \<Rightarrow>
                          let present = HasLabel pr label in
                          (present, cand\<lparr>cand_humanResolved := Some present\<rparr>, s\<lparr>sw_world := w\<rparr>)))))"

text \<open>The head of a candidate whose pull request the memo refuses: its own, else what the host reports.\<close>

definition memo_head :: "'w GateDeps \<Rightarrow> candidate \<Rightarrow> 'w sweep \<Rightarrow> string \<times> 'w sweep" where
  "memo_head d cand s =
     (if candSha cand \<noteq> [] then (candSha cand, s)
      else (case gd_api d (sw_world s) of
              (api, w) \<Rightarrow>
                (case api_GetPullRequest api (cand_repo cand) (cand_pr cand) of
                   Inl e \<Rightarrow> ([], s\<lparr>sw_world := w\<rparr>) | Inr p \<Rightarrow> (pull_HeadSHA p, s\<lparr>sw_world := w\<rparr>))))"

definition memo_refuses :: "'w GateDeps \<Rightarrow> ReviewRefusal \<Rightarrow> candidate \<Rightarrow> 'w sweep \<Rightarrow> 'w sweep" where
  "memo_refuses d ref cand s =
     (let reason = ''verdict standing at '' @ ref_HeadSHA ref @ '' '' @ em_dash @ '' memo (#567): push a fix commit to re-review'';
          s1 = s\<lparr>sw_lastDecision := ''standdown'', sw_lastReason := reason\<rparr>;
          s2 = (if ref_Emitted ref then s1
                else let s3 = emitGate d (standdown CodeVerdictStanding reason) (cand_repo cand) (cand_pr cand) s1 in
                     s3\<lparr>sw_refusals := update_refusal (\<lambda>r. r\<lparr>ref_Emitted := True\<rparr>) (cand_repo cand) (cand_pr cand) (sw_refusals s3)\<rparr>)
      in notifyRefusalHost d (cand_repo cand) (cand_pr cand) s2)"

text \<open>The memo check: whether the candidate is skipped, and the candidate with its resolved direction.\<close>

definition memo_check :: "'w GateDeps \<Rightarrow> string \<Rightarrow> candidate \<Rightarrow> 'w sweep \<Rightarrow> bool \<times> candidate \<times> 'w sweep" where
  "memo_check d label cand s =
     (case ReviewRefusalFor (sw_refusals s) (cand_repo cand) (cand_pr cand) of
        None \<Rightarrow> (False, cand, s)
      | Some ref \<Rightarrow>
          (case memo_head d cand s of
             (head, s1) \<Rightarrow>
               (case (if cand_labeled cand then (True, cand, s1)
                      else if cand_granularLabel cand
                      then (case humanOverride d label cand s1 of
                              (b, cand1, s2) \<Rightarrow> (cand_humanUnknown cand1 \<or> humanApplied cand1 False, cand1, s2))
                      else (False, cand, s1)) of
                  (humanRequest, cand1, s2) \<Rightarrow>
                    if \<not> humanRequest \<and> Matches ref head then (True, cand1, memo_refuses d ref cand1 s2)
                    else (False, cand1, s2))))"

text \<open>A candidate on a claimed pull request: whether it is dropped; a request may supersede the claim.\<close>

definition claimed_check ::
  "'w GateDeps \<Rightarrow> Workflow \<Rightarrow> string \<Rightarrow> Attempt list \<Rightarrow> candidate \<Rightarrow> 'w sweep \<Rightarrow> bool \<times> candidate \<times> 'w sweep" where
  "claimed_check d wfl label claims cand s =
     (if \<not> map_get (sw_liveOn s) (cand_pointer cand) False then (False, cand, s)
      else if \<not> cand_request cand then (True, cand, s)
      else (case findClaim claims (cand_pointer cand) of
              None \<Rightarrow> (False, cand, s)
            | Some c \<Rightarrow>
                (case (if rc_HeadSHA (review_of (at_Status c)) = candSha cand
                       then (case humanOverride d label cand s of
                               (b, cand1, s1) \<Rightarrow> (\<not> b \<or> rc_DeadDispatches (review_of (at_Status c)) = 0, cand1, s1))
                       else (False, cand, s)) of
                   (dropped, cand1, s1) \<Rightarrow>
                     if dropped then (True, cand1, s1)
                     else (case ReleaseClaim (gd_client d) (wf_Namespace wfl) (at_Name c) ReleaseReasonSuperseded (sw_world s1) of
                             (Some e, w) \<Rightarrow> (True, cand1, s1\<lparr>sw_world := w\<rparr>)
                           | (None, w) \<Rightarrow>
                               let s2 = s1\<lparr>sw_world := w, sw_liveOn := map_set (cand_pointer cand) False (sw_liveOn s1)\<rparr> in
                               (False, cand1,
                                if rc_DispatchedAt (review_of (at_Status c)) = None then s2
                                else s2\<lparr>sw_liveDispatched := sw_liveDispatched s2 - 1, sw_free := sw_free s2 + 1\<rparr>)))))"

definition arm :: "'w GateDeps \<Rightarrow> Workflow \<Rightarrow> candidate \<Rightarrow> string \<Rightarrow> bool \<Rightarrow> 'w sweep \<Rightarrow> (error + Attempt) \<times> 'w sweep" where
  "arm d wfl cand sha human s =
     (case ArmClaim (gd_client d) (gd_urlPath d) (gd_Scheme d) wfl (cand_pointer cand) sha
             (EffectiveLabel (wspec_ReviewReady (wf_Spec wfl))) human (sw_world s) of
        (r, w) \<Rightarrow> (r, s\<lparr>sw_world := w\<rparr>))"

text \<open>An arm that failed: a refusal stands down, any other failure sets the headline.\<close>

definition arm_failed :: "'w GateDeps \<Rightarrow> candidate \<Rightarrow> Evaluation \<Rightarrow> error \<Rightarrow> 'w sweep \<Rightarrow> 'w sweep" where
  "arm_failed d cand ev e s =
     (if isIntentionalStop e then standDown d (cand_repo cand) (cand_pr cand) e s else headline ev s)"

definition human_arm :: "candidate \<Rightarrow> bool \<Rightarrow> bool" where
  "human_arm cand labelPresent \<longleftrightarrow> cand_labeled cand \<or> cand_granularLabel cand \<and> humanApplied cand labelPresent"

definition cand_proceed :: "'w GateDeps \<Rightarrow> Workflow \<Rightarrow> candidate \<Rightarrow> Result \<Rightarrow> Envelope \<Rightarrow> 'w sweep \<Rightarrow> 'w sweep" where
  "cand_proceed d wfl cand res env s =
     (let ev = res_Evaluation res; sha = evl_HeadSHA env in
      case arm d wfl cand sha (human_arm cand (res_LabelPresent res)) s of
        (Inl e, s1) \<Rightarrow> arm_failed d cand ev e s1
      | (Inr at, s1) \<Rightarrow>
          emitGate d ev (cand_repo cand) (cand_pr cand)
            (headline ev
              (s1\<lparr>sw_out := sw_out s1 @ [\<lparr>gdis_Envelope = Some env, gdis_Attempt = at_Name at\<rparr>],
                  sw_newlyArmed := map_set (cand_pointer cand) sha (sw_newlyArmed s1), sw_free := sw_free s1 - 1\<rparr>)))"

definition cand_waiting :: "'w GateDeps \<Rightarrow> Workflow \<Rightarrow> candidate \<Rightarrow> Result \<Rightarrow> 'w sweep \<Rightarrow> 'w sweep" where
  "cand_waiting d wfl cand res s =
     (let ev = res_Evaluation res; human = human_arm cand (res_LabelPresent res);
          sha = (if res_NewArmedSha res = [] then candSha cand else res_NewArmedSha res) in
      if \<not> res_LabelPresent res \<and> \<not> human then emitGate d ev (cand_repo cand) (cand_pr cand) (headline ev s)
      else (case arm d wfl cand sha human s of
              (Inl e, s1) \<Rightarrow> arm_failed d cand ev e s1
            | (Inr at, s1) \<Rightarrow>
                emitGate d ev (cand_repo cand) (cand_pr cand)
                  (headline ev (s1\<lparr>sw_newlyArmed := map_set (cand_pointer cand) sha (sw_newlyArmed s1)\<rparr>))))"

definition cand_standdown :: "'w GateDeps \<Rightarrow> candidate \<Rightarrow> Result \<Rightarrow> 'w sweep \<Rightarrow> 'w sweep" where
  "cand_standdown d cand res s =
     (let ev = res_Evaluation res;
          s1 = (case eva_Envelope ev of
                  None \<Rightarrow> s
                | Some env \<Rightarrow>
                    if eva_Code ev \<noteq> CodeVerdictStanding then s
                    else notifyRefusalHost d (cand_repo cand) (cand_pr cand)
                           (convergeConsume d (Some env)
                             (s\<lparr>sw_refusals := RecordReviewRefusal (sw_refusals s)
                                 \<lparr>ref_Repo = cand_repo cand, ref_PR = cand_pr cand, ref_HeadSHA = evl_HeadSHA env,
                                  ref_Reason = eva_Reason ev, ref_At = Some (sw_now s), ref_VerdictURL = evl_VerdictURL env,
                                  ref_Emitted = True, ref_HostNotified = False\<rparr>\<rparr>)))
      in emitGate d ev (cand_repo cand) (cand_pr cand) (headline ev s1))"

definition cand_params :: "ReviewReadySpec option \<Rightarrow> instant \<Rightarrow> string \<Rightarrow> candidate \<Rightarrow> Params" where
  "cand_params rr now label cand =
     \<lparr>prm_Repo = cand_repo cand, prm_PR = cand_pr cand, prm_Label = label, prm_Horizon = HorizonDuration rr, prm_Now = now,
      prm_ArmedAt = zero_time, prm_ArmedSha = [], prm_WakeSHA = candSha cand, prm_DispatchedAt = zero_time,
      prm_DispatchTimeout = DispatchTimeoutDuration rr, prm_DisarmHint = False, prm_clock = now\<rparr>"

text \<open>\<open>Evaluate\<close> proceeds only with an envelope.\<close>

definition decide_candidate :: "'w GateDeps \<Rightarrow> Workflow \<Rightarrow> string \<Rightarrow> candidate \<Rightarrow> 'w sweep \<Rightarrow> 'w sweep" where
  "decide_candidate d wfl label cand s =
     (case evaluate d (cand_params (wspec_ReviewReady (wf_Spec wfl)) (sw_now s) label cand) s of
        (res, s1) \<Rightarrow>
          (case eva_Decision (res_Evaluation res) of
             DecisionProceed \<Rightarrow>
               (case eva_Envelope (res_Evaluation res) of None \<Rightarrow> s1 | Some env \<Rightarrow> cand_proceed d wfl cand res env s1)
           | DecisionWaiting \<Rightarrow> cand_waiting d wfl cand res s1
           | DecisionStanddown \<Rightarrow> cand_standdown d cand res s1))"

fun drain :: "'w GateDeps \<Rightarrow> Workflow \<Rightarrow> string \<Rightarrow> Attempt list \<Rightarrow> candidate list \<Rightarrow> 'w sweep \<Rightarrow> 'w sweep" where
  "drain d wfl label claims [] s = s"
| "drain d wfl label claims (cand # rest) s =
     (case memo_check d label cand s of
        (True, cand1, s1) \<Rightarrow> drain d wfl label claims rest s1
      | (False, cand1, s1) \<Rightarrow>
          (case claimed_check d wfl label claims cand1 s1 of
             (True, cand2, s2) \<Rightarrow> drain d wfl label claims rest s2
           | (False, cand2, s2) \<Rightarrow>
               if sw_free s2 \<le> 0 then s2\<lparr>sw_capacityFull := True\<rparr>
               else drain d wfl label claims rest (decide_candidate d wfl label cand2 s2)))"

section \<open>The cancel pass\<close>

definition cancellable :: "Job \<Rightarrow> Attempt \<Rightarrow> bool" where
  "cancellable j at \<longleftrightarrow>
     (case st_Review (at_Status at) of
        None \<Rightarrow> False | Some r \<Rightarrow> rc_Released r \<and> IsCancellationRelease (rc_ReleaseReason r)) \<and>
     (case job_Controller j of None \<Rightarrow> False | Some ref \<Rightarrow> own_Kind ref = ''Attempt'' \<and> own_UID ref = at_UID at)"

definition cancel_job :: "'w GateDeps \<Rightarrow> Workflow \<Rightarrow> Job \<Rightarrow> 'w sweep \<Rightarrow> 'w sweep" where
  "cancel_job d wfl j s =
     (if job_attempt j = [] then s
      else (case cl_get (gd_client d) (wf_Namespace wfl) (job_attempt j) (sw_world s) of
              (Inl e, w) \<Rightarrow> s\<lparr>sw_world := w\<rparr>
            | (Inr at, w) \<Rightarrow>
                if \<not> cancellable j at then s\<lparr>sw_world := w\<rparr>
                else
                  let r = review_of (at_Status at) in
                  (case gd_deleteJob d (wf_Namespace wfl) (job_Name j) w of
                     (e, w1) \<Rightarrow>
                       if (case e of None \<Rightarrow> False | Some x \<Rightarrow> err_Kind x \<noteq> NotFound) then s\<lparr>sw_world := w1\<rparr>
                       else
                         emit d ''gate.cancel''
                           [(''reason'', FText (rc_ReleaseReason r)), (''pr'', FText (rc_PR r)),
                            (''repo'', FText (case parsePRPointer (rc_PR r) of Inl _ \<Rightarrow> [] | Inr (repo, _) \<Rightarrow> repo)),
                            (''job'', FText (job_Name j)), (''headSha'', FText (rc_HeadSHA r)),
                            (''successorSha'', FText (map_get (sw_newlyArmed s) (rc_PR r) []))]
                           (s\<lparr>sw_world := snd (FinalizeCancelledClaim (gd_record d) (wf_Namespace wfl) (job_attempt j)
                                (rc_ReleaseReason r) w1)\<rparr>))))"

fun cancel_loop :: "'w GateDeps \<Rightarrow> Workflow \<Rightarrow> Job list \<Rightarrow> 'w sweep \<Rightarrow> 'w sweep" where
  "cancel_loop d wfl [] s = s"
| "cancel_loop d wfl (j # js) s =
     (if gd_done d (sw_world s) \<noteq> None then s else cancel_loop d wfl js (cancel_job d wfl j s))"

definition cancel_pass :: "'w GateDeps \<Rightarrow> Workflow \<Rightarrow> 'w sweep \<Rightarrow> 'w sweep" where
  "cancel_pass d wfl s =
     (if gd_DisableCancelOnSupersede d \<or> gd_done d (sw_world s) \<noteq> None then s
      else let s1 = activeJobs d wfl s in
           if jobListErr s1 then s1 else cancel_loop d wfl (filter job_live (jobSnapshot s1)) s1)"

section \<open>The sweep\<close>

definition finish :: "'w GateDeps \<Rightarrow> Workflow \<Rightarrow> int \<Rightarrow> 'w sweep \<Rightarrow> 'w sweep" where
  "finish d wfl capacity s =
     (let aborted = gd_done d (sw_world s);
          abortAt = (if aborted = None then None else Some (sw_clock d s));
          s1 = (if sw_heldRecorded s then s
                else (case aborted of
                        Some e \<Rightarrow> s\<lparr>sw_lastDecision := ''waiting'', sw_lastReason := ''sweep aborted before completion: '' @ e\<rparr>
                      | None \<Rightarrow>
                          if sw_capacityFull s
                          then s\<lparr>sw_lastDecision := ''waiting'', sw_lastReason := ''capacity full (live='' @
                                 show_int (sw_liveDispatched s) @ ''/cap='' @ show_int capacity @ '') '' @ em_dash @
                                 '' labeled PRs queue for the next sweep''\<rparr>
                          else s))
      in s1\<lparr>sw_world := snd (gd_patchStatus d (wf_Name wfl)
            \<lparr>rrs_LiveClaims = sw_liveDispatched s1, rrs_Capacity = capacity, rrs_LastDecision = sw_lastDecision s1,
             rrs_LastReason = sw_lastReason s1, rrs_LastSweepAbortAt = abortAt,
             rrs_LastWake = wakeRecord (gd_Wake d) (sw_liveAgg s1), rrs_Refusals = sw_refusals s1\<rparr> (sw_world s1))\<rparr>)"

definition start :: "'w GateDeps \<Rightarrow> Workflow \<Rightarrow> 'w \<Rightarrow> 'w sweep" where
  "start d wfl w =
     (case gd_getStatus d (wf_Name wfl) w of
        (r, w1) \<Rightarrow>
          let agg = (case r of Inl e \<Rightarrow> None | Inr a \<Rightarrow> a) in
          \<lparr>sw_world = w1, sw_now = cl_now (gd_client d) w, sw_liveAgg = agg, sw_jobs = None, sw_out = [], sw_liveDispatched = 0,
           sw_liveOn = [], sw_keepArmed = [], sw_releasedInA = [], sw_newlyArmed = [],
           sw_refusals = (case agg of None \<Rightarrow> [] | Some a \<Rightarrow> rrs_Refusals a), sw_lastDecision = ''waiting'',
           sw_lastReason = nothing_to_evaluate, sw_heldRecorded = False, sw_converged = [], sw_free = 0, sw_capacityFull = False\<rparr>)"

text \<open>The live claims listed again after the releases: who is claimed and how many slots are free.\<close>

definition relist :: "int \<Rightarrow> Attempt list \<Rightarrow> 'w sweep \<Rightarrow> 'w sweep" where
  "relist capacity claims s =
     (let dispatched = int (length (filter (\<lambda>c. rc_DispatchedAt (review_of (at_Status c)) \<noteq> None) claims)) in
      s\<lparr>sw_liveOn := fold (\<lambda>c. map_set (rc_PR (review_of (at_Status c))) True) claims [],
        sw_liveDispatched := dispatched, sw_free := capacity - dispatched\<rparr>)"

text \<open>Everything before the second list, and everything after it.\<close>

definition settle :: "'w GateDeps \<Rightarrow> Workflow \<Rightarrow> Attempt list \<Rightarrow> 'w sweep \<Rightarrow> 'w sweep" where
  "settle d wfl claims s = never_dispatched_pass d wfl claims (job_death_pass d wfl claims (inflight_pass d wfl claims s))"

definition fill :: "'w GateDeps \<Rightarrow> Workflow \<Rightarrow> bool \<Rightarrow> Attempt list \<Rightarrow> 'w sweep \<Rightarrow> 'w sweep" where
  "fill d wfl wakeOnly claims s =
     (case candidates d wfl wakeOnly s of
        (cands, s1) \<Rightarrow> drain d wfl (EffectiveLabel (wspec_ReviewReady (wf_Spec wfl))) claims cands s1)"

definition runGate :: "'w GateDeps \<Rightarrow> Workflow \<Rightarrow> bool \<Rightarrow> 'w \<Rightarrow> (error + GateDispatch list) \<times> 'w" where
  "runGate d wfl wakeOnly w =
     (case wspec_ReviewReady (wf_Spec wfl) of
        None \<Rightarrow> (Inr [], w)
      | Some rr \<Rightarrow>
          let capacity = EffectiveMaxConcurrent (Some rr) (gd_FleetMaxConcurrent d); s0 = start d wfl w in
          (case LiveReviewClaims (gd_client d) wfl (sw_world s0) of
             (Inl e, w1) \<Rightarrow> (Inl (wrap_error ''list claims: '' e), w1)
           | (Inr claims, w1) \<Rightarrow>
               let s1 = settle d wfl claims (s0\<lparr>sw_world := w1\<rparr>) in
               (case LiveReviewClaims (gd_client d) wfl (sw_world s1) of
                  (Inl e, w2) \<Rightarrow> (Inl (wrap_error ''re-list claims: '' e), w2)
                | (Inr claims2, w2) \<Rightarrow>
                    let s2 = fill d wfl wakeOnly claims2 (relist capacity claims2 (s1\<lparr>sw_world := w2\<rparr>));
                        s3 = finish d wfl capacity (cancel_pass d wfl s2)
                    in (Inr (sw_out s3), sw_world s3))))"

definition RunReviewGateSweep :: "'w GateDeps \<Rightarrow> Workflow \<Rightarrow> 'w \<Rightarrow> (error + GateDispatch list) \<times> 'w" where
  "RunReviewGateSweep d wfl = runGate d wfl False"

definition RunReviewGateWake :: "'w GateDeps \<Rightarrow> Workflow \<Rightarrow> 'w \<Rightarrow> (error + GateDispatch list) \<times> 'w" where
  "RunReviewGateWake d wfl = runGate d wfl True"

end
