(* ===== verification/Gate_Props.thy ===== *)
theory Gate_Props
  imports Gate_Sweep
begin

text \<open>
  Library lemmas of the gate sweep: what each step keeps of the sweep's variables, how many reviews a
  sweep hands out, and the frames. The locale \<open>client_frame\<close> is a view of the world that the client of
  the Attempts leaves alone, \<open>gate_frame\<close> one that no collaborator of the sweep changes but the deletion
  of a Job, \<open>gate_jobs\<close> the set of the Jobs.
\<close>

section \<open>Selectors\<close>

text \<open>What the shared steps keep of the sweep: everything but the world.\<close>

lemma emit_sel [simp]:
  "sw_out (emit d k row s) = sw_out s" "sw_free (emit d k row s) = sw_free s" "sw_jobs (emit d k row s) = sw_jobs s"
  "sw_newlyArmed (emit d k row s) = sw_newlyArmed s"
  by (simp_all add: emit_def split: option.split)

lemma emitGate_sel [simp]:
  "sw_out (emitGate d ev repo pr s) = sw_out s" "sw_free (emitGate d ev repo pr s) = sw_free s"
  "sw_jobs (emitGate d ev repo pr s) = sw_jobs s"
  by (simp_all add: emitGate_def Let_def split: Decision.split)

lemma steps_sel [simp]:
  "sw_out (releaseClaim d c reason s) = sw_out s" "sw_free (releaseClaim d c reason s) = sw_free s"
  "sw_out (releaseDeadClaim d c reason s) = sw_out s" "sw_free (releaseDeadClaim d c reason s) = sw_free s"
  "sw_out (setHold d c note cause s) = sw_out s" "sw_free (setHold d c note cause s) = sw_free s"
  "sw_out (standDown d repo pr err s) = sw_out s" "sw_free (standDown d repo pr err s) = sw_free s"
  "sw_out (headline ev s) = sw_out s" "sw_free (headline ev s) = sw_free s"
  "sw_out (activeJobs d wfl s) = sw_out s" "sw_free (activeJobs d wfl s) = sw_free s"
  by (simp_all add: releaseClaim_def releaseDeadClaim_def setHold_def standDown_def headline_def activeJobs_def
      split: option.split prod.split)

lemma notify_sel [simp]:
  "sw_out (notifyRefusalHost d repo pr s) = sw_out s" "sw_free (notifyRefusalHost d repo pr s) = sw_free s"
  by (simp_all add: notifyRefusalHost_def Let_def split: option.split prod.split)

lemma converge_sel [simp]:
  "sw_out (convergeConsume d envelope s) = sw_out s" "sw_free (convergeConsume d envelope s) = sw_free s"
  by (simp_all add: convergeConsume_def Let_def split: option.split prod.split sum.split)

lemma hold_alive_sel [simp]:
  "sw_out (hold_alive d ev repo pr s) = sw_out s" "sw_free (hold_alive d ev repo pr s) = sw_free s"
  by (simp_all add: hold_alive_def Let_def)

lemma evaluate_sel:
  "evaluate d p s = (res, s') \<Longrightarrow> sw_out s' = sw_out s \<and> sw_free s' = sw_free s \<and> (\<exists>api. res = Evaluate api p)"
  by (auto simp: evaluate_def split: prod.splits)

section \<open>How many reviews a sweep dispatches\<close>

definition queued :: "Attempt \<Rightarrow> bool" where
  "queued c \<longleftrightarrow> rc_DispatchedAt (review_of (at_Status c)) = None"

lemma queued_proceed_out: "length (sw_out (queued_proceed d rr c repo pr ev s)) \<le> Suc (length (sw_out s))"
  by (simp add: queued_proceed_def Let_def)

lemma queued_claim_out: "length (sw_out (queued_claim d wfl c s)) \<le> Suc (length (sw_out s))"
  by (auto simp: queued_claim_def Let_def dest!: evaluate_sel split: sum.split prod.split Decision.split option.split
      intro: order.trans [OF queued_proceed_out])

lemma dispatched_claim_out: "sw_out (dispatched_claim d wfl c s) = sw_out s"
  by (auto simp: dispatched_claim_def Let_def dest!: evaluate_sel split: sum.split prod.split)

lemma inflight_pass_out:
  "length (sw_out (inflight_pass d wfl claims s)) \<le> length (sw_out s) + length (filter queued claims)"
proof (induction claims arbitrary: s)
  case Nil
  then show ?case by (simp add: inflight_pass_def)
next
  case (Cons c claims)
  let ?t = "inflight_claim d wfl c s"
  have "length (sw_out ?t) \<le> length (sw_out s) + (if queued c then 1 else 0)"
    using queued_claim_out [of d wfl c "s\<lparr>sw_liveOn := map_set (rc_PR (review_of (at_Status c))) True (sw_liveOn s)\<rparr>"]
    by (simp add: inflight_claim_def queued_def Let_def dispatched_claim_out)
  moreover have "length (sw_out (inflight_pass d wfl claims ?t)) \<le> length (sw_out ?t) + length (filter queued claims)"
    by (rule Cons.IH)
  ultimately show ?case by (cases "queued c") (simp_all add: inflight_pass_def)
qed

lemma death_step_out [simp]: "sw_out (death_step d c s) = sw_out s"
  by (simp add: death_step_def)

lemma never_step_out [simp]: "sw_out (never_step d c s) = sw_out s"
  by (simp add: never_step_def Let_def split: option.split)

lemma fold_out: "(\<And>c s. sw_out (f c s) = sw_out s) \<Longrightarrow> sw_out (fold f xs s) = sw_out s"
  by (induction xs arbitrary: s) auto

lemma passes_out [simp]:
  "sw_out (job_death_pass d wfl claims s) = sw_out s" "sw_out (never_dispatched_pass d wfl claims s) = sw_out s"
  by (simp_all add: job_death_pass_def never_dispatched_pass_def Let_def fold_out)

lemma humanOverride_sel:
  "humanOverride d label cand s = (b, cand', s') \<Longrightarrow>
     sw_out s' = sw_out s \<and> sw_free s' = sw_free s \<and> cand_request cand' = cand_request cand \<and> cand_pointer cand' = cand_pointer cand"
  by (auto simp: humanOverride_def Let_def split: if_splits option.splits prod.splits sum.splits)

lemma memo_check_sel:
  "memo_check d label cand s = (b, cand', s') \<Longrightarrow>
     sw_out s' = sw_out s \<and> sw_free s' = sw_free s \<and> cand_request cand' = cand_request cand \<and> cand_pointer cand' = cand_pointer cand"
  by (auto simp: memo_check_def memo_head_def memo_refuses_def Let_def dest!: humanOverride_sel
      split: if_splits option.splits prod.splits sum.splits)

text \<open>Only a request that supersedes a dispatched claim frees a slot.\<close>

lemma claimed_check_sel:
  "claimed_check d wfl label claims cand s = (b, cand', s') \<Longrightarrow>
     sw_out s' = sw_out s \<and> sw_free s \<le> sw_free s' \<and> sw_free s' \<le> sw_free s + (if cand_request cand then 1 else 0)"
  by (auto simp: claimed_check_def Let_def dest!: humanOverride_sel split: if_splits option.splits prod.splits)

text \<open>One candidate takes at most one slot, and takes it exactly when it adds a dispatch.\<close>

definition one_slot :: "'w sweep \<Rightarrow> 'w sweep \<Rightarrow> bool" where
  "one_slot s s' \<longleftrightarrow> sw_out s' = sw_out s \<and> sw_free s' = sw_free s \<or>
     length (sw_out s') = Suc (length (sw_out s)) \<and> sw_free s' = sw_free s - 1"

lemma arm_sel: "arm d wfl cand sha human s = (r, s') \<Longrightarrow> sw_out s' = sw_out s \<and> sw_free s' = sw_free s"
  by (auto simp: arm_def split: prod.splits)

lemma arm_failed_sel [simp]: "sw_out (arm_failed d cand ev e s) = sw_out s" "sw_free (arm_failed d cand ev e s) = sw_free s"
  by (simp_all add: arm_failed_def)

lemma cand_proceed_slot: "one_slot s (cand_proceed d wfl cand res env s)"
  by (auto simp: one_slot_def cand_proceed_def Let_def dest!: arm_sel split: prod.split sum.split)

lemma cand_waiting_slot: "one_slot s (cand_waiting d wfl cand res s)"
  by (auto simp: one_slot_def cand_waiting_def Let_def dest!: arm_sel split: prod.split sum.split)

lemma cand_standdown_slot: "one_slot s (cand_standdown d cand res s)"
  by (simp add: one_slot_def cand_standdown_def Let_def split: option.split)

lemma decide_candidate_slot: "one_slot s (decide_candidate d wfl label cand s)"
proof -
  obtain res s1 where e: "evaluate d (cand_params (wspec_ReviewReady (wf_Spec wfl)) (sw_now s) label cand) s = (res, s1)"
    by (metis prod.exhaust)
  then have "one_slot s t = one_slot s1 t" for t by (auto dest: evaluate_sel simp: one_slot_def)
  moreover have "one_slot s1 s1" by (simp add: one_slot_def)
  ultimately show ?thesis
    by (simp add: decide_candidate_def e cand_proceed_slot cand_waiting_slot cand_standdown_slot split: Decision.split option.split)
qed

lemma drain_out:
  "int (length (sw_out (drain d wfl label claims cands s))) \<le>
     int (length (sw_out s)) + max 0 (sw_free s) + int (length (filter cand_request cands))"
proof (induction cands arbitrary: s)
  case Nil
  then show ?case by simp
next
  case (Cons cand rest)
  obtain skip cand1 s1 where m: "memo_check d label cand s = (skip, cand1, s1)" by (metis prod.exhaust)
  note m' = memo_check_sel [OF m]
  obtain gone cand2 s2 where c: "claimed_check d wfl label claims cand1 s1 = (gone, cand2, s2)" by (metis prod.exhaust)
  note c' = claimed_check_sel [OF c]
  let ?t = "decide_candidate d wfl label cand2 s2"
  show ?case
    using m' c' decide_candidate_slot [of s2 d wfl label cand2, unfolded one_slot_def] Cons.IH [of s1] Cons.IH [of s2] Cons.IH [of ?t]
    by (cases skip; cases gone) (auto simp: m c max_def split: if_splits)
qed

definition request_wake :: "'w GateDeps \<Rightarrow> Workflow \<Rightarrow> bool" where
  "request_wake d wfl \<longleftrightarrow> (case wake (scopeRepos (gd_decode d) wfl) (gd_Wake d) of None \<Rightarrow> False | Some c \<Rightarrow> cand_request c)"

lemma plain_candidate_request [simp]: "\<not> cand_request (plain_candidate repo pr)"
  by (simp add: plain_candidate_def)

lemma addCand_requests:
  "length (filter cand_request (fold (\<lambda>p. addCand (plain_candidate repo (pull_Number p))) pulls cands)) =
     length (filter cand_request cands)"
  by (induction pulls arbitrary: cands) (simp_all add: addCand_def)

lemma scan_repo_sel:
  "scan_repo d wfl repo (cands, s) = (cands', s') \<Longrightarrow>
     sw_out s' = sw_out s \<and> sw_free s' = sw_free s \<and>
     length (filter cand_request cands') = length (filter cand_request cands)"
  by (auto simp: scan_repo_def Let_def addCand_requests split: prod.splits sum.splits)

lemma scan_repos_sel:
  "fold (scan_repo d wfl) repos (cands, s) = (cands', s') \<Longrightarrow>
     sw_out s' = sw_out s \<and> sw_free s' = sw_free s \<and>
     length (filter cand_request cands') = length (filter cand_request cands)"
proof (induction repos arbitrary: cands s)
  case (Cons r rs)
  obtain cands1 s1 where "scan_repo d wfl r (cands, s) = (cands1, s1)" by fastforce
  with Cons.prems Cons.IH [of cands1 s1] scan_repo_sel [of d wfl r cands s] show ?case by simp
qed simp

lemma candidates_sel:
  "candidates d wfl wakeOnly s = (cands, s') \<Longrightarrow>
     sw_out s' = sw_out s \<and> sw_free s' = sw_free s \<and>
     length (filter cand_request cands) = (if request_wake d wfl then 1 else 0)"
  by (auto simp: candidates_def request_wake_def addCand_def Let_def split: if_splits option.splits dest!: scan_repos_sel)

lemma cancel_job_out [simp]: "sw_out (cancel_job d wfl j s) = sw_out s"
  by (simp add: cancel_job_def Let_def split: prod.split sum.split)

lemma cancel_loop_out [simp]: "sw_out (cancel_loop d wfl js s) = sw_out s"
  by (induction js arbitrary: s) simp_all

lemma tail_out [simp]: "sw_out (cancel_pass d wfl s) = sw_out s" "sw_out (finish d wfl capacity s) = sw_out s"
  by (simp_all add: cancel_pass_def finish_def Let_def split: option.split)

lemma settle_out: "length (sw_out (settle d wfl claims s)) \<le> length (sw_out s) + length (filter queued claims)"
  using inflight_pass_out [of d wfl claims s] by (simp add: settle_def)

lemma fill_out:
  "int (length (sw_out (fill d wfl wakeOnly live s))) \<le>
     int (length (sw_out s)) + max 0 (sw_free s) + (if request_wake d wfl then 1 else 0)"
proof -
  obtain cands s1 where c: "candidates d wfl wakeOnly s = (cands, s1)" by fastforce
  show ?thesis
    using candidates_sel [OF c] drain_out [of d wfl "EffectiveLabel (wspec_ReviewReady (wf_Spec wfl))" live cands s1]
    by (simp add: fill_def c split: if_splits)
qed

lemma start_sel [simp]: "sw_out (start d wfl w) = []"
  by (simp add: start_def Let_def split: prod.split)


section \<open>What the claim operations leave alone\<close>

text \<open>
  A view \<open>f\<close> of the world that no call of the Kubernetes client for Attempts changes, such as the Jobs:
  the claim operations do not change it either.
\<close>

locale client_frame =
  fixes c :: "'w Client" and f :: "'w \<Rightarrow> 'x"
  assumes frame_get: "f (snd (cl_get c ns n w)) = f w"
    and frame_create: "f (snd (cl_create c a w)) = f w"
    and frame_patchStatus: "f (snd (cl_patchStatus c base a w)) = f w"
    and frame_patch: "f (snd (cl_patch c base a w)) = f w"
    and frame_delete: "f (snd (cl_delete c ns n w)) = f w"
    and frame_list: "f (snd (cl_list c ns eqs absent w)) = f w"
    and frame_pause: "f (cl_pause c w) = f w"
begin

lemma frame_eqs:
  "cl_get c ns n w = (g, w') \<Longrightarrow> f w' = f w" "cl_create c a w = (r, w') \<Longrightarrow> f w' = f w"
  "cl_patchStatus c base a w = (e, w') \<Longrightarrow> f w' = f w" "cl_patch c base a w = (e, w') \<Longrightarrow> f w' = f w"
  "cl_delete c ns n w = (e, w') \<Longrightarrow> f w' = f w" "cl_list c ns eqs absent w = (xs, w') \<Longrightarrow> f w' = f w"
  by (metis frame_get frame_create frame_patchStatus frame_patch frame_delete frame_list snd_conv)+

lemma frame_retry:
  assumes "\<And>x v r v'. g x v = (r, v') \<Longrightarrow> f v' = f v"
  shows "f (snd (RetryOnConflict n (cl_pause c) g x w)) = f w"
proof (induction n arbitrary: x w)
  case 0
  then show ?case using assms by (subst RetryOnConflict.simps) (auto split: prod.splits option.splits)
next
  case (Suc n)
  then show ?case using assms frame_pause
    by (subst RetryOnConflict.simps) (fastforce split: prod.splits option.splits)
qed

lemma frame_patch_once: "patch_once c ns n m x v = (r, v') \<Longrightarrow> f v' = f v"
  by (auto simp: patch_once_def Let_def dest!: frame_eqs split: prod.splits sum.splits)

lemma frame_patch_with: "f (snd (patchAttemptStatus_with c ns n m x w)) = f w"
  unfolding patchAttemptStatus_with_def by (rule frame_retry) (rule frame_patch_once)

lemma frame_patchAttemptStatus: "f (snd (patchAttemptStatus c ns n m w)) = f w"
  using frame_patch_with [of ns n "\<lambda>u now s. (u, m now s)" "()" w] by (auto simp: patchAttemptStatus_def split: prod.splits)

lemma frame_marks: "f (snd (markClaimReleased c ns n w)) = f w" "f (snd (markClaimLive c ns n w)) = f w"
proof -
  have r: "mark_released_once c ns n x v = (r, v') \<Longrightarrow> f v' = f v" for x v r v'
    by (auto simp: mark_released_once_def dest!: frame_eqs split: prod.splits sum.splits if_splits)
  have l: "mark_live_once c ns n x v = (r, v') \<Longrightarrow> f v' = f v" for x v r v'
    by (auto simp: mark_live_once_def dest!: frame_eqs split: prod.splits sum.splits if_splits)
  show "f (snd (markClaimReleased c ns n w)) = f w"
    using frame_retry [of "mark_released_once c ns n" "cl_retries c" "()" w] r
    by (auto simp: markClaimReleased_def split: prod.splits)
  show "f (snd (markClaimLive c ns n w)) = f w"
    using frame_retry [of "mark_live_once c ns n" "cl_retries c" "()" w] l
    by (auto simp: markClaimLive_def split: prod.splits)
qed

lemma frame_release: "f (snd (ReleaseClaim c ns n reason w)) = f w"
  using frame_patchAttemptStatus [of ns n "release_status reason" w] frame_marks
  by (auto simp: ReleaseClaim_def split: prod.splits option.splits)

lemma frame_release_dead: "f (snd (ReleaseClaimDead c ns n reason w)) = f w"
  using frame_patch_with [of ns n "release_dead reason" "(False, 0)" w] frame_marks
  by (auto simp: ReleaseClaimDead_def split: prod.splits option.splits) (metis snd_conv)+

lemma frame_finalize: "f (snd (FinalizeCancelledClaim c ns n reason w)) = f w"
  by (simp add: FinalizeCancelledClaim_def frame_patchAttemptStatus)

lemma frame_hold: "f (snd (SetClaimHold c ns n note cause w)) = f w"
  using frame_patchAttemptStatus [of ns n "\<lambda>t. set_hold note cause"] frame_eqs(1) [of ns n w]
  by (auto simp: SetClaimHold_def split: prod.splits sum.splits option.splits) (metis snd_conv)+

lemma frame_live: "f (snd (LiveReviewClaims c wfl w)) = f w"
  by (auto simp: LiveReviewClaims_def dest: frame_eqs split: prod.splits sum.splits)

lemma frame_supersede: "f (snd (supersede_others c wfl at pr xs w)) = f w"
proof (induction xs arbitrary: w)
  case (Cons x xs)
  have "f v = f w" if "ReleaseClaim c (wf_Namespace wfl) (at_Name x) ReleaseReasonSuperseded w = (r, v)" for r v
    using frame_release that by (metis snd_conv)
  then show ?case by (auto simp: Cons.IH split: prod.split option.split)
qed simp

lemma frame_arm_commit: "f (snd (arm_commit c wfl at pr headSHA label human expiry w)) = f w"
proof -
  have "LiveReviewClaims c wfl v = (r, v') \<Longrightarrow> f v' = f v" "supersede_others c wfl at pr xs v = (e, v') \<Longrightarrow> f v' = f v"
    "markClaimLive c ns n v = (e, v') \<Longrightarrow> f v' = f v" for v v' r e xs ns n
    by (metis snd_conv frame_live, metis snd_conv frame_supersede, metis snd_conv frame_marks(2))
  then show ?thesis
    by (auto simp: arm_commit_def Let_def frame_patchAttemptStatus split: prod.split sum.split option.split)
qed

lemma frame_resolve: "f (snd (ResolveOrCreate c obj opts w)) = f w"
  by (auto simp: ResolveOrCreate_def Let_def dest!: frame_eqs split: prod.splits sum.splits option.splits)

lemma frame_arm: "f (snd (ArmClaim c urlPath scheme wfl pr headSHA label human w)) = f w"
proof -
  have "ResolveOrCreate c obj opts v = (r, v') \<Longrightarrow> f v' = f v" 
    "arm_commit c wfl at pr headSHA label human expiry v = (e, v') \<Longrightarrow> f v' = f v"
    "armAbandon c wfl at created err v = (err', v') \<Longrightarrow> f v' = f v" for obj opts v v' r at expiry e created err err'
    by (metis snd_conv frame_resolve, metis snd_conv frame_arm_commit,
        auto simp: armAbandon_def dest: frame_eqs split: prod.splits option.splits if_splits)
  then show ?thesis
    by (auto simp: ArmClaim_def split: prod.split sum.split option.split)
qed

end

text \<open>
  A view that no collaborator of the sweep changes but the deletion of a Job: no step of the sweep but
  the cancel pass changes it.
\<close>

locale gate_frame = under: client_frame "gd_client d" f + beyond: client_frame "gd_record d" f
  for d :: "'w GateDeps" and f :: "'w \<Rightarrow> 'x" +
  assumes frame_getStatus: "f (snd (gd_getStatus d n w)) = f w"
    and frame_patchStatus: "f (snd (gd_patchStatus d n st w)) = f w"
    and frame_listJobs: "f (snd (gd_listJobs d ns n w)) = f w"
    and frame_api: "f (snd (gd_api d w)) = f w"
    and frame_listPulls: "f (snd (gd_listPulls d repo label w)) = f w"
    and frame_listThreads: "f (snd (gd_listThreads d repo pr w)) = f w"
    and frame_deleteLabel: "f (snd (gd_deleteLabel d repo pr label w)) = f w"
    and frame_postComment: "f (snd (gd_postComment d repo pr body w)) = f w"
    and frame_postStatus: "f (snd (gd_postStatus d repo sha state ctxt desc w)) = f w"
    and frame_TL: "gd_TL d = Some send \<Longrightarrow> f (send kind row w) = f w"
begin

abbreviation view :: "'w sweep \<Rightarrow> 'x" where "view s \<equiv> f (sw_world s)"

lemma frame_ops:
  "gd_getStatus d n w = (r1, w') \<Longrightarrow> f w' = f w" "gd_listJobs d ns n w = (r2, w') \<Longrightarrow> f w' = f w"
  "gd_api d w = (api, w') \<Longrightarrow> f w' = f w" "gd_listPulls d repo label w = (r3, w') \<Longrightarrow> f w' = f w"
  "gd_listThreads d repo pr w = (r4, w') \<Longrightarrow> f w' = f w" "gd_deleteLabel d repo pr label w = (r5, w') \<Longrightarrow> f w' = f w"
  "gd_postComment d repo pr body w = (r6, w') \<Longrightarrow> f w' = f w"
  "ReleaseClaim (gd_client d) ns n reason w = (r7, w') \<Longrightarrow> f w' = f w"
  "ArmClaim (gd_client d) url scheme wfl p sha label human w = (r8, w') \<Longrightarrow> f w' = f w"
  "LiveReviewClaims (gd_client d) wfl w = (r9, w') \<Longrightarrow> f w' = f w"
  by (metis frame_getStatus frame_listJobs frame_api frame_listPulls frame_listThreads frame_deleteLabel frame_postComment
      under.frame_release under.frame_arm under.frame_live snd_conv)+

lemma view_steps [simp]:
  "view (emit d kind row s) = view s" "view (emitGate d ev repo pr s) = view s" "view (releaseClaim d c reason s) = view s"
  "view (releaseDeadClaim d c reason s) = view s" "view (setHold d c note cause s) = view s"
  "view (standDown d repo pr err s) = view s" "view (headline ev s) = view s" "view (activeJobs d wfl s) = view s"
proof -
  show e: "view (emit d kind row s) = view s" for kind row s by (simp add: emit_def frame_TL split: option.split)
  show g: "view (emitGate d ev repo pr s) = view s" for ev repo pr s by (simp add: emitGate_def Let_def e split: Decision.split)
  show "view (standDown d repo pr err s) = view s" by (simp add: standDown_def g)
  show "view (activeJobs d wfl s) = view s" by (auto simp: activeJobs_def dest: frame_ops(2) split: option.split prod.split)
qed (simp_all add: releaseClaim_def releaseDeadClaim_def setHold_def headline_def under.frame_release under.frame_release_dead
     under.frame_hold)

lemma view_evaluate: "evaluate d p s = (res, s') \<Longrightarrow> view s' = view s"
  by (auto simp: evaluate_def dest: frame_ops(3) split: prod.splits)

lemma view_notify [simp]: "view (notifyRefusalHost d repo pr s) = view s"
  by (auto simp: notifyRefusalHost_def Let_def dest!: frame_ops(3,7) split: option.split prod.split)

lemma view_consume [simp]: "view (convergeConsume d envelope s) = view s"
  by (auto simp: convergeConsume_def Let_def frame_postStatus dest!: frame_ops(5,6) split: option.split prod.split sum.split)

lemma view_queued [simp]: "view (queued_claim d wfl c s) = view s"
  by (auto simp: queued_claim_def queued_proceed_def Let_def dest!: view_evaluate split: sum.split prod.split Decision.split)

lemma view_dispatched [simp]: "view (dispatched_claim d wfl c s) = view s"
  by (auto simp: dispatched_claim_def hold_alive_def Let_def dest!: view_evaluate split: sum.split prod.split)

lemma view_fold: "(\<And>x s. view (g x s) = view s) \<Longrightarrow> view (fold g xs s) = view s"
  by (induction xs arbitrary: s) auto

lemma view_settle: "view (settle d wfl claims s) = view s"
  by (simp add: settle_def inflight_pass_def job_death_pass_def never_dispatched_pass_def inflight_claim_def death_step_def
      never_step_def Let_def view_fold split: option.split)

lemma view_human: "humanOverride d label cand s = (b, cand', s') \<Longrightarrow> view s' = view s"
  by (auto simp: humanOverride_def Let_def dest!: frame_ops(3) split: if_splits option.splits prod.splits sum.splits)

lemma view_memo: "memo_check d label cand s = (b, cand', s') \<Longrightarrow> view s' = view s"
  by (auto simp: memo_check_def memo_head_def memo_refuses_def Let_def dest!: view_human frame_ops(3)
      split: if_splits option.splits prod.splits sum.splits)

lemma view_claimed: "claimed_check d wfl label claims cand s = (b, cand', s') \<Longrightarrow> view s' = view s"
  by (auto simp: claimed_check_def Let_def dest!: view_human frame_ops(8) split: if_splits option.splits prod.splits)

lemma view_arm: "arm d wfl cand sha human s = (r, s') \<Longrightarrow> view s' = view s"
  by (auto simp: arm_def dest: frame_ops(9) split: prod.splits)

lemma view_cands [simp]:
  "view (cand_proceed d wfl cand res env s) = view s" "view (cand_waiting d wfl cand res s) = view s"
  "view (cand_standdown d cand res s) = view s"
  by (auto simp: cand_proceed_def cand_waiting_def cand_standdown_def arm_failed_def Let_def dest!: view_arm
      split: prod.split sum.split option.split)

lemma view_decide [simp]: "view (decide_candidate d wfl label cand s) = view s"
  by (auto simp: decide_candidate_def dest!: view_evaluate split: prod.split Decision.split option.split)

lemma view_drain: "view (drain d wfl label claims cands s) = view s"
proof (induction cands arbitrary: s)
  case (Cons cand rest)
  then show ?case by (auto dest!: view_memo view_claimed split: prod.split bool.split)
qed simp

lemma view_candidates: "candidates d wfl wakeOnly s = (cands, s') \<Longrightarrow> view s' = view s"
proof -
  have r: "scan_repo d wfl repo (cs, t) = (cs', t') \<Longrightarrow> view t' = view t" for repo cs t cs' t'
    by (auto simp: scan_repo_def Let_def dest!: frame_ops(4) split: prod.splits sum.splits if_splits)
  have "fold (scan_repo d wfl) repos (cs, t) = (cs', t') \<Longrightarrow> view t' = view t" for repos cs t cs' t'
  proof (induction repos arbitrary: cs t)
    case (Cons repo repos)
    obtain cs1 t1 where "scan_repo d wfl repo (cs, t) = (cs1, t1)" by fastforce
    with Cons r show ?case by fastforce
  qed simp
  then show "candidates d wfl wakeOnly s = (cands, s') \<Longrightarrow> view s' = view s"
    by (auto simp: candidates_def Let_def split: if_splits)
qed

lemma view_fill: "view (fill d wfl wakeOnly claims s) = view s"
  by (auto simp: fill_def view_drain dest: view_candidates split: prod.split)

lemma view_finish: "view (finish d wfl capacity s) = view s"
  by (simp add: finish_def Let_def frame_patchStatus split: option.split)

lemma view_start: "view (start d wfl w) = f w"
  by (auto simp: start_def Let_def dest: frame_ops(1) split: prod.split)

text \<open>Around the cancel pass nothing changes the view.\<close>

lemma view_runGate:
  assumes "runGate d wfl wakeOnly w = (r, w')"
  shows "f w' = f w \<or> (\<exists>s. f w = view s \<and> f w' = view (cancel_pass d wfl s))"
proof (cases "wspec_ReviewReady (wf_Spec wfl)")
  case None
  then show ?thesis using assms by (simp add: runGate_def)
next
  case (Some rr)
  let ?s0 = "start d wfl w" and ?cap = "EffectiveMaxConcurrent (Some rr) (gd_FleetMaxConcurrent d)"
  obtain r1 v1 where c: "LiveReviewClaims (gd_client d) wfl (sw_world ?s0) = (r1, v1)" by fastforce
  then have v1: "f v1 = f w" using frame_ops(10) view_start by metis
  show ?thesis
  proof (cases r1)
    case (Inl e)
    then show ?thesis using assms Some c v1 by (simp add: runGate_def Let_def)
  next
    case (Inr claims)
    let ?s1 = "settle d wfl claims (?s0\<lparr>sw_world := v1\<rparr>)"
    obtain r2 v2 where l: "LiveReviewClaims (gd_client d) wfl (sw_world ?s1) = (r2, v2)" by fastforce
    then have v2: "f v2 = f w" using frame_ops(10) [OF l] v1 by (simp add: view_settle)
    show ?thesis
    proof (cases r2)
      case (Inl e)
      then show ?thesis using assms Some c Inr l v2 by (simp add: runGate_def Let_def)
    next
      case (Inr live)
      let ?s2 = "fill d wfl wakeOnly live (relist ?cap live (?s1\<lparr>sw_world := v2\<rparr>))"
      have "w' = sw_world (finish d wfl ?cap (cancel_pass d wfl ?s2))"
        using assms Some c \<open>r1 = Inr claims\<close> l Inr by (simp add: runGate_def Let_def)
      then have "f w' = view (cancel_pass d wfl ?s2)" by (simp add: view_finish)
      moreover have "view ?s2 = f w" using v2 by (simp add: view_fill relist_def Let_def)
      ultimately show ?thesis by metis
    qed
  qed
qed

end

text \<open>The Attempt that a Job names was read as released for a cancellation, and controls the Job.\<close>

definition cancelled :: "'w GateDeps \<Rightarrow> Workflow \<Rightarrow> Job \<Rightarrow> bool" where
  "cancelled d wfl j \<longleftrightarrow>
     (\<exists>at v v'. cl_get (gd_client d) (wf_Namespace wfl) (job_attempt j) v = (Inr at, v') \<and> cancellable j at)"

text \<open>The Jobs of a cluster, which only a deletion changes.\<close>

locale gate_jobs = gate_frame d jobs
  for d :: "'w GateDeps" and jobs :: "'w \<Rightarrow> (string \<times> string) set" +
  assumes delete_ok: "gd_deleteJob d ns n w = (None, w') \<Longrightarrow> jobs w' = jobs w - {(ns, n)}"
    and delete_err: "gd_deleteJob d ns n w = (Some e, w') \<Longrightarrow> jobs w' = jobs w"
begin

lemma cancel_job_jobs:
  "view (cancel_job d wfl j s) = view s \<or>
   cancelled d wfl j \<and> view (cancel_job d wfl j s) = view s - {(wf_Namespace wfl, job_Name j)}"
proof (cases "cl_get (gd_client d) (wf_Namespace wfl) (job_attempt j) (sw_world s)")
  case (Pair g v)
  then have v: "jobs v = view s" by (rule under.frame_eqs(1))
  show ?thesis
  proof (cases g)
    case (Inl e)
    then show ?thesis using Pair v by (simp add: cancel_job_def)
  next
    case (Inr at)
    obtain e v1 where x: "gd_deleteJob d (wf_Namespace wfl) (job_Name j) v = (e, v1)" by fastforce
    then have "jobs v1 = jobs v \<or> jobs v1 = jobs v - {(wf_Namespace wfl, job_Name j)}"
      using delete_ok delete_err by (cases e) auto
    moreover have "cancellable j at \<Longrightarrow> cancelled d wfl j" using Pair Inr by (auto simp: cancelled_def)
    ultimately show ?thesis
      using Pair Inr v x by (auto simp: cancel_job_def Let_def beyond.frame_finalize)
  qed
qed

lemma cancel_loop_jobs:
  "k \<in> view s \<Longrightarrow> k \<notin> view (cancel_loop d wfl js s) \<Longrightarrow>
     \<exists>j\<in>set js. k = (wf_Namespace wfl, job_Name j) \<and> cancelled d wfl j"
proof (induction js arbitrary: s)
  case (Cons j js)
  show ?case
  proof (cases "k \<in> view (cancel_job d wfl j s)")
    case True
    with Cons.prems Cons.IH [OF True] show ?thesis by (auto split: if_splits)
  next
    case False
    with Cons.prems(1) cancel_job_jobs [of wfl j s] show ?thesis by auto
  qed
qed simp

lemma sweep_jobs:
  assumes "runGate d wfl wakeOnly w = (r, w')" and "k \<in> jobs w" "k \<notin> jobs w'"
  shows "\<exists>j. k = (wf_Namespace wfl, job_Name j) \<and> job_live j \<and> cancelled d wfl j"
proof -
  from view_runGate [OF assms(1)] assms(2,3) obtain s where s: "k \<in> view s" "k \<notin> view (cancel_pass d wfl s)" by metis
  let ?s1 = "activeJobs d wfl s"
  from s have "k \<notin> view (cancel_loop d wfl (filter job_live (jobSnapshot ?s1)) ?s1)"
    by (auto simp: cancel_pass_def Let_def split: if_splits)
  with s(1) show ?thesis using cancel_loop_jobs [of k ?s1 wfl "filter job_live (jobSnapshot ?s1)"] by auto
qed

end

end
