(* ===== verification/Gate_Theorems.thy ===== *)
theory Gate_Theorems
  imports Gate_Props Claim_Theorems
begin

text \<open>
  The properties of the gate sweep (\<^verbatim>\<open>internal/gate/sweep.go\<close>). The locale of the Jobs is interpreted on
  a cluster: the versioned store of Attempts together with Jobs by namespace, behind a host.
\<close>

section \<open>Sweeps in general\<close>


text \<open>
  A blind sweep destroys nothing: when the list of the Jobs failed, the job-death pass, the
  never-dispatched pass and the cancel pass leave the whole sweep as it is; when the deadline has
  passed, so do the never-dispatched pass and the cancel pass.
\<close>

theorem blind_sweep_inert:
  "(jobListErr s \<longrightarrow> job_death_pass d wfl claims s = s \<and> never_dispatched_pass d wfl claims s = s \<and> cancel_pass d wfl s = s) \<and>
   (gd_done d (sw_world s) \<noteq> None \<longrightarrow> never_dispatched_pass d wfl claims s = s \<and> cancel_pass d wfl s = s)"
  by (auto simp: jobListErr_def job_death_pass_def never_dispatched_pass_def cancel_pass_def activeJobs_def Let_def
      split: option.splits sum.splits)

section \<open>A cluster\<close>

text \<open>A client of one part of a world, seen as a client of the whole.\<close>

definition on_fst :: "('a \<Rightarrow> 'r \<times> 'a) \<Rightarrow> 'a \<times> 'b \<Rightarrow> 'r \<times> 'a \<times> 'b" where
  "on_fst g w = (case g (fst w) of (r, a) \<Rightarrow> (r, a, snd w))"

definition lift_client :: "'a Client \<Rightarrow> ('a \<times> 'b) Client" where
  "lift_client c =
     \<lparr>cl_now = (\<lambda>w. cl_now c (fst w)), cl_get = (\<lambda>ns n. on_fst (cl_get c ns n)), cl_create = (\<lambda>a. on_fst (cl_create c a)),
      cl_patchStatus = (\<lambda>base a. on_fst (cl_patchStatus c base a)), cl_patch = (\<lambda>base a. on_fst (cl_patch c base a)),
      cl_delete = (\<lambda>ns n. on_fst (cl_delete c ns n)), cl_list = (\<lambda>ns eqs absent. on_fst (cl_list c ns eqs absent)),
      cl_setOwner = cl_setOwner c, cl_retries = cl_retries c, cl_pause = (\<lambda>w. (cl_pause c (fst w), snd w))\<rparr>"

lemma on_fst_eq: "on_fst g w = (r, w') \<longleftrightarrow> g (fst w) = (r, fst w') \<and> snd w' = snd w"
  by (cases w') (auto simp: on_fst_def split: prod.split)

lemma lift_client_sel [simp]:
  "cl_now (lift_client c) w = cl_now c (fst w)" "cl_get (lift_client c) ns n = on_fst (cl_get c ns n)"
  "cl_create (lift_client c) a = on_fst (cl_create c a)" "cl_patchStatus (lift_client c) base a = on_fst (cl_patchStatus c base a)"
  "cl_patch (lift_client c) base a = on_fst (cl_patch c base a)" "cl_delete (lift_client c) ns n = on_fst (cl_delete c ns n)"
  "cl_list (lift_client c) ns eqs absent = on_fst (cl_list c ns eqs absent)" "cl_setOwner (lift_client c) = cl_setOwner c"
  "cl_pause (lift_client c) w = (cl_pause c (fst w), snd w)"
  by (simp_all add: lift_client_def)

lemma lift_store:
  assumes "api_store c objs"
  shows "api_store (lift_client c) (\<lambda>w. objs (fst w))"
proof -
  note laws = api_store.stored_key [OF assms] api_store.get_ok [OF assms] api_store.get_err [OF assms]
    api_store.create_ok [OF assms] api_store.create_err [OF assms] api_store.patchStatus_ok [OF assms]
    api_store.patchStatus_err [OF assms] api_store.patch_ok [OF assms] api_store.patch_err [OF assms]
    api_store.delete_ok [OF assms] api_store.delete_err [OF assms] api_store.list_ok [OF assms] api_store.list_err [OF assms]
    api_store.owner_ok [OF assms]
  show ?thesis by unfold_locales (auto simp: on_fst_eq api_store.pause_ok [OF assms] dest: laws dest!: laws(6,8))
qed

lemma lift_frame: "client_frame (lift_client c) snd"
  by unfold_locales (simp_all add: on_fst_def split: prod.split)

text \<open>A cluster: a store of Attempts and the Jobs by namespace, behind a host that does not change.\<close>

type_synonym cluster = "store \<times> (string \<times> Job) list"

record host =
  ho_api :: API
  ho_pulls :: "PullRequest list"
  ho_wake :: GateWake
  ho_capacity :: int

definition cluster_deps :: "host \<Rightarrow> cluster GateDeps" where
  "cluster_deps h =
     \<lparr>gd_client = lift_client store_server, gd_record = lift_client store_server, gd_urlPath = (\<lambda>u. None), gd_Scheme = False,
      gd_decode = (\<lambda>cfg. Some [cfg]), gd_FleetMaxConcurrent = ho_capacity h, gd_DisableCancelOnSupersede = False,
      gd_Wake = ho_wake h, gd_done = (\<lambda>w. None), gd_getStatus = (\<lambda>n w. (Inr None, w)), gd_patchStatus = (\<lambda>n st w. (None, w)),
      gd_listJobs = (\<lambda>ns n w. (Inr (map snd (filter (\<lambda>x. fst x = ns) (snd w))), w)),
      gd_deleteJob = (\<lambda>ns n w. if (ns, n) \<in> set (map (\<lambda>x. (fst x, job_Name (snd x))) (snd w))
         then (None, fst w, filter (\<lambda>x. (fst x, job_Name (snd x)) \<noteq> (ns, n)) (snd w))
         else (Some (api_error NotFound), w)),
      gd_api = (\<lambda>w. (ho_api h, w)), gd_listPulls = (\<lambda>repo label w. (Inr (ho_pulls h), w)),
      gd_listThreads = (\<lambda>repo pr w. (Inr [], w)), gd_deleteLabel = (\<lambda>repo pr label w. (None, w)),
      gd_postComment = (\<lambda>repo pr body w. (None, w)), gd_postStatus = (\<lambda>repo sha state ctxt desc w. (None, w)), gd_TL = None\<rparr>"

definition cluster_jobs :: "cluster \<Rightarrow> (string \<times> string) set" where
  "cluster_jobs w = set (map (\<lambda>x. (fst x, job_Name (snd x))) (snd w))"

lemma frame_snd: "client_frame c snd \<Longrightarrow> client_frame c (\<lambda>w. g (snd w))"
  by (auto simp: client_frame_def)

interpretation cluster: gate_jobs "cluster_deps h" cluster_jobs for h
proof -
  have "client_frame (lift_client store_server) cluster_jobs"
    using frame_snd [OF lift_frame, where g = "\<lambda>js. set (map (\<lambda>x. (fst x, job_Name (snd x))) js)"] by (simp add: cluster_jobs_def [abs_def])
  then show "gate_jobs (cluster_deps h) cluster_jobs"
    by (auto simp: gate_jobs_def gate_frame_def gate_frame_axioms_def gate_jobs_axioms_def cluster_deps_def cluster_jobs_def
        split: if_splits)
qed


text \<open>A cluster with a superseded claim whose Job still runs.\<close>

definition quiet_host :: host where
  "quiet_host = \<lparr>ho_api = \<lparr>api_GetPullRequest = (\<lambda>repo pr. Inl ''down''), api_RequiredContexts = (\<lambda>repo b. Inr []),
       api_ContextStates = (\<lambda>repo sha. Inr []), api_ListComments = (\<lambda>repo pr t. Inr []),
       api_ListCommentsAll = (\<lambda>repo pr. Inr ([], False))\<rparr>,
     ho_pulls = [], ho_wake = \<lparr>gw_PR = [], gw_Action = [], gw_Revision = [], gw_Repo = []\<rparr>, ho_capacity = 1\<rparr>"

definition review_job :: "string \<Rightarrow> string \<Rightarrow> Job" where
  "review_job name attempt = \<lparr>job_Name = name, job_Labels = [(AttemptLabel, attempt)], job_DeletionTimestamp = None,
     job_CompletionTime = None, job_Conditions = [], job_Controller = Some \<lparr>own_Kind = ''Attempt'', own_UID = ''u1''\<rparr>\<rparr>"

definition superseded_cluster :: cluster where
  "superseded_cluster =
     (\<lparr>sv_objects = [one_attempt\<lparr>at_Namespace := wf_Namespace review_workflow,
         at_Status := AttemptStatus0\<lparr>st_Review := Some (ReviewClaimStatus0\<lparr>rc_PR := ''o/r#7'',
           rc_Released := True, rc_ReleaseReason := ''superseded''\<rparr>)\<rparr>\<rparr>], sv_clock = 1000, sv_version = 9\<rparr>,
      [(wf_Namespace review_workflow, review_job ''j1'' ''a''), (wf_Namespace review_workflow, review_job ''j2'' ''b'')])"

lemma superseded_cluster_run:
  "cluster_jobs superseded_cluster - cluster_jobs (snd (runGate (cluster_deps quiet_host) review_workflow False superseded_cluster)) =
     {(wf_Namespace review_workflow, ''j1'')}"
  by code_simp



section \<open>Releases are decided by fact\<close>

lemma release_objs:
  assumes "api_store (gd_client d) objs" and "objs (sw_world (releaseClaim d c reason s)) k \<noteq> objs (sw_world s) k"
  shows "k = (at_Namespace c, at_Name c)"
proof -
  obtain r w' where r: "ReleaseClaim (gd_client d) (at_Namespace c) (at_Name c) reason (sw_world s) = (r, w')" by fastforce
  with assms(2) conjunct1 [OF api_store.release_claim_store [OF assms(1) r]] show ?thesis
    by (auto simp: releaseClaim_def simp del: split_paired_All)
qed

lemma release_dead_objs:
  assumes "api_store (gd_client d) objs" and "objs (sw_world (releaseDeadClaim d c reason s)) k \<noteq> objs (sw_world s) k"
  shows "k = (at_Namespace c, at_Name c)"
proof -
  let ?ns = "at_Namespace c" and ?n = "at_Name c"
  obtain p cap w1 where p: "patchAttemptStatus_with (gd_client d) ?ns ?n (release_dead reason) (False, 0) (sw_world s) = ((p, cap), w1)"
    by (metis prod.exhaust)
  obtain q w2 where q: "markClaimReleased (gd_client d) ?ns ?n w1 = (q, w2)" by fastforce
  have "sw_world (releaseDeadClaim d c reason s) \<in> {w1, w2}"
    using p q by (auto simp: releaseDeadClaim_def ReleaseClaimDead_def split: prod.splits option.splits)
  moreover have "k \<noteq> (?ns, ?n) \<Longrightarrow> objs w1 k = objs (sw_world s) k"
    using api_store.patch_store [OF assms(1) p] by (cases p) auto
  moreover have "k \<noteq> (?ns, ?n) \<Longrightarrow> objs w2 k = objs w1 k"
    using api_store.mark_store [OF assms(1), of ?ns ?n w1 q w2] q by (cases q) auto
  ultimately show ?thesis using assms(2) by auto
qed

lemma fold_objs:
  assumes "\<And>c s. c \<in> set cs \<Longrightarrow> inva s \<Longrightarrow> inva (g c s)" and "inva s"
    and "\<And>c s. c \<in> set cs \<Longrightarrow> inva s \<Longrightarrow> view (g c s) \<noteq> view s \<Longrightarrow> P c"
    and "view (fold g cs s) \<noteq> view s"
  shows "\<exists>c\<in>set cs. P c"
  using assms
proof (induction cs arbitrary: s)
  case (Cons c cs)
  show ?case
  proof (cases "view (g c s) = view s")
    case True
    with Cons.prems have "\<exists>c\<in>set cs. P c" by (intro Cons.IH [of "g c s"]) auto
    then show ?thesis by auto
  qed (use Cons.prems in auto)
qed simp

lemma step_jobs [simp]:
  "sw_jobs (releaseClaim d c reason s) = sw_jobs s" "sw_jobs (releaseDeadClaim d c reason s) = sw_jobs s"
  "sw_keepArmed (releaseClaim d c reason s) = sw_keepArmed s" "sw_releasedInA (releaseClaim d c reason s) = sw_releasedInA s"
  by (simp_all add: releaseClaim_def releaseDeadClaim_def)

lemma pass_steps_sel [simp]:
  "sw_jobs (death_step d c s) = sw_jobs s" "sw_jobs (never_step d c s) = sw_jobs s"
  "sw_keepArmed (never_step d c s) = sw_keepArmed s" "sw_releasedInA (never_step d c s) = sw_releasedInA s"
  by (simp_all add: death_step_def never_step_def Let_def split: option.split)

lemma jobAlive_cong: "sw_jobs s = sw_jobs t \<Longrightarrow> jobAlive s n = jobAlive t n \<and> jobDeath s n = jobDeath t n"
  by (simp add: jobAlive_def jobDeath_def jobSnapshot_def)

text \<open>
  C25. Releases are decided by fact: over a store without interfering writers, the job-death pass changes
  an Attempt only if it is a dispatched claim of the list whose Jobs in the one snapshot are neither
  alive nor completed, and the never-dispatched pass only if it is a claim that was never dispatched,
  has its arm clock, has no live Job, was not released before in this sweep and was not found waiting
  or proceeding in it. A running or a finished review is never counted as lost.
\<close>

theorem releases_by_fact:
  assumes "api_store (gd_client d) objs" and "\<And>ns n w. objs (snd (gd_listJobs d ns n w)) = objs w"
  shows "(objs (sw_world (job_death_pass d wfl claims s)) k \<noteq> objs (sw_world s) k \<longrightarrow>
      (\<exists>c\<in>set claims. k = (at_Namespace c, at_Name c) \<and> \<not> queued c \<and> \<not> jobAlive (activeJobs d wfl s) (at_Name c) \<and>
         jobDeath (activeJobs d wfl s) (at_Name c) \<noteq> ''completed'')) \<and>
    (objs (sw_world (never_dispatched_pass d wfl claims s)) k \<noteq> objs (sw_world s) k \<longrightarrow>
      (\<exists>c\<in>set claims. k = (at_Namespace c, at_Name c) \<and> queued c \<and> \<not> jobAlive (activeJobs d wfl s) (at_Name c) \<and>
         rc_ArmedSince (review_of (at_Status c)) \<noteq> None \<and> at_Name c \<notin> set (sw_releasedInA s) \<and>
         rc_PR (review_of (at_Status c)) \<notin> set (sw_keepArmed s)))"
proof -
  let ?s = "activeJobs d wfl s"
  have jobs: "objs (sw_world ?s) = objs (sw_world s)"
    using assms(2) by (auto simp: activeJobs_def split: option.split prod.split) (metis snd_conv)+
  have kept: "sw_keepArmed ?s = sw_keepArmed s" "sw_releasedInA ?s = sw_releasedInA s"
    by (auto simp: activeJobs_def split: option.split prod.split)
  let ?at = "\<lambda>t. objs (sw_world t) k"
  let ?P = "\<lambda>c. k = (at_Namespace c, at_Name c) \<and> \<not> queued c \<and> \<not> jobAlive ?s (at_Name c) \<and> jobDeath ?s (at_Name c) \<noteq> ''completed''"
  let ?Q = "\<lambda>c. k = (at_Namespace c, at_Name c) \<and> queued c \<and> \<not> jobAlive ?s (at_Name c) \<and>
     rc_ArmedSince (review_of (at_Status c)) \<noteq> None \<and> at_Name c \<notin> set (sw_releasedInA s) \<and>
     rc_PR (review_of (at_Status c)) \<notin> set (sw_keepArmed s)"
  have death: "?at (death_step d c t) \<noteq> ?at t \<Longrightarrow> ?P c" if "sw_jobs t = sw_jobs ?s" for c t
    using jobAlive_cong [OF that, of "at_Name c"] release_dead_objs [OF assms(1), of c _ t k]
    by (auto simp: death_step_def past_death_grace_def queued_def split: if_splits option.splits)
  have never: "?at (never_step d c t) \<noteq> ?at t \<Longrightarrow> ?Q c"
    if "sw_jobs t = sw_jobs ?s \<and> sw_keepArmed t = sw_keepArmed s \<and> sw_releasedInA t = sw_releasedInA s" for c t
    using jobAlive_cong [of t ?s "at_Name c"] release_objs [OF assms(1), of c _ t k] that
    by (auto simp: never_step_def queued_def Let_def split: if_splits option.splits)
  show ?thesis
  proof (intro conjI impI)
    assume "?at (job_death_pass d wfl claims s) \<noteq> ?at s"
    then have "?at (fold (death_step d) claims ?s) \<noteq> ?at ?s"
      using jobs by (auto simp: job_death_pass_def Let_def split: if_splits)
    then show "\<exists>c\<in>set claims. ?P c"
      using fold_objs [of claims "\<lambda>t. sw_jobs t = sw_jobs ?s" "death_step d" ?s ?at ?P] death by simp
  next
    assume "?at (never_dispatched_pass d wfl claims s) \<noteq> ?at s"
    then have "?at (fold (never_step d) claims ?s) \<noteq> ?at ?s"
      using jobs by (auto simp: never_dispatched_pass_def Let_def split: if_splits)
    then show "\<exists>c\<in>set claims. ?Q c"
      using fold_objs [of claims "\<lambda>t. sw_jobs t = sw_jobs ?s \<and> sw_keepArmed t = sw_keepArmed s \<and> sw_releasedInA t = sw_releasedInA s"
          "never_step d" ?s ?at ?Q] never kept
      by simp
  qed
qed

section \<open>Over capacity\<close>

lemma drain_keeps: "length (sw_out s) \<le> length (sw_out (drain d wfl label claims cands s))"
proof (induction cands arbitrary: s)
  case (Cons cand rest)
  obtain skip cand1 s1 where m: "memo_check d label cand s = (skip, cand1, s1)" by (metis prod.exhaust)
  obtain gone cand2 s2 where c: "claimed_check d wfl label claims cand1 s1 = (gone, cand2, s2)" by (metis prod.exhaust)
  let ?t = "decide_candidate d wfl label cand2 s2"
  have "length (sw_out s2) \<le> length (sw_out ?t)"
    using decide_candidate_slot [of s2 d wfl label cand2] by (auto simp: one_slot_def)
  then show ?case
    using memo_check_sel [OF m] claimed_check_sel [OF c] Cons.IH [of s1] Cons.IH [of s2] Cons.IH [of ?t]
    by (cases skip; cases gone) (auto simp: m c)
qed simp

lemma fill_keeps: "length (sw_out s) \<le> length (sw_out (fill d wfl wakeOnly claims s))"
proof -
  obtain cands s1 where c: "candidates d wfl wakeOnly s = (cands, s1)" by fastforce
  with candidates_sel [OF c] drain_keeps [of s1] show ?thesis by (simp add: fill_def)
qed

text \<open>What a sweep hands out, from the claims that its two lists return.\<close>

lemma runGate_out:
  assumes "wspec_ReviewReady (wf_Spec wfl) = Some rr"
    and "LiveReviewClaims (gd_client d) wfl (sw_world (start d wfl w)) = (Inr claims, v1)"
    and "\<not> isl (fst (LiveReviewClaims (gd_client d) wfl (sw_world (settle d wfl claims ((start d wfl w)\<lparr>sw_world := v1\<rparr>)))))"
  shows "\<exists>out. fst (runGate d wfl wakeOnly w) = Inr out \<and>
    length (sw_out (settle d wfl claims ((start d wfl w)\<lparr>sw_world := v1\<rparr>))) \<le> length out"
proof -
  let ?s1 = "settle d wfl claims ((start d wfl w)\<lparr>sw_world := v1\<rparr>)"
  let ?cap = "EffectiveMaxConcurrent (Some rr) (gd_FleetMaxConcurrent d)"
  obtain live v2 where l: "LiveReviewClaims (gd_client d) wfl (sw_world ?s1) = (Inr live, v2)"
    using assms(3) by (metis isl_def prod.collapse sum.exhaust)
  let ?s2 = "relist ?cap live (?s1\<lparr>sw_world := v2\<rparr>)"
  have "fst (runGate d wfl wakeOnly w) = Inr (sw_out (fill d wfl wakeOnly live ?s2))"
    using assms(1,2) l by (simp add: runGate_def Let_def)
  moreover have "sw_out ?s2 = sw_out ?s1" by (simp add: relist_def Let_def)
  ultimately show ?thesis using fill_keeps [of ?s2 d wfl wakeOnly live] by auto
qed

definition green_host :: host where
  "green_host = quiet_host\<lparr>ho_api := (ho_api quiet_host)
     \<lparr>api_GetPullRequest := (\<lambda>repo pr. Inr \<lparr>pull_Number = 0, pull_State = ''open'',
        pull_HeadSHA = (if pr = 7 then ''abc'' else ''abd''), pull_Base = ''main'', pull_Labels = [''l'']\<rparr>)\<rparr>\<rparr>"

definition queued_attempt :: "string \<Rightarrow> string \<Rightarrow> string \<Rightarrow> Attempt" where
  "queued_attempt name pr sha = one_attempt\<lparr>at_Name := name, at_Namespace := wf_Namespace review_workflow,
     at_Labels := [(WorkflowLabel, wf_Name review_workflow), (ObjectiveKindLabel, DeriveKind review_workflow)],
     at_Status := AttemptStatus0\<lparr>st_Review := Some (ReviewClaimStatus0\<lparr>rc_PR := pr, rc_HeadSHA := sha, rc_Label := ''l'',
       rc_ArmedSince := Some 900\<rparr>)\<rparr>\<rparr>"

definition two_claims :: "Attempt list" where
  "two_claims = [queued_attempt ''a'' ''o/r#7'' ''abc'', queued_attempt ''b'' ''o/r#8'' ''abd'']"

definition two_queued :: cluster where
  "two_queued = (\<lparr>sv_objects = two_claims, sv_clock = 1000, sv_version = 9\<rparr>, [])"

lemma two_queued_listed:
  "LiveReviewClaims (gd_client (cluster_deps green_host)) review_workflow
     (sw_world (start (cluster_deps green_host) review_workflow two_queued)) = (Inr two_claims, two_queued)"
  by code_simp

definition two_settled :: "cluster sweep" where
  "two_settled = settle (cluster_deps green_host) review_workflow two_claims
     ((start (cluster_deps green_host) review_workflow two_queued)\<lparr>sw_world := two_queued\<rparr>)"

lemma two_settled_out: "length (sw_out two_settled) = 2"
  by code_simp

lemma two_settled_listed: "\<not> isl (fst (LiveReviewClaims (gd_client (cluster_deps green_host)) review_workflow (sw_world two_settled)))"
  by code_simp


section \<open>Pointers\<close>

lemma digits_value_snoc: "digits_value (ds @ [x]) = 10 * digits_value ds + (of_char x - 48)"
  by (simp add: digits_value_def)

lemma show_nat_digits: "list_all is_digit (show_nat n) \<and> digits_value (show_nat n) = n \<and> show_nat n \<noteq> []"
proof (induction n rule: show_nat.induct)
  case (1 n)
  have d: "is_digit (char_of (48 + k))" "(of_char (char_of (48 + k) :: char) :: nat) - 48 = k" if "k < 10" for k :: nat
    using that by (auto simp: is_digit_def less_eq_char_def)
  show ?case
  proof (cases "n < 10")
    case True
    then show ?thesis using d [of n] by (subst (1 2 3) show_nat.simps) (simp add: digits_value_def)
  next
    case False
    then show ?thesis using 1 d [of "n mod 10"] by (subst (1 2 3) show_nat.simps) (simp add: digits_value_snoc)
  qed
qed

lemma is_digit_signs: "is_digit c \<Longrightarrow> c \<noteq> CHR ''-'' \<and> c \<noteq> CHR ''+'' \<and> c \<noteq> CHR ''#''"
  by (auto simp: is_digit_def less_eq_char_def)

lemma Atoi_show: "0 \<le> n \<Longrightarrow> n < 2 ^ 63 \<Longrightarrow> Atoi (show_int n) = Some n"
proof -
  assume n: "0 \<le> n" "n < 2 ^ 63"
  obtain x xs where s: "show_nat (nat n) = x # xs" using show_nat_digits [of "nat n"] by (cases "show_nat (nat n)") auto
  with show_nat_digits [of "nat n"] have "is_digit x" "list_all is_digit (x # xs)" "int (digits_value (x # xs)) = n" using n by auto
  then show ?thesis using n s is_digit_signs [of x] by (simp add: Atoi_def show_int_def HasPrefix_def Let_def)
qed

text \<open>
  Pointer round trip: the pointer that the gate prints for a pull request of a repository path is read
  back as that repository and number.
\<close>

theorem pointer_roundtrip:
  assumes "Contains repo ''/''" and "0 < n" "n < 2 ^ 63"
  shows "parsePRPointer (pointer_text repo n) = Inr (repo, n)"
proof -
  have "CHR ''#'' \<notin> set (show_int n)"
    using show_nat_digits [of "nat n"] is_digit_signs assms(2) by (auto simp: show_int_def list_all_iff)
  then show ?thesis
    using LastIndexByte_append [of "CHR ''#''" "show_int n" repo] Atoi_show [of n] assms
    by (simp add: parsePRPointer_def pointer_text_def)
qed

lemma pointer_roundtrip_witness: "parsePRPointer (pointer_text ''github.com/o/r'' 42) = Inr (''github.com/o/r'', 42)"
  by (rule pointer_roundtrip) (code_simp, simp, simp)

section \<open>Decisions and releases\<close>

text \<open>
  Which decision takes deletion authority: a stand-down of the evaluation is released with a reason that
  cancels the running review exactly when the pull request is closed or was disarmed, or its head
  moved away from the armed head before a verdict came.
\<close>

theorem cancellation_exact:
  "eva_Decision (res_Evaluation (Evaluate api p)) = DecisionStanddown \<and>
     IsCancellationRelease (classifyRelease (res_Evaluation (Evaluate api p))) \<longleftrightarrow>
   prm_DisarmHint p \<or> pull_is api p (\<lambda>pr. pull_State pr = ''closed'') \<or>
   pull_is api p (\<lambda>pr. pull_State pr = ''open'' \<and> head_moved p pr \<and>
     (prm_DispatchedAt p = zero_time \<or>
      prm_Label p \<in> set (pull_Labels pr) \<and> 0 \<le> prm_Horizon p \<and> verdict_window_empty api p))"
proof -
  note rel = evaluate_release_iff [of api p]
  let ?ev = "res_Evaluation (Evaluate api p)"
  have "eva_Decision ?ev = DecisionStanddown \<and> IsCancellationRelease (classifyRelease ?ev) \<longleftrightarrow>
      eva_Code ?ev = CodePRClosed \<or> eva_Code ?ev = CodeHeadMoved"
    using conjunct1 [OF rel] by (cases "eva_Code ?ev") (auto simp: classifyRelease_def IsCancellationRelease_def)
  with rel show ?thesis by blast
qed

text \<open>
  Presumed dead means past the wall: when the gate gives up a dispatched claim on its timeout, whatever
  durations are configured, then no verdict is in the window of the claim and the dispatch is older than
  the bound on a run by at least the minimal margin.
\<close>

theorem presumed_dead_after_wall:
  assumes "rc_DispatchedAt r = Some t"
    and "eva_Decision (res_Evaluation (Evaluate api (claim_params rr now repo pr r))) = DecisionStanddown"
    and "classifyRelease (res_Evaluation (Evaluate api (claim_params rr now repo pr r))) = ReleaseReasonDispatchTimeout"
    and "now \<noteq> zero_time"
  shows "RunBoundDuration rr + MinDispatchMargin \<le> now - t \<and> verdict_window_empty api (claim_params rr now repo pr r)"
proof -
  let ?p = "claim_params rr now repo pr r"
  note rel = evaluate_release_iff [of api ?p]
  have "eva_Code (res_Evaluation (Evaluate api ?p)) = CodeDispatchDead"
    using conjunct1 [OF rel] assms(2,3) by (cases "eva_Code (res_Evaluation (Evaluate api ?p))") (auto simp: classifyRelease_def)
  with rel have "DispatchTimeoutDuration rr \<le> now - t" "verdict_window_empty api ?p"
    using assms(1,4) by (auto simp: pull_is_def claim_params_def nowFrom_def)
  with DispatchTimeout_margin [of rr] show ?thesis by simp
qed

section \<open>The refusal notice\<close>

lemma marker_skip: "CHR ''<'' \<notin> set xs \<Longrightarrow> refusalNoticeMarker (xs @ ys) = refusalNoticeMarker ys"
  by (induction xs) (auto simp: marker_at_def HasPrefix_def Let_def)

lemma ShaPrefixMatch_refl [simp]: "ShaPrefixMatch head head"
  by (simp add: ShaPrefixMatch_def HasPrefix_def)

lemma marker_found:
  assumes "list_all is_hex sha" "7 \<le> length sha" "length sha \<le> 40"
  shows "refusalNoticeMarker (''<!-- '' @ refusalNoticeMarkerName @ '' @ '' @ sha @ '' -->'') = Some sha"
proof -
  have "marker_at (''<!-- '' @ refusalNoticeMarkerName @ '' @ '' @ sha @ '' -->'') = Some sha"
    using hex_run [OF assms(1), of "[]"] assms(2,3) by (simp add: marker_at_def HasPrefix_def refusalNoticeMarkerName_def)
  then show ?thesis by simp
qed

lemma hex_no_angle: "list_all is_hex sha \<Longrightarrow> CHR ''<'' \<notin> set sha"
  by (auto simp: list_all_iff is_hex_def less_eq_char_def)

lemma notice_recognised:
  assumes "list_all is_hex (ref_HeadSHA ref)" "7 \<le> length (ref_HeadSHA ref)" "length (ref_HeadSHA ref) \<le> 40"
    and "CHR ''<'' \<notin> set (ref_VerdictURL ref)" "CHR ''<'' \<notin> set (ref_Reason ref)"
    and "c \<in> set comments" "ic_Body c = notice_body ref"
  shows "refusalNoticeStanding comments (ref_HeadSHA ref)"
proof -
  let ?head = "''Review gate (#567): this head (`'' @ ref_HeadSHA ref @ ''`) was already reviewed '' @ em_dash @
     '' no new review runs at the same SHA.'' @
     (if ref_VerdictURL ref = [] then [] else '' The verdict: '' @ ref_VerdictURL ref) @ '' '' @ ref_Reason ref @ '' ''"
  have "CHR ''<'' \<notin> set ?head" using hex_no_angle [OF assms(1)] assms(4,5) by (simp add: em_dash_def)
  then have "refusalNoticeMarker (ic_Body c) = Some (ref_HeadSHA ref)"
    using marker_skip [of ?head] marker_found [OF assms(1-3)] assms(7) by (simp add: notice_body_def)
  with assms(6) show ?thesis by (force simp: refusalNoticeStanding_def list_ex_iff)
qed

text \<open>
  One notice per refused head: when the conversation already holds the notice of this head, posted by
  whichever sweep, the sweep posts nothing (the world is only read) and marks the memo entry as
  notified. The head is a hexadecimal commit id and neither the link nor the reason of the posted notice
  holds an angle bracket.
\<close>

theorem notice_posted_once:
  assumes "ReviewRefusalFor (sw_refusals s) repo pr = Some ref" "gd_api d (sw_world s) = (api, w)"
    and "api_ListCommentsAll api repo pr = Inr (comments, truncated)" "c \<in> set comments" "ic_Body c = notice_body posted"
    and "ref_HeadSHA posted = ref_HeadSHA ref" "list_all is_hex (ref_HeadSHA ref)"
    and "7 \<le> length (ref_HeadSHA ref)" "length (ref_HeadSHA ref) \<le> 40"
    and "CHR ''<'' \<notin> set (ref_VerdictURL posted)" "CHR ''<'' \<notin> set (ref_Reason posted)"
  shows "notifyRefusalHost d repo pr s =
    (if ref_HostNotified ref then s
     else s\<lparr>sw_world := w, sw_refusals := update_refusal (\<lambda>r. r\<lparr>ref_HostNotified := True\<rparr>) repo pr (sw_refusals s)\<rparr>)"
proof -
  have "refusalNoticeStanding comments (ref_HeadSHA ref)"
    using notice_recognised [of posted c comments] assms by simp
  with assms(1-3) show ?thesis by (simp add: notifyRefusalHost_def)
qed

section \<open>Witnesses\<close>


definition blind :: "cluster sweep" where
  "blind = (start (cluster_deps green_host) review_workflow two_queued)\<lparr>sw_jobs := Some (Inl (api_error OtherError))\<rparr>"

lemma blind_sweep_inert_witness:
  "job_death_pass (cluster_deps green_host) review_workflow two_claims blind = blind \<and>
   never_dispatched_pass (cluster_deps green_host) review_workflow two_claims blind = blind \<and>
   cancel_pass (cluster_deps green_host) review_workflow blind = blind"
  using blind_sweep_inert [of blind] by (simp add: blind_def jobListErr_def)

definition lost_claim :: Attempt where
  "lost_claim = (queued_attempt ''a'' ''o/r#7'' ''abc'')\<lparr>at_Status := AttemptStatus0\<lparr>st_Review := Some (ReviewClaimStatus0
     \<lparr>rc_PR := ''o/r#7'', rc_HeadSHA := ''abc'', rc_DispatchedAt := Some 1\<rparr>)\<rparr>\<rparr>"

definition lost_sweep :: "cluster sweep" where
  "lost_sweep = start (cluster_deps green_host) review_workflow
     (\<lparr>sv_objects = [lost_claim], sv_clock = 3600000000000, sv_version = 9\<rparr>, [])"

lemma lost_sweep_changes:
  "store_objs (fst (sw_world (job_death_pass (cluster_deps green_host) review_workflow [lost_claim] lost_sweep))) (''ns'', ''a'') \<noteq>
     store_objs (fst (sw_world lost_sweep)) (''ns'', ''a'')"
  by code_simp

lemma releases_by_fact_witness:
  "\<not> queued lost_claim \<and> \<not> jobAlive (activeJobs (cluster_deps green_host) review_workflow lost_sweep) (at_Name lost_claim)"
proof -
  have s: "api_store (gd_client (cluster_deps green_host)) (\<lambda>w. store_objs (fst w))"
    using lift_store [OF server.api_store_axioms] by (simp add: cluster_deps_def)
  have j: "store_objs (fst (snd (gd_listJobs (cluster_deps green_host) ns n w))) = store_objs (fst w)" for ns n w
    by (simp add: cluster_deps_def)
  note changed = conjunct1 [OF releases_by_fact [OF s j, of review_workflow "[lost_claim]" lost_sweep "(''ns'', ''a'')"]]
  obtain c where "c \<in> set [lost_claim]" "\<not> queued c"
    "\<not> jobAlive (activeJobs (cluster_deps green_host) review_workflow lost_sweep) (at_Name c)"
    using mp [OF changed lost_sweep_changes] by blast
  then show ?thesis by (metis empty_iff list.set(1) set_ConsD)
qed

definition dead_claim :: ReviewClaimStatus where
  "dead_claim = ReviewClaimStatus0\<lparr>rc_PR := ''o/r#7'', rc_HeadSHA := ''abc'', rc_Label := ''l'', rc_DispatchedAt := Some 1\<rparr>"

abbreviation (input) dead_params :: Params where
  "dead_params \<equiv> claim_params (wspec_ReviewReady (wf_Spec review_workflow)) 3600000000000 ''o/r'' 7 dead_claim"

lemma presumed_dead_after_wall_witness:
  "RunBoundDuration (wspec_ReviewReady (wf_Spec review_workflow)) + MinDispatchMargin \<le> 3600000000000 - 1 \<and>
   verdict_window_empty (ho_api green_host) dead_params"
proof (rule presumed_dead_after_wall)
  show "rc_DispatchedAt dead_claim = Some 1" by code_simp
  show "eva_Decision (res_Evaluation (Evaluate (ho_api green_host) dead_params)) = DecisionStanddown" by code_simp
  show "classifyRelease (res_Evaluation (Evaluate (ho_api green_host) dead_params)) = ReleaseReasonDispatchTimeout" by code_simp
qed simp

definition noticed_refusal :: ReviewRefusal where
  "noticed_refusal = (sample_refusal ''abcdef0'')\<lparr>ref_Reason := ''done''\<rparr>"

definition notice_comment :: IssueComment where
  "notice_comment = \<lparr>ic_ID = 1, ic_Body = notice_body noticed_refusal, ic_HTMLURL = []\<rparr>"

definition noticed_host :: host where
  "noticed_host = quiet_host\<lparr>ho_api := (ho_api quiet_host)
     \<lparr>api_ListCommentsAll := (\<lambda>repo pr. Inr ([notice_comment], False))\<rparr>\<rparr>"

definition noticed_sweep :: "cluster sweep" where
  "noticed_sweep = (start (cluster_deps noticed_host) review_workflow two_queued)\<lparr>sw_refusals := [noticed_refusal]\<rparr>"

lemma notice_posted_once_witness:
  "sw_refusals (notifyRefusalHost (cluster_deps noticed_host) ''h/o/r'' 7 noticed_sweep) =
     [noticed_refusal\<lparr>ref_HostNotified := True\<rparr>]"
proof -
  have "notifyRefusalHost (cluster_deps noticed_host) ''h/o/r'' 7 noticed_sweep =
    (if ref_HostNotified noticed_refusal then noticed_sweep
     else noticed_sweep\<lparr>sw_world := sw_world noticed_sweep,
       sw_refusals := update_refusal (\<lambda>r. r\<lparr>ref_HostNotified := True\<rparr>) ''h/o/r'' 7 (sw_refusals noticed_sweep)\<rparr>)"
    by (rule notice_posted_once [where comments = "[notice_comment]" and c = notice_comment and
          posted = noticed_refusal and api = "ho_api noticed_host" and truncated = False])
       (simp_all add: noticed_sweep_def noticed_host_def cluster_deps_def notice_comment_def,
        simp_all add: noticed_refusal_def sample_refusal_def is_hex_def less_eq_char_def)
  then show ?thesis by (simp add: noticed_sweep_def noticed_refusal_def sample_refusal_def)
qed

end
