(* ===== verification/Agent_Profile.thy ===== *)
theory Agent_Profile
  imports Api_Types
begin

text \<open>
  The per-environment agent configuration (\<^verbatim>\<open>api/v1alpha1/agentprofile_types.go\<close>,
  \<^verbatim>\<open>api/v1alpha1/extensions.go\<close>, \<^verbatim>\<open>internal/worker/extensions.go\<close>, \<^verbatim>\<open>internal/worker/agentprofile.go\<close>):
  the time windows that choose a model, the kernel compatibility statement, the pins of the
  runtime and of its extensions, their composition at dispatch and the manifests that carry them
  into the Job. A validator returns the error text, \<^const>\<open>None\<close> for \<^verbatim>\<open>nil\<close>. The time-zone database,
  the semantic-version library and the JSON codec are parameters.
\<close>

section \<open>Model windows\<close>

text \<open>
  \<^verbatim>\<open>time.Parse("15:04", s)\<close>: an hour of one or two digits, a colon, a minute of two digits, nothing
  else. \<open>getnum\<close> is the helper of the \<^verbatim>\<open>time\<close> package.
\<close>

definition digit_value :: "char \<Rightarrow> nat" where
  "digit_value c = of_char c - 48"

definition getnum :: "bool \<Rightarrow> string \<Rightarrow> (nat \<times> string) option" where
  "getnum fixed s =
     (case s of
        [] \<Rightarrow> None
      | c # cs \<Rightarrow>
          if \<not> is_digit c then None
          else (case cs of
                  d # ds \<Rightarrow> if is_digit d then Some (10 * digit_value c + digit_value d, ds)
                            else if fixed then None else Some (digit_value c, cs)
                | [] \<Rightarrow> if fixed then None else Some (digit_value c, [])))"

definition minutesOfDay :: "string \<Rightarrow> nat option" where
  "minutesOfDay s =
     (case getnum False s of
        Some (h, CHR '':'' # rest) \<Rightarrow>
          (case getnum True rest of
             Some (m, []) \<Rightarrow> if h < 24 \<and> m < 60 then Some (h * 60 + m) else None
           | _ \<Rightarrow> None)
      | _ \<Rightarrow> None)"

definition tzOrUTC :: "ModelWindow \<Rightarrow> string" where
  "tzOrUTC w = (if mw_TZ w = [] then ''UTC'' else mw_TZ w)"

text \<open>The comparison is Go's comparison of strings.\<close>

definition wrapsMidnight :: "ModelWindow \<Rightarrow> bool" where
  "wrapsMidnight w \<longleftrightarrow> mw_End w \<le> mw_Start w"

text \<open>
  \<open>zones\<close> stands for \<^verbatim>\<open>time.LoadLocation\<close>: the offset from UTC of a zone at an instant. The minute of
  the local day is read off the shifted instant: day boundaries fall on multiples of a day since
  the zero instant.
\<close>

definition local_minute :: "(instant \<Rightarrow> duration) \<Rightarrow> instant \<Rightarrow> int" where
  "local_minute offset now = (now + offset now) div minute mod 1440"

definition window_matches :: "(string \<Rightarrow> (instant \<Rightarrow> duration) option) \<Rightarrow> instant \<Rightarrow> ModelWindow \<Rightarrow> bool" where
  "window_matches zones now w =
     (case zones (tzOrUTC w) of
        None \<Rightarrow> False
      | Some offset \<Rightarrow>
          (case (minutesOfDay (mw_Start w), minutesOfDay (mw_End w)) of
             (Some start, Some end') \<Rightarrow>
               (let nowMin = local_minute offset now in
                if wrapsMidnight w then int start \<le> nowMin \<or> nowMin < int end'
                else int start \<le> nowMin \<and> nowMin < int end')
           | _ \<Rightarrow> False))"

fun resolveModelWindows :: "(string \<Rightarrow> (instant \<Rightarrow> duration) option) \<Rightarrow> ModelWindow list \<Rightarrow> instant \<Rightarrow> string" where
  "resolveModelWindows zones [] now = []"
| "resolveModelWindows zones (w # ws) now =
     (if window_matches zones now w then mw_Model w else resolveModelWindows zones ws now)"

definition AgentSpec_ResolveModel :: "(string \<Rightarrow> (instant \<Rightarrow> duration) option) \<Rightarrow> AgentSpec \<Rightarrow> instant \<Rightarrow> string" where
  "AgentSpec_ResolveModel zones a now =
     (let m = resolveModelWindows zones (agent_Models a) now in if m \<noteq> [] then m else agent_Model a)"

record AgentProfileSpec =
  ap_Harness :: HarnessRef
  ap_Extensions :: "ExtensionPin list"
  ap_Models :: "ModelWindow list"
  ap_Compatibility :: string

definition AgentProfileSpec_ResolveModel :: "(string \<Rightarrow> (instant \<Rightarrow> duration) option) \<Rightarrow> AgentProfileSpec \<Rightarrow> instant \<Rightarrow> string" where
  "AgentProfileSpec_ResolveModel zones p now = resolveModelWindows zones (ap_Models p) now"

definition ResolveModelWithProfile ::
  "(string \<Rightarrow> (instant \<Rightarrow> duration) option) \<Rightarrow> AgentProfileSpec option \<Rightarrow> Workflow \<Rightarrow> instant \<Rightarrow> string" where
  "ResolveModelWithProfile zones p wfl now =
     (let own = AgentSpec_ResolveModel zones (wspec_Agent (wf_Spec wfl)) now in
      case p of
        None \<Rightarrow> own
      | Some sp \<Rightarrow> (let m = AgentProfileSpec_ResolveModel zones sp now in if m \<noteq> [] then m else own))"

section \<open>The compatibility statement\<close>

text \<open>\<^verbatim>\<open>golang.org/x/mod/semver\<close>, as much of it as is called.\<close>

record semver =
  sem_IsValid :: "string \<Rightarrow> bool"
  sem_Compare :: "string \<Rightarrow> string \<Rightarrow> int"

definition CutPrefix :: "string \<Rightarrow> string \<Rightarrow> string option" where
  "CutPrefix s p = (if HasPrefix s p then Some (drop (length p) s) else None)"

definition normalizeSemver :: "string \<Rightarrow> string" where
  "normalizeSemver v = (if HasPrefix v ''v'' then v else ''v'' @ v)"

definition statement_text :: "string \<Rightarrow> string" where
  "statement_text stmt = ''AgentProfile compatibility statement '' @ quoted stmt @ '' is malformed '' @ em_dash @ '' ''"

definition CompatibilityCause :: "semver \<Rightarrow> AgentProfileSpec \<Rightarrow> string \<Rightarrow> string" where
  "CompatibilityCause sv p kernelVersion =
     (let stmt = TrimSpace (ap_Compatibility p) in
      if stmt = [] then []
      else case CutPrefix stmt ''kernel'' of
        None \<Rightarrow> statement_text stmt @ ''the only documented form is '' @ quoted ''kernel >=X.Y.Z''
      | Some rest \<Rightarrow>
          (let rest = TrimSpace rest in
           case CutPrefix rest ''>='' of
             None \<Rightarrow> statement_text stmt @ ''the only documented operator is >= ('' @ quoted ''kernel >=X.Y.Z'' @ '')''
           | Some want \<Rightarrow>
               (let want = normalizeSemver (TrimSpace want);
                    got = normalizeSemver (TrimSpace kernelVersion)
                in if \<not> sem_IsValid sv want
                   then statement_text stmt @ quoted (TrimSpace rest) @ '' is not a semantic version''
                   else if \<not> sem_IsValid sv got
                   then ''kernel version '' @ quoted kernelVersion @ '' is not a semantic version '' @ em_dash @
                     '' cannot evaluate the profile's compatibility statement '' @ quoted stmt
                   else if sem_Compare sv got want < 0
                   then ''kernel '' @ kernelVersion @ '' does not satisfy the profile's compatibility statement '' @
                     quoted stmt @ '' '' @ em_dash @ '' upgrade the kernel or relax the profile''
                   else [])))"

section \<open>Pins\<close>

definition ValidateNPMSpec :: "semver \<Rightarrow> string \<Rightarrow> string option" where
  "ValidateNPMSpec sv spec =
     (if spec = [] then Some (''source is required (exact npm spec '' @ quoted ''path@X.Y.Z'' @ '' '' @ em_dash @
          '' a range is a #502-class hazard)'')
      else case LastIndexByte spec (CHR ''@'') of
        None \<Rightarrow> Some (''source '' @ quoted spec @ '' is not an exact npm spec '' @ quoted ''path@X.Y.Z'')
      | Some i \<Rightarrow>
          if i = 0 then Some (''source '' @ quoted spec @ '' is not an exact npm spec '' @ quoted ''path@X.Y.Z'')
          else (let version = drop (i + 1) spec in
                if \<not> HasPrefix version ''v'' \<and> \<not> sem_IsValid sv (''v'' @ version)
                then Some (''source '' @ quoted spec @ '' carries version '' @ quoted version @
                  '', which is not an exact semver '' @ em_dash @
                  '' ranges, tags, and dist-tags refuse (pin the exact version)'')
                else None))"

definition base64_char :: "char \<Rightarrow> bool" where
  "base64_char r \<longleftrightarrow> CHR ''A'' \<le> r \<and> r \<le> CHR ''Z'' \<or> CHR ''a'' \<le> r \<and> r \<le> CHR ''z'' \<or> CHR ''0'' \<le> r \<and> r \<le> CHR ''9'' \<or>
     r = CHR ''+'' \<or> r = CHR ''/'' \<or> r = CHR ''=''"

definition ValidateSRI :: "string \<Rightarrow> string option" where
  "ValidateSRI sri =
     (if \<not> HasPrefix sri ''sha512-''
      then Some (''integrity '' @ quoted sri @ '' is not an SRI sha512 hash (want '' @ quoted ''sha512-<base64>'' @ '')'')
      else (let b64 = TrimPrefix sri ''sha512-'' in
            if length b64 < 43 \<or> 88 < length b64
            then Some (''integrity '' @ quoted sri @ '': sha512 base64 body has '' @ show_nat (length b64) @
                '' chars (want 43..88)'')
            else map_option (\<lambda>r. ''integrity '' @ quoted sri @ '': invalid base64 character '' @ quoted [r])
                   (find (\<lambda>r. \<not> base64_char r) b64)))"

definition pin_error :: "semver \<Rightarrow> ExtensionPin \<Rightarrow> string option" where
  "pin_error sv p =
     (if pin_Name p = [] then Some (''extension pin '' @ quoted (pin_Source p) @
          '': name is required (it names the composed set and the on-disk extension dir)'')
      else case ValidateNPMSpec sv (pin_Source p) of
        Some e \<Rightarrow> Some (''extension pin '' @ quoted (pin_Name p) @ '': '' @ e)
      | None \<Rightarrow> map_option (\<lambda>e. ''extension pin '' @ quoted (pin_Name p) @ '': '' @ e) (ValidateSRI (pin_Integrity p)))"

fun ValidateExtensionPins :: "semver \<Rightarrow> ExtensionPin list \<Rightarrow> string option" where
  "ValidateExtensionPins sv [] = None"
| "ValidateExtensionPins sv (p # ps) =
     (case pin_error sv p of Some e \<Rightarrow> Some e | None \<Rightarrow> ValidateExtensionPins sv ps)"

definition HarnessRef0 :: HarnessRef where
  "HarnessRef0 = \<lparr>hr_Runtime = [], hr_Source = [], hr_Integrity = []\<rparr>"

definition ValidateHarnessPin :: "semver \<Rightarrow> HarnessRef \<Rightarrow> string option" where
  "ValidateHarnessPin sv h =
     (if hr_Runtime h = [] \<and> hr_Source h = [] \<and> hr_Integrity h = [] then None
      else if hr_Runtime h = [] then Some (''harness pin: runtime is required (e.g. '' @ quoted ''pi@1.3.0'' @ '')'')
      else case ValidateNPMSpec sv (hr_Source h) of
        Some e \<Rightarrow> Some (''harness pin '' @ quoted (hr_Runtime h) @ '': '' @ e)
      | None \<Rightarrow> map_option (\<lambda>e. ''harness pin '' @ quoted (hr_Runtime h) @ '': '' @ e) (ValidateSRI (hr_Integrity h)))"

section \<open>Composition\<close>

text \<open>\<open>deltaByName\<close> is filled in declaration order, so that a later entry of a name replaces an earlier one.\<close>

definition deltaByName :: "ExtensionPin list \<Rightarrow> (string, ExtensionPin) gomap" where
  "deltaByName delta = fold (\<lambda>d m. map_set (pin_Name d) d m) delta []"

fun template_only :: "string list \<Rightarrow> string list \<Rightarrow> ExtensionPin list \<Rightarrow> ExtensionPin list" where
  "template_only universalNames seen [] = []"
| "template_only universalNames seen (d # ds) =
     (if pin_Name d \<in> set universalNames \<or> pin_Name d \<in> set seen then template_only universalNames seen ds
      else d # template_only universalNames (pin_Name d # seen) ds)"

definition ComposeExtensions :: "ExtensionPin list \<Rightarrow> ExtensionPin list \<Rightarrow> ExtensionPin list" where
  "ComposeExtensions universal delta =
     (if universal = [] \<and> delta = [] then []
      else map (\<lambda>u. map_get (deltaByName delta) (pin_Name u) u) universal @
           template_only (map pin_Name universal) [] delta)"

definition ComposeRuntime ::
  "semver \<Rightarrow> ExtensionPin list \<Rightarrow> ExtensionPin list \<Rightarrow> HarnessRef \<Rightarrow> string + ExtensionPin list \<times> HarnessRef option" where
  "ComposeRuntime sv universal delta harness =
     (case ValidateExtensionPins sv universal of
        Some e \<Rightarrow> Inl (''universal extensions: '' @ e)
      | None \<Rightarrow>
          (case ValidateExtensionPins sv delta of
             Some e \<Rightarrow> Inl (''template extensions: '' @ e)
           | None \<Rightarrow>
               (case ValidateHarnessPin sv harness of
                  Some e \<Rightarrow> Inl e
                | None \<Rightarrow>
                    (let composed = ComposeExtensions universal delta in
                     if composed = [] \<and> hr_Runtime harness = [] then Inr ([], None)
                     else if hr_Runtime harness \<noteq> [] then Inr (composed, Some harness)
                     else Inr (composed, None)))))"

section \<open>Manifests\<close>

text \<open>
  The JSON codec of the manifests. An \<^verbatim>\<open>ExtensionManifest\<close> has the fields of an \<^verbatim>\<open>ExtensionPin\<close> (the
  source converts one to the other), a \<^verbatim>\<open>HarnessManifest\<close> those of a \<^verbatim>\<open>HarnessRef\<close>.
\<close>

record manifest_codec =
  mc_encPins :: "ExtensionPin list \<Rightarrow> string + string"
  mc_decPins :: "string \<Rightarrow> string + ExtensionPin list"
  mc_encHarness :: "HarnessRef \<Rightarrow> string + string"
  mc_decHarness :: "string \<Rightarrow> string + HarnessRef"

definition RenderExtensionManifest :: "manifest_codec \<Rightarrow> ExtensionPin list \<Rightarrow> string + string" where
  "RenderExtensionManifest mc pins =
     (if pins = [] then Inr []
      else case mc_encPins mc pins of Inl e \<Rightarrow> Inl (''render extension manifest: '' @ e) | Inr b \<Rightarrow> Inr b)"

definition pin_complete :: "ExtensionPin \<Rightarrow> bool" where
  "pin_complete p \<longleftrightarrow> pin_Name p \<noteq> [] \<and> pin_Source p \<noteq> [] \<and> pin_Integrity p \<noteq> []"

definition ParseExtensionManifest :: "manifest_codec \<Rightarrow> string \<Rightarrow> string + ExtensionPin list" where
  "ParseExtensionManifest mc raw =
     (if TrimSpace raw = [] then Inr []
      else case mc_decPins mc raw of
        Inl e \<Rightarrow> Inl (''HARMOSTES_EXTENSION_MANIFEST: not valid JSON: '' @ e)
      | Inr m \<Rightarrow>
          (case find (\<lambda>p. \<not> pin_complete p) m of
             Some p \<Rightarrow> Inl (''HARMOSTES_EXTENSION_MANIFEST: incomplete entry {Name:'' @ pin_Name p @ '' Source:'' @
                 pin_Source p @ '' Integrity:'' @ pin_Integrity p @ ''} (want name, source, integrity)'')
           | None \<Rightarrow> Inr m))"

definition RenderHarnessManifest :: "manifest_codec \<Rightarrow> HarnessRef \<Rightarrow> string + string" where
  "RenderHarnessManifest mc h =
     (if hr_Runtime h = [] \<and> hr_Source h = [] \<and> hr_Integrity h = [] then Inr []
      else case mc_encHarness mc h of Inl e \<Rightarrow> Inl (''render harness manifest: '' @ e) | Inr b \<Rightarrow> Inr b)"

definition ParseHarnessManifest :: "manifest_codec \<Rightarrow> string \<Rightarrow> string + HarnessRef option" where
  "ParseHarnessManifest mc raw =
     (if TrimSpace raw = [] then Inr None
      else case mc_decHarness mc raw of
        Inl e \<Rightarrow> Inl (''HARMOSTES_HARNESS_MANIFEST: not valid JSON: '' @ e)
      | Inr m \<Rightarrow>
          if hr_Runtime m = [] \<or> hr_Source m = [] \<or> hr_Integrity m = []
          then Inl (''HARMOSTES_HARNESS_MANIFEST: incomplete pin {Runtime:'' @ hr_Runtime m @ '' Source:'' @
              hr_Source m @ '' Integrity:'' @ hr_Integrity m @ ''} (want runtime, source, integrity)'')
          else Inr (Some m))"

lemmas [model_defs] = digit_value_def getnum_def minutesOfDay_def tzOrUTC_def wrapsMidnight_def local_minute_def
  window_matches_def AgentSpec_ResolveModel_def AgentProfileSpec_ResolveModel_def ResolveModelWithProfile_def
  CutPrefix_def normalizeSemver_def statement_text_def CompatibilityCause_def ValidateNPMSpec_def
  base64_char_def ValidateSRI_def pin_error_def HarnessRef0_def ValidateHarnessPin_def deltaByName_def
  ComposeExtensions_def ComposeRuntime_def RenderExtensionManifest_def pin_complete_def
  ParseExtensionManifest_def RenderHarnessManifest_def ParseHarnessManifest_def

end
