(* ===== verification/Agent_Profile_Props.thy ===== *)
theory Agent_Profile_Props
  imports Agent_Profile
begin

text \<open>
  What the agent profile decides: which minutes of a day a window contains, which kernels a profile
  admits, which pins are accepted, what composition yields, and that the manifests carry it.
\<close>

section \<open>Windows over the day\<close>

definition clock_text :: "nat \<Rightarrow> nat \<Rightarrow> string" where
  "clock_text h m = [char_of (48 + h div 10), char_of (48 + h mod 10), CHR '':'',
     char_of (48 + m div 10), char_of (48 + m mod 10)]"

lemma of_char_digit: "(a :: nat) < 10 \<Longrightarrow> of_char (char_of (48 + a) :: char) = 48 + a"
  by simp

lemma is_digit_char: "(a :: nat) < 10 \<Longrightarrow> is_digit (char_of (48 + a))"
  by (simp add: is_digit_def less_eq_char_def)

lemma digit_value_char: "a < 10 \<Longrightarrow> digit_value (char_of (48 + a)) = a"
  by (simp add: digit_value_def)

lemma digit_char_less: "(a :: nat) < 10 \<Longrightarrow> b < 10 \<Longrightarrow> char_of (48 + a) < (char_of (48 + b) :: char) \<longleftrightarrow> a < b"
  by (simp add: less_char_def)

lemma digit_char_eq: "(a :: nat) < 10 \<Longrightarrow> b < 10 \<Longrightarrow> char_of (48 + a) = (char_of (48 + b) :: char) \<longleftrightarrow> a = b"
  by (metis add_left_cancel of_char_digit)

lemma minutesOfDay_clock: "h < 24 \<Longrightarrow> m < 60 \<Longrightarrow> minutesOfDay (clock_text h m) = Some (h * 60 + m)"
  by (simp add: minutesOfDay_def clock_text_def getnum_def is_digit_char digit_value_char)

lemma clock_arith:
  fixes a b c d a' b' c' d' :: nat
  assumes "b < 10" "b' < 10" "c < 6" "c' < 6" "d < 10" "d' < 10"
  shows "a < a' \<or> a = a' \<and> (b < b' \<or> b = b' \<and> (c < c' \<or> c = c' \<and> d \<le> d')) \<longleftrightarrow>
    (10 * a + b) * 60 + (10 * c + d) \<le> (10 * a' + b') * 60 + (10 * c' + d')"
proof -
  consider "a < a'" | "a' < a" | "a = a'" "b < b'" | "a = a'" "b' < b" | "a = a'" "b = b'" "c < c'"
    | "a = a'" "b = b'" "c' < c" | "a = a'" "b = b'" "c = c'" by linarith
  then show ?thesis using assms by cases auto
qed

lemma clock_text_le:
  assumes "h < 24" "m < 60" "h' < 24" "m' < 60"
  shows "clock_text h m \<le> clock_text h' m' \<longleftrightarrow> h * 60 + m \<le> h' * 60 + m'"
proof -
  have d: "h div 10 < 10" "h mod 10 < 10" "m div 10 < 10" "m mod 10 < 10"
    "h' div 10 < 10" "h' mod 10 < 10" "m' div 10 < 10" "m' mod 10 < 10" using assms by auto
  have "clock_text h m \<le> clock_text h' m' \<longleftrightarrow>
    h div 10 < h' div 10 \<or> h div 10 = h' div 10 \<and> (h mod 10 < h' mod 10 \<or> h mod 10 = h' mod 10 \<and>
      (m div 10 < m' div 10 \<or> m div 10 = m' div 10 \<and> m mod 10 \<le> m' mod 10))"
    using d by (simp add: clock_text_def digit_char_less digit_char_eq) linarith
  also have "\<dots> \<longleftrightarrow> h * 60 + m \<le> h' * 60 + m'"
    using clock_arith [of "h mod 10" "h' mod 10" "m div 10" "m' div 10" "m mod 10" "m' mod 10" "h div 10" "h' div 10"]
      assms by simp
  finally show ?thesis .
qed

lemma window_matches_clock:
  assumes "h < 24" "m < 60" "h' < 24" "m' < 60"
    and "mw_Start w = clock_text h m" "mw_End w = clock_text h' m'" and "zones (tzOrUTC w) = Some offset"
  shows "window_matches zones now w \<longleftrightarrow>
    (let n = local_minute offset now; s = int (h * 60 + m); e = int (h' * 60 + m')
     in if s < e then s \<le> n \<and> n < e else s \<le> n \<or> n < e)"
  using assms clock_text_le [OF assms(3,4,1,2)]
  by (simp add: window_matches_def minutesOfDay_clock wrapsMidnight_def Let_def)

lemma resolveModelWindows_find:
  "resolveModelWindows zones ws now = (case find (window_matches zones now) ws of None \<Rightarrow> [] | Some w \<Rightarrow> mw_Model w)"
  by (induction ws) auto

lemma unpadded_minutes: "minutesOfDay ''9:00'' = Some 540" "minutesOfDay ''17:00'' = Some 1020"
  by code_simp+

lemma local_minute_range: "0 \<le> local_minute off now \<and> local_minute off now < 1440"
  by (simp add: local_minute_def)

lemma unpadded_matches:
  "window_matches (\<lambda>z. Some off) now \<lparr>mw_Model = m, mw_Start = ''9:00'', mw_End = ''17:00'', mw_TZ = tz\<rparr>"
  by (auto simp: window_matches_def unpadded_minutes wrapsMidnight_def Let_def less_char_def)

section \<open>Compatibility\<close>

lemma CompatibilityCause_nil_iff:
  "CompatibilityCause sv p v = [] \<longleftrightarrow>
    (let stmt = TrimSpace (ap_Compatibility p) in
     stmt = [] \<or>
     (\<exists>rest want. stmt = ''kernel'' @ rest \<and> TrimSpace rest = ''>='' @ want \<and>
       (let w = normalizeSemver (TrimSpace want); g = normalizeSemver (TrimSpace v)
        in sem_IsValid sv w \<and> sem_IsValid sv g \<and> 0 \<le> sem_Compare sv g w)))"
proof -
  have cut: "CutPrefix s q = Some r \<longleftrightarrow> s = q @ r" for s q r
    by (auto simp: CutPrefix_def HasPrefix_def) (metis append_take_drop_id)
  show ?thesis
    by (auto simp: CompatibilityCause_def Let_def cut statement_text_def split: option.splits) (auto simp: CutPrefix_def HasPrefix_def)
qed

section \<open>Pins\<close>

lemma ValidateNPMSpec_iff:
  "ValidateNPMSpec sv spec = None \<longleftrightarrow>
    (\<exists>path version. spec = path @ CHR ''@'' # version \<and> path \<noteq> [] \<and> CHR ''@'' \<notin> set version \<and>
      (HasPrefix version ''v'' \<or> sem_IsValid sv (''v'' @ version)))"
proof (cases "CHR ''@'' \<in> set spec")
  case True
  then obtain p v where s: "spec = p @ CHR ''@'' # v" "CHR ''@'' \<notin> set v" by (metis split_list_last)
  then have u: "spec = p' @ CHR ''@'' # v' \<Longrightarrow> CHR ''@'' \<notin> set v' \<Longrightarrow> p' = p \<and> v' = v" for p' v'
    by (metis LastIndexByte_append append_eq_append_conv list.inject option.inject)
  have "ValidateNPMSpec sv spec = None \<longleftrightarrow> p \<noteq> [] \<and> (HasPrefix v ''v'' \<or> sem_IsValid sv (''v'' @ v))"
    using s by (auto simp: ValidateNPMSpec_def LastIndexByte_append)
  then show ?thesis using s u by metis
next
  case False
  then show ?thesis by (auto simp: ValidateNPMSpec_def LastIndexByte_None [THEN iffD2])
qed

lemma ValidateSRI_iff:
  "ValidateSRI sri = None \<longleftrightarrow>
    (\<exists>b. sri = ''sha512-'' @ b \<and> 43 \<le> length b \<and> length b \<le> 88 \<and> list_all base64_char b)"
proof -
  have p: "HasPrefix sri ''sha512-'' \<longleftrightarrow> (\<exists>b. sri = ''sha512-'' @ b)"
    by (rule HasPrefix_iff)
  show ?thesis
  proof (cases "HasPrefix sri ''sha512-''")
    case True
    then obtain b where b: "sri = ''sha512-'' @ b" using p by blast
    then have t: "TrimPrefix sri ''sha512-'' = b" by (simp add: TrimPrefix_def HasPrefix_def)
    have "ValidateSRI sri = None \<longleftrightarrow> 43 \<le> length b \<and> length b \<le> 88 \<and> find (\<lambda>r. \<not> base64_char r) b = None"
      using True by (auto simp: ValidateSRI_def t Let_def)
    then show ?thesis using b by (auto simp: find_None_iff list_all_iff)
  next
    case False
    then show ?thesis using p by (auto simp: ValidateSRI_def)
  qed
qed

text \<open>A pin that can be fetched and verified: a name, an exact source, a well-formed hash.\<close>

definition verifiable :: "semver \<Rightarrow> ExtensionPin \<Rightarrow> bool" where
  "verifiable sv p \<longleftrightarrow>
     pin_Name p \<noteq> [] \<and> ValidateNPMSpec sv (pin_Source p) = None \<and> ValidateSRI (pin_Integrity p) = None"

lemma ValidateExtensionPins_iff: "ValidateExtensionPins sv ps = None \<longleftrightarrow> list_all (verifiable sv) ps"
  by (induction ps) (auto simp: pin_error_def verifiable_def split: option.splits)

lemma verifiable_complete: "verifiable sv p \<Longrightarrow> pin_complete p"
  by (auto simp: verifiable_def pin_complete_def ValidateNPMSpec_iff ValidateSRI_iff)

section \<open>Composition\<close>

lemma deltaByName_snoc: "deltaByName (ds @ [d]) = map_set (pin_Name d) d (deltaByName ds)"
  by (simp add: deltaByName_def)

lemma map_of_deltaByName:
  "map_of (deltaByName ds) n = find (\<lambda>d. pin_Name d = n) (rev ds)"
  by (induction ds rule: rev_induct) (auto simp: deltaByName_snoc, simp add: deltaByName_def)

lemma find_rev_distinct:
  "distinct (map f xs) \<Longrightarrow> find (\<lambda>x. f x = n) (rev xs) = find (\<lambda>x. f x = n) xs"
proof (induction xs)
  case (Cons x xs)
  have "find (\<lambda>x. f x = n) (ys @ [x]) = (case find (\<lambda>x. f x = n) ys of None \<Rightarrow> if f x = n then Some x else None | Some y \<Rightarrow> Some y)" for ys
    by (induction ys) auto
  moreover have "f x = n \<Longrightarrow> find (\<lambda>x. f x = n) xs = None"
    using Cons.prems by (auto simp: find_None_iff) (metis imageI)
  ultimately show ?case using Cons by (auto split: option.splits)
qed simp

lemma template_only_names:
  "set (map pin_Name (template_only us seen ds)) = set (map pin_Name ds) - set us - set seen"
  by (induction ds arbitrary: seen) auto

lemma template_only_distinct: "distinct (map pin_Name (template_only us seen ds))"
  using template_only_names by (induction ds arbitrary: seen) fastforce+

lemma template_only_subset: "set (template_only us seen ds) \<subseteq> set ds"
  by (induction ds arbitrary: seen) auto

lemma template_only_distinct_input:
  "distinct (map pin_Name ds) \<Longrightarrow> set (map pin_Name ds) \<inter> set seen = {} \<Longrightarrow>
   template_only us seen ds = filter (\<lambda>d. pin_Name d \<notin> set us) ds"
  by (induction ds arbitrary: seen) auto

lemma override_name: "pin_Name (map_get (deltaByName ds) (pin_Name u) u) = pin_Name u"
  by (auto simp: map_get_def map_of_deltaByName find_Some_iff split: option.splits)

lemma compose_names:
  "map pin_Name (ComposeExtensions us ds) = map pin_Name us @ map pin_Name (template_only (map pin_Name us) [] ds)"
  by (simp add: ComposeExtensions_def override_name o_def)

lemma compose_subset: "set (ComposeExtensions us ds) \<subseteq> set us \<union> set ds"
proof -
  have "map_get (deltaByName ds) (pin_Name u) u \<in> insert u (set ds)" for u
    by (auto simp: map_get_def map_of_deltaByName find_Some_iff split: option.splits)
      (metis length_rev nth_mem set_rev)
  then have "set (map (\<lambda>u. map_get (deltaByName ds) (pin_Name u) u) us) \<subseteq> set us \<union> set ds"
    by (auto simp: image_subset_iff) (metis insert_iff)
  then show ?thesis using template_only_subset [of "map pin_Name us" "[]" ds] by (auto simp: ComposeExtensions_def)
qed

lemma compose_distinct: "distinct (map pin_Name us) \<Longrightarrow> distinct (map pin_Name (ComposeExtensions us ds))"
  unfolding compose_names using template_only_names template_only_distinct by fastforce

lemma compose_lookup:
  assumes "distinct (map pin_Name us)" "distinct (map pin_Name ds)"
  shows "find (\<lambda>p. pin_Name p = n) (ComposeExtensions us ds) =
    (case find (\<lambda>p. pin_Name p = n) ds of Some d \<Rightarrow> Some d | None \<Rightarrow> find (\<lambda>p. pin_Name p = n) us)"
proof -
  let ?P = "\<lambda>p. pin_Name p = n"
  have app: "find ?P (xs @ ys) = (case find ?P xs of None \<Rightarrow> find ?P ys | Some x \<Rightarrow> Some x)" for xs ys
    by (induction xs) auto
  have m: "find ?P (map (\<lambda>u. map_get (deltaByName ds) (pin_Name u) u) us) =
      (case find ?P us of None \<Rightarrow> None | Some u \<Rightarrow> Some (case find ?P ds of None \<Rightarrow> u | Some d \<Rightarrow> d))" for us
    by (induction us)
      (auto simp: override_name, auto simp: map_get_def map_of_deltaByName find_rev_distinct [OF assms(2)] split: option.splits)
  have t: "template_only (map pin_Name us) [] ds = filter (\<lambda>d. pin_Name d \<notin> set (map pin_Name us)) ds"
    using assms(2) by (simp add: template_only_distinct_input)
  have f: "find ?P (filter (\<lambda>d. pin_Name d \<notin> A) xs) = (if n \<in> A then None else find ?P xs)" for A xs
    by (induction xs) (auto simp: find_None_iff)
  have u: "find ?P us = None \<longleftrightarrow> n \<notin> set (map pin_Name us)" by (auto simp: find_None_iff)
  have "ComposeExtensions us ds = map (\<lambda>u. map_get (deltaByName ds) (pin_Name u) u) us @
      filter (\<lambda>d. pin_Name d \<notin> set (map pin_Name us)) ds"
    using t by (auto simp: ComposeExtensions_def)
  then show ?thesis using u by (cases "find ?P us") (simp_all add: app m f split: option.splits)
qed

lemma ComposeRuntime_Inr:
  assumes "ComposeRuntime sv us ds h = Inr (pins, hp)"
  shows "pins = ComposeExtensions us ds" "list_all (verifiable sv) pins"
    "hp = (if hr_Runtime h = [] then None else Some h)" "ValidateHarnessPin sv h = None"
proof -
  have v: "ValidateExtensionPins sv us = None" "ValidateExtensionPins sv ds = None" "ValidateHarnessPin sv h = None"
    using assms by (auto simp: ComposeRuntime_def split: option.splits)
  then show "ValidateHarnessPin sv h = None" "pins = ComposeExtensions us ds" "hp = (if hr_Runtime h = [] then None else Some h)"
    using assms by (auto simp: ComposeRuntime_def Let_def split: if_splits)
  then show "list_all (verifiable sv) pins"
    using v compose_subset [of us ds] by (auto simp: ValidateExtensionPins_iff list_all_iff)
qed

lemma harness_complete:
  assumes "ValidateHarnessPin sv h = None" "hr_Runtime h \<noteq> []"
  shows "hr_Source h \<noteq> [] \<and> hr_Integrity h \<noteq> []"
  using assms by (auto simp: ValidateHarnessPin_def ValidateNPMSpec_iff ValidateSRI_iff split: option.splits if_splits)

section \<open>Properties\<close>

text \<open>
  A window whose bounds are written with two-digit hours contains exactly the minutes of the local
  day from its start up to its end, over midnight when the end does not follow the start.
\<close>
theorem model_window_exact:
  assumes "h < 24" "m < 60" "h' < 24" "m' < 60"
    and "mw_Start w = clock_text h m" "mw_End w = clock_text h' m'" and "zones (tzOrUTC w) = Some offset"
  shows "window_matches zones now w \<longleftrightarrow>
    (let n = local_minute offset now; s = int (h * 60 + m); e = int (h' * 60 + m')
     in if s < e then s \<le> n \<and> n < e else s \<le> n \<or> n < e)"
  using assms by (rule window_matches_clock)

theorem model_window_exact_witness:
  "window_matches (\<lambda>z. Some (\<lambda>t. 0)) (23 * hour)
     \<lparr>mw_Model = ''night'', mw_Start = ''16:00'', mw_End = ''02:00'', mw_TZ = []\<rparr> \<and>
   \<not> window_matches (\<lambda>z. Some (\<lambda>t. 0)) (3 * hour)
     \<lparr>mw_Model = ''night'', mw_Start = ''16:00'', mw_End = ''02:00'', mw_TZ = []\<rparr>"
proof -
  let ?w = "\<lparr>mw_Model = ''night'', mw_Start = ''16:00'', mw_End = ''02:00'', mw_TZ = []\<rparr>"
  have c: "clock_text 16 0 = ''16:00''" "clock_text 2 0 = ''02:00''" by code_simp+
  have b: "(16 :: nat) < 24" "(0 :: nat) < 60" "(2 :: nat) < 24" "mw_Start ?w = clock_text 16 0" "mw_End ?w = clock_text 2 0"
    by (simp_all add: c)
  note win = model_window_exact [where zones = "\<lambda>z. Some (\<lambda>t. 0)", OF b(1,2,3,2,4,5) refl]
  have "local_minute (\<lambda>t. 0) (23 * hour) = 1380" "local_minute (\<lambda>t. 0) (3 * hour) = 180"
    by (simp_all add: local_minute_def)
  then show ?thesis using win [of "23 * hour"] win [of "3 * hour"] by simp
qed

text \<open>
  A window written with a one-digit hour is compared as text: \<^verbatim>\<open>"9:00"\<close> follows \<^verbatim>\<open>"17:00"\<close>, so the
  office-hours window is taken to span midnight and contains every instant of the day, in every
  zone.
\<close>
theorem unpadded_window_always:
  "window_matches (\<lambda>z. Some off) now \<lparr>mw_Model = m, mw_Start = ''9:00'', mw_End = ''17:00'', mw_TZ = tz\<rparr>"
  by (rule unpadded_matches)

text \<open>
  A profile lets a kernel run exactly when it has no statement, or the statement reads
  \<^verbatim>\<open>kernel >=X\<close> with \<^verbatim>\<open>X\<close> and the kernel's version semantic versions and the version not below \<^verbatim>\<open>X\<close>:
  every malformed statement refuses.
\<close>
theorem compatibility_refuses_exactly:
  "CompatibilityCause sv p v = [] \<longleftrightarrow>
    (let stmt = TrimSpace (ap_Compatibility p) in
     stmt = [] \<or>
     (\<exists>rest want. stmt = ''kernel'' @ rest \<and> TrimSpace rest = ''>='' @ want \<and>
       (let w = normalizeSemver (TrimSpace want); g = normalizeSemver (TrimSpace v)
        in sem_IsValid sv w \<and> sem_IsValid sv g \<and> 0 \<le> sem_Compare sv g w)))"
  by (rule CompatibilityCause_nil_iff)

text \<open>
  The sources a pin may name: a path, a last at-sign and a version that is a semantic version or
  merely starts with the letter \<^verbatim>\<open>v\<close>. The second case admits tags such as \<^verbatim>\<open>vlatest\<close>, whatever the
  version library says.
\<close>
theorem npm_spec_accepts_exactly:
  "(ValidateNPMSpec sv spec = None \<longleftrightarrow>
    (\<exists>path version. spec = path @ CHR ''@'' # version \<and> path \<noteq> [] \<and> CHR ''@'' \<notin> set version \<and>
      (HasPrefix version ''v'' \<or> sem_IsValid sv (''v'' @ version)))) \<and>
   ValidateNPMSpec sv ''pkg@vlatest'' = None"
proof -
  have "ValidateNPMSpec sv ''pkg@vlatest'' = None"
    unfolding ValidateNPMSpec_iff by (rule exI [of _ "''pkg''"], rule exI [of _ "''vlatest''"]) (simp add: HasPrefix_def)
  then show ?thesis by (intro conjI ValidateNPMSpec_iff)
qed

text \<open>
  Composition replaces by name: the composed set has one entry per name, a name of the template's
  delta resolves to the template's pin and every other name to the profile's, and the profile's
  order is kept.
\<close>
theorem composition_replaces_by_name:
  assumes "distinct (map pin_Name us)" and "distinct (map pin_Name ds)"
  shows "find (\<lambda>p. pin_Name p = n) (ComposeExtensions us ds) =
      (case find (\<lambda>p. pin_Name p = n) ds of Some d \<Rightarrow> Some d | None \<Rightarrow> find (\<lambda>p. pin_Name p = n) us) \<and>
    distinct (map pin_Name (ComposeExtensions us ds)) \<and>
    take (length us) (map pin_Name (ComposeExtensions us ds)) = map pin_Name us"
  using compose_lookup [OF assms] compose_distinct [OF assms(1)] by (simp add: compose_names)

definition demo_pin :: "string \<Rightarrow> string \<Rightarrow> ExtensionPin" where
  "demo_pin n s = \<lparr>pin_Name = n, pin_Source = s, pin_Integrity = ''sha512-'' @ replicate 86 (CHR ''A'')\<rparr>"

theorem composition_replaces_by_name_witness:
  "find (\<lambda>p. pin_Name p = ''b'')
     (ComposeExtensions [demo_pin ''a'' ''x@1.0.0'', demo_pin ''b'' ''y@1.0.0''] [demo_pin ''b'' ''y@2.0.0'']) =
   Some (demo_pin ''b'' ''y@2.0.0'')"
  using composition_replaces_by_name [of "[demo_pin ''a'' ''x@1.0.0'', demo_pin ''b'' ''y@1.0.0'']"
      "[demo_pin ''b'' ''y@2.0.0'']" "''b''"]
  by (simp add: demo_pin_def)

text \<open>
  What the dispatcher composes is what the pod reads: every composed pin can be verified, and when
  the JSON codec inverts, the manifests of the composed runtime are accepted by the pod and
  denote the composed runtime.
\<close>
theorem runtime_manifest_roundtrip:
  assumes "ComposeRuntime sv us ds h = Inr (pins, hp)"
    and "mc_encPins mc pins = Inr s" "TrimSpace s \<noteq> []" "mc_decPins mc s = Inr pins"
    and "mc_encHarness mc h = Inr t" "TrimSpace t \<noteq> []" "mc_decHarness mc t = Inr h"
  shows "list_all (verifiable sv) pins \<and>
    (\<exists>em hm. RenderExtensionManifest mc pins = Inr em \<and> ParseExtensionManifest mc em = Inr pins \<and>
      RenderHarnessManifest mc (case hp of None \<Rightarrow> HarnessRef0 | Some x \<Rightarrow> x) = Inr hm \<and>
      ParseHarnessManifest mc hm = Inr hp)"
proof -
  note c = ComposeRuntime_Inr [OF assms(1)]
  have "find (\<lambda>p. \<not> pin_complete p) pins = None"
    using c(2) verifiable_complete by (auto simp: find_None_iff list_all_iff)
  then have e: "\<exists>em. RenderExtensionManifest mc pins = Inr em \<and> ParseExtensionManifest mc em = Inr pins"
    using assms(2-4) by (auto simp: RenderExtensionManifest_def ParseExtensionManifest_def TrimSpace_def)
  have "\<exists>hm. RenderHarnessManifest mc (case hp of None \<Rightarrow> HarnessRef0 | Some x \<Rightarrow> x) = Inr hm \<and>
      ParseHarnessManifest mc hm = Inr hp"
    using c(3) assms(5-7) harness_complete [OF c(4)]
    by (cases "hr_Runtime h = []")
      (auto simp: RenderHarnessManifest_def ParseHarnessManifest_def HarnessRef0_def TrimSpace_def)
  then show ?thesis using e c(2) by blast
qed

definition demo_semver :: semver where
  "demo_semver = \<lparr>sem_IsValid = (\<lambda>v. list_all (\<lambda>c. is_digit c \<or> c = CHR ''.'') (tl v)), sem_Compare = (\<lambda>a b. 0)\<rparr>"

definition demo_pins :: "ExtensionPin list" where
  "demo_pins = [demo_pin ''sol-pi'' ''sol@1.2.3'']"

definition demo_manifests :: manifest_codec where
  "demo_manifests = \<lparr>mc_encPins = (\<lambda>ps. Inr ''pins''), mc_decPins = (\<lambda>s. Inr demo_pins),
     mc_encHarness = (\<lambda>h. Inr ''harness''), mc_decHarness = (\<lambda>s. Inr HarnessRef0)\<rparr>"

theorem runtime_manifest_roundtrip_witness:
  "ParseExtensionManifest demo_manifests ''pins'' = Inr demo_pins"
proof -
  have r: "ComposeRuntime demo_semver demo_pins [] HarnessRef0 = Inr (demo_pins, None)" by code_simp
  have t: "TrimSpace ''pins'' \<noteq> []" "TrimSpace ''harness'' \<noteq> []" by code_simp+
  have d: "mc_encPins demo_manifests demo_pins = Inr ''pins''" "mc_decPins demo_manifests ''pins'' = Inr demo_pins"
    "mc_encHarness demo_manifests HarnessRef0 = Inr ''harness''" "mc_decHarness demo_manifests ''harness'' = Inr HarnessRef0"
    by (simp_all add: demo_manifests_def)
  show ?thesis
    using runtime_manifest_roundtrip [OF r d(1) t(1) d(2) d(3) t(2) d(4)] d(1)
    by (auto simp: RenderExtensionManifest_def demo_pins_def)
qed

end
