(* ===== verification/Template_Defaults.thy ===== *)
theory Template_Defaults
  imports Graph_Compile
begin

text \<open>
  Template inheritance (\<^verbatim>\<open>api/v1alpha1/template.go\<close>): the overlay of a WorkflowTemplate's defaults on the
  workflow that references it, and the per-key overlay of the instance's scope on the plugin
  configuration. An absent \<^verbatim>\<open>json.RawMessage\<close> is the empty text. The JSON codec is a parameter:
  \<open>jo_dec\<close> is \<^verbatim>\<open>json.Unmarshal\<close> into a \<^verbatim>\<open>map[string]any\<close>, with \<^term>\<open>Some None\<close> for the document
  \<^verbatim>\<open>null\<close>, which sets the map to \<^verbatim>\<open>nil\<close>. Writing a key of a \<^verbatim>\<open>nil\<close> map panics in Go: the outer
  \<^const>\<open>None\<close> of \<open>overlay_config\<close> and \<open>ApplyTemplateDefaults\<close> is that panic.
\<close>

record 'j object_codec =
  jo_dec :: "string \<Rightarrow> (string, 'j) gomap option option"
  jo_enc :: "(string, 'j) gomap option \<Rightarrow> string option"

definition inherit :: "string \<Rightarrow> string \<Rightarrow> string" where
  "inherit own dflt = (if own = [] then dflt else own)"

definition inherit_opt :: "'a option \<Rightarrow> 'a option \<Rightarrow> 'a option" where
  "inherit_opt own dflt = (case own of None \<Rightarrow> dflt | Some x \<Rightarrow> Some x)"

definition inherit_list :: "'a list \<Rightarrow> 'a list \<Rightarrow> 'a list" where
  "inherit_list own dflt = (if own = [] then dflt else own)"

definition inherit_int :: "int \<Rightarrow> int \<Rightarrow> int" where
  "inherit_int own dflt = (if own = 0 then dflt else own)"

definition inherit_plugin :: "PluginRef \<Rightarrow> PluginRef \<Rightarrow> PluginRef" where
  "inherit_plugin own dflt = (if plug_Name own = [] then dflt else own)"

definition prepare_defaults :: "PrepareSpec \<Rightarrow> PrepareSpec \<Rightarrow> PrepareSpec" where
  "prepare_defaults p t =
     \<lparr>prep_Plugin = inherit_plugin (prep_Plugin p) (prep_Plugin t),
      prep_Output = inherit (prep_Output p) (prep_Output t),
      prep_Detect = inherit (prep_Detect p) (prep_Detect t),
      prep_Config = inherit (prep_Config p) (prep_Config t)\<rparr>"

definition agent_defaults :: "AgentSpec \<Rightarrow> AgentSpec \<Rightarrow> AgentSpec" where
  "agent_defaults a ta =
     \<lparr>agent_Enabled = inherit_opt (agent_Enabled a) (agent_Enabled ta),
      agent_Model = inherit (agent_Model a) (agent_Model ta),
      agent_Models = inherit_list (agent_Models a) (agent_Models ta),
      agent_Skill = inherit (agent_Skill a) (agent_Skill ta),
      agent_Tools = inherit_list (agent_Tools a) (agent_Tools ta),
      agent_Extensions = inherit_list (agent_Extensions a) (agent_Extensions ta),
      agent_ExcludeTools = inherit_list (agent_ExcludeTools a) (agent_ExcludeTools ta),
      agent_NoMCP = inherit_opt (agent_NoMCP a) (agent_NoMCP ta),
      agent_Thinking = inherit (agent_Thinking a) (agent_Thinking ta),
      agent_ToolBudget = inherit_opt (agent_ToolBudget a) (agent_ToolBudget ta),
      agent_TaskTemplate = (if agent_TaskTemplate a = TaskTemplate0 then agent_TaskTemplate ta else agent_TaskTemplate a),
      agent_GatePlugin = inherit_plugin (agent_GatePlugin a) (agent_GatePlugin ta),
      agent_MaxFixes = inherit_int (agent_MaxFixes a) (agent_MaxFixes ta),
      agent_Timeout = inherit_int (agent_Timeout a) (agent_Timeout ta),
      agent_Scope = inherit (agent_Scope a) (agent_Scope ta)\<rparr>"

definition spec_defaults :: "WorkflowSpec \<Rightarrow> WorkflowTemplateSpec \<Rightarrow> WorkflowSpec" where
  "spec_defaults s t = s
     \<lparr>wspec_Prepare := prepare_defaults (wspec_Prepare s) (wts_Prepare t),
      wspec_Agent := agent_defaults (wspec_Agent s) (wts_Agent t),
      wspec_PluginsConfigMapRef := inherit (wspec_PluginsConfigMapRef s) (wts_PluginsConfigMapRef t),
      wspec_DeployPlugin := inherit_plugin (wspec_DeployPlugin s) (wts_DeployPlugin t),
      wspec_ReviewReady := inherit_opt (wspec_ReviewReady s) (wts_ReviewReady t),
      wspec_Cache := inherit_opt (wspec_Cache s) (wts_Cache t),
      wspec_Sessions := inherit_opt (wspec_Sessions s) (wts_Sessions t),
      wspec_Attachments := inherit_list (wspec_Attachments s) (wts_Attachments t)\<rparr>"

text \<open>The scope of the instance over the configuration of the prepare plugin, key by key.\<close>

definition write_keys :: "(string, 'j) gomap \<Rightarrow> (string, 'j) gomap option \<Rightarrow> (string, 'j) gomap option option" where
  "write_keys inst base =
     (case base of
        None \<Rightarrow> if inst = [] then Some None else None
      | Some m \<Rightarrow> Some (Some (fold (\<lambda>(k, v). map_set k v) inst m)))"

definition overlay_config :: "'j object_codec \<Rightarrow> string \<Rightarrow> string \<Rightarrow> string option" where
  "overlay_config jc config prepared =
     (if config = [] then Some prepared
      else case jo_dec jc config of
        None \<Rightarrow> Some config
      | Some None \<Rightarrow> Some config
      | Some (Some inst) \<Rightarrow>
          (let base = (case jo_dec jc prepared of None \<Rightarrow> Some [] | Some m \<Rightarrow> m) in
           case write_keys inst base of
             None \<Rightarrow> None
           | Some merged \<Rightarrow> (case jo_enc jc merged of None \<Rightarrow> Some prepared | Some doc \<Rightarrow> Some doc)))"

definition ApplyTemplateDefaults ::
  "'j object_codec \<Rightarrow> Workflow option \<Rightarrow> WorkflowTemplateSpec option \<Rightarrow> Workflow option option" where
  "ApplyTemplateDefaults jc owf tmpl =
     (case (owf, tmpl) of
        (Some wfl, Some t) \<Rightarrow>
          (let s = spec_defaults (wf_Spec wfl) t in
           case overlay_config jc (wspec_Config s) (prep_Config (wspec_Prepare s)) of
             None \<Rightarrow> None
           | Some cfg \<Rightarrow> Some (Some (wfl\<lparr>wf_Spec := s\<lparr>wspec_Prepare := (wspec_Prepare s)\<lparr>prep_Config := cfg\<rparr>\<rparr>\<rparr>)))
      | _ \<Rightarrow> Some owf)"

lemmas inherit_defs = inherit_def inherit_opt_def inherit_list_def inherit_int_def inherit_plugin_def

lemmas [model_defs] = inherit_defs prepare_defaults_def agent_defaults_def spec_defaults_def write_keys_def
  overlay_config_def ApplyTemplateDefaults_def

section \<open>The overlay\<close>

lemma fold_map_set_lookup:
  "wf_map inst \<Longrightarrow> map_of (fold (\<lambda>(k, v). map_set k v) inst m) = map_of m ++ map_of inst"
proof (induction inst arbitrary: m)
  case (Cons x xs)
  obtain k v where x: "x = (k, v)" by fastforce
  have "k \<notin> dom (map_of xs)" using Cons.prems by (simp add: x wf_map_def dom_map_of_conv_image_fst)
  moreover have "wf_map xs" using Cons.prems by (simp add: wf_map_def)
  ultimately show ?case
    using Cons.IH [of "map_set k v m"] by (auto simp: x map_add_def fun_eq_iff split: option.splits)
qed simp

lemma inherit_opt_idem [simp]: "inherit_opt (inherit_opt a b) b = inherit_opt a b"
  by (simp add: inherit_opt_def split: option.splits)

lemma inherit_idem [simp]:
  "inherit (inherit a b) b = inherit a b" "inherit_list (inherit_list xs ys) ys = inherit_list xs ys"
  "inherit_int (inherit_int i j) j = inherit_int i j" "inherit_plugin (inherit_plugin p q) q = inherit_plugin p q"
  by (simp_all add: inherit_defs)

lemma spec_defaults_idem: "spec_defaults (spec_defaults s t) t = spec_defaults s t"
  by (simp add: spec_defaults_def prepare_defaults_def agent_defaults_def)

lemma ApplyTemplateDefaults_Some:
  "ApplyTemplateDefaults jc (Some wfl) (Some t) = Some (Some wfl') \<longleftrightarrow>
    (\<exists>cfg. overlay_config jc (wspec_Config (wf_Spec wfl)) (prep_Config (wspec_Prepare (spec_defaults (wf_Spec wfl) t))) = Some cfg \<and>
      wfl' = wfl\<lparr>wf_Spec := (spec_defaults (wf_Spec wfl) t)
        \<lparr>wspec_Prepare := (wspec_Prepare (spec_defaults (wf_Spec wfl) t))\<lparr>prep_Config := cfg\<rparr>\<rparr>\<rparr>)"
  by (auto simp: ApplyTemplateDefaults_def Let_def spec_defaults_def split: option.splits)

lemma overlay_lookup:
  assumes "config \<noteq> []" "jo_dec jc config = Some (Some inst)" "wf_map inst"
    and "jo_dec jc prepared = Some (Some base)"
    and "\<And>m. \<exists>doc m'. jo_enc jc (Some m) = Some doc \<and> jo_dec jc doc = Some (Some m') \<and> map_of m' = map_of m"
  shows "\<exists>doc merged. overlay_config jc config prepared = Some doc \<and> jo_dec jc doc = Some (Some merged) \<and>
    map_of merged = map_of base ++ map_of inst"
proof -
  let ?m = "fold (\<lambda>(k, v). map_set k v) inst base"
  obtain doc m' where "jo_enc jc (Some ?m) = Some doc" "jo_dec jc doc = Some (Some m')" "map_of m' = map_of ?m"
    using assms(5) by blast
  then show ?thesis using assms fold_map_set_lookup [OF assms(3), of base]
    by (auto simp: overlay_config_def write_keys_def)
qed

text \<open>
  The instance's scope is laid over the inherited plugin configuration key by key: a key the
  instance declares has the instance's value, every other key keeps the template's, and nothing
  else is added.
\<close>
theorem template_config_overlay:
  assumes "wspec_Config (wf_Spec wfl) \<noteq> []" and "jo_dec jc (wspec_Config (wf_Spec wfl)) = Some (Some inst)" and "wf_map inst"
    and "prep_Config (wspec_Prepare (wf_Spec wfl)) = []" and "jo_dec jc (prep_Config (wts_Prepare t)) = Some (Some base)"
    and "\<And>m. \<exists>doc m'. jo_enc jc (Some m) = Some doc \<and> jo_dec jc doc = Some (Some m') \<and> map_of m' = map_of m"
  shows "\<exists>wfl' merged. ApplyTemplateDefaults jc (Some wfl) (Some t) = Some (Some wfl') \<and>
    jo_dec jc (prep_Config (wspec_Prepare (wf_Spec wfl'))) = Some (Some merged) \<and>
    map_of merged = map_of base ++ map_of inst"
proof -
  have "prep_Config (wspec_Prepare (spec_defaults (wf_Spec wfl) t)) = prep_Config (wts_Prepare t)"
    using assms(4) by (simp add: spec_defaults_def prepare_defaults_def inherit_def)
  then show ?thesis
    using overlay_lookup [OF assms(1,2,3,5,6)] unfolding ApplyTemplateDefaults_Some by fastforce
qed

text \<open>A codec of objects without values: each key with its characters marked, for evaluation.\<close>

definition key_enc :: "string \<Rightarrow> string" where
  "key_enc k = concat (map (\<lambda>c. [CHR ''x'', c]) k) @ ''y''"

fun keys_dec :: "string \<Rightarrow> string \<Rightarrow> (string, unit) gomap" where
  "keys_dec acc (CHR ''x'' # c # s) = keys_dec (acc @ [c]) s"
| "keys_dec acc (CHR ''y'' # s) = (acc, ()) # keys_dec [] s"
| "keys_dec acc s = []"

definition key_codec :: "unit object_codec" where
  "key_codec = \<lparr>jo_dec = (\<lambda>s. if s = [] then None else Some (Some (keys_dec [] (tl s)))),
     jo_enc = (\<lambda>m. Some (CHR ''{'' # concat (map (key_enc o fst) (case m of None \<Rightarrow> [] | Some kvs \<Rightarrow> kvs))))\<rparr>"

lemma keys_dec_key: "keys_dec acc (concat (map (\<lambda>c. [CHR ''x'', c]) k) @ CHR ''y'' # s) = (acc @ k, ()) # keys_dec [] s"
  by (induction k arbitrary: acc) auto

lemma keys_dec_enc: "keys_dec [] (concat (map (key_enc o fst) m)) = m"
  by (induction m) (auto simp: key_enc_def keys_dec_key)

lemma key_codec_law: "\<exists>doc m'. jo_enc key_codec (Some m) = Some doc \<and> jo_dec key_codec doc = Some (Some m') \<and> map_of m' = map_of m"
  by (simp add: key_codec_def keys_dec_enc)

definition overlay_template :: WorkflowTemplateSpec where
  "overlay_template = \<lparr>wts_Prepare = PrepareSpec0\<lparr>prep_Config := ''{xay''\<rparr>, wts_Agent = AgentSpec0, wts_DeployPlugin = PluginRef0,
     wts_ReviewReady = None, wts_Cache = None, wts_Source = None, wts_PluginsConfigMapRef = [], wts_Sessions = None, wts_Attachments = []\<rparr>"

theorem template_config_overlay_witness:
  "\<exists>wfl' merged. ApplyTemplateDefaults key_codec
      (Some (Workflow0\<lparr>wf_Spec := WorkflowSpec0\<lparr>wspec_Config := ''{xby''\<rparr>\<rparr>)) (Some overlay_template) = Some (Some wfl') \<and>
    jo_dec key_codec (prep_Config (wspec_Prepare (wf_Spec wfl'))) = Some (Some merged) \<and>
    map_of merged = [''a'' \<mapsto> (), ''b'' \<mapsto> ()]"
proof -
  have d: "jo_dec key_codec ''{xby'' = Some (Some [(''b'', ())])" "jo_dec key_codec ''{xay'' = Some (Some [(''a'', ())])"
    by code_simp+
  let ?w = "Workflow0\<lparr>wf_Spec := WorkflowSpec0\<lparr>wspec_Config := ''{xby''\<rparr>\<rparr>"
  have p: "wspec_Config (wf_Spec ?w) = ''{xby''" "prep_Config (wspec_Prepare (wf_Spec ?w)) = []"
    "prep_Config (wts_Prepare overlay_template) = ''{xay''" "wf_map [(''b'', ())]"
    by (simp_all add: workflow0_defs overlay_template_def wf_map_def)
  have "map_of [(''a'', ())] ++ map_of [(''b'', ())] = [''a'' \<mapsto> (), ''b'' \<mapsto> ()]" by (simp add: map_add_def fun_eq_iff)
  then show ?thesis
    using template_config_overlay [of ?w key_codec "[(''b'', ())]" overlay_template "[(''a'', ())]", unfolded p,
        OF _ d(1) p(4) refl d(2) key_codec_law] by simp
qed

text \<open>A \<^verbatim>\<open>null\<close> configuration under an instance scope with a key: the overlay writes to a \<^verbatim>\<open>nil\<close> map.\<close>

theorem null_config_panics:
  assumes "wspec_Config (wf_Spec wfl) \<noteq> []" and "jo_dec jc (wspec_Config (wf_Spec wfl)) = Some (Some (kv # inst))"
    and "prep_Config (wspec_Prepare (wf_Spec wfl)) = cfg" "cfg \<noteq> []" and "jo_dec jc cfg = Some None"
  shows "ApplyTemplateDefaults jc (Some wfl) (Some t) = None"
  using assms by (simp add: ApplyTemplateDefaults_def overlay_config_def write_keys_def spec_defaults_def
      prepare_defaults_def inherit_def Let_def)

end
