(* ===== verification/Controller.thy ===== *)
theory Controller
  imports Attempt_Janitor Agent_Profile
begin

text \<open>
  The controller (\<^verbatim>\<open>internal/controller\<close>): when a Workflow is due, the trigger slot that lets one of
  several racing reconciles publish, the trigger event, the bookkeeping after a publish, the watch
  on terminal runs, and the janitor over the namespace. The reconciler's client, clock, publisher,
  cron parser and codec are the fields of \<open>Reconciler\<close>; a reconcile is a function of the world.
  Traces, metrics and log lines are not part of the model.
\<close>

abbreviation (input) TriggerRevisionAnnotation :: string where
  "TriggerRevisionAnnotation \<equiv> ''harmostes.dev/trigger-revision''"
abbreviation (input) TriggerRepoAnnotation :: string where
  "TriggerRepoAnnotation \<equiv> ''harmostes.dev/trigger-repo''"
abbreviation (input) ManualTriggerPrefix :: string where "ManualTriggerPrefix \<equiv> ''manual-''"

abbreviation (input) webhookMinTriggerInterval :: duration where "webhookMinTriggerInterval \<equiv> 10 * second"
abbreviation (input) invalidScheduleRetry :: duration where "invalidScheduleRetry \<equiv> 5 * minute"
abbreviation (input) minScheduleRequeue :: duration where "minScheduleRequeue \<equiv> minute"

record TriggerEvent =
  te_Workflow :: string
  te_Namespace :: string
  te_Revision :: string
  te_Source :: string
  te_TriggerType :: string
  te_Traceparent :: string
  te_AttemptName :: string
  te_Pr :: string
  te_PrTitle :: string
  te_Action :: string
  te_Repo :: string

text \<open>
  \<open>rc_publish\<close> is \<^const>\<open>None\<close> for a \<^verbatim>\<open>nil\<close> Dapr client, \<open>rc_event\<close> for a \<^verbatim>\<open>nil\<close> recorder. \<open>rc_cron\<close> is
  \<^verbatim>\<open>cron.ParseStandard\<close>: the error, or \<^verbatim>\<open>Schedule.Next\<close>.
\<close>

record 'w Reconciler =
  rec_client :: "'w Client"
  rec_get :: "string \<Rightarrow> string \<Rightarrow> 'w \<Rightarrow> (error + Workflow) \<times> 'w"
  rec_patch :: "Workflow \<Rightarrow> Workflow \<Rightarrow> 'w \<Rightarrow> error option \<times> 'w"
  rec_patchStatus :: "Workflow \<Rightarrow> Workflow \<Rightarrow> 'w \<Rightarrow> error option \<times> 'w"
  rec_getProfile :: "string \<Rightarrow> string \<Rightarrow> 'w \<Rightarrow> (error + AgentProfileSpec) \<times> 'w"
  rec_event :: "(Workflow \<Rightarrow> string \<Rightarrow> 'w \<Rightarrow> 'w) option"
  rec_marshal :: "TriggerEvent \<Rightarrow> error + string"
  rec_publish :: "(string \<Rightarrow> string \<Rightarrow> string \<Rightarrow> 'w \<Rightarrow> error option \<times> 'w) option"
  rec_cron :: "string \<Rightarrow> string + (instant \<Rightarrow> instant)"
  rec_semver :: semver
  rec_urlPath :: "string \<Rightarrow> string option"
  rec_Scheme :: bool
  rec_PollInterval :: duration
  rec_TriggerTopic :: string
  rec_KernelVersion :: string
  rec_BuildVersion :: string
  rec_agentProfile :: string
  rec_traceparent :: string

abbreviation (input) rec_now :: "'w Reconciler \<Rightarrow> 'w \<Rightarrow> instant" where
  "rec_now r w \<equiv> cl_now (rec_client r) w"

definition annotation :: "Workflow \<Rightarrow> string \<Rightarrow> string" where
  "annotation wfl k = map_get (wf_Annotations wfl) k []"

section \<open>Terminal runs (attempt\_trigger.go)\<close>

definition terminal_run :: "RunRecord \<Rightarrow> bool" where
  "terminal_run run \<longleftrightarrow> RunTerminalPhase (run_Phase run) \<and> run_EndedAt run \<noteq> zero_time"

text \<open>The update leg of the predicate; \<open>terminalBefore\<close> is the list of the names it holds.\<close>

definition terminalBefore :: "Attempt \<Rightarrow> string list" where
  "terminalBefore oldA = map run_Name (filter terminal_run (st_Runs (at_Status oldA)))"

definition runTerminalPredicate :: "Attempt \<Rightarrow> Attempt \<Rightarrow> bool" where
  "runTerminalPredicate oldA newA =
     list_ex (\<lambda>run. terminal_run run \<and> run_Name run \<notin> set (terminalBefore oldA)) (st_Runs (at_Status newA))"

definition attemptTerminalToWorkflow :: "Attempt \<Rightarrow> (string \<times> string) list" where
  "attemptTerminalToWorkflow at =
     (let ref = aspec_WorkflowRef (at_Spec at) in
      if ref = [] then []
      else case IndexByte ref (CHR ''/'') of
        None \<Rightarrow> []
      | Some i \<Rightarrow> if take i ref = [] \<or> drop (i + 1) ref = [] then [] else [(take i ref, drop (i + 1) ref)])"

definition terminal_since :: "instant \<Rightarrow> Attempt list \<Rightarrow> bool" where
  "terminal_since since attempts = list_ex (\<lambda>a. list_ex (\<lambda>run. terminal_run run \<and> since < run_EndedAt run)
     (st_Runs (at_Status a))) attempts"

definition terminalRunPending :: "'w Reconciler \<Rightarrow> Workflow \<Rightarrow> 'w \<Rightarrow> bool \<times> 'w" where
  "terminalRunPending r wfl w =
     (let last = ws_LastRunAt (wf_Status wfl) in
      if ws_ReviewReady (wf_Status wfl) = None \<or> last = zero_time then (False, w)
      else case LiveReviewClaims (rec_client r) wfl w of
        (Inl e, w1) \<Rightarrow> (False, w1)
      | (Inr attempts, w1) \<Rightarrow> (terminal_since last attempts, w1))"

section \<open>Due\<close>

definition nextCronActivation :: "(string \<Rightarrow> string + (instant \<Rightarrow> instant)) \<Rightarrow> string \<Rightarrow> instant \<Rightarrow> string + instant" where
  "nextCronActivation cron spec since = map_sum id (\<lambda>next. next since) (cron spec)"

definition webhook_due :: "Workflow \<Rightarrow> bool" where
  "webhook_due wfl \<longleftrightarrow> annotation wfl TriggerRevisionAnnotation \<noteq> [] \<and>
     annotation wfl TriggerRevisionAnnotation \<noteq> ws_LastProcessedRevision (wf_Status wfl)"

definition armed_gate :: "Workflow \<Rightarrow> bool" where
  "armed_gate wfl = (case ws_ReviewReady (wf_Status wfl) of
     None \<Rightarrow> False | Some rr \<Rightarrow> 0 < rrs_LiveClaims rr \<or> rrs_LastDecision rr = ''waiting'')"

definition isDue :: "(string \<Rightarrow> string + (instant \<Rightarrow> instant)) \<Rightarrow> duration \<Rightarrow> instant \<Rightarrow> Workflow \<Rightarrow> bool \<times> duration" where
  "isDue cron pollInterval now wfl =
     (let status = wf_Status wfl; source = wspec_Source (wf_Spec wfl); sched = TrimSpace (src_Schedule source);
          last = ws_LastRunAt status
      in if webhook_due wfl then (True, 0)
         else if ws_ObservedGeneration status \<noteq> wf_Generation wfl then (True, pollInterval)
         else if armed_gate wfl then (True, pollInterval)
         else if src_Kind source = ''webhook'' then (False, pollInterval)
         else if sched \<noteq> [] then
           (case nextCronActivation cron sched last of
              Inl e \<Rightarrow> (False, invalidScheduleRetry)
            | Inr next \<Rightarrow>
                if 0 < next - now then (False, max (next - now) minScheduleRequeue) else (True, pollInterval))
         else if last \<noteq> zero_time \<and> now - last < pollInterval then (False, pollInterval - (now - last))
         else (True, pollInterval))"

definition dueReason :: "Workflow \<Rightarrow> string" where
  "dueReason wfl =
     (let triggerRev = annotation wfl TriggerRevisionAnnotation in
      if triggerRev \<noteq> [] then (if HasPrefix triggerRev ManualTriggerPrefix then ''manual'' else ''webhook'')
      else if ws_ObservedGeneration (wf_Status wfl) \<noteq> wf_Generation wfl then ''spec changed''
      else ''schedule'')"

definition triggerReason :: "Workflow \<Rightarrow> string" where
  "triggerReason wfl =
     (let triggerRev = annotation wfl TriggerRevisionAnnotation in
      if triggerRev \<noteq> [] \<and> HasPrefix triggerRev ManualTriggerPrefix then ''manual''
      else if triggerRev \<noteq> [] \<and> triggerRev \<noteq> ws_LastProcessedRevision (wf_Status wfl) then ''webhook''
      else if ws_ObservedGeneration (wf_Status wfl) \<noteq> wf_Generation wfl then ''spec-change''
      else ''schedule'')"

definition triggerSourceOf :: "Workflow \<Rightarrow> string" where
  "triggerSourceOf wfl =
     (if annotation wfl TriggerRevisionAnnotation \<noteq> [] then ''webhook''
      else if src_Schedule (wspec_Source (wf_Spec wfl)) \<noteq> [] then ''schedule''
      else ''controller'')"

section \<open>The trigger slot\<close>

definition errTriggerCooldown :: error where
  "errTriggerCooldown = \<lparr>err_Kind = TriggerCooldown, err_Text = ''trigger slot on cooldown''\<rparr>"

text \<open>The cooldown that the fresh object is held to, and whether it has passed.\<close>

definition slot_interval :: "'w Reconciler \<Rightarrow> duration \<Rightarrow> duration \<Rightarrow> Workflow \<Rightarrow> 'w \<Rightarrow> duration \<times> 'w" where
  "slot_interval r scheduleInterval webhookInterval fresh w =
     (let minInterval = (if webhook_due fresh then webhookInterval else scheduleInterval) in
      if minInterval = scheduleInterval then
        (case terminalRunPending r fresh w of (pending, w1) \<Rightarrow> (if pending then webhookInterval else minInterval, w1))
      else (minInterval, w))"

definition cooling :: "instant \<Rightarrow> duration \<Rightarrow> Workflow \<Rightarrow> bool" where
  "cooling now minInterval fresh \<longleftrightarrow>
     ws_LastRunAt (wf_Status fresh) \<noteq> zero_time \<and> now - ws_LastRunAt (wf_Status fresh) < minInterval"

definition stamp_run :: "instant \<Rightarrow> Workflow \<Rightarrow> Workflow" where
  "stamp_run now fresh = fresh\<lparr>wf_Status := (wf_Status fresh)\<lparr>ws_LastRunAt := now\<rparr>\<rparr>"

definition claim_once ::
  "'w Reconciler \<Rightarrow> Workflow \<Rightarrow> duration \<Rightarrow> duration \<Rightarrow> bool \<Rightarrow> 'w \<Rightarrow> (error option \<times> bool) \<times> 'w" where
  "claim_once r wfl scheduleInterval webhookInterval won w =
     (case rec_get r (wf_Namespace wfl) (wf_Name wfl) w of
        (Inl e, w1) \<Rightarrow> ((Some e, won), w1)
      | (Inr fresh, w1) \<Rightarrow>
          (case slot_interval r scheduleInterval webhookInterval fresh w1 of
             (minInterval, w2) \<Rightarrow>
               if cooling (rec_now r w2) minInterval fresh then ((Some errTriggerCooldown, won), w2)
               else (case rec_patchStatus r fresh (stamp_run (rec_now r w2) fresh) w2 of
                       (Some e, w3) \<Rightarrow> ((Some e, won), w3)
                     | (None, w3) \<Rightarrow> ((None, True), w3))))"

definition claimTriggerSlot ::
  "'w Reconciler \<Rightarrow> Workflow \<Rightarrow> duration \<Rightarrow> duration \<Rightarrow> 'w \<Rightarrow> (error + bool) \<times> 'w" where
  "claimTriggerSlot r wfl scheduleInterval webhookInterval w =
     (case RetryOnConflict (cl_retries (rec_client r)) (cl_pause (rec_client r))
             (claim_once r wfl scheduleInterval webhookInterval) False w of
        ((Some e, won), w1) \<Rightarrow> (if err_Kind e = TriggerCooldown then Inr False else Inl e, w1)
      | ((None, won), w1) \<Rightarrow> (Inr won, w1))"

section \<open>Publishing\<close>

definition trigger_event :: "Workflow \<Rightarrow> string \<Rightarrow> string \<Rightarrow> string \<Rightarrow> string \<Rightarrow> TriggerEvent" where
  "trigger_event wfl triggerType revision traceparent attemptName =
     \<lparr>te_Workflow = wf_Name wfl, te_Namespace = wf_Namespace wfl, te_Revision = revision,
      te_Source = src_Revision (wspec_Source (wf_Spec wfl)), te_TriggerType = triggerType,
      te_Traceparent = traceparent, te_AttemptName = attemptName,
      te_Pr = annotation wfl ''harmostes.dev/trigger-pr'', te_PrTitle = annotation wfl ''harmostes.dev/trigger-title'',
      te_Action = annotation wfl ''harmostes.dev/trigger-action'', te_Repo = annotation wfl TriggerRepoAnnotation\<rparr>"

definition publishTrigger ::
  "'w Reconciler \<Rightarrow> Workflow \<Rightarrow> string \<Rightarrow> string \<Rightarrow> string \<Rightarrow> string \<Rightarrow> 'w \<Rightarrow> error option \<times> 'w" where
  "publishTrigger r wfl triggerType revision traceparent attemptName w =
     (case rec_publish r of
        None \<Rightarrow> (None, w)
      | Some publish \<Rightarrow>
          (let topic = (if rec_TriggerTopic r = [] then ''harmostes-triggers'' else rec_TriggerTopic r) in
           case rec_marshal r (trigger_event wfl triggerType revision traceparent attemptName) of
             Inl e \<Rightarrow> (Some (wrap_error ''marshal trigger event: '' e), w)
           | Inr b \<Rightarrow>
               (case publish ''pubsub'' topic b w of
                  (Some e, w1) \<Rightarrow> (Some (wrap_error (''publish trigger to '' @ topic @ '': '') e), w1)
                | (None, w1) \<Rightarrow> (None, w1))))"

definition resolveAttempt :: "'w Reconciler \<Rightarrow> Workflow \<Rightarrow> 'w \<Rightarrow> string \<times> 'w" where
  "resolveAttempt r wfl w =
     (let revision = annotation wfl TriggerRevisionAnnotation;
          obj = DeriveObjective (rec_urlPath r) wfl \<lparr>trig_Revision = revision, trig_Source = triggerSourceOf wfl\<rparr>
      in case ResolveOrCreate (rec_client r) obj
                \<lparr>ro_Namespace = wf_Namespace wfl, ro_WorkflowRef = wf_Namespace wfl @ ''/'' @ wf_Name wfl,
                 ro_Owner = Some wfl, ro_Scheme = rec_Scheme r\<rparr> w of
           (Inl e, w1) \<Rightarrow> ([], w1)
         | (Inr (at, created), w1) \<Rightarrow>
             if revision \<noteq> []
             then (at_Name at, snd (SupersedePriorAttempts (rec_client r) (wf_Namespace wfl) (wf_Name wfl) (Some at) w1))
             else (at_Name at, w1))"

section \<open>Bookkeeping after a publish\<close>

definition clear_annotations :: "(string, string) gomap \<Rightarrow> (string, string) gomap" where
  "clear_annotations m = fold AList.delete
     [TriggerRevisionAnnotation, ''harmostes.dev/trigger-pr'', ''harmostes.dev/trigger-action'',
      ''harmostes.dev/trigger-title'', TriggerRepoAnnotation] m"

definition clear_once :: "'w Reconciler \<Rightarrow> Workflow \<Rightarrow> unit \<Rightarrow> 'w \<Rightarrow> (error option \<times> unit) \<times> 'w" where
  "clear_once r wfl u w =
     (case rec_get r (wf_Namespace wfl) (wf_Name wfl) w of
        (Inl e, w1) \<Rightarrow> ((Some e, ()), w1)
      | (Inr fresh, w1) \<Rightarrow>
          if annotation fresh TriggerRevisionAnnotation = [] then ((None, ()), w1)
          else (case rec_patch r fresh (fresh\<lparr>wf_Annotations := clear_annotations (wf_Annotations fresh)\<rparr>) w1 of
                  (e, w2) \<Rightarrow> ((e, ()), w2)))"

definition clear_trigger :: "'w Reconciler \<Rightarrow> Workflow \<Rightarrow> 'w \<Rightarrow> 'w" where
  "clear_trigger r wfl w =
     (if annotation wfl TriggerRevisionAnnotation = [] then w
      else snd (RetryOnConflict (cl_retries (rec_client r)) (cl_pause (rec_client r)) (clear_once r wfl) () w))"

fun setCondition_at :: "Condition list \<Rightarrow> Condition \<Rightarrow> Condition list option" where
  "setCondition_at [] c = None"
| "setCondition_at (e # es) c =
     (if cond_Type e = cond_Type c
      then Some ((if cond_Status e \<noteq> cond_Status c then c
                  else e\<lparr>cond_Reason := cond_Reason c, cond_Message := cond_Message c\<rparr>) # es)
      else map_option ((#) e) (setCondition_at es c))"

definition setCondition :: "instant \<Rightarrow> Condition list \<Rightarrow> Condition \<Rightarrow> Condition list" where
  "setCondition now conds c =
     (let c' = c\<lparr>cond_LastTransitionTime := now\<rparr> in
      case setCondition_at conds c' of Some out \<Rightarrow> out | None \<Rightarrow> conds @ [c'])"

definition observed :: "instant \<Rightarrow> int \<Rightarrow> Workflow \<Rightarrow> Workflow" where
  "observed now generation fresh = fresh\<lparr>wf_Status := (wf_Status fresh)
     \<lparr>ws_ObservedGeneration := generation, ws_LastRunAt := now,
      ws_Conditions := setCondition now (ws_Conditions (wf_Status fresh))
        \<lparr>cond_Type = ''Scheduled'', cond_Status = True, cond_Reason = ''TriggerPublished'',
         cond_Message = ''monitor controller published a trigger event'', cond_ObservedGeneration = generation,
         cond_LastTransitionTime = zero_time\<rparr>\<rparr>\<rparr>"

definition observe_once :: "'w Reconciler \<Rightarrow> Workflow \<Rightarrow> unit \<Rightarrow> 'w \<Rightarrow> (error option \<times> unit) \<times> 'w" where
  "observe_once r wfl u w =
     (case rec_get r (wf_Namespace wfl) (wf_Name wfl) w of
        (Inl e, w1) \<Rightarrow> ((Some e, ()), w1)
      | (Inr fresh, w1) \<Rightarrow>
          (case rec_patchStatus r fresh (observed (rec_now r w1) (wf_Generation wfl) fresh) w1 of
             (e, w2) \<Rightarrow> ((e, ()), w2)))"

definition observeGeneration :: "'w Reconciler \<Rightarrow> Workflow \<Rightarrow> 'w \<Rightarrow> error option \<times> 'w" where
  "observeGeneration r wfl w =
     (case RetryOnConflict (cl_retries (rec_client r)) (cl_pause (rec_client r)) (observe_once r wfl) () w of
        ((e, u), w1) \<Rightarrow> (e, w1))"

section \<open>Reconcile\<close>

definition runningKernelVersion :: "'w Reconciler \<Rightarrow> string" where
  "runningKernelVersion r = (if rec_KernelVersion r \<noteq> [] then rec_KernelVersion r else rec_BuildVersion r)"

text \<open>The cause of a refusal, \<^const>\<open>None\<close> when dispatch is not blocked.\<close>

definition profileCompat :: "'w Reconciler \<Rightarrow> string \<Rightarrow> 'w \<Rightarrow> string option \<times> 'w" where
  "profileCompat r namespace w =
     (let ref = rec_agentProfile r in
      if ref = [] then (None, w)
      else case rec_getProfile r namespace ref w of
        (Inl e, w1) \<Rightarrow> (Some (''agent profile '' @ namespace @ ''/'' @ ref @
            '' is wired (HARMOSTES_AGENT_PROFILE) but cannot be read: '' @ err_Text e @ '' '' @ em_dash @
            '' fix the profile or unset the env''), w1)
      | (Inr p, w1) \<Rightarrow>
          (let cause = CompatibilityCause (rec_semver r) p (runningKernelVersion r)
           in (if cause \<noteq> [] then Some cause else None, w1)))"

text \<open>The part of a reconcile that follows a won slot.\<close>

definition schedule_run :: "'w Reconciler \<Rightarrow> Workflow \<Rightarrow> string \<Rightarrow> 'w \<Rightarrow> 'w" where
  "schedule_run r wfl reason w =
     (case resolveAttempt r wfl w of
        (attemptName, w1) \<Rightarrow>
          (let ann = annotation wfl TriggerRevisionAnnotation;
               wakeRev = (if ann = [] then ws_LastProcessedRevision (wf_Status wfl) else ann);
               w2 = snd (publishTrigger r wfl reason wakeRev (rec_traceparent r) attemptName w1)
           in snd (observeGeneration r wfl (clear_trigger r wfl w2))))"

definition reconcile_due :: "'w Reconciler \<Rightarrow> Workflow \<Rightarrow> string \<Rightarrow> duration \<Rightarrow> 'w \<Rightarrow> (error + duration) \<times> 'w" where
  "reconcile_due r wfl reason requeueAfter w =
     (case profileCompat r (wf_Namespace wfl) w of
        (Some cause, w1) \<Rightarrow>
          (Inr (rec_PollInterval r), case rec_event r of None \<Rightarrow> w1 | Some send \<Rightarrow> send wfl cause w1)
      | (None, w1) \<Rightarrow>
          (case claimTriggerSlot r wfl (rec_PollInterval r) webhookMinTriggerInterval w1 of
             (Inl e, w2) \<Rightarrow> (Inr (rec_PollInterval r), w2)
           | (Inr False, w2) \<Rightarrow> (Inr (if requeueAfter = 0 then webhookMinTriggerInterval else requeueAfter), w2)
           | (Inr True, w2) \<Rightarrow> (Inr (rec_PollInterval r), schedule_run r wfl reason w2)))"

text \<open>The result is the requeue delay, \<open>0\<close> for an object that is gone.\<close>

definition Reconcile :: "'w Reconciler \<Rightarrow> string \<Rightarrow> string \<Rightarrow> 'w \<Rightarrow> (error + duration) \<times> 'w" where
  "Reconcile r namespace name w =
     (case rec_get r namespace name w of
        (Inl e, w1) \<Rightarrow> (if err_Kind e = NotFound then Inr 0 else Inl e, w1)
      | (Inr wfl, w1) \<Rightarrow>
          if wspec_Disabled (wf_Spec wfl) then (Inr (rec_PollInterval r), w1)
          else
            (case terminalRunPending r wfl w1 of
               (terminalWake, w2) \<Rightarrow>
                 (case (if terminalWake then (True, 0) else isDue (rec_cron r) (rec_PollInterval r) (rec_now r w2) wfl) of
                    (due, requeueAfter) \<Rightarrow>
                      if \<not> due then (Inr requeueAfter, w2)
                      else reconcile_due r wfl (if terminalWake then ''run-terminal'' else dueReason wfl) requeueAfter w2)))"

lemmas [model_defs] = annotation_def terminal_run_def terminalBefore_def runTerminalPredicate_def
  attemptTerminalToWorkflow_def terminal_since_def terminalRunPending_def nextCronActivation_def webhook_due_def
  armed_gate_def isDue_def dueReason_def triggerReason_def triggerSourceOf_def errTriggerCooldown_def
  slot_interval_def cooling_def stamp_run_def claim_once_def claimTriggerSlot_def trigger_event_def
  publishTrigger_def resolveAttempt_def clear_annotations_def clear_once_def clear_trigger_def
  setCondition_def observed_def observe_once_def observeGeneration_def runningKernelVersion_def
  profileCompat_def schedule_run_def reconcile_due_def Reconcile_def

end
