(* ===== verification/Trigger_Slot.thy ===== *)
theory Trigger_Slot
  imports Controller Gate_Theorems
begin

text \<open>
  The trigger slot under concurrency. Several reconciles, the worker and the webhook write the same
  Workflow object; reads go through a cache and may return any version the object ever had; a
  write lands only when the version it was computed from is still the stored one. The step relation
  lets all of them interleave. The API stores a time in whole seconds (\<^verbatim>\<open>metav1.Time\<close> is serialised
  that way), so the stored stamp may be earlier than the instant of the win by less than a second.
\<close>

record slots =
  sl_clock :: instant
  sl_obj :: Workflow
  sl_history :: "Workflow list"

abbreviation last_run :: "Workflow \<Rightarrow> instant" where "last_run wfl \<equiv> ws_LastRunAt (wf_Status wfl)"

definition whole :: "instant \<Rightarrow> instant" where
  "whole t = t div second * second"

definition save :: "Workflow \<Rightarrow> slots \<Rightarrow> Workflow" where
  "save a s = (stamp_run (whole (last_run a)) a)\<lparr>wf_ResourceVersion := Suc (wf_ResourceVersion (sl_obj s))\<rparr>"

definition commit :: "Workflow \<Rightarrow> slots \<Rightarrow> slots" where
  "commit a s = s\<lparr>sl_obj := save a s, sl_history := save a s # sl_history s\<rparr>"

text \<open>
  A step and the slots won in it, each as the instant of the decision and the cooldown it was held
  to. A win may be computed from any version and at any earlier instant; other writers never move
  the stamp back and never stamp the future.
\<close>

inductive slot_step :: "duration set \<Rightarrow> slots \<Rightarrow> (instant \<times> duration) list \<Rightarrow> slots \<Rightarrow> bool" for I where
  tick: "sl_clock s \<le> t \<Longrightarrow> slot_step I s [] (s\<lparr>sl_clock := t\<rparr>)"
| win: "fresh \<in> set (sl_history s) \<Longrightarrow> second \<le> t \<Longrightarrow> t \<le> sl_clock s \<Longrightarrow> m \<in> I \<Longrightarrow> \<not> cooling t m fresh \<Longrightarrow>
    wf_ResourceVersion fresh = wf_ResourceVersion (sl_obj s) \<Longrightarrow> slot_step I s [(t, m)] (commit (stamp_run t fresh) s)"
| other: "last_run (sl_obj s) \<le> whole (last_run a) \<Longrightarrow> last_run a \<le> sl_clock s \<Longrightarrow> slot_step I s [] (commit a s)"

inductive slot_trace :: "duration set \<Rightarrow> slots \<Rightarrow> (instant \<times> duration) list \<Rightarrow> slots \<Rightarrow> bool" for I where
  stay: "slot_trace I s [] s"
| extend: "slot_trace I s xs s1 \<Longrightarrow> slot_step I s1 ys s2 \<Longrightarrow> slot_trace I s (xs @ ys) s2"

declare slot_trace.stay [intro]

inductive_cases slot_stepE: "slot_step I s ys s'"

definition slot_inv :: "slots \<Rightarrow> bool" where
  "slot_inv s \<longleftrightarrow> second \<le> sl_clock s \<and> sl_obj s \<in> set (sl_history s) \<and>
     (\<forall>h \<in> set (sl_history s). wf_ResourceVersion h \<le> wf_ResourceVersion (sl_obj s) \<and>
       (wf_ResourceVersion h = wf_ResourceVersion (sl_obj s) \<longrightarrow> h = sl_obj s) \<and>
       last_run h \<le> sl_clock s \<and> whole (last_run h) = last_run h)"

lemma whole_le: "whole t \<le> t"
  by (simp add: whole_def)

lemma whole_gt: "t - second < whole t"
  by (simp add: whole_def)

lemma whole_idem [simp]: "whole (whole t) = whole t"
  by (simp add: whole_def)

lemma whole_mono: "s \<le> t \<Longrightarrow> whole s \<le> whole t"
  by (simp add: whole_def zdiv_mono1)

lemma save_simps [simp]:
  "wf_ResourceVersion (save a s) = Suc (wf_ResourceVersion (sl_obj s))" "last_run (save a s) = whole (last_run a)"
  by (simp_all add: save_def stamp_run_def)

lemma last_run_stamp [simp]: "last_run (stamp_run t a) = t"
  by (simp add: stamp_run_def)

lemma commit_simps [simp]:
  "sl_clock (commit a s) = sl_clock s" "sl_obj (commit a s) = save a s" "sl_history (commit a s) = save a s # sl_history s"
  by (simp_all add: commit_def)

lemma commit_inv:
  assumes "slot_inv s" and "last_run a \<le> sl_clock s"
  shows "slot_inv (commit a s)"
proof -
  have v: "wf_ResourceVersion h < Suc (wf_ResourceVersion (sl_obj s))" if "h \<in> set (sl_history s)" for h
    using assms that by (auto simp: slot_inv_def less_Suc_eq_le)
  then have "h \<noteq> save a s" if "h \<in> set (sl_history s)" for h using that by fastforce
  then show ?thesis using v assms whole_le [of "last_run a"] by (fastforce simp: slot_inv_def)
qed

lemma step_inv: "slot_step I s ys s' \<Longrightarrow> slot_inv s \<Longrightarrow> slot_inv s'"
  by (induction rule: slot_step.induct) (auto simp: commit_inv, force simp: slot_inv_def)

text \<open>What one step does to the stamp: it never goes back, and a win is held to its cooldown.\<close>

lemma step_stamp:
  assumes "slot_step I s ys s'" and "slot_inv s" and "\<forall>m \<in> I. 0 \<le> m"
  shows "last_run (sl_obj s) \<le> last_run (sl_obj s') \<and>
    (ys = [] \<or> (\<exists>t m. ys = [(t, m)] \<and> m \<in> I \<and> last_run (sl_obj s') = whole t \<and> second \<le> t \<and>
      (last_run (sl_obj s) = 0 \<or> m \<le> t - last_run (sl_obj s))))"
  using assms(1)
proof cases
  case (win fresh t m)
  then have f: "fresh = sl_obj s" and w: "whole (last_run fresh) = last_run fresh"
    using assms(2) by (auto simp: slot_inv_def)
  have gap: "last_run fresh = 0 \<or> m \<le> t - last_run fresh" using win unfolding cooling_def by linarith
  moreover have "0 \<le> m" using win assms(3) by blast
  ultimately have "last_run fresh \<le> t" using win by linarith
  then have "last_run fresh \<le> whole t" using whole_mono w by metis
  then show ?thesis using win f gap by simp
qed (use assms in auto)

definition spaced :: "(instant \<times> duration) list \<Rightarrow> bool" where
  "spaced = sorted_wrt (\<lambda>(t1, m1) (t2, m2). m2 - second < t2 - t1)"

lemma trace_props:
  assumes "slot_trace I s xs s'" and "slot_inv s" and "\<forall>m \<in> I. 0 \<le> m"
  shows "slot_inv s' \<and> spaced xs \<and> last_run (sl_obj s) \<le> last_run (sl_obj s') \<and>
    (\<forall>(t, m) \<in> set xs. second \<le> t \<and> m \<in> I \<and> whole t \<le> last_run (sl_obj s'))"
  using assms(1,2)
proof induction
  case (extend s xs s1 ys s2)
  note ih = extend.IH [OF extend.prems]
  note st = step_stamp [OF extend.hyps(2) conjunct1 [OF ih] assms(3)]
  have inv: "slot_inv s2" using step_inv [OF extend.hyps(2)] ih by blast
  show ?case
  proof (cases "ys = []")
    case True
    then show ?thesis using ih st inv by fastforce
  next
    case False
    then obtain t m where ys: "ys = [(t, m)]" "m \<in> I" "last_run (sl_obj s2) = whole t" "second \<le> t"
      "last_run (sl_obj s1) = 0 \<or> m \<le> t - last_run (sl_obj s1)" using st by blast
    have "m - second < t - t1" if "(t1, m1) \<in> set xs" for t1 m1
    proof -
      have b: "second \<le> t1" "whole t1 \<le> last_run (sl_obj s1)" using ih that by auto
      have "second = whole second" by (simp add: whole_def)
      then have "0 < last_run (sl_obj s1)" using b whole_mono [OF b(1)] by simp
      then show ?thesis using ys(5) b(2) whole_gt [of t1] by linarith
    qed
    then have "spaced (xs @ ys)" using ih ys by (auto simp: spaced_def sorted_wrt_append)
    then show ?thesis using ih st inv ys by fastforce
  qed
qed (auto simp: spaced_def)

lemma trace_append: "slot_trace I s2 ys s3 \<Longrightarrow> slot_trace I s1 xs s2 \<Longrightarrow> slot_trace I s1 (xs @ ys) s3"
  by (induction arbitrary: xs rule: slot_trace.induct) (auto simp flip: append_assoc intro: slot_trace.extend)

lemma trace_step: "slot_step I s ys s' \<Longrightarrow> slot_trace I s ys s'"
  using slot_trace.extend [OF slot_trace.stay] by fastforce

lemma trace_history: "slot_trace I s xs s' \<Longrightarrow> set (sl_history s) \<subseteq> set (sl_history s') \<and> sl_clock s \<le> sl_clock s'"
  by (induction rule: slot_trace.induct) (auto elim!: slot_stepE)

end
