(* ===== verification/Controller_Props.thy ===== *)
theory Controller_Props
  imports Trigger_Slot
begin

text \<open>
  A reconcile as a run of the slot machine: what a reconcile does to the Workflow object, whatever
  other writers do meanwhile, is a trace of \<open>slot_step\<close>, and it publishes only after winning a slot.
  The locale \<open>trigger_api\<close> states what the API and the publisher promise; it is interpreted on a
  server with a lagging cache.
\<close>

section \<open>Client calls along a relation\<close>

text \<open>A reflexive and transitive relation that every call of the client for Attempts respects.\<close>

locale client_run =
  fixes c :: "'w Client" and R :: "'w \<Rightarrow> 'w \<Rightarrow> bool"
  assumes run_refl: "R w w"
    and run_trans: "R u v \<Longrightarrow> R v w \<Longrightarrow> R u w"
    and run_get: "R w (snd (cl_get c ns n w))"
    and run_create: "R w (snd (cl_create c a w))"
    and run_patchStatus: "R w (snd (cl_patchStatus c base a w))"
    and run_list: "R w (snd (cl_list c ns eqs absent w))"
    and run_pause: "R w (cl_pause c w)"
begin

lemma run_eqs:
  "cl_get c ns n w = (g, w') \<Longrightarrow> R w w'" "cl_create c a w = (r, w') \<Longrightarrow> R w w'"
  "cl_patchStatus c base a w = (e, w') \<Longrightarrow> R w w'" "cl_list c ns eqs absent w = (xs, w') \<Longrightarrow> R w w'"
  by (metis run_get run_create run_patchStatus run_list snd_conv)+

lemma run_retry:
  assumes "\<And>x v. R v (snd (g x v))"
  shows "R w (snd (RetryOnConflict k (cl_pause c) g x w))"
proof (induction k arbitrary: x w)
  case 0
  then show ?case using assms [of w x] by (subst RetryOnConflict.simps) (auto split: prod.splits option.splits)
next
  case (Suc k)
  obtain e x' w1 where g: "g x w = ((e, x'), w1)" by (metis prod_cases3 surj_pair)
  then have w1: "R w w1" using assms [of w x] by simp
  then have "R w (snd (RetryOnConflict k (cl_pause c) g x' (cl_pause c w1)))"
    using Suc.IH [of "cl_pause c w1" x'] run_pause [of w1] run_trans by blast
  then show ?case using g w1 by (subst RetryOnConflict.simps) (auto split: option.splits)
qed

lemma run_patch_once: "R v (snd (patch_once c ns n m x v))"
  by (auto simp: patch_once_def dest: run_eqs intro: run_trans split: prod.splits sum.splits)

lemma run_patchAttemptStatus: "R w (snd (patchAttemptStatus c ns n m w))"
proof -
  have "R w (snd (patchAttemptStatus_with c ns n (\<lambda>u now s. (u, m now s)) () w))"
    unfolding patchAttemptStatus_with_def by (rule run_retry) (rule run_patch_once)
  then show ?thesis by (auto simp: patchAttemptStatus_def split: prod.splits)
qed

lemma run_live: "R w (snd (LiveReviewClaims c wfl w))"
  by (auto simp: LiveReviewClaims_def dest: run_eqs split: prod.splits sum.splits)

lemma run_resolve: "R w (snd (ResolveOrCreate c obj opts w))"
  by (auto simp: ResolveOrCreate_def Let_def dest!: run_eqs intro: run_trans split: prod.splits sum.splits option.splits)

lemma run_supersede_loop: "R w (snd (supersede_loop c ns cur xs k w))"
proof (induction xs arbitrary: k w)
  case (Cons x xs)
  obtain e w1 where p: "patchAttemptStatus c ns (at_Name x) (\<lambda>t. supersede_status cur) w = (e, w1)" by fastforce
  then have "R w w1" using run_patchAttemptStatus [of w ns "at_Name x"] by (metis snd_conv)
  then show ?case using Cons.IH p run_trans by (auto split: option.splits)
qed (simp add: run_refl)

lemma run_supersede: "R w (snd (SupersedePriorAttempts c ns n cur w))"
proof (cases cur)
  case (Some a)
  show ?thesis
    using run_list run_supersede_loop run_trans
    by (auto simp: Some SupersedePriorAttempts_def run_refl dest!: run_eqs split: prod.splits sum.splits) (metis snd_conv)
qed (simp add: SupersedePriorAttempts_def run_refl)

end

sublocale client_frame \<subseteq> run: client_run c "\<lambda>w w'. f w' = f w"
  by unfold_locales (simp_all add: frame_get frame_create frame_patchStatus frame_list frame_pause)

section \<open>What the controller's API promises\<close>

definition cooldowns :: "'w Reconciler \<Rightarrow> duration set" where
  "cooldowns r = {rec_PollInterval r, webhookMinTriggerInterval}"

definition moved :: "'w Reconciler \<Rightarrow> ('w \<Rightarrow> slots) \<Rightarrow> 'w \<Rightarrow> 'w \<Rightarrow> bool" where
  "moved r view w w' \<longleftrightarrow> (\<exists>xs. slot_trace (cooldowns r) (view w) xs (view w'))"

definition quiet_run :: "'w Reconciler \<Rightarrow> ('w \<Rightarrow> slots) \<Rightarrow> ('w \<Rightarrow> string list) \<Rightarrow> 'w \<Rightarrow> 'w \<Rightarrow> bool" where
  "quiet_run r view pub w w' \<longleftrightarrow> moved r view w w' \<and> pub w' = pub w"

text \<open>A write that lands: at some point of the run the stored version is the base's, and the new object replaces it.\<close>

definition landed ::
  "'w Reconciler \<Rightarrow> ('w \<Rightarrow> slots) \<Rightarrow> ('w \<Rightarrow> string list) \<Rightarrow> Workflow \<Rightarrow> Workflow \<Rightarrow> 'w \<Rightarrow> 'w \<Rightarrow> bool" where
  "landed r view pub base a w w' \<longleftrightarrow> pub w' = pub w \<and>
     (\<exists>s xs ys. slot_trace (cooldowns r) (view w) xs s \<and> wf_ResourceVersion base = wf_ResourceVersion (sl_obj s) \<and>
       slot_trace (cooldowns r) (commit a s) ys (view w'))"

locale trigger_api = client_run "rec_client r" "quiet_run r view pub"
  for r :: "'w Reconciler" and view :: "'w \<Rightarrow> slots" and pub :: "'w \<Rightarrow> string list" +
  fixes ns n :: string
  assumes clock: "cl_now (rec_client r) w = sl_clock (view w)"
    and get_run: "quiet_run r view pub w (snd (rec_get r ns n w))"
    and get_ok: "rec_get r ns n w = (Inr a, w') \<Longrightarrow> a \<in> set (sl_history (view w')) \<and> wf_Namespace a = ns \<and> wf_Name a = n"
    and status_ok: "rec_patchStatus r base a w = (None, w') \<Longrightarrow> landed r view pub base a w w'"
    and status_err: "rec_patchStatus r base a w = (Some e, w') \<Longrightarrow> quiet_run r view pub w w'"
    and meta_ok: "rec_patch r base a w = (None, w') \<Longrightarrow> landed r view pub base a w w'"
    and meta_err: "rec_patch r base a w = (Some e, w') \<Longrightarrow> quiet_run r view pub w w'"
    and profile_run: "quiet_run r view pub w (snd (rec_getProfile r ns p w))"
    and event_run: "rec_event r = Some send \<Longrightarrow> quiet_run r view pub w (send wfl cause w)"
    and publish_run: "rec_publish r = Some publish \<Longrightarrow> publish ps topic b w = (res, w') \<Longrightarrow>
      moved r view w w' \<and> (pub w' = pub w \<or> pub w' = pub w @ [b])"
    and poll_pos: "0 \<le> rec_PollInterval r"
begin

lemma cooldowns_pos: "\<forall>m \<in> cooldowns r. 0 \<le> m"
  using poll_pos by (simp add: cooldowns_def)

lemma moved_trans: "moved r view u v \<Longrightarrow> moved r view v w \<Longrightarrow> moved r view u w"
  unfolding moved_def using trace_append by blast

lemma moved_inv: "moved r view w w' \<Longrightarrow> slot_inv (view w) \<Longrightarrow> slot_inv (view w')"
  unfolding moved_def using trace_props cooldowns_pos by blast

lemma quiet_inv: "quiet_run r view pub w w' \<Longrightarrow> slot_inv (view w) \<Longrightarrow> slot_inv (view w')"
  unfolding quiet_run_def using moved_inv by blast

lemma pending_run: "quiet_run r view pub w (snd (terminalRunPending r wfl w))"
  using run_live [of w wfl] run_refl
  by (auto simp: terminalRunPending_def Let_def split: prod.splits sum.splits)

lemma interval_run:
  assumes "slot_interval r (rec_PollInterval r) webhookMinTriggerInterval fresh w = (m, w')"
  shows "quiet_run r view pub w w' \<and> m \<in> cooldowns r"
  using assms pending_run [of w fresh] run_refl
  by (auto simp: slot_interval_def Let_def cooldowns_def split: prod.splits if_splits)

text \<open>A stamp computed from a read version at an earlier instant lands as a win.\<close>

lemma landed_win:
  assumes "landed r view pub fresh (stamp_run t fresh) w w'" and "slot_inv (view w)"
    and "fresh \<in> set (sl_history (view w))" and "t = sl_clock (view w)" and "\<not> cooling t m fresh" and "m \<in> cooldowns r"
  shows "pub w' = pub w \<and> (\<exists>xs. xs \<noteq> [] \<and> slot_trace (cooldowns r) (view w) xs (view w'))"
proof -
  obtain s xs ys where l: "pub w' = pub w" "slot_trace (cooldowns r) (view w) xs s"
    "wf_ResourceVersion fresh = wf_ResourceVersion (sl_obj s)" "slot_trace (cooldowns r) (commit (stamp_run t fresh) s) ys (view w')"
    using assms(1) by (auto simp: landed_def)
  have "second \<le> t" using assms(2,4) by (simp add: slot_inv_def)
  then have "slot_step (cooldowns r) s [(t, m)] (commit (stamp_run t fresh) s)"
    using l(3) assms trace_history [OF l(2)] by (intro slot_step.win) auto
  then have "slot_trace (cooldowns r) (view w) ((xs @ [(t, m)]) @ ys) (view w')"
    using l(2,4) trace_append slot_trace.extend by meson
  then show ?thesis using l(1) by (metis append_is_Nil_conv list.distinct(1))
qed

text \<open>Any other write of a version that was read, with a stamp that does not go back.\<close>

lemma landed_other:
  assumes "landed r view pub base a w w'" and "slot_inv (view w)" and "base \<in> set (sl_history (view w))"
    and "last_run base \<le> whole (last_run a)" and "last_run a \<le> sl_clock (view w)"
  shows "quiet_run r view pub w w'"
proof -
  obtain s xs ys where l: "pub w' = pub w" "slot_trace (cooldowns r) (view w) xs s"
    "wf_ResourceVersion base = wf_ResourceVersion (sl_obj s)" "slot_trace (cooldowns r) (commit a s) ys (view w')"
    using assms(1) by (auto simp: landed_def)
  have "base = sl_obj s"
    using trace_props [OF l(2) assms(2) cooldowns_pos] trace_history [OF l(2)] l(3) assms(3) by (auto simp: slot_inv_def)
  then have "slot_step (cooldowns r) s [] (commit a s)"
    using assms trace_history [OF l(2)] by (intro slot_step.other) auto
  then have "slot_trace (cooldowns r) (view w) ((xs @ []) @ ys) (view w')"
    using l(2,4) trace_append slot_trace.extend by meson
  then show ?thesis using l(1) by (auto simp: quiet_run_def moved_def)
qed

text \<open>A retried closure that runs from good states to good states, and reports a win only with one.\<close>

lemma retry_trace:
  assumes "\<And>x v e x' v'. g x v = ((e, x'), v') \<Longrightarrow> slot_inv (view v) \<Longrightarrow>
      pub v' = pub v \<and> (\<exists>xs. slot_trace (cooldowns r) (view v) xs (view v') \<and> (e = None \<and> Q \<longrightarrow> xs \<noteq> []))"
    and "RetryOnConflict k (cl_pause (rec_client r)) g x w = ((e, x'), w')" and "slot_inv (view w)"
  shows "pub w' = pub w \<and> (\<exists>xs. slot_trace (cooldowns r) (view w) xs (view w') \<and> (e = None \<and> Q \<longrightarrow> xs \<noteq> []))"
  using assms(2,3)
proof (induction k arbitrary: x w)
  case 0
  then have "g x w = ((e, x'), w')"
    by (subst (asm) RetryOnConflict.simps) (auto split: prod.splits option.splits)
  then show ?case using assms(1) 0 by blast
next
  case (Suc k)
  obtain e1 x1 w1 where g: "g x w = ((e1, x1), w1)" by (metis prod_cases3 surj_pair)
  then obtain xs where xs: "pub w1 = pub w" "slot_trace (cooldowns r) (view w) xs (view w1)" "e1 = None \<and> Q \<longrightarrow> xs \<noteq> []"
    using assms(1) Suc.prems(2) by blast
  show ?case
  proof (cases "\<exists>y. e1 = Some y \<and> err_Kind y = Conflict")
    case False
    then have "e1 = e \<and> w1 = w'"
      using Suc.prems(1) g by (subst (asm) RetryOnConflict.simps) (auto split: option.splits if_splits)
    then show ?thesis using xs by blast
  next
    case True
    let ?w2 = "cl_pause (rec_client r) w1"
    have "RetryOnConflict k (cl_pause (rec_client r)) g x1 ?w2 = ((e, x'), w')"
      using True Suc.prems(1) g by (subst (asm) RetryOnConflict.simps) auto
    moreover have p: "quiet_run r view pub w1 ?w2" by (rule run_pause)
    moreover have "slot_inv (view w1)" using xs(2) Suc.prems(2) trace_props cooldowns_pos by blast
    ultimately obtain ys where "pub w' = pub ?w2" "slot_trace (cooldowns r) (view ?w2) ys (view w')" "e = None \<and> Q \<longrightarrow> ys \<noteq> []"
      using Suc.IH quiet_inv by blast
    then show ?thesis using xs p trace_append unfolding quiet_run_def moved_def by (metis append_is_Nil_conv)
  qed
qed

lemma get_eqs:
  assumes "rec_get r ns n w = (x, w')"
  shows "quiet_run r view pub w w'"
  using get_run [of w] assms by simp

lemma claim_once_trace:
  assumes "claim_once r wfl (rec_PollInterval r) webhookMinTriggerInterval won w = ((e, won'), w')" and "slot_inv (view w)"
    and "wf_Namespace wfl = ns" "wf_Name wfl = n"
  shows "pub w' = pub w \<and> (\<exists>xs. slot_trace (cooldowns r) (view w) xs (view w') \<and> (e = None \<longrightarrow> xs \<noteq> []))"
proof -
  obtain g w1 where g: "rec_get r ns n w = (g, w1)" by fastforce
  note q1 = get_eqs [OF g]
  show ?thesis
  proof (cases g)
    case (Inl x)
    then show ?thesis using assms g q1 by (auto simp: claim_once_def quiet_run_def moved_def)
  next
    case (Inr fresh)
    obtain m w2 where i: "slot_interval r (rec_PollInterval r) webhookMinTriggerInterval fresh w1 = (m, w2)" by fastforce
    note q2 = interval_run [OF i]
    have q: "quiet_run r view pub w w2" using q1 q2 run_trans by blast
    then have inv: "slot_inv (view w2)" using quiet_inv assms(2) by blast
    have h: "fresh \<in> set (sl_history (view w2))"
      using get_ok g Inr q2 trace_history unfolding quiet_run_def moved_def by blast
    show ?thesis
    proof (cases "cooling (rec_now r w2) m fresh")
      case True
      then show ?thesis using assms g Inr i q by (auto simp: claim_once_def quiet_run_def moved_def)
    next
      case False
      obtain pe w3 where p: "rec_patchStatus r fresh (stamp_run (rec_now r w2) fresh) w2 = (pe, w3)" by fastforce
      have "e = pe \<and> w' = w3" using assms g Inr i False p by (auto simp: claim_once_def split: option.splits)
      moreover have "pub w3 = pub w2 \<and> (\<exists>xs. slot_trace (cooldowns r) (view w2) xs (view w3) \<and> (pe = None \<longrightarrow> xs \<noteq> []))"
      proof (cases pe)
        case None
        then show ?thesis using landed_win [OF _ inv h _ False [unfolded clock] conjunct2 [OF q2]] status_ok p clock by metis
      next
        case (Some y)
        then show ?thesis using status_err p by (auto simp: quiet_run_def moved_def)
      qed
      ultimately show ?thesis using q trace_append unfolding quiet_run_def moved_def by (metis append_is_Nil_conv)
    qed
  qed
qed

lemma claim_trace:
  assumes "claimTriggerSlot r wfl (rec_PollInterval r) webhookMinTriggerInterval w = (res, w')" and "slot_inv (view w)"
    and "wf_Namespace wfl = ns" "wf_Name wfl = n"
  shows "pub w' = pub w \<and> (\<exists>xs. slot_trace (cooldowns r) (view w) xs (view w') \<and> (res = Inr True \<longrightarrow> xs \<noteq> []))"
proof -
  obtain e won' where rt: "RetryOnConflict (cl_retries (rec_client r)) (cl_pause (rec_client r))
      (claim_once r wfl (rec_PollInterval r) webhookMinTriggerInterval) False w = ((e, won'), w')"
    using assms(1) by (auto simp: claimTriggerSlot_def split: prod.splits option.splits)
  have "res = Inr True \<Longrightarrow> e = None" using assms(1) rt by (auto simp: claimTriggerSlot_def split: option.splits if_splits)
  moreover have "pub w' = pub w \<and> (\<exists>xs. slot_trace (cooldowns r) (view w) xs (view w') \<and> (e = None \<and> True \<longrightarrow> xs \<noteq> []))"
    by (rule retry_trace [OF _ rt assms(2)]) (use claim_once_trace [OF _ _ assms(3,4)] in simp)
  ultimately show ?thesis by blast
qed

lemma observe_once_quiet:
  assumes "observe_once r wfl u w = ((e, u'), w')" and "slot_inv (view w)" and "wf_Namespace wfl = ns" "wf_Name wfl = n"
  shows "quiet_run r view pub w w'"
proof -
  obtain g w1 where g: "rec_get r ns n w = (g, w1)" by fastforce
  note q1 = get_eqs [OF g]
  show ?thesis
  proof (cases g)
    case (Inr fresh)
    let ?a = "observed (rec_now r w1) (wf_Generation wfl) fresh"
    obtain pe w2 where p: "rec_patchStatus r fresh ?a w1 = (pe, w2)" by fastforce
    have inv: "slot_inv (view w1)" and h: "fresh \<in> set (sl_history (view w1))" using q1 assms(2) quiet_inv get_ok g Inr by blast+
    then have "last_run fresh \<le> sl_clock (view w1)" "whole (last_run fresh) = last_run fresh" by (auto simp: slot_inv_def)
    then have "last_run fresh \<le> whole (sl_clock (view w1))" using whole_mono by metis
    then have "pe = None \<Longrightarrow> quiet_run r view pub w1 w2"
      using landed_other [OF status_ok inv h] p by (simp add: observed_def clock)
    then have "quiet_run r view pub w1 w2" using status_err p by (cases pe) auto
    then show ?thesis using assms g Inr p q1 run_trans by (auto simp: observe_once_def)
  qed (use assms g q1 in \<open>auto simp: observe_once_def\<close>)
qed

lemma clear_once_quiet:
  assumes "clear_once r wfl u w = ((e, u'), w')" and "slot_inv (view w)" and "wf_Namespace wfl = ns" "wf_Name wfl = n"
  shows "quiet_run r view pub w w'"
proof -
  obtain g w1 where g: "rec_get r ns n w = (g, w1)" by fastforce
  note q1 = get_eqs [OF g]
  show ?thesis
  proof (cases g)
    case (Inr fresh)
    let ?a = "fresh\<lparr>wf_Annotations := clear_annotations (wf_Annotations fresh)\<rparr>"
    obtain pe w2 where p: "rec_patch r fresh ?a w1 = (pe, w2)" by fastforce
    have inv: "slot_inv (view w1)" and h: "fresh \<in> set (sl_history (view w1))" using q1 assms(2) quiet_inv get_ok g Inr by blast+
    then have "last_run fresh \<le> sl_clock (view w1)" "whole (last_run fresh) = last_run fresh" by (auto simp: slot_inv_def)
    then have "pe = None \<Longrightarrow> quiet_run r view pub w1 w2"
      using landed_other [OF meta_ok inv h] p by simp
    then have "quiet_run r view pub w1 w2" using meta_err p by (cases pe) auto
    then show ?thesis using assms g Inr p q1 run_trans by (auto simp: clear_once_def split: if_splits)
  qed (use assms g q1 in \<open>auto simp: clear_once_def\<close>)
qed

lemma retry_quiet:
  assumes "\<And>x v e x' v'. g x v = ((e, x'), v') \<Longrightarrow> slot_inv (view v) \<Longrightarrow> quiet_run r view pub v v'" and "slot_inv (view w)"
  shows "quiet_run r view pub w (snd (RetryOnConflict k (cl_pause (rec_client r)) g x w))"
proof -
  obtain e x' w' where rt: "RetryOnConflict k (cl_pause (rec_client r)) g x w = ((e, x'), w')" by (metis prod_cases3 surj_pair)
  have "pub w' = pub w \<and> (\<exists>xs. slot_trace (cooldowns r) (view w) xs (view w') \<and> (e = None \<and> False \<longrightarrow> xs \<noteq> []))"
    by (rule retry_trace [OF _ rt assms(2)]) (use assms(1) in \<open>auto simp: quiet_run_def moved_def\<close>)
  then show ?thesis using rt by (auto simp: quiet_run_def moved_def)
qed

lemma resolve_quiet: "quiet_run r view pub w (snd (resolveAttempt r wfl w))"
proof -
  have sup: "quiet_run r view pub v (snd (SupersedePriorAttempts (rec_client r) ns' n' cur v))" for v ns' n' cur
    by (rule run_supersede)
  have res: "ResolveOrCreate (rec_client r) obj opts w = (x, v) \<Longrightarrow> quiet_run r view pub w v" for obj opts x v
    using run_resolve [of w obj opts] by simp
  show ?thesis
    unfolding resolveAttempt_def Let_def
    by (auto split: prod.split sum.split dest!: res intro: run_trans [OF _ sup])
qed

lemma publish_moved:
  assumes "publishTrigger r wfl reason rv tp att w = (e, w')"
  shows "moved r view w w' \<and> (pub w' = pub w \<or> (\<exists>b. pub w' = pub w @ [b]))"
proof -
  have "moved r view w w" using run_refl [of w] by (simp add: quiet_run_def)
  then show ?thesis
    using assms publish_run by (fastforce simp: publishTrigger_def Let_def split: option.splits sum.splits prod.splits)
qed

lemma schedule_moved:
  assumes "slot_inv (view w)" and "wf_Namespace wfl = ns" "wf_Name wfl = n"
  shows "moved r view w (schedule_run r wfl reason w) \<and>
    (pub (schedule_run r wfl reason w) = pub w \<or> (\<exists>b. pub (schedule_run r wfl reason w) = pub w @ [b]))"
proof -
  obtain att w1 where a: "resolveAttempt r wfl w = (att, w1)" by fastforce
  have q1: "quiet_run r view pub w w1" using resolve_quiet [of w wfl] a by simp
  let ?ann = "annotation wfl TriggerRevisionAnnotation"
  let ?rev = "if ?ann = [] then ws_LastProcessedRevision (wf_Status wfl) else ?ann"
  obtain e w2 where p: "publishTrigger r wfl reason ?rev (rec_traceparent r) att w1 = (e, w2)" by fastforce
  note q2 = publish_moved [OF p]
  have inv2: "slot_inv (view w2)" using assms(1) quiet_inv [OF q1] moved_inv q2 by blast
  have q3: "quiet_run r view pub w2 (clear_trigger r wfl w2)"
    using retry_quiet [where g = "clear_once r wfl", OF _ inv2] clear_once_quiet [OF _ _ assms(2,3)] run_refl
    by (simp add: clear_trigger_def)
  then have inv3: "slot_inv (view (clear_trigger r wfl w2))" using quiet_inv inv2 by blast
  have q4: "quiet_run r view pub (clear_trigger r wfl w2) (snd (observeGeneration r wfl (clear_trigger r wfl w2)))"
    using retry_quiet [where g = "observe_once r wfl" and k = "cl_retries (rec_client r)" and x = "()", OF _ inv3]
      observe_once_quiet [OF _ _ assms(2,3)]
    by (auto simp: observeGeneration_def split: prod.splits)
  have "schedule_run r wfl reason w = snd (observeGeneration r wfl (clear_trigger r wfl w2))"
    by (simp add: schedule_run_def a p Let_def)
  then show ?thesis using q1 q2 q3 q4 moved_trans unfolding quiet_run_def by metis
qed

lemma reconcile_due_trace:
  assumes "reconcile_due r wfl reason requeueAfter w = (res, w')" and "slot_inv (view w)"
    and "wf_Namespace wfl = ns" "wf_Name wfl = n"
  shows "\<exists>xs. slot_trace (cooldowns r) (view w) xs (view w') \<and>
    (pub w' = pub w \<or> xs \<noteq> [] \<and> (\<exists>b. pub w' = pub w @ [b]))"
proof -
  obtain cause w1 where c: "profileCompat r ns w = (cause, w1)" by fastforce
  have q1: "quiet_run r view pub w w1"
  proof -
    have "rec_getProfile r ns p w = (x, v) \<Longrightarrow> quiet_run r view pub w v" for p x v using profile_run [of w p] by simp
    then show ?thesis using c run_refl by (fastforce simp: profileCompat_def Let_def split: if_splits prod.splits sum.splits)
  qed
  show ?thesis
  proof (cases cause)
    case (Some x)
    then have "quiet_run r view pub w w'"
      using assms c q1 event_run run_trans by (auto simp: reconcile_due_def split: option.splits)
    then show ?thesis by (auto simp: quiet_run_def moved_def)
  next
    case None
    obtain got w2 where g: "claimTriggerSlot r wfl (rec_PollInterval r) webhookMinTriggerInterval w1 = (got, w2)" by fastforce
    have inv1: "slot_inv (view w1)" using quiet_inv q1 assms(2) by blast
    obtain xs where xs: "pub w2 = pub w1" "slot_trace (cooldowns r) (view w1) xs (view w2)" "got = Inr True \<longrightarrow> xs \<noteq> []"
      using claim_trace [OF g inv1 assms(3,4)] by blast
    obtain ps where ps: "slot_trace (cooldowns r) (view w) ps (view w1)" "pub w1 = pub w" using q1 by (auto simp: quiet_run_def moved_def)
    show ?thesis
    proof (cases "got = Inr True")
      case False
      then have "w' = w2" using assms c None g by (auto simp: reconcile_due_def split: sum.splits bool.splits)
      then show ?thesis using xs ps trace_append by metis
    next
      case True
      have w': "w' = schedule_run r wfl reason w2" using assms c None g True by (simp add: reconcile_due_def)
      have "slot_inv (view w2)" using xs(2) inv1 trace_props cooldowns_pos by blast
      then obtain ys where "slot_trace (cooldowns r) (view w2) ys (view w')" "pub w' = pub w2 \<or> (\<exists>b. pub w' = pub w2 @ [b])"
        using schedule_moved [OF _ assms(3,4)] unfolding w' moved_def by blast
      then have "slot_trace (cooldowns r) (view w) ((ps @ xs) @ ys) (view w')" "(ps @ xs) @ ys \<noteq> []"
        "pub w' = pub w \<or> (\<exists>b. pub w' = pub w @ [b])"
        using xs ps True trace_append by (blast, simp, simp)
      then show ?thesis by blast
    qed
  qed
qed

lemma reconcile_trace:
  assumes "Reconcile r ns n w = (res, w')" and "slot_inv (view w)"
  shows "\<exists>xs. slot_trace (cooldowns r) (view w) xs (view w') \<and>
    (pub w' = pub w \<or> xs \<noteq> [] \<and> (\<exists>b. pub w' = pub w @ [b]))"
proof -
  obtain g w1 where g: "rec_get r ns n w = (g, w1)" by fastforce
  note q1 = get_eqs [OF g]
  have quiet: "quiet_run r view pub w w' \<Longrightarrow> ?thesis" by (auto simp: quiet_run_def moved_def)
  show ?thesis
  proof (cases g)
    case (Inl e)
    then show ?thesis using assms g q1 quiet by (simp add: Reconcile_def)
  next
    case (Inr wfl)
    obtain tw w2 where t: "terminalRunPending r wfl w1 = (tw, w2)" by fastforce
    have q2: "quiet_run r view pub w w2" using q1 pending_run [of w1 wfl] t run_trans by fastforce
    obtain due req where d: "(if tw then (True, 0) else isDue (rec_cron r) (rec_PollInterval r) (rec_now r w2) wfl) = (due, req)" by fastforce
    consider "w' = w1" | "w' = w2"
      | "reconcile_due r wfl (if tw then ''run-terminal'' else dueReason wfl) req w2 = (res, w')"
      using assms(1) g Inr t d by (auto simp: Reconcile_def split: if_splits)
    then show ?thesis
    proof cases
      case 3
      have "wf_Namespace wfl = ns" "wf_Name wfl = n" using get_ok g Inr by blast+
      then obtain xs where "slot_trace (cooldowns r) (view w2) xs (view w')" "pub w' = pub w2 \<or> xs \<noteq> [] \<and> (\<exists>b. pub w' = pub w2 @ [b])"
        using reconcile_due_trace [OF 3] q2 assms(2) quiet_inv by blast
      moreover obtain ps where "slot_trace (cooldowns r) (view w) ps (view w2)" "pub w2 = pub w" using q2 by (auto simp: quiet_run_def moved_def)
      ultimately show ?thesis using trace_append by (metis append_is_Nil_conv)
    qed (use q1 q2 quiet in auto)
  qed
qed

end

end
