(* ===== verification/Controller_Theorems.thy ===== *)
theory Controller_Theorems
  imports Controller_Props Agent_Profile_Props
begin

text \<open>
  The properties of the controller. The locale of its API is interpreted on a server of one Workflow
  behind a cache: every read may lag behind by a number of versions, a write lands only on the
  version it was computed from, times are stored in whole seconds.
\<close>

section \<open>A server with a lagging cache\<close>

record cached =
  ca_slots :: slots
  ca_lags :: "nat list"
  ca_pub :: "string list"

type_synonym cached_world = "store \<times> cached"

definition cached_view :: "cached_world \<Rightarrow> slots" where
  "cached_view w = (ca_slots (snd w))\<lparr>sl_clock := sv_clock (fst w)\<rparr>"

definition cached_pub :: "cached_world \<Rightarrow> string list" where
  "cached_pub w = ca_pub (snd w)"

definition cached_get :: "string \<Rightarrow> string \<Rightarrow> cached_world \<Rightarrow> (error + Workflow) \<times> cached_world" where
  "cached_get ns n w =
     (let hist = sl_history (ca_slots (snd w));
          k = (case ca_lags (snd w) of [] \<Rightarrow> 0 | lag # rest \<Rightarrow> lag)
      in (if k < length hist \<and> wf_Namespace (hist ! k) = ns \<and> wf_Name (hist ! k) = n then Inr (hist ! k)
          else Inl (api_error NotFound),
          fst w, (snd w)\<lparr>ca_lags := tl (ca_lags (snd w))\<rparr>))"

definition cached_patch :: "Workflow \<Rightarrow> Workflow \<Rightarrow> cached_world \<Rightarrow> error option \<times> cached_world" where
  "cached_patch base a w =
     (if wf_ResourceVersion base = wf_ResourceVersion (sl_obj (ca_slots (snd w)))
      then (None, fst w, (snd w)\<lparr>ca_slots := commit a (ca_slots (snd w))\<rparr>)
      else (Some (api_error Conflict), w))"

definition cached_reconciler :: "cached_world Reconciler" where
  "cached_reconciler =
     \<lparr>rec_client = lift_client store_server, rec_get = cached_get, rec_patch = cached_patch, rec_patchStatus = cached_patch,
      rec_getProfile = (\<lambda>ns p w. (Inl (api_error NotFound), w)), rec_event = None,
      rec_marshal = (\<lambda>e. Inr (te_Workflow e @ '' '' @ te_TriggerType e)),
      rec_publish = Some (\<lambda>ps topic b w. (None, fst w, (snd w)\<lparr>ca_pub := ca_pub (snd w) @ [b]\<rparr>)),
      rec_cron = (\<lambda>s. Inl ''unparsed''), rec_semver = demo_semver, rec_urlPath = (\<lambda>u. None), rec_Scheme = False,
      rec_PollInterval = 5 * minute, rec_TriggerTopic = [], rec_KernelVersion = ''1.4.1'', rec_BuildVersion = [],
      rec_agentProfile = [], rec_traceparent = []\<rparr>"

lemma cached_sel [simp]:
  "rec_client cached_reconciler = lift_client store_server" "rec_get cached_reconciler = cached_get"
  "rec_patch cached_reconciler = cached_patch" "rec_patchStatus cached_reconciler = cached_patch"
  "rec_event cached_reconciler = None" "rec_PollInterval cached_reconciler = 5 * minute"
  "rec_publish cached_reconciler = Some (\<lambda>ps topic b w. (None, fst w, (snd w)\<lparr>ca_pub := ca_pub (snd w) @ [b]\<rparr>))"
  "rec_getProfile cached_reconciler ns p w = (Inl (api_error NotFound), w)"
  by (simp_all add: cached_reconciler_def)

lemma store_clock:
  "sv_clock (snd (cl_get store_server ns n v)) = sv_clock v" "sv_clock (snd (cl_create store_server a v)) = sv_clock v"
  "sv_clock (snd (cl_patchStatus store_server base a v)) = sv_clock v" "sv_clock (snd (cl_list store_server ns eqs absent v)) = sv_clock v"
  by (auto simp: store_server_def locked_put_def put_def Let_def split: option.split)

lemma quiet_same:
  assumes "snd w' = snd w" and "sv_clock (fst w) \<le> sv_clock (fst w')"
  shows "quiet_run cached_reconciler cached_view cached_pub w w'"
proof -
  have "slot_step (cooldowns cached_reconciler) (cached_view w) [] ((cached_view w)\<lparr>sl_clock := sv_clock (fst w')\<rparr>)"
    using assms(2) by (intro slot_step.tick) (simp add: cached_view_def)
  moreover have "(cached_view w)\<lparr>sl_clock := sv_clock (fst w')\<rparr> = cached_view w'" using assms(1) by (simp add: cached_view_def)
  ultimately show ?thesis using trace_step assms(1) unfolding quiet_run_def moved_def cached_pub_def by metis
qed

lemma quiet_view:
  assumes "cached_view w' = cached_view w" and "cached_pub w' = cached_pub w"
  shows "quiet_run cached_reconciler cached_view cached_pub w w'"
  using assms unfolding quiet_run_def moved_def by (metis slot_trace.stay)

lemma cached_patch_landed:
  assumes "cached_patch base a w = (None, w')"
  shows "landed cached_reconciler cached_view cached_pub base a w w'"
proof -
  have b: "wf_ResourceVersion base = wf_ResourceVersion (sl_obj (cached_view w))" "cached_view w' = commit a (cached_view w)"
    "cached_pub w' = cached_pub w"
    using assms by (auto simp: cached_patch_def cached_view_def cached_pub_def commit_def save_def split: if_splits)
  then show ?thesis unfolding landed_def using slot_trace.stay by metis
qed

lemma on_fst_snd [simp]: "fst (snd (on_fst g w)) = snd (g (fst w))" "snd (snd (on_fst g w)) = snd w"
  by (simp_all add: on_fst_def split: prod.split)

lemma cached_client: "client_run (lift_client store_server) (quiet_run cached_reconciler cached_view cached_pub)"
proof
  show "quiet_run cached_reconciler cached_view cached_pub u w"
    if "quiet_run cached_reconciler cached_view cached_pub u v" "quiet_run cached_reconciler cached_view cached_pub v w" for u v w
    using that trace_append unfolding quiet_run_def moved_def by metis
  show "quiet_run cached_reconciler cached_view cached_pub w (cl_pause (lift_client store_server) w)" for w
    by (rule quiet_same) (simp_all add: store_server_def)
qed (auto intro!: quiet_same simp: store_clock)

lemma moved_view: "cached_view w' = cached_view w \<Longrightarrow> moved cached_reconciler cached_view w w'"
  unfolding moved_def by (metis slot_trace.stay)

lemma cached_patch_err: "cached_patch base a w = (Some e, w') \<Longrightarrow> w' = w"
  by (auto simp: cached_patch_def split: if_splits)

interpretation cached: trigger_api cached_reconciler cached_view cached_pub ns n for ns n
proof -
  have "trigger_api_axioms cached_reconciler cached_view cached_pub ns n"
  proof
    show "cl_now (rec_client cached_reconciler) w = sl_clock (cached_view w)" for w
      by (simp add: cached_view_def store_server_def)
  qed (auto simp: cached_get_def cached_view_def cached_pub_def Let_def intro!: quiet_view cached_patch_landed moved_view
      dest!: cached_patch_err split: if_splits)
  then show "trigger_api cached_reconciler cached_view cached_pub ns n"
    by (simp add: trigger_api_def cached_client)
qed

section \<open>The trigger slot\<close>

text \<open>
  C15. Won trigger slots are spaced, however many reconciles race and however stale the versions are
  that they read: of two slots won in one run, the later was won more than its own cooldown after
  the earlier, less the second that the stored stamp is rounded down by.
\<close>
theorem trigger_slots_spaced:
  assumes "slot_inv s" and "slot_trace I s xs s'" and "\<forall>m \<in> I. 0 \<le> m" and "i < j" "j < length xs"
  shows "snd (xs ! j) - second < fst (xs ! j) - fst (xs ! i)"
proof -
  have "spaced xs" using trace_props [OF assms(2,1,3)] by blast
  then have "(\<lambda>(t1, m1) (t2, m2). m2 - second < t2 - t1) (xs ! i) (xs ! j)"
    using assms(4,5) unfolding spaced_def by (rule sorted_wrt_nth_less)
  then show ?thesis by (simp add: case_prod_unfold)
qed

definition fresh_slots :: slots where
  "fresh_slots = \<lparr>sl_clock = second, sl_obj = Workflow0, sl_history = [Workflow0]\<rparr>"

lemma fresh_slots_inv: "slot_inv fresh_slots"
  by (simp add: fresh_slots_def slot_inv_def workflow0_defs whole_def)

theorem trigger_slots_spaced_witness:
  "\<exists>s'. slot_trace {webhookMinTriggerInterval} fresh_slots [(second, webhookMinTriggerInterval), (12 * second, webhookMinTriggerInterval)] s' \<and>
     webhookMinTriggerInterval - second < 12 * second - second"
proof -
  let ?I = "{webhookMinTriggerInterval}"
  let ?s1 = "commit (stamp_run second Workflow0) fresh_slots"
  let ?s2 = "?s1\<lparr>sl_clock := 12 * second\<rparr>"
  let ?s3 = "commit (stamp_run (12 * second) (sl_obj ?s2)) ?s2"
  have a: "slot_step ?I fresh_slots [(second, webhookMinTriggerInterval)] ?s1"
    by (rule slot_step.win) (simp_all add: fresh_slots_def cooling_def workflow0_defs)
  have b: "slot_step ?I ?s1 [] ?s2" by (rule slot_step.tick) (simp add: fresh_slots_def)
  have c: "slot_step ?I ?s2 [(12 * second, webhookMinTriggerInterval)] ?s3"
    by (rule slot_step.win) (simp_all add: cooling_def whole_def)
  have t: "slot_trace ?I fresh_slots (([(second, webhookMinTriggerInterval)] @ []) @ [(12 * second, webhookMinTriggerInterval)]) ?s3"
    using trace_step [OF a] b c slot_trace.extend by meson
  then have "webhookMinTriggerInterval - second < 12 * second - second"
    using trigger_slots_spaced [OF fresh_slots_inv t, of 0 1] by simp
  then show ?thesis using t by auto
qed

text \<open>
  C14. A reconcile publishes at most one trigger, and only in a run in which a slot was won: whatever
  else happens to the object meanwhile, what the reconcile does is a run of the slot machine.
\<close>
theorem reconcile_publishes_on_won_slot:
  assumes "trigger_api r view pub ns n" and "slot_inv (view w)" and "Reconcile r ns n w = (res, w')"
  shows "\<exists>xs. slot_trace (cooldowns r) (view w) xs (view w') \<and> (pub w' = pub w \<or> xs \<noteq> [] \<and> (\<exists>b. pub w' = pub w @ [b]))"
  using trigger_api.reconcile_trace [OF assms(1,3,2)] .

text \<open>A workflow that a webhook woke, behind a cache whose second read is stale.\<close>

definition woken_workflow :: Workflow where
  "woken_workflow = Workflow0\<lparr>wf_Name := ''w'', wf_Namespace := ''ns'', wf_ResourceVersion := 1,
     wf_Annotations := [(TriggerRevisionAnnotation, ''abc'')]\<rparr>"

definition woken_world :: cached_world where
  "woken_world = (\<lparr>sv_objects = [], sv_clock = 100 * second, sv_version = 1\<rparr>,
     \<lparr>ca_slots = \<lparr>sl_clock = 0, sl_obj = woken_workflow,
        sl_history = [woken_workflow, Workflow0\<lparr>wf_Name := ''w'', wf_Namespace := ''ns''\<rparr>]\<rparr>,
      ca_lags = [0, 1, 0, 1], ca_pub = []\<rparr>)"

lemma woken_run: "cached_pub (snd (Reconcile cached_reconciler ''ns'' ''w'' woken_world)) = [''w webhook'']"
  by code_simp

lemma woken_inv: "slot_inv (cached_view woken_world)"
  by (simp add: woken_world_def cached_view_def slot_inv_def woken_workflow_def workflow0_defs whole_def)

theorem reconcile_publishes_on_won_slot_witness:
  "\<exists>xs w'. xs \<noteq> [] \<and> slot_trace (cooldowns cached_reconciler) (cached_view woken_world) xs (cached_view w') \<and>
     cached_pub w' = [''w webhook'']"
proof -
  obtain res w' where run: "Reconcile cached_reconciler ''ns'' ''w'' woken_world = (res, w')" by (metis surj_pair)
  have p: "cached_pub woken_world = []" "cached_pub w' = [''w webhook'']"
    using woken_run run by (simp_all add: cached_pub_def woken_world_def)
  then have "cached_pub w' \<noteq> cached_pub woken_world" by simp
  then show ?thesis
    using reconcile_publishes_on_won_slot [OF cached.trigger_api_axioms woken_inv run] p(2) by blast
qed

section \<open>When a workflow is due\<close>

text \<open>
  A workflow on a cron schedule that nothing else wakes runs exactly when its schedule parses and
  the first activation after its last run has come: a mistyped schedule never runs, and while the
  workflow is not due the next look is at least a minute away.
\<close>
theorem cron_due_iff:
  assumes "annotation wfl TriggerRevisionAnnotation = []" and "ws_ObservedGeneration (wf_Status wfl) = wf_Generation wfl"
    and "\<not> armed_gate wfl" and "src_Kind (wspec_Source (wf_Spec wfl)) \<noteq> ''webhook''"
    and "sched = TrimSpace (src_Schedule (wspec_Source (wf_Spec wfl)))" and "sched \<noteq> []"
  shows "(fst (isDue cron poll now wfl) \<longleftrightarrow> (\<exists>next. cron sched = Inr next \<and> next (last_run wfl) \<le> now)) \<and>
    (fst (isDue cron poll now wfl) \<or> minScheduleRequeue \<le> snd (isDue cron poll now wfl))"
  using assms by (cases "cron sched") (auto simp: isDue_def Let_def webhook_due_def nextCronActivation_def)

definition weekly_workflow :: Workflow where
  "weekly_workflow = Workflow0\<lparr>wf_Spec := WorkflowSpec0\<lparr>wspec_Source := SourceSpec0\<lparr>src_Kind := ''schedule'',
     src_Schedule := '' 0 4 * * 0 ''\<rparr>\<rparr>\<rparr>"

theorem cron_due_iff_witness:
  "\<not> fst (isDue (\<lambda>s. Inl ''bad'') minute (90 * minute) weekly_workflow) \<and>
   fst (isDue (\<lambda>s. Inr (\<lambda>t. t + 60 * minute)) minute (90 * minute) weekly_workflow)"
proof -
  have p: "annotation weekly_workflow TriggerRevisionAnnotation = []"
    "ws_ObservedGeneration (wf_Status weekly_workflow) = wf_Generation weekly_workflow" "\<not> armed_gate weekly_workflow"
    "src_Kind (wspec_Source (wf_Spec weekly_workflow)) \<noteq> ''webhook''" "last_run weekly_workflow = 0"
    by (simp_all add: weekly_workflow_def workflow0_defs annotation_def armed_gate_def)
  have t: "TrimSpace (src_Schedule (wspec_Source (wf_Spec weekly_workflow))) \<noteq> []" by code_simp
  show ?thesis
    using cron_due_iff [OF p(1,2,3,4) refl t, of "\<lambda>s. Inl ''bad''" minute "90 * minute"]
      cron_due_iff [OF p(1,2,3,4) refl t, of "\<lambda>s. Inr (\<lambda>t. t + 60 * minute)" minute "90 * minute"] p(5)
    by simp
qed

text \<open>
  No reconcile asks to be run again at once: a reconcile of an object that exists returns a positive
  delay, on every path, refused, lost, won or failed.
\<close>
theorem reconcile_never_spins:
  assumes "0 < rec_PollInterval r" and "rec_get r ns n w = (Inr wfl, w1)" and "Reconcile r ns n w = (Inr delay, w')"
  shows "0 < delay"
proof -
  have due: "\<not> due \<longrightarrow> 0 < d" "due \<longrightarrow> 0 \<le> d" if "isDue cron (rec_PollInterval r) now x = (due, d)" for cron now x due d
    using that assms(1) by (auto simp: isDue_def Let_def split: if_splits sum.splits)
  have rd: "0 < delay" if "reconcile_due r wfl reason d v = (Inr delay, v')" "0 \<le> d" for reason d v v'
    using that assms(1) by (auto simp: reconcile_due_def split: prod.splits option.splits sum.splits bool.splits if_splits)
  obtain tw w2 where t: "terminalRunPending r wfl w1 = (tw, w2)" by fastforce
  obtain b d where i: "isDue (rec_cron r) (rec_PollInterval r) (rec_now r w2) wfl = (b, d)" by fastforce
  show ?thesis
    using assms t i due [OF i] rd by (auto simp: Reconcile_def split: if_splits)
qed

theorem reconcile_never_spins_witness:
  "\<exists>delay w'. Reconcile cached_reconciler ''ns'' ''w'' woken_world = (Inr delay, w') \<and> 0 < delay"
proof -
  have g: "rec_get cached_reconciler ''ns'' ''w'' woken_world = (Inr woken_workflow, snd (cached_get ''ns'' ''w'' woken_world))"
    by code_simp
  have "\<not> isl (fst (Reconcile cached_reconciler ''ns'' ''w'' woken_world))" by code_simp
  then obtain delay w' where run: "Reconcile cached_reconciler ''ns'' ''w'' woken_world = (Inr delay, w')"
    by (metis isl_def prod.collapse sum.collapse(2))
  then have "0 < delay" using reconcile_never_spins [OF _ g run] by simp
  then show ?thesis using run by blast
qed

section \<open>Completion wakes\<close>

text \<open>
  One completion wakes a workflow once: once a slot is won at an instant no earlier than the ends of
  the recorded runs, no later look at those runs finds a completion, although both instants are
  stored in whole seconds and the claims stay live.
\<close>
theorem completion_wakes_once:
  assumes "LiveReviewClaims (rec_client r) (save (stamp_run t fresh) s) w = (Inr attempts, w')"
    and "list_all (\<lambda>a. list_all (\<lambda>run. run_EndedAt run \<le> t \<and> whole (run_EndedAt run) = run_EndedAt run) (st_Runs (at_Status a))) attempts"
  shows "fst (terminalRunPending r (save (stamp_run t fresh) s) w) = False"
proof -
  have "\<not> terminal_since (whole t) attempts"
    using assms(2) whole_mono unfolding terminal_since_def list_all_iff list_ex_iff by (metis not_le)
  then show ?thesis using assms(1) by (simp add: terminalRunPending_def Let_def)
qed

definition ended_claim :: Attempt where
  "ended_claim = \<lparr>at_Name = ''a'', at_Namespace = ''ns'',
     at_Labels = [(WorkflowLabel, ''w''), (ObjectiveKindLabel, DeriveKind woken_workflow)], at_UID = [],
     at_CreationTimestamp = second, at_ResourceVersion = 0,
     at_Spec = \<lparr>aspec_Objective = DeriveObjective (\<lambda>u. None) woken_workflow \<lparr>trig_Revision = ''abc'', trig_Source = ''webhook''\<rparr>,
       aspec_WorkflowRef = ''ns/w'', aspec_Bindings = [], aspec_Owner = []\<rparr>,
     at_Status = AttemptStatus0\<lparr>st_Runs := [\<lparr>run_Name = ''r'', run_StartedAt = second, run_EndedAt = 50 * second, run_Phase = ''failed''\<rparr>],
       st_Review := Some ReviewClaimStatus0\<rparr>\<rparr>"

definition gated_workflow :: "instant \<Rightarrow> Workflow" where
  "gated_workflow t = stamp_run t (woken_workflow\<lparr>wf_Status := WorkflowStatus0\<lparr>ws_ReviewReady :=
     Some \<lparr>rrs_LiveClaims = 1, rrs_Capacity = 1, rrs_LastDecision = [], rrs_LastReason = [], rrs_LastSweepAbortAt = None,
       rrs_LastWake = [], rrs_Refusals = []\<rparr>\<rparr>\<rparr>)"

definition claim_world :: cached_world where
  "claim_world = (\<lparr>sv_objects = [ended_claim], sv_clock = 100 * second, sv_version = 1\<rparr>, snd woken_world)"

theorem completion_wakes_once_witness:
  "fst (terminalRunPending cached_reconciler (gated_workflow (10 * second)) claim_world) \<and>
   fst (terminalRunPending cached_reconciler (save (stamp_run (100 * second) (gated_workflow (10 * second))) fresh_slots) claim_world) = False"
proof -
  let ?w = "save (stamp_run (100 * second) (gated_workflow (10 * second))) fresh_slots"
  have a: "fst (terminalRunPending cached_reconciler (gated_workflow (10 * second)) claim_world)" by code_simp
  have l: "LiveReviewClaims (rec_client cached_reconciler) ?w claim_world = (Inr [ended_claim], claim_world)" by code_simp
  show ?thesis using a completion_wakes_once [OF l] by (simp add: ended_claim_def whole_def AttemptStatus0_def)
qed

section \<open>Reasons and conditions\<close>

text \<open>
  The published reason is not the test that keys the cooldown: a wake whose revision was already
  processed is published as a webhook although it is held to the schedule's cooldown, and a manual
  wake has the webhook's cooldown and not its reason.
\<close>
theorem due_reason_is_not_the_slot_test:
  "(\<exists>wfl. dueReason wfl = ''webhook'' \<and> \<not> webhook_due wfl) \<and> (\<exists>wfl. webhook_due wfl \<and> dueReason wfl \<noteq> ''webhook'')"
proof -
  let ?done = "woken_workflow\<lparr>wf_Status := WorkflowStatus0\<lparr>ws_LastProcessedRevision := ''abc''\<rparr>\<rparr>"
  let ?manual = "woken_workflow\<lparr>wf_Annotations := [(TriggerRevisionAnnotation, ''manual-1'')]\<rparr>"
  have "dueReason ?done = ''webhook'' \<and> \<not> webhook_due ?done" "webhook_due ?manual \<and> dueReason ?manual \<noteq> ''webhook''" by code_simp+
  then show ?thesis by blast
qed

lemma setCondition_at_stale:
  assumes "setCondition_at conds c = Some out" and "find (\<lambda>e. cond_Type e = cond_Type c) conds = Some e" and "cond_Status e = cond_Status c"
  shows "find (\<lambda>e. cond_Type e = cond_Type c) out = Some (e\<lparr>cond_Reason := cond_Reason c, cond_Message := cond_Message c\<rparr>)"
  using assms by (induction conds arbitrary: out) (auto split: if_splits)

lemma setCondition_at_None: "setCondition_at conds c = None \<longleftrightarrow> find (\<lambda>e. cond_Type e = cond_Type c) conds = None"
  by (induction conds) auto

text \<open>
  The condition that says which generation was scheduled goes stale: once a workflow has its
  \<^verbatim>\<open>Scheduled\<close> condition, observing a later generation leaves the condition at the earlier one.
\<close>
theorem scheduled_condition_stale:
  assumes "find (\<lambda>e. cond_Type e = ''Scheduled'') (ws_Conditions (wf_Status wfl)) = Some e" and "cond_Status e"
  shows "\<exists>e'. find (\<lambda>e. cond_Type e = ''Scheduled'') (ws_Conditions (wf_Status (observed now generation wfl))) = Some e' \<and>
    cond_ObservedGeneration e' = cond_ObservedGeneration e \<and> ws_ObservedGeneration (wf_Status (observed now generation wfl)) = generation"
proof -
  let ?c = "\<lparr>cond_Type = ''Scheduled'', cond_Status = True, cond_Reason = ''TriggerPublished'',
    cond_Message = ''monitor controller published a trigger event'', cond_ObservedGeneration = generation,
    cond_LastTransitionTime = now\<rparr>"
  obtain out where o: "setCondition_at (ws_Conditions (wf_Status wfl)) ?c = Some out"
    using assms(1) setCondition_at_None [of "ws_Conditions (wf_Status wfl)" ?c] by fastforce
  have "find (\<lambda>e. cond_Type e = ''Scheduled'') out = Some (e\<lparr>cond_Reason := cond_Reason ?c, cond_Message := cond_Message ?c\<rparr>)"
    using setCondition_at_stale [OF o] assms by simp
  then show ?thesis using o by (simp add: observed_def setCondition_def)
qed

theorem scheduled_condition_stale_witness:
  "\<exists>e'. find (\<lambda>e. cond_Type e = ''Scheduled'') (ws_Conditions (wf_Status (observed 9 2 (observed 5 1 Workflow0)))) = Some e' \<and>
     cond_ObservedGeneration e' = 1"
proof -
  have f: "find (\<lambda>e. cond_Type e = ''Scheduled'') (ws_Conditions (wf_Status (observed 5 1 Workflow0))) =
    Some \<lparr>cond_Type = ''Scheduled'', cond_Status = True, cond_Reason = ''TriggerPublished'',
      cond_Message = ''monitor controller published a trigger event'', cond_ObservedGeneration = 1, cond_LastTransitionTime = 5\<rparr>"
    by code_simp
  show ?thesis using scheduled_condition_stale [OF f, of 9 2] by auto
qed

end
