(* ===== verification/Controller_Janitor.thy ===== *)
theory Controller_Janitor
  imports Attempt_Janitor Gate_Theorems
begin

text \<open>
  The janitor that the controller runs over a namespace (\<^verbatim>\<open>internal/controller/janitor.go\<close>): the reaper,
  the garbage collection, the Jobs that outlived their terminal Attempt and the finished pods
  whose Job is gone. The locale \<open>job_api\<close> states what the API promises about Jobs and pods.
\<close>

record Pod =
  pod_Name :: string
  pod_Phase :: string
  pod_Labels :: "(string, string) gomap"

record 'w Janitor =
  jn_client :: "'w Client"
  jn_getJob :: "string \<Rightarrow> string \<Rightarrow> 'w \<Rightarrow> (error + Job) \<times> 'w"
  jn_deleteJob :: "string \<Rightarrow> string \<Rightarrow> 'w \<Rightarrow> error option \<times> 'w"
  jn_listPods :: "string \<Rightarrow> string \<Rightarrow> string \<Rightarrow> 'w \<Rightarrow> (error + Pod list) \<times> 'w"
  jn_deletePod :: "string \<Rightarrow> string \<Rightarrow> 'w \<Rightarrow> error option \<times> 'w"
  jn_Namespace :: string
  jn_Every :: duration
  jn_ReapAfter :: duration
  jn_Retention :: duration

abbreviation (input) DefaultJanitorEvery :: duration where "DefaultJanitorEvery \<equiv> 30 * minute"

definition first_error :: "error option \<Rightarrow> error \<Rightarrow> error option" where
  "first_error firstErr e = (case firstErr of None \<Rightarrow> Some e | Some x \<Rightarrow> Some x)"

section \<open>Jobs that outlived their Attempt\<close>

definition finished_attempt :: "Attempt \<Rightarrow> bool" where
  "finished_attempt at \<longleftrightarrow> st_Phase (at_Status at) = AttemptPhaseValidated \<or>
     st_Phase (at_Status at) = AttemptPhaseSuperseded \<or> st_Phase (at_Status at) = AttemptPhaseFailed"

definition job_edge :: "Attempt \<Rightarrow> string" where
  "job_edge at = (case st_Review (at_Status at) of None \<Rightarrow> [] | Some rc \<Rightarrow> rc_DispatchedJob rc)"

fun stranded_loop :: "'w Janitor \<Rightarrow> Attempt list \<Rightarrow> int \<Rightarrow> error option \<Rightarrow> 'w \<Rightarrow> (int \<times> error option) \<times> 'w" where
  "stranded_loop j [] deleted firstErr w = ((deleted, firstErr), w)"
| "stranded_loop j (at # rest) deleted firstErr w =
     (if \<not> finished_attempt at \<or> job_edge at = [] then stranded_loop j rest deleted firstErr w
      else case jn_getJob j (jn_Namespace j) (job_edge at) w of
        (Inl e, w1) \<Rightarrow>
          if err_Kind e = NotFound then stranded_loop j rest deleted firstErr w1
          else stranded_loop j rest deleted (first_error firstErr e) w1
      | (Inr job, w1) \<Rightarrow>
          (case jn_deleteJob j (jn_Namespace j) (job_edge at) w1 of
             (Some e, w2) \<Rightarrow>
               if err_Kind e = NotFound then stranded_loop j rest (deleted + 1) firstErr w2
               else stranded_loop j rest deleted (first_error firstErr e) w2
           | (None, w2) \<Rightarrow> stranded_loop j rest (deleted + 1) firstErr w2))"

definition deleteStrandedDispatchedJobs :: "'w Janitor \<Rightarrow> 'w \<Rightarrow> (int \<times> error option) \<times> 'w" where
  "deleteStrandedDispatchedJobs j w =
     (case cl_list (jn_client j) (jn_Namespace j) [] [] w of
        (Inl e, w1) \<Rightarrow> ((0, Some (wrap_error ''list attempts for job-edge reconcile: '' e)), w1)
      | (Inr items, w1) \<Rightarrow> stranded_loop j items 0 None w1)"

section \<open>Orphaned pods\<close>

definition pod_job :: "Pod \<Rightarrow> string" where
  "pod_job p = (let jobName = map_get (pod_Labels p) ''batch.kubernetes.io/job-name'' [] in
     if jobName = [] then map_get (pod_Labels p) ''job-name'' [] else jobName)"

definition finished_pod :: "Pod \<Rightarrow> bool" where
  "finished_pod p \<longleftrightarrow> pod_Phase p = ''Succeeded'' \<or> pod_Phase p = ''Failed''"

fun orphan_loop :: "'w Janitor \<Rightarrow> Pod list \<Rightarrow> int \<Rightarrow> error option \<Rightarrow> 'w \<Rightarrow> (int \<times> error option) \<times> 'w" where
  "orphan_loop j [] deleted firstErr w = ((deleted, firstErr), w)"
| "orphan_loop j (p # rest) deleted firstErr w =
     (if \<not> finished_pod p \<or> pod_job p = [] then orphan_loop j rest deleted firstErr w
      else case jn_getJob j (jn_Namespace j) (pod_job p) w of
        (Inr job, w1) \<Rightarrow> orphan_loop j rest deleted firstErr w1
      | (Inl e, w1) \<Rightarrow>
          if err_Kind e \<noteq> NotFound then orphan_loop j rest deleted (first_error firstErr e) w1
          else (case jn_deletePod j (jn_Namespace j) (pod_Name p) w1 of
                  (Some e2, w2) \<Rightarrow>
                    if err_Kind e2 = NotFound then orphan_loop j rest (deleted + 1) firstErr w2
                    else orphan_loop j rest deleted (first_error firstErr e2) w2
                | (None, w2) \<Rightarrow> orphan_loop j rest (deleted + 1) firstErr w2))"

definition deleteOrphanedRunnerPods :: "'w Janitor \<Rightarrow> 'w \<Rightarrow> (int \<times> error option) \<times> 'w" where
  "deleteOrphanedRunnerPods j w =
     (case jn_listPods j (jn_Namespace j) ''app.kubernetes.io/component'' ''attempt-runner'' w of
        (Inl e, w1) \<Rightarrow> ((0, Some (wrap_error ''list runner pods: '' e)), w1)
      | (Inr pods, w1) \<Rightarrow> orphan_loop j pods 0 None w1)"

section \<open>A pass\<close>

definition reap_after :: "'w Janitor \<Rightarrow> duration" where
  "reap_after j = (if jn_ReapAfter j \<le> 0 then 7 * 24 * hour else jn_ReapAfter j)"

definition retention :: "'w Janitor \<Rightarrow> duration" where
  "retention j = (if jn_Retention j \<le> 0 then 720 * hour else jn_Retention j)"

definition pass :: "'w Janitor \<Rightarrow> 'w \<Rightarrow> 'w" where
  "pass j w =
     (let w1 = snd (ReapStuckAttempts (jn_client j) (jn_Namespace j) (reap_after j) w);
          w2 = snd (GCAttempts (jn_client j) (jn_Namespace j) (retention j) w1);
          w3 = snd (deleteStrandedDispatchedJobs j w2)
      in snd (deleteOrphanedRunnerPods j w3))"

text \<open>
  \<^verbatim>\<open>Start\<close>: one pass at once, then one per tick until the context is done. The argument is the number of
  ticks that come before that; \<open>idle\<close> is what the world does between two passes, given the cadence.
\<close>

fun Start_ticks :: "'w Janitor \<Rightarrow> (duration \<Rightarrow> 'w \<Rightarrow> 'w) \<Rightarrow> nat \<Rightarrow> 'w \<Rightarrow> 'w" where
  "Start_ticks j idle 0 w = w"
| "Start_ticks j idle (Suc k) w =
     Start_ticks j idle k (pass j (idle (if jn_Every j \<le> 0 then DefaultJanitorEvery else jn_Every j) w))"

definition Start :: "'w Janitor \<Rightarrow> (duration \<Rightarrow> 'w \<Rightarrow> 'w) \<Rightarrow> nat \<Rightarrow> 'w \<Rightarrow> 'w" where
  "Start j idle ticks w = Start_ticks j idle ticks (pass j w)"

lemmas [model_defs] = first_error_def finished_attempt_def job_edge_def deleteStrandedDispatchedJobs_def pod_job_def
  finished_pod_def deleteOrphanedRunnerPods_def reap_after_def retention_def pass_def Start_def

section \<open>What the API promises\<close>

locale job_api =
  fixes j :: "'w Janitor" and jobs :: "'w \<Rightarrow> (string \<times> string) set" and pods :: "'w \<Rightarrow> (string \<times> string) set"
  assumes getJob_keeps: "jobs (snd (jn_getJob j ns n w)) = jobs w" "pods (snd (jn_getJob j ns n w)) = pods w"
    and getJob_found: "jn_getJob j ns n w = (Inr x, w') \<Longrightarrow> (ns, n) \<in> jobs w"
    and getJob_gone: "jn_getJob j ns n w = (Inl e, w') \<Longrightarrow> err_Kind e = NotFound \<Longrightarrow> (ns, n) \<notin> jobs w"
    and deleteJob_ok: "jn_deleteJob j ns n w = (None, w') \<Longrightarrow> jobs w' = jobs w - {(ns, n)} \<and> pods w' = pods w"
    and deleteJob_err: "jn_deleteJob j ns n w = (Some e, w') \<Longrightarrow>
      jobs w' = jobs w \<and> pods w' = pods w \<and> (err_Kind e = NotFound \<longrightarrow> (ns, n) \<notin> jobs w)"
    and listPods_keeps: "jobs (snd (jn_listPods j ns k v w)) = jobs w" "pods (snd (jn_listPods j ns k v w)) = pods w"
    and deletePod_ok: "jn_deletePod j ns n w = (None, w') \<Longrightarrow> pods w' = pods w - {(ns, n)} \<and> jobs w' = jobs w"
    and deletePod_err: "jn_deletePod j ns n w = (Some e, w') \<Longrightarrow>
      pods w' = pods w \<and> jobs w' = jobs w \<and> (err_Kind e = NotFound \<longrightarrow> (ns, n) \<notin> pods w)"
begin

lemma getJob_eq: "jn_getJob j ns n w = (x, w') \<Longrightarrow> jobs w' = jobs w \<and> pods w' = pods w"
  by (metis getJob_keeps snd_conv)

text \<open>The Jobs that the loop may and, unless a call failed, does delete.\<close>

definition stranded :: "Attempt list \<Rightarrow> (string \<times> string) set" where
  "stranded items = {(jn_Namespace j, job_edge at) | at. at \<in> set items \<and> finished_attempt at \<and> job_edge at \<noteq> []}"

lemma first_error_not_None [simp]: "first_error x e \<noteq> None"
  by (simp add: first_error_def split: option.split)

lemma stranded_loop_deletes:
  assumes "stranded_loop j items deleted firstErr w = ((k, err), w')"
  shows "jobs w' \<subseteq> jobs w \<and> jobs w - jobs w' \<subseteq> stranded items \<and> pods w' = pods w \<and>
    (err = None \<longrightarrow> firstErr = None \<and> jobs w' = jobs w - stranded items)"
  using assms
proof (induction items arbitrary: deleted firstErr w)
  case (Cons at rest)
  let ?key = "(jn_Namespace j, job_edge at)"
  have s: "stranded (at # rest) = (if finished_attempt at \<and> job_edge at \<noteq> [] then insert ?key (stranded rest) else stranded rest)"
    by (auto simp: stranded_def)
  show ?case
  proof (cases "finished_attempt at \<and> job_edge at \<noteq> []")
    case False
    then show ?thesis using Cons.IH [of deleted firstErr w] Cons.prems s by auto
  next
    case True
    obtain g w1 where g: "jn_getJob j (jn_Namespace j) (job_edge at) w = (g, w1)" by fastforce
    note q = getJob_eq [OF g]
    show ?thesis
    proof (cases g)
      case (Inl e)
      then show ?thesis
        using Cons.prems True g q getJob_gone [of "jn_Namespace j" "job_edge at" w e w1] Cons.IH [of deleted _ w1] s
        by (auto split: if_splits; fastforce)
    next
      case (Inr x)
      obtain d w2 where d: "jn_deleteJob j (jn_Namespace j) (job_edge at) w1 = (d, w2)" by fastforce
      show ?thesis
      proof (cases d)
        case None
        then show ?thesis using Cons.prems True g Inr d q deleteJob_ok Cons.IH [of "deleted + 1" firstErr w2] s by fastforce
      next
        case (Some e)
        then show ?thesis
          using Cons.prems True g Inr d q deleteJob_err [of "jn_Namespace j" "job_edge at" w1 e w2]
            Cons.IH [of "deleted + 1" firstErr w2] Cons.IH [of deleted "first_error firstErr e" w2] s
          by (auto split: if_splits; fastforce)
      qed
    qed
  qed
qed (auto simp: stranded_def)

definition orphans :: "Pod list \<Rightarrow> 'w \<Rightarrow> (string \<times> string) set" where
  "orphans ps w = {(jn_Namespace j, pod_Name p) | p. p \<in> set ps \<and> finished_pod p \<and> pod_job p \<noteq> [] \<and>
     (jn_Namespace j, pod_job p) \<notin> jobs w}"

lemma orphan_loop_deletes:
  assumes "orphan_loop j ps deleted firstErr w = ((k, err), w')"
  shows "jobs w' = jobs w \<and> pods w' \<subseteq> pods w \<and> pods w - pods w' \<subseteq> orphans ps w"
  using assms
proof (induction ps arbitrary: deleted firstErr w)
  case (Cons p rest)
  have mono: "orphans rest v \<subseteq> orphans (p # rest) w" if "jobs v = jobs w" for v using that by (auto simp: orphans_def)
  show ?case
  proof (cases "finished_pod p \<and> pod_job p \<noteq> []")
    case False
    then show ?thesis using Cons.IH [of deleted firstErr w] Cons.prems mono [of w] by auto
  next
    case True
    obtain g w1 where g: "jn_getJob j (jn_Namespace j) (pod_job p) w = (g, w1)" by fastforce
    note q = getJob_eq [OF g]
    show ?thesis
    proof (cases "\<exists>e. g = Inl e \<and> err_Kind e = NotFound")
      case False
      then show ?thesis
        using Cons.prems True g q Cons.IH [of deleted _ w1] mono [of w1] by (fastforce split: sum.splits if_splits)
    next
      case gone: True
      then have o: "(jn_Namespace j, pod_Name p) \<in> orphans (p # rest) w"
        using True getJob_gone g by (fastforce simp: orphans_def)
      obtain d w2 where d: "jn_deletePod j (jn_Namespace j) (pod_Name p) w1 = (d, w2)" by fastforce
      have kept: "jobs w2 = jobs w \<and> pods w2 \<subseteq> pods w \<and> pods w - pods w2 \<subseteq> {(jn_Namespace j, pod_Name p)}"
        using d q deletePod_ok deletePod_err by (cases d) fastforce+
      obtain deleted' firstErr' where "orphan_loop j rest deleted' firstErr' w2 = ((k, err), w')"
        using Cons.prems True g gone d by (auto split: option.splits if_splits)
      then show ?thesis using Cons.IH [of deleted' firstErr' w2] mono [of w2] kept o by blast
    qed
  qed
qed auto

end

context client_frame
begin

lemma frame_gc_loop: "f (snd (gc_loop c now old items k e w)) = f w"
proof (induction items arbitrary: k e w)
  case (Cons at rest)
  obtain d w1 where d: "cl_delete c (at_Namespace at) (at_Name at) w = (d, w1)" by fastforce
  then have "f w1 = f w" by (rule frame_eqs)
  then show ?case using Cons.IH d by (cases d) simp_all
qed simp

lemma frame_gc: "f (snd (GCAttempts c ns old w)) = f w"
  by (auto simp: GCAttempts_def frame_gc_loop dest: frame_eqs split: prod.split sum.split)

lemma frame_reap_loop: "f (snd (reap_loop c ns now old items k w)) = f w"
proof (induction items arbitrary: k w)
  case (Cons at rest)
  obtain d w1 where d: "patchAttemptStatus c ns (at_Name at) (\<lambda>t. reap_status at) (release_reaped c ns at w) = (d, w1)" by fastforce
  have "f (release_reaped c ns at w) = f w" by (simp add: release_reaped_def frame_release)
  then have "f w1 = f w"
    using frame_patchAttemptStatus [of ns "at_Name at" "\<lambda>t. reap_status at" "release_reaped c ns at w"] d by simp
  then show ?case using Cons.IH d by (cases d) simp_all
qed simp

lemma frame_reap: "f (snd (ReapStuckAttempts c ns old w)) = f w"
proof -
  have "reap_loop c ns now old items k v = (n, v') \<Longrightarrow> f v' = f v" for now items k v n v'
    using frame_reap_loop [of ns now old items k v] by simp
  then show ?thesis by (auto simp: ReapStuckAttempts_def dest!: frame_eqs split: prod.split sum.split)
qed

end

locale janitor_api = job_api j jobs pods + client_frame "jn_client j" "\<lambda>w. (jobs w, pods w)"
  for j :: "'w Janitor" and jobs pods
begin

lemma list_keeps: "cl_list (jn_client j) ns eqs absent w = (x, w') \<Longrightarrow> jobs w' = jobs w \<and> pods w' = pods w"
  using frame_eqs(6) by blast

lemma stranded_pass:
  "jobs (snd (deleteStrandedDispatchedJobs j w)) \<subseteq> jobs w \<and> pods (snd (deleteStrandedDispatchedJobs j w)) = pods w \<and>
   (\<forall>key \<in> jobs w - jobs (snd (deleteStrandedDispatchedJobs j w)). \<exists>items at v v'.
      cl_list (jn_client j) (jn_Namespace j) [] [] v = (Inr items, v') \<and> at \<in> set items \<and> finished_attempt at \<and>
      key = (jn_Namespace j, job_edge at))"
proof -
  obtain l w1 where l: "cl_list (jn_client j) (jn_Namespace j) [] [] w = (l, w1)" by fastforce
  note q = list_keeps [OF l]
  show ?thesis
  proof (cases l)
    case (Inr items)
    obtain k err w2 where r: "stranded_loop j items 0 None w1 = ((k, err), w2)" by (metis prod_cases3 surj_pair)
    have "deleteStrandedDispatchedJobs j w = ((k, err), w2)" by (simp add: deleteStrandedDispatchedJobs_def l Inr r)
    then have e: "snd (deleteStrandedDispatchedJobs j w) = w2" by simp
    have d: "jobs w2 \<subseteq> jobs w" "jobs w - jobs w2 \<subseteq> stranded items" "pods w2 = pods w"
      using stranded_loop_deletes [OF r] q by auto
    have "\<exists>items at v v'. cl_list (jn_client j) (jn_Namespace j) [] [] v = (Inr items, v') \<and> at \<in> set items \<and>
        finished_attempt at \<and> key = (jn_Namespace j, job_edge at)" if "key \<in> stranded items" for key
      using that l Inr unfolding stranded_def by blast
    then show ?thesis unfolding e using d by blast
  qed (use q in \<open>simp add: deleteStrandedDispatchedJobs_def l\<close>)
qed

lemma orphan_pass:
  "jobs (snd (deleteOrphanedRunnerPods j w)) = jobs w \<and> pods (snd (deleteOrphanedRunnerPods j w)) \<subseteq> pods w \<and>
   (\<forall>key \<in> pods w - pods (snd (deleteOrphanedRunnerPods j w)). \<exists>p. finished_pod p \<and> pod_job p \<noteq> [] \<and>
      key = (jn_Namespace j, pod_Name p) \<and> (jn_Namespace j, pod_job p) \<notin> jobs w)"
proof -
  obtain l w1 where l: "jn_listPods j (jn_Namespace j) ''app.kubernetes.io/component'' ''attempt-runner'' w = (l, w1)" by fastforce
  have q: "jobs w1 = jobs w" "pods w1 = pods w" using listPods_keeps l by (metis snd_conv)+
  show ?thesis
  proof (cases l)
    case (Inr ps)
    obtain k err w2 where r: "orphan_loop j ps 0 None w1 = ((k, err), w2)" by (metis prod_cases3 surj_pair)
    have "deleteOrphanedRunnerPods j w = ((k, err), w2)" by (simp add: deleteOrphanedRunnerPods_def l Inr r)
    then have e: "snd (deleteOrphanedRunnerPods j w) = w2" by simp
    have d: "jobs w2 = jobs w" "pods w2 \<subseteq> pods w" "pods w - pods w2 \<subseteq> orphans ps w1"
      using orphan_loop_deletes [OF r] q by auto
    have "\<exists>p. finished_pod p \<and> pod_job p \<noteq> [] \<and> key = (jn_Namespace j, pod_Name p) \<and> (jn_Namespace j, pod_job p) \<notin> jobs w"
      if "key \<in> orphans ps w1" for key using that q unfolding orphans_def by auto
    then show ?thesis unfolding e using d by blast
  qed (use q in \<open>simp add: deleteOrphanedRunnerPods_def l\<close>)
qed

lemma pass_deletes:
  "(\<forall>key \<in> jobs w - jobs (pass j w). \<exists>items at v v'.
      cl_list (jn_client j) (jn_Namespace j) [] [] v = (Inr items, v') \<and> at \<in> set items \<and> finished_attempt at \<and>
      key = (jn_Namespace j, job_edge at)) \<and>
   (\<forall>key \<in> pods w - pods (pass j w). \<exists>p. finished_pod p \<and> pod_job p \<noteq> [] \<and>
      key = (jn_Namespace j, pod_Name p) \<and> (jn_Namespace j, pod_job p) \<notin> jobs (pass j w))"
proof -
  let ?w1 = "snd (ReapStuckAttempts (jn_client j) (jn_Namespace j) (reap_after j) w)"
  let ?w2 = "snd (GCAttempts (jn_client j) (jn_Namespace j) (retention j) ?w1)"
  let ?w3 = "snd (deleteStrandedDispatchedJobs j ?w2)"
  have k: "jobs ?w2 = jobs w" "pods ?w2 = pods w" using frame_gc frame_reap by (metis prod.inject)+
  have p: "pass j w = snd (deleteOrphanedRunnerPods j ?w3)" by (simp add: pass_def Let_def)
  note s = stranded_pass [of ?w2, unfolded k]
  note o = orphan_pass [of ?w3]
  have "jobs (pass j w) = jobs ?w3" "pods ?w3 = pods w" using s o unfolding p by simp_all
  then show ?thesis using s o unfolding p by simp
qed

end

section \<open>A yard of Jobs and pods\<close>

type_synonym yard = "store \<times> (string \<times> Job) list \<times> (string \<times> Pod) list"

definition drop_key :: "('a \<Rightarrow> string) \<Rightarrow> string \<Rightarrow> string \<Rightarrow> (string \<times> 'a) list \<Rightarrow> error option \<times> (string \<times> 'a) list" where
  "drop_key name ns n xs =
     (if (ns, n) \<in> set (map (\<lambda>x. (fst x, name (snd x))) xs) then (None, filter (\<lambda>x. (fst x, name (snd x)) \<noteq> (ns, n)) xs)
      else (Some (api_error NotFound), xs))"

definition yard_janitor :: "string \<Rightarrow> yard Janitor" where
  "yard_janitor namespace =
     \<lparr>jn_client = lift_client store_server,
      jn_getJob = (\<lambda>ns n w. (case find (\<lambda>x. (fst x, job_Name (snd x)) = (ns, n)) (fst (snd w)) of
         None \<Rightarrow> Inl (api_error NotFound) | Some x \<Rightarrow> Inr (snd x), w)),
      jn_deleteJob = (\<lambda>ns n w. case drop_key job_Name ns n (fst (snd w)) of (e, js) \<Rightarrow> (e, fst w, js, snd (snd w))),
      jn_listPods = (\<lambda>ns k v w. (Inr (map snd (filter (\<lambda>x. fst x = ns \<and> map_of (pod_Labels (snd x)) k = Some v) (snd (snd w)))), w)),
      jn_deletePod = (\<lambda>ns n w. case drop_key pod_Name ns n (snd (snd w)) of (e, ps) \<Rightarrow> (e, fst w, fst (snd w), ps)),
      jn_Namespace = namespace, jn_Every = 0, jn_ReapAfter = 0, jn_Retention = 0\<rparr>"

definition yard_jobs :: "yard \<Rightarrow> (string \<times> string) set" where
  "yard_jobs w = set (map (\<lambda>x. (fst x, job_Name (snd x))) (fst (snd w)))"

definition yard_pods :: "yard \<Rightarrow> (string \<times> string) set" where
  "yard_pods w = set (map (\<lambda>x. (fst x, pod_Name (snd x))) (snd (snd w)))"

lemma drop_key_cases:
  "drop_key name ns n xs = (e, ys) \<Longrightarrow>
   (e = None \<longrightarrow> set (map (\<lambda>x. (fst x, name (snd x))) ys) = set (map (\<lambda>x. (fst x, name (snd x))) xs) - {(ns, n)}) \<and>
   (e \<noteq> None \<longrightarrow> ys = xs \<and> (ns, n) \<notin> set (map (\<lambda>x. (fst x, name (snd x))) xs))"
  by (auto simp: drop_key_def split: if_splits)

lemma yard_sel [simp]:
  "jn_client (yard_janitor namespace) = lift_client store_server" "jn_Namespace (yard_janitor namespace) = namespace"
  "jn_getJob (yard_janitor namespace) ns n w =
     (case find (\<lambda>x. (fst x, job_Name (snd x)) = (ns, n)) (fst (snd w)) of
        None \<Rightarrow> Inl (api_error NotFound) | Some x \<Rightarrow> Inr (snd x), w)"
  "jn_deleteJob (yard_janitor namespace) ns n w =
     (case drop_key job_Name ns n (fst (snd w)) of (e, js) \<Rightarrow> (e, fst w, js, snd (snd w)))"
  "snd (jn_listPods (yard_janitor namespace) ns k v w) = w"
  "jn_deletePod (yard_janitor namespace) ns n w =
     (case drop_key pod_Name ns n (snd (snd w)) of (e, ps) \<Rightarrow> (e, fst w, fst (snd w), ps))"
  by (simp_all add: yard_janitor_def)

interpretation yard: janitor_api "yard_janitor namespace" yard_jobs yard_pods for namespace
proof -
  have "job_api (yard_janitor namespace) yard_jobs yard_pods"
  proof
    fix ns n w x w'
    assume "jn_getJob (yard_janitor namespace) ns n w = (Inr x, w')"
    then obtain y where "find (\<lambda>x. (fst x, job_Name (snd x)) = (ns, n)) (fst (snd w)) = Some y" by (auto split: option.splits)
    then have "y \<in> set (fst (snd w)) \<and> (fst y, job_Name (snd y)) = (ns, n)" by (auto simp: find_Some_iff)
    then show "(ns, n) \<in> yard_jobs w" unfolding yard_jobs_def by force
  next
    fix ns n w e w'
    assume "jn_getJob (yard_janitor namespace) ns n w = (Inl e, w')"
    then have "find (\<lambda>x. (fst x, job_Name (snd x)) = (ns, n)) (fst (snd w)) = None" by (auto split: option.splits)
    then show "(ns, n) \<notin> yard_jobs w" by (auto simp: yard_jobs_def find_None_iff)
  next
    fix ns n w w'
    assume a: "jn_deleteJob (yard_janitor namespace) ns n w = (None, w')"
    obtain e js where d: "drop_key job_Name ns n (fst (snd w)) = (e, js)" by fastforce
    then show "yard_jobs w' = yard_jobs w - {(ns, n)} \<and> yard_pods w' = yard_pods w"
      using a drop_key_cases [OF d] by (clarsimp simp: yard_jobs_def yard_pods_def)
  next
    fix ns n w e w'
    assume a: "jn_deleteJob (yard_janitor namespace) ns n w = (Some e, w')"
    obtain x js where d: "drop_key job_Name ns n (fst (snd w)) = (x, js)" by fastforce
    then show "yard_jobs w' = yard_jobs w \<and> yard_pods w' = yard_pods w \<and> (err_Kind e = NotFound \<longrightarrow> (ns, n) \<notin> yard_jobs w)"
      using a drop_key_cases [OF d] by (auto simp: yard_jobs_def yard_pods_def)
  next
    fix ns n w w'
    assume a: "jn_deletePod (yard_janitor namespace) ns n w = (None, w')"
    obtain e ps where d: "drop_key pod_Name ns n (snd (snd w)) = (e, ps)" by fastforce
    then show "yard_pods w' = yard_pods w - {(ns, n)} \<and> yard_jobs w' = yard_jobs w"
      using a drop_key_cases [OF d] by (clarsimp simp: yard_jobs_def yard_pods_def)
  next
    fix ns n w e w'
    assume a: "jn_deletePod (yard_janitor namespace) ns n w = (Some e, w')"
    obtain x ps where d: "drop_key pod_Name ns n (snd (snd w)) = (x, ps)" by fastforce
    then show "yard_pods w' = yard_pods w \<and> yard_jobs w' = yard_jobs w \<and> (err_Kind e = NotFound \<longrightarrow> (ns, n) \<notin> yard_pods w)"
      using a drop_key_cases [OF d] by (auto simp: yard_jobs_def yard_pods_def)
  qed simp_all
  moreover have "client_frame (lift_client store_server) (\<lambda>w. (yard_jobs w, yard_pods w))"
    using frame_snd [OF lift_frame, where g = "\<lambda>v. (set (map (\<lambda>x. (fst x, job_Name (snd x))) (fst v)),
      set (map (\<lambda>x. (fst x, pod_Name (snd x))) (snd v)))"]
    by (simp add: yard_jobs_def [abs_def] yard_pods_def [abs_def])
  ultimately show "janitor_api (yard_janitor namespace) yard_jobs yard_pods"
    by (simp add: janitor_api_def)
qed

text \<open>
  The janitor never touches live work: a Job that is gone after a pass was the recorded Job of an
  Attempt that a listing showed in a terminal phase, and a pod that is gone had finished and its
  Job did not exist.
\<close>
theorem janitor_deletes_only_finished:
  assumes "janitor_api j jobs pods"
  shows "(\<forall>key \<in> jobs w - jobs (pass j w). \<exists>items at v v'.
      cl_list (jn_client j) (jn_Namespace j) [] [] v = (Inr items, v') \<and> at \<in> set items \<and> finished_attempt at \<and>
      key = (jn_Namespace j, job_edge at)) \<and>
   (\<forall>key \<in> pods w - pods (pass j w). \<exists>p. finished_pod p \<and> pod_job p \<noteq> [] \<and>
      key = (jn_Namespace j, pod_Name p) \<and> (jn_Namespace j, pod_job p) \<notin> jobs (pass j w))"
  by (rule janitor_api.pass_deletes [OF assms])

definition littered_yard :: yard where
  "littered_yard =
     (\<lparr>sv_objects = [old_attempt\<lparr>at_Name := ''done'', at_CreationTimestamp := 0, at_Status := AttemptStatus0\<lparr>st_Phase := AttemptPhaseFailed,
         st_Review := Some (ReviewClaimStatus0\<lparr>rc_DispatchedJob := ''j1''\<rparr>)\<rparr>\<rparr>], sv_clock = second, sv_version = 1\<rparr>,
      [(at_Namespace old_attempt, \<lparr>job_Name = ''j1'', job_Labels = [], job_DeletionTimestamp = None, job_CompletionTime = None,
          job_Conditions = [], job_Controller = None\<rparr>)],
      [(at_Namespace old_attempt, \<lparr>pod_Name = ''p1'', pod_Phase = ''Failed'',
          pod_Labels = [(''app.kubernetes.io/component'', ''attempt-runner''), (''job-name'', ''gone'')]\<rparr>)])"

theorem janitor_deletes_only_finished_witness:
  "\<exists>at p. finished_attempt at \<and> job_edge at = ''j1'' \<and> finished_pod p \<and> pod_Name p = ''p1''"
proof -
  let ?j = "yard_janitor (at_Namespace old_attempt)" and ?ns = "at_Namespace old_attempt"
  have r: "yard_jobs littered_yard = {(?ns, ''j1'')}" "yard_pods littered_yard = {(?ns, ''p1'')}"
    by (simp_all add: yard_jobs_def yard_pods_def littered_yard_def)
  have s: "snd (pass ?j littered_yard) = ([], [])" by code_simp
  then have "yard_jobs (pass ?j littered_yard) = {}" "yard_pods (pass ?j littered_yard) = {}"
    by (simp_all add: yard_jobs_def yard_pods_def)
  then have "(?ns, ''j1'') \<in> yard_jobs littered_yard - yard_jobs (pass ?j littered_yard)"
    "(?ns, ''p1'') \<in> yard_pods littered_yard - yard_pods (pass ?j littered_yard)" using r by simp_all
  then show ?thesis
    using janitor_deletes_only_finished [OF yard.janitor_api_axioms, of littered_yard ?ns] by (metis prod.inject)
qed

end
