(* ===== verification/Template_History.thy ===== *)
theory Template_History
  imports Attempt_Ledger
begin

text \<open>
  The recorder of template revisions (\<^verbatim>\<open>internal/controller/template_history.go\<close>). The specification of
  a template is a type parameter: the recorder only copies and compares it. The JSON codec of the
  annotation is a parameter; \<open>th_dec\<close> is \<^const>\<open>None\<close> for a text that does not parse.
\<close>

abbreviation (input) MaxTemplateRevisions :: nat where "MaxTemplateRevisions \<equiv> 5"
abbreviation (input) TemplateRevisionsAnnotation :: string where
  "TemplateRevisionsAnnotation \<equiv> ''template.harmostes.dev/revisions''"
abbreviation (input) TemplatePendingLandingAnnotation :: string where
  "TemplatePendingLandingAnnotation \<equiv> ''template.harmostes.dev/pending-landing''"

record TemplateRevisionLanding =
  land_Sha :: string
  land_Pusher :: string
  land_At :: string

record 's TemplateRevision =
  tr_Rev :: int
  tr_Description :: string
  tr_Spec :: 's
  tr_Landing :: "TemplateRevisionLanding option"

record 's WorkflowTemplate =
  tmpl_Name :: string
  tmpl_Annotations :: "(string, string) gomap"
  tmpl_Spec :: 's

record ('s, 'w) HistoryReconciler =
  th_get :: "string \<Rightarrow> string \<Rightarrow> 'w \<Rightarrow> (error + 's WorkflowTemplate) \<times> 'w"
  th_update :: "'s WorkflowTemplate \<Rightarrow> 'w \<Rightarrow> error option \<times> 'w"
  th_dec :: "string \<Rightarrow> 's TemplateRevision list option"
  th_enc :: "'s TemplateRevision list \<Rightarrow> error + string"
  th_decLanding :: "string \<Rightarrow> TemplateRevisionLanding option"

definition parseTemplateRevisions :: "('s, 'w) HistoryReconciler \<Rightarrow> string \<Rightarrow> 's TemplateRevision list" where
  "parseTemplateRevisions r raw = (if raw = [] then [] else case th_dec r raw of None \<Rightarrow> [] | Some revs \<Rightarrow> revs)"

definition pending_landing :: "('s, 'w) HistoryReconciler \<Rightarrow> 's WorkflowTemplate \<Rightarrow> TemplateRevisionLanding option" where
  "pending_landing r tmpl =
     (let raw = map_get (tmpl_Annotations tmpl) TemplatePendingLandingAnnotation [] in
      if raw = [] then None
      else case th_decLanding r raw of None \<Rightarrow> None | Some l \<Rightarrow> if land_Sha l \<noteq> [] then Some l else None)"

definition renumber :: "'s TemplateRevision list \<Rightarrow> 's TemplateRevision list" where
  "renumber revs = map (\<lambda>(i, entry). entry\<lparr>tr_Rev := int i + 1\<rparr>) (enumerate 0 revs)"

definition append_revision :: "'s TemplateRevision list \<Rightarrow> 's TemplateRevision \<Rightarrow> 's TemplateRevision list" where
  "append_revision revs entry =
     (let out = revs @ [entry]; n = length out in
      if MaxTemplateRevisions < n then renumber (drop (n - MaxTemplateRevisions) out) else out)"

definition recorded :: "'s TemplateRevision list \<Rightarrow> 's \<Rightarrow> bool" where
  "recorded revs spec \<longleftrightarrow> revs \<noteq> [] \<and> tr_Spec (last revs) = spec"

definition History_Reconcile :: "('s, 'w) HistoryReconciler \<Rightarrow> string \<Rightarrow> string \<Rightarrow> 'w \<Rightarrow> error option \<times> 'w" where
  "History_Reconcile r ns name w =
     (case th_get r ns name w of
        (Inl e, w1) \<Rightarrow> (if err_Kind e = NotFound then None else Some e, w1)
      | (Inr tmpl, w1) \<Rightarrow>
          (let revs = parseTemplateRevisions r (map_get (tmpl_Annotations tmpl) TemplateRevisionsAnnotation []) in
           if recorded revs (tmpl_Spec tmpl) then (None, w1)
           else
             (let revs' = append_revision revs \<lparr>tr_Rev = int (length revs) + 1, tr_Description = [],
                    tr_Spec = tmpl_Spec tmpl, tr_Landing = pending_landing r tmpl\<rparr>;
                  anns = (if map_get (tmpl_Annotations tmpl) TemplatePendingLandingAnnotation [] = [] then tmpl_Annotations tmpl
                          else AList.delete TemplatePendingLandingAnnotation (tmpl_Annotations tmpl))
              in case th_enc r revs' of
                   Inl e \<Rightarrow> (Some e, w1)
                 | Inr encoded \<Rightarrow> th_update r (tmpl\<lparr>tmpl_Annotations := map_set TemplateRevisionsAnnotation encoded anns\<rparr>) w1)))"

lemmas [model_defs] = parseTemplateRevisions_def pending_landing_def renumber_def append_revision_def recorded_def
  History_Reconcile_def

section \<open>The window of revisions\<close>

text \<open>The entries are numbered from one, and there are at most so many.\<close>

definition well_numbered :: "'s TemplateRevision list \<Rightarrow> bool" where
  "well_numbered revs \<longleftrightarrow> map tr_Rev revs = map (\<lambda>i. int i + 1) [0..<length revs] \<and> length revs \<le> MaxTemplateRevisions"

lemma renumber_revs: "map tr_Rev (renumber revs) = map (\<lambda>i. int i + 1) [0..<length revs]"
  by (rule nth_equalityI) (simp_all add: renumber_def nth_enumerate_eq)

lemma length_renumber [simp]: "length (renumber revs) = length revs"
  by (simp add: renumber_def)

lemma renumber_last: "revs \<noteq> [] \<Longrightarrow> tr_Spec (last (renumber revs)) = tr_Spec (last revs) \<and> tr_Landing (last (renumber revs)) = tr_Landing (last revs)"
proof -
  assume ne: "revs \<noteq> []"
  then have "renumber revs \<noteq> []" by (metis length_0_conv length_renumber)
  then have "last (renumber revs) = renumber revs ! (length revs - 1)" by (simp add: last_conv_nth)
  also have "\<dots> = (revs ! (length revs - 1))\<lparr>tr_Rev := int (length revs - 1) + 1\<rparr>"
    using ne by (simp add: renumber_def nth_enumerate_eq)
  finally show ?thesis using ne by (simp add: last_conv_nth)
qed

lemma append_revision_inv:
  assumes "well_numbered revs" and "tr_Rev entry = int (length revs) + 1"
  shows "well_numbered (append_revision revs entry) \<and> append_revision revs entry \<noteq> [] \<and>
    tr_Spec (last (append_revision revs entry)) = tr_Spec entry \<and> tr_Landing (last (append_revision revs entry)) = tr_Landing entry"
proof (cases "MaxTemplateRevisions < length (revs @ [entry])")
  case True
  let ?out = "drop (length (revs @ [entry]) - MaxTemplateRevisions) (revs @ [entry])"
  have l: "length ?out = MaxTemplateRevisions" "?out \<noteq> []" "last ?out = entry" using True by auto
  then have "append_revision revs entry = renumber ?out" using True by (simp add: append_revision_def Let_def)
  moreover have "well_numbered (renumber ?out)" using l renumber_revs [of ?out] by (simp add: well_numbered_def del: drop_append)
  ultimately show ?thesis using renumber_last [OF l(2)] l by (metis length_0_conv length_renumber)
next
  case False
  then show ?thesis using assms by (simp add: append_revision_def Let_def well_numbered_def)
qed

text \<open>
  Recording a delivered template: when the annotation's codec inverts, the update that a reconcile
  sends has a window of at most five revisions numbered from one whose last entry is the delivered
  specification with the pending landing, the pending landing is consumed, and a reconcile of the
  updated template changes nothing.
\<close>
theorem history_records_once:
  assumes "th_get r ns name w = (Inr tmpl, w1)"
    and "revs = parseTemplateRevisions r (map_get (tmpl_Annotations tmpl) TemplateRevisionsAnnotation [])"
    and "well_numbered revs" and "\<not> recorded revs (tmpl_Spec tmpl)"
    and "new = append_revision revs \<lparr>tr_Rev = int (length revs) + 1, tr_Description = [], tr_Spec = tmpl_Spec tmpl,
      tr_Landing = pending_landing r tmpl\<rparr>"
    and "th_enc r new = Inr s" "s \<noteq> []" "th_dec r s = Some new"
  shows "\<exists>tmpl' revs'. History_Reconcile r ns name w = th_update r tmpl' w1 \<and>
    revs' = parseTemplateRevisions r (map_get (tmpl_Annotations tmpl') TemplateRevisionsAnnotation []) \<and>
    well_numbered revs' \<and> recorded revs' (tmpl_Spec tmpl') \<and> tmpl_Spec tmpl' = tmpl_Spec tmpl \<and>
    tr_Landing (last revs') = pending_landing r tmpl \<and> pending_landing r tmpl' = None \<and>
    (\<forall>w2 w3. th_get r ns name w2 = (Inr tmpl', w3) \<longrightarrow> History_Reconcile r ns name w2 = (None, w3))"
proof -
  let ?entry = "\<lparr>tr_Rev = int (length revs) + 1, tr_Description = [], tr_Spec = tmpl_Spec tmpl, tr_Landing = pending_landing r tmpl\<rparr>"
  let ?revs = "append_revision revs ?entry"
  let ?old = "tmpl_Annotations tmpl"
  let ?anns = "if map_get ?old TemplatePendingLandingAnnotation [] = [] then ?old else AList.delete TemplatePendingLandingAnnotation ?old"
  have s: "th_enc r ?revs = Inr s" "s \<noteq> []" "th_dec r s = Some ?revs" using assms(5-8) by simp_all
  define tmpl' where "tmpl' = tmpl\<lparr>tmpl_Annotations := map_set TemplateRevisionsAnnotation s ?anns\<rparr>"
  have a: "well_numbered ?revs" "?revs \<noteq> []" "tr_Spec (last ?revs) = tmpl_Spec tmpl" "tr_Landing (last ?revs) = pending_landing r tmpl"
    using append_revision_inv [OF assms(3), of ?entry] by auto
  have p: "parseTemplateRevisions r (map_get (tmpl_Annotations tmpl') TemplateRevisionsAnnotation []) = ?revs"
    using s by (simp add: tmpl'_def parseTemplateRevisions_def)
  have "map_get ?anns TemplatePendingLandingAnnotation [] = []" by (simp add: map_get_def delete_conv')
  then have l: "pending_landing r tmpl' = None" by (simp add: pending_landing_def tmpl'_def)
  have u: "History_Reconcile r ns name w = th_update r tmpl' w1"
    using assms(1,4) s(1) by (simp add: History_Reconcile_def assms(2) [symmetric] tmpl'_def Let_def)
  have i: "th_get r ns name w2 = (Inr tmpl', w3) \<Longrightarrow> History_Reconcile r ns name w2 = (None, w3)" for w2 w3
    using p a by (simp add: History_Reconcile_def recorded_def tmpl'_def)
  show ?thesis
    by (rule exI [of _ tmpl'], rule exI [of _ ?revs]) (use u p a l i in \<open>simp add: recorded_def tmpl'_def\<close>)
qed

text \<open>A template that was delivered a second time, with a landing pending.\<close>

definition delivered :: "nat WorkflowTemplate" where
  "delivered = \<lparr>tmpl_Name = ''t'', tmpl_Annotations = [(TemplateRevisionsAnnotation, ''one''), (TemplatePendingLandingAnnotation, ''abc'')],
     tmpl_Spec = 2\<rparr>"

definition one_revision :: "nat TemplateRevision" where
  "one_revision = \<lparr>tr_Rev = 1, tr_Description = [], tr_Spec = 1, tr_Landing = None\<rparr>"

definition two_revision :: "nat TemplateRevision" where
  "two_revision = \<lparr>tr_Rev = 2, tr_Description = [], tr_Spec = 2, tr_Landing = Some \<lparr>land_Sha = ''abc'', land_Pusher = [], land_At = []\<rparr>\<rparr>"

definition history_server :: "(nat, nat WorkflowTemplate) HistoryReconciler" where
  "history_server = \<lparr>th_get = (\<lambda>ns n w. (Inr w, w)), th_update = (\<lambda>t w. (None, t)),
     th_dec = (\<lambda>s. if s = ''one'' then Some [one_revision] else if s = ''two'' then Some [one_revision, two_revision] else None),
     th_enc = (\<lambda>xs. Inr (if length xs = 2 then ''two'' else ''one'')),
     th_decLanding = (\<lambda>s. Some \<lparr>land_Sha = s, land_Pusher = [], land_At = []\<rparr>)\<rparr>"

theorem history_records_once_witness:
  "\<exists>tmpl'. History_Reconcile history_server ''ns'' ''t'' delivered = (None, tmpl') \<and>
     parseTemplateRevisions history_server (map_get (tmpl_Annotations tmpl') TemplateRevisionsAnnotation []) = [one_revision, two_revision] \<and>
     History_Reconcile history_server ''ns'' ''t'' tmpl' = (None, tmpl')"
proof -
  let ?entry = "\<lparr>tr_Rev = int (length [one_revision]) + 1, tr_Description = [], tr_Spec = tmpl_Spec delivered,
    tr_Landing = pending_landing history_server delivered\<rparr>"
  have g: "th_get history_server ''ns'' ''t'' v = (Inr v, v)" for v by (simp add: history_server_def)
  have p: "[one_revision] = parseTemplateRevisions history_server (map_get (tmpl_Annotations delivered) TemplateRevisionsAnnotation [])"
    "well_numbered [one_revision]" "\<not> recorded [one_revision] (tmpl_Spec delivered)"
    "[one_revision, two_revision] = append_revision [one_revision] ?entry"
    "th_enc history_server [one_revision, two_revision] = Inr ''two''" "th_dec history_server ''two'' = Some [one_revision, two_revision]"
    by code_simp+
  obtain t' where "History_Reconcile history_server ''ns'' ''t'' delivered = th_update history_server t' delivered"
    "th_get history_server ''ns'' ''t'' t' = (Inr t', t') \<longrightarrow> History_Reconcile history_server ''ns'' ''t'' t' = (None, t')"
    using history_records_once [OF g p(1-5) _ p(6)] by blast
  then have "History_Reconcile history_server ''ns'' ''t'' delivered = (None, t')" "History_Reconcile history_server ''ns'' ''t'' t' = (None, t')"
    using g by (simp_all add: history_server_def)
  moreover have "parseTemplateRevisions history_server (map_get (tmpl_Annotations
      (snd (History_Reconcile history_server ''ns'' ''t'' delivered))) TemplateRevisionsAnnotation []) = [one_revision, two_revision]"
    by code_simp
  ultimately show ?thesis by auto
qed

end
