(* ===== verification/Go_Lib.thy ===== *)
theory Go_Lib
  imports Prelude "HOL-Library.Word"
begin

text \<open>
  More of Go's standard library, as the dispatcher and the Job builder use it: the process environment,
  \<^verbatim>\<open>strconv.ParseBool\<close> and \<^verbatim>\<open>strconv.ParseInt\<close> in base 8, \<^verbatim>\<open>strings.Cut\<close>, \<^verbatim>\<open>filepath.Clean\<close>, the runes of a
  string, and \<^verbatim>\<open>sha256.Sum256\<close>. Strings are lists of bytes.
\<close>

unbundle bit_operations_syntax

section \<open>Environment and numbers\<close>

definition Cut :: "string \<Rightarrow> char \<Rightarrow> (string \<times> string) option" where
  "Cut s sep = (case IndexByte s sep of None \<Rightarrow> None | Some i \<Rightarrow> Some (take i s, drop (i + 1) s))"

text \<open>\<^verbatim>\<open>os.Getenv\<close> on the entries of \<^verbatim>\<open>os.Environ\<close>: the value of the first entry with the name.\<close>

fun Getenv :: "string list \<Rightarrow> string \<Rightarrow> string" where
  "Getenv [] k = []"
| "Getenv (kv # rest) k = (case Cut kv (CHR ''='') of
     Some (k', v) \<Rightarrow> if k' = k then v else Getenv rest k
   | None \<Rightarrow> Getenv rest k)"

definition ParseBool :: "string \<Rightarrow> bool option" where
  "ParseBool s =
     (if s \<in> set [''1'', ''t'', ''T'', ''TRUE'', ''true'', ''True''] then Some True
      else if s \<in> set [''0'', ''f'', ''F'', ''FALSE'', ''false'', ''False''] then Some False
      else None)"

definition is_octal :: "char \<Rightarrow> bool" where
  "is_octal c \<longleftrightarrow> is_digit c \<and> c \<noteq> CHR ''8'' \<and> c \<noteq> CHR ''9''"

definition octal_value :: "string \<Rightarrow> nat" where
  "octal_value s = foldl (\<lambda>n c. n * 8 + (of_char c - 48)) 0 s"

text \<open>\<^verbatim>\<open>strconv.ParseInt(s, 8, 32)\<close>.\<close>

definition ParseInt_8_32 :: "string \<Rightarrow> int option" where
  "ParseInt_8_32 s =
     (let neg = HasPrefix s ''-''; ds = (if neg \<or> HasPrefix s ''+'' then tl s else s);
          n = (if neg then - int (octal_value ds) else int (octal_value ds))
      in if ds \<noteq> [] \<and> list_all is_octal ds \<and> - (2 ^ 31) \<le> n \<and> n < 2 ^ 31 then Some n else None)"

definition ParseInt_error :: "string \<Rightarrow> string" where
  "ParseInt_error s =
     (let ds = (if HasPrefix s ''-'' \<or> HasPrefix s ''+'' then tl s else s)
      in ''strconv.ParseInt: parsing '' @ quoted s @ '': '' @
         (if ds \<noteq> [] \<and> list_all is_octal ds then ''value out of range'' else ''invalid syntax''))"

text \<open>The conversion \<^verbatim>\<open>int32(n)\<close> wraps.\<close>

definition to_int32 :: "int \<Rightarrow> int" where
  "to_int32 n = (n + 2 ^ 31) mod 2 ^ 32 - 2 ^ 31"

section \<open>Paths\<close>

definition IsAbs :: "string \<Rightarrow> bool" where
  "IsAbs p \<longleftrightarrow> HasPrefix p ''/''"

text \<open>
  \<^verbatim>\<open>filepath.Clean\<close> on the elements of a path: empty elements and dots go, a double dot takes the element
  before it away, and at the root of a rooted path it goes too. The elements kept are held in reverse.
\<close>

fun clean_elements :: "bool \<Rightarrow> string list \<Rightarrow> string list \<Rightarrow> string list" where
  "clean_elements rooted kept [] = rev kept"
| "clean_elements rooted kept (e # es) =
     (if e = [] \<or> e = ''.'' then clean_elements rooted kept es
      else if e = ''..'' then
        (case kept of
           [] \<Rightarrow> clean_elements rooted (if rooted then [] else [e]) es
         | k # ks \<Rightarrow> if k = ''..'' then clean_elements rooted (e # kept) es else clean_elements rooted ks es)
      else clean_elements rooted (e # kept) es)"

definition Clean :: "string \<Rightarrow> string" where
  "Clean p =
     (let es = clean_elements (IsAbs p) [] (split_on (CHR ''/'') p); body = Join es ''/''
      in if IsAbs p then ''/'' @ body else if body = [] then ''.'' else body)"

section \<open>Runes\<close>

definition byte_in :: "nat \<Rightarrow> nat \<Rightarrow> char \<Rightarrow> bool" where
  "byte_in lo hi c \<longleftrightarrow> lo \<le> (of_char c :: nat) \<and> of_char c \<le> hi"

text \<open>
  The number of bytes of the first rune, by the table of \<^verbatim>\<open>utf8.DecodeRuneInString\<close>; a byte that starts no
  valid encoding is a rune of its own.
\<close>

definition rune_width :: "string \<Rightarrow> nat" where
  "rune_width s =
     (case s of
        [] \<Rightarrow> 0
      | b # r \<Rightarrow>
          let cont = byte_in 0x80 0xBF;
              two = (\<lambda>p. 1 \<le> length r \<and> p (r ! 0));
              three = (\<lambda>p. 2 \<le> length r \<and> p (r ! 0) \<and> cont (r ! 1));
              four = (\<lambda>p. 3 \<le> length r \<and> p (r ! 0) \<and> cont (r ! 1) \<and> cont (r ! 2))
          in if byte_in 0xC2 0xDF b \<and> two cont then 2
             else if byte_in 0xE0 0xE0 b \<and> three (byte_in 0xA0 0xBF) then 3
             else if (byte_in 0xE1 0xEC b \<or> byte_in 0xEE 0xEF b) \<and> three cont then 3
             else if byte_in 0xED 0xED b \<and> three (byte_in 0x80 0x9F) then 3
             else if byte_in 0xF0 0xF0 b \<and> four (byte_in 0x90 0xBF) then 4
             else if byte_in 0xF1 0xF3 b \<and> four cont then 4
             else if byte_in 0xF4 0xF4 b \<and> four (byte_in 0x80 0x8F) then 4
             else 1)"

lemma rune_width_pos [simp]: "0 < rune_width (b # r)"
  by (simp add: rune_width_def Let_def)

text \<open>\<^verbatim>\<open>strings.Map\<close> with a function that yields one byte for each rune; \<open>f\<close> gets the first byte of a rune.\<close>

function map_runes :: "(char \<Rightarrow> char) \<Rightarrow> string \<Rightarrow> string" where
  "map_runes f [] = []"
| "map_runes f (b # r) = f b # map_runes f (drop (rune_width (b # r)) (b # r))"
  by pat_completeness auto
termination by (relation "measure (\<lambda>(f, s). length s)") auto

section \<open>SHA-256\<close>

definition sha_K :: "32 word list" where
  "sha_K = [
     0x428a2f98, 0x71374491, 0xb5c0fbcf, 0xe9b5dba5, 0x3956c25b, 0x59f111f1, 0x923f82a4, 0xab1c5ed5,
     0xd807aa98, 0x12835b01, 0x243185be, 0x550c7dc3, 0x72be5d74, 0x80deb1fe, 0x9bdc06a7, 0xc19bf174,
     0xe49b69c1, 0xefbe4786, 0x0fc19dc6, 0x240ca1cc, 0x2de92c6f, 0x4a7484aa, 0x5cb0a9dc, 0x76f988da,
     0x983e5152, 0xa831c66d, 0xb00327c8, 0xbf597fc7, 0xc6e00bf3, 0xd5a79147, 0x06ca6351, 0x14292967,
     0x27b70a85, 0x2e1b2138, 0x4d2c6dfc, 0x53380d13, 0x650a7354, 0x766a0abb, 0x81c2c92e, 0x92722c85,
     0xa2bfe8a1, 0xa81a664b, 0xc24b8b70, 0xc76c51a3, 0xd192e819, 0xd6990624, 0xf40e3585, 0x106aa070,
     0x19a4c116, 0x1e376c08, 0x2748774c, 0x34b0bcb5, 0x391c0cb3, 0x4ed8aa4a, 0x5b9cca4f, 0x682e6ff3,
     0x748f82ee, 0x78a5636f, 0x84c87814, 0x8cc70208, 0x90befffa, 0xa4506ceb, 0xbef9a3f7, 0xc67178f2]"

definition sha_H :: "32 word list" where
  "sha_H = [0x6a09e667, 0xbb67ae85, 0x3c6ef372, 0xa54ff53a, 0x510e527f, 0x9b05688c, 0x1f83d9ab, 0x5be0cd19]"

definition rotr32 :: "nat \<Rightarrow> 32 word \<Rightarrow> 32 word" where
  "rotr32 n x = (drop_bit n x OR push_bit (32 - n) x)"

definition be_word :: "32 word list \<Rightarrow> 32 word" where
  "be_word bs = foldl (\<lambda>n b. push_bit 8 n OR b) 0 bs"

fun be_words :: "32 word list \<Rightarrow> 32 word list" where
  "be_words (a # b # c # d # r) = be_word [a, b, c, d] # be_words r"
| "be_words _ = []"

text \<open>The message schedule: \<open>ws\<close> holds the words so far, latest first.\<close>

fun sha_schedule :: "nat \<Rightarrow> 32 word list \<Rightarrow> 32 word list" where
  "sha_schedule 0 ws = rev ws"
| "sha_schedule (Suc n) ws =
     (let a = ws ! 1; b = ws ! 14;
          s1 = rotr32 17 a XOR rotr32 19 a XOR drop_bit 10 a;
          s0 = rotr32 7 b XOR rotr32 18 b XOR drop_bit 3 b
      in sha_schedule n ((s1 + ws ! 6 + s0 + ws ! 15) # ws))"

definition sha_round :: "32 word list \<Rightarrow> 32 word \<times> 32 word \<Rightarrow> 32 word list" where
  "sha_round v kw =
     (case v of
        [a, b, c, d, e, f, g, h] \<Rightarrow>
          let t1 = h + (rotr32 6 e XOR rotr32 11 e XOR rotr32 25 e) + ((e AND f) XOR (NOT e AND g)) + fst kw + snd kw;
              t2 = (rotr32 2 a XOR rotr32 13 a XOR rotr32 22 a) + ((a AND b) XOR (a AND c) XOR (b AND c))
          in [t1 + t2, a, b, c, d + t1, e, f, g]
      | _ \<Rightarrow> v)"

definition sha_block :: "32 word list \<Rightarrow> 32 word list \<Rightarrow> 32 word list" where
  "sha_block h block =
     map2 (+) h (foldl sha_round h (zip sha_K (sha_schedule 48 (rev (be_words block)))))"

fun sha_blocks :: "nat \<Rightarrow> 32 word list \<Rightarrow> 32 word list \<Rightarrow> 32 word list" where
  "sha_blocks 0 h bs = h"
| "sha_blocks (Suc n) h bs = sha_blocks n (sha_block h (take 64 bs)) (drop 64 bs)"

definition be_bytes :: "nat \<Rightarrow> nat \<Rightarrow> nat list" where
  "be_bytes n x = map (\<lambda>i. x div 256 ^ (n - 1 - i) mod 256) [0..<n]"

definition Sum256 :: "string \<Rightarrow> nat list" where
  "Sum256 s =
     (let n = length s; zeros = (119 - n mod 64) mod 64;
          bs = map of_char s @ [0x80] @ replicate zeros 0 @ be_bytes 8 (8 * n)
      in concat (map (\<lambda>x. be_bytes 4 (unat x)) (sha_blocks (length bs div 64) sha_H (map of_nat bs))))"

definition EncodeToString :: "nat list \<Rightarrow> string" where
  "EncodeToString bs = concat (map (\<lambda>b. [hex_digit (b div 16), hex_digit (b mod 16)]) bs)"

lemmas [go_defs] = Cut_def ParseBool_def is_octal_def octal_value_def ParseInt_8_32_def to_int32_def IsAbs_def Clean_def
  byte_in_def rune_width_def

end
