(* ===== verification/K8s_Job.thy ===== *)
theory K8s_Job
  imports Gate_Sweep Agent_Profile Go_Lib
begin

text \<open>
  The Job of an Attempt (\<^verbatim>\<open>internal/k8s/job.go\<close>): \<open>BuildJob\<close> with everything that it puts into the pod, the
  scoped shared attachments, the served skills, and the listing of Jobs. The parts of the Kubernetes
  objects that the builder sets are records; the variables that it appends to are the record \<open>build\<close>. The
  environment of the process is the parameter \<open>getenv\<close>, the clock \<open>now\<close>, the JSON codec of the manifests
  \<open>mc\<close>. A manifest that does not render is a panic (\<open>Inl\<close>).
\<close>

section \<open>Objects\<close>

record EnvVar =
  evar_Name :: string
  evar_Value :: string
  evar_FieldPath :: "string option"

abbreviation evar :: "string \<Rightarrow> string \<Rightarrow> EnvVar" where
  "evar n v \<equiv> \<lparr>evar_Name = n, evar_Value = v, evar_FieldPath = None\<rparr>"

datatype VolumeSource = EmptyDir | PersistentVolumeClaim string | ConfigMapSource string int | SecretSource string

record Volume =
  vol_Name :: string
  vol_Source :: VolumeSource

abbreviation volume :: "string \<Rightarrow> VolumeSource \<Rightarrow> Volume" where
  "volume n src \<equiv> \<lparr>vol_Name = n, vol_Source = src\<rparr>"

record VolumeMount =
  vm_Name :: string
  vm_SubPath :: string
  vm_MountPath :: string
  vm_ReadOnly :: bool

abbreviation mount_at :: "string \<Rightarrow> string \<Rightarrow> string \<Rightarrow> bool \<Rightarrow> VolumeMount" where
  "mount_at n sub path ro \<equiv> \<lparr>vm_Name = n, vm_SubPath = sub, vm_MountPath = path, vm_ReadOnly = ro\<rparr>"

record Container =
  con_Name :: string
  con_Image :: string
  con_Command :: "string list"
  con_Env :: "EnvVar list"
  con_VolumeMounts :: "VolumeMount list"

record JobObject =
  jb_GenerateName :: string
  jb_Namespace :: string
  jb_Labels :: "(string, string) gomap"
  jb_Annotations :: "(string, string) gomap"
  jb_Owner :: OwnerReference
  jb_BackoffLimit :: int
  jb_ActiveDeadlineSeconds :: int
  jb_TTLSecondsAfterFinished :: "int option"
  jb_ServiceAccountName :: string
  jb_RestartPolicy :: string
  jb_InitContainers :: "Container list"
  jb_Containers :: "Container list"
  jb_Volumes :: "Volume list"

section \<open>The served skills\<close>

definition DefaultSkillsRepo :: string where
  "DefaultSkillsRepo = ''https://github.com/tibrezus/agents.git''"

definition SkillsRepo :: "(string \<Rightarrow> string) \<Rightarrow> string" where
  "SkillsRepo getenv =
     (let r = getenv ''HARMOSTES_SKILLS_REPO'' in if r \<noteq> [] then r else DefaultSkillsRepo)"

definition SkillsRev :: "(string \<Rightarrow> string) \<Rightarrow> string" where
  "SkillsRev getenv = getenv ''HARMOSTES_SKILLS_REV''"

abbreviation (input) SkillsTokenMountPath :: string where "SkillsTokenMountPath \<equiv> ''/var/run/secrets/harmostes-skills''"
abbreviation (input) SkillsTokenKey :: string where "SkillsTokenKey \<equiv> ''token''"

definition SkillsTokenSecret :: "(string \<Rightarrow> string) \<Rightarrow> string" where
  "SkillsTokenSecret getenv = getenv ''HARMOSTES_SKILLS_TOKEN_SECRET''"

definition skillsSyncCommand :: "string \<Rightarrow> string list" where
  \<open>skillsSyncCommand tokenSecret =
     (let cloneArgs =
        (if tokenSecret \<noteq> []
         then ''-c 'credential.helper=!f() { echo username=x-access-token; echo "password=$(cat '' @ SkillsTokenMountPath @
              ''/'' @ SkillsTokenKey @ '')"; }; f' --depth 1''
         else ''--depth 1'')
      in [''sh'', ''-c'', ''git clone '' @ cloneArgs @
        '' "$HARMOSTES_SKILLS_REPO" /tmp/agents && { [ -z "$HARMOSTES_SKILLS_REV" ] || { git -C /tmp/agents fetch --depth 1 origin "$HARMOSTES_SKILLS_REV" && git -C /tmp/agents checkout --detach FETCH_HEAD; }; } && mkdir -p /skills && cp -r /tmp/agents/skills/. /skills/ && { echo "[sync-skills] served skills revision: $(git -C /tmp/agents rev-parse HEAD)"; (find /skills -name 'SKILL.md' | sort | xargs -r sha256sum > /skills/.manifest) || echo "[sync-skills] manifest write failed (non-fatal)"; true; }''])\<close>

definition skillsInit :: "(string \<Rightarrow> string) \<Rightarrow> string \<Rightarrow> Container list" where
  "skillsInit getenv img =
     (let tokenSecret = SkillsTokenSecret getenv
      in [\<lparr>con_Name = ''sync-skills'', con_Image = img, con_Command = skillsSyncCommand tokenSecret,
           con_Env = [evar ''HARMOSTES_SKILLS_REPO'' (SkillsRepo getenv), evar ''HARMOSTES_SKILLS_REV'' (SkillsRev getenv)],
           con_VolumeMounts = mount_at ''skills'' [] ''/skills'' False #
             (if tokenSecret \<noteq> [] then [mount_at ''skills-token'' [] SkillsTokenMountPath True] else [])\<rparr>])"

definition skillsTokenVolumes :: "(string \<Rightarrow> string) \<Rightarrow> Volume list" where
  "skillsTokenVolumes getenv =
     (let name = SkillsTokenSecret getenv in if name = [] then [] else [volume ''skills-token'' (SecretSource name)])"

section \<open>Parameters of the builder\<close>

record ConfigMapMount =
  cmm_Name :: string
  cmm_MountPath :: string
  cmm_Mode :: "int option"

record AttemptJobParams =
  ajp_Attempt :: Attempt
  ajp_WorkflowName :: string
  ajp_Namespace :: string
  ajp_Image :: string
  ajp_ServiceAccount :: string
  ajp_RunBound :: duration
  ajp_TTLSecondsAfterFinished :: "int option"
  ajp_PluginConfigMaps :: "string list"
  ajp_ExtraConfigMapMounts :: "ConfigMapMount list"
  ajp_DaprdImage :: string
  ajp_ExtraEnv :: "string list"
  ajp_Cache :: "CacheSpec option"
  ajp_Sessions :: "SessionsSpec option"
  ajp_Attachments :: "SharedAttachment list"
  ajp_TriggerRepo :: string
  ajp_AttemptName :: string
  ajp_Extensions :: "ExtensionPin list"
  ajp_Harness :: "HarnessRef option"
  ajp_AggregatePlugins :: bool
  ajp_PluginLabelValue :: string
  ajp_PluginRefs :: "string list"

definition repo_rune :: "char \<Rightarrow> char" where
  "repo_rune c =
     (if byte_in 0x61 0x7A c \<or> byte_in 0x41 0x5A c \<or> byte_in 0x30 0x39 c \<or> c = CHR ''.'' \<or> c = CHR ''-'' then c
      else CHR ''-'')"

definition SanitizeRepo :: "string \<Rightarrow> string" where
  "SanitizeRepo repo = map_runes repo_rune repo"

definition AttachmentSubPath :: "string \<Rightarrow> string \<Rightarrow> string \<Rightarrow> string \<Rightarrow> string option" where
  "AttachmentSubPath scope workflow repo attempt =
     (if scope = AttachmentScopeRepository then
        (if repo = [] then None
         else Some (SanitizeRepo repo @ ''-'' @ EncodeToString (take 4 (Sum256 repo))))
      else if scope = AttachmentScopeAttempt then (if attempt = [] then None else Some (''attempt-'' @ attempt))
      else if workflow = [] then None else Some workflow)"

definition pluginsMountPrefix :: string where
  "pluginsMountPrefix = ''/plugins''"

definition ReservedAttemptMountPaths :: "string list" where
  "ReservedAttemptMountPaths = [''/workspace'', ''/skills'', ''/cache'', ''/sessions'', ''/runtime'', pluginsMountPrefix]"

section \<open>The builder\<close>

definition runBoundSeconds :: "AttemptJobParams \<Rightarrow> duration" where
  "runBoundSeconds p = (if 0 < ajp_RunBound p then ajp_RunBound p else OneShotRunBound)"

definition job_labels :: "AttemptJobParams \<Rightarrow> (string, string) gomap" where
  "job_labels p =
     [(''app.kubernetes.io/name'', ''harmostes''), (''app.kubernetes.io/component'', ''attempt-runner''),
      (''harmostes.dev/workflow'', ajp_WorkflowName p), (''harmostes.dev/attempt'', at_Name (ajp_Attempt p))]"

definition job_annotations :: "AttemptJobParams \<Rightarrow> (string, string) gomap" where
  "job_annotations p =
     [(''dapr.io/enabled'', ''true''), (''dapr.io/app-id'', at_Name (ajp_Attempt p)), (''dapr.io/config'', ''harmostes-config'')] @
     (if ajp_DaprdImage p \<noteq> []
      then [(''dapr.io/sidecar-image'', ajp_DaprdImage p), (''dapr.io/env'', ''OTEL_EXPORTER_OTLP_INSECURE=true'')] else [])"

record build =
  bd_env :: "EnvVar list"
  bd_volumes :: "Volume list"
  bd_mounts :: "VolumeMount list"
  bd_initEnv :: "EnvVar list"
  bd_initMounts :: "VolumeMount list"

abbreviation (input) push_env :: "EnvVar list \<Rightarrow> build \<Rightarrow> build" where
  "push_env es b \<equiv> b\<lparr>bd_env := bd_env b @ es\<rparr>"

abbreviation (input) push_initEnv :: "EnvVar list \<Rightarrow> build \<Rightarrow> build" where
  "push_initEnv es b \<equiv> b\<lparr>bd_initEnv := bd_initEnv b @ es\<rparr>"

abbreviation (input) push_volume :: "Volume \<Rightarrow> VolumeMount \<Rightarrow> build \<Rightarrow> build" where
  "push_volume v m b \<equiv> b\<lparr>bd_volumes := bd_volumes b @ [v], bd_mounts := bd_mounts b @ [m]\<rparr>"

text \<open>The entries of \<^verbatim>\<open>ExtraEnv\<close> that have an equals sign.\<close>

fun extra_env :: "string list \<Rightarrow> EnvVar list" where
  "extra_env [] = []"
| "extra_env (kv # r) = (case Cut kv (CHR ''='') of Some (k, v) \<Rightarrow> evar k v # extra_env r | None \<Rightarrow> extra_env r)"

definition start_build :: "instant \<Rightarrow> AttemptJobParams \<Rightarrow> build" where
  "start_build now p =
     \<lparr>bd_env =
        [evar ''HARMOSTES_WORKFLOW'' (ajp_WorkflowName p), evar ''HARMOSTES_NAMESPACE'' (ajp_Namespace p),
         \<lparr>evar_Name = ''POD_NAME'', evar_Value = [], evar_FieldPath = Some ''metadata.name''\<rparr>,
         evar ''HARMOSTES_DAPR_REQUIRED'' ''true'',
         evar ''HARMOSTES_WALL_SECONDS'' (show_int (runBoundSeconds p div second)),
         evar ''HARMOSTES_RUN_STARTED_MS'' (show_int (now div 1000000))] @
        extra_env (ajp_ExtraEnv p),
      bd_volumes = [volume ''workspace'' EmptyDir, volume ''skills'' EmptyDir],
      bd_mounts = [mount_at ''workspace'' [] ''/workspace'' False, mount_at ''skills'' [] ''/skills'' False],
      bd_initEnv = [], bd_initMounts = []\<rparr>"

definition build_cache :: "AttemptJobParams \<Rightarrow> build \<Rightarrow> build" where
  "build_cache p b =
     (case ajp_Cache p of
        None \<Rightarrow> b
      | Some c \<Rightarrow>
          if cache_PVC c = [] then b
          else
            push_env
              ((if cache_Go c then [evar ''GOCACHE'' ''/cache/go/build'', evar ''GOMODCACHE'' ''/cache/go/mod''] else []) @
               (if cache_NPM c then [evar ''npm_config_cache'' ''/cache/npm''] else []) @
               (if cache_Git c then [evar ''XDG_CACHE_HOME'' ''/cache/xdg''] else []))
              (push_volume (volume ''cache'' (PersistentVolumeClaim (cache_PVC c)))
                 (mount_at ''cache'' (ajp_WorkflowName p) ''/cache'' False) b))"

definition build_sessions :: "AttemptJobParams \<Rightarrow> build \<Rightarrow> build" where
  "build_sessions p b =
     (case ajp_Sessions p of
        None \<Rightarrow> b
      | Some s \<Rightarrow>
          if sess_PVC s = [] then b
          else
            push_env [evar ''HARMOSTES_PI_SESSIONS'' ''/sessions'',
                      evar ''HARMOSTES_SESSIONS_TTL'' (if sess_TTL s = [] then ''336h'' else sess_TTL s)]
              (push_volume (volume ''sessions'' (PersistentVolumeClaim (sess_PVC s)))
                 (mount_at ''sessions'' (ajp_WorkflowName p) ''/sessions'' False) b))"

definition attachment_path :: "SharedAttachment \<Rightarrow> string" where
  "attachment_path at = (if att_MountPath at = [] then ''/attachments/'' @ att_Name at else att_MountPath at)"

definition build_attachment :: "AttemptJobParams \<Rightarrow> SharedAttachment \<Rightarrow> build \<Rightarrow> build" where
  "build_attachment p at b =
     (if att_PVC at = [] \<or> att_Name at = [] then b
      else (case AttachmentSubPath (att_Scope at) (ajp_WorkflowName p) (ajp_TriggerRepo p) (ajp_AttemptName p) of
              None \<Rightarrow> b
            | Some sub \<Rightarrow>
                push_env
                  (if att_Name at = ''sol-pi'' \<and> att_Scope at = AttachmentScopeRepository
                   then [evar ''HARMOSTES_SOL_PI_STORE'' (attachment_path at)] else [])
                  (push_volume (volume (''attach-'' @ att_Name at) (PersistentVolumeClaim (att_PVC at)))
                     (mount_at (''attach-'' @ att_Name at) sub (attachment_path at) False) b)))"

definition build_extra :: "ConfigMapMount \<Rightarrow> build \<Rightarrow> build" where
  "build_extra m b =
     (let mode = (case cmm_Mode m of None \<Rightarrow> 493 | Some mode \<Rightarrow> mode); vol = ''extra-cm-'' @ cmm_Name m
      in push_volume (volume vol (ConfigMapSource (cmm_Name m) mode)) (mount_at vol [] (cmm_MountPath m) True) b)"

definition build_plugin :: "string \<Rightarrow> build \<Rightarrow> build" where
  "build_plugin cm b =
     (let vol = ''plugin-cm-'' @ cm
      in push_volume (volume vol (ConfigMapSource cm 493)) (mount_at vol [] (pluginsMountPrefix @ ''/'' @ cm) True) b)"

definition wantRuntimeMount :: "AttemptJobParams \<Rightarrow> bool" where
  "wantRuntimeMount p \<longleftrightarrow> ajp_Extensions p \<noteq> [] \<or> ajp_Harness p \<noteq> None"

definition build_manifests :: "manifest_codec \<Rightarrow> AttemptJobParams \<Rightarrow> build \<Rightarrow> string + build" where
  "build_manifests mc p b0 =
     (let b = push_initEnv [evar ''HARMOSTES_NAMESPACE'' (ajp_Namespace p)] b0;
          b1 = (if ajp_Extensions p = [] then Inr b
                else (case RenderExtensionManifest mc (ajp_Extensions p) of
                        Inl e \<Rightarrow> Inl (''attempt job: render extension manifest (validated at dispatch; cannot fail here): '' @ e)
                      | Inr raw \<Rightarrow> Inr (push_env [evar ''HARMOSTES_EXTENSION_MANIFEST'' raw]
                                       (push_initEnv [evar ''HARMOSTES_EXTENSION_MANIFEST'' raw] b))))
      in case b1 of
           Inl e \<Rightarrow> Inl e
         | Inr b2 \<Rightarrow>
             (case ajp_Harness p of
                None \<Rightarrow> Inr b2
              | Some h \<Rightarrow>
                  (case RenderHarnessManifest mc h of
                     Inl e \<Rightarrow> Inl (''attempt job: render harness manifest (validated at dispatch; cannot fail here): '' @ e)
                   | Inr raw \<Rightarrow> Inr (push_env [evar ''HARMOSTES_HARNESS_MANIFEST'' raw]
                                    (push_initEnv [evar ''HARMOSTES_HARNESS_MANIFEST'' raw] b2)))))"

definition build_runtime :: "AttemptJobParams \<Rightarrow> build \<Rightarrow> build" where
  "build_runtime p b0 =
     (let refs = [evar ''HARMOSTES_PLUGIN_REFS'' (Join (ajp_PluginRefs p) '','')];
          b1 = (if wantRuntimeMount p
                then push_volume (volume ''runtime'' EmptyDir) (mount_at ''runtime'' [] ''/runtime'' True)
                       (b0\<lparr>bd_initMounts := bd_initMounts b0 @ [mount_at ''runtime'' [] ''/runtime'' False]\<rparr>)
                else b0);
          b2 = (if ajp_PluginRefs p \<noteq> [] then push_env refs b1 else b1);
          b3 = (if ajp_AggregatePlugins p
                then push_initEnv [evar ''HARMOSTES_AGGREGATE_PLUGINS'' ''true'',
                                   evar ''HARMOSTES_PLUGIN_LABEL_VALUE'' (ajp_PluginLabelValue p)] b2
                else b2);
          b4 = (if ajp_PluginRefs p \<noteq> [] then push_initEnv refs b3 else b3)
      in if ajp_AggregatePlugins p \<or> ajp_PluginRefs p \<noteq> []
         then push_volume (volume ''plugins'' EmptyDir) (mount_at ''plugins'' [] pluginsMountPrefix True)
                (b4\<lparr>bd_initMounts := bd_initMounts b4 @ [mount_at ''plugins'' [] pluginsMountPrefix False]\<rparr>)
         else b4)"

definition materializeInit :: "AttemptJobParams \<Rightarrow> build \<Rightarrow> Container list" where
  "materializeInit p b =
     (if wantRuntimeMount p \<or> ajp_AggregatePlugins p \<or> ajp_PluginRefs p \<noteq> []
      then [\<lparr>con_Name = ''materialize'', con_Image = ajp_Image p,
             con_Command = [''/usr/local/bin/harmostes-worker'', ''init-runtime''], con_Env = bd_initEnv b,
             con_VolumeMounts = bd_initMounts b\<rparr>]
      else [])"

text \<open>What is mounted before the runtime surface: caches, sessions, attachments, ConfigMaps.\<close>

definition build_storage :: "AttemptJobParams \<Rightarrow> build \<Rightarrow> build" where
  "build_storage p b =
     fold build_plugin (ajp_PluginConfigMaps p)
       (fold build_extra (ajp_ExtraConfigMapMounts p)
         (fold (build_attachment p) (ajp_Attachments p) (build_sessions p (build_cache p b))))"

definition BuildJob :: "(string \<Rightarrow> string) \<Rightarrow> manifest_codec \<Rightarrow> instant \<Rightarrow> AttemptJobParams \<Rightarrow> string + JobObject" where
  "BuildJob getenv mc now p =
     (case build_manifests mc p (build_storage p (start_build now p)) of
        Inl e \<Rightarrow> Inl e
      | Inr b1 \<Rightarrow>
          let b = build_runtime p b1
          in Inr \<lparr>jb_GenerateName = at_Name (ajp_Attempt p) @ ''-'', jb_Namespace = ajp_Namespace p,
                  jb_Labels = job_labels p, jb_Annotations = job_annotations p,
                  jb_Owner = \<lparr>own_Kind = ''Attempt'', own_UID = at_UID (ajp_Attempt p)\<rparr>,
                  jb_BackoffLimit = 0, jb_ActiveDeadlineSeconds = runBoundSeconds p div second,
                  jb_TTLSecondsAfterFinished = ajp_TTLSecondsAfterFinished p,
                  jb_ServiceAccountName = ajp_ServiceAccount p, jb_RestartPolicy = ''Never'',
                  jb_InitContainers = materializeInit p b @ skillsInit getenv (ajp_Image p),
                  jb_Containers = [\<lparr>con_Name = ''run'', con_Image = ajp_Image p,
                     con_Command = [''/usr/local/bin/harmostes-worker'', ''run''], con_Env = bd_env b,
                     con_VolumeMounts = bd_mounts b\<rparr>],
                  jb_Volumes = bd_volumes b @ skillsTokenVolumes getenv\<rparr>)"

end
