(* ===== verification/Dispatch_Config.thy ===== *)
theory Dispatch_Config
  imports K8s_Job
begin

text \<open>
  The fleet configuration of the dispatcher (\<^verbatim>\<open>internal/worker/dispatch.go\<close>): parsing and validation of the
  environment, the shape of a Job that follows from it, and the validation of a workflow's shared
  attachments. \<open>env\<close> is the list that \<^verbatim>\<open>os.Environ\<close> returns. \<open>isDNS1123Label\<close> is the validator of
  \<^verbatim>\<open>k8s.io/apimachinery\<close>, which returns the messages of the violations.
\<close>

section \<open>Parsing the environment\<close>

record DispatchConfig =
  dc_FleetMaxConcurrent :: int
  dc_DisableCancelOnSupersede :: bool
  dc_JobImage :: string
  dc_ServiceAccount :: string
  dc_JobTTLSeconds :: "int option"
  dc_DaprdImage :: string
  dc_PluginConfigMaps :: "string list"
  dc_ExtraConfigMapMounts :: "ConfigMapMount list"
  dc_AggregatePlugins :: bool
  dc_PluginLabelValue :: string

definition CancelOnSupersedeFromEnv :: "string list \<Rightarrow> string + bool" where
  "CancelOnSupersedeFromEnv env =
     (let v = Getenv env ''HARMOSTES_CANCEL_ON_SUPERSEDE'' in
      if v = [] then Inr True
      else (case ParseBool v of
              None \<Rightarrow> Inl (''HARMOSTES_CANCEL_ON_SUPERSEDE='' @ quoted v @ '': must be a boolean'')
            | Some b \<Rightarrow> Inr b))"

definition cancelOnSupersedeDisabledFromEnv :: "string list \<Rightarrow> string + bool" where
  "cancelOnSupersedeDisabledFromEnv env = map_sum id Not (CancelOnSupersedeFromEnv env)"

definition pluginConfigMapsFromEnv :: "string list \<Rightarrow> string list" where
  "pluginConfigMapsFromEnv env =
     (let raw = Getenv env ''HARMOSTES_PLUGIN_CONFIGMAPS'' in
      if raw = [] then [] else filter (\<lambda>name. name \<noteq> []) (map TrimSpace (split_on (CHR '','') raw)))"

definition mount_entry :: "string \<Rightarrow> string + ConfigMapMount" where
  "mount_entry pair =
     (case split_on (CHR ''='') pair of
        name # path # rest \<Rightarrow>
          if name = [] \<or> \<not> HasPrefix path ''/''
          then Inl (''HARMOSTES_EXTRA_CONFIGMAP_MOUNTS: malformed entry '' @ quoted pair @
                    '' (want ConfigMap=/absolute/path[=octal-mode])'')
          else (case rest of
                  [] \<Rightarrow> Inr \<lparr>cmm_Name = name, cmm_MountPath = path, cmm_Mode = None\<rparr>
                | m # _ \<Rightarrow>
                    (case ParseInt_8_32 m of
                       None \<Rightarrow> Inl (''HARMOSTES_EXTRA_CONFIGMAP_MOUNTS: bad octal mode in '' @ quoted pair @ '': '' @ ParseInt_error m)
                     | Some mode \<Rightarrow> Inr \<lparr>cmm_Name = name, cmm_MountPath = path, cmm_Mode = Some mode\<rparr>))
      | _ \<Rightarrow> Inl (''HARMOSTES_EXTRA_CONFIGMAP_MOUNTS: malformed entry '' @ quoted pair @
                 '' (want ConfigMap=/absolute/path[=octal-mode])''))"

fun mount_entries :: "string list \<Rightarrow> string + ConfigMapMount list" where
  "mount_entries [] = Inr []"
| "mount_entries (p # ps) =
     (case mount_entry p of
        Inl e \<Rightarrow> Inl e
      | Inr m \<Rightarrow> (case mount_entries ps of Inl e \<Rightarrow> Inl e | Inr ms \<Rightarrow> Inr (m # ms)))"

definition extraConfigMapMountsFromEnv :: "string list \<Rightarrow> string + ConfigMapMount list" where
  "extraConfigMapMountsFromEnv env =
     (let raw = Getenv env ''HARMOSTES_EXTRA_CONFIGMAP_MOUNTS'' in
      if raw = [] then Inr [] else mount_entries (split_on (CHR '','') raw))"

definition Validate :: "DispatchConfig \<Rightarrow> string option" where
  "Validate c =
     (if dc_JobImage c = []
      then Some (''dispatch config: worker image is required (HARMOSTES_WORKER_IMAGE) '' @ em_dash @
                 '' an Attempt Job without an image can never run'')
      else if [] \<in> set (dc_PluginConfigMaps c) then Some ''dispatch config: empty plugin ConfigMap name''
      else (case List.find (\<lambda>m. cmm_Name m = [] \<or> \<not> HasPrefix (cmm_MountPath m) ''/'') (dc_ExtraConfigMapMounts c) of
              Some m \<Rightarrow> Some (''dispatch config: invalid ConfigMap mount '' @ quoted (cmm_Name m @ ''='' @ cmm_MountPath m) @
                             '' (need name and absolute mount path)'')
            | None \<Rightarrow> None))"

text \<open>The three variables that hold a number or a flag; an empty variable leaves the default.\<close>

definition aggregate_from_env :: "string list \<Rightarrow> string + bool" where
  "aggregate_from_env env =
     (let v = Getenv env ''HARMOSTES_AGGREGATE_PLUGINS'' in
      if v = [] then Inr False
      else (case ParseBool v of
              None \<Rightarrow> Inl (''HARMOSTES_AGGREGATE_PLUGINS='' @ quoted v @ '': must be a boolean'')
            | Some on \<Rightarrow> Inr on))"

definition max_concurrent_from_env :: "string list \<Rightarrow> string + int" where
  "max_concurrent_from_env env =
     (let v = Getenv env ''HARMOSTES_MAX_CONCURRENT'' in
      if v = [] then Inr 3
      else (case Atoi v of
              Some n \<Rightarrow> if n \<le> 0 then Inl (''HARMOSTES_MAX_CONCURRENT='' @ quoted v @ '': must be a positive integer'') else Inr n
            | None \<Rightarrow> Inl (''HARMOSTES_MAX_CONCURRENT='' @ quoted v @ '': must be a positive integer'')))"

definition job_ttl_from_env :: "string list \<Rightarrow> string + int" where
  "job_ttl_from_env env =
     (let v = Getenv env ''HARMOSTES_JOB_TTL_SECONDS'' in
      if v = [] then Inr 3600
      else (case Atoi v of
              Some n \<Rightarrow> if n < 0 then Inl (''HARMOSTES_JOB_TTL_SECONDS='' @ quoted v @ '': must be a non-negative integer'')
                       else Inr (to_int32 n)
            | None \<Rightarrow> Inl (''HARMOSTES_JOB_TTL_SECONDS='' @ quoted v @ '': must be a non-negative integer'')))"

definition DispatchConfigFromEnv :: "string list \<Rightarrow> string + DispatchConfig" where
  "DispatchConfigFromEnv env =
     (case extraConfigMapMountsFromEnv env of
        Inl e \<Rightarrow> Inl e
      | Inr mounts \<Rightarrow>
          (case aggregate_from_env env of
             Inl e \<Rightarrow> Inl e
           | Inr aggregate \<Rightarrow>
               (case max_concurrent_from_env env of
                  Inl e \<Rightarrow> Inl e
                | Inr fleet \<Rightarrow>
                    (case cancelOnSupersedeDisabledFromEnv env of
                       Inl e \<Rightarrow> Inl e
                     | Inr disable \<Rightarrow>
                         (case job_ttl_from_env env of
                            Inl e \<Rightarrow> Inl e
                          | Inr ttl \<Rightarrow>
                              let label = Getenv env ''HARMOSTES_PLUGIN_LABEL_VALUE'';
                                  cfg = \<lparr>dc_FleetMaxConcurrent = fleet, dc_DisableCancelOnSupersede = disable,
                                    dc_JobImage = Getenv env ''HARMOSTES_WORKER_IMAGE'',
                                    dc_ServiceAccount = Getenv env ''HARMOSTES_SERVICE_ACCOUNT'',
                                    dc_JobTTLSeconds = Some ttl, dc_DaprdImage = Getenv env ''HARMOSTES_DAPRD_IMAGE'',
                                    dc_PluginConfigMaps = pluginConfigMapsFromEnv env, dc_ExtraConfigMapMounts = mounts,
                                    dc_AggregatePlugins = aggregate,
                                    dc_PluginLabelValue = (if label = [] then ''true'' else label)\<rparr>
                              in (case Validate cfg of Some e \<Rightarrow> Inl e | None \<Rightarrow> Inr cfg))))))"

definition JobParams ::
  "DispatchConfig \<Rightarrow> Attempt \<Rightarrow> string \<Rightarrow> string \<Rightarrow> duration \<Rightarrow> CacheSpec option \<Rightarrow> SessionsSpec option \<Rightarrow>
   SharedAttachment list \<Rightarrow> string \<Rightarrow> string list \<Rightarrow> ExtensionPin list \<Rightarrow> HarnessRef option \<Rightarrow> string list \<Rightarrow> AttemptJobParams" where
  "JobParams c at workflow namespace runBound cache sessions attachments triggerRepo extraEnv extensions harness pluginRefs =
     \<lparr>ajp_Attempt = at, ajp_WorkflowName = workflow, ajp_Namespace = namespace, ajp_Image = dc_JobImage c,
      ajp_ServiceAccount = dc_ServiceAccount c, ajp_RunBound = runBound, ajp_TTLSecondsAfterFinished = dc_JobTTLSeconds c,
      ajp_PluginConfigMaps = dc_PluginConfigMaps c, ajp_ExtraConfigMapMounts = dc_ExtraConfigMapMounts c,
      ajp_DaprdImage = dc_DaprdImage c, ajp_ExtraEnv = extraEnv, ajp_Cache = cache, ajp_Sessions = sessions,
      ajp_Attachments = attachments, ajp_TriggerRepo = triggerRepo, ajp_AttemptName = at_Name at,
      ajp_Extensions = extensions, ajp_Harness = harness, ajp_AggregatePlugins = dc_AggregatePlugins c,
      ajp_PluginLabelValue = dc_PluginLabelValue c, ajp_PluginRefs = pluginRefs\<rparr>"

definition pluginRefsFrom :: "Workflow \<Rightarrow> string list" where
  "pluginRefsFrom wfl =
     (let ref = TrimSpace (wspec_PluginsConfigMapRef (wf_Spec wfl)) in if ref \<noteq> [] then [ref] else [])"

section \<open>Shared attachments\<close>

definition ReservedStoreNames :: "string list" where
  "ReservedStoreNames = [''coverage'', ''_shared'']"

definition IsReservedStoreName :: "string \<Rightarrow> bool" where
  "IsReservedStoreName name \<longleftrightarrow> name \<in> set ReservedStoreNames"

definition effective_path :: "SharedAttachment \<Rightarrow> string" where
  "effective_path at = Clean (attachment_path at)"

definition shadows :: "string \<Rightarrow> string \<Rightarrow> bool" where
  "shadows path r \<longleftrightarrow> path = r \<or> HasPrefix path (r @ ''/'')"

definition attachment_error ::
  "(string \<Rightarrow> string list) \<Rightarrow> string list \<Rightarrow> string list \<Rightarrow> SharedAttachment \<Rightarrow> string option" where
  "attachment_error isDNS1123Label seenNames seenPaths at =
     (let err = (\<lambda>msg. Some (''attachment '' @ quoted (att_Name at) @ '': '' @ msg));
          vol = ''attach-'' @ att_Name at; effective = effective_path at
      in if att_Name at \<in> set seenNames then err (''duplicate name '' @ em_dash @ '' names are identity'')
         else if isDNS1123Label vol \<noteq> []
         then err (''volume name '' @ quoted vol @ '' is not a DNS-1123 label: '' @ Join (isDNS1123Label vol) ''; '')
         else if att_PVC at = [] then err ''pvc is required''
         else if isDNS1123Label (att_PVC at) \<noteq> []
         then err (''pvc '' @ quoted (att_PVC at) @ '' is not a DNS-1123 label: '' @ Join (isDNS1123Label (att_PVC at)) ''; '')
         else if att_MountPath at \<noteq> [] \<and> \<not> IsAbs (att_MountPath at)
         then err (''mountPath '' @ quoted (att_MountPath at) @ '' must be absolute'')
         else if effective = ''/''
         then err (''mountPath '' @ quoted (att_MountPath at) @ '' resolves to the container root'')
         else if effective \<in> set seenPaths
         then err (''effective mountPath '' @ quoted effective @ '' collides with another attachment'')
         else (case List.find (shadows effective) ReservedAttemptMountPaths of
                 Some r \<Rightarrow> err (''mountPath '' @ quoted effective @ '' shadows the builder-reserved mount '' @ r)
               | None \<Rightarrow> None))"

fun attachments_loop ::
  "(string \<Rightarrow> string list) \<Rightarrow> string list \<Rightarrow> string list \<Rightarrow> SharedAttachment list \<Rightarrow> string option" where
  "attachments_loop isDNS1123Label seenNames seenPaths [] = None"
| "attachments_loop isDNS1123Label seenNames seenPaths (at # ats) =
     (case attachment_error isDNS1123Label seenNames seenPaths at of
        Some e \<Rightarrow> Some e
      | None \<Rightarrow> attachments_loop isDNS1123Label (att_Name at # seenNames) (effective_path at # seenPaths) ats)"

definition ValidateAttachments :: "(string \<Rightarrow> string list) \<Rightarrow> SharedAttachment list \<Rightarrow> string \<Rightarrow> string option" where
  "ValidateAttachments isDNS1123Label atts workflow =
     (if list_ex (\<lambda>at. att_Scope at = AttachmentScopeRepository) atts \<and> IsReservedStoreName workflow
      then Some (''workflow '' @ quoted workflow @ '' names a reserved store namespace (['' @ Join ReservedStoreNames '' '' @
                 '']) while declaring a repository-scoped attachment '' @ em_dash @ '' the workflow leaf would shadow the shared '' @
                 workflow @ '' namespace; rename the workflow'')
      else attachments_loop isDNS1123Label [] [] atts)"

section \<open>The repository wiki\<close>

datatype json_any = JNull | JBool bool | JNumber | JString string | JArray | JObject

definition go_type :: "json_any \<Rightarrow> string" where
  "go_type v = (case v of JNull \<Rightarrow> ''<nil>'' | JBool b \<Rightarrow> ''bool'' | JNumber \<Rightarrow> ''float64'' | JString s \<Rightarrow> ''string''
     | JArray \<Rightarrow> ''[]interface {}'' | JObject \<Rightarrow> ''map[string]interface {}'')"

definition ValidateRepoWikiConfig :: "(string \<Rightarrow> (string, json_any) gomap option option) \<Rightarrow> string \<Rightarrow> string option" where
  "ValidateRepoWikiConfig decode cfg =
     (if cfg = [] then None
      else (case decode cfg of
              Some (Some m) \<Rightarrow>
                (case map_of m ''repoWiki'' of
                   None \<Rightarrow> None
                 | Some JNull \<Rightarrow> None
                 | Some (JString s) \<Rightarrow> None
                 | Some v \<Rightarrow> Some (''config.repoWiki must be a string (a git URL), got '' @ go_type v @ '' '' @ em_dash @
                                  '' fix the workflow instance (or template) config''))
            | _ \<Rightarrow> None))"

end
