(* ===== verification/Dispatch.thy ===== *)
theory Dispatch
  imports Dispatch_Config Template_Defaults
begin

text \<open>
  The dispatcher (\<^verbatim>\<open>internal/worker/dispatch.go\<close>): a trigger becomes Jobs. The workflow is fetched with its
  template's defaults, its declarations are validated, the Review-Ready Gate hands out the reviews (or the
  workflow without a gate resolves one Attempt), and for each of them the dispatcher records the intent,
  creates the Job and records the edge. \<open>'w Dispatcher\<close> holds what the dispatcher calls: the
  collaborators of the gate, the reads of the other objects, the creation of a Job, and the libraries. A
  call of Go code returns, fails or panics. Log lines are left out.
\<close>

section \<open>Collaborators\<close>

datatype 'a outcome = Returns 'a | Fails error | Panics string

record RunRequest =
  rq_Workflow :: string
  rq_Namespace :: string
  rq_Source :: string
  rq_Attempt :: string
  rq_Traceparent :: string
  rq_Pr :: string
  rq_Action :: string
  rq_Revision :: string
  rq_PrTitle :: string
  rq_Repo :: string

record TimelineSubject =
  sub_Kind :: string
  sub_Ref :: string
  sub_Title :: string
  sub_SHA :: string

record 'w Dispatcher =
  dp_gate :: "'w GateDeps"
  dp_cfg :: DispatchConfig
  dp_namespace :: string
  dp_environ :: "string list"
  dp_getWorkflow :: "string \<Rightarrow> string \<Rightarrow> 'w \<Rightarrow> (error + Workflow) \<times> 'w"
  dp_getTemplate :: "string \<Rightarrow> string \<Rightarrow> 'w \<Rightarrow> (error + WorkflowTemplateSpec) \<times> 'w"
  dp_getProfile :: "string \<Rightarrow> string \<Rightarrow> 'w \<Rightarrow> (error + AgentProfileSpec) \<times> 'w"
  dp_listWorkflows :: "string \<Rightarrow> 'w \<Rightarrow> (error + Workflow list) \<times> 'w"
  dp_createJob :: "JobObject \<Rightarrow> 'w \<Rightarrow> (error + string) \<times> 'w"
  dp_timeline :: "string \<Rightarrow> TimelineSubject \<Rightarrow> (string \<Rightarrow> (string \<times> field) list \<Rightarrow> 'w \<Rightarrow> 'w) option"
  dp_json :: "json_any object_codec"
  dp_manifests :: manifest_codec
  dp_envelopeJSON :: "Envelope \<Rightarrow> string"
  dp_semver :: semver
  dp_isDNS1123Label :: "string \<Rightarrow> string list"
  dp_mapOrder :: "(string \<times> string) list \<Rightarrow> (string \<times> string) list"

abbreviation dp_client :: "'w Dispatcher \<Rightarrow> 'w Client" where
  "dp_client d \<equiv> gd_client (dp_gate d)"

abbreviation (input) plain_error :: "string \<Rightarrow> error" where
  "plain_error msg \<equiv> \<lparr>err_Kind = OtherError, err_Text = msg\<rparr>"

definition FetchWorkflow :: "'w Dispatcher \<Rightarrow> string \<Rightarrow> string \<Rightarrow> 'w \<Rightarrow> Workflow outcome \<times> 'w" where
  "FetchWorkflow d namespace name w =
     (case dp_getWorkflow d namespace name w of
        (Inl e, w1) \<Rightarrow> (Fails (wrap_error (''get workflow '' @ namespace @ ''/'' @ name @ '': '') e), w1)
      | (Inr wfl, w1) \<Rightarrow>
          let ref = wspec_TemplateRef (wf_Spec wfl) in
          if ref = [] then (Returns wfl, w1)
          else (case dp_getTemplate d namespace ref w1 of
                  (Inl e, w2) \<Rightarrow> (Fails (wrap_error (''get workflow template '' @ namespace @ ''/'' @ ref @ '': '') e), w2)
                | (Inr t, w2) \<Rightarrow>
                    (case ApplyTemplateDefaults (dp_json d) (Some wfl) (Some t) of
                       Some (Some wfl') \<Rightarrow> (Returns wfl', w2)
                     | _ \<Rightarrow> (Panics ''assignment to entry in nil map'', w2))))"

text \<open>\<^verbatim>\<open>ArmedWaitingWorkflows\<close>: the gated workflows that hold a claim which was never dispatched.\<close>

definition undispatched_claim :: "Attempt \<Rightarrow> bool" where
  "undispatched_claim a \<longleftrightarrow> (case st_Review (at_Status a) of None \<Rightarrow> False | Some r \<Rightarrow> rc_DispatchedAt r = None)"

fun armed_loop :: "'w Dispatcher \<Rightarrow> Workflow list \<Rightarrow> 'w \<Rightarrow> string list \<times> 'w" where
  "armed_loop d [] w = ([], w)"
| "armed_loop d (wfl # wfls) w =
     (if wspec_ReviewReady (wf_Spec wfl) = None then armed_loop d wfls w
      else (case LiveReviewClaims (dp_client d) wfl w of
              (Inl e, w1) \<Rightarrow> armed_loop d wfls w1
            | (Inr claims, w1) \<Rightarrow>
                (case armed_loop d wfls w1 of
                   (out, w2) \<Rightarrow> (if list_ex undispatched_claim claims then wf_Name wfl # out else out, w2))))"

definition ArmedWaitingWorkflows :: "'w Dispatcher \<Rightarrow> 'w \<Rightarrow> string list \<times> 'w" where
  "ArmedWaitingWorkflows d w =
     (case dp_listWorkflows d (dp_namespace d) w of
        (Inl e, w1) \<Rightarrow> ([], w1)
      | (Inr items, w1) \<Rightarrow> armed_loop d items w1)"

definition composeRuntime ::
  "'w Dispatcher \<Rightarrow> string \<Rightarrow> Workflow \<Rightarrow> 'w \<Rightarrow> (ExtensionPin list \<times> HarnessRef option) outcome \<times> 'w" where
  "composeRuntime d namespace wfl w =
     (let ref = Getenv (dp_environ d) ''HARMOSTES_AGENT_PROFILE'';
          fetched = (if ref = [] then (Inr ([], HarnessRef0), w)
                     else (case dp_getProfile d namespace ref w of
                             (Inl e, w1) \<Rightarrow> (Inl (wrap_error (''agent profile: get agentprofile '' @ namespace @ ''/'' @ ref @ '': '') e), w1)
                           | (Inr p, w1) \<Rightarrow> (Inr (ap_Extensions p, ap_Harness p), w1)))
      in case fetched of
           (Inl e, w1) \<Rightarrow> (Fails e, w1)
         | (Inr (universal, harness), w1) \<Rightarrow>
             (case ComposeRuntime (dp_semver d) universal (agent_Extensions (wspec_Agent (wf_Spec wfl))) harness of
                Inl e \<Rightarrow> (Fails (plain_error (''workflow '' @ wf_Name wfl @ '': '' @ e)), w1)
              | Inr r \<Rightarrow> (Returns r, w1)))"

section \<open>The environment of the Job\<close>

definition jobEnvAllowlist :: "string list" where
  "jobEnvAllowlist =
     [''HARMOSTES_FORGEJO_TOKEN'', ''HARMOSTES_AGENT_PROFILE'', ''FORGEJO_TOKEN'', ''GH_TOKEN'', ''HARMOSTES_GIT_TOKEN'',
      ''HARMOSTES_CODEBERG_TOKEN'', ''HARMOSTES_RZC_USERNAME'', ''HARMOSTES_RZC_PASSWORD'', ''LITELLM_API_KEY'',
      ''LITELLM_URL'', ''LITELLM_FALLBACKS'', ''HARMOSTES_REVIEW_POST_TOKEN'', ''HARMOSTES_SOL_PI_STORE'',
      ''PI_TOOL_BUDGET'', ''PI_TOOL_BUDGET_ALLOW'', ''PI_TOOL_BUDGET_NUDGE'']"

definition spawnSafeEnv :: "string list" where
  "spawnSafeEnv =
     [''LITELLM_URL'', ''LITELLM_API_KEY'', ''LITELLM_FALLBACKS'', ''PI_TOOL_BUDGET'', ''PI_TOOL_BUDGET_ALLOW'',
      ''PI_TOOL_BUDGET_NUDGE'', ''HARMOSTES_SKILLS_REPO'', ''HARMOSTES_SKILLS_REV'', ''HARMOSTES_REVIEW_POST_TOKEN'',
      ''HARMOSTES_SOL_PI_STORE'', ''FORGEJO_TOKEN'', ''GH_TOKEN'', ''HARMOSTES_FORGEJO_TOKEN'']"

definition SpawnSafeEnv :: "string \<Rightarrow> bool" where
  "SpawnSafeEnv name \<longleftrightarrow> name \<in> set spawnSafeEnv"

definition EnvAllowlistNames :: "string list" where
  "EnvAllowlistNames = jobEnvAllowlist"

record budgetPolicy =
  bp_workflow :: Workflow
  bp_attempt :: Attempt

definition budgetTrio :: "string list" where
  "budgetTrio = [''PI_TOOL_BUDGET'', ''PI_TOOL_BUDGET_ALLOW'', ''PI_TOOL_BUDGET_NUDGE'']"

definition isReviewAttempt :: "budgetPolicy \<Rightarrow> bool" where
  "isReviewAttempt p \<longleftrightarrow> obj_Kind (aspec_Objective (at_Spec (bp_attempt p))) = ObjectiveKindPRReview"

abbreviation (input) tool_budget :: "budgetPolicy \<Rightarrow> int option" where
  "tool_budget p \<equiv> agent_ToolBudget (wspec_Agent (wf_Spec (bp_workflow p)))"

definition dropFromAllowlist :: "budgetPolicy \<Rightarrow> string \<Rightarrow> bool" where
  "dropFromAllowlist p name \<longleftrightarrow> tool_budget p = Some 0 \<and> name \<in> set budgetTrio"

text \<open>The division of Go truncates.\<close>

definition half :: "int \<Rightarrow> int" where
  "half n = (if n < 0 then - (- n div 2) else n div 2)"

definition overrides :: "budgetPolicy \<Rightarrow> (string, string) gomap" where
  "overrides p =
     (case tool_budget p of
        None \<Rightarrow> []
      | Some tb \<Rightarrow> if tb = 0 then []
                   else [(''PI_TOOL_BUDGET'', show_int tb), (''PI_TOOL_BUDGET_NUDGE'', show_int (half tb))])"

definition wanted_env :: "budgetPolicy \<Rightarrow> string \<Rightarrow> bool" where
  "wanted_env p n \<longleftrightarrow> n \<in> set jobEnvAllowlist \<and> \<not> dropFromAllowlist p n \<and>
     (isReviewAttempt p \<or> n \<noteq> ''HARMOSTES_REVIEW_POST_TOKEN'' \<and> n \<noteq> ''HARMOSTES_REVIEW_POST_TOKEN_FJ'')"

definition forwarded :: "budgetPolicy \<Rightarrow> string \<Rightarrow> bool" where
  "forwarded p kv \<longleftrightarrow>
     (case IndexByte kv (CHR ''='') of
        None \<Rightarrow> False
      | Some i \<Rightarrow> 0 < i \<and> wanted_env p (take i kv) \<and> i \<noteq> length kv - 1)"

definition jobCredentialEnv ::
  "((string \<times> string) list \<Rightarrow> (string \<times> string) list) \<Rightarrow> string list \<Rightarrow> budgetPolicy \<Rightarrow> string list" where
  "jobCredentialEnv order environ p =
     filter (forwarded p) environ @ map (\<lambda>(k, v). k @ ''='' @ v) (order (overrides p)) @
     (if isReviewAttempt p then [''PI_LOOP_BREAKER=1''] else [])"

definition EnvelopeEnv :: "(Envelope \<Rightarrow> string) \<Rightarrow> Envelope \<Rightarrow> string list" where
  "EnvelopeEnv marshal env =
     [''HARMOSTES_TRIGGER_REPO='' @ evl_Repo env, ''HARMOSTES_TRIGGER_PR='' @ show_int (evl_PR env),
      ''HARMOSTES_TRIGGER_SHA='' @ evl_HeadSHA env, ''HARMOSTES_TRIGGER_BASE='' @ evl_Base env,
      ''HARMOSTES_TRIGGER_LABEL='' @ evl_Label env, ''HARMOSTES_TRIGGER_CONTEXTS='' @ marshal env]"

definition unless_empty :: "string \<Rightarrow> string \<Rightarrow> string list" where
  "unless_empty name v = (if v = [] then [] else [name @ ''='' @ v])"

definition dispatchEnv :: "(Envelope \<Rightarrow> string) \<Rightarrow> RunRequest \<Rightarrow> Attempt \<Rightarrow> Envelope option \<Rightarrow> string list" where
  "dispatchEnv marshal req at env =
     [''HARMOSTES_ATTEMPT='' @ at_Name at, ''HARMOSTES_DISPATCHED_ATTEMPT='' @ at_Name at] @
     unless_empty ''HARMOSTES_SOURCE'' (rq_Source req) @ unless_empty ''HARMOSTES_TRACEPARENT'' (rq_Traceparent req) @
     (case env of
        Some e \<Rightarrow> EnvelopeEnv marshal e
      | None \<Rightarrow> unless_empty ''HARMOSTES_TRIGGER_PR'' (rq_Pr req) @ unless_empty ''HARMOSTES_TRIGGER_ACTION'' (rq_Action req) @
               unless_empty ''HARMOSTES_TRIGGER_REVISION'' (rq_Revision req) @
               unless_empty ''HARMOSTES_TRIGGER_TITLE'' (rq_PrTitle req))"

definition triggerSubject :: "RunRequest \<Rightarrow> TimelineSubject" where
  "triggerSubject req =
     (if rq_Pr req \<noteq> []
      then \<lparr>sub_Kind = ''pr'', sub_Ref = rq_Pr req, sub_Title = rq_PrTitle req, sub_SHA = rq_Revision req\<rparr>
      else \<lparr>sub_Kind = [], sub_Ref = [], sub_Title = [], sub_SHA = []\<rparr>)"

section \<open>Dispatch\<close>

text \<open>The Job of one dispatch: its parameters and the built object.\<close>

definition dispatch_job ::
  "'w Dispatcher \<Rightarrow> RunRequest \<Rightarrow> Workflow \<Rightarrow> GateDispatch \<Rightarrow> Attempt \<Rightarrow> ExtensionPin list \<times> HarnessRef option \<Rightarrow> instant \<Rightarrow>
   string + JobObject" where
  "dispatch_job d req wfl g at rt now =
     BuildJob (Getenv (dp_environ d)) (dp_manifests d) now
       (JobParams (dp_cfg d) at (rq_Workflow req) (rq_Namespace req) (RunBoundDuration (wspec_ReviewReady (wf_Spec wfl)))
          (wspec_Cache (wf_Spec wfl)) (wspec_Sessions (wf_Spec wfl)) (wspec_Attachments (wf_Spec wfl))
          (case gdis_Envelope g of None \<Rightarrow> [] | Some e \<Rightarrow> evl_Repo e)
          (jobCredentialEnv (dp_mapOrder d) (dp_environ d) \<lparr>bp_workflow = wfl, bp_attempt = at\<rparr> @
           dispatchEnv (dp_envelopeJSON d) req at (gdis_Envelope g))
          (fst rt) (snd rt) (pluginRefsFrom wfl))"

text \<open>The intent is recorded before the Job exists, the edge after.\<close>

definition spawn_job :: "'w Dispatcher \<Rightarrow> RunRequest \<Rightarrow> Attempt \<Rightarrow> JobObject \<Rightarrow> 'w \<Rightarrow> unit outcome \<times> 'w" where
  "spawn_job d req at job w =
     (case MarkDispatchIntent (dp_client d) (rq_Namespace req) (at_Name at) w of
        (Some e, w1) \<Rightarrow> (Fails (wrap_error (''record dispatch intent '' @ at_Name at @ '': '') e), w1)
      | (None, w1) \<Rightarrow>
          (case dp_createJob d job w1 of
             (Inl e, w2) \<Rightarrow>
               if err_Kind e = AlreadyExists then (Returns (), w2)
               else (Fails (wrap_error ''create job (intent recorded, artifact absent): '' e), w2)
           | (Inr jobName, w2) \<Rightarrow>
               (case MarkClaimDispatched (dp_client d) (rq_Namespace req) (at_Name at) jobName w2 of
                  (Some e, w3) \<Rightarrow> (Fails (wrap_error (''record dispatch edge '' @ at_Name at @ '': '') e), w3)
                | (None, w3) \<Rightarrow> (Returns (), w3))))"

definition dispatch_one :: "'w Dispatcher \<Rightarrow> RunRequest \<Rightarrow> Workflow \<Rightarrow> Job list \<Rightarrow> GateDispatch \<Rightarrow> 'w \<Rightarrow> unit outcome \<times> 'w" where
  "dispatch_one d req wfl live g w =
     (case List.find (\<lambda>j. job_attempt j = gdis_Attempt g) live of
        Some j \<Rightarrow>
          (case CompleteDispatchEdge (dp_client d) (rq_Namespace req) (gdis_Attempt g) (job_Name j) w of
             (e, w1) \<Rightarrow> (Returns (), w1))
      | None \<Rightarrow>
          (case cl_get (dp_client d) (rq_Namespace req) (gdis_Attempt g) w of
             (Inl e, w1) \<Rightarrow> (Fails (wrap_error (''get claim attempt '' @ gdis_Attempt g @ '': '') e), w1)
           | (Inr at, w1) \<Rightarrow>
               (case composeRuntime d (rq_Namespace req) wfl w1 of
                  (Panics m, w2) \<Rightarrow> (Panics m, w2)
                | (Fails e, w2) \<Rightarrow> (Fails (wrap_error ''runtime materialization: '' e), w2)
                | (Returns rt, w2) \<Rightarrow>
                    (case dispatch_job d req wfl g at rt (cl_now (dp_client d) w2) of
                       Inl m \<Rightarrow> (Panics m, w2)
                     | Inr job \<Rightarrow> spawn_job d req at job w2))))"

fun create_loop :: "'w Dispatcher \<Rightarrow> RunRequest \<Rightarrow> Workflow \<Rightarrow> Job list \<Rightarrow> GateDispatch list \<Rightarrow> 'w \<Rightarrow> unit outcome \<times> 'w" where
  "create_loop d req wfl live [] w = (Returns (), w)"
| "create_loop d req wfl live (g # gs) w =
     (case dispatch_one d req wfl live g w of
        (Returns u, w1) \<Rightarrow> create_loop d req wfl live gs w1
      | (r, w1) \<Rightarrow> (r, w1))"

definition create_jobs :: "'w Dispatcher \<Rightarrow> RunRequest \<Rightarrow> Workflow \<Rightarrow> GateDispatch list \<Rightarrow> 'w \<Rightarrow> unit outcome \<times> 'w" where
  "create_jobs d req wfl gs w =
     (case gd_listJobs (dp_gate d) (rq_Namespace req) (rq_Workflow req) w of
        (listed, w1) \<Rightarrow>
          (case ListActiveJobs listed of
             Inl e \<Rightarrow> (Fails (wrap_error ''list active jobs: '' e), w1)
           | Inr live \<Rightarrow> create_loop d req wfl live gs w1))"

definition gate_deps :: "'w Dispatcher \<Rightarrow> RunRequest \<Rightarrow> Workflow \<Rightarrow> 'w GateDeps" where
  "gate_deps d req wfl = (dp_gate d)\<lparr>
     gd_FleetMaxConcurrent := dc_FleetMaxConcurrent (dp_cfg d),
     gd_DisableCancelOnSupersede := dc_DisableCancelOnSupersede (dp_cfg d),
     gd_Wake := \<lparr>gw_PR = rq_Pr req, gw_Action = rq_Action req, gw_Revision = rq_Revision req, gw_Repo = rq_Repo req\<rparr>,
     gd_TL := dp_timeline d (wf_Name wfl) (triggerSubject req)\<rparr>"

definition dispatch_gated :: "'w Dispatcher \<Rightarrow> RunRequest \<Rightarrow> Workflow \<Rightarrow> 'w \<Rightarrow> unit outcome \<times> 'w" where
  "dispatch_gated d req wfl w =
     (case RunReviewGateSweep (gate_deps d req wfl) wfl w of
        (Inl e, w1) \<Rightarrow> (Fails (wrap_error ''review gate: '' e), w1)
      | (Inr gs, w1) \<Rightarrow> if gs = [] then (Returns (), w1) else create_jobs d req wfl gs w1)"

definition dispatch_ungated :: "'w Dispatcher \<Rightarrow> RunRequest \<Rightarrow> Workflow \<Rightarrow> 'w \<Rightarrow> unit outcome \<times> 'w" where
  "dispatch_ungated d req wfl w =
     (case ResolveOrCreate (dp_client d)
             (DeriveObjective (gd_urlPath (dp_gate d)) wfl \<lparr>trig_Revision = rq_Revision req, trig_Source = ''webhook''\<rparr>)
             \<lparr>ro_Namespace = rq_Namespace req, ro_WorkflowRef = rq_Namespace req @ ''/'' @ rq_Workflow req,
              ro_Owner = Some wfl, ro_Scheme = gd_Scheme (dp_gate d)\<rparr> w of
        (Inl e, w1) \<Rightarrow> (Fails (wrap_error ''resolve attempt: '' e), w1)
      | (Inr (at, created), w1) \<Rightarrow> create_jobs d req wfl [\<lparr>gdis_Envelope = None, gdis_Attempt = at_Name at\<rparr>] w1)"

definition Dispatch :: "'w Dispatcher \<Rightarrow> RunRequest \<Rightarrow> 'w \<Rightarrow> unit outcome \<times> 'w" where
  "Dispatch d req w =
     (case FetchWorkflow d (rq_Namespace req) (rq_Workflow req) w of
        (Panics m, w1) \<Rightarrow> (Panics m, w1)
      | (Fails e, w1) \<Rightarrow> (Fails (wrap_error ''fetch workflow: '' e), w1)
      | (Returns wfl, w1) \<Rightarrow>
          (case ValidateAttachments (dp_isDNS1123Label d) (wspec_Attachments (wf_Spec wfl)) (rq_Workflow req) of
             Some m \<Rightarrow> (Fails (plain_error (''workflow '' @ rq_Workflow req @ '' attachments invalid: '' @ m)), w1)
           | None \<Rightarrow>
               (case ValidateRepoWikiConfig (jo_dec (dp_json d)) (wspec_Config (wf_Spec wfl)) of
                  Some m \<Rightarrow> (Fails (plain_error (''workflow '' @ rq_Workflow req @ '' config invalid: '' @ m)), w1)
                | None \<Rightarrow>
                    if wspec_ReviewReady (wf_Spec wfl) \<noteq> None then dispatch_gated d req wfl w1
                    else dispatch_ungated d req wfl w1)))"

end
