(* ===== verification/K8s_Job_Props.thy ===== *)
theory K8s_Job_Props
  imports Dispatch
begin

text \<open>
  What the pod of a Job looks like: its volumes and mounts, and the variables of its containers.
\<close>

section \<open>Attachments\<close>

definition attachment_ok :: "SharedAttachment \<Rightarrow> bool" where
  "attachment_ok at \<longleftrightarrow> att_PVC at \<noteq> [] \<and> IsAbs (attachment_path at) \<and> effective_path at \<noteq> ''/'' \<and>
     list_all (\<lambda>r. \<not> shadows (effective_path at) r) ReservedAttemptMountPaths"

lemma attachments_loop_None:
  "attachments_loop dns names paths ats = None \<Longrightarrow>
   list_all attachment_ok ats \<and> distinct (map att_Name ats) \<and> distinct (map effective_path ats) \<and>
   set names \<inter> att_Name ` set ats = {} \<and> set paths \<inter> effective_path ` set ats = {}"
proof (induction ats arbitrary: names paths)
  case (Cons at ats)
  let ?ns = "att_Name at # names" and ?ps = "effective_path at # paths"
  have e: "attachment_error dns names paths at = None" and l: "attachments_loop dns ?ns ?ps ats = None"
    using Cons.prems by (auto split: option.splits)
  from e have "attachment_ok at" "att_Name at \<notin> set names" "effective_path at \<notin> set paths"
    by (auto simp: attachment_error_def attachment_ok_def attachment_path_def IsAbs_def HasPrefix_def Let_def find_None_iff
        list_all_iff split: if_splits option.splits)
  with Cons.IH [OF l] show ?case by auto
qed simp

lemma attachments_valid:
  assumes "ValidateAttachments dns ats workflow = None"
  shows "list_all attachment_ok ats" "distinct (map att_Name ats)" "distinct (map effective_path ats)"
  using assms attachments_loop_None [of dns "[]" "[]" ats] by (auto simp: ValidateAttachments_def split: if_splits)

section \<open>Volumes and mounts\<close>

abbreviation vol_names :: "build \<Rightarrow> string list" where
  "vol_names b \<equiv> map vol_Name (bd_volumes b)"

definition mounted :: "AttemptJobParams \<Rightarrow> SharedAttachment \<Rightarrow> bool" where
  "mounted p at \<longleftrightarrow> att_PVC at \<noteq> [] \<and> att_Name at \<noteq> [] \<and>
     AttachmentSubPath (att_Scope at) (ajp_WorkflowName p) (ajp_TriggerRepo p) (ajp_AttemptName p) \<noteq> None"

definition attached :: "AttemptJobParams \<Rightarrow> SharedAttachment list" where
  "attached p = filter (mounted p) (ajp_Attachments p)"

definition base_names :: "AttemptJobParams \<Rightarrow> string list" where
  "base_names p =
     [''workspace'', ''skills''] @
     (case ajp_Cache p of Some c \<Rightarrow> if cache_PVC c = [] then [] else [''cache''] | None \<Rightarrow> []) @
     (case ajp_Sessions p of Some s \<Rightarrow> if sess_PVC s = [] then [] else [''sessions''] | None \<Rightarrow> [])"

lemma fold_attach:
  "vol_names (fold (build_attachment p) ats b) = vol_names b @ map (\<lambda>at. ''attach-'' @ att_Name at) (filter (mounted p) ats)"
  "map (\<lambda>m. (vm_Name m, vm_MountPath m)) (bd_mounts (fold (build_attachment p) ats b)) =
     map (\<lambda>m. (vm_Name m, vm_MountPath m)) (bd_mounts b) @
     map (\<lambda>at. (''attach-'' @ att_Name at, attachment_path at)) (filter (mounted p) ats)"
  by (induction ats arbitrary: b) (auto simp: build_attachment_def mounted_def split: option.split)

lemma fold_extra:
  "vol_names (fold build_extra ms b) = vol_names b @ map (\<lambda>m. ''extra-cm-'' @ cmm_Name m) ms"
  "map (\<lambda>m. (vm_Name m, vm_MountPath m)) (bd_mounts (fold build_extra ms b)) =
     map (\<lambda>m. (vm_Name m, vm_MountPath m)) (bd_mounts b) @ map (\<lambda>m. (''extra-cm-'' @ cmm_Name m, cmm_MountPath m)) ms"
  by (induction ms arbitrary: b) (auto simp: build_extra_def Let_def)

lemma fold_plugin:
  "vol_names (fold build_plugin cms b) = vol_names b @ map (\<lambda>cm. ''plugin-cm-'' @ cm) cms"
  "map (\<lambda>m. (vm_Name m, vm_MountPath m)) (bd_mounts (fold build_plugin cms b)) =
     map (\<lambda>m. (vm_Name m, vm_MountPath m)) (bd_mounts b) @ map (\<lambda>cm. (''plugin-cm-'' @ cm, pluginsMountPrefix @ ''/'' @ cm)) cms"
  by (induction cms arbitrary: b) (auto simp: build_plugin_def Let_def)

definition pod_names :: "AttemptJobParams \<Rightarrow> string list" where
  "pod_names p = base_names p @ map (\<lambda>at. ''attach-'' @ att_Name at) (attached p) @
     map (\<lambda>m. ''extra-cm-'' @ cmm_Name m) (ajp_ExtraConfigMapMounts p) @ map (\<lambda>cm. ''plugin-cm-'' @ cm) (ajp_PluginConfigMaps p) @
     (if wantRuntimeMount p then [''runtime''] else []) @
     (if ajp_AggregatePlugins p \<or> ajp_PluginRefs p \<noteq> [] then [''plugins''] else [])"

lemma storage_names:
  "vol_names (build_storage p (start_build now p)) =
     base_names p @ map (\<lambda>at. ''attach-'' @ att_Name at) (attached p) @
     map (\<lambda>m. ''extra-cm-'' @ cmm_Name m) (ajp_ExtraConfigMapMounts p) @ map (\<lambda>cm. ''plugin-cm-'' @ cm) (ajp_PluginConfigMaps p)"
  by (simp add: build_storage_def start_build_def build_cache_def build_sessions_def fold_attach(1) fold_extra(1) fold_plugin(1)
      base_names_def attached_def split: option.split)

text \<open>Every step adds a mount of the name of the volume that it adds.\<close>

definition aligned :: "build \<Rightarrow> bool" where
  "aligned b \<longleftrightarrow> map vm_Name (bd_mounts b) = vol_names b"

lemma aligned_fold: "(\<And>x b. aligned b \<Longrightarrow> aligned (f x b)) \<Longrightarrow> aligned b \<Longrightarrow> aligned (fold f xs b)"
  by (induction xs arbitrary: b) auto

lemma aligned_storage: "aligned (build_storage p (start_build now p))"
proof -
  have "aligned b \<Longrightarrow> aligned (build_attachment p at b)" for at b
    by (simp add: aligned_def build_attachment_def split: option.split)
  moreover have "aligned b \<Longrightarrow> aligned (build_extra m b)" "aligned b \<Longrightarrow> aligned (build_plugin cm b)" for m cm b
    by (simp_all add: aligned_def build_extra_def build_plugin_def Let_def)
  moreover have "aligned (build_sessions p (build_cache p (start_build now p)))"
    by (simp add: aligned_def start_build_def build_cache_def build_sessions_def split: option.split)
  ultimately show ?thesis unfolding build_storage_def by (intro aligned_fold) auto
qed

lemma fold_keeps: "(\<And>x b. g (f x b) = g b) \<Longrightarrow> g (fold f xs b) = g b"
  by (induction xs arbitrary: b) auto

lemma storage_init: "bd_initMounts (build_storage p b) = bd_initMounts b"
proof -
  have "bd_initMounts (build_attachment p at b) = bd_initMounts b" "bd_initMounts (build_extra m b) = bd_initMounts b"
    "bd_initMounts (build_plugin cm b) = bd_initMounts b" "bd_initMounts (build_sessions p b) = bd_initMounts b"
    "bd_initMounts (build_cache p b) = bd_initMounts b" for at m cm b
    by (simp_all add: build_plugin_def build_extra_def build_attachment_def build_sessions_def build_cache_def Let_def
        split: option.split)
  then show ?thesis by (simp add: build_storage_def fold_keeps [where g = bd_initMounts])
qed

lemma manifests_keep:
  assumes "build_manifests mc p b = Inr b'"
  shows "bd_volumes b' = bd_volumes b \<and> bd_mounts b' = bd_mounts b \<and> bd_initMounts b' = bd_initMounts b"
  using assms by (auto simp: build_manifests_def Let_def split: if_splits sum.splits option.splits)

lemma BuildJob_parts:
  assumes "BuildJob getenv mc now p = Inr job"
  obtains b where "build_manifests mc p (build_storage p (start_build now p)) = Inr b"
    "jb_Volumes job = bd_volumes (build_runtime p b) @ skillsTokenVolumes getenv"
    "jb_Containers job = [\<lparr>con_Name = ''run'', con_Image = ajp_Image p, con_Command = [''/usr/local/bin/harmostes-worker'', ''run''],
       con_Env = bd_env (build_runtime p b), con_VolumeMounts = bd_mounts (build_runtime p b)\<rparr>]"
    "jb_InitContainers job = materializeInit p (build_runtime p b) @ skillsInit getenv (ajp_Image p)"
    "jb_ActiveDeadlineSeconds job = runBoundSeconds p div second"
    "vol_names b = vol_names (build_storage p (start_build now p))" "aligned b" "bd_initMounts b = []"
proof -
  obtain b where b: "build_manifests mc p (build_storage p (start_build now p)) = Inr b"
    using assms by (auto simp: BuildJob_def split: sum.splits)
  have i: "bd_initMounts (build_storage p (start_build now p)) = []" by (simp add: storage_init start_build_def)
  show ?thesis
    by (rule that [OF b]) (use assms b manifests_keep [OF b] aligned_storage [of p now] i in
      \<open>auto simp: BuildJob_def aligned_def Let_def\<close>)
qed

lemma runtime_names:
  "vol_names (build_runtime p b) = vol_names b @ (if wantRuntimeMount p then [''runtime''] else []) @
     (if ajp_AggregatePlugins p \<or> ajp_PluginRefs p \<noteq> [] then [''plugins''] else [])"
  "map vm_Name (bd_mounts (build_runtime p b)) = map vm_Name (bd_mounts b) @ (if wantRuntimeMount p then [''runtime''] else []) @
     (if ajp_AggregatePlugins p \<or> ajp_PluginRefs p \<noteq> [] then [''plugins''] else [])"
  "map vm_Name (bd_initMounts (build_runtime p b)) = map vm_Name (bd_initMounts b) @ (if wantRuntimeMount p then [''runtime''] else []) @
     (if ajp_AggregatePlugins p \<or> ajp_PluginRefs p \<noteq> [] then [''plugins''] else [])"
  by (simp_all add: build_runtime_def Let_def)

lemma base_names_props: "distinct (base_names p @ [''skills-token''])" "n \<in> set (base_names p) \<Longrightarrow> hd n \<in> set ''wsc''"
  by (cases "ajp_Cache p"; cases "ajp_Sessions p"; simp add: base_names_def)
     (cases "ajp_Cache p"; cases "ajp_Sessions p"; auto simp: base_names_def split: if_splits)

lemma distinct_pod_names:
  assumes "distinct (map att_Name (ajp_Attachments p))" "distinct (map cmm_Name (ajp_ExtraConfigMapMounts p))"
    "distinct (ajp_PluginConfigMaps p)"
  shows "distinct (pod_names p @ [''skills-token''])"
proof -
  let ?a = "map (\<lambda>at. ''attach-'' @ att_Name at) (attached p)" and ?e = "map (\<lambda>m. ''extra-cm-'' @ cmm_Name m) (ajp_ExtraConfigMapMounts p)"
    and ?p = "map (\<lambda>cm. ''plugin-cm-'' @ cm) (ajp_PluginConfigMaps p)"
    and ?r = "if wantRuntimeMount p then [''runtime''] else []"
    and ?q = "if ajp_AggregatePlugins p \<or> ajp_PluginRefs p \<noteq> [] then [''plugins''] else []"
  have "distinct (map att_Name (attached p))" using assms(1) by (simp add: attached_def distinct_map_filter)
  then have d: "distinct ?a" "distinct ?e" "distinct ?p" "distinct ?r" "distinct ?q"
    using assms(2,3) by (auto simp: distinct_map inj_on_def)
  have h: "n \<in> set ?a \<Longrightarrow> hd n = CHR ''a''" "n \<in> set ?e \<Longrightarrow> hd n = CHR ''e''" "n \<in> set ?p \<Longrightarrow> hd n = CHR ''p'' \<and> n ! 6 = CHR ''-''"
    "n \<in> set ?r \<Longrightarrow> hd n = CHR ''r''" "n \<in> set ?q \<Longrightarrow> hd n = CHR ''p'' \<and> n ! 6 = CHR ''s''" for n
    by (auto split: if_splits)
  have "set ?p \<inter> set ?q = {}" using h(3,5) by fastforce
  moreover have "set ?r \<inter> (set ?p \<union> set ?q) = {}" "set ?e \<inter> (set ?p \<union> set ?r \<union> set ?q) = {}"
    "set ?a \<inter> (set ?e \<union> set ?p \<union> set ?r \<union> set ?q) = {}" using h by fastforce+
  moreover have "set (base_names p @ [''skills-token'']) \<inter> (set ?a \<union> set ?e \<union> set ?p \<union> set ?r \<union> set ?q) = {}"
    using h base_names_props(2) [of _ p] by fastforce
  ultimately show ?thesis
    using d base_names_props(1) [of p] unfolding pod_names_def distinct_append set_append by blast
qed

section \<open>The variables of the runner\<close>

text \<open>The names that the builder itself appends after the entries of \<^verbatim>\<open>ExtraEnv\<close>.\<close>

definition late_env_names :: "string list" where
  "late_env_names = [''GOCACHE'', ''GOMODCACHE'', ''npm_config_cache'', ''XDG_CACHE_HOME'', ''HARMOSTES_PI_SESSIONS'',
     ''HARMOSTES_SESSIONS_TTL'', ''HARMOSTES_SOL_PI_STORE'', ''HARMOSTES_EXTENSION_MANIFEST'', ''HARMOSTES_HARNESS_MANIFEST'',
     ''HARMOSTES_PLUGIN_REFS'']"

definition env_grows :: "build \<Rightarrow> build \<Rightarrow> bool" where
  "env_grows b b' \<longleftrightarrow> (\<exists>more. bd_env b' = bd_env b @ more \<and> evar_Name ` set more \<subseteq> set late_env_names)"

lemma env_grows_same: "bd_env b' = bd_env b \<Longrightarrow> env_grows b b'"
  by (simp add: env_grows_def)

lemma env_grows_push: "bd_env b' = bd_env b @ es \<Longrightarrow> evar_Name ` set es \<subseteq> set late_env_names \<Longrightarrow> env_grows b b'"
  by (auto simp: env_grows_def)

lemma env_grows_trans:
  assumes "env_grows a b" and "env_grows b c"
  shows "env_grows a c"
proof -
  obtain x y where "bd_env b = bd_env a @ x" "bd_env c = bd_env b @ y"
    "evar_Name ` set x \<subseteq> set late_env_names" "evar_Name ` set y \<subseteq> set late_env_names"
    using assms unfolding env_grows_def by blast
  then show ?thesis by (intro env_grows_push [of c a "x @ y"]) (simp_all add: image_Un)
qed

lemma env_grows_fold: "(\<And>x b. env_grows b (f x b)) \<Longrightarrow> env_grows b (fold f xs b)"
proof (induction xs arbitrary: b)
  case Nil
  then show ?case by (simp add: env_grows_same)
next
  case (Cons x xs)
  then show ?case using env_grows_trans [of b "f x b" "fold f xs (f x b)"] by simp
qed

lemma env_grows_storage: "env_grows b (build_storage p b)"
proof -
  have c: "env_grows b (build_cache p b)" for b
    by (cases "ajp_Cache p") (auto simp: build_cache_def late_env_names_def intro: env_grows_same intro!: env_grows_push)
  have t: "env_grows b (build_sessions p b)" for b
    by (cases "ajp_Sessions p") (auto simp: build_sessions_def late_env_names_def intro: env_grows_same intro!: env_grows_push)
  have a: "env_grows b (build_attachment p at b)" for at b
    by (cases "AttachmentSubPath (att_Scope at) (ajp_WorkflowName p) (ajp_TriggerRepo p) (ajp_AttemptName p)")
      (auto simp: build_attachment_def late_env_names_def intro: env_grows_same intro!: env_grows_push)
  have x: "env_grows b (build_extra m b)" "env_grows b (build_plugin cm b)" for m cm b
    by (simp_all add: build_extra_def build_plugin_def Let_def env_grows_same)
  show ?thesis unfolding build_storage_def
    using env_grows_trans [OF env_grows_trans [OF c t] env_grows_trans [OF env_grows_fold [of "build_attachment p"]
      env_grows_trans [OF env_grows_fold [of build_extra] env_grows_fold [of build_plugin]]]] a x by blast
qed

lemma env_grows_manifests: "build_manifests mc p b = Inr b' \<Longrightarrow> env_grows b b'"
  by (auto simp: build_manifests_def late_env_names_def Let_def env_grows_def split: if_splits sum.splits option.splits)

lemma env_grows_runtime: "env_grows b (build_runtime p b)"
  by (auto simp: build_runtime_def late_env_names_def Let_def env_grows_def)

lemma job_env:
  assumes "BuildJob getenv mc now p = Inr job"
  obtains more where "con_Env (hd (jb_Containers job)) = bd_env (start_build now p) @ more"
    "evar_Name ` set more \<subseteq> set late_env_names" "length (jb_Containers job) = 1"
proof -
  obtain b where b: "build_manifests mc p (build_storage p (start_build now p)) = Inr b"
    and c: "jb_Containers job = [\<lparr>con_Name = ''run'', con_Image = ajp_Image p,
      con_Command = [''/usr/local/bin/harmostes-worker'', ''run''],
       con_Env = bd_env (build_runtime p b), con_VolumeMounts = bd_mounts (build_runtime p b)\<rparr>]"
    using BuildJob_parts [OF assms] by metis
  have "env_grows (start_build now p) (build_runtime p b)"
    using env_grows_trans env_grows_storage env_grows_manifests [OF b] env_grows_runtime by metis
  then show ?thesis using that c by (auto simp: env_grows_def)
qed

lemma Cut_at: "CHR ''='' \<notin> set n \<Longrightarrow> Cut (n @ CHR ''='' # v) (CHR ''='') = Some (n, v)"
  by (induction n) (auto simp: Cut_def split: option.splits)

lemma extra_env_append: "extra_env (xs @ ys) = extra_env xs @ extra_env ys"
  by (induction xs) (auto split: option.split)

lemma extra_env_names: "e \<in> set (extra_env kvs) \<Longrightarrow> \<exists>kv \<in> set kvs. \<exists>v. Cut kv (CHR ''='') = Some (evar_Name e, v)"
  by (induction kvs) (auto split: option.splits)

end
