(* ===== verification/Dispatch_Desk.thy ===== *)
theory Dispatch_Desk
  imports Dispatch Gate_Theorems
begin

text \<open>
  A cluster to dispatch into: the versioned store of Attempts, the Jobs by namespace, and a log of the
  created Jobs, each with what the stored Attempt said at its creation. The workflow, the fleet
  configuration and the environment of the dispatcher are given.
\<close>

definition intent_recorded :: "(object_key \<Rightarrow> Attempt option) \<Rightarrow> object_key \<Rightarrow> bool" where
  "intent_recorded st k \<longleftrightarrow>
     (case st k of None \<Rightarrow> False
      | Some a \<Rightarrow> (case st_Review (at_Status a) of None \<Rightarrow> False | Some r \<Rightarrow> rc_DispatchedAt r \<noteq> None))"

abbreviation job_for :: "JobObject \<Rightarrow> string" where
  "job_for j \<equiv> map_get (jb_Labels j) ''harmostes.dev/attempt'' []"

type_synonym desk = "store \<times> (string \<times> Job) list \<times> (JobObject \<times> bool) list"

definition desk_deps :: "host \<Rightarrow> desk GateDeps" where
  "desk_deps h =
     \<lparr>gd_client = lift_client store_server, gd_record = lift_client store_server, gd_urlPath = (\<lambda>u. None), gd_Scheme = False,
      gd_decode = (\<lambda>cfg. Some [cfg]), gd_FleetMaxConcurrent = ho_capacity h, gd_DisableCancelOnSupersede = False,
      gd_Wake = ho_wake h, gd_done = (\<lambda>w. None), gd_getStatus = (\<lambda>n w. (Inr None, w)), gd_patchStatus = (\<lambda>n st w. (None, w)),
      gd_listJobs = (\<lambda>ns n w. (Inr (map snd (filter (\<lambda>x. fst x = ns) (fst (snd w)))), w)),
      gd_deleteJob = (\<lambda>ns n w.
        (None, fst w, filter (\<lambda>x. (fst x, job_Name (snd x)) \<noteq> (ns, n)) (fst (snd w)), snd (snd w))),
      gd_api = (\<lambda>w. (ho_api h, w)), gd_listPulls = (\<lambda>repo label w. (Inr (ho_pulls h), w)),
      gd_listThreads = (\<lambda>repo pr w. (Inr [], w)), gd_deleteLabel = (\<lambda>repo pr label w. (None, w)),
      gd_postComment = (\<lambda>repo pr body w. (None, w)), gd_postStatus = (\<lambda>repo sha state ctxt desc w. (None, w)), gd_TL = None\<rparr>"

definition desk_create :: "JobObject \<Rightarrow> desk \<Rightarrow> (error + string) \<times> desk" where
  "desk_create job w =
     (let name = jb_GenerateName job @ show_nat (length (snd (snd w)));
          j = \<lparr>job_Name = name, job_Labels = jb_Labels job, job_DeletionTimestamp = None, job_CompletionTime = None,
               job_Conditions = [], job_Controller = Some (jb_Owner job)\<rparr>
      in (Inr name, fst w, fst (snd w) @ [(jb_Namespace job, j)],
          snd (snd w) @ [(job, intent_recorded (store_objs (fst w)) (jb_Namespace job, job_for job))]))"

definition desk_json :: "json_any object_codec" where
  "desk_json = \<lparr>jo_dec = (\<lambda>s. Some (Some [])), jo_enc = (\<lambda>m. Some ''{}'')\<rparr>"

definition desk_manifests :: manifest_codec where
  "desk_manifests = \<lparr>mc_encPins = (\<lambda>ps. Inr ''[]''), mc_decPins = (\<lambda>s. Inr []), mc_encHarness = (\<lambda>h. Inr ''{}''),
     mc_decHarness = (\<lambda>s. Inl ''none'')\<rparr>"

definition desk_dispatcher :: "host \<Rightarrow> Workflow \<Rightarrow> DispatchConfig \<Rightarrow> string list \<Rightarrow> desk Dispatcher" where
  "desk_dispatcher h wfl cfg env =
     \<lparr>dp_gate = desk_deps h, dp_cfg = cfg, dp_namespace = wf_Namespace wfl, dp_environ = env,
      dp_getWorkflow = (\<lambda>ns n w. (if ns = wf_Namespace wfl \<and> n = wf_Name wfl then Inr wfl else Inl (api_error NotFound), w)),
      dp_getTemplate = (\<lambda>ns n w. (Inl (api_error NotFound), w)), dp_getProfile = (\<lambda>ns n w. (Inl (api_error NotFound), w)),
      dp_listWorkflows = (\<lambda>ns w. (Inr [wfl], w)), dp_createJob = desk_create, dp_timeline = (\<lambda>n s. None), dp_json = desk_json,
      dp_manifests = desk_manifests, dp_envelopeJSON = (\<lambda>e. ''{}''), dp_semver = \<lparr>sem_IsValid = (\<lambda>s. True), sem_Compare = (\<lambda>a b. 0)\<rparr>,
      dp_isDNS1123Label = (\<lambda>s. []), dp_mapOrder = rev\<rparr>"

definition desk_config :: DispatchConfig where
  "desk_config = \<lparr>dc_FleetMaxConcurrent = 3, dc_DisableCancelOnSupersede = False, dc_JobImage = ''worker:1'', dc_ServiceAccount = [],
     dc_JobTTLSeconds = Some 3600, dc_DaprdImage = [], dc_PluginConfigMaps = [], dc_ExtraConfigMapMounts = [],
     dc_AggregatePlugins = False, dc_PluginLabelValue = ''true''\<rparr>"

definition desk_request :: "Workflow \<Rightarrow> RunRequest" where
  "desk_request wfl = \<lparr>rq_Workflow = wf_Name wfl, rq_Namespace = wf_Namespace wfl, rq_Source = ''cron'', rq_Attempt = [],
     rq_Traceparent = [], rq_Pr = [], rq_Action = [], rq_Revision = [], rq_PrTitle = [], rq_Repo = []\<rparr>"

end
