(* ===== verification/Job_Theorems.thy ===== *)
theory Job_Theorems
  imports K8s_Job_Props Dispatch_Desk
begin

text \<open>
  The properties of the Jobs that the dispatcher builds (\<^verbatim>\<open>internal/k8s/job.go\<close>,
  \<^verbatim>\<open>internal/worker/dispatch.go\<close>) and of the fleet configuration.
\<close>

section \<open>The pod\<close>

abbreviation attach_mounts :: "Container \<Rightarrow> VolumeMount list" where
  "attach_mounts c \<equiv> filter (\<lambda>m. HasPrefix (vm_Name m) ''attach-'') (con_VolumeMounts c)"

lemma filter_attach:
  "filter (\<lambda>x. HasPrefix (fst x) ''attach-'') (map (\<lambda>m. (''extra-cm-'' @ cmm_Name m, cmm_MountPath m)) ms) = []"
  "filter (\<lambda>x. HasPrefix (fst x) ''attach-'') (map (\<lambda>cm. (''plugin-cm-'' @ cm, pluginsMountPrefix @ ''/'' @ cm)) cms) = []"
  "filter (\<lambda>x. HasPrefix (fst x) ''attach-'') (map (\<lambda>at. (''attach-'' @ att_Name at, attachment_path at)) ats) =
     map (\<lambda>at. (''attach-'' @ att_Name at, attachment_path at)) ats"
  by (simp_all add: HasPrefix_def filter_empty_conv)

abbreviation mount_pairs :: "VolumeMount list \<Rightarrow> (string \<times> string) list" where
  "mount_pairs ms \<equiv> map (\<lambda>m. (vm_Name m, vm_MountPath m)) ms"

lemma attach_pairs: "mount_pairs (attach_mounts c) = filter (\<lambda>x. HasPrefix (fst x) ''attach-'') (mount_pairs (con_VolumeMounts c))"
  by (simp add: filter_map comp_def)

lemma run_attachments:
  assumes "build_manifests mc p (build_storage p (start_build now p)) = Inr b" and "con_VolumeMounts c = bd_mounts (build_runtime p b)"
  shows "mount_pairs (attach_mounts c) = map (\<lambda>at. (''attach-'' @ att_Name at, attachment_path at)) (attached p)"
proof -
  have r: "filter (\<lambda>x. HasPrefix (fst x) ''attach-'') (mount_pairs (bd_mounts (build_runtime p b))) =
      filter (\<lambda>x. HasPrefix (fst x) ''attach-'') (mount_pairs (bd_mounts b))"
    by (simp add: build_runtime_def Let_def HasPrefix_def)
  have "bd_mounts b = bd_mounts (build_storage p (start_build now p))" using manifests_keep [OF assms(1)] by simp
  moreover have "filter (\<lambda>x. HasPrefix (fst x) ''attach-'') (mount_pairs (bd_mounts (build_sessions p (build_cache p (start_build now p))))) = []"
    by (simp add: build_sessions_def build_cache_def start_build_def HasPrefix_def split: option.split)
  ultimately have "filter (\<lambda>x. HasPrefix (fst x) ''attach-'') (mount_pairs (bd_mounts b)) =
      map (\<lambda>at. (''attach-'' @ att_Name at, attachment_path at)) (attached p)"
    by (simp only: build_storage_def fold_plugin(2) fold_extra(2) fold_attach(2) filter_append filter_attach attached_def) simp
  then show ?thesis by (subst attach_pairs) (simp only: assms(2) r)
qed

lemma job_volume_names:
  assumes "BuildJob getenv mc now p = Inr job"
  shows "map vol_Name (jb_Volumes job) = pod_names p @ map vol_Name (skillsTokenVolumes getenv)"
proof -
  obtain b where "jb_Volumes job = bd_volumes (build_runtime p b) @ skillsTokenVolumes getenv"
    "vol_names b = vol_names (build_storage p (start_build now p))"
    using BuildJob_parts [OF assms] by metis
  then show ?thesis by (simp add: runtime_names(1) storage_names pod_names_def)
qed

lemma job_mounts:
  assumes "BuildJob getenv mc now p = Inr job" and "c \<in> set (jb_InitContainers job @ jb_Containers job)"
  shows "vm_Name ` set (con_VolumeMounts c) \<subseteq> vol_Name ` set (jb_Volumes job)"
proof -
  obtain b where b: "jb_Volumes job = bd_volumes (build_runtime p b) @ skillsTokenVolumes getenv"
    "jb_Containers job = [\<lparr>con_Name = ''run'', con_Image = ajp_Image p, con_Command = [''/usr/local/bin/harmostes-worker'', ''run''],
       con_Env = bd_env (build_runtime p b), con_VolumeMounts = bd_mounts (build_runtime p b)\<rparr>]"
    "jb_InitContainers job = materializeInit p (build_runtime p b) @ skillsInit getenv (ajp_Image p)"
    "vol_names b = vol_names (build_storage p (start_build now p))" "aligned b" "bd_initMounts b = []"
    using BuildJob_parts [OF assms(1)] by metis
  have "map vm_Name (bd_mounts (build_runtime p b)) = vol_names (build_runtime p b)"
    using b(5) by (simp add: runtime_names aligned_def)
  then have run: "vm_Name ` set (bd_mounts (build_runtime p b)) = vol_Name ` set (bd_volumes (build_runtime p b))" by (metis set_map)
  have "set (map vm_Name (bd_initMounts (build_runtime p b))) \<subseteq> set (vol_names (build_runtime p b))"
    using b(6) by (simp add: runtime_names)
  then have init: "vm_Name ` set (bd_initMounts (build_runtime p b)) \<subseteq> vol_Name ` set (bd_volumes (build_runtime p b))" by simp
  have "''skills'' \<in> set (vol_names (build_runtime p b))"
    using b(4) by (simp add: runtime_names(1) storage_names base_names_def)
  then have skills: "x \<in> set (skillsInit getenv (ajp_Image p)) \<Longrightarrow> vm_Name ` set (con_VolumeMounts x) \<subseteq> vol_Name ` set (jb_Volumes job)" for x
    using b(1) by (auto simp: skillsInit_def skillsTokenVolumes_def Let_def)
  have "con_VolumeMounts c = bd_mounts (build_runtime p b) \<or> con_VolumeMounts c = bd_initMounts (build_runtime p b) \<or>
      c \<in> set (skillsInit getenv (ajp_Image p))"
    using assms(2) b(2,3) by (auto simp: materializeInit_def split: if_splits)
  moreover have "vol_Name ` set (bd_volumes (build_runtime p b)) \<subseteq> vol_Name ` set (jb_Volumes job)" unfolding b(1) by auto
  ultimately show ?thesis using run init skills by (elim disjE) auto
qed

lemma job_attachments:
  assumes "BuildJob getenv mc now p = Inr job" and "c \<in> set (jb_Containers job)"
  shows "map (\<lambda>m. Clean (vm_MountPath m)) (attach_mounts c) = map effective_path (attached p)"
proof -
  obtain b where b: "build_manifests mc p (build_storage p (start_build now p)) = Inr b"
    "jb_Containers job = [\<lparr>con_Name = ''run'', con_Image = ajp_Image p, con_Command = [''/usr/local/bin/harmostes-worker'', ''run''],
       con_Env = bd_env (build_runtime p b), con_VolumeMounts = bd_mounts (build_runtime p b)\<rparr>]"
    using BuildJob_parts [OF assms(1)] by metis
  have "con_VolumeMounts c = bd_mounts (build_runtime p b)" using assms(2) b(2) by simp
  from run_attachments [OF b(1) this] have "map snd (mount_pairs (attach_mounts c)) = map attachment_path (attached p)"
    by (simp add: comp_def)
  then have paths: "map vm_MountPath (attach_mounts c) = map attachment_path (attached p)" by (simp add: comp_def)
  have "map (\<lambda>m. Clean (vm_MountPath m)) (attach_mounts c) = map Clean (map vm_MountPath (attach_mounts c))" by simp
  then show ?thesis unfolding paths by (simp add: effective_path_def)
qed


definition sample_params :: AttemptJobParams where
  "sample_params =
     \<lparr>ajp_Attempt = one_attempt,
      ajp_WorkflowName = ''w'', ajp_Namespace = ''ns'', ajp_Image = ''img'', ajp_ServiceAccount = [], ajp_RunBound = 0,
      ajp_TTLSecondsAfterFinished = None, ajp_PluginConfigMaps = [''p1'', ''p2''],
      ajp_ExtraConfigMapMounts = [\<lparr>cmm_Name = ''scripts'', cmm_MountPath = ''/workspace/scripts'', cmm_Mode = None\<rparr>],
      ajp_DaprdImage = [], ajp_ExtraEnv = [''A=1''], ajp_Cache = Some \<lparr>cache_PVC = ''c'', cache_Git = True, cache_Go = True, cache_NPM = True\<rparr>,
      ajp_Sessions = Some \<lparr>sess_PVC = ''s'', sess_TTL = []\<rparr>,
      ajp_Attachments = [\<lparr>att_Name = ''sol-pi'', att_Scope = ''workflow'', att_PVC = ''shared'', att_MountPath = []\<rparr>,
        \<lparr>att_Name = ''data'', att_Scope = ''attempt'', att_PVC = ''shared'', att_MountPath = ''/data/../mnt/''\<rparr>],
      ajp_TriggerRepo = [], ajp_AttemptName = ''a1'', ajp_Extensions = [], ajp_Harness = None, ajp_AggregatePlugins = True,
      ajp_PluginLabelValue = ''true'', ajp_PluginRefs = [''tpl'']\<rparr>"

lemma sample_job_built: "\<exists>job. BuildJob (\<lambda>k. []) desk_manifests 5 sample_params = Inr job"
  by (simp add: BuildJob_def build_manifests_def sample_params_def Let_def)


section \<open>The variables\<close>

text \<open>The names that the builder sets first, and those of the trigger.\<close>

definition base_env_names :: "string list" where
  "base_env_names = [''HARMOSTES_WORKFLOW'', ''HARMOSTES_NAMESPACE'', ''POD_NAME'', ''HARMOSTES_DAPR_REQUIRED'',
     ''HARMOSTES_WALL_SECONDS'', ''HARMOSTES_RUN_STARTED_MS'']"

definition trigger_env_names :: "string list" where
  "trigger_env_names = [''HARMOSTES_ATTEMPT'', ''HARMOSTES_DISPATCHED_ATTEMPT'', ''HARMOSTES_SOURCE'',
     ''HARMOSTES_TRACEPARENT'', ''HARMOSTES_TRIGGER_REPO'', ''HARMOSTES_TRIGGER_PR'', ''HARMOSTES_TRIGGER_SHA'',
     ''HARMOSTES_TRIGGER_BASE'', ''HARMOSTES_TRIGGER_LABEL'', ''HARMOSTES_TRIGGER_CONTEXTS'', ''HARMOSTES_TRIGGER_ACTION'',
     ''HARMOSTES_TRIGGER_REVISION'', ''HARMOSTES_TRIGGER_TITLE'', ''PI_LOOP_BREAKER'']"

lemma forwarded_name: "forwarded p kv \<Longrightarrow> Cut kv (CHR ''='') = Some (k, v) \<Longrightarrow> wanted_env p k"
  by (auto simp: forwarded_def Cut_def split: option.splits)

lemma Cut_prefix:
  assumes "HasPrefix kv (n @ ''='')" and "CHR ''='' \<notin> set n" and "Cut kv (CHR ''='') = Some (k, v)"
  shows "k = n"
proof -
  obtain r where "kv = n @ CHR ''='' # r" using assms(1) by (auto simp: HasPrefix_iff)
  then show ?thesis using Cut_at [OF assms(2), of r] assms(3) by simp
qed

lemma unless_empty_name: "kv \<in> set (unless_empty n v) \<Longrightarrow> kv = n @ ''='' @ v"
  by (simp add: unless_empty_def split: if_splits)

abbreviation (input) dispatch_policy :: "Workflow \<Rightarrow> Attempt \<Rightarrow> budgetPolicy" where
  "dispatch_policy wfl at \<equiv> \<lparr>bp_workflow = wfl, bp_attempt = at\<rparr>"

lemma overrides_names: "(n, x) \<in> set (overrides p) \<Longrightarrow> n \<in> {''PI_TOOL_BUDGET'', ''PI_TOOL_BUDGET_NUDGE''} \<and> tool_budget p \<noteq> Some 0"
  by (auto simp: overrides_def split: option.splits if_splits)

lemma credential_names:
  assumes "\<And>xs. set (order xs) = set xs" and "kv \<in> set (jobCredentialEnv order environ p)" and "Cut kv (CHR ''='') = Some (k, v)"
  shows "wanted_env p k \<or> k = ''PI_LOOP_BREAKER''"
proof -
  consider "forwarded p kv" | n x where "(n, x) \<in> set (overrides p)" "kv = n @ ''='' @ x" | "kv = ''PI_LOOP_BREAKER=1''"
    using assms(1,2) by (auto simp: jobCredentialEnv_def split: if_splits)
  then show ?thesis
  proof cases
    case 1
    then show ?thesis using forwarded_name assms(3) by blast
  next
    case 2
    then have n: "n \<in> {''PI_TOOL_BUDGET'', ''PI_TOOL_BUDGET_NUDGE''}" "tool_budget p \<noteq> Some 0" using overrides_names by auto
    then have "CHR ''='' \<notin> set n" by auto
    then have "k = n" using Cut_at [of n x] assms(3) 2 by simp
    then show ?thesis using n by (auto simp: wanted_env_def jobEnvAllowlist_def dropFromAllowlist_def)
  next
    case 3
    then show ?thesis using Cut_at [of "''PI_LOOP_BREAKER''" "''1''"] assms(3) by simp
  qed
qed

lemma unless_empty_cut:
  assumes "kv \<in> set (unless_empty n v)" and "CHR ''='' \<notin> set n" and "Cut kv (CHR ''='') = Some (k, x)"
  shows "k = n"
  using assms Cut_at [of n v] by (simp add: unless_empty_def split: if_splits)

lemma envelope_names:
  assumes "kv \<in> set (EnvelopeEnv marshal env)" and "Cut kv (CHR ''='') = Some (k, v)"
  shows "k \<in> set trigger_env_names"
proof -
  let ?names = "[''HARMOSTES_TRIGGER_REPO'', ''HARMOSTES_TRIGGER_PR'', ''HARMOSTES_TRIGGER_SHA'', ''HARMOSTES_TRIGGER_BASE'',
    ''HARMOSTES_TRIGGER_LABEL'', ''HARMOSTES_TRIGGER_CONTEXTS'']"
  have "list_ex (\<lambda>n. HasPrefix kv (n @ ''='')) ?names" using assms(1) by (auto simp: EnvelopeEnv_def HasPrefix_def)
  moreover have "list_all (\<lambda>n. CHR ''='' \<notin> set n \<and> n \<in> set trigger_env_names) ?names" by (simp add: trigger_env_names_def)
  ultimately show ?thesis using Cut_prefix [OF _ _ assms(2)] unfolding list_ex_iff list_all_iff by metis
qed

lemma trigger_names:
  assumes "kv \<in> set (dispatchEnv marshal req at env)" and "Cut kv (CHR ''='') = Some (k, v)"
  shows "k \<in> set trigger_env_names"
proof -
  let ?names = "[''HARMOSTES_SOURCE'', ''HARMOSTES_TRACEPARENT'', ''HARMOSTES_TRIGGER_PR'', ''HARMOSTES_TRIGGER_ACTION'',
    ''HARMOSTES_TRIGGER_REVISION'', ''HARMOSTES_TRIGGER_TITLE'']"
  have n: "list_all (\<lambda>n. CHR ''='' \<notin> set n \<and> n \<in> set trigger_env_names) ?names" by (simp add: trigger_env_names_def)
  consider "HasPrefix kv ''HARMOSTES_ATTEMPT=''" | "HasPrefix kv ''HARMOSTES_DISPATCHED_ATTEMPT=''"
    | n x where "n \<in> set ?names" "kv \<in> set (unless_empty n x)" | e where "kv \<in> set (EnvelopeEnv marshal e)"
  proof (cases env)
    case None
    then show ?thesis using that(1,2) that(3) [of "''HARMOSTES_SOURCE''"] that(3) [of "''HARMOSTES_TRACEPARENT''"]
      that(3) [of "''HARMOSTES_TRIGGER_PR''"] that(3) [of "''HARMOSTES_TRIGGER_ACTION''"]
      that(3) [of "''HARMOSTES_TRIGGER_REVISION''"] that(3) [of "''HARMOSTES_TRIGGER_TITLE''"] assms(1)
      by (auto simp: dispatchEnv_def HasPrefix_def)
  next
    case (Some e)
    then show ?thesis using that(1,2,4) that(3) [of "''HARMOSTES_SOURCE''"] that(3) [of "''HARMOSTES_TRACEPARENT''"] assms(1)
      by (auto simp: dispatchEnv_def HasPrefix_def)
  qed
  then show ?thesis
  proof cases
    case 1
    then show ?thesis using Cut_prefix [of kv "''HARMOSTES_ATTEMPT''" k v] assms(2) by (simp add: trigger_env_names_def)
  next
    case 2
    then show ?thesis using Cut_prefix [of kv "''HARMOSTES_DISPATCHED_ATTEMPT''" k v] assms(2) by (simp add: trigger_env_names_def)
  next
    case 3
    then show ?thesis using unless_empty_cut [OF 3(2) _ assms(2)] n unfolding list_all_iff by metis
  next
    case 4
    then show ?thesis using envelope_names assms(2) by blast
  qed
qed

lemma dispatch_env_names:
  assumes "dispatch_job d req wfl g at rt now = Inr job" and "\<And>xs. set (dp_mapOrder d xs) = set xs"
  obtains base rest where "jb_Containers job = [hd (jb_Containers job)]" "con_Env (hd (jb_Containers job)) = base @ rest"
    "map evar_Name base = base_env_names"
    "base ! 4 = evar ''HARMOSTES_WALL_SECONDS'' (show_int (RunBoundDuration (wspec_ReviewReady (wf_Spec wfl)) div second))"
    "\<And>e. e \<in> set rest \<Longrightarrow> evar_Name e \<in> set (trigger_env_names @ late_env_names) \<or> wanted_env (dispatch_policy wfl at) (evar_Name e)"
    "jb_ActiveDeadlineSeconds job = RunBoundDuration (wspec_ReviewReady (wf_Spec wfl)) div second"
proof -
  let ?b = "RunBoundDuration (wspec_ReviewReady (wf_Spec wfl))"
  define extra where "extra = jobCredentialEnv (dp_mapOrder d) (dp_environ d) (dispatch_policy wfl at) @
    dispatchEnv (dp_envelopeJSON d) req at (gdis_Envelope g)"
  define p where "p = JobParams (dp_cfg d) at (rq_Workflow req) (rq_Namespace req) ?b
          (wspec_Cache (wf_Spec wfl)) (wspec_Sessions (wf_Spec wfl)) (wspec_Attachments (wf_Spec wfl))
          (case gdis_Envelope g of None \<Rightarrow> [] | Some e \<Rightarrow> evl_Repo e) extra (fst rt) (snd rt) (pluginRefsFrom wfl)"
  have j: "BuildJob (Getenv (dp_environ d)) (dp_manifests d) now p = Inr job"
    using assms(1) by (simp add: dispatch_job_def p_def extra_def)
  obtain more where m: "con_Env (hd (jb_Containers job)) = bd_env (start_build now p) @ more"
    "evar_Name ` set more \<subseteq> set late_env_names" "length (jb_Containers job) = 1" using job_env [OF j] by metis
  have b: "runBoundSeconds p = ?b" using RunBound_range [of "wspec_ReviewReady (wf_Spec wfl)"]
    by (simp add: runBoundSeconds_def p_def JobParams_def)
  have x: "ajp_ExtraEnv p = extra" by (simp add: p_def JobParams_def)
  let ?base = "take 6 (bd_env (start_build now p))"
  have base: "bd_env (start_build now p) = ?base @ extra_env extra" "map evar_Name ?base = base_env_names"
    "?base ! 4 = evar ''HARMOSTES_WALL_SECONDS'' (show_int (?b div second))"
    by (simp_all add: start_build_def x b base_env_names_def)
  have "evar_Name e \<in> set (trigger_env_names @ late_env_names) \<or> wanted_env (dispatch_policy wfl at) (evar_Name e)"
    if e: "e \<in> set (extra_env extra @ more)" for e
  proof (cases "e \<in> set more")
    case True
    then show ?thesis using m(2) by auto
  next
    case False
    then obtain kv v where "kv \<in> set extra" "Cut kv (CHR ''='') = Some (evar_Name e, v)" using e extra_env_names by fastforce
    then show ?thesis
      using credential_names [OF assms(2), of kv "dp_environ d" "dispatch_policy wfl at"] trigger_names
      unfolding extra_def by (fastforce simp: trigger_env_names_def)
  qed
  moreover have "jb_ActiveDeadlineSeconds job = ?b div second" using BuildJob_parts [OF j] b by metis
  moreover have "jb_Containers job = [hd (jb_Containers job)]" using m(3) by (cases "jb_Containers job") auto
  ultimately show ?thesis using that [of ?base "extra_env extra @ more"] m(1) base by simp
qed

text \<open>
  C20. What of the dispatcher's environment crosses into the Job: every variable of the runner is one that the
  builder or the trigger sets, or one of the allowlist that the workflow's budget does not drop; and
  the token that posts reviews reaches the Jobs of review Attempts only.
\<close>
theorem job_env_scoped:
  assumes "dispatch_job d req wfl g at rt now = Inr job" and "\<And>xs. set (dp_mapOrder d xs) = set xs"
    and "c \<in> set (jb_Containers job)" "e \<in> set (con_Env c)"
  shows "(evar_Name e \<in> set (base_env_names @ trigger_env_names @ late_env_names) \<or>
      evar_Name e \<in> set jobEnvAllowlist \<and> \<not> dropFromAllowlist \<lparr>bp_workflow = wfl, bp_attempt = at\<rparr> (evar_Name e)) \<and>
    (evar_Name e = ''HARMOSTES_REVIEW_POST_TOKEN'' \<longrightarrow> obj_Kind (aspec_Objective (at_Spec at)) = ObjectiveKindPRReview)"
proof -
  obtain base rest where r: "jb_Containers job = [hd (jb_Containers job)]" "con_Env (hd (jb_Containers job)) = base @ rest"
    "map evar_Name base = base_env_names"
    "\<And>e. e \<in> set rest \<Longrightarrow> evar_Name e \<in> set (trigger_env_names @ late_env_names) \<or> wanted_env (dispatch_policy wfl at) (evar_Name e)"
    using dispatch_env_names [OF assms(1,2)] by metis
  have "c = hd (jb_Containers job)" using assms(3) r(1) by (metis empty_iff list.set(1) set_ConsD)
  then have "evar_Name e \<in> set base_env_names \<or> evar_Name e \<in> set (trigger_env_names @ late_env_names) \<or>
      wanted_env (dispatch_policy wfl at) (evar_Name e)"
    using assms(4) r(2,4) by (metis Un_iff image_eqI list.set_map r(3) set_append)
  then show ?thesis
    by (auto simp: wanted_env_def isReviewAttempt_def base_env_names_def trigger_env_names_def late_env_names_def)
qed

text \<open>A dispatcher with the review token in its environment, and an Attempt that is no review.\<close>

abbreviation (input) token_desk :: "desk Dispatcher" where
  "token_desk \<equiv> desk_dispatcher quiet_host review_workflow desk_config [''HARMOSTES_REVIEW_POST_TOKEN=t'', ''GH_TOKEN=g'', ''HOME=/x'']"

abbreviation (input) plain_attempt :: Attempt where
  "plain_attempt \<equiv> one_attempt\<lparr>at_Spec := (at_Spec one_attempt)\<lparr>aspec_Objective := (sample_objective ''abc'')\<lparr>obj_Kind := ''fork-sync''\<rparr>\<rparr>\<rparr>"

abbreviation (input) desk_job :: "string + JobObject" where
  "desk_job \<equiv> dispatch_job token_desk (desk_request review_workflow) review_workflow \<lparr>gdis_Envelope = None, gdis_Attempt = ''a''\<rparr>
     plain_attempt ([], None) 5"

lemma desk_job_built: "\<exists>job. desk_job = Inr job"
  by (simp add: dispatch_job_def BuildJob_def build_manifests_def JobParams_def desk_dispatcher_def Let_def)

lemma desk_order: "set (dp_mapOrder token_desk xs) = set xs"
  by (simp add: desk_dispatcher_def)

theorem job_env_scoped_witness:
  "\<exists>job. desk_job = Inr job \<and>
     list_all (\<lambda>e. evar_Name e \<noteq> ''HARMOSTES_REVIEW_POST_TOKEN'' \<and> evar_Name e \<noteq> ''HOME'') (con_Env (hd (jb_Containers job)))"
proof -
  obtain job where j: "desk_job = Inr job" using desk_job_built by blast
  have "jb_Containers job = [hd (jb_Containers job)]" using dispatch_env_names [OF j desk_order] by metis
  then have c: "hd (jb_Containers job) \<in> set (jb_Containers job)" by (metis list.set_intros(1))
  have k: "obj_Kind (aspec_Objective (at_Spec plain_attempt)) \<noteq> ObjectiveKindPRReview" by simp
  have n: "''HOME'' \<notin> set (base_env_names @ trigger_env_names @ late_env_names) \<and> ''HOME'' \<notin> set jobEnvAllowlist"
    by (simp add: base_env_names_def trigger_env_names_def late_env_names_def jobEnvAllowlist_def)
  have "evar_Name e \<noteq> ''HARMOSTES_REVIEW_POST_TOKEN'' \<and> evar_Name e \<noteq> ''HOME''" if "e \<in> set (con_Env (hd (jb_Containers job)))" for e
    using job_env_scoped [OF j desk_order c that] k n by metis
  then show ?thesis using j by (auto simp: list_all_iff)
qed

lemma find_append: "List.find P (xs @ ys) = (case List.find P xs of None \<Rightarrow> List.find P ys | Some x \<Rightarrow> Some x)"
  by (induction xs) auto

text \<open>The value that a container sees: of two entries of one name the later counts.\<close>

definition env_value :: "EnvVar list \<Rightarrow> string \<Rightarrow> string option" where
  "env_value es n = map_option evar_Value (List.find (\<lambda>e. evar_Name e = n) (rev es))"

text \<open>
  C27. The wall that the run is told is the wall that the cluster enforces: the variable that the runner reads
  and the deadline of the Job are both the whole seconds of the workflow's effective run bound, which is
  positive; a bound below one second yields a deadline of zero.
\<close>
theorem job_wall_agrees:
  assumes "dispatch_job d req wfl g at rt now = Inr job" and "\<And>xs. set (dp_mapOrder d xs) = set xs"
    and "bound = RunBoundDuration (wspec_ReviewReady (wf_Spec wfl))"
  shows "env_value (con_Env (hd (jb_Containers job))) ''HARMOSTES_WALL_SECONDS'' = Some (show_int (jb_ActiveDeadlineSeconds job)) \<and>
    jb_ActiveDeadlineSeconds job * second \<le> bound \<and> bound < (jb_ActiveDeadlineSeconds job + 1) * second \<and>
    (jb_ActiveDeadlineSeconds job = 0 \<longleftrightarrow> bound < second)"
proof -
  let ?n = "''HARMOSTES_WALL_SECONDS''"
  obtain base rest where r: "con_Env (hd (jb_Containers job)) = base @ rest" "map evar_Name base = base_env_names"
    "base ! 4 = evar ?n (show_int (bound div second))"
    "\<And>e. e \<in> set rest \<Longrightarrow> evar_Name e \<in> set (trigger_env_names @ late_env_names) \<or> wanted_env (dispatch_policy wfl at) (evar_Name e)"
    "jb_ActiveDeadlineSeconds job = bound div second"
    using dispatch_env_names [OF assms(1,2)] assms(3) by metis
  have "evar_Name e \<noteq> ?n" if "e \<in> set rest" for e
    using r(4) [OF that] by (auto simp: wanted_env_def trigger_env_names_def late_env_names_def jobEnvAllowlist_def)
  then have rest: "List.find (\<lambda>e. evar_Name e = ?n) (rev rest) = None" by (auto simp: find_None_iff)
  obtain b0 b1 b2 b3 b4 b5 where base: "base = [b0, b1, b2, b3, b4, b5]"
    using r(2) by (auto simp: base_env_names_def map_eq_Cons_conv)
  have "List.find (\<lambda>e. evar_Name e = ?n) (rev base) = Some (base ! 4)" using r(2) base by (simp add: base_env_names_def)
  then have "env_value (con_Env (hd (jb_Containers job))) ?n = Some (show_int (bound div second))"
    by (simp only: env_value_def r(1,3) rev_append find_append rest option.case option.map EnvVar.simps)
  moreover have "0 < bound" using RunBound_range assms(3) by simp
  ultimately show ?thesis unfolding r(5) by (auto simp: zdiv_eq_0_iff)
qed

theorem job_wall_agrees_witness:
  "\<exists>job. desk_job = Inr job \<and> jb_ActiveDeadlineSeconds job * second \<le> OneShotRunBound \<and>
     env_value (con_Env (hd (jb_Containers job))) ''HARMOSTES_WALL_SECONDS'' = Some (show_int (jb_ActiveDeadlineSeconds job))"
proof -
  obtain job where j: "desk_job = Inr job" using desk_job_built by blast
  have "OneShotRunBound = RunBoundDuration (wspec_ReviewReady (wf_Spec review_workflow))"
    by (simp add: RunBoundDuration_def review_workflow_def)
  then show ?thesis using j job_wall_agrees [OF j desk_order, of OneShotRunBound] by blast
qed

section \<open>The fleet configuration\<close>

lemma mount_entry_valid: "mount_entry s = Inr m \<Longrightarrow> cmm_Name m \<noteq> [] \<and> HasPrefix (cmm_MountPath m) ''/''"
  by (auto simp: mount_entry_def split: list.splits if_splits option.splits)

lemma mount_entries_valid: "mount_entries ps = Inr ms \<Longrightarrow> length ms = length ps \<and>
    list_all (\<lambda>m. cmm_Name m \<noteq> [] \<and> HasPrefix (cmm_MountPath m) ''/'') ms"
  by (induction ps arbitrary: ms) (auto dest: mount_entry_valid split: sum.splits)

abbreviation (input) wide_env :: "string list" where
  "wide_env \<equiv> [''HARMOSTES_WORKER_IMAGE=i'', ''HARMOSTES_JOB_TTL_SECONDS=4294967295'']"

lemma wide_get:
  "Getenv wide_env ''HARMOSTES_JOB_TTL_SECONDS'' = ''4294967295''" "Getenv wide_env ''HARMOSTES_WORKER_IMAGE'' = ''i''"
  "Getenv wide_env ''HARMOSTES_MAX_CONCURRENT'' = []" "Getenv wide_env ''HARMOSTES_EXTRA_CONFIGMAP_MOUNTS'' = []"
  "Getenv wide_env ''HARMOSTES_AGGREGATE_PLUGINS'' = []" "Getenv wide_env ''HARMOSTES_CANCEL_ON_SUPERSEDE'' = []"
  "Getenv wide_env ''HARMOSTES_PLUGIN_CONFIGMAPS'' = []"
  by code_simp+

lemma wide_ttl: "job_ttl_from_env wide_env = Inr (-1)"
proof -
  have "Atoi ''4294967295'' = Some 4294967295"
    by (simp add: Atoi_def digits_value_def is_digit_def HasPrefix_def)
  then show ?thesis by (simp only: job_ttl_from_env_def wide_get Let_def) (simp add: to_int32_def)
qed

lemma wide_rest:
  "max_concurrent_from_env wide_env = Inr 3" "extraConfigMapMountsFromEnv wide_env = Inr []" "aggregate_from_env wide_env = Inr False"
  "cancelOnSupersedeDisabledFromEnv wide_env = Inr False" "pluginConfigMapsFromEnv wide_env = []"
  by (simp_all only: max_concurrent_from_env_def extraConfigMapMountsFromEnv_def aggregate_from_env_def pluginConfigMapsFromEnv_def
      cancelOnSupersedeDisabledFromEnv_def CancelOnSupersedeFromEnv_def wide_get Let_def simp_thms if_True map_sum.simps)

text \<open>
  No mount is dropped on the way from the environment to the Jobs, and a malformed one stops the
  dispatcher: a configuration that is accepted has an image, a positive capacity, one mount for every entry
  of the list, each with a name and an absolute path; but the time to live of a finished Job, checked to be
  non-negative, is cut to 32 bits afterwards and can be negative.
\<close>
theorem dispatch_config_accepted:
  "(DispatchConfigFromEnv env = Inr cfg \<longrightarrow>
      dc_JobImage cfg \<noteq> [] \<and> 0 < dc_FleetMaxConcurrent cfg \<and> [] \<notin> set (dc_PluginConfigMaps cfg) \<and>
      list_all (\<lambda>m. cmm_Name m \<noteq> [] \<and> HasPrefix (cmm_MountPath m) ''/'') (dc_ExtraConfigMapMounts cfg) \<and>
      (Getenv env ''HARMOSTES_EXTRA_CONFIGMAP_MOUNTS'' \<noteq> [] \<longrightarrow>
        length (dc_ExtraConfigMapMounts cfg) = length (split_on (CHR '','') (Getenv env ''HARMOSTES_EXTRA_CONFIGMAP_MOUNTS'')))) \<and>
   (\<exists>c. DispatchConfigFromEnv [''HARMOSTES_WORKER_IMAGE=i'', ''HARMOSTES_JOB_TTL_SECONDS=4294967295''] = Inr c \<and>
      dc_JobTTLSeconds c = Some (-1))"
proof (intro conjI impI)
  assume c: "DispatchConfigFromEnv env = Inr cfg"
  then have v: "Validate cfg = None"
    by (auto simp: DispatchConfigFromEnv_def Let_def split: sum.splits option.splits)
  show "dc_JobImage cfg \<noteq> []" "[] \<notin> set (dc_PluginConfigMaps cfg)" using v by (auto simp: Validate_def split: if_splits option.splits)
  show "0 < dc_FleetMaxConcurrent cfg"
    using c by (auto simp: DispatchConfigFromEnv_def max_concurrent_from_env_def Let_def split: sum.splits option.splits if_splits)
  obtain ms where m: "extraConfigMapMountsFromEnv env = Inr ms" "dc_ExtraConfigMapMounts cfg = ms"
    using c by (auto simp: DispatchConfigFromEnv_def Let_def split: sum.splits option.splits)
  then show "list_all (\<lambda>m. cmm_Name m \<noteq> [] \<and> HasPrefix (cmm_MountPath m) ''/'') (dc_ExtraConfigMapMounts cfg)"
    by (auto simp: extraConfigMapMountsFromEnv_def Let_def dest: mount_entries_valid split: if_splits)
  assume "Getenv env ''HARMOSTES_EXTRA_CONFIGMAP_MOUNTS'' \<noteq> []"
  then show "length (dc_ExtraConfigMapMounts cfg) = length (split_on (CHR '','') (Getenv env ''HARMOSTES_EXTRA_CONFIGMAP_MOUNTS''))"
    using m by (auto simp: extraConfigMapMountsFromEnv_def Let_def dest: mount_entries_valid split: if_splits)
next
  show "\<exists>c. DispatchConfigFromEnv [''HARMOSTES_WORKER_IMAGE=i'', ''HARMOSTES_JOB_TTL_SECONDS=4294967295''] = Inr c \<and>
      dc_JobTTLSeconds c = Some (-1)"
    by (simp only: DispatchConfigFromEnv_def wide_ttl wide_rest wide_get Validate_def Let_def sum.case) simp
qed

end
