(* ===== verification/Consumer.thy ===== *)
theory Consumer
  imports Dispatch Controller
begin

text \<open>
  The consumer of trigger events (\<^verbatim>\<open>internal/worker/consumer.go\<close>): the configuration, the subscription, the
  handler of one delivered event, and the poll that drives armed claims while a wake is lost. The CloudEvent
  decoder and the JSON decoder of the payload are parameters. A panic of the handler is recovered by
  \<^verbatim>\<open>net/http\<close>, which drops the connection without a reply (\<open>None\<close>); a panic of the poll ends the process. The
  payload mirrors the controller's \<open>TriggerEvent\<close> field by field, so that record serves for both.
\<close>

section \<open>Configuration\<close>

record ConsumerConfig =
  cc_HTTPPort :: string
  cc_PubsubName :: string
  cc_Topic :: string
  cc_Namespace :: string
  cc_FastPoll :: duration

record daprSubscription =
  sub_PubsubName :: string
  sub_Topic :: string
  sub_Route :: string

definition envOr :: "string list \<Rightarrow> string \<Rightarrow> string \<Rightarrow> string" where
  "envOr env key fallback = (let v = Getenv env key in if v \<noteq> [] then v else fallback)"

definition fastPollFromEnv :: "string list \<Rightarrow> duration" where
  "fastPollFromEnv env =
     (let raw = Getenv env ''HARMOSTES_GATE_FASTPOLL'' in
      if raw = [] then 0
      else (case ParseDuration raw of Some d \<Rightarrow> if d \<le> 0 then 0 else d | None \<Rightarrow> 0))"

definition NewConsumer :: "ConsumerConfig \<Rightarrow> ConsumerConfig" where
  "NewConsumer c =
     c\<lparr>cc_PubsubName := (if cc_PubsubName c = [] then ''pubsub'' else cc_PubsubName c),
       cc_Topic := (if cc_Topic c = [] then ''harmostes-triggers'' else cc_Topic c),
       cc_HTTPPort := (if cc_HTTPPort c = [] then ''8084'' else cc_HTTPPort c)\<rparr>"

definition RunConsumer :: "string list \<Rightarrow> string \<Rightarrow> ConsumerConfig" where
  "RunConsumer env namespace =
     NewConsumer \<lparr>cc_HTTPPort = envOr env ''HARMOSTES_CONSUMER_PORT'' ''8084'',
       cc_PubsubName = envOr env ''HARMOSTES_PUBSUB_NAME'' ''pubsub'',
       cc_Topic = envOr env ''HARMOSTES_TRIGGER_TOPIC'' ''harmostes-triggers'', cc_Namespace = namespace,
       cc_FastPoll = fastPollFromEnv env\<rparr>"

definition handleSubscribe :: "ConsumerConfig \<Rightarrow> daprSubscription list" where
  "handleSubscribe c = [\<lparr>sub_PubsubName = cc_PubsubName c, sub_Topic = cc_Topic c, sub_Route = ''/triggers''\<rparr>]"

section \<open>One delivered event\<close>

definition run_request :: "TriggerEvent \<Rightarrow> RunRequest" where
  "run_request t =
     \<lparr>rq_Workflow = te_Workflow t, rq_Namespace = te_Namespace t, rq_Source = te_Source t, rq_Attempt = te_AttemptName t,
      rq_Traceparent = te_Traceparent t, rq_Pr = te_Pr t, rq_Action = te_Action t, rq_Revision = te_Revision t,
      rq_PrTitle = te_PrTitle t, rq_Repo = te_Repo t\<rparr>"

text \<open>The status of the reply: 200 acknowledges, anything else has the event delivered again.\<close>

definition handleTrigger ::
  "'w Dispatcher \<Rightarrow> (string \<Rightarrow> string option) \<Rightarrow> (string \<Rightarrow> TriggerEvent option) \<Rightarrow> string \<Rightarrow> 'w \<Rightarrow> nat option \<times> 'w" where
  "handleTrigger d event_data trigger_data body w =
     (case event_data body of
        None \<Rightarrow> (Some 400, w)
      | Some payload \<Rightarrow>
          (case trigger_data payload of
             None \<Rightarrow> (Some 400, w)
           | Some trigger \<Rightarrow>
               (case Dispatch d (run_request trigger) w of
                  (Returns u, w1) \<Rightarrow> (Some 200, w1)
                | (Fails e, w1) \<Rightarrow> (Some 500, w1)
                | (Panics m, w1) \<Rightarrow> (None, w1))))"

section \<open>The poll of armed claims\<close>

abbreviation (input) backoffCap :: duration where "backoffCap \<equiv> 30 * minute"

text \<open>The loop is the only writer of its busy flag and stores false before it waits, so the flag never stops it.\<close>

definition next_delay :: "duration \<Rightarrow> int \<Rightarrow> nat \<Rightarrow> duration \<Rightarrow> duration" where
  "next_delay base lastLen n delay =
     (if lastLen < 0 \<or> int n \<noteq> lastLen then base
      else if delay < backoffCap then min (delay * 2) backoffCap
      else delay)"

definition poll_request :: "string \<Rightarrow> string \<Rightarrow> RunRequest" where
  "poll_request namespace name =
     \<lparr>rq_Workflow = name, rq_Namespace = namespace, rq_Source = ''fast-poll'', rq_Attempt = [], rq_Traceparent = [], rq_Pr = [],
      rq_Action = [], rq_Revision = [], rq_PrTitle = [], rq_Repo = []\<rparr>"

fun poll_runs :: "'w Dispatcher \<Rightarrow> string \<Rightarrow> string list \<Rightarrow> 'w \<Rightarrow> string option \<times> 'w" where
  "poll_runs d namespace [] w = (None, w)"
| "poll_runs d namespace (name # names) w =
     (case Dispatch d (poll_request namespace name) w of
        (Panics m, w1) \<Rightarrow> (Some m, w1)
      | (r, w1) \<Rightarrow> poll_runs d namespace names w1)"

text \<open>\<open>n\<close> rounds of the loop; \<open>sleep\<close> lets the time pass that the timer waits.\<close>

fun armedBackoffLoop ::
  "'w Dispatcher \<Rightarrow> ConsumerConfig \<Rightarrow> (duration \<Rightarrow> 'w \<Rightarrow> 'w) \<Rightarrow> nat \<Rightarrow> duration \<Rightarrow> int \<Rightarrow> 'w \<Rightarrow> string option \<times> 'w" where
  "armedBackoffLoop d c sleep 0 delay lastLen w = (None, w)"
| "armedBackoffLoop d c sleep (Suc n) delay lastLen w =
     (case ArmedWaitingWorkflows d (sleep delay w) of
        (names, w1) \<Rightarrow>
          (case poll_runs d (cc_Namespace c) names w1 of
             (Some m, w2) \<Rightarrow> (Some m, w2)
           | (None, w2) \<Rightarrow>
               armedBackoffLoop d c sleep n (next_delay (cc_FastPoll c) lastLen (length names) delay) (int (length names)) w2))"

definition start_poll :: "'w Dispatcher \<Rightarrow> ConsumerConfig \<Rightarrow> (duration \<Rightarrow> 'w \<Rightarrow> 'w) \<Rightarrow> nat \<Rightarrow> 'w \<Rightarrow> string option \<times> 'w" where
  "start_poll d c sleep n w =
     (if 0 < cc_FastPoll c then armedBackoffLoop d c sleep n (cc_FastPoll c) (-1) w else (None, w))"

section \<open>The cadence\<close>

text \<open>The delays that the loop waits when its rounds see armed sets of the given sizes.\<close>

fun cadence :: "duration \<Rightarrow> duration \<Rightarrow> int \<Rightarrow> nat list \<Rightarrow> duration list" where
  "cadence base delay lastLen [] = []"
| "cadence base delay lastLen (n # ns) =
     (let delay' = next_delay base lastLen n delay in delay' # cadence base delay' (int n) ns)"

lemma next_delay_range:
  assumes "base \<le> backoffCap" and "base \<le> delay" "delay \<le> backoffCap" and "0 < base"
  shows "base \<le> next_delay base lastLen n delay \<and> next_delay base lastLen n delay \<le> backoffCap"
  using assms by (auto simp: next_delay_def)

lemma cadence_range:
  "base \<le> backoffCap \<Longrightarrow> 0 < base \<Longrightarrow> base \<le> delay \<Longrightarrow> delay \<le> backoffCap \<Longrightarrow>
   list_all (\<lambda>x. base \<le> x \<and> x \<le> backoffCap) (cadence base delay lastLen ns)"
proof (induction ns arbitrary: delay lastLen)
  case (Cons n ns)
  then show ?case using next_delay_range [of base delay lastLen n] by (simp add: Let_def)
qed simp

lemma cadence_stalled:
  "0 < base \<Longrightarrow> base \<le> backoffCap \<Longrightarrow> delay = min (base * 2 ^ j) backoffCap \<Longrightarrow> k < m \<Longrightarrow>
   cadence base delay (int n) (replicate m n) ! k = min (base * 2 ^ (j + Suc k)) backoffCap"
proof (induction m arbitrary: delay j k)
  case (Suc m)
  have step: "next_delay base (int n) n delay = min (base * 2 ^ Suc j) backoffCap"
    using Suc.prems by (auto simp: next_delay_def min_def)
  show ?case
  proof (cases k)
    case 0
    then show ?thesis using step by (simp add: Let_def)
  next
    case (Suc k')
    then show ?thesis using Suc.IH [OF Suc.prems(1,2) step, of k'] Suc.prems(4) step by (simp add: Let_def)
  qed
qed simp

text \<open>
  The cadence of the poll: with a base of at most half an hour every wait lies between the base and half
  an hour; a round that sees the armed set change in size resets the wait to the base, and from there the
  wait doubles with every round that sees the same size, up to half an hour.
\<close>
theorem fast_poll_cadence:
  assumes "0 < base" and "base \<le> 30 * minute"
  shows "list_all (\<lambda>x. base \<le> x \<and> x \<le> 30 * minute) (cadence base base (-1) ns) \<and>
    (int n \<noteq> lastLen \<longrightarrow> (\<forall>k < m. cadence base delay lastLen (n # replicate m n) ! Suc k = min (base * 2 ^ Suc k) (30 * minute)) \<and>
      cadence base delay lastLen (n # replicate m n) ! 0 = base)"
proof (intro conjI impI allI)
  show "list_all (\<lambda>x. base \<le> x \<and> x \<le> 30 * minute) (cadence base base (-1) ns)"
    using cadence_range [OF assms(2,1)] assms by simp
  assume "int n \<noteq> lastLen"
  then have d: "next_delay base lastLen n delay = base" by (simp add: next_delay_def)
  then show "cadence base delay lastLen (n # replicate m n) ! 0 = base" by (simp add: Let_def)
  fix k assume "k < m"
  then show "cadence base delay lastLen (n # replicate m n) ! Suc k = min (base * 2 ^ Suc k) (30 * minute)"
    using d cadence_stalled [OF assms, of base 0 k m n] assms by (simp add: Let_def)
qed

theorem fast_poll_cadence_witness:
  "cadence (30 * second) 0 (-1) (2 # replicate 9 2) ! 3 = 240 * second \<and> cadence (30 * second) 0 (-1) (2 # replicate 9 2) ! 9 = 30 * minute"
proof -
  have all: "cadence (30 * second) 0 (-1) (2 # replicate 9 2) ! Suc k = min (30 * second * 2 ^ Suc k) (30 * minute)" if "k < 9" for k
    using fast_poll_cadence [of "30 * second" "[]" 2 "-1" 9 0] that by simp
  show ?thesis using all [of 2] all [of 8] by simp
qed

end
