(* ===== verification/Dispatch_Props.thy ===== *)
theory Dispatch_Props
  imports Dispatch_Desk Attempt_Janitor "HOL-Library.Sublist"
begin

text \<open>
  What a dispatch creates. The locale \<open>gate_log\<close> is a view of the world that no collaborator of the gate
  changes, not even by deleting a Job; \<open>dispatch_api\<close> adds the server side of a creation: a log of the
  created Jobs, each with what the stored Attempt said at that instant about the dispatch.
\<close>

section \<open>A log that the gate does not write\<close>

locale gate_log = gate_frame d f for d :: "'w GateDeps" and f :: "'w \<Rightarrow> 'x" +
  assumes frame_deleteJob: "f (snd (gd_deleteJob d ns n w)) = f w"
begin

lemma view_cancel_job [simp]: "view (cancel_job d wfl j s) = view s"
proof -
  have "gd_deleteJob d ns n v = (e, v') \<Longrightarrow> f v' = f v" for ns n v e v' using frame_deleteJob by (metis snd_conv)
  then show ?thesis
    by (auto simp: cancel_job_def Let_def beyond.frame_finalize dest!: under.frame_eqs(1)
        split: prod.split sum.split option.split)
qed

lemma view_cancel_loop: "view (cancel_loop d wfl js s) = view s"
  by (induction js arbitrary: s) auto

lemma log_runGate: "runGate d wfl wakeOnly w = (r, w') \<Longrightarrow> f w' = f w"
  using view_runGate [of wfl wakeOnly w r w'] by (auto simp: cancel_pass_def Let_def view_cancel_loop split: if_splits)

end

section \<open>The server of a dispatch\<close>

abbreviation audited :: "JobObject list \<Rightarrow> (JobObject \<times> bool) list" where
  "audited js \<equiv> map (\<lambda>j. (j, True)) js"

text \<open>The Attempts that one dispatch may create Jobs for: what a sweep of the gate handed out, or one.\<close>

definition handed_out :: "'w Dispatcher \<Rightarrow> RunRequest \<Rightarrow> string list \<Rightarrow> bool" where
  "handed_out d req as \<longleftrightarrow> (\<exists>a. as = [a]) \<or>
     (\<exists>wfl v gs v'. RunReviewGateSweep (gate_deps d req wfl) wfl v = (Inr gs, v') \<and> as = map gdis_Attempt gs)"

definition released_at :: "(object_key \<Rightarrow> Attempt option) \<Rightarrow> object_key \<Rightarrow> bool" where
  "released_at st k \<longleftrightarrow>
     (case st k of None \<Rightarrow> False
      | Some a \<Rightarrow> (case st_Review (at_Status a) of None \<Rightarrow> False | Some rc \<Rightarrow> rc_Released rc))"

definition live_at :: "(object_key \<Rightarrow> Attempt option) \<Rightarrow> object_key \<Rightarrow> bool" where
  "live_at st k \<longleftrightarrow> (case st k of None \<Rightarrow> False | Some a \<Rightarrow> unreleased_claim a)"

locale dispatch_api = api_store "dp_client d" objs
  for d :: "'w Dispatcher" and objs :: "'w \<Rightarrow> object_key \<Rightarrow> Attempt option" +
  fixes spawned :: "'w \<Rightarrow> (JobObject \<times> bool) list"
  assumes gate_logs: "gate_log (gate_deps d req wfl) spawned"
    and getWorkflow: "dp_getWorkflow d ns n w = (r3, w') \<Longrightarrow> objs w' = objs w \<and> spawned w' = spawned w"
    and getTemplate: "dp_getTemplate d ns n w = (r4, w') \<Longrightarrow> objs w' = objs w \<and> spawned w' = spawned w"
    and getProfile: "dp_getProfile d ns n w = (r1, w') \<Longrightarrow> objs w' = objs w \<and> spawned w' = spawned w"
    and listJobs_objs: "gd_listJobs (dp_gate d) ns n w = (r2, w') \<Longrightarrow> objs w' = objs w"
    and create_job: "dp_createJob d job w = (Inr name, w') \<Longrightarrow>
      objs w' = objs w \<and> spawned w' = spawned w @ [(job, intent_recorded (objs w) (jb_Namespace job, job_for job))]"
    and create_job_err: "dp_createJob d job w = (Inl e, w') \<Longrightarrow> objs w' = objs w \<and> spawned w' = spawned w"
begin

lemma client_log: "client_frame (dp_client d) spawned"
  using gate_logs by (simp add: gate_log_def gate_frame_def gate_deps_def)

lemmas log_eqs = client_frame.frame_eqs [OF client_log]

lemma patch_log: "patchAttemptStatus (dp_client d) ns n m w = (r, w') \<Longrightarrow> spawned w' = spawned w"
  using client_frame.frame_patchAttemptStatus [OF client_log] by (metis snd_conv)

lemma resolve_log: "ResolveOrCreate (dp_client d) obj opts w = (r, w') \<Longrightarrow> spawned w' = spawned w"
  using client_frame.frame_resolve [OF client_log] by (metis snd_conv)

lemma listJobs_log: "gd_listJobs (dp_gate d) ns n w = (r, w') \<Longrightarrow> spawned w' = spawned w"
  using gate_frame.frame_listJobs [of "gate_deps d undefined undefined" spawned ns n w] gate_logs
  by (simp add: gate_log_def gate_deps_def)

lemma sweep_log: "RunReviewGateSweep (gate_deps d req wfl) wfl w = (r, w') \<Longrightarrow> spawned w' = spawned w"
  using gate_log.log_runGate [OF gate_logs] by (simp add: RunReviewGateSweep_def)

lemma fetch_log: "FetchWorkflow d ns n w = (r, w') \<Longrightarrow> objs w' = objs w \<and> spawned w' = spawned w"
  by (auto simp: FetchWorkflow_def Let_def dest!: getWorkflow getTemplate split: prod.splits sum.splits if_splits option.splits)

lemma compose_log: "composeRuntime d ns wfl w = (r, w') \<Longrightarrow> objs w' = objs w \<and> spawned w' = spawned w"
  by (auto simp: composeRuntime_def Let_def dest: getProfile split: prod.splits sum.splits if_splits)

lemma edge_log: "CompleteDispatchEdge (dp_client d) ns n j w = (r, w') \<Longrightarrow> spawned w' = spawned w"
  by (auto simp: CompleteDispatchEdge_def MarkClaimDispatched_def dest!: log_eqs(1) patch_log split: prod.splits sum.splits if_splits)

text \<open>A successful record of the intent is in the store.\<close>

lemma intent_stored:
  assumes "MarkDispatchIntent (dp_client d) ns n w = (None, w')"
  shows "intent_recorded (objs w') (ns, n)"
  using patch_simple_store [of ns n dispatch_intent w None w'] assms
  by (auto simp: MarkDispatchIntent_def intent_recorded_def dispatch_intent_def)

lemma spawn_logs:
  assumes "spawn_job d req at job w = (r, w')" and "jb_Namespace job = rq_Namespace req" "job_for job = at_Name at"
  shows "spawned w' = spawned w \<or> spawned w' = spawned w @ audited [job]"
proof (cases "MarkDispatchIntent (dp_client d) (rq_Namespace req) (at_Name at) w")
  case (Pair i w1)
  have w1: "spawned w1 = spawned w" using Pair patch_log by (simp add: MarkDispatchIntent_def)
  show ?thesis
  proof (cases i)
    case None
    have i: "intent_recorded (objs w1) (jb_Namespace job, job_for job)"
      using intent_stored Pair None assms(2,3) by simp
    obtain c w2 where c: "dp_createJob d job w1 = (c, w2)" by fastforce
    have "spawned w' = spawned w2"
      using assms(1) Pair None c
      by (auto simp: spawn_job_def MarkClaimDispatched_def dest!: patch_log split: sum.splits if_splits prod.splits option.splits)
    then show ?thesis using create_job [of job w1] create_job_err [of job w1] c w1 i by (cases c) auto
  next
    case (Some e)
    then show ?thesis using assms(1) Pair w1 by (simp add: spawn_job_def)
  qed
qed

lemma built_job:
  assumes "dispatch_job d req wfl g at rt now = Inr job"
  shows "jb_Namespace job = rq_Namespace req \<and> job_for job = at_Name at"
  using assms by (auto simp: dispatch_job_def BuildJob_def JobParams_def job_labels_def map_get_def Let_def split: sum.splits)

lemma dispatch_one_logs:
  assumes "dispatch_one d req wfl live g w = (r, w')"
  shows "spawned w' = spawned w \<or>
    gdis_Attempt g \<notin> job_attempt ` set live \<and> (\<exists>job. job_for job = gdis_Attempt g \<and> spawned w' = spawned w @ audited [job])"
proof (cases "List.find (\<lambda>j. job_attempt j = gdis_Attempt g) live")
  case None
  have n: "gdis_Attempt g \<notin> job_attempt ` set live" using None by (auto simp: find_None_iff)
  obtain got w1 where g: "cl_get (dp_client d) (rq_Namespace req) (gdis_Attempt g) w = (got, w1)" by fastforce
  then have w1: "spawned w1 = spawned w" by (rule log_eqs)
  show ?thesis
  proof (cases got)
    case (Inl e)
    then show ?thesis using assms None g w1 by (simp add: dispatch_one_def)
  next
    case (Inr at)
    then have at: "at_Name at = gdis_Attempt g" using g get_ok stored_key by metis
    obtain rt w2 where c: "composeRuntime d (rq_Namespace req) wfl w1 = (rt, w2)" by fastforce
    then have w2: "spawned w2 = spawned w" using compose_log w1 by simp
    show ?thesis
    proof (cases "\<exists>x job. rt = Returns x \<and> dispatch_job d req wfl g at x (cl_now (dp_client d) w2) = Inr job")
      case True
      then obtain x job where j: "rt = Returns x" "dispatch_job d req wfl g at x (cl_now (dp_client d) w2) = Inr job" by blast
      then have "spawn_job d req at job w2 = (r, w')" using assms None g Inr c by (simp add: dispatch_one_def)
      from spawn_logs [OF this] built_job [OF j(2)] n at w2 show ?thesis by metis
    next
      case False
      then have "w' = w2" using assms None g Inr c by (auto simp: dispatch_one_def split: outcome.splits sum.splits)
      then show ?thesis using w2 by simp
    qed
  qed
next
  case (Some j)
  then show ?thesis using assms by (auto simp: dispatch_one_def dest: edge_log split: prod.splits)
qed

lemma create_loop_logs:
  "create_loop d req wfl live gs w = (r, w') \<Longrightarrow>
   \<exists>new. spawned w' = spawned w @ audited new \<and>
     subseq (map job_for new) (filter (\<lambda>a. a \<notin> job_attempt ` set live) (map gdis_Attempt gs))"
proof (induction gs arbitrary: w)
  case Nil
  then show ?case by (auto intro: exI [of _ "[]"])
next
  case (Cons g gs)
  let ?keep = "\<lambda>gs. filter (\<lambda>a. a \<notin> job_attempt ` set live) (map gdis_Attempt gs)"
  obtain r1 w1 where o: "dispatch_one d req wfl live g w = (r1, w1)" by fastforce
  obtain rest where rest: "spawned w' = spawned w1 @ audited rest" "subseq (map job_for rest) (?keep gs)"
  proof (cases r1)
    case (Returns u)
    then show ?thesis using Cons.IH [of w1] Cons.prems o that by auto
  next
    case (Fails e)
    then show ?thesis using Cons.prems o that [of "[]"] by simp
  next
    case (Panics m)
    then show ?thesis using Cons.prems o that [of "[]"] by simp
  qed
  from dispatch_one_logs [OF o] show ?case
  proof (elim disjE conjE exE)
    assume "spawned w1 = spawned w"
    then have "spawned w' = spawned w @ audited rest" using rest(1) by simp
    moreover have "subseq (map job_for rest) (?keep (g # gs))" using rest(2) by (auto intro: subseq_order.order_trans)
    ultimately show ?thesis by blast
  next
    fix job assume "gdis_Attempt g \<notin> job_attempt ` set live" "job_for job = gdis_Attempt g" "spawned w1 = spawned w @ audited [job]"
    then have "spawned w' = spawned w @ audited (job # rest)" "subseq (map job_for (job # rest)) (?keep (g # gs))"
      using rest by auto
    then show ?thesis by blast
  qed
qed

lemma create_jobs_logs:
  assumes "create_jobs d req wfl gs w = (r, w')"
  shows "\<exists>new. spawned w' = spawned w @ audited new \<and> (new = [] \<or>
    (\<exists>live v v'. gd_listJobs (dp_gate d) (rq_Namespace req) (rq_Workflow req) v = (Inr live, v') \<and>
      subseq (map job_for new) (filter (\<lambda>a. a \<notin> job_attempt ` set (filter job_live live)) (map gdis_Attempt gs))))"
proof -
  obtain listed w1 where l: "gd_listJobs (dp_gate d) (rq_Namespace req) (rq_Workflow req) w = (listed, w1)" by fastforce
  then have w1: "spawned w1 = spawned w" by (rule listJobs_log)
  show ?thesis
  proof (cases listed)
    case (Inl e)
    then show ?thesis using assms l w1 by (intro exI [of _ "[]"]) (simp add: create_jobs_def ListActiveJobs_def)
  next
    case (Inr live)
    then have "create_loop d req wfl (filter job_live live) gs w1 = (r, w')"
      using assms l by (simp add: create_jobs_def ListActiveJobs_def)
    from create_loop_logs [OF this] l w1 Inr show ?thesis by metis
  qed
qed

text \<open>
  The whole dispatch: every Job that it created was created after its intent was recorded, and the Jobs
  are some of the handed-out Attempts, in their order and each once, without those that have a live Job.
\<close>

lemma dispatch_logs:
  assumes "Dispatch d req w = (r, w')"
  shows "\<exists>new. spawned w' = spawned w @ audited new \<and> (new = [] \<or>
    (\<exists>live as v v'. gd_listJobs (dp_gate d) (rq_Namespace req) (rq_Workflow req) v = (Inr live, v') \<and> handed_out d req as \<and>
      subseq (map job_for new) (filter (\<lambda>a. a \<notin> job_attempt ` set (filter job_live live)) as)))"
proof -
  obtain f w1 where f: "FetchWorkflow d (rq_Namespace req) (rq_Workflow req) w = (f, w1)" by fastforce
  then have w1: "spawned w1 = spawned w" using fetch_log by simp
  have none: ?thesis if "spawned w' = spawned w" using that by (intro exI [of _ "[]"]) simp
  have jobs: ?thesis if c: "create_jobs d req wfl gs v = (r, w')" and v: "spawned v = spawned w"
    and h: "handed_out d req (map gdis_Attempt gs)" for wfl gs v
  proof -
    from create_jobs_logs [OF c] v obtain new where n: "spawned w' = spawned w @ audited new"
      and m: "new = [] \<or> (\<exists>live v v'. gd_listJobs (dp_gate d) (rq_Namespace req) (rq_Workflow req) v = (Inr live, v') \<and>
        subseq (map job_for new) (filter (\<lambda>a. a \<notin> job_attempt ` set (filter job_live live)) (map gdis_Attempt gs)))" by auto
    from m h show ?thesis by (intro exI [of _ new] conjI n) blast
  qed
  show ?thesis
  proof (cases "\<exists>wfl. f = Returns wfl \<and> (dispatch_gated d req wfl w1 = (r, w') \<or> dispatch_ungated d req wfl w1 = (r, w'))")
    case False
    then have "w' = w1" using assms f
      by (auto simp: Dispatch_def split: outcome.splits option.splits if_splits)
    then show ?thesis using none w1 by simp
  next
    case True
    then obtain wfl where "dispatch_gated d req wfl w1 = (r, w') \<or> dispatch_ungated d req wfl w1 = (r, w')" by blast
    then show ?thesis
    proof
      assume g: "dispatch_gated d req wfl w1 = (r, w')"
      obtain s w2 where s: "RunReviewGateSweep (gate_deps d req wfl) wfl w1 = (s, w2)" by fastforce
      then have w2: "spawned w2 = spawned w" using sweep_log w1 by metis
      show ?thesis
      proof (cases s)
        case (Inl e)
        then show ?thesis using g s none w2 by (simp add: dispatch_gated_def)
      next
        case (Inr gs)
        then have "handed_out d req (map gdis_Attempt gs)" using s unfolding handed_out_def by blast
        then show ?thesis using g s none jobs w2 Inr by (auto simp: dispatch_gated_def split: if_splits)
      qed
    next
      assume u: "dispatch_ungated d req wfl w1 = (r, w')"
      show ?thesis
        using u none jobs w1
        by (auto simp: dispatch_ungated_def handed_out_def dest!: resolve_log split: prod.splits sum.splits)
    qed
  qed
qed

section \<open>The claim of an Attempt without a gate\<close>

lemma mark_live:
  assumes "patchAttemptStatus (dp_client d) ns n m w = (r, w')" and "m = dispatch_intent \<or> m = claim_dispatched j"
  shows "(r = None \<and> \<not> released_at (objs w) (ns, n) \<longrightarrow> live_at (objs w') (ns, n)) \<and>
    (live_at (objs w) (ns, n) \<longrightarrow> live_at (objs w') (ns, n))"
  using patch_simple_store [OF assms(1)] assms(2)
  by (cases r) (auto simp: released_at_def live_at_def unreleased_claim_def dispatch_intent_def claim_dispatched_def review_of_def
      ReviewClaimStatus0_def split: option.splits)

lemma spawn_live:
  assumes "spawn_job d req at job w = (r, w')" and "spawned w' \<noteq> spawned w"
    and "\<not> released_at (objs w) (rq_Namespace req, at_Name at)"
  shows "live_at (objs w') (rq_Namespace req, at_Name at)"
proof -
  obtain i w1 where i: "MarkDispatchIntent (dp_client d) (rq_Namespace req) (at_Name at) w = (i, w1)" by fastforce
  then have w1: "spawned w1 = spawned w" using patch_log by (simp add: MarkDispatchIntent_def)
  obtain c w2 where c: "dp_createJob d job w1 = (c, w2)" by fastforce
  have n: "i = None" using assms(1,2) i w1 by (cases i) (auto simp: spawn_job_def)
  then have l: "live_at (objs w1) (rq_Namespace req, at_Name at)" using mark_live i assms(3) by (simp add: MarkDispatchIntent_def)
  have "\<exists>name. c = Inr name" using assms(1,2) i n c create_job_err [of job w1] w1
    by (cases c) (auto simp: spawn_job_def split: if_splits)
  then obtain name where name: "c = Inr name" by blast
  then have "live_at (objs w2) (rq_Namespace req, at_Name at)" using create_job c l by simp
  moreover obtain e w3 where e: "MarkClaimDispatched (dp_client d) (rq_Namespace req) (at_Name at) name w2 = (e, w3)" by fastforce
  moreover have "w' = w3" using assms(1) i n c name e by (auto simp: spawn_job_def split: option.splits)
  ultimately show ?thesis using mark_live [OF _ disjI2 [OF refl]] unfolding MarkClaimDispatched_def by blast
qed

lemma one_live:
  assumes "dispatch_one d req wfl live g w = (r, w')" and "spawned w' \<noteq> spawned w"
    and "\<not> released_at (objs w) (rq_Namespace req, gdis_Attempt g)"
  shows "live_at (objs w') (rq_Namespace req, gdis_Attempt g)"
proof -
  obtain got w1 where g: "cl_get (dp_client d) (rq_Namespace req) (gdis_Attempt g) w = (got, w1)" by fastforce
  obtain rt w2 where c: "composeRuntime d (rq_Namespace req) wfl w1 = (rt, w2)" by fastforce
  have w1: "spawned w1 = spawned w" "objs w1 = objs w" using g log_eqs(1) get_ok get_err by (blast, cases got, auto)
  have w2: "spawned w2 = spawned w" "objs w2 = objs w" using compose_log [OF c] w1 by auto
  have "\<exists>at job. got = Inr at \<and> spawn_job d req at job w2 = (r, w')"
    using assms(1,2) g c w1 w2
    by (auto simp: dispatch_one_def dest: edge_log split: option.splits sum.splits outcome.splits prod.splits)
  then obtain at job where s: "got = Inr at" "spawn_job d req at job w2 = (r, w')" by blast
  then have "at_Name at = gdis_Attempt g" using g get_ok stored_key by metis
  then show ?thesis using spawn_live [OF s(2)] assms(2,3) w2 by simp
qed

lemma ungated_live:
  assumes "dispatch_ungated d req wfl w = (r, w')" and "spawned w' \<noteq> spawned w"
  shows "\<exists>n. released_at (objs w) (rq_Namespace req, n) \<or> live_at (objs w') (rq_Namespace req, n)"
proof -
  let ?obj = "DeriveObjective (gd_urlPath (dp_gate d)) wfl \<lparr>trig_Revision = rq_Revision req, trig_Source = ''webhook''\<rparr>"
  let ?opts = "\<lparr>ro_Namespace = rq_Namespace req, ro_WorkflowRef = rq_Namespace req @ ''/'' @ rq_Workflow req,
              ro_Owner = Some wfl, ro_Scheme = gd_Scheme (dp_gate d)\<rparr>"
  obtain q w1 where q: "ResolveOrCreate (dp_client d) ?obj ?opts w = (q, w1)" by fastforce
  show ?thesis
  proof (cases q)
    case (Inl e)
    then show ?thesis using assms q resolve_log [OF q] by (simp add: dispatch_ungated_def)
  next
    case (Inr p)
    obtain at created where p: "p = (at, created)" by fastforce
    let ?k = "(rq_Namespace req, at_Name at)" and ?g = "\<lparr>gdis_Envelope = None, gdis_Attempt = at_Name at\<rparr>"
    have keep: "released_at (objs w1) ?k \<Longrightarrow> released_at (objs w) ?k"
      using resolve_store [OF q] Inr p by (auto simp: released_at_def split: if_splits)
    have c: "create_jobs d req wfl [?g] w1 = (r, w')" using assms(1) q Inr p by (simp add: dispatch_ungated_def)
    obtain listed w2 where l: "gd_listJobs (dp_gate d) (rq_Namespace req) (rq_Workflow req) w1 = (listed, w2)" by fastforce
    have w2: "spawned w2 = spawned w" "objs w2 = objs w1" using listJobs_log [OF l] listJobs_objs [OF l] resolve_log [OF q] by auto
    obtain live where live: "listed = Inr live" using c l assms(2) w2 by (cases listed) (auto simp: create_jobs_def ListActiveJobs_def)
    have "\<exists>r1. dispatch_one d req wfl (filter job_live live) ?g w2 = (r1, w')"
      using c l live by (auto simp: create_jobs_def ListActiveJobs_def split: prod.splits outcome.splits)
    then obtain r1 where one: "dispatch_one d req wfl (filter job_live live) ?g w2 = (r1, w')" by blast
    from one_live [OF one] assms(2) w2 keep show ?thesis by auto
  qed
qed

end

end
