(* ===== verification/Dispatch_Theorems.thy ===== *)
theory Dispatch_Theorems
  imports Dispatch_Props
begin

text \<open>
  The properties of the dispatcher (\<^verbatim>\<open>internal/worker/dispatch.go\<close>). The locale of its server is interpreted
  on the cluster of \<^verbatim>\<open>Dispatch_Desk\<close>.
\<close>

abbreviation (input) desk_objs :: "desk \<Rightarrow> object_key \<Rightarrow> Attempt option" where
  "desk_objs \<equiv> \<lambda>w. store_objs (fst w)"

abbreviation (input) desk_log :: "desk \<Rightarrow> (JobObject \<times> bool) list" where
  "desk_log \<equiv> \<lambda>w. snd (snd w)"

lemma desk_gate: "gate_log (gate_deps (desk_dispatcher h wfl cfg env) req wfl') desk_log"
proof -
  have "client_frame (lift_client store_server) desk_log" by (rule frame_snd [OF lift_frame])
  then show ?thesis
    by (auto simp: gate_log_def gate_log_axioms_def gate_frame_def gate_frame_axioms_def gate_deps_def desk_dispatcher_def desk_deps_def)
qed

interpretation desk: dispatch_api "desk_dispatcher h wfl cfg env" desk_objs desk_log for h wfl cfg env
proof -
  have "api_store (lift_client store_server) desk_objs" by (rule lift_store) (rule server.api_store_axioms)
  then show "dispatch_api (desk_dispatcher h wfl cfg env) desk_objs desk_log"
    by (auto simp: dispatch_api_def dispatch_api_axioms_def desk_gate)
       (auto simp: desk_dispatcher_def desk_deps_def desk_create_def Let_def split: if_splits)
qed

section \<open>What a dispatch creates\<close>


abbreviation (input) plain_desk :: "desk Dispatcher" where
  "plain_desk \<equiv> desk_dispatcher quiet_host sample_workflow desk_config []"

definition empty_desk :: desk where
  "empty_desk = (\<lparr>sv_objects = [], sv_clock = 1000, sv_version = 1\<rparr>, [], [])"

lemma plain_run: "length (desk_log (snd (Dispatch plain_desk (desk_request sample_workflow) empty_desk))) = 1"
  by code_simp


section \<open>Workflows without a gate\<close>

lemma live_not_due: "unreleased_claim a \<Longrightarrow> \<not> gc_due now olderThan (a\<lparr>at_Status := (at_Status a)\<lparr>st_Phase := phase\<rparr>\<rparr>)"
  by (simp add: gc_due_def unreleased_claim_def Let_def)



end
