(* ===== verification/Trigger_Delivery.thy ===== *)
theory Trigger_Delivery
  imports Consumer Dispatch_Theorems Controller_Theorems
begin

text \<open>
  The way of a wake from the controller to a Job: what \<open>schedule_run\<close> publishes, what the consumer makes of
  it, and which Attempt the two sides of the topic work on for a workflow without the gate.
\<close>

section \<open>What the controller publishes\<close>

definition wake_revision :: "Workflow \<Rightarrow> string" where
  "wake_revision wfl =
     (let ann = annotation wfl TriggerRevisionAnnotation in if ann = [] then ws_LastProcessedRevision (wf_Status wfl) else ann)"

definition published_event :: "'w Reconciler \<Rightarrow> Workflow \<Rightarrow> string \<Rightarrow> 'w \<Rightarrow> TriggerEvent" where
  "published_event r wfl reason v =
     trigger_event wfl reason (wake_revision wfl) (rec_traceparent r) (fst (resolveAttempt r wfl v))"

lemma schedule_publishes:
  assumes "rec_publish r = Some publish" and "rec_marshal r (published_event r wfl reason v) = Inr b"
  shows "schedule_run r wfl reason v =
    snd (observeGeneration r wfl (clear_trigger r wfl
      (snd (publish ''pubsub'' (if rec_TriggerTopic r = [] then ''harmostes-triggers'' else rec_TriggerTopic r) b (snd (resolveAttempt r wfl v))))))"
  using assms
  by (auto simp: schedule_run_def publishTrigger_def published_event_def wake_revision_def Let_def split: prod.splits option.splits)

section \<open>The two Attempts of a wake\<close>

text \<open>The identity of the Attempt that a revision selects.\<close>

definition wake_identity :: "(string \<Rightarrow> string option) \<Rightarrow> Workflow \<Rightarrow> string \<Rightarrow> string" where
  "wake_identity urlPath wfl revision = Identity (DeriveObjective urlPath wfl \<lparr>trig_Revision = revision, trig_Source = ''webhook''\<rparr>)"

lemma objective_source:
  "DeriveObjective urlPath wfl \<lparr>trig_Revision = revision, trig_Source = s\<rparr> =
   DeriveObjective urlPath wfl \<lparr>trig_Revision = revision, trig_Source = s'\<rparr>"
  by (simp add: DeriveObjective_def DeriveTargetedState_def)

lemma wake_identity_eq:
  "wake_identity urlPath wfl a = wake_identity urlPath wfl b \<longleftrightarrow>
   DeriveTargetedState wfl \<lparr>trig_Revision = a, trig_Source = []\<rparr> = DeriveTargetedState wfl \<lparr>trig_Revision = b, trig_Source = []\<rparr>"
  by (simp add: wake_identity_def DeriveObjective_def Identity_def DeriveTargetedState_def Let_def split: prod.split)

lemma controller_attempt:
  assumes "api_store (rec_client r) cobjs" and "fst (resolveAttempt r wfl v) \<noteq> []"
  shows "fst (resolveAttempt r wfl v) =
    AttemptName (wf_Name wfl) (wake_identity (rec_urlPath r) wfl (annotation wfl TriggerRevisionAnnotation))"
proof -
  let ?rev = "annotation wfl TriggerRevisionAnnotation"
  let ?obj = "DeriveObjective (rec_urlPath r) wfl \<lparr>trig_Revision = ?rev, trig_Source = triggerSourceOf wfl\<rparr>"
  let ?opts = "\<lparr>ro_Namespace = wf_Namespace wfl, ro_WorkflowRef = wf_Namespace wfl @ ''/'' @ wf_Name wfl,
                 ro_Owner = Some wfl, ro_Scheme = rec_Scheme r\<rparr>"
  obtain q v1 where q: "ResolveOrCreate (rec_client r) ?obj ?opts v = (q, v1)" by fastforce
  then obtain at created where "q = Inr (at, created)" using assms(2) by (cases q) (auto simp: resolveAttempt_def Let_def)
  then show ?thesis
    using api_store.resolve_store [OF assms(1) q] q objective_source [of "rec_urlPath r" wfl ?rev "triggerSourceOf wfl" "''webhook''"]
    by (auto simp: resolveAttempt_def Let_def ownerName_def wake_identity_def)
qed

lemma dispatcher_attempt:
  assumes "dispatch_api d objs spawned" and "dispatch_ungated d req wfl w = (res, w')" and "spawned w' = spawned w @ [(job, b)]"
  shows "job_for job = AttemptName (wf_Name wfl) (wake_identity (gd_urlPath (dp_gate d)) wfl (rq_Revision req))"
proof -
  let ?obj = "DeriveObjective (gd_urlPath (dp_gate d)) wfl \<lparr>trig_Revision = rq_Revision req, trig_Source = ''webhook''\<rparr>"
  let ?opts = "\<lparr>ro_Namespace = rq_Namespace req, ro_WorkflowRef = rq_Namespace req @ ''/'' @ rq_Workflow req,
              ro_Owner = Some wfl, ro_Scheme = gd_Scheme (dp_gate d)\<rparr>"
  have st: "api_store (dp_client d) objs" using assms(1) by (simp add: dispatch_api_def)
  obtain q w1 where q: "ResolveOrCreate (dp_client d) ?obj ?opts w = (q, w1)" by fastforce
  have w1: "spawned w1 = spawned w" using dispatch_api.resolve_log [OF assms(1) q] .
  obtain at created where a: "q = Inr (at, created)"
    using assms(2,3) q w1 by (cases q) (auto simp: dispatch_ungated_def)
  then have name: "at_Name at = AttemptName (wf_Name wfl) (Identity ?obj)"
    using api_store.resolve_store [OF st q] by (simp add: ownerName_def)
  have c: "create_jobs d req wfl [\<lparr>gdis_Envelope = None, gdis_Attempt = at_Name at\<rparr>] w1 = (res, w')"
    using assms(2) q a by (simp add: dispatch_ungated_def)
  obtain new live where n: "spawned w' = spawned w1 @ audited new"
    and s: "new = [] \<or> subseq (map job_for new) (filter (\<lambda>a. a \<notin> job_attempt ` set (filter job_live live)) [at_Name at])"
    using dispatch_api.create_jobs_logs [OF assms(1) c] by auto
  then have "new = [job]" using assms(3) w1 by auto
  then have "job_for job = at_Name at" using s by (auto split: if_splits)
  then show ?thesis using name by (simp add: wake_identity_def)
qed


text \<open>A scheduled wake after a processed revision: the announced Attempt is not the one that runs.\<close>

definition processed_workflow :: Workflow where
  "processed_workflow = sample_workflow\<lparr>wf_Status := (wf_Status sample_workflow)\<lparr>ws_LastProcessedRevision := ''abc''\<rparr>\<rparr>"

abbreviation (input) processed_desk :: "desk Dispatcher" where
  "processed_desk \<equiv> desk_dispatcher quiet_host processed_workflow desk_config []"

abbreviation (input) processed_event :: TriggerEvent where
  "processed_event \<equiv> published_event cached_reconciler processed_workflow ''cron'' woken_world"

lemma processed_run: "length (desk_log (snd (Dispatch processed_desk (run_request processed_event) empty_desk))) = 1"
  by code_simp

lemma processed_names: "fst (resolveAttempt cached_reconciler processed_workflow woken_world) \<noteq> []"
  by code_simp


end
