(* ===== verification/Webhook.thy ===== *)
theory Webhook
  imports Gate_Wake Go_Lib Go_Time Controller Template_History
begin

text \<open>
  The webhook handlers (\<^verbatim>\<open>internal/webhook/webhook.go\<close>, \<^verbatim>\<open>landing.go\<close>). A request is its method, its body
  (\<^const>\<open>None\<close> when reading fails), the \<^verbatim>\<open>namespace\<close> of its query and its headers; a reply is the status code with
  its text. The JSON decoders are parameters, \<^const>\<open>None\<close> for a body that they refuse; the probe ignores
  the error and keeps what was filled in. A patch is a JSON merge patch computed from a base and the changed
  object. HMAC and SHA-256 are computed.
\<close>

section \<open>HMAC (crypto/hmac over crypto/sha256)\<close>

definition xor_byte :: "nat \<Rightarrow> char \<Rightarrow> char" where
  "xor_byte b c = char_of (b XOR (of_char c :: nat))"

definition hmac_key :: "string \<Rightarrow> string" where
  "hmac_key secret =
     (let k = (if 64 < length secret then map char_of (Sum256 secret) else secret)
      in k @ replicate (64 - length k) (CHR 0x00))"

definition HMAC :: "string \<Rightarrow> string \<Rightarrow> nat list" where
  "HMAC secret body =
     (let k = hmac_key secret
      in Sum256 (map (xor_byte 0x5C) k @ map char_of (Sum256 (map (xor_byte 0x36) k @ body))))"

section \<open>Requests, events, the handler\<close>

abbreviation (input) TriggerPRAnnotation :: string where "TriggerPRAnnotation \<equiv> ''harmostes.dev/trigger-pr''"
abbreviation (input) TriggerActionAnnotation :: string where "TriggerActionAnnotation \<equiv> ''harmostes.dev/trigger-action''"
abbreviation (input) TriggerTitleAnnotation :: string where "TriggerTitleAnnotation \<equiv> ''harmostes.dev/trigger-title''"
abbreviation (input) CIWakeAction :: string where "CIWakeAction \<equiv> ''ci_completed''"
abbreviation (input) zero_sha :: string where "zero_sha \<equiv> ''0000000000000000000000000000000000000000''"

record Request =
  hr_Method :: string
  hr_Body :: "string option"
  hr_Namespace :: string
  hr_Header :: "string \<Rightarrow> string"

type_synonym reply = "nat \<times> string"

record PushEvent =
  push_Ref :: string
  push_FullName :: string
  push_After :: string
  push_Pusher :: string

record PullRequestEvent =
  pre_Action :: string
  pre_Number :: int
  pre_PullNumber :: int
  pre_Title :: string
  pre_HeadSha :: string
  pre_FullName :: string
  pre_HTMLURL :: string

record CIEvent =
  cie_Action :: string
  cie_State :: string
  cie_SHA :: string
  cie_CheckSuite :: "string option"
  cie_WorkflowRun :: "string option"
  cie_FullName :: string
  cie_HTMLURL :: string

record probe =
  prb_Action :: string
  prb_State :: string
  prb_SHA :: string
  prb_CheckSuite :: string
  prb_WorkflowRun :: string

record 'w Handler =
  wh_namespace :: string
  wh_get :: "string \<Rightarrow> string \<Rightarrow> 'w \<Rightarrow> (error + Workflow) \<times> 'w"
  wh_getTemplate :: "string \<Rightarrow> string \<Rightarrow> 'w \<Rightarrow> (error + WorkflowTemplateSpec WorkflowTemplate) \<times> 'w"
  wh_getSecret :: "string \<Rightarrow> string \<Rightarrow> 'w \<Rightarrow> (error + (string, string) gomap) \<times> 'w"
  wh_patch :: "Workflow \<Rightarrow> Workflow \<Rightarrow> 'w \<Rightarrow> error option \<times> 'w"
  wh_patchTemplate :: "string \<Rightarrow> WorkflowTemplateSpec WorkflowTemplate \<Rightarrow> WorkflowTemplateSpec WorkflowTemplate \<Rightarrow> 'w \<Rightarrow> error option \<times> 'w"
  wh_now :: "'w \<Rightarrow> instant"
  wh_probe :: "string \<Rightarrow> probe"
  wh_decPush :: "string \<Rightarrow> PushEvent option"
  wh_decPR :: "string \<Rightarrow> PullRequestEvent option"
  wh_decCI :: "string \<Rightarrow> CIEvent option"
  wh_encLanding :: "TemplateRevisionLanding \<Rightarrow> string option"

definition NewHandler :: "'w Handler \<Rightarrow> string \<Rightarrow> 'w Handler" where
  "NewHandler k8sClient namespace = k8sClient\<lparr>wh_namespace := namespace\<rparr>"

definition error_reply :: "nat \<Rightarrow> string \<Rightarrow> reply" where
  "error_reply status msg = (status, msg @ [CHR 0x0A])"

section \<open>Signatures\<close>

definition verifyHMACSHA256 :: "string \<Rightarrow> string \<Rightarrow> string \<Rightarrow> string \<Rightarrow> bool" where
  "verifyHMACSHA256 header prefix body secret =
     (let sig = TrimPrefix header prefix in
      if length sig \<noteq> 64 then False else EncodeToString (HMAC secret body) = sig)"

definition verifySignature :: "Request \<Rightarrow> string \<Rightarrow> string \<Rightarrow> bool" where
  "verifySignature req body secret =
     (if hr_Header req ''X-Hub-Signature-256'' \<noteq> []
      then verifyHMACSHA256 (hr_Header req ''X-Hub-Signature-256'') ''sha256='' body secret
      else if hr_Header req ''X-Forgejo-Signature'' \<noteq> []
      then verifyHMACSHA256 (hr_Header req ''X-Forgejo-Signature'') ''sha256='' body secret
      else if hr_Header req ''X-Gitlab-Token'' \<noteq> []
      then hr_Header req ''X-Gitlab-Token'' = secret
      else False)"

text \<open>The secret of a workflow's webhook, or the reply that ends the request.\<close>

definition webhook_secret :: "'w Handler \<Rightarrow> string \<Rightarrow> WebhookSpec \<Rightarrow> 'w \<Rightarrow> (reply + string) \<times> 'w" where
  "webhook_secret h namespace wh w =
     (case whs_SecretRef wh of
        None \<Rightarrow> (Inr (whs_Secret wh), w)
      | Some ref \<Rightarrow>
          (case wh_getSecret h namespace (sref_Name ref) w of
             (Inl e, w1) \<Rightarrow> (Inl (error_reply 502 ''failed to read webhook secret''), w1)
           | (Inr secret, w1) \<Rightarrow>
               (let v = map_get secret (sref_Key ref) [] in
                if v = [] then (Inl (error_reply 500 ''webhook secret key is empty''), w1) else (Inr v, w1))))"

text \<open>The check of a request: \<^const>\<open>None\<close> when it may go on.\<close>

definition authenticate :: "'w Handler \<Rightarrow> Request \<Rightarrow> string \<Rightarrow> string \<Rightarrow> Workflow \<Rightarrow> 'w \<Rightarrow> reply option \<times> 'w" where
  "authenticate h req namespace body wfl w =
     (case src_Webhook (wspec_Source (wf_Spec wfl)) of
        None \<Rightarrow> (None, w)
      | Some wh \<Rightarrow>
          (case webhook_secret h namespace wh w of
             (Inl reply, w1) \<Rightarrow> (Some reply, w1)
           | (Inr secret, w1) \<Rightarrow>
               if secret \<noteq> [] \<and> whs_URL wh \<noteq> [] \<and> \<not> verifySignature req body secret
               then (Some (error_reply 401 ''signature verification failed''), w1)
               else (None, w1)))"

section \<open>Wakes\<close>

definition url_host :: "string \<Rightarrow> string" where
  "url_host htmlURL =
     (let u = TrimPrefix htmlURL ''https://''; v = TrimPrefix htmlURL ''http://'' in
      if u \<noteq> htmlURL then hd (split_on (CHR ''/'') u)
      else if v \<noteq> htmlURL then hd (split_on (CHR ''/'') v)
      else [])"

definition normalizeRepo :: "string \<Rightarrow> string \<Rightarrow> string" where
  "normalizeRepo htmlURL fullName =
     (let host = url_host htmlURL in
      if host = [] \<or> host = ''github.com'' then ''github.com/'' @ fullName else host @ ''/'' @ fullName)"

text \<open>The patch of the annotations that a wake ends with; \<open>done\<close> is the text of its reply.\<close>

definition annotate :: "'w Handler \<Rightarrow> Workflow \<Rightarrow> (string, string) gomap \<Rightarrow> string \<Rightarrow> 'w \<Rightarrow> reply \<times> 'w" where
  "annotate h wfl anns text w =
     (case wh_patch h wfl (wfl\<lparr>wf_Annotations := anns\<rparr>) w of
        (Some e, w1) \<Rightarrow> (error_reply 500 ''failed to trigger workflow'', w1)
      | (None, w1) \<Rightarrow> ((200, text @ [CHR 0x0A]), w1))"

definition statusTerminalStates :: "string list" where
  "statusTerminalStates = [''success'', ''failure'', ''error'']"

text \<open>The head of a completed CI event, \<^const>\<open>None\<close> with the text of the reply for one that is ignored.\<close>

definition ci_head :: "CIEvent \<Rightarrow> string + string" where
  "ci_head cie =
     (case cie_CheckSuite cie of
        Some head \<Rightarrow>
          if cie_Action cie \<noteq> ''completed'' then Inl (''check_suite action '' @ quoted (cie_Action cie) @ '' ignored'')
          else Inr (if head = [] \<and> cie_SHA cie \<noteq> [] then cie_SHA cie else head)
      | None \<Rightarrow>
          (case cie_WorkflowRun cie of
             Some head \<Rightarrow>
               if cie_Action cie \<noteq> ''completed'' then Inl (''workflow_run action '' @ quoted (cie_Action cie) @ '' ignored'')
               else Inr (if head = [] \<and> cie_SHA cie \<noteq> [] then cie_SHA cie else head)
           | None \<Rightarrow>
               if cie_State cie \<notin> set statusTerminalStates then Inl (''status state '' @ quoted (cie_State cie) @ '' ignored'')
               else Inr (cie_SHA cie)))"

definition ci_annotations :: "string \<Rightarrow> string \<Rightarrow> (string, string) gomap \<Rightarrow> (string, string) gomap" where
  "ci_annotations sha repo m =
     AList.delete TriggerTitleAnnotation (AList.delete TriggerPRAnnotation
       (map_set TriggerRepoAnnotation repo (map_set TriggerActionAnnotation CIWakeAction (map_set TriggerRevisionAnnotation sha m))))"

definition serveCIWake :: "'w Handler \<Rightarrow> Workflow \<Rightarrow> CIEvent \<Rightarrow> 'w \<Rightarrow> reply \<times> 'w" where
  "serveCIWake h wfl cie w =
     (case ci_head cie of
        Inl ignored \<Rightarrow> ((200, ignored @ [CHR 0x0A]), w)
      | Inr sha \<Rightarrow>
          if sha = [] then (error_reply 400 ''missing head sha'', w)
          else if cie_FullName cie = [] then (error_reply 400 ''missing repository full_name'', w)
          else
            (let repo = normalizeRepo (cie_HTMLURL cie) (cie_FullName cie) in
             annotate h wfl (ci_annotations sha repo (wf_Annotations wfl))
               (''workflow '' @ wf_Name wfl @ '' woken for '' @ repo @ ''@'' @ take 12 sha @ '' (ci_completed)'') w))"

definition canonical_action :: "string \<Rightarrow> string" where
  "canonical_action a = (if a = ''synchronized'' then ''synchronize'' else a)"

definition pr_number :: "PullRequestEvent \<Rightarrow> int" where
  "pr_number pre = (if pre_Number pre = 0 then pre_PullNumber pre else pre_Number pre)"

definition pr_annotations :: "string \<Rightarrow> PullRequestEvent \<Rightarrow> (string, string) gomap \<Rightarrow> (string, string) gomap" where
  "pr_annotations repo pre m =
     (let m1 = map_set TriggerPRAnnotation (repo @ ''#'' @ show_int (pr_number pre))
                 (map_set TriggerRevisionAnnotation (pre_HeadSha pre) m);
          m2 = (if pre_Title pre \<noteq> [] then map_set TriggerTitleAnnotation (pre_Title pre) m1 else m1)
      in map_set TriggerActionAnnotation (canonical_action (pre_Action pre)) m2)"

definition servePullRequest :: "'w Handler \<Rightarrow> Workflow \<Rightarrow> PullRequestEvent \<Rightarrow> 'w \<Rightarrow> reply \<times> 'w" where
  "servePullRequest h wfl pre w =
     (let action = canonical_action (pre_Action pre) in
      if action \<notin> set PullRequestWakeActions
      then ((200, ''action '' @ quoted action @ '' ignored'' @ [CHR 0x0A]), w)
      else if pr_number pre = 0 \<or> pre_HeadSha pre = [] then (error_reply 400 ''missing number or head sha'', w)
      else if pre_FullName pre = [] then (error_reply 400 ''missing repository full_name'', w)
      else
        (let repo = normalizeRepo (pre_HTMLURL pre) (pre_FullName pre) in
         annotate h wfl (pr_annotations repo pre (wf_Annotations wfl))
           (''workflow '' @ wf_Name wfl @ '' armed for '' @ repo @ ''#'' @ show_int (pr_number pre) @ '' ('' @ action @ '')'') w))"

definition push_branch :: "string \<Rightarrow> string" where
  "push_branch ref =
     (let branch = TrimPrefix ref ''refs/heads/'' in if branch = [] then TrimPrefix ref ''refs/tags/'' else branch)"

definition servePush :: "'w Handler \<Rightarrow> string \<Rightarrow> Workflow \<Rightarrow> PushEvent \<Rightarrow> 'w \<Rightarrow> reply \<times> 'w" where
  "servePush h workflowName wfl push w =
     (let revision = push_After push; branch = push_branch (push_Ref push); wanted = src_Branch (wspec_Source (wf_Spec wfl)) in
      if revision = [] \<or> revision = zero_sha then (error_reply 400 ''invalid revision'', w)
      else if wanted \<noteq> [] \<and> branch \<noteq> wanted
      then ((202, ''branch '' @ branch @ '' does not match workflow spec (wants '' @ wanted @ '')'' @ [CHR 0x0A]), w)
      else annotate h wfl (map_set TriggerRevisionAnnotation revision (wf_Annotations wfl))
             (''workflow '' @ workflowName @ '' triggered for revision '' @ revision) w)"

text \<open>The dispatch on the shape of the body: a CI completion first, then a pull request, then a push.\<close>

definition serve_event :: "'w Handler \<Rightarrow> string \<Rightarrow> string \<Rightarrow> Workflow \<Rightarrow> 'w \<Rightarrow> reply \<times> 'w" where
  "serve_event h workflowName body wfl w =
     (let p = wh_probe h body; invalid = error_reply 400 ''invalid event payload'' in
      if prb_CheckSuite p \<noteq> [] \<or> prb_WorkflowRun p \<noteq> [] \<or> (prb_State p \<noteq> [] \<and> prb_SHA p \<noteq> [] \<and> prb_Action p = [])
      then (case wh_decCI h body of None \<Rightarrow> (invalid, w) | Some cie \<Rightarrow> serveCIWake h wfl cie w)
      else if prb_Action p \<noteq> []
      then (case wh_decPR h body of None \<Rightarrow> (invalid, w) | Some pre \<Rightarrow> servePullRequest h wfl pre w)
      else (case wh_decPush h body of None \<Rightarrow> (invalid, w) | Some push \<Rightarrow> servePush h workflowName wfl push w))"

definition request_namespace :: "'w Handler \<Rightarrow> Request \<Rightarrow> string" where
  "request_namespace h req = (if hr_Namespace req = [] then wh_namespace h else hr_Namespace req)"

definition ServeHTTP :: "'w Handler \<Rightarrow> Request \<Rightarrow> string \<Rightarrow> 'w \<Rightarrow> reply \<times> 'w" where
  "ServeHTTP h req workflowName w =
     (if hr_Method req \<noteq> ''POST'' then (error_reply 405 ''method not allowed'', w)
      else (case hr_Body req of
              None \<Rightarrow> (error_reply 400 ''failed to read body'', w)
            | Some body \<Rightarrow>
                (case wh_get h (request_namespace h req) workflowName w of
                   (Inl e, w1) \<Rightarrow> (error_reply 404 ''workflow not found'', w1)
                 | (Inr wfl, w1) \<Rightarrow>
                     (case authenticate h req (request_namespace h req) body wfl w1 of
                        (Some reply, w2) \<Rightarrow> (reply, w2)
                      | (None, w2) \<Rightarrow> serve_event h workflowName body wfl w2))))"

section \<open>Landings (landing.go)\<close>

definition landing_in_scope :: "TemplateSourceSpec \<Rightarrow> PushEvent \<Rightarrow> bool" where
  "landing_in_scope src push \<longleftrightarrow>
     (let branch = (if tss_Branch src = [] then ''main'' else tss_Branch src)
      in EqualFold (push_FullName push) (tss_Repo src) \<and> push_Ref push = ''refs/heads/'' @ branch)"

definition landing_of :: "PushEvent \<Rightarrow> instant \<Rightarrow> TemplateRevisionLanding" where
  "landing_of push now = \<lparr>land_Sha = push_After push, land_Pusher = push_Pusher push, land_At = RFC3339 now\<rparr>"

definition stash_landing ::
  "'w Handler \<Rightarrow> string \<Rightarrow> WorkflowTemplateSpec WorkflowTemplate \<Rightarrow> PushEvent \<Rightarrow> 'w \<Rightarrow> reply \<times> 'w" where
  "stash_landing h namespace tmpl push w =
     (case wh_encLanding h (landing_of push (wh_now h w)) of
        None \<Rightarrow> (error_reply 500 ''encode landing'', w)
      | Some raw \<Rightarrow>
          (case wh_patchTemplate h namespace tmpl
                  (tmpl\<lparr>tmpl_Annotations := map_set TemplatePendingLandingAnnotation raw (tmpl_Annotations tmpl)\<rparr>) w of
             (Some e, w1) \<Rightarrow> (error_reply 500 ''failed to record landing'', w1)
           | (None, w1) \<Rightarrow> ((200, ''{\"status\":\"landing recorded\"}''), w1)))"

definition land_push ::
  "'w Handler \<Rightarrow> string \<Rightarrow> WorkflowTemplateSpec WorkflowTemplate \<Rightarrow> TemplateSourceSpec \<Rightarrow> string \<Rightarrow> 'w \<Rightarrow> reply \<times> 'w" where
  "land_push h namespace tmpl src body w =
     (case wh_decPush h body of
        None \<Rightarrow> (error_reply 400 ''invalid event payload'', w)
      | Some push \<Rightarrow>
          if \<not> landing_in_scope src push then (error_reply 400 ''push does not match the declared source'', w)
          else if push_After push = [] \<or> push_After push = zero_sha then (error_reply 400 ''invalid revision'', w)
          else stash_landing h namespace tmpl push w)"

text \<open>Behind the read of the template: the secret, the signature, the push.\<close>

definition land_template ::
  "'w Handler \<Rightarrow> Request \<Rightarrow> string \<Rightarrow> string \<Rightarrow> WorkflowTemplateSpec WorkflowTemplate \<Rightarrow> 'w \<Rightarrow> reply \<times> 'w" where
  "land_template h req namespace body tmpl w =
     (case wts_Source (tmpl_Spec tmpl) of
        None \<Rightarrow> (error_reply 404 ''template declares no source'', w)
      | Some src \<Rightarrow>
          (case tss_SecretRef src of
             None \<Rightarrow> (error_reply 401 ''template source carries no webhook secret'', w)
           | Some ref \<Rightarrow>
               (case wh_getSecret h namespace (sref_Name ref) w of
                  (Inl e, w1) \<Rightarrow> (error_reply 502 ''failed to read webhook secret'', w1)
                | (Inr secret, w1) \<Rightarrow>
                    (let v = map_get secret (sref_Key ref) [] in
                     if v = [] then (error_reply 500 ''webhook secret key is empty'', w1)
                     else if \<not> verifySignature req body v then (error_reply 401 ''signature verification failed'', w1)
                     else land_push h namespace tmpl src body w1))))"

definition ServeTemplateLanding :: "'w Handler \<Rightarrow> Request \<Rightarrow> string \<Rightarrow> 'w \<Rightarrow> reply \<times> 'w" where
  "ServeTemplateLanding h req templateName w =
     (if hr_Method req \<noteq> ''POST'' then (error_reply 405 ''method not allowed'', w)
      else (case hr_Body req of
              None \<Rightarrow> (error_reply 400 ''failed to read body'', w)
            | Some body \<Rightarrow>
                (case wh_getTemplate h (request_namespace h req) templateName w of
                   (Inl e, w1) \<Rightarrow>
                     if err_Kind e = NotFound then (error_reply 404 ''template not found'', w1)
                     else (error_reply 500 ''failed to read template'', w1)
                 | (Inr tmpl, w1) \<Rightarrow> land_template h req (request_namespace h req) body tmpl w1)))"

lemmas [model_defs] = xor_byte_def hmac_key_def HMAC_def NewHandler_def error_reply_def verifyHMACSHA256_def verifySignature_def
  webhook_secret_def authenticate_def url_host_def normalizeRepo_def annotate_def statusTerminalStates_def ci_head_def
  ci_annotations_def serveCIWake_def canonical_action_def pr_number_def pr_annotations_def servePullRequest_def push_branch_def
  servePush_def serve_event_def request_namespace_def ServeHTTP_def landing_in_scope_def landing_of_def stash_landing_def
  land_push_def land_template_def ServeTemplateLanding_def

end
