(* ===== verification/Webhook_Theorems.thy ===== *)
theory Webhook_Theorems
  imports Webhook Trigger_Delivery
begin

text \<open>
  The properties of the webhook. The locale \<open>webhook_api\<close> is the contract of the API server behind the
  handlers: reads change nothing and may be old, a failed patch changes nothing, and a merge patch writes exactly the
  annotations in which the changed object differs from its base. \<open>board\<close> is a server that keeps it.
\<close>

section \<open>The contract\<close>

definition merged :: "'v option \<Rightarrow> 'v option \<Rightarrow> 'v option \<Rightarrow> 'v option" where
  "merged base new cur = (if new = base then cur else new)"

type_synonym template = "WorkflowTemplateSpec WorkflowTemplate"

locale webhook_api =
  fixes h :: "'w Handler"
    and objs :: "'w \<Rightarrow> object_key \<Rightarrow> Workflow option"
    and tmpls :: "'w \<Rightarrow> object_key \<Rightarrow> template option"
  assumes get: "wh_get h ns n w = (r1, w') \<Longrightarrow> objs w' = objs w \<and> tmpls w' = tmpls w"
    and get_key: "wh_get h ns n w = (Inr wfl, w') \<Longrightarrow> wf_Namespace wfl = ns \<and> wf_Name wfl = n"
    and getTemplate: "wh_getTemplate h ns n w = (r2, w') \<Longrightarrow> objs w' = objs w \<and> tmpls w' = tmpls w"
    and getTemplate_key: "wh_getTemplate h ns n w = (Inr tmpl, w') \<Longrightarrow> tmpl_Name tmpl = n"
    and getSecret: "wh_getSecret h ns n w = (r3, w') \<Longrightarrow> objs w' = objs w \<and> tmpls w' = tmpls w"
    and patch_err: "wh_patch h base a w = (Some e, w') \<Longrightarrow> objs w' = objs w \<and> tmpls w' = tmpls w"
    and patch_ok: "wh_patch h base (base\<lparr>wf_Annotations := m\<rparr>) w = (None, w') \<Longrightarrow> tmpls w' = tmpls w \<and>
      (\<exists>b anns v. objs w (wf_Namespace base, wf_Name base) = Some b \<and>
        objs w' = (objs w)((wf_Namespace base, wf_Name base) \<mapsto> b\<lparr>wf_Annotations := anns, wf_ResourceVersion := v\<rparr>) \<and>
        map_of anns = (\<lambda>k. merged (map_of (wf_Annotations base) k) (map_of m k) (map_of (wf_Annotations b) k)))"
    and patchTemplate_err: "wh_patchTemplate h ns tb ta w = (Some e, w') \<Longrightarrow> objs w' = objs w \<and> tmpls w' = tmpls w"
    and patchTemplate_ok: "wh_patchTemplate h ns tb (tb\<lparr>tmpl_Annotations := m\<rparr>) w = (None, w') \<Longrightarrow> objs w' = objs w \<and>
      (\<exists>b anns. tmpls w (ns, tmpl_Name tb) = Some b \<and>
        tmpls w' = (tmpls w)((ns, tmpl_Name tb) \<mapsto> b\<lparr>tmpl_Annotations := anns\<rparr>) \<and>
        map_of anns = (\<lambda>k. merged (map_of (tmpl_Annotations tb) k) (map_of m k) (map_of (tmpl_Annotations b) k)))"
begin

lemma annotate_err: "annotate h wfl m t w = (r, w') \<Longrightarrow> objs w' \<noteq> objs w \<Longrightarrow> fst r = 200"
  by (auto simp: annotate_def dest: patch_err split: prod.splits option.splits)

text \<open>What a wake leaves in the store.\<close>

lemma annotate_stored:
  assumes "annotate h wfl m t w = (r, w')" and "objs w' \<noteq> objs w"
  shows "\<exists>b anns v. objs w (wf_Namespace wfl, wf_Name wfl) = Some b \<and>
    objs w' = (objs w)((wf_Namespace wfl, wf_Name wfl) \<mapsto> b\<lparr>wf_Annotations := anns, wf_ResourceVersion := v\<rparr>) \<and>
    map_of anns = (\<lambda>k. merged (map_of (wf_Annotations wfl) k) (map_of m k) (map_of (wf_Annotations b) k))"
proof -
  obtain e w1 where p: "wh_patch h wfl (wfl\<lparr>wf_Annotations := m\<rparr>) w = (e, w1)" by fastforce
  then have "w' = w1" using assms(1) by (auto simp: annotate_def split: option.splits)
  then have "e = None" using patch_err [of wfl _ w] p assms(2) by (cases e) auto
  then show ?thesis using patch_ok [of wfl m w w1] p \<open>w' = w1\<close> by auto
qed

text \<open>A read that was not old: the stored annotations become the new ones.\<close>

lemma annotate_fresh:
  assumes "annotate h wfl m t w = (r, w')" and "objs w' \<noteq> objs w"
    and "objs w (wf_Namespace wfl, wf_Name wfl) = Some b" and "map_of (wf_Annotations b) = map_of (wf_Annotations wfl)"
  shows "\<exists>c. objs w' (wf_Namespace wfl, wf_Name wfl) = Some c \<and> wf_Spec c = wf_Spec b \<and> wf_Status c = wf_Status b \<and>
    map_of (wf_Annotations c) = map_of m"
  using annotate_stored [OF assms(1,2)] assms(3,4) by (auto simp: merged_def fun_eq_iff)

lemma authenticate_keeps: "authenticate h req ns body wfl w = (r, w') \<Longrightarrow> objs w' = objs w \<and> tmpls w' = tmpls w"
  by (auto simp: authenticate_def webhook_secret_def Let_def dest!: getSecret split: option.splits prod.splits sum.splits if_splits)

lemma annotate_templates: "annotate h wfl m t w = (r, w') \<Longrightarrow> tmpls w' = tmpls w"
  using patch_err [of wfl "wfl\<lparr>wf_Annotations := m\<rparr>" w] patch_ok [of wfl m w]
  by (auto simp: annotate_def split: prod.splits option.splits)

lemma read_authenticate:
  "wh_get h ns n w = (r1, w1) \<Longrightarrow> authenticate h req ns' body wfl w1 = (r2, w2) \<Longrightarrow> objs w2 = objs w"
  by (metis get authenticate_keeps)

text \<open>The signature that a change of the store rests on.\<close>

lemma serve_authentic:
  assumes "ServeHTTP h req n w = (r, w')" and "objs w' \<noteq> objs w"
  shows "\<exists>body wfl w1 w2. hr_Body req = Some body \<and> wh_get h (request_namespace h req) n w = (Inr wfl, w1) \<and>
    authenticate h req (request_namespace h req) body wfl w1 = (None, w2) \<and> serve_event h n body wfl w2 = (r, w') \<and> objs w2 = objs w"
  using assms
  by (auto simp: ServeHTTP_def dest: get read_authenticate split: if_splits option.splits prod.splits sum.splits)

lemma serve_landing:
  assumes "ServeTemplateLanding h req n w = (r, w')" and "tmpls w' \<noteq> tmpls w"
  shows "\<exists>body tmpl w1. hr_Body req = Some body \<and> wh_getTemplate h (request_namespace h req) n w = (Inr tmpl, w1) \<and>
    land_template h req (request_namespace h req) body tmpl w1 = (r, w') \<and> tmpls w1 = tmpls w \<and> tmpl_Name tmpl = n"
  using assms
  by (auto simp: ServeTemplateLanding_def dest: getTemplate getTemplate_key split: if_splits option.splits prod.splits sum.splits)

lemma land_authentic:
  assumes "land_template h req ns body tmpl w = (r, w')" and "tmpls w' \<noteq> tmpls w"
  shows "\<exists>src ref secret w1. wts_Source (tmpl_Spec tmpl) = Some src \<and> tss_SecretRef src = Some ref \<and>
    wh_getSecret h ns (sref_Name ref) w = (Inr secret, w1) \<and> map_get secret (sref_Key ref) [] \<noteq> [] \<and>
    verifySignature req body (map_get secret (sref_Key ref) []) \<and> land_push h ns tmpl src body w1 = (r, w') \<and> tmpls w1 = tmpls w"
  using assms
  by (auto simp: land_template_def Let_def dest: getSecret split: option.splits prod.splits sum.splits if_splits)

lemma stash_stored:
  assumes "stash_landing h ns tmpl push w = (r, w')" and "tmpls w' \<noteq> tmpls w"
  shows "\<exists>raw b anns. wh_encLanding h (landing_of push (wh_now h w)) = Some raw \<and> tmpls w (ns, tmpl_Name tmpl) = Some b \<and>
    tmpls w' = (tmpls w)((ns, tmpl_Name tmpl) \<mapsto> b\<lparr>tmpl_Annotations := anns\<rparr>) \<and>
    map_of anns = (\<lambda>k. merged (map_of (tmpl_Annotations tmpl) k)
      (map_of (map_set TemplatePendingLandingAnnotation raw (tmpl_Annotations tmpl)) k) (map_of (tmpl_Annotations b) k))"
proof -
  let ?new = "\<lambda>raw. map_set TemplatePendingLandingAnnotation raw (tmpl_Annotations tmpl)"
  obtain raw where e: "wh_encLanding h (landing_of push (wh_now h w)) = Some raw"
    using assms by (auto simp: stash_landing_def split: option.splits)
  obtain f w1 where p: "wh_patchTemplate h ns tmpl (tmpl\<lparr>tmpl_Annotations := ?new raw\<rparr>) w = (f, w1)" by fastforce
  then have "w' = w1" using assms(1) e by (auto simp: stash_landing_def split: option.splits)
  then have "f = None" using patchTemplate_err [of ns tmpl _ w] p assms(2) by (cases f) auto
  then show ?thesis using patchTemplate_ok [of ns tmpl "?new raw" w w1] p e \<open>w' = w1\<close> by auto
qed

lemma land_push_stored:
  assumes "land_push h ns tmpl src body w = (r, w')" and "tmpls w' \<noteq> tmpls w"
  shows "\<exists>push. wh_decPush h body = Some push \<and> landing_in_scope src push \<and> push_After push \<notin> {[], zero_sha} \<and>
    stash_landing h ns tmpl push w = (r, w')"
  using assms by (auto simp: land_push_def split: option.splits if_splits)

end

section \<open>A server\<close>

record board =
  bd_workflows :: "Workflow list"
  bd_templates :: "(string \<times> template) list"

definition board_objs :: "board \<Rightarrow> object_key \<Rightarrow> Workflow option" where
  "board_objs w k = List.find (\<lambda>x. (wf_Namespace x, wf_Name x) = k) (bd_workflows w)"

definition board_tmpls :: "board \<Rightarrow> object_key \<Rightarrow> template option" where
  "board_tmpls w k = map_option snd (List.find (\<lambda>x. (fst x, tmpl_Name (snd x)) = k) (bd_templates w))"

text \<open>The merge patch: every key in which the maps differ is written or deleted.\<close>

definition merge_key :: "(string, string) gomap \<Rightarrow> (string, string) gomap \<Rightarrow> string \<Rightarrow> (string, string) gomap \<Rightarrow> (string, string) gomap" where
  "merge_key base m k cur =
     (if map_of m k = map_of base k then cur
      else case map_of m k of None \<Rightarrow> AList.delete k cur | Some v \<Rightarrow> map_set k v cur)"

definition merge_patch :: "(string, string) gomap \<Rightarrow> (string, string) gomap \<Rightarrow> (string, string) gomap \<Rightarrow> (string, string) gomap" where
  "merge_patch base m cur = fold (merge_key base m) (map_keys base @ map_keys m) cur"

lemma fold_merge:
  "map_of (fold (merge_key base m) ks cur) k =
   (if k \<in> set ks then merged (map_of base k) (map_of m k) (map_of cur k) else map_of cur k)"
proof (induction ks arbitrary: cur)
  case (Cons x ks)
  have "map_of (merge_key base m x cur) k = (if k = x then merged (map_of base k) (map_of m k) (map_of cur k) else map_of cur k)"
    by (auto simp: merge_key_def merged_def map_of_set delete_conv split: option.splits)
  then show ?case using Cons by (auto simp: merged_def)
qed simp

lemma map_of_merge_patch: "map_of (merge_patch base m cur) = (\<lambda>k. merged (map_of base k) (map_of m k) (map_of cur k))"
proof
  fix k
  have "k \<notin> set (map_keys base @ map_keys m) \<Longrightarrow> map_of m k = map_of base k"
    by (metis UnCI map_of_eq_None_iff set_append set_map)
  then show "map_of (merge_patch base m cur) k = merged (map_of base k) (map_of m k) (map_of cur k)"
    unfolding merge_patch_def fold_merge by (auto simp: merged_def)
qed

definition put_workflow :: "Workflow \<Rightarrow> board \<Rightarrow> board" where
  "put_workflow c w = w\<lparr>bd_workflows := c # filter (\<lambda>x. (wf_Namespace x, wf_Name x) \<noteq> (wf_Namespace c, wf_Name c)) (bd_workflows w)\<rparr>"

definition put_template :: "string \<Rightarrow> template \<Rightarrow> board \<Rightarrow> board" where
  "put_template ns c w = w\<lparr>bd_templates := (ns, c) # filter (\<lambda>x. (fst x, tmpl_Name (snd x)) \<noteq> (ns, tmpl_Name c)) (bd_templates w)\<rparr>"

definition board_handler :: "(string \<Rightarrow> probe) \<Rightarrow> (string \<Rightarrow> PushEvent option) \<Rightarrow> (string \<Rightarrow> PullRequestEvent option) \<Rightarrow> board Handler" where
  "board_handler prb decPush decPR =
     \<lparr>wh_namespace = ''ns'',
      wh_get = (\<lambda>ns n w. (case board_objs w (ns, n) of None \<Rightarrow> Inl (api_error NotFound) | Some x \<Rightarrow> Inr x, w)),
      wh_getTemplate = (\<lambda>ns n w. (case board_tmpls w (ns, n) of None \<Rightarrow> Inl (api_error NotFound) | Some x \<Rightarrow> Inr x, w)),
      wh_getSecret = (\<lambda>ns n w. (Inr [(''key'', ''s3cret'')], w)),
      wh_patch = (\<lambda>base a w. case board_objs w (wf_Namespace base, wf_Name base) of
          None \<Rightarrow> (Some (api_error NotFound), w)
        | Some b \<Rightarrow> (None, put_workflow (b\<lparr>wf_Annotations := merge_patch (wf_Annotations base) (wf_Annotations a) (wf_Annotations b),
             wf_ResourceVersion := wf_ResourceVersion b + 1\<rparr>) w)),
      wh_patchTemplate = (\<lambda>ns base a w. case board_tmpls w (ns, tmpl_Name base) of
          None \<Rightarrow> (Some (api_error NotFound), w)
        | Some b \<Rightarrow> (None, put_template ns (b\<lparr>tmpl_Annotations := merge_patch (tmpl_Annotations base) (tmpl_Annotations a) (tmpl_Annotations b)\<rparr>) w)),
      wh_now = (\<lambda>w. 0), wh_probe = prb, wh_decPush = decPush, wh_decPR = decPR, wh_decCI = (\<lambda>b. None),
      wh_encLanding = (\<lambda>l. Some (land_Sha l))\<rparr>"

lemma find_filter_key: "List.find P (filter Q xs) = List.find (\<lambda>x. P x \<and> Q x) xs"
  by (induction xs) auto

lemma objs_put: "board_objs (put_workflow c w) = (board_objs w)((wf_Namespace c, wf_Name c) \<mapsto> c)"
  by (auto simp: board_objs_def put_workflow_def find_filter_key fun_eq_iff intro!: arg_cong2 [of _ _ _ _ List.find])

lemma tmpls_put: "board_tmpls (put_template ns c w) = (board_tmpls w)((ns, tmpl_Name c) \<mapsto> c)"
  by (auto simp: board_tmpls_def put_template_def find_filter_key fun_eq_iff intro!: arg_cong [of _ _ "map_option snd"] arg_cong2 [of _ _ _ _ List.find])

lemma put_other: "board_tmpls (put_workflow c w) = board_tmpls w" "board_objs (put_template ns t w) = board_objs w"
  by (simp_all add: board_objs_def board_tmpls_def put_workflow_def put_template_def fun_eq_iff)

lemma board_keys: "board_objs w (ns, n) = Some x \<Longrightarrow> wf_Namespace x = ns \<and> wf_Name x = n" "board_tmpls w (ns, n) = Some t \<Longrightarrow> tmpl_Name t = n"
  by (auto simp: board_objs_def board_tmpls_def find_Some_iff) (metis snd_conv)

interpretation board: webhook_api "board_handler prb decPush decPR" board_objs board_tmpls for prb decPush decPR
proof
  fix ns n w w' wfl tmpl base a tb m
  let ?h = "board_handler prb decPush decPR"
  show "wh_get ?h ns n w = (Inr wfl, w') \<Longrightarrow> wf_Namespace wfl = ns \<and> wf_Name wfl = n"
    by (auto simp: board_handler_def dest: board_keys split: option.splits)
  show "wh_getTemplate ?h ns n w = (Inr tmpl, w') \<Longrightarrow> tmpl_Name tmpl = n"
    by (auto simp: board_handler_def dest: board_keys split: option.splits)
  show "wh_patch ?h base (base\<lparr>wf_Annotations := m\<rparr>) w = (None, w') \<Longrightarrow> board_tmpls w' = board_tmpls w \<and>
      (\<exists>b anns v. board_objs w (wf_Namespace base, wf_Name base) = Some b \<and>
        board_objs w' = (board_objs w)((wf_Namespace base, wf_Name base) \<mapsto> b\<lparr>wf_Annotations := anns, wf_ResourceVersion := v\<rparr>) \<and>
        map_of anns = (\<lambda>k. merged (map_of (wf_Annotations base) k) (map_of m k) (map_of (wf_Annotations b) k)))"
    by (cases "board_objs w (wf_Namespace base, wf_Name base)")
       (auto simp: board_handler_def put_other objs_put map_of_merge_patch dest!: board_keys(1) intro!: exI)
  show "wh_patchTemplate ?h ns tb (tb\<lparr>tmpl_Annotations := m\<rparr>) w = (None, w') \<Longrightarrow> board_objs w' = board_objs w \<and>
      (\<exists>b anns. board_tmpls w (ns, tmpl_Name tb) = Some b \<and>
        board_tmpls w' = (board_tmpls w)((ns, tmpl_Name tb) \<mapsto> b\<lparr>tmpl_Annotations := anns\<rparr>) \<and>
        map_of anns = (\<lambda>k. merged (map_of (tmpl_Annotations tb) k) (map_of m k) (map_of (tmpl_Annotations b) k)))"
    by (cases "board_tmpls w (ns, tmpl_Name tb)")
       (auto simp: board_handler_def put_other tmpls_put map_of_merge_patch dest!: board_keys(2) intro!: exI)
qed (auto simp: board_handler_def split: option.splits)

section \<open>Signed wakes\<close>

text \<open>A request that carries the signature of its body, or the token.\<close>

definition carries_signature :: "Request \<Rightarrow> string \<Rightarrow> string \<Rightarrow> bool" where
  "carries_signature req body secret \<longleftrightarrow>
     (let mac = EncodeToString (HMAC secret body); hub = hr_Header req ''X-Hub-Signature-256''; forgejo = hr_Header req ''X-Forgejo-Signature''
      in hub \<in> {mac, ''sha256='' @ mac} \<or> hub = [] \<and> forgejo \<in> {mac, ''sha256='' @ mac} \<or>
         hub = [] \<and> forgejo = [] \<and> hr_Header req ''X-Gitlab-Token'' = secret)"

lemma TrimPrefix_cases: "TrimPrefix s p = t \<Longrightarrow> s = t \<or> s = p @ t"
  by (auto simp: TrimPrefix_def HasPrefix_def split: if_splits) (metis append_take_drop_id)

lemma verify_header: "verifyHMACSHA256 s ''sha256='' body secret \<Longrightarrow>
    s = EncodeToString (HMAC secret body) \<or> s = ''sha256='' @ EncodeToString (HMAC secret body)"
  unfolding verifyHMACSHA256_def Let_def using TrimPrefix_cases [OF refl, of s "''sha256=''"] by (auto split: if_splits)

lemma verify_signed: "verifySignature req body secret \<Longrightarrow> carries_signature req body secret"
  by (auto simp: verifySignature_def carries_signature_def Let_def simp del: append_Cons dest!: verify_header split: if_splits)

text \<open>The secret that a workflow's webhook has.\<close>

definition has_secret :: "'w Handler \<Rightarrow> string \<Rightarrow> WebhookSpec \<Rightarrow> 'w \<Rightarrow> string \<Rightarrow> bool" where
  "has_secret h ns wh w secret \<longleftrightarrow> secret \<noteq> [] \<and>
     (case whs_SecretRef wh of
        None \<Rightarrow> secret = whs_Secret wh
      | Some ref \<Rightarrow> (\<exists>m w'. wh_getSecret h ns (sref_Name ref) w = (Inr m, w') \<and> secret = map_get m (sref_Key ref) []))"

lemma webhook_secret_has: "webhook_secret h ns wh w = (Inr secret, w') \<Longrightarrow> secret \<noteq> [] \<Longrightarrow> has_secret h ns wh w secret"
  by (auto simp: webhook_secret_def has_secret_def Let_def split: option.splits prod.splits sum.splits if_splits)

lemma webhook_secret_set: "webhook_secret h ns wh w = (Inr [], w') \<Longrightarrow> whs_SecretRef wh = None \<and> whs_Secret wh = []"
  by (auto simp: webhook_secret_def Let_def split: option.splits prod.splits sum.splits if_splits)

lemma authenticate_secret:
  assumes "authenticate h req ns body wfl w = (None, w')" and "src_Webhook (wspec_Source (wf_Spec wfl)) = Some wh" and "whs_URL wh \<noteq> []"
  shows "whs_SecretRef wh = None \<and> whs_Secret wh = [] \<or> (\<exists>secret. has_secret h ns wh w secret \<and> carries_signature req body secret)"
proof (cases "webhook_secret h ns wh w")
  case (Pair s w1)
  show ?thesis
  proof (cases s)
    case (Inl e)
    then show ?thesis using assms(1,2) Pair by (simp add: authenticate_def)
  next
    case (Inr secret)
    have v: "secret = [] \<or> verifySignature req body secret"
      using assms Pair Inr unfolding authenticate_def by (simp split: if_splits)
    show ?thesis
    proof (cases "secret = []")
      case True
      then show ?thesis using webhook_secret_set [of h ns wh w w1] Pair Inr by simp
    next
      case False
      then have "has_secret h ns wh w secret" "carries_signature req body secret"
        using webhook_secret_has [of h ns wh w secret w1] verify_signed [of req body secret] v Pair Inr by simp_all
      then show ?thesis by blast
    qed
  qed
qed

text \<open>
  C17. A wake needs a signature: when a request changed a workflow, the workflow that was read declares no webhook, or
  one without a secret or without a host URL, or the request carries the HMAC of its body, or the token, under the
  secret. A webhook with a secret and an empty URL is not checked.
\<close>
theorem webhook_wake_signed:
  assumes "webhook_api h objs tmpls" and "ServeHTTP h req n w = (r, w')" and "objs w' \<noteq> objs w"
  shows "\<exists>body wfl w1. hr_Body req = Some body \<and> wh_get h (request_namespace h req) n w = (Inr wfl, w1) \<and>
    (case src_Webhook (wspec_Source (wf_Spec wfl)) of
       None \<Rightarrow> True
     | Some wh \<Rightarrow> whs_URL wh = [] \<or> whs_SecretRef wh = None \<and> whs_Secret wh = [] \<or>
         (\<exists>secret. has_secret h (request_namespace h req) wh w1 secret \<and> carries_signature req body secret))"
proof -
  from webhook_api.serve_authentic [OF assms] obtain body wfl w1 w2
    where s: "hr_Body req = Some body" "wh_get h (request_namespace h req) n w = (Inr wfl, w1)"
      "authenticate h req (request_namespace h req) body wfl w1 = (None, w2)" by blast
  then show ?thesis using authenticate_secret [OF s(3)] by (cases "src_Webhook (wspec_Source (wf_Spec wfl))") auto
qed

text \<open>A board with one workflow, whose webhook has its secret in the cluster, and a merge request hook with the token.\<close>

definition hooked_workflow :: Workflow where
  "hooked_workflow = Workflow0\<lparr>wf_Name := ''w'', wf_Namespace := ''ns'', wf_Annotations := [(TriggerRepoAnnotation, ''github.com/o/old'')],
     wf_Spec := (wf_Spec Workflow0)\<lparr>wspec_Source := SourceSpec0\<lparr>src_Webhook :=
       Some \<lparr>whs_Secret = [], whs_SecretRef = Some \<lparr>sref_Name = ''hook'', sref_Key = ''key''\<rparr>, whs_URL = ''https://gitlab.com''\<rparr>\<rparr>\<rparr>\<rparr>"

definition hooked_board :: board where
  "hooked_board = \<lparr>bd_workflows = [hooked_workflow], bd_templates = []\<rparr>"

definition hooked_handler :: "board Handler" where
  "hooked_handler = board_handler
     (\<lambda>b. \<lparr>prb_Action = ''labeled'', prb_State = [], prb_SHA = [], prb_CheckSuite = [], prb_WorkflowRun = []\<rparr>) (\<lambda>b. None)
     (\<lambda>b. Some \<lparr>pre_Action = ''labeled'', pre_Number = 7, pre_PullNumber = 7, pre_Title = ''T'', pre_HeadSha = ''abc'',
       pre_FullName = ''o/r'', pre_HTMLURL = ''https://gitlab.com/o/r''\<rparr>)"

definition token_request :: Request where
  "token_request = \<lparr>hr_Method = ''POST'', hr_Body = Some ''{}'', hr_Namespace = [],
     hr_Header = (\<lambda>k. if k = ''X-Gitlab-Token'' then ''s3cret'' else [])\<rparr>"

lemma hooked_run:
  "map_option (\<lambda>c. annotation c TriggerPRAnnotation) (board_objs (snd (ServeHTTP hooked_handler token_request ''w'' hooked_board)) (''ns'', ''w'')) =
     Some ''gitlab.com/o/r#7''"
  by code_simp

lemma hooked_stored: "board_objs hooked_board (''ns'', ''w'') = Some hooked_workflow"
  by code_simp

theorem webhook_wake_signed_witness:
  "\<exists>secret. has_secret hooked_handler ''ns'' (the (src_Webhook (wspec_Source (wf_Spec hooked_workflow)))) hooked_board secret \<and>
     carries_signature token_request ''{}'' secret"
proof -
  obtain r w' where run: "ServeHTTP hooked_handler token_request ''w'' hooked_board = (r, w')" by (metis surj_pair)
  have a: "webhook_api hooked_handler board_objs board_tmpls" unfolding hooked_handler_def by (rule board.webhook_api_axioms)
  have "map_option (\<lambda>c. annotation c TriggerPRAnnotation) (Some hooked_workflow) \<noteq> Some ''gitlab.com/o/r#7''" by code_simp
  then have "board_objs w' \<noteq> board_objs hooked_board" using hooked_run hooked_stored unfolding run snd_conv by metis
  from webhook_wake_signed [OF a run this] obtain body wfl w1
    where s: "hr_Body token_request = Some body" "wh_get hooked_handler (request_namespace hooked_handler token_request) ''w'' hooked_board = (Inr wfl, w1)"
      "case src_Webhook (wspec_Source (wf_Spec wfl)) of None \<Rightarrow> True
       | Some wh \<Rightarrow> whs_URL wh = [] \<or> whs_SecretRef wh = None \<and> whs_Secret wh = [] \<or>
         (\<exists>secret. has_secret hooked_handler (request_namespace hooked_handler token_request) wh w1 secret \<and> carries_signature token_request body secret)"
    by blast
  have n: "request_namespace hooked_handler token_request = ''ns''" "body = ''{}''"
    using s(1) by (simp_all add: request_namespace_def hooked_handler_def board_handler_def token_request_def)
  have "wfl = hooked_workflow" "w1 = hooked_board" using s(2) hooked_stored unfolding n by (simp_all add: hooked_handler_def board_handler_def)
  then show ?thesis using s(3) n by (simp add: hooked_workflow_def)
qed

section \<open>What a wake publishes\<close>

lemma Contains_mid: "Contains (xs @ ''/'' @ ys) ''/''"
  by (induction xs) (auto simp: HasPrefix_def)

lemma normalizeRepo_slash: "Contains (normalizeRepo u n) ''/''"
  using Contains_mid [of "url_host u" n] Contains_mid [of "''github.com''" n] by (auto simp: normalizeRepo_def Let_def)

text \<open>
  C18. A pull request event reaches the gate: after a wake on a current read the controller publishes the pointer, the
  canonical action and the head of the event, the gate reads the pointer back, and the workflow is due unless
  that head was processed last. The repository of an earlier CI wake stays in the event, and its title too when the
  pull request has none.
\<close>
theorem pull_request_wake_published:
  assumes "webhook_api h objs tmpls" and "servePullRequest h wfl pre w = (r, w')" and "objs w' \<noteq> objs w"
    and "objs w (wf_Namespace wfl, wf_Name wfl) = Some b" and "map_of (wf_Annotations b) = map_of (wf_Annotations wfl)"
    and "repo = normalizeRepo (pre_HTMLURL pre) (pre_FullName pre)" and "0 < pr_number pre" "pr_number pre < 2 ^ 63"
  shows "\<exists>c. objs w' (wf_Namespace wfl, wf_Name wfl) = Some c \<and> wf_Spec c = wf_Spec b \<and> wf_Status c = wf_Status b \<and>
    (let ev = trigger_event c reason (wake_revision c) tp attempt in
       parsePRPointer (te_Pr ev) = Inr (repo, pr_number pre) \<and> te_Action ev = canonical_action (pre_Action pre) \<and>
       te_Action ev \<in> set PullRequestWakeActions \<and> te_Revision ev = pre_HeadSha pre \<and>
       te_PrTitle ev = (if pre_Title pre = [] then annotation b TriggerTitleAnnotation else pre_Title pre) \<and>
       te_Repo ev = annotation b TriggerRepoAnnotation) \<and>
    (webhook_due c \<longleftrightarrow> pre_HeadSha pre \<noteq> ws_LastProcessedRevision (wf_Status b))"
proof -
  have ok: "canonical_action (pre_Action pre) \<in> set PullRequestWakeActions" "pre_HeadSha pre \<noteq> []"
    "\<exists>t. annotate h wfl (pr_annotations repo pre (wf_Annotations wfl)) t w = (r, w')"
    using assms(2,3,6) by (auto simp: servePullRequest_def Let_def split: if_splits)
  then obtain c where c: "objs w' (wf_Namespace wfl, wf_Name wfl) = Some c" "wf_Spec c = wf_Spec b" "wf_Status c = wf_Status b"
    "map_of (wf_Annotations c) = map_of (pr_annotations repo pre (wf_Annotations wfl))"
    using webhook_api.annotate_fresh [OF assms(1) _ assms(3-5)] by blast
  have "Contains repo ''/''" using assms(6) normalizeRepo_slash by simp
  then have p: "parsePRPointer (repo @ ''#'' @ show_int (pr_number pre)) = Inr (repo, pr_number pre)"
    using pointer_roundtrip [of repo "pr_number pre"] assms(7,8) by (simp add: pointer_text_def)
  have a: "annotation c k = map_get (pr_annotations repo pre (wf_Annotations b)) k []" for k
    using c(4) assms(5) by (simp add: annotation_def map_get_def pr_annotations_def map_of_set Let_def)
  have v: "annotation c TriggerPRAnnotation = repo @ ''#'' @ show_int (pr_number pre)" "annotation c TriggerRevisionAnnotation = pre_HeadSha pre"
    "annotation c TriggerActionAnnotation = canonical_action (pre_Action pre)"
    "annotation c TriggerTitleAnnotation = (if pre_Title pre = [] then annotation b TriggerTitleAnnotation else pre_Title pre)"
    "annotation c TriggerRepoAnnotation = annotation b TriggerRepoAnnotation"
    unfolding a by (simp_all add: pr_annotations_def Let_def annotation_def)
  show ?thesis
    using c(1-3) ok(1,2) p by (intro exI [of _ c]) (simp add: trigger_event_def wake_revision_def webhook_due_def v Let_def)
qed

abbreviation (input) sample_pull :: PullRequestEvent where
  "sample_pull \<equiv> \<lparr>pre_Action = ''synchronized'', pre_Number = 7, pre_PullNumber = 7, pre_Title = [], pre_HeadSha = ''abc'',
     pre_FullName = ''o/r'', pre_HTMLURL = ''https://codeberg.org/o/r''\<rparr>"

lemma pull_run:
  "board_objs (snd (servePullRequest hooked_handler hooked_workflow sample_pull hooked_board)) (''ns'', ''w'') \<noteq> Some hooked_workflow"
  by code_simp

theorem pull_request_wake_published_witness:
  "\<exists>c. board_objs (snd (servePullRequest hooked_handler hooked_workflow sample_pull hooked_board)) (''ns'', ''w'') = Some c \<and>
     parsePRPointer (te_Pr (trigger_event c [] (wake_revision c) [] [])) = Inr (''codeberg.org/o/r'', 7) \<and>
     te_Action (trigger_event c [] (wake_revision c) [] []) = ''synchronize'' \<and>
     te_Repo (trigger_event c [] (wake_revision c) [] []) = ''github.com/o/old'' \<and> webhook_due c"
proof -
  obtain r w' where run: "servePullRequest hooked_handler hooked_workflow sample_pull hooked_board = (r, w')" by (metis surj_pair)
  have a: "webhook_api hooked_handler board_objs board_tmpls" unfolding hooked_handler_def by (rule board.webhook_api_axioms)
  have k: "wf_Namespace hooked_workflow = ''ns''" "wf_Name hooked_workflow = ''w''" "annotation hooked_workflow TriggerRepoAnnotation = ''github.com/o/old''"
    "ws_LastProcessedRevision (wf_Status hooked_workflow) = []"
    by (simp_all add: hooked_workflow_def workflow0_defs annotation_def map_get_def)
  have "board_objs w' \<noteq> board_objs hooked_board" using pull_run hooked_stored unfolding run snd_conv by metis
  moreover have "normalizeRepo ''https://codeberg.org/o/r'' ''o/r'' = ''codeberg.org/o/r''" by code_simp
  ultimately show ?thesis
    using pull_request_wake_published [OF a run _ _ refl refl, where reason = "[]" and tp = "[]" and attempt = "[]"] hooked_stored
    unfolding k run snd_conv by (auto simp: k Let_def pr_number_def canonical_action_def)
qed

text \<open>
  A CI completion reaches the gate by repository and head: after a wake on a current read the controller
  publishes the repository, the head and the completion action, without the pointer and the title of an earlier pull request
  event, and the workflow is due unless that head was processed last. Only completed suites and runs and terminal
  states wake.
\<close>
theorem ci_wake_published:
  assumes "webhook_api h objs tmpls" and "serveCIWake h wfl cie w = (r, w')" and "objs w' \<noteq> objs w"
    and "objs w (wf_Namespace wfl, wf_Name wfl) = Some b" and "map_of (wf_Annotations b) = map_of (wf_Annotations wfl)"
  shows "\<exists>c sha. objs w' (wf_Namespace wfl, wf_Name wfl) = Some c \<and> wf_Spec c = wf_Spec b \<and> wf_Status c = wf_Status b \<and>
    ci_head cie = Inr sha \<and> (cie_Action cie = ''completed'' \<or> cie_State cie \<in> {''success'', ''failure'', ''error''}) \<and>
    (let ev = trigger_event c reason (wake_revision c) tp attempt in
       te_Pr ev = [] \<and> te_PrTitle ev = [] \<and> te_Action ev = CIWakeAction \<and> te_Revision ev = sha \<and>
       te_Repo ev = normalizeRepo (cie_HTMLURL cie) (cie_FullName cie)) \<and>
    (webhook_due c \<longleftrightarrow> sha \<noteq> ws_LastProcessedRevision (wf_Status b))"
proof -
  let ?repo = "normalizeRepo (cie_HTMLURL cie) (cie_FullName cie)"
  obtain sha t where ok: "ci_head cie = Inr sha" "sha \<noteq> []" "annotate h wfl (ci_annotations sha ?repo (wf_Annotations wfl)) t w = (r, w')"
    using assms(2,3) by (auto simp: serveCIWake_def Let_def split: sum.splits if_splits)
  from webhook_api.annotate_fresh [OF assms(1) ok(3) assms(3-5)] obtain c
    where c: "objs w' (wf_Namespace wfl, wf_Name wfl) = Some c" "wf_Spec c = wf_Spec b" "wf_Status c = wf_Status b"
      "map_of (wf_Annotations c) = map_of (ci_annotations sha ?repo (wf_Annotations wfl))" by blast
  have d: "cie_Action cie = ''completed'' \<or> cie_State cie \<in> {''success'', ''failure'', ''error''}"
    using ok(1) by (auto simp: ci_head_def statusTerminalStates_def split: option.splits if_splits)
  have v: "annotation c TriggerPRAnnotation = []" "annotation c TriggerTitleAnnotation = []" "annotation c TriggerRevisionAnnotation = sha"
    "annotation c TriggerActionAnnotation = CIWakeAction" "annotation c TriggerRepoAnnotation = ?repo"
    by (simp_all add: annotation_def map_get_def c(4) ci_annotations_def delete_conv)
  show ?thesis
    using c(1-3) ok(1,2) d
    by (intro exI [of _ c] exI [of _ sha]) (simp add: trigger_event_def wake_revision_def webhook_due_def v Let_def)
qed

abbreviation (input) sample_suite :: CIEvent where
  "sample_suite \<equiv> \<lparr>cie_Action = ''completed'', cie_State = [], cie_SHA = ''abc'', cie_CheckSuite = Some [], cie_WorkflowRun = None,
     cie_FullName = ''o/r'', cie_HTMLURL = ''https://github.com/o/r''\<rparr>"

lemma suite_run:
  "board_objs (snd (serveCIWake hooked_handler hooked_workflow sample_suite hooked_board)) (''ns'', ''w'') \<noteq> Some hooked_workflow"
  by code_simp

theorem ci_wake_published_witness:
  "\<exists>c. board_objs (snd (serveCIWake hooked_handler hooked_workflow sample_suite hooked_board)) (''ns'', ''w'') = Some c \<and>
     te_Pr (trigger_event c [] (wake_revision c) [] []) = [] \<and> te_Revision (trigger_event c [] (wake_revision c) [] []) = ''abc'' \<and>
     te_Repo (trigger_event c [] (wake_revision c) [] []) = ''github.com/o/r'' \<and> webhook_due c"
proof -
  obtain r w' where run: "serveCIWake hooked_handler hooked_workflow sample_suite hooked_board = (r, w')" by (metis surj_pair)
  have a: "webhook_api hooked_handler board_objs board_tmpls" unfolding hooked_handler_def by (rule board.webhook_api_axioms)
  have k: "wf_Namespace hooked_workflow = ''ns''" "wf_Name hooked_workflow = ''w''" "ws_LastProcessedRevision (wf_Status hooked_workflow) = []"
    by (simp_all add: hooked_workflow_def workflow0_defs)
  have "board_objs w' \<noteq> board_objs hooked_board" using suite_run hooked_stored unfolding run snd_conv by metis
  moreover have "normalizeRepo ''https://github.com/o/r'' ''o/r'' = ''github.com/o/r''" by code_simp
  ultimately show ?thesis
    using ci_wake_published [OF a run _ _ refl, where reason = "[]" and tp = "[]" and attempt = "[]"] hooked_stored
    unfolding k run snd_conv by (auto simp: k Let_def ci_head_def)
qed

section \<open>Landings\<close>

text \<open>
  C28. A landing is proved and touches one annotation: when a request changed a template, the template declares a
  source with a secret, the request carries the signature of its body, the push is to the declared repository
  and branch with a real commit; the specification stays, and of the annotations only the pending landing may have changed,
  to the encoding of the landing.
\<close>
theorem landing_proved:
  assumes "webhook_api h objs tmpls" and "ServeTemplateLanding h req n w = (r, w')" and "tmpls w' \<noteq> tmpls w"
  shows "\<exists>body tmpl src ref m push b c raw w1 w2 w3. hr_Body req = Some body \<and>
    wh_getTemplate h (request_namespace h req) n w = (Inr tmpl, w1) \<and>
    wts_Source (tmpl_Spec tmpl) = Some src \<and> tss_SecretRef src = Some ref \<and>
    wh_getSecret h (request_namespace h req) (sref_Name ref) w1 = (Inr m, w2) \<and>
    map_get m (sref_Key ref) [] \<noteq> [] \<and> carries_signature req body (map_get m (sref_Key ref) []) \<and>
    wh_decPush h body = Some push \<and> landing_in_scope src push \<and> push_After push \<notin> {[], zero_sha} \<and>
    tmpls w (request_namespace h req, n) = Some b \<and> tmpls w' = (tmpls w)((request_namespace h req, n) \<mapsto> c) \<and>
    tmpl_Spec c = tmpl_Spec b \<and> wh_encLanding h (landing_of push (wh_now h w3)) = Some raw \<and>
    (\<forall>k. map_of (tmpl_Annotations c) k = map_of (tmpl_Annotations b) k \<or>
       k = TemplatePendingLandingAnnotation \<and> map_of (tmpl_Annotations c) k = Some raw)"
proof -
  let ?ns = "request_namespace h req"
  obtain body tmpl w1 where s: "hr_Body req = Some body" "wh_getTemplate h ?ns n w = (Inr tmpl, w1)"
    "land_template h req ?ns body tmpl w1 = (r, w')" "tmpls w1 = tmpls w" "tmpl_Name tmpl = n"
    using webhook_api.serve_landing [OF assms] by blast
  then obtain src ref m w2 where l: "wts_Source (tmpl_Spec tmpl) = Some src" "tss_SecretRef src = Some ref"
    "wh_getSecret h ?ns (sref_Name ref) w1 = (Inr m, w2)" "map_get m (sref_Key ref) [] \<noteq> []"
    "verifySignature req body (map_get m (sref_Key ref) [])" "land_push h ?ns tmpl src body w2 = (r, w')" "tmpls w2 = tmpls w"
    using webhook_api.land_authentic [OF assms(1) s(3)] assms(3) by metis
  then obtain push where p: "wh_decPush h body = Some push" "landing_in_scope src push" "push_After push \<notin> {[], zero_sha}"
    "stash_landing h ?ns tmpl push w2 = (r, w')"
    using webhook_api.land_push_stored [OF assms(1) l(6)] assms(3) by metis
  have "tmpls w' \<noteq> tmpls w2" using assms(3) l(7) by simp
  from webhook_api.stash_stored [OF assms(1) p(4) this] obtain raw b anns where t: "wh_encLanding h (landing_of push (wh_now h w2)) = Some raw" "tmpls w2 (?ns, tmpl_Name tmpl) = Some b"
    "tmpls w' = (tmpls w2)((?ns, tmpl_Name tmpl) \<mapsto> b\<lparr>tmpl_Annotations := anns\<rparr>)"
    "map_of anns = (\<lambda>k. merged (map_of (tmpl_Annotations tmpl) k)
      (map_of (map_set TemplatePendingLandingAnnotation raw (tmpl_Annotations tmpl)) k) (map_of (tmpl_Annotations b) k))"
    by blast
  have k: "map_of anns k = map_of (tmpl_Annotations b) k \<or> k = TemplatePendingLandingAnnotation \<and> map_of anns k = Some raw" for k
    by (simp add: t(4) merged_def)
  show ?thesis
    by (rule exI [of _ body], rule exI [of _ tmpl], rule exI [of _ src], rule exI [of _ ref], rule exI [of _ m], rule exI [of _ push],
        rule exI [of _ b], rule exI [of _ "b\<lparr>tmpl_Annotations := anns\<rparr>"], rule exI [of _ raw], rule exI [of _ w1], rule exI [of _ w2],
        rule exI [of _ w2]) (use s l p(1-3) t k verify_signed in simp)
qed

definition landed_template :: template where
  "landed_template = \<lparr>tmpl_Name = ''t'', tmpl_Annotations = [],
     tmpl_Spec = overlay_template\<lparr>wts_Source := Some \<lparr>tss_Forge = ''gitlab'', tss_Repo = ''o/templates'', tss_Path = ''t.yaml'', tss_Branch = [],
       tss_SecretRef = Some \<lparr>sref_Name = ''hook'', sref_Key = ''key''\<rparr>\<rparr>\<rparr>\<rparr>"

definition landing_board :: board where
  "landing_board = \<lparr>bd_workflows = [], bd_templates = [(''ns'', landed_template)]\<rparr>"

definition landing_handler :: "board Handler" where
  "landing_handler = board_handler
     (\<lambda>b. \<lparr>prb_Action = [], prb_State = [], prb_SHA = [], prb_CheckSuite = [], prb_WorkflowRun = []\<rparr>)
     (\<lambda>b. Some \<lparr>push_Ref = ''refs/heads/main'', push_FullName = ''O/Templates'', push_After = ''abc'', push_Pusher = ''dev''\<rparr>) (\<lambda>b. None)"

lemma landing_run:
  "map_option (\<lambda>c. map_get (tmpl_Annotations c) TemplatePendingLandingAnnotation [])
     (board_tmpls (snd (ServeTemplateLanding landing_handler token_request ''t'' landing_board)) (''ns'', ''t'')) = Some ''abc''"
  by code_simp

lemma landing_stored: "board_tmpls landing_board (''ns'', ''t'') = Some landed_template"
  by code_simp

theorem landing_proved_witness:
  "\<exists>secret c. carries_signature token_request ''{}'' secret \<and>
     board_tmpls (snd (ServeTemplateLanding landing_handler token_request ''t'' landing_board)) (''ns'', ''t'') = Some c \<and>
     tmpl_Spec c = tmpl_Spec landed_template"
proof -
  obtain r w' where run: "ServeTemplateLanding landing_handler token_request ''t'' landing_board = (r, w')" by (metis surj_pair)
  have a: "webhook_api landing_handler board_objs board_tmpls" unfolding landing_handler_def by (rule board.webhook_api_axioms)
  have "map_option (\<lambda>c. map_get (tmpl_Annotations c) TemplatePendingLandingAnnotation []) (Some landed_template) \<noteq> Some ''abc''" by code_simp
  then have ch: "board_tmpls w' \<noteq> board_tmpls landing_board" using landing_run landing_stored unfolding run snd_conv by metis
  have n: "request_namespace landing_handler token_request = ''ns''" "hr_Body token_request = Some ''{}''"
    by (simp_all add: request_namespace_def landing_handler_def board_handler_def token_request_def)
  from landing_proved [OF a run ch] obtain body secret b c
    where "hr_Body token_request = Some body" "carries_signature token_request body secret" "board_tmpls landing_board (''ns'', ''t'') = Some b"
      "board_tmpls w' = (board_tmpls landing_board)((''ns'', ''t'') \<mapsto> c)" "tmpl_Spec c = tmpl_Spec b"
    unfolding n(1) by blast
  then show ?thesis unfolding run snd_conv by (intro exI [of _ secret] exI [of _ c]) (simp add: n(2) landing_stored)
qed

end
