(* ===== verification/Timeline.thy ===== *)
theory Timeline
  imports Dispatch Gate_Theorems
begin

text \<open>
  The evidence stream of an Attempt (\<^verbatim>\<open>internal/timeline/timeline.go\<close>): a writer that appends events under
  numbered keys of the state store, and a reader that probes the numbers in batches. The Dapr client
  and the JSON codec are parameters; the writer is the record it mutates. The probing loop has no bound of its own, so it
  is a partial function whose \<^const>\<open>None\<close> is a loop that never ends.
\<close>

section \<open>Writing\<close>

abbreviation (input) KeyPrefix :: string where "KeyPrefix \<equiv> ''timeline/''"
abbreviation (input) DefaultTTL :: duration where "DefaultTTL \<equiv> 7 * 24 * hour"
abbreviation (input) GateTTL :: duration where "GateTTL \<equiv> 48 * hour"

record Event =
  ev_At :: instant
  ev_Attempt :: string
  ev_Workflow :: string
  ev_Run :: string
  ev_Node :: string
  ev_Kind :: string
  ev_Subject :: TimelineSubject
  ev_Payload :: string

record 'w state_client =
  sc_save :: "string \<Rightarrow> string \<Rightarrow> string \<Rightarrow> duration \<Rightarrow> 'w \<Rightarrow> string option \<times> 'w"
  sc_bulk :: "string \<Rightarrow> string list \<Rightarrow> 'w \<Rightarrow> (string + (string, string) gomap) \<times> 'w"
  sc_now :: "'w \<Rightarrow> instant"

record event_codec =
  tc_encEvent :: "Event \<Rightarrow> string + string"
  tc_decEvent :: "string \<Rightarrow> Event option"
  tc_encSubject :: "TimelineSubject \<Rightarrow> string + string"
  tc_decSubject :: "string \<Rightarrow> TimelineSubject option"

record DaprWriter =
  tw_store :: string
  tw_attempt :: string
  tw_workflow :: string
  tw_run :: string
  tw_subject :: TimelineSubject
  tw_ttl :: duration
  tw_seq :: int
  tw_prefixOverride :: string

definition NewWriter :: "string \<Rightarrow> string \<Rightarrow> string \<Rightarrow> string \<Rightarrow> TimelineSubject \<Rightarrow> DaprWriter" where
  "NewWriter store attempt workflow run subject =
     \<lparr>tw_store = store, tw_attempt = attempt, tw_workflow = workflow, tw_run = run, tw_subject = subject, tw_ttl = DefaultTTL,
      tw_seq = 0, tw_prefixOverride = []\<rparr>"

text \<open>\<^verbatim>\<open>UnixNano\<close> counts from 1970, the model from year 1.\<close>

definition UnixNano :: "instant \<Rightarrow> int" where
  "UnixNano t = t - 62135596800 * second"

definition NewGateWriter :: "string \<Rightarrow> string \<Rightarrow> string \<Rightarrow> TimelineSubject \<Rightarrow> instant \<Rightarrow> DaprWriter" where
  "NewGateWriter store workflow attempt subject now =
     (let ns = (if attempt = [] then ''gate- orphan/'' @ workflow @ ''/'' @ show_int (UnixNano now) else attempt)
      in \<lparr>tw_store = store, tw_attempt = [], tw_workflow = workflow, tw_run = [], tw_subject = subject, tw_ttl = GateTTL,
          tw_seq = 0, tw_prefixOverride = ns @ ''/gate''\<rparr>)"

definition SaveSubject :: "'w state_client option \<Rightarrow> event_codec \<Rightarrow> DaprWriter \<Rightarrow> 'w \<Rightarrow> string option \<times> 'w" where
  "SaveSubject client cd tw w =
     (case client of
        None \<Rightarrow> (None, w)
      | Some c \<Rightarrow>
          if tw_prefixOverride tw \<noteq> [] then (None, w)
          else (case tc_encSubject cd (tw_subject tw) of
                  Inl e \<Rightarrow> (Some e, w)
                | Inr b \<Rightarrow> sc_save c (tw_store tw) (KeyPrefix @ tw_attempt tw @ ''/subject'') b (tw_ttl tw) w))"

definition run_prefix :: "string \<Rightarrow> string \<Rightarrow> string" where
  "run_prefix attempt run = KeyPrefix @ attempt @ ''/'' @ run @ ''/''"

definition gate_prefix :: "string \<Rightarrow> string" where
  "gate_prefix owner = KeyPrefix @ owner @ ''/''"

definition event_key :: "DaprWriter \<Rightarrow> string" where
  "event_key tw =
     (if tw_prefixOverride tw \<noteq> [] then gate_prefix (tw_prefixOverride tw) else run_prefix (tw_attempt tw) (tw_run tw)) @
     pad_int 6 (tw_seq tw)"

definition event_of :: "DaprWriter \<Rightarrow> instant \<Rightarrow> string \<Rightarrow> string \<Rightarrow> string \<Rightarrow> Event" where
  "event_of tw now kind node payload =
     \<lparr>ev_At = now, ev_Attempt = tw_attempt tw, ev_Workflow = tw_workflow tw, ev_Run = tw_run tw, ev_Node = node, ev_Kind = kind,
      ev_Subject = tw_subject tw, ev_Payload = payload\<rparr>"

text \<open>
  A payload is \<^const>\<open>None\<close> for \<^verbatim>\<open>nil\<close>, otherwise its encoding or the error of it. The number is spent even when the
  event is not saved.
\<close>

definition Emit :: "'w state_client option \<Rightarrow> event_codec \<Rightarrow> string \<Rightarrow> string \<Rightarrow> (string + string) option \<Rightarrow> DaprWriter \<Rightarrow> 'w \<Rightarrow>
   string option \<times> DaprWriter \<times> 'w" where
  "Emit client cd kind node payload tw w =
     (case client of
        None \<Rightarrow> (None, tw, w)
      | Some c \<Rightarrow>
          (let tw1 = tw\<lparr>tw_seq := tw_seq tw + 1\<rparr> in
           case (case payload of None \<Rightarrow> Inr [] | Some p \<Rightarrow> p) of
             Inl e \<Rightarrow> (Some e, tw1, w)
           | Inr p \<Rightarrow>
               (case tc_encEvent cd (event_of tw1 (sc_now c w) kind node p) of
                  Inl e \<Rightarrow> (Some e, tw1, w)
                | Inr b \<Rightarrow> (case sc_save c (tw_store tw) (event_key tw1) b (tw_ttl tw) w of (e, w1) \<Rightarrow> (e, tw1, w1)))))"

section \<open>Reading\<close>

abbreviation (input) probeBatch :: nat where "probeBatch \<equiv> 64"

record Filter =
  fl_KindPrefix :: string
  fl_Node :: string
  fl_Limit :: int

definition hasKindPrefix :: "string \<Rightarrow> string \<Rightarrow> bool" where
  "hasKindPrefix kind prefix = (if length kind < length prefix then False else take (length prefix) kind = prefix)"

definition kept :: "Filter \<Rightarrow> Event \<Rightarrow> bool" where
  "kept f ev \<longleftrightarrow> \<not> (fl_KindPrefix f \<noteq> [] \<and> \<not> hasKindPrefix (ev_Kind ev) (fl_KindPrefix f)) \<and> \<not> (fl_Node f \<noteq> [] \<and> ev_Node ev \<noteq> fl_Node f)"

definition applyFilter :: "Event list \<Rightarrow> Filter \<Rightarrow> Event list" where
  "applyFilter events f =
     (let sorted = sort_key ev_At events; out = filter (kept f) sorted in
      if fl_KindPrefix f = [] \<and> fl_Node f = [] \<and> fl_Limit f = 0 then sorted
      else if 0 < fl_Limit f \<and> fl_Limit f < int (length out) then drop (length out - nat (fl_Limit f)) out
      else out)"

definition batch_keys :: "string \<Rightarrow> nat \<Rightarrow> string list" where
  "batch_keys prefix base = map (\<lambda>i. prefix @ pad_int 6 (int (base + i + 1))) [0..<probeBatch]"

text \<open>The texts that a batch found, in the order of the keys.\<close>

definition batch_hits :: "string list \<Rightarrow> (string, string) gomap \<Rightarrow> string list" where
  "batch_hits keys vals = filter (\<lambda>v. v \<noteq> []) (map (\<lambda>k. map_get vals k []) keys)"

partial_function (option) probe_loop ::
  "'w state_client \<Rightarrow> event_codec \<Rightarrow> string \<Rightarrow> string \<Rightarrow> nat \<Rightarrow> Event list \<Rightarrow> 'w \<Rightarrow> ((string + Event list) \<times> 'w) option" where
  "probe_loop c cd store prefix base events w =
     (case sc_bulk c store (batch_keys prefix base) w of
        (Inl e, w1) \<Rightarrow> Some (Inl e, w1)
      | (Inr vals, w1) \<Rightarrow>
          (let hits = batch_hits (batch_keys prefix base) vals; events' = events @ List.map_filter (tc_decEvent cd) hits in
           if hits = [] then Some (Inr events', w1)
           else probe_loop c cd store prefix (base + probeBatch) events' w1))"

fun probe_runs ::
  "'w state_client \<Rightarrow> event_codec \<Rightarrow> string \<Rightarrow> string \<Rightarrow> string list \<Rightarrow> Event list \<Rightarrow> 'w \<Rightarrow> ((string + Event list) \<times> 'w) option" where
  "probe_runs c cd store attempt [] events w = Some (Inr events, w)"
| "probe_runs c cd store attempt (run # runs) events w =
     (case probe_loop c cd store (run_prefix attempt run) 0 events w of
        None \<Rightarrow> None
      | Some (Inl e, w1) \<Rightarrow> Some (Inl e, w1)
      | Some (Inr events', w1) \<Rightarrow> probe_runs c cd store attempt runs events' w1)"

definition Reader_Attempt ::
  "'w state_client \<Rightarrow> event_codec \<Rightarrow> string \<Rightarrow> string \<Rightarrow> string list \<Rightarrow> Filter \<Rightarrow> 'w \<Rightarrow> ((string + Event list) \<times> 'w) option" where
  "Reader_Attempt c cd store attempt runs f w =
     map_option (apfst (map_sum id (\<lambda>events. applyFilter events f))) (probe_runs c cd store attempt runs [] w)"

definition GateEvents ::
  "'w state_client \<Rightarrow> event_codec \<Rightarrow> string \<Rightarrow> string \<Rightarrow> Filter \<Rightarrow> 'w \<Rightarrow> ((string + Event list) \<times> 'w) option" where
  "GateEvents c cd store attempt f w =
     map_option (apfst (map_sum id (\<lambda>events. applyFilter events f))) (probe_loop c cd store (run_prefix attempt ''gate'') 0 [] w)"

definition subject_entry :: "event_codec \<Rightarrow> (string, string) gomap \<Rightarrow> string \<Rightarrow> (string, TimelineSubject) gomap \<Rightarrow> (string, TimelineSubject) gomap" where
  "subject_entry cd vals a out =
     (let v = map_get vals (KeyPrefix @ a @ ''/subject'') [] in
      if v = [] then out else (case tc_decSubject cd v of None \<Rightarrow> out | Some s \<Rightarrow> map_set a s out))"

definition Subjects ::
  "'w state_client \<Rightarrow> event_codec \<Rightarrow> string \<Rightarrow> string list \<Rightarrow> 'w \<Rightarrow> (string + (string, TimelineSubject) gomap) \<times> 'w" where
  "Subjects c cd store attempts w =
     (if attempts = [] then (Inr [], w)
      else (case sc_bulk c store (map (\<lambda>a. KeyPrefix @ a @ ''/subject'') attempts) w of
              (Inl e, w1) \<Rightarrow> (Inl e, w1)
            | (Inr vals, w1) \<Rightarrow> (Inr (fold (subject_entry cd vals) attempts []), w1)))"

lemmas [model_defs] = NewWriter_def UnixNano_def NewGateWriter_def SaveSubject_def run_prefix_def gate_prefix_def event_key_def
  event_of_def Emit_def hasKindPrefix_def kept_def applyFilter_def batch_keys_def batch_hits_def Reader_Attempt_def GateEvents_def
  subject_entry_def Subjects_def

section \<open>The store\<close>

text \<open>
  The contract of the state store: \<open>kv\<close> is its content as a read sees it, an absent key may come back empty; a
  failed call may or may not have written its own key, and nothing else changes.
\<close>

locale state_store =
  fixes c :: "'w state_client"
    and kv :: "'w \<Rightarrow> string \<Rightarrow> string \<Rightarrow> string"
  assumes save_ok: "sc_save c store key v ttl w = (None, w') \<Longrightarrow> kv w' = (kv w)(store := (kv w store)(key := v))"
    and bulk_ok: "sc_bulk c store keys w = (Inr vals, w') \<Longrightarrow>
      kv w' = kv w \<and> (k \<in> set keys \<longrightarrow> map_get vals k [] = kv w store k)"
begin

lemma hits_stored:
  assumes "sc_bulk c store (batch_keys prefix base) w = (Inr vals, w')"
  shows "batch_hits (batch_keys prefix base) vals = filter (\<lambda>v. v \<noteq> []) (map (kv w store) (batch_keys prefix base))"
proof -
  have "map (\<lambda>k. map_get vals k []) (batch_keys prefix base) = map (kv w store) (batch_keys prefix base)"
    using bulk_ok [OF assms] by (auto intro: map_cong)
  then show ?thesis unfolding batch_hits_def by (rule arg_cong)
qed

end

end
