(* ===== verification/Timeline_Theorems.thy ===== *)
theory Timeline_Theorems
  imports Timeline
begin

text \<open>
  What the reader finds of what writers wrote. A keyspace is the list of the texts under the numbers one, two and so on
  of a prefix; writers that start anew at one write over it.
\<close>

section \<open>Keys\<close>

declare show_nat.simps [simp del]

lemma digits_zeros: "digits_value (replicate k (CHR ''0'') @ ds) = digits_value ds"
  by (induction k) (auto simp: digits_value_def)

lemma pad_int_value: "digits_value (pad_int k (int n)) = n"
  using show_nat_digits [of n] by (simp add: pad_int_def Let_def digits_zeros show_int_def)

lemma pad_int_inj: "pad_int k (int a) = pad_int k (int b) \<longleftrightarrow> a = b"
  by (metis pad_int_value)

abbreviation (input) numbered :: "string \<Rightarrow> nat \<Rightarrow> string" where
  "numbered prefix i \<equiv> prefix @ pad_int 6 (int (Suc i))"

lemma numbered_inj: "numbered prefix i = numbered prefix j \<longleftrightarrow> i = j"
  using pad_int_inj [of 6 "Suc i" "Suc j"] by simp

definition keyspace :: "(string \<Rightarrow> string) \<Rightarrow> string \<Rightarrow> string list \<Rightarrow> bool" where
  "keyspace kvs prefix ts \<longleftrightarrow> (\<forall>i. kvs (numbered prefix i) = (if i < length ts then ts ! i else [])) \<and> [] \<notin> set ts"

text \<open>Writing number \<open>s\<close>.\<close>

lemma keyspace_put:
  assumes "keyspace kvs prefix ts" and "s \<le> length ts" and "b \<noteq> []"
  shows "keyspace (kvs(numbered prefix s := b)) prefix (take s ts @ b # drop (Suc s) ts)"
proof -
  let ?ts = "take s ts @ b # drop (Suc s) ts"
  have "(kvs(numbered prefix s := b)) (numbered prefix i) = (if i < length ?ts then ?ts ! i else [])" for i
  proof (cases "i = s")
    case True
    then show ?thesis using assms(2) by (simp add: nth_append)
  next
    case False
    then have "(kvs(numbered prefix s := b)) (numbered prefix i) = kvs (numbered prefix i)" using numbered_inj [of prefix i s] by simp
    also have "\<dots> = (if i < length ts then ts ! i else [])" using assms(1) by (simp add: keyspace_def)
    also have "\<dots> = (if i < length ?ts then ?ts ! i else [])"
      using False assms(2) by (auto simp: nth_append nth_Cons' min_def)
    finally show ?thesis .
  qed
  moreover have "[] \<notin> set ?ts" using assms(1,3) by (auto simp: keyspace_def dest: in_set_takeD in_set_dropD)
  ultimately show ?thesis by (simp add: keyspace_def)
qed

lemma filter_nonempty_take:
  assumes "[] \<notin> set ts"
  shows "filter (\<lambda>v. v \<noteq> []) (map (\<lambda>i. if i < length ts then ts ! i else []) [0..<k]) = take k ts"
proof (induction k)
  case (Suc k)
  show ?case
  proof (cases "k < length ts")
    case True
    then have "ts ! k \<noteq> []" using assms nth_mem by force
    then show ?thesis using True Suc by (simp add: take_Suc_conv_app_nth)
  next
    case False
    then show ?thesis using Suc by simp
  qed
qed simp

text \<open>The texts of one batch of a keyspace.\<close>

lemma batch_texts:
  assumes "keyspace kvs prefix ts"
  shows "filter (\<lambda>v. v \<noteq> []) (map kvs (batch_keys prefix base)) = take probeBatch (drop base ts)"
proof -
  have "kvs (numbered prefix (base + i)) = (if base + i < length ts then ts ! (base + i) else [])" for i
    using assms unfolding keyspace_def by blast
  then have "map kvs (batch_keys prefix base) = map (\<lambda>i. if i < length (drop base ts) then drop base ts ! i else []) [0..<probeBatch]"
    unfolding batch_keys_def map_map by (intro map_cong) (auto simp del: of_nat_Suc of_nat_add)
  moreover have "[] \<notin> set (drop base ts)" using assms by (auto simp: keyspace_def dest: in_set_dropD)
  ultimately show ?thesis using filter_nonempty_take [of "drop base ts" probeBatch] by argo
qed

section \<open>Writers\<close>

text \<open>A writer that emits a list of events: the error of each call with the event it was for.\<close>

fun emit_all :: "'w state_client \<Rightarrow> event_codec \<Rightarrow> (string \<times> string \<times> (string + string) option) list \<Rightarrow> DaprWriter \<Rightarrow> 'w \<Rightarrow>
   (string option \<times> Event) list \<times> DaprWriter \<times> 'w" where
  "emit_all c cd [] tw w = ([], tw, w)"
| "emit_all c cd ((kind, node, payload) # xs) tw w =
     (case Emit (Some c) cd kind node payload tw w of
        (e, tw1, w1) \<Rightarrow>
          (case emit_all c cd xs tw1 w1 of
             (es, tw2, w2) \<Rightarrow>
               ((e, event_of tw1 (sc_now c w) kind node (case payload of Some (Inr p) \<Rightarrow> p | u \<Rightarrow> [])) # es, tw2, w2)))"

abbreviation all_saved :: "(string option \<times> Event) list \<Rightarrow> bool" where
  "all_saved es \<equiv> list_all (\<lambda>x. fst x = None) es"

text \<open>The law of the JSON codec: an encoded event is a text that decodes to the event.\<close>

definition event_law :: "event_codec \<Rightarrow> bool" where
  "event_law cd \<longleftrightarrow> (\<forall>ev b. tc_encEvent cd ev = Inr b \<longrightarrow> b \<noteq> [] \<and> tc_decEvent cd b = Some ev)"

definition writer_prefix :: "DaprWriter \<Rightarrow> string" where
  "writer_prefix tw = (if tw_prefixOverride tw \<noteq> [] then gate_prefix (tw_prefixOverride tw) else run_prefix (tw_attempt tw) (tw_run tw))"

lemma map_filter_decoded: "map (tc_decEvent cd) bs = map (\<lambda>x. Some (f x)) es \<Longrightarrow> List.map_filter (tc_decEvent cd) bs = map f es"
proof (induction bs arbitrary: es)
  case (Cons b bs)
  then show ?case by (cases es) (auto simp: List.map_filter_simps)
qed (simp add: List.map_filter_simps)

lemma map_filter_append: "List.map_filter f (xs @ ys) = List.map_filter f xs @ List.map_filter f ys"
  by (simp add: List.map_filter_def)

text \<open>The texts of one batch.\<close>

definition batch_at :: "(string \<Rightarrow> string) \<Rightarrow> string \<Rightarrow> nat \<Rightarrow> string list" where
  "batch_at kvs prefix base = filter (\<lambda>v. v \<noteq> []) (map kvs (batch_keys prefix base))"

text \<open>The contract of a store whose reads succeed.\<close>

locale readable_store = state_store c kv for c :: "'w state_client" and kv +
  assumes bulk_total: "\<exists>vals w'. sc_bulk c store keys w = (Inr vals, w')"
begin

lemma emit_stored:
  assumes "Emit (Some c) cd kind node payload tw w = (None, tw1, w1)" and "event_law cd"
    and "keyspace (kv w (tw_store tw)) (writer_prefix tw) ts" and "tw_seq tw = int s" "s \<le> length ts"
  shows "\<exists>b. tc_decEvent cd b = Some (event_of tw1 (sc_now c w) kind node (case payload of Some (Inr p) \<Rightarrow> p | u \<Rightarrow> [])) \<and>
    keyspace (kv w1 (tw_store tw)) (writer_prefix tw) (take s ts @ b # drop (Suc s) ts) \<and> tw1 = tw\<lparr>tw_seq := int (Suc s)\<rparr>"
proof -
  let ?tw1 = "tw\<lparr>tw_seq := tw_seq tw + 1\<rparr>"
  obtain p where q: "(case payload of None \<Rightarrow> Inr [] | Some q \<Rightarrow> q) = (Inr p :: string + string)"
    using assms(1) by (cases "(case payload of None \<Rightarrow> Inr [] | Some q \<Rightarrow> q) :: string + string") (simp_all add: Emit_def Let_def)
  obtain b where b: "tc_encEvent cd (event_of ?tw1 (sc_now c w) kind node p) = Inr b"
    using assms(1) q by (cases "tc_encEvent cd (event_of ?tw1 (sc_now c w) kind node p)") (simp_all add: Emit_def Let_def)
  have sv: "sc_save c (tw_store tw) (event_key ?tw1) b (tw_ttl tw) w = (None, w1)" "tw1 = ?tw1"
    using assms(1) q b by (simp_all add: Emit_def Let_def split: prod.splits)
  have k: "event_key ?tw1 = numbered (writer_prefix tw) s" using assms(4) by (simp add: event_key_def writer_prefix_def add.commute)
  have p: "p = (case payload of Some (Inr q) \<Rightarrow> q | u \<Rightarrow> [])" using q by (auto split: option.splits sum.splits)
  have e: "b \<noteq> []" "tc_decEvent cd b = Some (event_of tw1 (sc_now c w) kind node p)"
    using assms(2) b sv(2) unfolding event_law_def by blast+
  have "kv w1 (tw_store tw) = (kv w (tw_store tw))(numbered (writer_prefix tw) s := b)" using save_ok [OF sv(1)] k by simp
  then have "keyspace (kv w1 (tw_store tw)) (writer_prefix tw) (take s ts @ b # drop (Suc s) ts)"
    using keyspace_put [OF assms(3,5) e(1)] by simp
  then show ?thesis using e(2) sv(2) p assms(4) by (intro exI [of _ b]) simp
qed

lemma writer_prefix_seq [simp]: "writer_prefix (tw\<lparr>tw_seq := s\<rparr>) = writer_prefix tw"
  by (simp add: writer_prefix_def)

lemma emit_all_stored:
  assumes "event_law cd"
  shows "emit_all c cd xs tw w = (es, tw', w') \<Longrightarrow> all_saved es \<Longrightarrow> keyspace (kv w (tw_store tw)) (writer_prefix tw) ts \<Longrightarrow>
    tw_seq tw = int s \<Longrightarrow> s \<le> length ts \<Longrightarrow>
    \<exists>bs. map (tc_decEvent cd) bs = map (\<lambda>x. Some (snd x)) es \<and>
      keyspace (kv w' (tw_store tw)) (writer_prefix tw) (take s ts @ bs @ drop (s + length bs) ts)"
proof (induction xs arbitrary: tw w ts s es)
  case Nil
  then show ?case by (intro exI [of _ "[]"]) simp
next
  case (Cons x xs)
  obtain kind node payload where x: "x = (kind, node, payload)" by (cases x)
  obtain e tw1 w1 where m: "Emit (Some c) cd kind node payload tw w = (e, tw1, w1)" by (metis surj_pair)
  obtain fs where f: "emit_all c cd xs tw1 w1 = (fs, tw', w')"
    and es: "es = (e, event_of tw1 (sc_now c w) kind node (case payload of Some (Inr p) \<Rightarrow> p | u \<Rightarrow> [])) # fs"
    using Cons.prems(1) x m by (auto split: prod.splits)
  have "e = None" using Cons.prems(2) es by simp
  with emit_stored [OF _ assms Cons.prems(3-5)] m obtain b
    where d: "tc_decEvent cd b = Some (event_of tw1 (sc_now c w) kind node (case payload of Some (Inr p) \<Rightarrow> p | u \<Rightarrow> []))"
      and k: "keyspace (kv w1 (tw_store tw)) (writer_prefix tw) (take s ts @ b # drop (Suc s) ts)" and t: "tw1 = tw\<lparr>tw_seq := int (Suc s)\<rparr>"
    by blast
  define ts1 where "ts1 = take s ts @ b # drop (Suc s) ts"
  have "all_saved fs" using Cons.prems(2) es by simp
  from Cons.IH [OF f this, of ts1 "Suc s"] k t Cons.prems(5) obtain bs where bs: "map (tc_decEvent cd) bs = map (\<lambda>x. Some (snd x)) fs"
    "keyspace (kv w' (tw_store tw)) (writer_prefix tw) (take (Suc s) ts1 @ bs @ drop (Suc s + length bs) ts1)"
    unfolding ts1_def by auto
  have "take (Suc s) ts1 @ bs @ drop (Suc s + length bs) ts1 = take s ts @ (b # bs) @ drop (s + length (b # bs)) ts"
    using Cons.prems(5) by (simp add: ts1_def min_def add.commute)
  then show ?case using bs d es by (intro exI [of _ "b # bs"]) simp
qed

section \<open>The reader\<close>

lemma probe_keyspace:
  "keyspace (kv w store) prefix ts \<Longrightarrow>
   \<exists>w'. probe_loop c cd store prefix base events w = Some (Inr (events @ List.map_filter (tc_decEvent cd) (drop base ts)), w')"
proof (induction "length ts - base" arbitrary: base events w rule: less_induct)
  case less
  obtain vals w1 where b: "sc_bulk c store (batch_keys prefix base) w = (Inr vals, w1)" using bulk_total by metis
  have h: "batch_hits (batch_keys prefix base) vals = take probeBatch (drop base ts)"
    using hits_stored [OF b] batch_texts [OF less.prems] by simp
  have k: "keyspace (kv w1 store) prefix ts" using less.prems bulk_ok [OF b] by simp
  show ?case
  proof (cases "base < length ts")
    case False
    then show ?thesis using b h by (subst probe_loop.simps) (simp add: Let_def List.map_filter_simps)
  next
    case True
    let ?more = "List.map_filter (tc_decEvent cd) (take probeBatch (drop base ts))"
    have "length ts - (base + probeBatch) < length ts - base" using True by simp
    from less.hyps [OF this k, of "events @ ?more"]
    obtain w' where "probe_loop c cd store prefix (base + probeBatch) (events @ ?more) w1 =
        Some (Inr ((events @ ?more) @ List.map_filter (tc_decEvent cd) (drop (base + probeBatch) ts)), w')" by blast
    moreover have "?more @ List.map_filter (tc_decEvent cd) (drop (base + probeBatch) ts) = List.map_filter (tc_decEvent cd) (drop base ts)"
      by (metis append_take_drop_id drop_drop map_filter_append add.commute)
    ultimately show ?thesis using True b h by (subst probe_loop.simps) (auto simp: Let_def)
  qed
qed

text \<open>
  In any store the walk ends before the first batch without data, when there is one: it finds the texts of
  the batches before it.
\<close>

lemma probe_frontier:
  "batch_at (kv w store) prefix (base + probeBatch * n) = [] \<Longrightarrow>
   (\<And>i. i < n \<Longrightarrow> batch_at (kv w store) prefix (base + probeBatch * i) \<noteq> []) \<Longrightarrow>
   \<exists>w'. probe_loop c cd store prefix base events w =
     Some (Inr (events @ List.map_filter (tc_decEvent cd) (concat (map (\<lambda>i. batch_at (kv w store) prefix (base + probeBatch * i)) [0..<n]))), w')"
proof (induction n arbitrary: base events w)
  case 0
  obtain vals w1 where b: "sc_bulk c store (batch_keys prefix base) w = (Inr vals, w1)" using bulk_total by metis
  then show ?case using hits_stored [OF b] 0 by (subst probe_loop.simps) (simp add: Let_def batch_at_def List.map_filter_simps)
next
  case (Suc n)
  obtain vals w1 where b: "sc_bulk c store (batch_keys prefix base) w = (Inr vals, w1)" using bulk_total by metis
  have k: "kv w1 = kv w" using bulk_ok [OF b] by simp
  have h: "batch_hits (batch_keys prefix base) vals = batch_at (kv w store) prefix base" using hits_stored [OF b] by (simp add: batch_at_def)
  have ne: "batch_at (kv w store) prefix base \<noteq> []" using Suc.prems(2) [of 0] by simp
  let ?more = "List.map_filter (tc_decEvent cd) (batch_at (kv w store) prefix base)"
  have e: "base + probeBatch + probeBatch * i = base + probeBatch * Suc i" for i by simp
  have "\<exists>w'. probe_loop c cd store prefix (base + probeBatch) (events @ ?more) w1 =
     Some (Inr ((events @ ?more) @ List.map_filter (tc_decEvent cd)
       (concat (map (\<lambda>i. batch_at (kv w store) prefix (base + probeBatch * Suc i)) [0..<n]))), w')"
    using Suc.IH [where w = w1 and base = "base + probeBatch" and events = "events @ ?more"] Suc.prems(1) Suc.prems(2) [OF Suc_mono] unfolding e k by blast
  moreover have "concat (map (\<lambda>i. batch_at (kv w store) prefix (base + probeBatch * i)) [0..<Suc n]) =
      batch_at (kv w store) prefix base @ concat (map (\<lambda>i. batch_at (kv w store) prefix (base + probeBatch * Suc i)) [0..<n])"
    by (simp add: upt_conv_Cons map_Suc_upt [symmetric] comp_def del: upt_Suc map_Suc_upt)
  ultimately show ?case using b h ne by (subst probe_loop.simps) (auto simp: Let_def map_filter_append)
qed

end

section \<open>A store\<close>

type_synonym shelf = "(string \<times> string, string) gomap \<times> instant"

definition shelf_kv :: "shelf \<Rightarrow> string \<Rightarrow> string \<Rightarrow> string" where
  "shelf_kv w store key = map_get (fst w) (store, key) []"

definition shelf_client :: "shelf state_client" where
  "shelf_client =
     \<lparr>sc_save = (\<lambda>store key v ttl w. (None, map_set (store, key) v (fst w), snd w + second)),
      sc_bulk = (\<lambda>store keys w. (Inr (map (\<lambda>k. (k, shelf_kv w store k)) keys), w)), sc_now = snd\<rparr>"

lemma map_get_keys: "k \<in> set keys \<Longrightarrow> map_get (map (\<lambda>k. (k, f k)) keys) k d = f k"
  by (induction keys) (auto simp: map_get_def)

interpretation shelf: readable_store shelf_client shelf_kv
  by unfold_locales (auto simp: shelf_client_def shelf_kv_def map_get_def map_of_set map_get_keys [unfolded map_get_def] fun_eq_iff
      intro: map_get_keys)

text \<open>A codec by a table of events and their texts.\<close>

definition table_codec :: "(string \<times> Event) list \<Rightarrow> event_codec" where
  "table_codec table =
     \<lparr>tc_encEvent = (\<lambda>ev. case List.find (\<lambda>x. snd x = ev) table of None \<Rightarrow> Inl ''unknown'' | Some x \<Rightarrow> Inr (fst x)),
      tc_decEvent = map_of table, tc_encSubject = (\<lambda>s. Inl ''none''), tc_decSubject = (\<lambda>s. None)\<rparr>"

lemma table_law: "distinct (map fst table) \<Longrightarrow> [] \<notin> fst ` set table \<Longrightarrow> event_law (table_codec table)"
proof -
  assume t: "distinct (map fst table)" "[] \<notin> fst ` set table"
  have "b \<noteq> [] \<and> map_of table b = Some ev" if enc: "tc_encEvent (table_codec table) ev = Inr b" for ev b
  proof -
    obtain x where "List.find (\<lambda>x. snd x = ev) table = Some x" "fst x = b"
      using enc by (auto simp: table_codec_def split: option.splits)
    then have "(b, ev) \<in> set table" by (auto simp: find_Some_iff)
    then show ?thesis using t by (force intro: map_of_is_SomeI)
  qed
  then show "event_law (table_codec table)" by (simp add: event_law_def table_codec_def)
qed

definition shelf_subject :: TimelineSubject where
  "shelf_subject = \<lparr>sub_Kind = ''pr'', sub_Ref = ''github.com/o/r#7'', sub_Title = [], sub_SHA = ''abc''\<rparr>"

text \<open>Two events of a run, and one wake of the gate with two events before one with a single event.\<close>

abbreviation (input) shelf_writer :: DaprWriter where
  "shelf_writer \<equiv> NewWriter ''state'' ''a1'' ''w'' ''r1'' shelf_subject"

abbreviation (input) shelf_gate :: "instant \<Rightarrow> DaprWriter" where
  "shelf_gate \<equiv> NewGateWriter ''state'' ''w'' ''a1'' shelf_subject"

definition shelf_table :: "(string \<times> Event) list" where
  "shelf_table =
     [(''{0}'', event_of shelf_writer 0 ''run.started'' [] []), (''{1}'', event_of shelf_writer second ''run.completed'' [] []),
      (''{2}'', event_of (shelf_gate 0) 0 ''gate.armed'' [] []), (''{3}'', event_of (shelf_gate 0) second ''gate.waiting'' [] []),
      (''{4}'', event_of (shelf_gate 0) (2 * second) ''gate.proceed'' [] [])]"

lemma shelf_law: "event_law (table_codec shelf_table)"
  by (rule table_law) (simp_all add: shelf_table_def)

lemma shelf_empty: "shelf_kv ([], 0) store key = []"
  by (simp add: shelf_kv_def map_get_def)

abbreviation (input) no_filter :: Filter where
  "no_filter \<equiv> \<lparr>fl_KindPrefix = [], fl_Node = [], fl_Limit = 0\<rparr>"

section \<open>Properties\<close>

text \<open>
  C33. What a run emits is read back: when every write of a fresh writer succeeded into an unused keyspace, the
  reader returns, and its result is the emitted events, sorted by time and filtered.
\<close>
theorem timeline_roundtrip:
  assumes "readable_store c kv" and "event_law cd" and "\<And>i. kv w store (run_prefix attempt run @ pad_int 6 (int (Suc i))) = []"
    and "emit_all c cd xs (NewWriter store attempt workflow run subject) w = (es, tw, w')" and "all_saved es"
  shows "\<exists>w''. Reader_Attempt c cd store attempt [run] f w' = Some (Inr (applyFilter (map snd es) f), w'')"
proof -
  let ?tw = "NewWriter store attempt workflow run subject"
  have p: "writer_prefix ?tw = run_prefix attempt run" "tw_store ?tw = store" "tw_seq ?tw = int 0"
    by (simp_all add: writer_prefix_def NewWriter_def)
  have "keyspace (kv w store) (run_prefix attempt run) []" using assms(3) by (simp add: keyspace_def)
  with readable_store.emit_all_stored [OF assms(1,2,4,5), of "[]" 0] obtain bs
    where b: "map (tc_decEvent cd) bs = map (\<lambda>x. Some (snd x)) es" "keyspace (kv w' store) (run_prefix attempt run) bs" by (auto simp: p)
  from readable_store.probe_keyspace [OF assms(1) b(2), of cd 0 "[]"]
  obtain w'' where "probe_loop c cd store (run_prefix attempt run) 0 [] w' = Some (Inr (map snd es), w'')"
    using map_filter_decoded [OF b(1)] by auto
  then show ?thesis by (simp add: Reader_Attempt_def)
qed

lemma shelf_run:
  "emit_all shelf_client (table_codec shelf_table) [(''run.started'', [], None), (''run.completed'', [], None)] shelf_writer ([], 0) =
   ([(None, event_of shelf_writer 0 ''run.started'' [] []), (None, event_of shelf_writer second ''run.completed'' [] [])],
    shelf_writer\<lparr>tw_seq := 2\<rparr>,
    [((''state'', ''timeline/a1/r1/000001''), ''{0}''), ((''state'', ''timeline/a1/r1/000002''), ''{1}'')], 2 * second)"
  by code_simp

theorem timeline_roundtrip_witness:
  "\<exists>w''. Reader_Attempt shelf_client (table_codec shelf_table) ''state'' ''a1'' [''r1''] no_filter
     (snd (snd (emit_all shelf_client (table_codec shelf_table) [(''run.started'', [], None), (''run.completed'', [], None)] shelf_writer ([], 0)))) =
   Some (Inr [event_of shelf_writer 0 ''run.started'' [] [], event_of shelf_writer second ''run.completed'' [] []], w'')"
proof -
  have f: "applyFilter (map snd [(None :: string option, event_of shelf_writer 0 ''run.started'' [] []), (None, event_of shelf_writer second ''run.completed'' [] [])])
      no_filter = [event_of shelf_writer 0 ''run.started'' [] [], event_of shelf_writer second ''run.completed'' [] []]"
    by (simp add: applyFilter_def event_of_def)
  show ?thesis
    using timeline_roundtrip [OF shelf.readable_store_axioms shelf_law shelf_empty shelf_run, of no_filter] unfolding f shelf_run by simp
qed

text \<open>
  Gate wakes of one Attempt write over each other: every wake numbers its events from one under the keys of the
  Attempt, so after two wakes the reader finds the events of the second and only those of the first that the second did
  not reach.
\<close>
theorem gate_wakes_overwrite:
  assumes "readable_store c kv" and "event_law cd" and "attempt \<noteq> []"
    and "\<And>i. kv w store (run_prefix attempt ''gate'' @ pad_int 6 (int (Suc i))) = []"
    and "emit_all c cd xs (NewGateWriter store workflow attempt subject now) w = (es, tw, w')" and "all_saved es"
    and "emit_all c cd xs' (NewGateWriter store workflow attempt subject' now') w' = (es', tw', w2)" and "all_saved es'"
  shows "\<exists>w3. GateEvents c cd store attempt f w2 = Some (Inr (applyFilter (map snd es' @ drop (length es') (map snd es)) f), w3)"
proof -
  let ?tw = "\<lambda>subject now. NewGateWriter store workflow attempt subject now"
  have p: "writer_prefix (?tw s t) = run_prefix attempt ''gate''" "tw_store (?tw s t) = store" "tw_seq (?tw s t) = int 0" for s t
    using assms(3) by (simp_all add: writer_prefix_def NewGateWriter_def gate_prefix_def run_prefix_def)
  have "keyspace (kv w store) (run_prefix attempt ''gate'') []" using assms(4) by (simp add: keyspace_def)
  with readable_store.emit_all_stored [OF assms(1,2,5,6), of "[]" 0] obtain bs
    where b: "map (tc_decEvent cd) bs = map (\<lambda>x. Some (snd x)) es" "keyspace (kv w' store) (run_prefix attempt ''gate'') bs" by (auto simp: p)
  with readable_store.emit_all_stored [OF assms(1,2,7,8), of bs 0] obtain bs'
    where b': "map (tc_decEvent cd) bs' = map (\<lambda>x. Some (snd x)) es'"
      "keyspace (kv w2 store) (run_prefix attempt ''gate'') (bs' @ drop (length bs') bs)" by (auto simp: p)
  have l: "length bs' = length es'" using arg_cong [OF b'(1), of length] by simp
  have "map (tc_decEvent cd) (bs' @ drop (length bs') bs) = map (\<lambda>x. Some (id x)) (map snd es' @ drop (length es') (map snd es))"
    using b(1) b'(1) l by (simp add: drop_map [symmetric] o_def)
  from map_filter_decoded [OF this] readable_store.probe_keyspace [OF assms(1) b'(2), of cd 0 "[]"]
  obtain w3 where "probe_loop c cd store (run_prefix attempt ''gate'') 0 [] w2 = Some (Inr (map snd es' @ drop (length es') (map snd es)), w3)"
    by auto
  then show ?thesis by (simp add: GateEvents_def)
qed

abbreviation (input) shelf_waiting :: shelf where
  "shelf_waiting \<equiv> ([((''state'', ''timeline/a1/gate/000001''), ''{2}''), ((''state'', ''timeline/a1/gate/000002''), ''{3}'')], 2 * second)"

lemma shelf_first_wake:
  "emit_all shelf_client (table_codec shelf_table) [(''gate.armed'', [], None), (''gate.waiting'', [], None)] (shelf_gate 0) ([], 0) =
   ([(None, event_of (shelf_gate 0) 0 ''gate.armed'' [] []), (None, event_of (shelf_gate 0) second ''gate.waiting'' [] [])],
    (shelf_gate 0)\<lparr>tw_seq := 2\<rparr>, shelf_waiting)"
  by code_simp

lemma shelf_second_wake:
  "emit_all shelf_client (table_codec shelf_table) [(''gate.proceed'', [], None)] (shelf_gate 5) shelf_waiting =
   ([(None, event_of (shelf_gate 0) (2 * second) ''gate.proceed'' [] [])], (shelf_gate 0)\<lparr>tw_seq := 1\<rparr>,
    [((''state'', ''timeline/a1/gate/000001''), ''{4}''), ((''state'', ''timeline/a1/gate/000002''), ''{3}'')], 3 * second)"
  by code_simp

theorem gate_wakes_overwrite_witness:
  "\<exists>w3. GateEvents shelf_client (table_codec shelf_table) ''state'' ''a1'' no_filter
     ([((''state'', ''timeline/a1/gate/000001''), ''{4}''), ((''state'', ''timeline/a1/gate/000002''), ''{3}'')], 3 * second) =
   Some (Inr [event_of (shelf_gate 0) second ''gate.waiting'' [] [], event_of (shelf_gate 0) (2 * second) ''gate.proceed'' [] []], w3)"
  using gate_wakes_overwrite [OF shelf.readable_store_axioms shelf_law _ shelf_empty shelf_first_wake _ shelf_second_wake, of no_filter]
  by (simp add: applyFilter_def event_of_def)

text \<open>
  The walk of the reader ends at the first batch of sixty-four numbers without data, in every store that has one, and
  finds exactly the events of the batches before it; what lies behind such a gap is not found.
\<close>
theorem reader_frontier:
  assumes "readable_store c kv" and "batch_at (kv w store) (run_prefix attempt run) (64 * n) = []"
    and "\<And>i. i < n \<Longrightarrow> batch_at (kv w store) (run_prefix attempt run) (64 * i) \<noteq> []"
  shows "\<exists>w'. Reader_Attempt c cd store attempt [run] f w = Some (Inr (applyFilter (List.map_filter (tc_decEvent cd)
    (concat (map (\<lambda>i. batch_at (kv w store) (run_prefix attempt run) (64 * i)) [0..<n]))) f), w')"
  using readable_store.probe_frontier [OF assms(1), of w store "run_prefix attempt run" 0 n cd "[]"] assms(2,3)
  by (auto simp: Reader_Attempt_def)

text \<open>An event behind sixty-four missing ones is not found.\<close>

definition shelf_gap :: shelf where
  "shelf_gap = ([((''state'', ''timeline/a1/r1/000065''), ''{0}'')], 0)"

lemma late_key: "''timeline/a1/r1/000065'' = numbered (run_prefix ''a1'' ''r1'') 64"
  by code_simp

lemma gap_batch: "batch_at (shelf_kv shelf_gap ''state'') (run_prefix ''a1'' ''r1'') (64 * 0) = []"
proof -
  have "shelf_kv shelf_gap ''state'' (numbered (run_prefix ''a1'' ''r1'') i) = []" if "i < 64" for i
    using that numbered_inj [of "run_prefix ''a1'' ''r1''" i 64] unfolding shelf_kv_def shelf_gap_def late_key
    by (simp add: map_get_def del: of_nat_Suc)
  then show ?thesis by (simp add: batch_at_def batch_keys_def filter_empty_conv del: of_nat_Suc)
qed

theorem reader_frontier_witness:
  "\<exists>w'. Reader_Attempt shelf_client (table_codec shelf_table) ''state'' ''a1'' [''r1''] no_filter shelf_gap = Some (Inr [], w')"
proof -
  have "applyFilter (List.map_filter (tc_decEvent (table_codec shelf_table)) []) no_filter = []"
    by (simp add: applyFilter_def List.map_filter_simps)
  then show ?thesis
    using reader_frontier [where c = shelf_client and kv = shelf_kv and n = 0 and w = shelf_gap and store = "''state''"
        and attempt = "''a1''" and run = "''r1''" and cd = "table_codec shelf_table" and f = no_filter,
        OF shelf.readable_store_axioms gap_batch]
    by simp
qed

end
