(* ===== verification/Deploy_Executor.thy ===== *)
theory Deploy_Executor
  imports Graph_Node Go_Time
begin

text \<open>
  The deployment nodes (\<^verbatim>\<open>internal/graph/deploy_executors.go\<close>): the narrow Kubernetes client with its
  implementation over controller-runtime, the \<^verbatim>\<open>vela-app\<close> and the \<^verbatim>\<open>flux-reconcile\<close> executor and the poll for
  readiness. An unstructured object is its content. The client and the setters of \<^verbatim>\<open>unstructured.Unstructured\<close> are
  parameters. The poll has no bound of its own when the clock stands still, so it is a partial function.
\<close>

section \<open>The client\<close>

type_synonym unstructured = "(string, anyval) gomap"

record kube_error =
  ke_Text :: string
  ke_NoMatch :: bool
  ke_NotFound :: bool

record 'w runtime_client =
  kr_get :: "ctx \<Rightarrow> unstructured \<Rightarrow> string \<Rightarrow> string \<Rightarrow> 'w \<Rightarrow> (kube_error + unstructured) \<times> 'w"
  kr_create :: "ctx \<Rightarrow> unstructured \<Rightarrow> 'w \<Rightarrow> kube_error option \<times> 'w"
  kr_update :: "ctx \<Rightarrow> unstructured \<Rightarrow> 'w \<Rightarrow> kube_error option \<times> 'w"
  kr_delete :: "ctx \<Rightarrow> unstructured \<Rightarrow> 'w \<Rightarrow> kube_error option \<times> 'w"
  kr_SetAPIVersion :: "string \<Rightarrow> unstructured \<Rightarrow> unstructured"
  kr_SetKind :: "string \<Rightarrow> unstructured \<Rightarrow> unstructured"
  kr_SetName :: "string \<Rightarrow> unstructured \<Rightarrow> unstructured"
  kr_SetNamespace :: "string \<Rightarrow> unstructured \<Rightarrow> unstructured"
  kr_GetAnnotations :: "unstructured \<Rightarrow> (string, string) gomap"
  kr_SetAnnotations :: "(string, string) gomap \<Rightarrow> unstructured \<Rightarrow> unstructured"

text \<open>The interface; the arguments are the context, the API version, the kind, the name and the namespace.\<close>

record 'w KubeClient =
  ku_GetResource :: "ctx \<Rightarrow> string \<Rightarrow> string \<Rightarrow> string \<Rightarrow> string \<Rightarrow> 'w \<Rightarrow> (string + unstructured) \<times> 'w"
  ku_ApplyResource :: "ctx \<Rightarrow> string \<Rightarrow> string \<Rightarrow> string \<Rightarrow> string \<Rightarrow> anyval \<Rightarrow> 'w \<Rightarrow> string option \<times> 'w"
  ku_DeleteResource :: "ctx \<Rightarrow> string \<Rightarrow> string \<Rightarrow> string \<Rightarrow> string \<Rightarrow> 'w \<Rightarrow> string option \<times> 'w"
  ku_AnnotateResource :: "ctx \<Rightarrow> string \<Rightarrow> string \<Rightarrow> string \<Rightarrow> string \<Rightarrow> (string, string) gomap \<Rightarrow> 'w \<Rightarrow> string option \<times> 'w"

definition unstructuredFor :: "'w runtime_client \<Rightarrow> string \<Rightarrow> string \<Rightarrow> unstructured" where
  "unstructuredFor c apiVersion kind = kr_SetKind c kind (kr_SetAPIVersion c apiVersion [])"

definition isAlreadyExists :: "kube_error \<Rightarrow> bool" where
  "isAlreadyExists e = Contains (ke_Text e) ''already exists''"

definition GetResource :: "'w runtime_client \<Rightarrow> ctx \<Rightarrow> string \<Rightarrow> string \<Rightarrow> string \<Rightarrow> string \<Rightarrow> 'w \<Rightarrow> (string + unstructured) \<times> 'w" where
  "GetResource c ctx apiVersion kind name namespace w =
     apfst (map_sum ke_Text id) (kr_get c ctx (unstructuredFor c apiVersion kind) name namespace w)"

text \<open>The update of an object that is there already; \<open>wrap\<close> is the text around an error of the read.\<close>

definition update_spec ::
  "'w runtime_client \<Rightarrow> ctx \<Rightarrow> string \<Rightarrow> string \<Rightarrow> string \<Rightarrow> string \<Rightarrow> anyval \<Rightarrow> (string \<Rightarrow> string) \<Rightarrow> 'w \<Rightarrow> string option \<times> 'w" where
  "update_spec c ctx apiVersion kind name namespace spec wrap w =
     (case kr_get c ctx (unstructuredFor c apiVersion kind) name namespace w of
        (Inl e, w1) \<Rightarrow> (Some (wrap (ke_Text e)), w1)
      | (Inr existing, w1) \<Rightarrow> apfst (map_option ke_Text) (kr_update c ctx (map_set ''spec'' spec existing) w1))"

definition ApplyResource ::
  "'w runtime_client \<Rightarrow> ctx \<Rightarrow> string \<Rightarrow> string \<Rightarrow> string \<Rightarrow> string \<Rightarrow> anyval \<Rightarrow> 'w \<Rightarrow> string option \<times> 'w" where
  "ApplyResource c ctx apiVersion kind name namespace spec w =
     (let obj = map_set ''spec'' spec (kr_SetNamespace c namespace (kr_SetName c name (unstructuredFor c apiVersion kind))) in
      case kr_create c ctx obj w of
        (None, w1) \<Rightarrow> (None, w1)
      | (Some e, w1) \<Rightarrow>
          if \<not> ke_NoMatch e \<and> \<not> isAlreadyExists e
          then update_spec c ctx apiVersion kind name namespace spec
                 (\<lambda>g. ''apply '' @ kind @ ''/'' @ name @ '': create failed ('' @ ke_Text e @ '') and get failed ('' @ g @ '')'') w1
          else if isAlreadyExists e
          then update_spec c ctx apiVersion kind name namespace spec
                 (\<lambda>g. ''apply '' @ kind @ ''/'' @ name @ '': get after already-exists: '' @ g) w1
          else (Some (ke_Text e), w1))"

definition DeleteResource :: "'w runtime_client \<Rightarrow> ctx \<Rightarrow> string \<Rightarrow> string \<Rightarrow> string \<Rightarrow> string \<Rightarrow> 'w \<Rightarrow> string option \<times> 'w" where
  "DeleteResource c ctx apiVersion kind name namespace w =
     (case kr_delete c ctx (kr_SetNamespace c namespace (kr_SetName c name (unstructuredFor c apiVersion kind))) w of
        (None, w1) \<Rightarrow> (None, w1)
      | (Some e, w1) \<Rightarrow> (if ke_NotFound e then None else Some (ke_Text e), w1))"

definition AnnotateResource ::
  "'w runtime_client \<Rightarrow> ctx \<Rightarrow> string \<Rightarrow> string \<Rightarrow> string \<Rightarrow> string \<Rightarrow> (string, string) gomap \<Rightarrow> 'w \<Rightarrow> string option \<times> 'w" where
  "AnnotateResource c ctx apiVersion kind name namespace annotations w =
     (case kr_get c ctx (unstructuredFor c apiVersion kind) name namespace w of
        (Inl e, w1) \<Rightarrow> (Some (ke_Text e), w1)
      | (Inr obj, w1) \<Rightarrow>
          apfst (map_option ke_Text)
            (kr_update c ctx (kr_SetAnnotations c (fold (\<lambda>(k, v). map_set k v) annotations (kr_GetAnnotations c obj)) obj) w1))"

definition NewKubeClient :: "'w runtime_client \<Rightarrow> 'w KubeClient" where
  "NewKubeClient c = \<lparr>ku_GetResource = GetResource c, ku_ApplyResource = ApplyResource c, ku_DeleteResource = DeleteResource c,
     ku_AnnotateResource = AnnotateResource c\<rparr>"

section \<open>Readiness\<close>

definition extractReadyCondition :: "unstructured \<Rightarrow> bool" where
  "extractReadyCondition obj =
     (case map_of obj ''status'' of
        Some (VMap status) \<Rightarrow>
          (case map_of status ''conditions'' of
             Some (VList conditions) \<Rightarrow>
               (case List.find (\<lambda>c. case c of VMap cond \<Rightarrow> map_of cond ''type'' = Some (VStr ''Ready'') | v \<Rightarrow> False) conditions of
                  Some (VMap cond) \<Rightarrow> map_of cond ''status'' = Some (VStr ''True'')
                | u \<Rightarrow> False)
           | u \<Rightarrow> False)
      | u \<Rightarrow> False)"

text \<open>The verb \<^verbatim>\<open>%v\<close>: a map is printed by its sorted keys.\<close>

lemma size_entry [termination_simp]: "x \<in> set m \<Longrightarrow> size (snd x) < Suc (size_list (size_prod (\<lambda>u. 0) size) m)"
  by (induction m) (auto simp: size_prod_def split: prod.splits)

fun sprint_value :: "anyval \<Rightarrow> string" where
  "sprint_value VNull = ''<nil>''"
| "sprint_value (VBool b) = (if b then ''true'' else ''false'')"
| "sprint_value (VStr s) = s"
| "sprint_value (VInt n) = show_int n"
| "sprint_value (VList vs) = ''['' @ Join (map sprint_value vs) '' '' @ '']''"
| "sprint_value (VMap m) =
     ''map['' @ Join (map (\<lambda>(k, t). k @ '':'' @ t) (sort_key fst (map (\<lambda>x. (fst x, sprint_value (snd x))) m))) '' '' @ '']''"

definition extractRevision :: "unstructured \<Rightarrow> string" where
  "extractRevision obj =
     (case map_of obj ''status'' of
        Some (VMap status) \<Rightarrow>
          (case List.find (\<lambda>k. map_of status k \<noteq> None) [''lastAttemptedRevision'', ''lastHandledRevert'', ''observedGeneration''] of
             Some k \<Rightarrow> sprint_value (the (map_of status k))
           | None \<Rightarrow>
               (case map_of status ''latestRevision'' of
                  Some (VMap latest) \<Rightarrow> (case map_of latest ''name'' of Some (VStr name) \<Rightarrow> name | u \<Rightarrow> [])
                | u \<Rightarrow> []))
      | u \<Rightarrow> [])"

definition parseTimeout :: "string \<Rightarrow> duration \<Rightarrow> duration" where
  "parseTimeout s def = (if s = [] then def else case ParseDuration s of None \<Rightarrow> def | Some d \<Rightarrow> d)"

abbreviation (input) poll_interval :: duration where "poll_interval \<equiv> 2 * second"

text \<open>The result is the readiness with the revision, and the error.\<close>

partial_function (option) poll_loop ::
  "'w runtime \<Rightarrow> 'w KubeClient \<Rightarrow> ctx \<Rightarrow> string \<Rightarrow> string \<Rightarrow> string \<Rightarrow> string \<Rightarrow> instant \<Rightarrow> 'w \<Rightarrow>
   (((bool \<times> string) \<times> string option) \<times> 'w) option" where
  "poll_loop rt kube ctx apiVersion kind name namespace deadline w =
     (case ku_GetResource kube ctx apiVersion kind name namespace w of
        (Inl e, w1) \<Rightarrow> Some (((False, []), Some (''get '' @ kind @ '' '' @ namespace @ ''/'' @ name @ '': '' @ e)), w1)
      | (Inr obj, w1) \<Rightarrow>
          (let revision = extractRevision obj in
           if extractReadyCondition obj then Some (((True, revision), None), w1)
           else if deadline < rt_now rt w1 then Some (((False, revision), None), w1)
           else (case rt_wait rt ctx poll_interval w1 of
                   (ended, w2) \<Rightarrow>
                     if ended then Some (((False, revision), ctx_err rt ctx w2), w2)
                     else poll_loop rt kube ctx apiVersion kind name namespace deadline w2)))"

definition pollReady ::
  "'w runtime \<Rightarrow> 'w KubeClient \<Rightarrow> ctx \<Rightarrow> string \<Rightarrow> string \<Rightarrow> string \<Rightarrow> string \<Rightarrow> duration \<Rightarrow> 'w \<Rightarrow>
   (((bool \<times> string) \<times> string option) \<times> 'w) option" where
  "pollReady rt kube ctx apiVersion kind name namespace timeout w =
     poll_loop rt kube ctx apiVersion kind name namespace (rt_now rt w + timeout) w"

section \<open>The executors\<close>

record VelaAppConfig =
  va_Action :: string
  va_Name :: string
  va_Namespace :: string
  va_Application :: "unstructured option"
  va_Timeout :: string

record FluxReconcileConfig =
  fr_Resource :: string
  fr_Namespace :: string
  fr_Wait :: bool
  fr_Timeout :: string

type_synonym 'w deploy_result = "((NodeResult \<times> string option) \<times> 'w) option"

definition errNoKubeClient :: "NodeResult \<times> string option" where
  "errNoKubeClient =
     (let e = ''deployment node executed without a KubeClient '' @ em_dash @ '' wire KubeClient in Dependencies''
      in (failed_result e, Some e))"

definition config_error :: "string \<Rightarrow> NodeResult \<times> string option" where
  "config_error e = (failed_result e, Some e)"

definition green :: "NodeOutputs \<Rightarrow> NodeResult \<times> string option" where
  "green outputs = (NodeResult0\<lparr>nr_Status := StatusGreen, nr_Outputs := outputs\<rparr>, None)"

text \<open>What a node makes of the poll: an error fails it, an object that is not ready fails it without one.\<close>

definition wait_result :: "string \<Rightarrow> string \<Rightarrow> NodeOutputs \<Rightarrow> (bool \<times> string) \<times> string option \<Rightarrow> NodeResult \<times> string option" where
  "wait_result label notReady extra r =
     (case r of
        ((ready, revision), Some e) \<Rightarrow> (failed_result (label @ e), Some e)
      | ((False, revision), None) \<Rightarrow>
          ((failed_result notReady)\<lparr>nr_Outputs := [(''ready'', VBool False), (''revision'', VStr revision)]\<rparr>, None)
      | ((True, revision), None) \<Rightarrow> green (extra @ [(''ready'', VBool True), (''revision'', VStr revision)]))"

abbreviation (input) velaAppAPIVersion :: string where "velaAppAPIVersion \<equiv> ''core.oam.dev/v1beta1''"

definition VelaAppConfig0 :: VelaAppConfig where
  "VelaAppConfig0 = \<lparr>va_Action = [], va_Name = [], va_Namespace = [], va_Application = None, va_Timeout = []\<rparr>"

definition app_spec :: "VelaAppConfig \<Rightarrow> anyval" where
  "app_spec cfg = (case va_Application cfg of None \<Rightarrow> VNull | Some m \<Rightarrow> VMap m)"

definition vela_action ::
  "'w runtime \<Rightarrow> 'w KubeClient \<Rightarrow> ctx \<Rightarrow> NodeSpec \<Rightarrow> VelaAppConfig \<Rightarrow> string \<Rightarrow> 'w \<Rightarrow> 'w deploy_result" where
  "vela_action rt kube ctx node cfg ns w =
     (if va_Action cfg = ''apply'' then
        (case ku_ApplyResource kube ctx velaAppAPIVersion ''Application'' (va_Name cfg) ns (app_spec cfg) w of
           (Some e, w1) \<Rightarrow> Some ((failed_result (''vela apply: '' @ e), Some e), w1)
         | (None, w1) \<Rightarrow> Some (green [(''applied'', VBool True), (''name'', VStr (va_Name cfg))], w1))
      else if va_Action cfg = ''delete'' then
        (case ku_DeleteResource kube ctx velaAppAPIVersion ''Application'' (va_Name cfg) ns w of
           (Some e, w1) \<Rightarrow> Some ((failed_result (''vela delete: '' @ e), Some e), w1)
         | (None, w1) \<Rightarrow> Some (green [(''applied'', VBool False), (''name'', VStr (va_Name cfg))], w1))
      else if va_Action cfg = ''wait'' then
        (let timeout = parseTimeout (va_Timeout cfg) (5 * minute) in
         map_option (apfst (wait_result ''vela wait: ''
             (''vela Application '' @ ns @ ''/'' @ va_Name cfg @ '' not Ready after '' @ Duration_String timeout) [(''applied'', VBool True)]))
           (pollReady rt kube ctx velaAppAPIVersion ''Application'' (va_Name cfg) ns timeout w))
      else Some (config_error (''vela-app node '' @ quoted (node_ID node) @ '': unknown action '' @ quoted (va_Action cfg) @
             '' (want apply|delete|wait)''), w))"

definition VelaAppExecutor_Execute ::
  "'w runtime \<Rightarrow> (string \<Rightarrow> string + VelaAppConfig) \<Rightarrow> 'w KubeClient option \<Rightarrow>
   ctx \<Rightarrow> NodeSpec \<Rightarrow> NodeEnv \<Rightarrow> 'w \<Rightarrow> 'w deploy_result" where
  "VelaAppExecutor_Execute rt dec client ctx node env w =
     (case client of
        None \<Rightarrow> Some (errNoKubeClient, w)
      | Some kube \<Rightarrow>
          (case parseConfig dec VelaAppConfig0 (node_Config node) of
             Inl e \<Rightarrow> Some (config_error e, w)
           | Inr cfg \<Rightarrow>
               if va_Name cfg = []
               then Some (config_error (''vela-app node '' @ quoted (node_ID node) @ '': config.name is required''), w)
               else vela_action rt kube ctx node cfg
                      (if va_Namespace cfg = [] then ne_Namespace env else va_Namespace cfg) w))"

definition fluxKindToAPIVersion :: "(string, string) gomap" where
  "fluxKindToAPIVersion =
     [(''helmrelease'', ''helm.toolkit.fluxcd.io/v2''), (''kustomization'', ''kustomize.toolkit.fluxcd.io/v1''),
      (''gitrepository'', ''source.toolkit.fluxcd.io/v1''), (''ocirepository'', ''source.toolkit.fluxcd.io/v1beta2''),
      (''helmrepository'', ''source.toolkit.fluxcd.io/v1''), (''helmchart'', ''source.toolkit.fluxcd.io/v1''),
      (''bucket'', ''source.toolkit.fluxcd.io/v1beta2''), (''alert'', ''notification.toolkit.fluxcd.io/v1beta3''),
      (''provider'', ''notification.toolkit.fluxcd.io/v1beta3''), (''receiver'', ''notification.toolkit.fluxcd.io/v1'')]"

abbreviation (input) fluxReconcileAtKey :: string where "fluxReconcileAtKey \<equiv> ''fluxcd.io/reconcileAt''"

definition to_upper :: "char \<Rightarrow> char" where
  "to_upper c = (if CHR ''a'' \<le> c \<and> c \<le> CHR ''z'' then char_of ((of_char c :: nat) - 32) else c)"

definition titleFluxKind :: "string \<Rightarrow> string" where
  "titleFluxKind kind =
     (case map_of [(''helmrelease'', ''HelmRelease''), (''helmrepository'', ''HelmRepository''), (''helmchart'', ''HelmChart''),
                   (''gitrepository'', ''GitRepository''), (''ocirepository'', ''OCIRepository''), (''kustomization'', ''Kustomization''),
                   (''bucket'', ''Bucket''), (''alert'', ''Alert''), (''provider'', ''Provider''), (''receiver'', ''Receiver'')]
             (ToLower kind) of
        Some t \<Rightarrow> t
      | None \<Rightarrow> (case kind of [] \<Rightarrow> [] | c # cs \<Rightarrow> to_upper c # cs))"

text \<open>\<open>order\<close> is the iteration order of the map.\<close>

definition fluxKinds :: "(string list \<Rightarrow> string list) \<Rightarrow> string" where
  "fluxKinds order = Join (order (map_keys fluxKindToAPIVersion)) '', ''"

definition FluxReconcileConfig0 :: FluxReconcileConfig where
  "FluxReconcileConfig0 = \<lparr>fr_Resource = [], fr_Namespace = [], fr_Wait = False, fr_Timeout = []\<rparr>"

definition RFC3339Nano :: "instant \<Rightarrow> string" where
  "RFC3339Nano t = butlast (RFC3339 t) @ frac_text 9 (t mod second) @ ''Z''"

definition flux_reconcile ::
  "'w runtime \<Rightarrow> 'w KubeClient \<Rightarrow> ctx \<Rightarrow> FluxReconcileConfig \<Rightarrow> string \<Rightarrow> string \<Rightarrow> string \<Rightarrow> string \<Rightarrow> 'w \<Rightarrow>
   'w deploy_result" where
  "flux_reconcile rt kube ctx cfg apiVersion kindTitled name ns w =
     (let now = RFC3339Nano (rt_now rt w) in
      case ku_AnnotateResource kube ctx apiVersion kindTitled name ns [(fluxReconcileAtKey, now)] w of
        (Some e, w1) \<Rightarrow> Some ((failed_result (''flux annotate: '' @ e), Some e), w1)
      | (None, w1) \<Rightarrow>
          if \<not> fr_Wait cfg then Some (green [(''ready'', VBool True), (''revision'', VStr now)], w1)
          else
            (let timeout = parseTimeout (fr_Timeout cfg) (5 * minute) in
             map_option (apfst (wait_result ''flux wait: ''
                 (''flux '' @ kindTitled @ '' '' @ ns @ ''/'' @ name @ '' not Ready after '' @ Duration_String timeout) []))
               (pollReady rt kube ctx apiVersion kindTitled name ns timeout w1)))"

definition FluxReconcileExecutor_Execute ::
  "'w runtime \<Rightarrow> (string list \<Rightarrow> string list) \<Rightarrow> (string \<Rightarrow> string + FluxReconcileConfig) \<Rightarrow> 'w KubeClient option \<Rightarrow>
   ctx \<Rightarrow> NodeSpec \<Rightarrow> NodeEnv \<Rightarrow> 'w \<Rightarrow> 'w deploy_result" where
  "FluxReconcileExecutor_Execute rt order dec client ctx node env w =
     (case client of
        None \<Rightarrow> Some (errNoKubeClient, w)
      | Some kube \<Rightarrow>
          (case parseConfig dec FluxReconcileConfig0 (node_Config node) of
             Inl e \<Rightarrow> Some (config_error e, w)
           | Inr cfg \<Rightarrow>
               (let malformed = Some (config_error (''flux-reconcile node '' @ quoted (node_ID node) @
                      '': resource must be kind/name (got '' @ quoted (fr_Resource cfg) @ '')''), w)
                in case IndexByte (fr_Resource cfg) (CHR ''/'') of
                     None \<Rightarrow> malformed
                   | Some i \<Rightarrow>
                       (let kind = take i (fr_Resource cfg); name = drop (i + 1) (fr_Resource cfg) in
                        if kind = [] \<or> name = [] then malformed
                        else (case map_of fluxKindToAPIVersion (ToLower kind) of
                                None \<Rightarrow> Some (config_error (''flux-reconcile node '' @ quoted (node_ID node) @ '': unknown Flux resource kind '' @
                                          quoted kind @ '' (supported: '' @ fluxKinds order @ '')''), w)
                              | Some apiVersion \<Rightarrow>
                                  flux_reconcile rt kube ctx cfg apiVersion (titleFluxKind kind) name
                                    (if fr_Namespace cfg = [] then ne_Namespace env else fr_Namespace cfg) w)))))"

lemmas [model_defs] = unstructuredFor_def isAlreadyExists_def GetResource_def update_spec_def ApplyResource_def DeleteResource_def
  AnnotateResource_def NewKubeClient_def extractReadyCondition_def extractRevision_def parseTimeout_def pollReady_def
  errNoKubeClient_def config_error_def green_def wait_result_def VelaAppConfig0_def app_spec_def vela_action_def VelaAppExecutor_Execute_def
  fluxKindToAPIVersion_def to_upper_def titleFluxKind_def fluxKinds_def FluxReconcileConfig0_def RFC3339Nano_def flux_reconcile_def
  FluxReconcileExecutor_Execute_def

end
