(* ===== verification/Deploy_Theorems.thy ===== *)
theory Deploy_Theorems
  imports Deploy_Executor
begin

text \<open>
  The properties of the deployment nodes: the poll for readiness returns and says what it saw, an apply lands the
  specification without touching the rest of an object that is there, an annotation keeps the other annotations. The locale
  \<open>poll_clock\<close> is the clock of a poll, \<open>kube_store\<close> the contract of the API server; both are interpreted on one cluster.
\<close>

section \<open>The poll\<close>

text \<open>What a result of the poll says: a ready object was read last, or none was ready by the deadline, or an error.\<close>

definition poll_says ::
  "'w runtime \<Rightarrow> 'w KubeClient \<Rightarrow> ctx \<Rightarrow> string \<Rightarrow> string \<Rightarrow> string \<Rightarrow> string \<Rightarrow> instant \<Rightarrow> (bool \<times> string) \<times> string option \<Rightarrow> 'w \<Rightarrow> bool" where
  "poll_says rt kube ctx av k n ns deadline res w' \<longleftrightarrow>
     (case res of ((ready, revision), e) \<Rightarrow>
        if e \<noteq> None then \<not> ready
        else (\<exists>v obj. ku_GetResource kube ctx av k n ns v = (Inr obj, w') \<and> extractReadyCondition obj = ready \<and>
                revision = extractRevision obj) \<and> (ready \<or> deadline < rt_now rt w'))"

text \<open>The clock: it does not run backwards, and a wait that is not cut short lasts its time.\<close>

locale poll_clock =
  fixes rt :: "'w runtime" and kube :: "'w KubeClient" and ctx :: ctx
  assumes get_now: "ku_GetResource kube ctx av k n ns w = (r, w') \<Longrightarrow> rt_now rt w \<le> rt_now rt w'"
    and wait_now: "rt_wait rt ctx d w = (False, w') \<Longrightarrow> rt_now rt w + d \<le> rt_now rt w'"
    and wait_done: "rt_wait rt ctx d w = (True, w') \<Longrightarrow> ctx_err rt ctx w' \<noteq> None"
begin

lemma poll_loop_returns:
  "\<exists>res w'. poll_loop rt kube ctx av k n ns deadline w = Some (res, w') \<and> poll_says rt kube ctx av k n ns deadline res w'"
proof (induction "nat (deadline - rt_now rt w + 1)" arbitrary: w rule: less_induct)
  case less
  obtain g w1 where g: "ku_GetResource kube ctx av k n ns w = (g, w1)" by fastforce
  show ?case
  proof (cases g)
    case (Inl e)
    then show ?thesis using g by (subst poll_loop.simps) (simp add: poll_says_def)
  next
    case (Inr obj)
    show ?thesis
    proof (cases "extractReadyCondition obj \<or> deadline < rt_now rt w1")
      case True
      then show ?thesis using g Inr by (subst poll_loop.simps) (auto simp: poll_says_def Let_def)
    next
      case False
      obtain ended w2 where d: "rt_wait rt ctx poll_interval w1 = (ended, w2)" by fastforce
      show ?thesis
      proof (cases ended)
        case True
        then show ?thesis using g Inr False d wait_done [of poll_interval w1 w2] by (subst poll_loop.simps) (simp add: poll_says_def Let_def)
      next
        case f: False
        have "rt_now rt w + poll_interval \<le> rt_now rt w2" using get_now [OF g] wait_now [of poll_interval w1 w2] d f by simp
        moreover have "rt_now rt w \<le> deadline" using get_now [OF g] False by simp
        ultimately have "nat (deadline - rt_now rt w2 + 1) < nat (deadline - rt_now rt w + 1)" by simp
        from less.hyps [OF this] show ?thesis using g Inr False d f by (subst poll_loop.simps) (simp add: Let_def)
      qed
    qed
  qed
qed

end

text \<open>
  A wait for readiness returns: when the clock does not run backwards and a wait that is not cut short lasts as
  long as it was asked for, the poll ends. It reports ready only for an object that it read last and that says so, with the
  revision of that object; it reports not ready without an error only behind the deadline; and it reports an error otherwise.
\<close>
theorem deploy_wait_returns:
  assumes "poll_clock rt kube ctx"
  shows "\<exists>res w'. pollReady rt kube ctx av k n ns timeout w = Some (res, w') \<and>
    poll_says rt kube ctx av k n ns (rt_now rt w + timeout) res w'"
  unfolding pollReady_def by (rule poll_clock.poll_loop_returns [OF assms])

section \<open>The server\<close>

type_synonym kube_key = "string \<times> string \<times> string \<times> string"

locale kube_store =
  fixes c :: "'w runtime_client"
    and ident :: "unstructured \<Rightarrow> kube_key"
    and kobjs :: "'w \<Rightarrow> kube_key \<Rightarrow> unstructured option"
  assumes ident_new: "ident (map_set ''spec'' s (kr_SetNamespace c ns (kr_SetName c n (unstructuredFor c av k)))) = (av, k, ns, n)"
    and ident_spec: "ident (map_set ''spec'' s obj) = ident obj"
    and ident_annotations: "ident (kr_SetAnnotations c m obj) = ident obj"
    and spec_annotations: "map_of (kr_SetAnnotations c m obj) ''spec'' = map_of obj ''spec''"
    and annotations_set: "map_of (kr_GetAnnotations c (kr_SetAnnotations c m obj)) = map_of m"
    and annotations_spec: "map_of (kr_GetAnnotations c (map_set ''spec'' s obj)) = map_of (kr_GetAnnotations c obj)"
    and stored_ident: "kobjs w key = Some obj \<Longrightarrow> ident obj = key"
    and get_ok: "kr_get c ctx (unstructuredFor c av k) n ns w = (Inr obj, w') \<Longrightarrow> kobjs w' = kobjs w \<and> kobjs w (av, k, ns, n) = Some obj"
    and create_ok: "kr_create c ctx obj w = (None, w') \<Longrightarrow> kobjs w (ident obj) = None \<and>
      (\<exists>b. kobjs w' = (kobjs w)(ident obj \<mapsto> b) \<and> map_of b ''spec'' = map_of obj ''spec'')"
    and create_err: "kr_create c ctx obj w = (Some e, w') \<Longrightarrow>
      (kobjs w (ident obj) \<noteq> None \<longrightarrow> kobjs w' = kobjs w) \<and> (key \<noteq> ident obj \<longrightarrow> kobjs w' key = kobjs w key)"
    and update_ok: "kr_update c ctx obj w = (None, w') \<Longrightarrow>
      \<exists>b. kobjs w' = (kobjs w)(ident obj \<mapsto> b) \<and> map_of b ''spec'' = map_of obj ''spec'' \<and>
        map_of (kr_GetAnnotations c b) = map_of (kr_GetAnnotations c obj)"
begin

lemma update_spec_lands:
  assumes "update_spec c ctx av k n ns spec wrap w = (None, w')"
  shows "\<exists>obj b. kobjs w (av, k, ns, n) = Some obj \<and> kobjs w' = (kobjs w)((av, k, ns, n) \<mapsto> b) \<and> map_of b ''spec'' = Some spec \<and>
    map_of (kr_GetAnnotations c b) = map_of (kr_GetAnnotations c obj)"
proof -
  obtain obj w1 where g: "kr_get c ctx (unstructuredFor c av k) n ns w = (Inr obj, w1)"
    and u: "kr_update c ctx (map_set ''spec'' spec obj) w1 = (None, w')"
    using assms by (auto simp: update_spec_def apfst_def map_prod_def split: prod.splits sum.splits)
  have o: "kobjs w1 = kobjs w" "kobjs w (av, k, ns, n) = Some obj" "ident obj = (av, k, ns, n)" using get_ok [OF g] stored_ident by auto
  from update_ok [OF u] obtain b where b: "kobjs w' = (kobjs w1)(ident (map_set ''spec'' spec obj) \<mapsto> b)"
    "map_of b ''spec'' = map_of (map_set ''spec'' spec obj) ''spec''"
    "map_of (kr_GetAnnotations c b) = map_of (kr_GetAnnotations c (map_set ''spec'' spec obj))" by blast
  then show ?thesis using o by (auto simp: ident_spec annotations_spec map_of_set)
qed

lemma apply_cases:
  assumes "ApplyResource c ctx av k n ns spec w = (None, w')"
  shows "kr_create c ctx (map_set ''spec'' spec (kr_SetNamespace c ns (kr_SetName c n (unstructuredFor c av k)))) w = (None, w') \<or>
    (\<exists>e w1 wrap. kr_create c ctx (map_set ''spec'' spec (kr_SetNamespace c ns (kr_SetName c n (unstructuredFor c av k)))) w = (Some e, w1) \<and>
      update_spec c ctx av k n ns spec wrap w1 = (None, w'))"
  using assms unfolding ApplyResource_def Let_def by (auto split: prod.splits option.splits if_splits)

end

section \<open>A cluster\<close>

type_synonym cluster_world = "unstructured list \<times> instant"

definition str_field :: "unstructured \<Rightarrow> string \<Rightarrow> string" where
  "str_field obj f = (case map_of obj f of Some (VStr s) \<Rightarrow> s | u \<Rightarrow> [])"

definition cluster_ident :: "unstructured \<Rightarrow> kube_key" where
  "cluster_ident obj = (str_field obj ''apiVersion'', str_field obj ''kind'', str_field obj ''namespace'', str_field obj ''name'')"

definition cluster_objs :: "cluster_world \<Rightarrow> kube_key \<Rightarrow> unstructured option" where
  "cluster_objs w key = List.find (\<lambda>x. cluster_ident x = key) (fst w)"

definition cluster_put :: "unstructured \<Rightarrow> cluster_world \<Rightarrow> cluster_world" where
  "cluster_put obj w = (obj # filter (\<lambda>x. cluster_ident x \<noteq> cluster_ident obj) (fst w), snd w)"

definition any_str :: "anyval \<Rightarrow> string" where
  "any_str v = (case v of VStr s \<Rightarrow> s | u \<Rightarrow> [])"

definition cluster_client :: "cluster_world runtime_client" where
  "cluster_client =
     \<lparr>kr_get = (\<lambda>ctx obj n ns w. (case cluster_objs w (str_field obj ''apiVersion'', str_field obj ''kind'', ns, n) of
          None \<Rightarrow> Inl \<lparr>ke_Text = ''not found'', ke_NoMatch = False, ke_NotFound = True\<rparr> | Some x \<Rightarrow> Inr x, w)),
      kr_create = (\<lambda>ctx obj w. if cluster_objs w (cluster_ident obj) \<noteq> None
          then (Some \<lparr>ke_Text = ''already exists'', ke_NoMatch = False, ke_NotFound = False\<rparr>, w) else (None, cluster_put obj w)),
      kr_update = (\<lambda>ctx obj w. (None, cluster_put obj w)),
      kr_delete = (\<lambda>ctx obj w. (None, filter (\<lambda>x. cluster_ident x \<noteq> cluster_ident obj) (fst w), snd w)),
      kr_SetAPIVersion = (\<lambda>v. map_set ''apiVersion'' (VStr v)), kr_SetKind = (\<lambda>v. map_set ''kind'' (VStr v)),
      kr_SetName = (\<lambda>v. map_set ''name'' (VStr v)), kr_SetNamespace = (\<lambda>v. map_set ''namespace'' (VStr v)),
      kr_GetAnnotations = (\<lambda>obj. case map_of obj ''annotations'' of Some (VMap m) \<Rightarrow> map (\<lambda>x. (fst x, any_str (snd x))) m | u \<Rightarrow> []),
      kr_SetAnnotations = (\<lambda>m. map_set ''annotations'' (VMap (map (\<lambda>x. (fst x, VStr (snd x))) m)))\<rparr>"

lemma find_filter_put: "List.find P (filter Q xs) = List.find (\<lambda>x. P x \<and> Q x) xs"
  by (induction xs) auto

lemma cluster_objs_put: "cluster_objs (cluster_put obj w) = (cluster_objs w)(cluster_ident obj \<mapsto> obj)"
  by (auto simp: cluster_objs_def cluster_put_def find_filter_put fun_eq_iff intro!: arg_cong2 [of _ _ _ _ List.find])

lemma cluster_fields:
  "str_field (map_set f v obj) g = (if g = f then any_str v else str_field obj g)"
  "str_field ((f, v) # obj) g = (if g = f then any_str v else str_field obj g)"
  by (simp_all add: str_field_def any_str_def split: anyval.splits)

interpretation cluster: kube_store cluster_client cluster_ident cluster_objs
proof
  fix ctx obj w w' e key
  show "kr_create cluster_client ctx obj w = (None, w') \<Longrightarrow> cluster_objs w (cluster_ident obj) = None \<and>
      (\<exists>b. cluster_objs w' = (cluster_objs w)(cluster_ident obj \<mapsto> b) \<and> map_of b ''spec'' = map_of obj ''spec'')"
    by (auto simp: cluster_client_def cluster_objs_put split: if_splits)
  show "cluster_objs w key = Some obj \<Longrightarrow> cluster_ident obj = key" by (auto simp: cluster_objs_def find_Some_iff)
qed (auto simp: cluster_client_def cluster_ident_def unstructuredFor_def cluster_fields cluster_objs_put any_str_def map_of_map comp_def
    option.map_ident split: option.splits if_splits)

definition cluster_runtime :: "cluster_world runtime" where
  "cluster_runtime =
     \<lparr>rt_now = snd, rt_cancelled = (\<lambda>w. False), rt_wait = (\<lambda>c d w. (False, fst w, snd w + d)),
      rt_command = (\<lambda>c cmd args dir envs w. (([], None), w)), rt_template = (\<lambda>t ins. None), rt_getenv = (\<lambda>k. []),
      rt_resolve = (\<lambda>ref phase. Inl []), rt_task = (\<lambda>t. Inr t), rt_agent = (\<lambda>c t g m meta w. (Inl [], w)),
      rt_getState = (\<lambda>st k w. (Inr [], w)), rt_saveState = (\<lambda>st k v w. (None, w)), rt_publish = (\<lambda>ps t b w. (None, w)),
      rt_decodeResult = (\<lambda>l. None), rt_encode = (\<lambda>v. []), rt_encodeResult = (\<lambda>r. None), rt_emit = (\<lambda>k n p w. w)\<rparr>"

interpretation cluster_clock: poll_clock cluster_runtime "NewKubeClient cluster_client" ctx for ctx
  by unfold_locales (auto simp: cluster_runtime_def NewKubeClient_def GetResource_def cluster_client_def split: option.splits)

text \<open>An object that is not ready; the poll gives up behind the deadline.\<close>

definition waiting_app :: unstructured where
  "waiting_app = [(''apiVersion'', VStr ''core.oam.dev/v1beta1''), (''kind'', VStr ''Application''), (''namespace'', VStr ''ns''),
     (''name'', VStr ''app''), (''annotations'', VMap [(''team'', VStr ''a'')]), (''spec'', VNull)]"

theorem deploy_wait_returns_witness:
  "\<exists>res w'. pollReady cluster_runtime (NewKubeClient cluster_client) None ''core.oam.dev/v1beta1'' ''Application'' ''app'' ''ns'' (5 * second)
      ([waiting_app], 0) = Some (res, w') \<and>
    poll_says cluster_runtime (NewKubeClient cluster_client) None ''core.oam.dev/v1beta1'' ''Application'' ''app'' ''ns''
      (rt_now cluster_runtime ([waiting_app], 0) + 5 * second) res w'"
  by (rule deploy_wait_returns [OF cluster_clock.poll_clock_axioms])

text \<open>
  An apply that reports success has landed: the object of that version, kind, namespace and name is in the store with
  the specification; when it was there before it keeps its annotations, and no other object changed.
\<close>
theorem apply_lands:
  assumes "kube_store c ident kobjs" and "ApplyResource c ctx av k n ns spec w = (None, w')"
  shows "\<exists>b. kobjs w' (av, k, ns, n) = Some b \<and> map_of b ''spec'' = Some spec \<and>
    (\<forall>key. key \<noteq> (av, k, ns, n) \<longrightarrow> kobjs w' key = kobjs w key) \<and>
    (case kobjs w (av, k, ns, n) of None \<Rightarrow> True | Some old \<Rightarrow> map_of (kr_GetAnnotations c b) = map_of (kr_GetAnnotations c old))"
proof -
  let ?obj = "map_set ''spec'' spec (kr_SetNamespace c ns (kr_SetName c n (unstructuredFor c av k)))"
  have i: "ident ?obj = (av, k, ns, n)" by (rule kube_store.ident_new [OF assms(1)])
  from kube_store.apply_cases [OF assms] show ?thesis
  proof (elim disjE exE conjE)
    assume "kr_create c ctx ?obj w = (None, w')"
    from kube_store.create_ok [OF assms(1) this] show ?thesis unfolding i by (auto simp: map_of_set)
  next
    fix e w1 wrap assume cr: "kr_create c ctx ?obj w = (Some e, w1)" and u: "update_spec c ctx av k n ns spec wrap w1 = (None, w')"
    note ce = kube_store.create_err [OF assms(1) cr, unfolded i]
    from kube_store.update_spec_lands [OF assms(1) u] obtain obj b where b: "kobjs w1 (av, k, ns, n) = Some obj"
      "kobjs w' = (kobjs w1)((av, k, ns, n) \<mapsto> b)" "map_of b ''spec'' = Some spec"
      "map_of (kr_GetAnnotations c b) = map_of (kr_GetAnnotations c obj)" by blast
    have "kobjs w (av, k, ns, n) = Some old \<Longrightarrow> obj = old" for old using ce b(1) by auto
    then show ?thesis using b ce by (intro exI [of _ b]) (auto split: option.splits)
  qed
qed

lemma apply_run: "fst (ApplyResource cluster_client None ''core.oam.dev/v1beta1'' ''Application'' ''app'' ''ns'' (VMap []) ([waiting_app], 0)) = None"
  by code_simp

theorem apply_lands_witness:
  "\<exists>b. cluster_objs (snd (ApplyResource cluster_client None ''core.oam.dev/v1beta1'' ''Application'' ''app'' ''ns'' (VMap []) ([waiting_app], 0)))
       (''core.oam.dev/v1beta1'', ''Application'', ''ns'', ''app'') = Some b \<and>
     map_of b ''spec'' = Some (VMap []) \<and> map_of (kr_GetAnnotations cluster_client b) ''team'' = Some ''a''"
proof -
  obtain w' where run: "ApplyResource cluster_client None ''core.oam.dev/v1beta1'' ''Application'' ''app'' ''ns'' (VMap []) ([waiting_app], 0) = (None, w')"
    using apply_run by (metis fst_conv surj_pair)
  have old: "cluster_objs ([waiting_app], 0) (''core.oam.dev/v1beta1'', ''Application'', ''ns'', ''app'') = Some waiting_app" by code_simp
  have team: "map_of (kr_GetAnnotations cluster_client waiting_app) ''team'' = Some ''a''" by code_simp
  from apply_lands [OF cluster.kube_store_axioms run] obtain b
    where "cluster_objs w' (''core.oam.dev/v1beta1'', ''Application'', ''ns'', ''app'') = Some b" "map_of b ''spec'' = Some (VMap [])"
      "map_of (kr_GetAnnotations cluster_client b) = map_of (kr_GetAnnotations cluster_client waiting_app)"
    unfolding old option.case by blast
  then show ?thesis unfolding run snd_conv by (intro exI [of _ b]) (simp add: team)
qed

text \<open>
  A reconciliation that is waited for can report the readiness of before: the poll looks at the Ready condition alone, so
  an object that was ready when it was annotated is reported ready by the first read.
\<close>
lemma flux_stale_ready:
  assumes "ku_AnnotateResource kube ctx av k n ns [(fluxReconcileAtKey, RFC3339Nano (rt_now rt w))] w = (None, w1)" and "fr_Wait cfg"
    and "ku_GetResource kube ctx av k n ns w1 = (Inr obj, w2)" and "extractReadyCondition obj"
  shows "flux_reconcile rt kube ctx cfg av k n ns w = Some (green [(''ready'', VBool True), (''revision'', VStr (extractRevision obj))], w2)"
  using assms
  by (simp add: flux_reconcile_def pollReady_def poll_loop.simps [of rt kube ctx av k n ns] wait_result_def Let_def)

end
