(* ===== verification/Agent_Session.thy ===== *)
theory Agent_Session
  imports Go_Lib Graph_Node
begin

text \<open>
  The warm session with the coding agent (\<^verbatim>\<open>internal/agent/rpc.go\<close>, \<^verbatim>\<open>session.go\<close>, \<^verbatim>\<open>usage.go\<close>, the
  protocol types of \<^verbatim>\<open>internal/pijsonl\<close>, and the argument builder of \<^verbatim>\<open>internal/piargs\<close>): the
  environment a child gets, the fold of the agent's event stream into one turn, and the watermark that
  splits the conversation snapshots of a warm session into turns.

  The program behind the pipe is not part of the repository: what it sends is the input of the model. A
  session holds the outcomes of the reader's \<^verbatim>\<open>select\<close> in the order in which they come (an event of the
  stream, or the end of the context) and whether the stream ends after them; a prompt that neither sees
  the end of its turn nor the end of the stream waits for ever, which is the value \<^const>\<open>None\<close>. The JSON
  decoders (one per Go struct) are parameters. Costs are floating point numbers; they are a type
  parameter with an addition of which nothing is assumed.
\<close>

section \<open>The environment of a child\<close>

definition BotTokenEnvKey :: string where "BotTokenEnvKey = ''HARMOSTES_FORGEJO_BOT_TOKEN''"
definition BotHostEnvKey :: string where "BotHostEnvKey = ''HARMOSTES_FORGEJO_BOT_HOST''"

fun FilterEnv :: "string list \<Rightarrow> string list \<Rightarrow> string list" where
  "FilterEnv [] ks = []"
| "FilterEnv (kv # env) ks =
     (case Cut kv (CHR ''='') of
        Some (k, v) \<Rightarrow> if k \<in> set ks then FilterEnv env ks else kv # FilterEnv env ks
      | None \<Rightarrow> kv # FilterEnv env ks)"

definition ChildEnv :: "string list \<Rightarrow> string list" where
  "ChildEnv env = FilterEnv env [BotTokenEnvKey, BotHostEnvKey]"

section \<open>The arguments of the agent (piargs.go)\<close>

definition Extensions :: "string list" where
  "Extensions = [''/extensions/litellm-provider'', ''/extensions/rig-query'', ''/extensions/turn-budget'',
     ''/extensions/pillar-todo'', ''/extensions/review-post'', ''/extensions/sol-pi'']"

definition extensionTools :: "(string, string) gomap" where
  "extensionTools =
     [(''/extensions/rig-query'', ''rig''), (''/extensions/pillar-todo'', ''todo''),
      (''/extensions/review-post'',
       ''review_finding_post,review_findings_list,review_thread_reply,review_thread_resolve,'' @
       ''review_verdict_post,review_research_publish,review_coverage_publish,review_carry_file''),
      (''/extensions/sol-pi'', ''obs_recall'')]"

text \<open>\<open>stat\<close> tells which paths exist on the image.\<close>

definition loadedExtensions :: "(string \<Rightarrow> bool) \<Rightarrow> string list \<Rightarrow> string list" where
  "loadedExtensions stat exts = filter stat exts"

fun extension_args :: "(string \<Rightarrow> bool) \<Rightarrow> string list \<Rightarrow> string list" where
  "extension_args stat [] = []"
| "extension_args stat (e # es) = (if stat e then [''-e'', e] else []) @ extension_args stat es"

fun allow_tools :: "(string \<Rightarrow> bool) \<Rightarrow> string list \<Rightarrow> string list \<Rightarrow> string list" where
  "allow_tools stat [] allow = allow"
| "allow_tools stat (e # es) allow =
     (if \<not> stat e then allow_tools stat es allow
      else (case map_of extensionTools e of
              None \<Rightarrow> allow_tools stat es allow
            | Some t \<Rightarrow> if t \<in> set allow then allow_tools stat es allow
                       else allow_tools stat es (allow @ [t])))"

definition buildPiArgs ::
  "string \<Rightarrow> string \<Rightarrow> string list \<Rightarrow> string list \<Rightarrow> (string \<Rightarrow> bool) \<Rightarrow> string list" where
  "buildPiArgs skill model tools exts stat =
     [''--skill'', skill, ''--model'', model, ''--no-approve''] @ extension_args stat exts @
     (if tools = [] then [] else [''--tools'', Join (allow_tools stat exts tools) '',''])"

record Loadout =
  lo_ExcludeTools :: "string list"
  lo_NoMCP :: bool
  lo_Thinking :: string
  lo_ExtraExtensions :: "string list"

definition PiArgsLoadout ::
  "(string \<Rightarrow> bool) \<Rightarrow> string \<Rightarrow> string \<Rightarrow> string list \<Rightarrow> Loadout \<Rightarrow> string list" where
  "PiArgsLoadout stat skill model tools lo =
     buildPiArgs skill model tools (Extensions @ lo_ExtraExtensions lo) stat @
     (if lo_ExcludeTools lo \<noteq> [] then [''--exclude-tools'', Join (lo_ExcludeTools lo) '',''] else []) @
     (if lo_NoMCP lo then [''--no-mcp''] else []) @
     (if lo_Thinking lo \<noteq> [] then [''--thinking'', lo_Thinking lo] else [])"

definition PiArgs :: "(string \<Rightarrow> bool) \<Rightarrow> string \<Rightarrow> string \<Rightarrow> string list \<Rightarrow> string list" where
  "PiArgs stat skill model tools = PiArgsLoadout stat skill model tools
     \<lparr>lo_ExcludeTools = [], lo_NoMCP = False, lo_Thinking = [], lo_ExtraExtensions = []\<rparr>"

section \<open>The session record (session.go, usage.go)\<close>

datatype json = JsNull | JsBool bool | JsNumber string | JsString string
  | JsArray "json list" | JsObject "(string \<times> json) list"

record 'f TokenUsage =
  tu_Input :: int
  tu_Output :: int
  tu_CacheRead :: int
  tu_CacheWrite :: int
  tu_Cost :: 'f

definition TokenUsage0 :: "'f::zero TokenUsage" where
  "TokenUsage0 = \<lparr>tu_Input = 0, tu_Output = 0, tu_CacheRead = 0, tu_CacheWrite = 0, tu_Cost = 0\<rparr>"

definition usage_add :: "'f::plus TokenUsage \<Rightarrow> 'f TokenUsage \<Rightarrow> 'f TokenUsage" where
  "usage_add u v = \<lparr>tu_Input = tu_Input u + tu_Input v, tu_Output = tu_Output u + tu_Output v,
     tu_CacheRead = tu_CacheRead u + tu_CacheRead v, tu_CacheWrite = tu_CacheWrite u + tu_CacheWrite v,
     tu_Cost = tu_Cost u + tu_Cost v\<rparr>"

record ToolCall =
  tc_Name :: string
  tc_Args :: "(string, json) gomap"
  tc_Success :: "bool option"
  tc_Result :: string
  tc_Details :: "(string, json) gomap"

record GateResult =
  gr_Green :: bool
  gr_Output :: string

record BudgetStats =
  bs_Executed :: nat
  bs_Blocked :: nat
  bs_Nudged :: bool

record TurnCapture =
  cp_Response :: string
  cp_Tools :: "ToolCall list"
  cp_ExtensionErrors :: nat
  cp_AssistantMessageEnd :: bool

definition TurnCapture0 :: TurnCapture where
  "TurnCapture0 = \<lparr>cp_Response = [], cp_Tools = [], cp_ExtensionErrors = 0, cp_AssistantMessageEnd = False\<rparr>"

record 'f TurnRecord =
  tr_Label :: string
  tr_Prompt :: string
  tr_Response :: string
  tr_Tools :: "ToolCall list"
  tr_Usage :: "'f TokenUsage"
  tr_Gate :: "GateResult option"
  tr_Budget :: "BudgetStats option"

record 'f SessionRecord =
  sr_Workflow :: string
  sr_RunID :: string
  sr_Model :: string
  sr_Skill :: string
  sr_StartedAt :: instant
  sr_EndedAt :: instant
  sr_Green :: bool
  sr_Turns :: "'f TurnRecord list"
  sr_TotalUsage :: "'f TokenUsage"

definition budgetBlockMarker :: string where "budgetBlockMarker = ''Tool budget exhausted''"
definition budgetNudgeMarker :: string where "budgetNudgeMarker = ''Budget checkpoint:''"

definition isBudgetVeto :: "string \<Rightarrow> bool" where
  "isBudgetVeto result \<longleftrightarrow> Contains result budgetBlockMarker \<or> Contains result budgetNudgeMarker"

fun budget_loop :: "ToolCall list \<Rightarrow> BudgetStats \<Rightarrow> BudgetStats" where
  "budget_loop [] st = st"
| "budget_loop (t # ts) st =
     (if isBudgetVeto (tc_Result t) then
        budget_loop ts (st\<lparr>bs_Blocked := bs_Blocked st + 1,
          bs_Nudged := bs_Nudged st \<or> Contains (tc_Result t) budgetNudgeMarker\<rparr>)
      else budget_loop ts (st\<lparr>bs_Executed := bs_Executed st + 1\<rparr>))"

definition budgetStats :: "ToolCall list \<Rightarrow> BudgetStats option" where
  "budgetStats tools =
     (if tools = [] then None
      else Some (budget_loop tools \<lparr>bs_Executed = 0, bs_Blocked = 0, bs_Nudged = False\<rparr>))"

section \<open>Events and their decoders\<close>

record PiEvent =
  ev_Type :: string
  ev_ToolName :: string
  ev_Args :: "(string, json) gomap"
  ev_Message :: string
  ev_Success :: "bool option"
  ev_Raw :: string

definition PiEvent0 :: PiEvent where
  "PiEvent0 = \<lparr>ev_Type = [], ev_ToolName = [], ev_Args = [], ev_Message = [], ev_Success = None, ev_Raw = []\<rparr>"

definition EvToolStart :: string where "EvToolStart = ''tool_execution_start''"
definition EvToolEnd :: string where "EvToolEnd = ''tool_execution_end''"
definition EvAgentEnd :: string where "EvAgentEnd = ''agent_end''"

record ContentBlock =
  cb_Type :: string
  cb_Text :: string

text \<open>One message of the snapshot an \<^verbatim>\<open>agent_end\<close> carries; the cost is absent when its object is.\<close>

record 'f end_usage =
  eu_Input :: int
  eu_Output :: int
  eu_CacheRead :: int
  eu_CacheWrite :: int
  eu_Cost :: "'f option"

record 'f agentEndMessage =
  am_Role :: string
  am_Usage :: "'f end_usage option"
  am_Content :: "ContentBlock list"

record 'f agent_codec =
  jc_plain :: "string \<Rightarrow> string + (string \<times> PiEvent)"  \<comment> \<open>the raw message and the event without it\<close>
  jc_string :: "string \<Rightarrow> string + string"
  jc_end_usage :: "string \<Rightarrow> string + (string \<times> 'f TokenUsage)"
  jc_end_content :: "string \<Rightarrow> string + (string \<times> ContentBlock list)"
  jc_tool_end :: "string \<Rightarrow> string + (string \<times> bool)"
  jc_tool_raw :: "string \<Rightarrow> string + string"
  jc_details :: "string \<Rightarrow> string + (string, json) gomap"
  jc_any :: "string \<Rightarrow> string + json"
  jc_indent :: "json \<Rightarrow> string + string"
  jc_verb_v :: "json \<Rightarrow> string"
  jc_extension :: "string \<Rightarrow> string \<times> string \<times> string"
  jc_agent_end :: "string \<Rightarrow> string + 'f agentEndMessage list"
  jc_prompt :: "string \<Rightarrow> string + string"  \<comment> \<open>the command with its message, marshalled\<close>

text \<open>\<^verbatim>\<open>Event.UnmarshalJSON\<close>: a message that is not a string is left out.\<close>

definition unmarshal_event :: "'f agent_codec \<Rightarrow> string \<Rightarrow> string + PiEvent" where
  "unmarshal_event jc b =
     (case jc_plain jc b of
        Inl e \<Rightarrow> Inl e
      | Inr (raw, ev) \<Rightarrow>
          if raw = [] then Inr ev
          else (case jc_string jc raw of Inl _ \<Rightarrow> Inr ev | Inr s \<Rightarrow> Inr (ev\<lparr>ev_Message := s\<rparr>)))"

definition parseEvent :: "'f agent_codec \<Rightarrow> string \<Rightarrow> string + PiEvent" where
  "parseEvent jc line0 =
     (let line = TrimSpace line0
      in if line = [] then Inl ''blank line''
         else (case unmarshal_event jc line of
                 Inl e \<Rightarrow> Inl e
               | Inr ev \<Rightarrow> if ev_Type ev = [] then Inl ''event has no type'' else Inr (ev\<lparr>ev_Raw := line\<rparr>)))"

definition messageEndUsage :: "'f agent_codec \<Rightarrow> string \<Rightarrow> 'f TokenUsage option" where
  "messageEndUsage jc raw =
     (case jc_end_usage jc raw of
        Inl _ \<Rightarrow> None
      | Inr (role, u) \<Rightarrow>
          if role \<noteq> ''assistant'' then None
          else if tu_Input u = 0 \<and> tu_Output u = 0 then None else Some u)"

definition messageEndContent :: "'f agent_codec \<Rightarrow> string \<Rightarrow> string" where
  "messageEndContent jc raw =
     (case jc_end_content jc raw of
        Inl _ \<Rightarrow> []
      | Inr (role, blocks) \<Rightarrow>
          if role \<noteq> ''assistant'' then []
          else Join (map cb_Text (filter (\<lambda>b. cb_Type b = ''text'' \<and> cb_Text b \<noteq> []) blocks)) [CHR 0x0A])"

definition toolEndDetails :: "'f agent_codec \<Rightarrow> string \<Rightarrow> (string, json) gomap" where
  "toolEndDetails jc raw =
     (case jc_tool_raw jc raw of
        Inl _ \<Rightarrow> []
      | Inr r \<Rightarrow> if r = [] then [] else (case jc_details jc r of Inl _ \<Rightarrow> [] | Inr d \<Rightarrow> d))"

definition toolEndResult :: "'f agent_codec \<Rightarrow> string \<Rightarrow> string \<times> bool" where
  "toolEndResult jc raw =
     (case jc_tool_end jc raw of
        Inl _ \<Rightarrow> ([], False)
      | Inr (r, isErr) \<Rightarrow>
          if r = [] \<or> r = ''null'' then ([], isErr)
          else (case jc_string jc r of
                  Inr s \<Rightarrow> (s, isErr)
                | Inl _ \<Rightarrow>
                    (case jc_any jc r of
                       Inl _ \<Rightarrow> (r, isErr)
                     | Inr v \<Rightarrow> (case jc_indent jc v of Inl _ \<Rightarrow> (jc_verb_v jc v, isErr) | Inr b \<Rightarrow> (b, isErr)))))"

definition rigRefused :: "(string, json) gomap \<Rightarrow> string option" where
  "rigRefused details =
     (case map_of details ''refused'' of
        Some (JsBool True) \<Rightarrow>
          Some (case map_of details ''sha_state'' of Some (JsString s) \<Rightarrow> s | _ \<Rightarrow> [])
      | _ \<Rightarrow> None)"

section \<open>One turn (RPC.Prompt)\<close>

datatype signal = SigEvent PiEvent | SigDone string

record rpc =
  rp_closed :: bool
  rp_seenAgentMsgs :: nat
  rp_sessionDir :: string
  rp_signals :: "signal list"
  rp_eof :: bool
  rp_stdin :: "string list"
  rp_stdin_error :: "string option"
  rp_log :: "PiEvent list"

definition rpc_logf :: "PiEvent \<Rightarrow> rpc \<Rightarrow> rpc" where
  "rpc_logf ev r = r\<lparr>rp_log := rp_log r @ [ev]\<rparr>"

text \<open>\<^verbatim>\<open>send\<close>: one line on the agent's standard input.\<close>

definition rpc_send :: "string + string \<Rightarrow> rpc \<Rightarrow> string option \<times> rpc" where
  "rpc_send enc r =
     (if rp_closed r then (Some ''session closed'', r)
      else (case enc of
              Inl e \<Rightarrow> (Some e, r)
            | Inr b \<Rightarrow> (case rp_stdin_error r of
                         Some e \<Rightarrow> (Some e, r)
                       | None \<Rightarrow> (None, r\<lparr>rp_stdin := rp_stdin r @ [b @ [CHR 0x0A]]\<rparr>))))"

fun first_text :: "ContentBlock list \<Rightarrow> string option" where
  "first_text [] = None"
| "first_text (b # bs) = (if cb_Type b = ''text'' \<and> cb_Text b \<noteq> [] then Some (cb_Text b) else first_text bs)"

text \<open>The last assistant message with a text gives the response; the messages are given in reverse.\<close>

fun last_response :: "'f agentEndMessage list \<Rightarrow> string option" where
  "last_response [] = None"
| "last_response (m # ms) =
     (if am_Role m \<noteq> ''assistant'' then last_response ms
      else (case first_text (am_Content m) of Some t \<Rightarrow> Some t | None \<Rightarrow> last_response ms))"

fun absorb_usage :: "'f::{plus,zero} agentEndMessage list \<Rightarrow> 'f TokenUsage \<Rightarrow> 'f TokenUsage" where
  "absorb_usage [] u = u"
| "absorb_usage (m # ms) u =
     (case am_Usage m of
        None \<Rightarrow> absorb_usage ms u
      | Some x \<Rightarrow>
          if am_Role m \<noteq> ''assistant'' then absorb_usage ms u
          else absorb_usage ms (usage_add u
            \<lparr>tu_Input = eu_Input x, tu_Output = eu_Output x, tu_CacheRead = eu_CacheRead x,
             tu_CacheWrite = eu_CacheWrite x, tu_Cost = (case eu_Cost x of None \<Rightarrow> 0 | Some c \<Rightarrow> c)\<rparr>))"

definition absorbAgentEnd ::
  "'f::{plus,zero} agent_codec \<Rightarrow> string \<Rightarrow> rpc \<Rightarrow> 'f TokenUsage \<Rightarrow> TurnCapture \<Rightarrow>
   rpc \<times> 'f TokenUsage \<times> TurnCapture" where
  "absorbAgentEnd jc raw r0 usage capture =
     (case jc_agent_end jc raw of
        Inl e \<Rightarrow> (rpc_logf (PiEvent0\<lparr>ev_Type := ''agent_end_unparsable'', ev_Message := e\<rparr>) r0, usage, capture)
      | Inr msgs \<Rightarrow>
          (let r = (if length msgs < rp_seenAgentMsgs r0 then r0\<lparr>rp_seenAgentMsgs := 0\<rparr> else r0)
           in if length msgs \<le> rp_seenAgentMsgs r then (r, usage, capture)
              else
                (let turn = drop (rp_seenAgentMsgs r) msgs;
                     usage' = (if tu_Input usage = 0 \<and> tu_Output usage = 0 then absorb_usage turn usage else usage);
                     capture' = (if cp_Response capture = []
                                 then (case last_response (rev turn) of
                                         Some t \<Rightarrow> capture\<lparr>cp_Response := t\<rparr> | None \<Rightarrow> capture)
                                 else capture)
                 in (r\<lparr>rp_seenAgentMsgs := length msgs\<rparr>, usage', capture'))))"

record 'f turn_state =
  pt_last :: PiEvent
  pt_tools :: nat
  pt_usage :: "'f TokenUsage"
  pt_capture :: TurnCapture

definition on_message_end :: "'f::{plus,zero} agent_codec \<Rightarrow> PiEvent \<Rightarrow> 'f turn_state \<Rightarrow> 'f turn_state" where
  "on_message_end jc ev st =
     (let cap = (pt_capture st)\<lparr>cp_AssistantMessageEnd := True\<rparr>;
          u = (case messageEndUsage jc (ev_Raw ev) of
                 Some x \<Rightarrow> usage_add (pt_usage st) x | None \<Rightarrow> pt_usage st);
          text = messageEndContent jc (ev_Raw ev)
      in st\<lparr>pt_usage := u, pt_capture := (if text \<noteq> [] then cap\<lparr>cp_Response := text\<rparr> else cap)\<rparr>)"

definition on_extension_error ::
  "'f agent_codec \<Rightarrow> PiEvent \<Rightarrow> 'f turn_state \<Rightarrow> rpc \<Rightarrow> 'f turn_state \<times> rpc" where
  "on_extension_error jc ev st r =
     (let (path, event, err) = jc_extension jc (ev_Raw ev)
      in (st\<lparr>pt_capture := (pt_capture st)\<lparr>cp_ExtensionErrors := cp_ExtensionErrors (pt_capture st) + 1\<rparr>\<rparr>,
          rpc_logf (PiEvent0\<lparr>ev_Type := ''extension_degraded'', ev_ToolName := path,
            ev_Message := ''handler='' @ event @ '' error='' @ err\<rparr>) r))"

definition on_tool_start :: "PiEvent \<Rightarrow> 'f turn_state \<Rightarrow> 'f turn_state" where
  "on_tool_start ev st =
     st\<lparr>pt_tools := pt_tools st + 1,
        pt_capture := (pt_capture st)\<lparr>cp_Tools := cp_Tools (pt_capture st) @
          [\<lparr>tc_Name = ev_ToolName ev, tc_Args = ev_Args ev, tc_Success = None, tc_Result = [],
            tc_Details = []\<rparr>]\<rparr>\<rparr>"

definition rig_telemetry :: "string \<Rightarrow> (string, json) gomap \<Rightarrow> rpc \<Rightarrow> rpc" where
  "rig_telemetry name details r =
     (if name \<noteq> ''rig'' then r
      else
        (let r1 = (if map_of details ''refused'' = None
                   then rpc_logf (PiEvent0\<lparr>ev_Type := ''rig_schema_drift'',
                          ev_Message := ''rig tool result carries no refused key '' @ em_dash @
                            '' incident telemetry is blind until the extension and worker agree again''\<rparr>) r
                   else r)
         in (case rigRefused details of
               Some state \<Rightarrow> rpc_logf (PiEvent0\<lparr>ev_Type := ''rig_refused'',
                 ev_Message := ''graph refused, sha_state='' @ state\<rparr>) r1
             | None \<Rightarrow> r1)))"

definition on_tool_end ::
  "'f agent_codec \<Rightarrow> PiEvent \<Rightarrow> 'f turn_state \<Rightarrow> rpc \<Rightarrow> 'f turn_state \<times> rpc" where
  "on_tool_end jc ev st r =
     (let tools = cp_Tools (pt_capture st)
      in if tools = [] then (st, r)
         else
           (let (result, isErr) = toolEndResult jc (ev_Raw ev);
                details = toolEndDetails jc (ev_Raw ev);
                t = (last tools)\<lparr>tc_Result := result, tc_Success := Some (\<not> isErr), tc_Details := details\<rparr>
            in (st\<lparr>pt_capture := (pt_capture st)\<lparr>cp_Tools := butlast tools @ [t]\<rparr>\<rparr>,
                rig_telemetry (tc_Name t) details r)))"

text \<open>The switch on the type of an event that does not end the turn.\<close>

definition on_event ::
  "'f::{plus,zero} agent_codec \<Rightarrow> PiEvent \<Rightarrow> 'f turn_state \<Rightarrow> rpc \<Rightarrow> 'f turn_state \<times> rpc" where
  "on_event jc ev st r =
     (if ev_Type ev = ''message_end'' then (on_message_end jc ev st, r)
      else if ev_Type ev = ''extension_error'' then on_extension_error jc ev st r
      else if ev_Type ev = EvToolStart then (on_tool_start ev st, r)
      else if ev_Type ev = EvToolEnd then on_tool_end jc ev st r
      else (st, r))"

type_synonym 'f prompt_result = "PiEvent \<times> nat \<times> 'f TokenUsage \<times> TurnCapture \<times> string option"

fun prompt_loop ::
  "'f::{plus,zero} agent_codec \<Rightarrow> signal list \<Rightarrow> 'f turn_state \<Rightarrow> rpc \<Rightarrow> ('f prompt_result \<times> rpc) option" where
  "prompt_loop jc [] st r =
     (if rp_eof r
      then Some ((pt_last st, pt_tools st, pt_usage st, pt_capture st, None), r\<lparr>rp_signals := []\<rparr>)
      else None)"
| "prompt_loop jc (SigDone e # sigs) st r =
     Some ((pt_last st, pt_tools st, pt_usage st, pt_capture st, Some e), r\<lparr>rp_signals := sigs\<rparr>)"
| "prompt_loop jc (SigEvent ev # sigs) st r =
     (let st1 = st\<lparr>pt_last := ev\<rparr>; r1 = rpc_logf ev r
      in if ev_Type ev = EvAgentEnd then
           (let (r2, usage, capture) = absorbAgentEnd jc (ev_Raw ev) r1 (pt_usage st1) (pt_capture st1)
            in Some ((ev, pt_tools st1, usage, capture, None), r2\<lparr>rp_signals := sigs\<rparr>))
         else (let (st2, r2) = on_event jc ev st1 r1 in prompt_loop jc sigs st2 r2))"

definition rpc_Prompt ::
  "'f::{plus,zero} agent_codec \<Rightarrow> string \<Rightarrow> string \<Rightarrow> rpc \<Rightarrow> ('f prompt_result \<times> rpc) option" where
  "rpc_Prompt jc message label r0 =
     (let r1 = rpc_logf (PiEvent0\<lparr>ev_Type := ''prompt'', ev_Message := label\<rparr>) r0
      in (case rpc_send (jc_prompt jc message) r1 of
            (Some e, r2) \<Rightarrow> Some ((PiEvent0, 0, TokenUsage0, TurnCapture0, Some e), r2)
          | (None, r2) \<Rightarrow>
              prompt_loop jc (rp_signals r2)
                \<lparr>pt_last = PiEvent0, pt_tools = 0, pt_usage = TokenUsage0, pt_capture = TurnCapture0\<rparr> r2))"

section \<open>Starting the agent (NewRPC)\<close>

record RPCOptions =
  ro_PiPath :: string
  ro_Args :: "string list"
  ro_Workdir :: string
  ro_Env :: "string list"
  ro_SessionRoot :: string
  ro_LineageDir :: string
  ro_SessionID :: string

record pi_command =
  pc_path :: string
  pc_args :: "string list"
  pc_dir :: string
  pc_env :: "string list"

text \<open>
  The arguments and the session directory; \<open>mkdir_all\<close> and \<open>mkdir_temp\<close> are the results of the two
  directory calls and \<open>now\<close> the clock the fresh session id is made from. The third component is what
  is logged. In \<^verbatim>\<open>NewRPC\<close> itself \<open>start\<close> is the first error of the two pipes and of the start of the
  process.
\<close>

definition session_args ::
  "RPCOptions \<Rightarrow> (string \<Rightarrow> string option) \<Rightarrow> (string \<Rightarrow> string + string) \<Rightarrow> int \<Rightarrow>
   string list \<times> string \<times> PiEvent list" where
  "session_args opts mkdir_all mkdir_temp now =
     (let args0 = [''--mode'', ''rpc''] @ ro_Args opts;
          args = (if ro_SessionRoot opts = [] then args0 @ [''--no-session''] else args0);
          dir_error = (\<lambda>e. PiEvent0\<lparr>ev_Type := ''session_dir_error'', ev_Message := e\<rparr>)
      in if ro_LineageDir opts \<noteq> [] \<and> ro_SessionID opts \<noteq> [] then
           (case mkdir_all (ro_LineageDir opts) of
              Some e \<Rightarrow> (args @ [''--no-session''], [], [dir_error e])
            | None \<Rightarrow> (args @ [''--session-dir'', ro_LineageDir opts, ''--session-id'', ro_SessionID opts],
                       ro_LineageDir opts, []))
         else if ro_SessionRoot opts \<noteq> [] then
           (case mkdir_temp (ro_SessionRoot opts) of
              Inl e \<Rightarrow> (args @ [''--no-session''], [], [dir_error e])
            | Inr dir \<Rightarrow> (args @ [''--session-dir'', dir, ''--session-id'', ''harmostes-'' @ show_int now], dir, []))
         else (args, [], []))"

definition NewRPC ::
  "RPCOptions \<Rightarrow> (string \<Rightarrow> string option) \<Rightarrow> (string \<Rightarrow> string + string) \<Rightarrow> int \<Rightarrow>
   (pi_command \<Rightarrow> string option) \<Rightarrow> signal list \<Rightarrow> bool \<Rightarrow> (pi_command \<times> (string + rpc))" where
  "NewRPC opts mkdir_all mkdir_temp now start signals eof =
     (let (args, dir, logs) = session_args opts mkdir_all mkdir_temp now;
          cmd = \<lparr>pc_path = (if ro_PiPath opts = [] then ''pi'' else ro_PiPath opts), pc_args = args,
                 pc_dir = ro_Workdir opts, pc_env = ChildEnv (ro_Env opts)\<rparr>
      in (cmd, (case start cmd of
           Some e \<Rightarrow> Inl e
         | None \<Rightarrow> Inr \<lparr>rp_closed = False, rp_seenAgentMsgs = 0, rp_sessionDir = dir, rp_signals = signals,
                        rp_eof = eof, rp_stdin = [], rp_stdin_error = None, rp_log = logs\<rparr>)))"

text \<open>The reader: a line that does not parse is dropped.\<close>

fun readLoop :: "'f agent_codec \<Rightarrow> string list \<Rightarrow> signal list" where
  "readLoop jc [] = []"
| "readLoop jc (line # ls) =
     (case parseEvent jc line of Inl _ \<Rightarrow> readLoop jc ls | Inr ev \<Rightarrow> SigEvent ev # readLoop jc ls)"

text \<open>
  The agent's standard error: complete lines become log events, the rest is kept. The result is the
  new buffer with the events.
\<close>

fun line_log :: "string \<Rightarrow> string \<Rightarrow> string \<times> PiEvent list" where
  "line_log buf [] = (buf, [])"
| "line_log buf (c # cs) =
     (if c = CHR 0x0A then
        (let line = TrimSpace buf; (rest, evs) = line_log [] cs
         in (rest, (if line \<noteq> [] then [PiEvent0\<lparr>ev_Type := ''_pi_log'', ev_Message := line\<rparr>] else []) @ evs))
      else line_log (buf @ [c]) cs)"

text \<open>\<^verbatim>\<open>Abort\<close>: \<open>abort_line\<close> is the marshalled command, \<open>wait\<close> how the wait for the process ends.\<close>

definition rpc_Abort :: "string \<Rightarrow> string option \<Rightarrow> rpc \<Rightarrow> string option \<times> rpc" where
  "rpc_Abort abort_line wait r =
     (if rp_closed r then (None, r)
      else (wait, r\<lparr>rp_closed := True, rp_signals := [],
              rp_stdin := (if rp_stdin_error r = None then rp_stdin r @ [abort_line @ [CHR 0x0A]] else rp_stdin r)\<rparr>))"

section \<open>Laws of one turn\<close>

text \<open>What the scrub keeps: exactly the entries without a key of the list, in their order.\<close>

definition env_key :: "string \<Rightarrow> string option" where
  "env_key kv = map_option fst (Cut kv (CHR ''=''))"

lemma FilterEnv_filter: "FilterEnv env ks = filter (\<lambda>kv. env_key kv \<notin> Some ` set ks) env"
  by (induction env) (auto simp: env_key_def split: option.split)

lemma Getenv_FilterEnv:
  "Getenv (FilterEnv env ks) k = (if k \<in> set ks then [] else Getenv env k)"
  by (induction env) (auto split: option.split)

text \<open>A line of the agent's standard error may come in any pieces.\<close>

lemma line_log_append:
  "line_log buf (p @ q) =
     (let (b, es) = line_log buf p; (b', es') = line_log b q in (b', es @ es'))"
  by (induction buf p rule: line_log.induct) (auto simp: Let_def split: prod.splits)

text \<open>Events that carry neither usage nor the end of the turn.\<close>

definition quiet :: "signal \<Rightarrow> bool" where
  "quiet s = (case s of SigEvent ev \<Rightarrow> ev_Type ev \<noteq> ''message_end'' \<and> ev_Type ev \<noteq> EvAgentEnd | SigDone _ \<Rightarrow> False)"

text \<open>The part of a turn and of a session that quiet events leave alone.\<close>

definition turn_core :: "'f turn_state \<Rightarrow> rpc \<Rightarrow> 'f TokenUsage \<times> string \<times> bool \<times> nat \<times> bool \<times> bool \<times> string list \<times> string option" where
  "turn_core st r = (pt_usage st, cp_Response (pt_capture st), cp_AssistantMessageEnd (pt_capture st),
     rp_seenAgentMsgs r, rp_closed r, rp_eof r, rp_stdin r, rp_stdin_error r)"

lemma on_event_core:
  assumes "ev_Type ev \<noteq> ''message_end''" "on_event jc ev st r = (st', r')"
  shows "turn_core st' r' = turn_core st r"
  using assms
  by (auto simp: on_event_def on_extension_error_def on_tool_start_def on_tool_end_def rig_telemetry_def
      rpc_logf_def turn_core_def Let_def split: prod.splits if_splits option.splits)

lemma prompt_loop_quiet:
  assumes "list_all quiet pre"
  shows "\<exists>st' r'. prompt_loop jc (pre @ sigs) st r = prompt_loop jc sigs st' r'
           \<and> turn_core st' r' = turn_core st r"
  using assms
proof (induction pre arbitrary: st r)
  case (Cons s pre)
  then obtain ev where s: "s = SigEvent ev" and q: "ev_Type ev \<noteq> ''message_end''" "ev_Type ev \<noteq> EvAgentEnd"
    by (auto simp: quiet_def split: signal.splits)
  obtain st1 r1 where e: "on_event jc ev (st\<lparr>pt_last := ev\<rparr>) (rpc_logf ev r) = (st1, r1)" by fastforce
  have "turn_core st1 r1 = turn_core st r"
    using on_event_core [OF q(1) e] by (simp add: turn_core_def rpc_logf_def)
  moreover obtain st' r' where "prompt_loop jc (pre @ sigs) st1 r1 = prompt_loop jc sigs st' r'"
      "turn_core st' r' = turn_core st1 r1"
    using Cons by fastforce
  ultimately show ?case using s q e by (intro exI [of _ st'] exI [of _ r']) simp
qed auto

text \<open>A turn returns exactly when the stream gives it an end.\<close>

definition turn_ends :: "signal \<Rightarrow> bool" where
  "turn_ends s = (case s of SigEvent ev \<Rightarrow> ev_Type ev = EvAgentEnd | SigDone _ \<Rightarrow> True)"

lemma on_event_eof: "on_event jc ev st r = (st', r') \<Longrightarrow> rp_eof r' = rp_eof r"
  by (auto simp: on_event_def on_extension_error_def on_tool_end_def rig_telemetry_def rpc_logf_def Let_def
      split: prod.splits if_splits option.splits)

lemma absorbAgentEnd_eof: "absorbAgentEnd jc raw r u c = (r', u', c') \<Longrightarrow> rp_eof r' = rp_eof r"
  by (auto simp: absorbAgentEnd_def rpc_logf_def Let_def split: sum.splits if_splits)

lemma prompt_loop_returns:
  "prompt_loop jc sigs st r \<noteq> None \<longleftrightarrow> rp_eof r \<or> list_ex turn_ends sigs"
proof (induction jc sigs st r rule: prompt_loop.induct)
  case (3 jc ev sigs st r)
  show ?case
  proof (cases "ev_Type ev = EvAgentEnd")
    case False
    obtain st1 r1 where e: "on_event jc ev (st\<lparr>pt_last := ev\<rparr>) (rpc_logf ev r) = (st1, r1)" by fastforce
    have "rp_eof r1 = rp_eof r" using on_event_eof [OF e] by (simp add: rpc_logf_def)
    then show ?thesis
      using False e 3 [OF refl refl False, of "(st1, r1)" st1 r1] by (simp add: turn_ends_def)
  qed (auto simp: turn_ends_def split: prod.splits)
qed (simp_all add: turn_ends_def)

lemma prompt_loop_eof:
  "prompt_loop jc sigs st r = Some (x, r') \<Longrightarrow> rp_eof r' = rp_eof r"
proof (induction jc sigs st r rule: prompt_loop.induct)
  case (3 jc ev sigs st r)
  show ?case
  proof (cases "ev_Type ev = EvAgentEnd")
    case True
    then show ?thesis
      using 3(2) by (auto simp: rpc_logf_def split: prod.splits dest!: absorbAgentEnd_eof)
  next
    case False
    obtain st1 r1 where e: "on_event jc ev (st\<lparr>pt_last := ev\<rparr>) (rpc_logf ev r) = (st1, r1)" by fastforce
    have "rp_eof r1 = rp_eof r" using on_event_eof [OF e] by (simp add: rpc_logf_def)
    then show ?thesis
      using 3(1) [OF refl refl False, of "(st1, r1)" st1 r1] 3(2) False e by simp
  qed
qed (auto split: if_splits)

lemma rpc_Prompt_eof: "rpc_Prompt jc m l r = Some (x, r') \<Longrightarrow> rp_eof r' = rp_eof r"
  by (auto simp: rpc_Prompt_def rpc_send_def rpc_logf_def Let_def
      split: if_splits sum.splits option.splits dest!: prompt_loop_eof)

lemma rpc_Prompt_returns_eof: "rp_eof r \<Longrightarrow> \<exists>x r'. rpc_Prompt jc m l r = Some (x, r')"
  using prompt_loop_returns [of jc]
  by (auto simp: rpc_Prompt_def rpc_send_def rpc_logf_def Let_def split: if_splits sum.splits option.splits)

end
