(* ===== verification/Agent_Warm.thy ===== *)
theory Agent_Warm
  imports Agent_Session "HOL-Library.Sublist"
begin

text \<open>
  The accounting of a warm session: each \<^verbatim>\<open>agent_end\<close> repeats the whole conversation, and the watermark
  of the session splits it into turns. In the shape in which the worker drives the agent the stream has no
  message boundaries, so that the snapshots are all there is to count.
\<close>

section \<open>What a snapshot holds\<close>

definition assistant_sum :: "('f end_usage \<Rightarrow> int) \<Rightarrow> 'f agentEndMessage list \<Rightarrow> int" where
  "assistant_sum field ms = sum_list (map (\<lambda>m. if am_Role m = ''assistant'' then
     (case am_Usage m of None \<Rightarrow> 0 | Some x \<Rightarrow> field x) else 0) ms)"

lemma assistant_sum_append [simp]:
  "assistant_sum field (xs @ ys) = assistant_sum field xs + assistant_sum field ys"
  by (simp add: assistant_sum_def)

lemma assistant_sum_Nil [simp]: "assistant_sum field [] = 0"
  by (simp add: assistant_sum_def)

lemma absorb_usage_sums:
  "tu_Input (absorb_usage ms u) = tu_Input u + assistant_sum eu_Input ms"
  "tu_Output (absorb_usage ms u) = tu_Output u + assistant_sum eu_Output ms"
  "tu_CacheRead (absorb_usage ms u) = tu_CacheRead u + assistant_sum eu_CacheRead ms"
  "tu_CacheWrite (absorb_usage ms u) = tu_CacheWrite u + assistant_sum eu_CacheWrite ms"
  by (induction ms u rule: absorb_usage.induct)
    (simp_all add: assistant_sum_def usage_add_def split: option.split)

text \<open>A turn without message boundaries that ends in a snapshot.\<close>

definition snapshot_turn :: "'f agent_codec \<Rightarrow> signal list \<Rightarrow> 'f agentEndMessage list \<Rightarrow> bool" where
  "snapshot_turn jc sigs msgs \<longleftrightarrow>
     sigs \<noteq> [] \<and> list_all quiet (butlast sigs) \<and>
     (case last sigs of
        SigEvent ev \<Rightarrow> ev_Type ev = EvAgentEnd \<and> jc_agent_end jc (ev_Raw ev) = Inr msgs
      | SigDone _ \<Rightarrow> False)"

definition rpc_open :: "rpc \<Rightarrow> bool" where
  "rpc_open r \<longleftrightarrow> \<not> rp_closed r \<and> rp_stdin_error r = None"

definition response_of :: "'f agentEndMessage list \<Rightarrow> string" where
  "response_of turn = (case last_response (rev turn) of Some t \<Rightarrow> t | None \<Rightarrow> [])"

lemma absorbAgentEnd_snapshot:
  assumes "jc_agent_end jc raw = Inr msgs" and "rp_seenAgentMsgs r \<le> length msgs"
    and "tu_Input u = 0" "tu_Output u = 0" "cp_Response c = []"
  shows "absorbAgentEnd jc raw r u c =
     (r\<lparr>rp_seenAgentMsgs := length msgs\<rparr>, absorb_usage (drop (rp_seenAgentMsgs r) msgs) u,
      c\<lparr>cp_Response := response_of (drop (rp_seenAgentMsgs r) msgs)\<rparr>)"
  using assms by (auto simp: absorbAgentEnd_def Let_def response_of_def split: option.split)

lemma Prompt_snapshot_turn:
  assumes turn: "snapshot_turn jc sigs msgs" and opn: "rpc_open r"
    and enc: "jc_prompt jc m = Inr b" and sigs: "rp_signals r = sigs @ rest"
    and seen: "rp_seenAgentMsgs r \<le> length msgs"
  shows "\<exists>ev n cap r'. rpc_Prompt jc m l r =
       Some ((ev, n, absorb_usage (drop (rp_seenAgentMsgs r) msgs) TokenUsage0, cap, None), r')
     \<and> cp_Response cap = response_of (drop (rp_seenAgentMsgs r) msgs) \<and> \<not> cp_AssistantMessageEnd cap
     \<and> rp_seenAgentMsgs r' = length msgs \<and> rp_signals r' = rest \<and> rpc_open r'"
proof -
  obtain ev where split: "sigs = butlast sigs @ [SigEvent ev]" and q: "list_all quiet (butlast sigs)"
      and ev: "ev_Type ev = EvAgentEnd" "jc_agent_end jc (ev_Raw ev) = Inr msgs"
    using turn by (auto simp: snapshot_turn_def split: signal.splits) (metis append_butlast_last_id)
  let ?st = "\<lparr>pt_last = PiEvent0, pt_tools = 0, pt_usage = TokenUsage0, pt_capture = TurnCapture0\<rparr>"
  let ?r = "(rpc_logf (PiEvent0\<lparr>ev_Type := ''prompt'', ev_Message := l\<rparr>) r)\<lparr>rp_stdin := rp_stdin r @ [b @ [CHR 0x0A]]\<rparr>"
  have start: "rpc_Prompt jc m l r = prompt_loop jc (butlast sigs @ SigEvent ev # rest) ?st ?r"
    using opn enc sigs split by (simp add: rpc_Prompt_def rpc_send_def rpc_open_def rpc_logf_def Let_def)
      (metis append.assoc append_Cons append_Nil)
  obtain st' r' where loop: "prompt_loop jc (butlast sigs @ SigEvent ev # rest) ?st ?r
        = prompt_loop jc (SigEvent ev # rest) st' r'"
      and core: "turn_core st' r' = turn_core ?st ?r"
    using prompt_loop_quiet [OF q] by metis
  have c: "pt_usage st' = TokenUsage0" "cp_Response (pt_capture st') = []" "\<not> cp_AssistantMessageEnd (pt_capture st')"
      "rp_seenAgentMsgs r' = rp_seenAgentMsgs r" "rp_closed r' = rp_closed r" "rp_stdin_error r' = rp_stdin_error r"
    using core by (simp_all add: turn_core_def TurnCapture0_def rpc_logf_def)
  have "absorbAgentEnd jc (ev_Raw ev) (rpc_logf ev r') (pt_usage st') (pt_capture st') =
     ((rpc_logf ev r')\<lparr>rp_seenAgentMsgs := length msgs\<rparr>,
      absorb_usage (drop (rp_seenAgentMsgs r) msgs) TokenUsage0,
      (pt_capture st')\<lparr>cp_Response := response_of (drop (rp_seenAgentMsgs r) msgs)\<rparr>)"
    using absorbAgentEnd_snapshot [OF ev(2), of "rpc_logf ev r'" "pt_usage st'" "pt_capture st'"] seen c
    by (simp add: rpc_logf_def TokenUsage0_def)
  then show ?thesis
    using start loop ev(1) c opn by (simp add: rpc_open_def rpc_logf_def)
qed

section \<open>A session of several turns\<close>

text \<open>The prompts of a session, one after the other, with the usage each reports.\<close>

fun warm_turns :: "'f::{plus,zero} agent_codec \<Rightarrow> (string \<times> string) list \<Rightarrow> rpc \<Rightarrow> ('f TokenUsage list \<times> rpc) option" where
  "warm_turns jc [] r = Some ([], r)"
| "warm_turns jc ((m, l) # asks) r =
     (case rpc_Prompt jc m l r of
        None \<Rightarrow> None
      | Some ((ev, n, u, cap, err), r1) \<Rightarrow>
          (case warm_turns jc asks r1 of None \<Rightarrow> None | Some (us, r2) \<Rightarrow> Some (u # us, r2)))"

text \<open>The turns of a stream, each snapshot continuing the one before.\<close>

fun growing :: "'f agent_codec \<Rightarrow> 'f agentEndMessage list \<Rightarrow> (signal list \<times> 'f agentEndMessage list) list \<Rightarrow> bool" where
  "growing jc base [] = True"
| "growing jc base ((sigs, msgs) # ts) \<longleftrightarrow>
     snapshot_turn jc sigs msgs \<and> prefix base msgs \<and> growing jc msgs ts"

definition final_snapshot :: "'f agentEndMessage list \<Rightarrow> (signal list \<times> 'f agentEndMessage list) list \<Rightarrow> 'f agentEndMessage list" where
  "final_snapshot base ts = (if ts = [] then base else snd (last ts))"

lemma warm_turns_sum:
  assumes "growing jc base ts" "length asks = length ts" "rpc_open r"
    and "rp_seenAgentMsgs r = length base" "rp_signals r = concat (map fst ts) @ rest"
    and "\<And>m. \<exists>b. jc_prompt jc m = Inr b"
  shows "\<exists>us r'. warm_turns jc asks r = Some (us, r') \<and> rp_signals r' = rest
     \<and> assistant_sum eu_Input base + sum_list (map tu_Input us) = assistant_sum eu_Input (final_snapshot base ts)
     \<and> assistant_sum eu_Output base + sum_list (map tu_Output us) = assistant_sum eu_Output (final_snapshot base ts)
     \<and> assistant_sum eu_CacheRead base + sum_list (map tu_CacheRead us) = assistant_sum eu_CacheRead (final_snapshot base ts)
     \<and> assistant_sum eu_CacheWrite base + sum_list (map tu_CacheWrite us) = assistant_sum eu_CacheWrite (final_snapshot base ts)"
  using assms
proof (induction ts arbitrary: base asks r)
  case Nil
  then show ?case by (simp add: final_snapshot_def)
next
  case (Cons t ts)
  obtain sigs msgs where t: "t = (sigs, msgs)" by fastforce
  obtain m l asks' where asks: "asks = (m, l) # asks'" using Cons.prems(2) by (cases asks) auto
  obtain b where b: "jc_prompt jc m = Inr b" using Cons.prems(6) by blast
  have g: "snapshot_turn jc sigs msgs" "prefix base msgs" "growing jc msgs ts" using Cons.prems(1) t by auto
  obtain tl where tl: "msgs = base @ tl" using g(2) by (auto simp: prefix_def)
  obtain ev n cap r' where p: "rpc_Prompt jc m l r = Some ((ev, n, absorb_usage tl TokenUsage0, cap, None), r')"
      and r': "rp_seenAgentMsgs r' = length msgs" "rp_signals r' = concat (map fst ts) @ rest" "rpc_open r'"
    using Prompt_snapshot_turn [OF g(1) Cons.prems(3) b, of "concat (map fst ts) @ rest" l] Cons.prems(4,5) t tl
    by auto
  obtain us r2 where "warm_turns jc asks' r' = Some (us, r2)" "rp_signals r2 = rest"
      "assistant_sum eu_Input msgs + sum_list (map tu_Input us) = assistant_sum eu_Input (final_snapshot msgs ts)"
      "assistant_sum eu_Output msgs + sum_list (map tu_Output us) = assistant_sum eu_Output (final_snapshot msgs ts)"
      "assistant_sum eu_CacheRead msgs + sum_list (map tu_CacheRead us) = assistant_sum eu_CacheRead (final_snapshot msgs ts)"
      "assistant_sum eu_CacheWrite msgs + sum_list (map tu_CacheWrite us) = assistant_sum eu_CacheWrite (final_snapshot msgs ts)"
    using Cons.IH [OF g(3) _ r'(3,1,2) Cons.prems(6), of asks'] Cons.prems(2) asks by auto
  moreover have "final_snapshot base (t # ts) = final_snapshot msgs ts"
    by (simp add: final_snapshot_def t)
  ultimately show ?case
    using asks p by (simp add: absorb_usage_sums TokenUsage0_def tl add.assoc)
qed

end
