(* ===== verification/Agent_Loop.thy ===== *)
theory Agent_Loop
  imports Agent_Warm
begin

text \<open>
  The loop of task, gate and feedback (\<^verbatim>\<open>internal/agent/agent.go\<close>) and the runner that drives it over one
  warm session (\<^verbatim>\<open>RPCAgentRunner.Run\<close> of \<^verbatim>\<open>internal/worker/plugin.go\<close>).

  The session and the gate are interfaces of the code, so they are records of operations here, on a world
  that they change; a prompt may never return (\<^const>\<open>None\<close>), and then the loop does not either. Spans and
  metrics are left out.
\<close>

section \<open>The gate and the feedback\<close>

record 'w Gate =
  gt_Run :: "'w \<Rightarrow> (bool \<times> string \<times> string option) \<times> 'w"

record CmdGate =
  cg_Command :: string
  cg_Dir :: string

text \<open>
  \<open>exec\<close> runs a program with arguments, a directory and an environment: whether it ended without an
  error, and what it wrote.
\<close>

definition CmdGate_Run ::
  "(string \<Rightarrow> string list \<Rightarrow> string \<Rightarrow> string list \<Rightarrow> 'w \<Rightarrow> (bool \<times> string) \<times> 'w) \<Rightarrow> string list \<Rightarrow> CmdGate \<Rightarrow> 'w \<Rightarrow>
   (bool \<times> string \<times> string option) \<times> 'w" where
  "CmdGate_Run exec environ g w =
     (let ((ok, out), w') = exec ''sh'' [''-c'', cg_Command g] (cg_Dir g) (ChildEnv environ) w
      in ((ok, TrimSpace out, None), w'))"

definition lastLines :: "string \<Rightarrow> nat \<Rightarrow> string" where
  "lastLines s n =
     (let lines = split_on (CHR 0x0A) (TrimSpace s)
      in if length lines \<le> n then Join lines [CHR 0x0A]
         else Join (drop (length lines - n) lines) [CHR 0x0A])"

definition buildFeedback :: "string \<Rightarrow> nat \<Rightarrow> string" where
  "buildFeedback gateOutput attempt =
     (let nl = [CHR 0x0A]
      in ''The validation gate just failed (attempt '' @ show_nat attempt @ ''). Output:'' @ nl @ nl @
         lastLines gateOutput 25 @ nl @ nl @
         ''Fix it '' @ em_dash @ '' you are still in the same working directory on the same branch. Adapt'' @ nl @
         ''your work to its target'' @ [CHR 0x27] @ ''s current shape; do not drop what you intended. Then'' @ nl @
         ''stop; do not merge, open pull requests, or run further validation. The gate'' @ nl @
         ''will re-run.'')"

section \<open>The loop (Task)\<close>

record ('w, 'f) PiSession =
  ps_Prompt :: "string \<Rightarrow> string \<Rightarrow> 'w \<Rightarrow> ('f prompt_result \<times> 'w) option"

record TurnProgress =
  tp_Turn :: nat
  tp_Label :: string
  tp_TokensIn :: int
  tp_TokensOut :: int
  tp_TotalIn :: int
  tp_TotalOut :: int
  tp_Turns :: nat

record ('w, 'f) taskConfig =
  cf_sessionWriter :: "('f SessionRecord \<Rightarrow> 'w \<Rightarrow> string option \<times> 'w) option"
  cf_toolPublisher :: "(string \<Rightarrow> string \<Rightarrow> ToolCall \<Rightarrow> 'w \<Rightarrow> 'w) option"
  cf_sessionMeta :: SessionMeta
  cf_turnPublisher :: "(TurnProgress \<Rightarrow> 'w \<Rightarrow> 'w) option"

text \<open>What a run of the loop is given: the two interfaces, the configuration, the logger and the clock.\<close>

record ('w, 'f) task_env =
  te_sess :: "('w, 'f) PiSession"
  te_gate :: "'w Gate"
  te_cfg :: "('w, 'f) taskConfig"
  te_log :: "(PiEvent \<Rightarrow> 'w \<Rightarrow> 'w) option"
  te_now :: "'w \<Rightarrow> instant"

record 'f AgentOutcome =
  ao_Green :: bool
  ao_Attempts :: nat
  ao_Usage :: "'f TokenUsage"
  ao_Session :: "'f SessionRecord"

record 'f task_state =
  ta_usage :: "'f TokenUsage"
  ta_session :: "'f SessionRecord"

definition task_logf :: "('w, 'f) task_env \<Rightarrow> PiEvent \<Rightarrow> 'w \<Rightarrow> 'w" where
  "task_logf te ev w = (case te_log te of None \<Rightarrow> w | Some log \<Rightarrow> log ev w)"

definition finalizeSession :: "instant \<Rightarrow> 'f task_state \<Rightarrow> bool \<Rightarrow> 'f SessionRecord" where
  "finalizeSession now st green =
     (ta_session st)\<lparr>sr_EndedAt := now, sr_TotalUsage := ta_usage st, sr_Green := green\<rparr>"

definition writeSession :: "('w, 'f) task_env \<Rightarrow> 'f task_state \<Rightarrow> 'w \<Rightarrow> 'f task_state \<times> 'w" where
  "writeSession te st w =
     (case cf_sessionWriter (te_cfg te) of
        None \<Rightarrow> (st, w)
      | Some write \<Rightarrow>
          (let st' = st\<lparr>ta_session := (ta_session st)\<lparr>sr_TotalUsage := ta_usage st\<rparr>\<rparr>;
               (err, w') = write (ta_session st') w
           in (st', (case err of
                       None \<Rightarrow> w'
                     | Some e \<Rightarrow> task_logf te (PiEvent0\<lparr>ev_Type := ''session_write_error'', ev_Message := e\<rparr>) w'))))"

definition empty_completion :: "string \<Rightarrow> string" where
  "empty_completion model = ''model '' @ model @ '' returned an EMPTY completion (0 tokens) '' @ em_dash @
     '' check the provider catalog and the key'' @ [CHR 0x27] @ ''s model access groups''"

definition is_empty_completion :: "'f TokenUsage \<Rightarrow> TurnCapture \<Rightarrow> bool" where
  "is_empty_completion u c \<longleftrightarrow> cp_AssistantMessageEnd c \<and> TrimSpace (cp_Response c) = [] \<and>
     tu_Input u + tu_Output u + tu_CacheRead u + tu_CacheWrite u = 0"

definition publish_tools :: "('w, 'f) task_env \<Rightarrow> 'f task_state \<Rightarrow> ToolCall list \<Rightarrow> 'w \<Rightarrow> 'w" where
  "publish_tools te st tools w =
     (case cf_toolPublisher (te_cfg te) of
        None \<Rightarrow> w
      | Some publish \<Rightarrow> fold (publish (sr_Workflow (ta_session st)) (sr_RunID (ta_session st))) tools w)"

definition promptTurn ::
  "('w, 'f::{plus,zero}) task_env \<Rightarrow> string \<Rightarrow> string \<Rightarrow> 'f task_state \<Rightarrow> 'w \<Rightarrow>
   ((TurnCapture \<times> 'f TokenUsage \<times> string option) \<times> 'f task_state \<times> 'w) option" where
  "promptTurn te label message st w =
     (case ps_Prompt (te_sess te) message label w of
        None \<Rightarrow> None
      | Some ((ev, n, u, cap, err), w1) \<Rightarrow>
          (let st1 = st\<lparr>ta_usage := usage_add (ta_usage st) u\<rparr>
           in if err = None \<and> is_empty_completion u cap
              then Some ((cap, u, Some (empty_completion (sm_Model (cf_sessionMeta (te_cfg te))))), st1, w1)
              else Some ((cap, u, err), st1, publish_tools te st1 (cp_Tools cap) w1)))"

definition publishTurn ::
  "('w, 'f) task_env \<Rightarrow> nat \<Rightarrow> string \<Rightarrow> 'f TokenUsage \<Rightarrow> 'f task_state \<Rightarrow> 'w \<Rightarrow> 'w" where
  "publishTurn te turn label u st w =
     (case cf_turnPublisher (te_cfg te) of
        None \<Rightarrow> w
      | Some publish \<Rightarrow>
          publish \<lparr>tp_Turn = turn, tp_Label = label, tp_TokensIn = tu_Input u, tp_TokensOut = tu_Output u,
            tp_TotalIn = tu_Input (ta_usage st), tp_TotalOut = tu_Output (ta_usage st),
            tp_Turns = length (sr_Turns (ta_session st))\<rparr> w)"

definition turn_record :: "string \<Rightarrow> string \<Rightarrow> TurnCapture \<Rightarrow> 'f TokenUsage \<Rightarrow> 'f TurnRecord" where
  "turn_record label prompt cap u = \<lparr>tr_Label = label, tr_Prompt = prompt, tr_Response = cp_Response cap,
     tr_Tools = cp_Tools cap, tr_Usage = u, tr_Gate = None, tr_Budget = budgetStats (cp_Tools cap)\<rparr>"

definition append_turn :: "'f TurnRecord \<Rightarrow> 'f task_state \<Rightarrow> 'f task_state" where
  "append_turn t st = st\<lparr>ta_session := (ta_session st)\<lparr>sr_Turns := sr_Turns (ta_session st) @ [t]\<rparr>\<rparr>"

text \<open>The gate's outcome goes to the last turn.\<close>

definition attach_gate :: "bool \<Rightarrow> string \<Rightarrow> 'f task_state \<Rightarrow> 'f task_state" where
  "attach_gate green out st =
     (let ts = sr_Turns (ta_session st)
      in st\<lparr>ta_session := (ta_session st)\<lparr>sr_Turns :=
              ts[length ts - 1 := (ts ! (length ts - 1))\<lparr>tr_Gate := Some \<lparr>gr_Green = green, gr_Output = out\<rparr>\<rparr>]\<rparr>\<rparr>)"

definition evalGate :: "('w, 'f) task_env \<Rightarrow> 'w \<Rightarrow> (bool \<times> string \<times> string option) \<times> 'w" where
  "evalGate te w = gt_Run (te_gate te) w"

definition outcome ::
  "('w, 'f) task_env \<Rightarrow> bool \<Rightarrow> nat \<Rightarrow> 'f task_state \<Rightarrow> 'w \<Rightarrow> 'f AgentOutcome" where
  "outcome te green attempts st w = \<lparr>ao_Green = green, ao_Attempts = attempts, ao_Usage = ta_usage st,
     ao_Session = finalizeSession (te_now te w) st green\<rparr>"

datatype ('w, 'f) loop_exit =
    Returned "'f AgentOutcome" "string option" 'w
  | Fell nat "'f task_state" 'w

text \<open>
  One pass of the loop's body and the passes after it; \<open>left\<close> is \<^verbatim>\<open>maxFixes - attempt + 1\<close>, the number
  of passes that the loop condition still allows.
\<close>

fun task_loop ::
  "('w, 'f::{plus,zero}) task_env \<Rightarrow> nat \<Rightarrow> nat \<Rightarrow> nat \<Rightarrow> 'f task_state \<Rightarrow> 'w \<Rightarrow> ('w, 'f) loop_exit option" where
  "task_loop te maxFixes 0 attempt st w = Some (Fell (attempt - 1) st w)"
| "task_loop te maxFixes (Suc left) attempt st w =
     (let ((green, out, err), w1) = evalGate te w
      in (case err of
            Some e \<Rightarrow> Some (Returned (outcome te False attempt st w1) (Some e) w1)
          | None \<Rightarrow>
              (let (st2, w2) = writeSession te (attach_gate green out st) w1
               in if green then Some (Returned (outcome te True attempt st2 w2) None w2)
                  else
                    (let w3 = task_logf te (PiEvent0\<lparr>ev_Type := ''gate_failed'',
                                ev_Message := ''pass '' @ show_nat attempt @ ''/'' @ show_nat maxFixes\<rparr>) w2
                     in if attempt \<ge> maxFixes then Some (Fell attempt st2 w3)
                        else
                          (let fb = buildFeedback out attempt; label = ''feedback #'' @ show_nat attempt
                           in (case promptTurn te label fb st2 w3 of
                                 None \<Rightarrow> None
                               | Some ((cap, u, Some e), st4, w4) \<Rightarrow>
                                   Some (Returned (outcome te False attempt st4 w4) (Some e) w4)
                               | Some ((cap, u, None), st4, w4) \<Rightarrow>
                                   (let st5 = append_turn (turn_record label fb cap u) st4;
                                        w5 = publishTurn te (length (sr_Turns (ta_session st5)) - 1) label u st5 w4
                                    in task_loop te maxFixes left (attempt + 1) st5 w5)))))))"

text \<open>The gate after the loop.\<close>

definition final_gate ::
  "('w, 'f) task_env \<Rightarrow> nat \<Rightarrow> 'f task_state \<Rightarrow> 'w \<Rightarrow> ('f AgentOutcome \<times> string option) \<times> 'w" where
  "final_gate te attempts0 st w =
     (let attempts = attempts0 + 1; ((green, out, err), w1) = evalGate te w
      in (case err of
            Some e \<Rightarrow> ((outcome te False attempts st w1, Some e), w1)
          | None \<Rightarrow>
              (let (st2, w2) = writeSession te (attach_gate green out st) w1
               in ((outcome te green attempts st2 w2, None), w2))))"

definition start_session :: "('w, 'f::zero) task_env \<Rightarrow> 'w \<Rightarrow> 'f task_state" where
  "start_session te w =
     (let m = cf_sessionMeta (te_cfg te)
      in \<lparr>ta_usage = TokenUsage0,
          ta_session = \<lparr>sr_Workflow = sm_Workflow m, sr_RunID = sm_RunID m, sr_Model = sm_Model m,
            sr_Skill = sm_Skill m, sr_StartedAt = te_now te w, sr_EndedAt = zero_time, sr_Green = False,
            sr_Turns = [], sr_TotalUsage = TokenUsage0\<rparr>\<rparr>)"

definition Task ::
  "('w, 'f::{plus,zero}) task_env \<Rightarrow> string \<Rightarrow> int \<Rightarrow> 'w \<Rightarrow> (('f AgentOutcome \<times> string option) \<times> 'w) option" where
  "Task te task maxFixes0 w =
     (let maxFixes = nat (if maxFixes0 < 1 then 1 else maxFixes0)
      in (case promptTurn te ''initial task'' task (start_session te w) w of
            None \<Rightarrow> None
          | Some ((cap, u, Some e), st1, w1) \<Rightarrow> Some ((outcome te False 0 st1 w1, Some e), w1)
          | Some ((cap, u, None), st1, w1) \<Rightarrow>
              (let st2 = append_turn (turn_record ''initial task'' task cap u) st1;
                   w2 = publishTurn te 0 ''initial task'' u st2 w1
               in (case task_loop te maxFixes maxFixes 1 st2 w2 of
                     None \<Rightarrow> None
                   | Some (Returned res err w3) \<Rightarrow> Some ((res, err), w3)
                   | Some (Fell attempts st3 w3) \<Rightarrow> Some (final_gate te attempts st3 w3)))))"

section \<open>The runner over a real session\<close>

text \<open>
  The world of a production run: the session of the agent, and everything else. The gate, the writers, the
  publishers and the logger act on everything else.
\<close>

type_synonym 'g agent_world = "rpc \<times> 'g"

definition rpc_session :: "'f::{plus,zero} agent_codec \<Rightarrow> ('g agent_world, 'f) PiSession" where
  "rpc_session jc = \<lparr>ps_Prompt = (\<lambda>m l (r, g). map_option (\<lambda>(x, r'). (x, (r', g))) (rpc_Prompt jc m l r))\<rparr>"

definition on_rest :: "('g \<Rightarrow> 'a \<times> 'g) \<Rightarrow> 'g agent_world \<Rightarrow> 'a \<times> 'g agent_world" where
  "on_rest f = (\<lambda>(r, g). let (x, g') = f g in (x, (r, g')))"

definition lift_cfg :: "('g, 'f) taskConfig \<Rightarrow> ('g agent_world, 'f) taskConfig" where
  "lift_cfg c = \<lparr>
     cf_sessionWriter = map_option (\<lambda>wr s. on_rest (wr s)) (cf_sessionWriter c),
     cf_toolPublisher = map_option (\<lambda>pt a b t (r, g). (r, pt a b t g)) (cf_toolPublisher c),
     cf_sessionMeta = cf_sessionMeta c,
     cf_turnPublisher = map_option (\<lambda>pu p (r, g). (r, pu p g)) (cf_turnPublisher c)\<rparr>"

definition rpc_task_env ::
  "'f::{plus,zero} agent_codec \<Rightarrow> 'g Gate \<Rightarrow> ('g, 'f) taskConfig \<Rightarrow> (PiEvent \<Rightarrow> 'g \<Rightarrow> 'g) option \<Rightarrow>
   ('g \<Rightarrow> instant) \<Rightarrow> ('g agent_world, 'f) task_env" where
  "rpc_task_env jc gate cfg log now = \<lparr>te_sess = rpc_session jc, te_gate = \<lparr>gt_Run = on_rest (gt_Run gate)\<rparr>,
     te_cfg = lift_cfg cfg, te_log = map_option (\<lambda>lg ev (r, g). (r, lg ev g)) log, te_now = now \<circ> snd\<rparr>"

record ('g, 'f) RPCAgentRunner =
  ru_Opts :: RPCOptions
  ru_SessionWriter :: "('f SessionRecord \<Rightarrow> 'g \<Rightarrow> string option \<times> 'g) option"
  ru_ToolPublisher :: "(string \<Rightarrow> string \<Rightarrow> ToolCall \<Rightarrow> 'g \<Rightarrow> 'g) option"
  ru_SessionMeta :: SessionMeta
  ru_SessionFiles :: "(string list \<Rightarrow> 'g \<Rightarrow> 'g) option"
  ru_SpawnEnv :: "(string list \<Rightarrow> string list) option"

text \<open>
  What the operating system answers to a run: the two directory calls, the clock, the start of the
  process, the stream the process will send, the wait for its end, and the files under a pattern.
\<close>

record pi_host =
  ph_mkdir_all :: "string \<Rightarrow> string option"
  ph_mkdir_temp :: "string \<Rightarrow> string + string"
  ph_nano :: int
  ph_start :: "pi_command \<Rightarrow> string option"
  ph_signals :: "signal list"
  ph_eof :: bool
  ph_abort_line :: string
  ph_wait :: "string option"
  ph_glob :: "string \<Rightarrow> (string list) option"

text \<open>\<^verbatim>\<open>SessionFiles\<close>: the session files, sorted.\<close>

definition SessionFiles :: "(string \<Rightarrow> (string list) option) \<Rightarrow> rpc \<Rightarrow> string list" where
  "SessionFiles matches r =
     (if rp_sessionDir r = [] then []
      else (case matches (Clean (rp_sessionDir r @ ''/*.jsonl'')) of None \<Rightarrow> [] | Some fs \<Rightarrow> sort fs))"

definition runner_config ::
  "('g, 'f) RPCAgentRunner \<Rightarrow> (('g, 'f) taskConfig \<Rightarrow> ('g, 'f) taskConfig) list \<Rightarrow> ('g, 'f) taskConfig" where
  "runner_config ru opts = fold (\<lambda>opt. opt) opts
     \<lparr>cf_sessionWriter = ru_SessionWriter ru, cf_toolPublisher = ru_ToolPublisher ru,
      cf_sessionMeta = ru_SessionMeta ru, cf_turnPublisher = None\<rparr>"

definition SessionRecord0 :: "'f::zero SessionRecord" where
  "SessionRecord0 = \<lparr>sr_Workflow = [], sr_RunID = [], sr_Model = [], sr_Skill = [], sr_StartedAt = zero_time,
     sr_EndedAt = zero_time, sr_Green = False, sr_Turns = [], sr_TotalUsage = TokenUsage0\<rparr>"

definition AgentOutcome0 :: "'f::zero AgentOutcome" where
  "AgentOutcome0 = \<lparr>ao_Green = False, ao_Attempts = 0, ao_Usage = TokenUsage0, ao_Session = SessionRecord0\<rparr>"

definition runner_opts :: "('g, 'f) RPCAgentRunner \<Rightarrow> RPCOptions" where
  "runner_opts ru = (case ru_SpawnEnv ru of
     None \<Rightarrow> ru_Opts ru
   | Some spawn \<Rightarrow> (ru_Opts ru)\<lparr>ro_Env := spawn (ro_Env (ru_Opts ru))\<rparr>)"

text \<open>
  \<^verbatim>\<open>RPCAgentRunner.Run\<close>, with the command it started: the session is aborted when the loop is over, and
  once more by the deferred call.
\<close>

definition RPCAgentRunner_Run ::
  "'f::{plus,zero} agent_codec \<Rightarrow> pi_host \<Rightarrow> ('g, 'f) RPCAgentRunner \<Rightarrow> 'g Gate \<Rightarrow>
   (PiEvent \<Rightarrow> 'g \<Rightarrow> 'g) option \<Rightarrow> ('g \<Rightarrow> instant) \<Rightarrow> (('g, 'f) taskConfig \<Rightarrow> ('g, 'f) taskConfig) list \<Rightarrow>
   string \<Rightarrow> int \<Rightarrow> 'g \<Rightarrow> pi_command \<times> (('f AgentOutcome \<times> string option) \<times> rpc option \<times> 'g) option" where
  "RPCAgentRunner_Run jc host ru gate log now opts task maxFixes g =
     (let (cmd, started) = NewRPC (runner_opts ru) (ph_mkdir_all host) (ph_mkdir_temp host) (ph_nano host)
            (ph_start host) (ph_signals host) (ph_eof host)
      in (cmd, (case started of
           Inl e \<Rightarrow> Some ((AgentOutcome0, Some e), None, g)
         | Inr rpc \<Rightarrow>
             (case Task (rpc_task_env jc gate (runner_config ru opts) log now) task maxFixes (rpc, g) of
                None \<Rightarrow> None
              | Some ((res, err), (r1, g1)) \<Rightarrow>
                  (let r2 = snd (rpc_Abort (ph_abort_line host) (ph_wait host) r1);
                       files = SessionFiles (ph_glob host) r2;
                       g2 = (case ru_SessionFiles ru of
                               None \<Rightarrow> g1 | Some upload \<Rightarrow> if files \<noteq> [] then upload files g1 else g1);
                       r3 = snd (rpc_Abort (ph_abort_line host) (ph_wait host) r2)
                   in Some ((res, err), Some r3, g2))))))"

end
