(* ===== verification/Agent_Theorems.thy ===== *)
theory Agent_Theorems
  imports Agent_Loop
begin

text \<open>
  What the agent loop promises: the shape of the transcript it leaves behind, the number of gates and
  prompts, that it returns when the session does, and the accounting of a warm session.
\<close>

section \<open>The transcript as an invariant of the loop\<close>

text \<open>Every turn but the first answers a red gate of the turn before it with that gate's feedback.\<close>

definition chained :: "'f TurnRecord list \<Rightarrow> bool" where
  "chained ts \<longleftrightarrow> (\<forall>i. Suc i < length ts \<longrightarrow>
     (\<exists>out. tr_Gate (ts ! i) = Some \<lparr>gr_Green = False, gr_Output = out\<rparr>
        \<and> tr_Prompt (ts ! Suc i) = buildFeedback out (Suc i)
        \<and> tr_Label (ts ! Suc i) = ''feedback #'' @ show_nat (Suc i)))"

definition tokens_add_up :: "'f TokenUsage \<Rightarrow> 'f TurnRecord list \<Rightarrow> bool" where
  "tokens_add_up u ts \<longleftrightarrow>
     tu_Input u = sum_list (map (\<lambda>t. tu_Input (tr_Usage t)) ts) \<and>
     tu_Output u = sum_list (map (\<lambda>t. tu_Output (tr_Usage t)) ts) \<and>
     tu_CacheRead u = sum_list (map (\<lambda>t. tu_CacheRead (tr_Usage t)) ts) \<and>
     tu_CacheWrite u = sum_list (map (\<lambda>t. tu_CacheWrite (tr_Usage t)) ts)"

abbreviation st_turns :: "'f task_state \<Rightarrow> 'f TurnRecord list" where
  "st_turns st \<equiv> sr_Turns (ta_session st)"

definition opens_with :: "string \<Rightarrow> 'f TurnRecord list \<Rightarrow> bool" where
  "opens_with task ts \<longleftrightarrow> ts \<noteq> [] \<and> tr_Prompt (hd ts) = task \<and> tr_Label (hd ts) = ''initial task''"

definition transcript :: "string \<Rightarrow> 'f task_state \<Rightarrow> bool" where
  "transcript task st \<longleftrightarrow> opens_with task (st_turns st) \<and> chained (st_turns st) \<and> tokens_add_up (ta_usage st) (st_turns st)"

definition last_gate :: "'f TurnRecord list \<Rightarrow> bool \<Rightarrow> bool" where
  "last_gate ts green \<longleftrightarrow> ts \<noteq> [] \<and> (\<exists>out. tr_Gate (last ts) = Some \<lparr>gr_Green = green, gr_Output = out\<rparr>)"

lemma writeSession_keeps:
  assumes "writeSession te st w = (st', w')"
  shows "st_turns st' = st_turns st" "ta_usage st' = ta_usage st"
  using assms by (auto simp: writeSession_def Let_def split: option.splits prod.splits)

lemma promptTurn_keeps:
  assumes "promptTurn te label m st w = Some ((cap, u, err), st', w')"
  shows "ta_session st' = ta_session st" "ta_usage st' = usage_add (ta_usage st) u"
  using assms by (auto simp: promptTurn_def Let_def split: option.splits prod.splits if_splits)

lemma attach_gate_turns:
  assumes "st_turns st \<noteq> []"
  shows "st_turns (attach_gate g out st) =
    butlast (st_turns st) @ [(last (st_turns st))\<lparr>tr_Gate := Some \<lparr>gr_Green = g, gr_Output = out\<rparr>\<rparr>]"
  using assms by (cases "st_turns st" rule: rev_cases) (simp_all add: attach_gate_def Let_def nth_append)

lemma attach_gate_usage [simp]: "ta_usage (attach_gate g out st) = ta_usage st"
  by (simp add: attach_gate_def Let_def)

lemma chained_regate:
  assumes "chained ts" "ts \<noteq> []"
  shows "chained (butlast ts @ [(last ts)\<lparr>tr_Gate := x\<rparr>])"
proof -
  obtain ys y where ts: "ts = ys @ [y]" using assms(2) by (cases ts rule: rev_cases) auto
  show ?thesis
    using assms(1) unfolding chained_def ts
    by (simp add: nth_append less_Suc_eq)
qed

lemma chained_snoc:
  assumes "chained ts" "ts \<noteq> []" "tr_Gate (last ts) = Some \<lparr>gr_Green = False, gr_Output = out\<rparr>"
    and "tr_Prompt t = buildFeedback out (length ts)" "tr_Label t = ''feedback #'' @ show_nat (length ts)"
  shows "chained (ts @ [t])"
  unfolding chained_def
proof (intro allI impI)
  fix i
  assume i: "Suc i < length (ts @ [t])"
  show "\<exists>out. tr_Gate ((ts @ [t]) ! i) = Some \<lparr>gr_Green = False, gr_Output = out\<rparr>
        \<and> tr_Prompt ((ts @ [t]) ! Suc i) = buildFeedback out (Suc i)
        \<and> tr_Label ((ts @ [t]) ! Suc i) = ''feedback #'' @ show_nat (Suc i)"
  proof (cases "Suc i < length ts")
    case True
    then show ?thesis using assms(1) by (simp add: chained_def nth_append)
  next
    case False
    then have e: "length ts = Suc i" using i by simp
    then have "last ts = ts ! i" using assms(2) by (simp add: last_conv_nth)
    then show ?thesis using assms(3-5) e by (auto simp: nth_append)
  qed
qed

lemma transcript_gate:
  assumes "transcript task st" and "writeSession te (attach_gate g out st) w = (st', w')"
  shows "transcript task st'" "length (st_turns st') = length (st_turns st)" "ta_usage st' = ta_usage st"
    and "tr_Gate (last (st_turns st')) = Some \<lparr>gr_Green = g, gr_Output = out\<rparr>"
proof -
  have ne: "st_turns st \<noteq> []" using assms(1) by (simp add: transcript_def opens_with_def)
  obtain ys y where ys: "st_turns st = ys @ [y]" using ne by (cases "st_turns st" rule: rev_cases) auto
  have ts: "st_turns st' = ys @ [y\<lparr>tr_Gate := Some \<lparr>gr_Green = g, gr_Output = out\<rparr>\<rparr>]"
    using writeSession_keeps(1) [OF assms(2)] attach_gate_turns [OF ne] ys by simp
  have us: "ta_usage st' = ta_usage st" using writeSession_keeps(2) [OF assms(2)] by simp
  show "length (st_turns st') = length (st_turns st)" using ts ys by simp
  show "ta_usage st' = ta_usage st" by (rule us)
  show "tr_Gate (last (st_turns st')) = Some \<lparr>gr_Green = g, gr_Output = out\<rparr>" using ts by simp
  have "chained (st_turns st')" using assms(1) chained_regate [of "st_turns st"] ys ts by (simp add: transcript_def)
  moreover have "opens_with task (st_turns st')"
    using assms(1) ys ts by (cases ys) (simp_all add: transcript_def opens_with_def)
  ultimately show "transcript task st'"
    using assms(1) ys ts us by (simp add: transcript_def tokens_add_up_def)
qed

lemma transcript_prompt:
  assumes "transcript task st" "tr_Gate (last (st_turns st)) = Some \<lparr>gr_Green = False, gr_Output = out\<rparr>"
    and "length (st_turns st) = attempt" and "label = ''feedback #'' @ show_nat attempt"
    and "promptTurn te label (buildFeedback out attempt) st w = Some ((cap, u, None), st', w')"
  shows "transcript task (append_turn (turn_record label (buildFeedback out attempt) cap u) st')"
proof -
  note k = promptTurn_keeps [OF assms(5)]
  have "chained (st_turns st @ [turn_record label (buildFeedback out attempt) cap u])"
    using assms(1-4) by (intro chained_snoc) (auto simp: transcript_def opens_with_def turn_record_def)
  then show ?thesis
    using assms(1) k
    by (simp add: transcript_def append_turn_def opens_with_def tokens_add_up_def turn_record_def usage_add_def)
qed

section \<open>The contract of the loop\<close>

definition loop_contract :: "string \<Rightarrow> nat \<Rightarrow> ('w, 'f) loop_exit \<Rightarrow> bool" where
  "loop_contract task N x = (case x of
     Returned res err w \<Rightarrow>
       (let ts = sr_Turns (ao_Session res) in
        opens_with task ts \<and> chained ts \<and> length ts \<le> N \<and> ao_Attempts res = length ts \<and>
        (ao_Green res \<longleftrightarrow> err = None) \<and>
        (err = None \<longrightarrow> last_gate ts True \<and> tokens_add_up (ao_Usage res) ts) \<and>
        sr_Green (ao_Session res) = ao_Green res \<and> sr_TotalUsage (ao_Session res) = ao_Usage res)
   | Fell a st w \<Rightarrow> a = N \<and> length (st_turns st) = N \<and> transcript task st \<and> last_gate (st_turns st) False)"

lemma task_loop_contract:
  assumes "task_loop te N left attempt st w = Some x"
    and "transcript task st" "length (st_turns st) = attempt" "1 \<le> attempt" "attempt + left = N + 1" "0 < left"
  shows "loop_contract task N x"
  using assms
proof (induction left arbitrary: attempt st w)
  case (Suc left)
  obtain green out err w1 where g: "evalGate te w = ((green, out, err), w1)" by (metis surj_pair)
  show ?case
  proof (cases err)
    case (Some e)
    then show ?thesis
      using Suc.prems g by (auto simp: loop_contract_def outcome_def finalizeSession_def transcript_def last_gate_def Let_def)
  next
    case None
    obtain st2 w2 where ws: "writeSession te (attach_gate green out st) w1 = (st2, w2)" by fastforce
    note t = transcript_gate [OF Suc.prems(2) ws]
    show ?thesis
    proof (cases "green \<or> attempt \<ge> N")
      case True
      then show ?thesis
        using Suc.prems g None ws t
        by (auto simp: loop_contract_def outcome_def finalizeSession_def transcript_def last_gate_def
            opens_with_def Let_def split: if_splits)
    next
      case False
      let ?w3 = "task_logf te (PiEvent0\<lparr>ev_Type := ''gate_failed'',
                   ev_Message := ''pass '' @ show_nat attempt @ ''/'' @ show_nat N\<rparr>) w2"
      let ?l = "''feedback #'' @ show_nat attempt"
      obtain cap u err2 st4 w4 where p: "promptTurn te ?l (buildFeedback out attempt) st2 ?w3 = Some ((cap, u, err2), st4, w4)"
        using Suc.prems(1) g None ws False by (auto simp: Let_def split: option.splits prod.splits)
      show ?thesis
      proof (cases err2)
        case (Some e)
        then show ?thesis
          using Suc.prems g None ws False p t promptTurn_keeps(1) [OF p]
          by (auto simp: loop_contract_def outcome_def finalizeSession_def transcript_def last_gate_def Let_def)
      next
        case e2: None
        let ?st5 = "append_turn (turn_record ?l (buildFeedback out attempt) cap u) st4"
        let ?w5 = "publishTurn te (length (st_turns ?st5) - 1) ?l u ?st5 w4"
        have tr: "transcript task ?st5"
          using transcript_prompt [OF t(1) _ _ refl p [unfolded e2]] t(2,4) Suc.prems(3) False by auto
        have len: "length (st_turns ?st5) = attempt + 1"
          using promptTurn_keeps(1) [OF p] t(2) Suc.prems(3) by (simp add: append_turn_def)
        have rec: "task_loop te N left (attempt + 1) ?st5 ?w5 = Some x"
          using Suc.prems(1) g None ws False p e2 by (simp add: Let_def)
        show ?thesis
          using Suc.IH [OF rec tr len] False Suc.prems(4,5) by simp
      qed
    qed
  qed
qed simp

section \<open>Returning\<close>

text \<open>
  A session in which every prompt returns: \<open>live\<close> is what the session needs for that, and no effect of the
  loop takes it away.
\<close>

locale returning_session =
  fixes te :: "('w, 'f::{plus,zero}) task_env" and live :: "'w \<Rightarrow> bool"
  assumes prompt_returns: "live w \<Longrightarrow> \<exists>x w'. ps_Prompt (te_sess te) m l w = Some (x, w') \<and> live w'"
    and gate_keeps: "live w \<Longrightarrow> live (snd (gt_Run (te_gate te) w))"
    and writer_keeps: "cf_sessionWriter (te_cfg te) = Some wr \<Longrightarrow> live w \<Longrightarrow> live (snd (wr s w))"
    and tools_keep: "cf_toolPublisher (te_cfg te) = Some pt \<Longrightarrow> live w \<Longrightarrow> live (pt a b t w)"
    and turns_keep: "cf_turnPublisher (te_cfg te) = Some pu \<Longrightarrow> live w \<Longrightarrow> live (pu p w)"
    and log_keeps: "te_log te = Some lg \<Longrightarrow> live w \<Longrightarrow> live (lg ev w)"
begin

lemma logf_live: "live w \<Longrightarrow> live (task_logf te ev w)"
  by (simp add: task_logf_def log_keeps split: option.split)

lemma write_live:
  assumes "live w" shows "live (snd (writeSession te st w))"
proof (cases "cf_sessionWriter (te_cfg te)")
  case (Some wr)
  let ?s = "(ta_session st)\<lparr>sr_TotalUsage := ta_usage st\<rparr>"
  obtain err w' where wr: "wr ?s w = (err, w')" by fastforce
  have "live w'" using writer_keeps [OF Some assms, of ?s] wr by simp
  then show ?thesis
    using Some wr by (cases err) (simp_all add: writeSession_def Let_def logf_live)
qed (simp add: writeSession_def assms)

lemma publish_tools_live: "live w \<Longrightarrow> live (publish_tools te st tools w)"
proof (cases "cf_toolPublisher (te_cfg te)")
  case (Some pt)
  have "live v \<Longrightarrow> live (fold (pt a b) tools v)" for a b v
    using tools_keep [OF Some] by (induction tools arbitrary: v) auto
  then show "live w \<Longrightarrow> ?thesis" using Some by (simp add: publish_tools_def)
qed (simp add: publish_tools_def)

lemma publishTurn_live: "live w \<Longrightarrow> live (publishTurn te n l u st w)"
  by (simp add: publishTurn_def turns_keep split: option.split)

lemma promptTurn_returns:
  assumes "live w"
  obtains cap u err st' w' where "promptTurn te l m st w = Some ((cap, u, err), st', w')" "live w'"
proof -
  obtain ev n u cap err w1 where p: "ps_Prompt (te_sess te) m l w = Some ((ev, n, u, cap, err), w1)" "live w1"
    using prompt_returns [OF assms, of m l] by (metis surj_pair)
  show ?thesis
  proof (cases "err = None \<and> is_empty_completion u cap")
    case True
    then show ?thesis using p that by (simp add: promptTurn_def Let_def)
  next
    case False
    then have "promptTurn te l m st w = Some ((cap, u, err), st\<lparr>ta_usage := usage_add (ta_usage st) u\<rparr>,
        publish_tools te (st\<lparr>ta_usage := usage_add (ta_usage st) u\<rparr>) (cp_Tools cap) w1)"
      using p(1) by (simp only: promptTurn_def option.case prod.case Let_def if_False)
    then show ?thesis by (rule that [OF _ publish_tools_live [OF p(2)]])
  qed
qed

lemma task_loop_returns: "live w \<Longrightarrow> \<exists>x. task_loop te N left attempt st w = Some x"
proof (induction left arbitrary: attempt st w)
  case (Suc left)
  obtain green out err w1 where g: "evalGate te w = ((green, out, err), w1)" by (metis surj_pair)
  have l1: "live w1" using gate_keeps [OF Suc.prems] g by (simp add: evalGate_def)
  obtain st2 w2 where ws: "writeSession te (attach_gate green out st) w1 = (st2, w2)" by fastforce
  have l2: "live w2" using write_live [OF l1, of "attach_gate green out st"] ws by simp
  let ?w3 = "task_logf te (PiEvent0\<lparr>ev_Type := ''gate_failed'',
               ev_Message := ''pass '' @ show_nat attempt @ ''/'' @ show_nat N\<rparr>) w2"
  obtain cap u err2 st4 w4
    where p: "promptTurn te (''feedback #'' @ show_nat attempt) (buildFeedback out attempt) st2 ?w3
      = Some ((cap, u, err2), st4, w4)" "live w4"
    using promptTurn_returns [OF logf_live [OF l2]] by metis
  show ?case
    using g ws p(1) Suc.IH [OF publishTurn_live [OF p(2)]]
    by (cases err; cases green; cases "attempt \<ge> N"; cases err2) (simp_all add: Let_def)
qed simp

lemma Task_returns:
  assumes "live w"
  shows "\<exists>res err w'. Task te task N w = Some ((res, err), w')"
proof -
  obtain cap u err st1 w1
    where p: "promptTurn te ''initial task'' task (start_session te w) w = Some ((cap, u, err), st1, w1)" "live w1"
    using promptTurn_returns [OF assms] by metis
  show ?thesis
  proof (cases err)
    case None
    let ?N = "nat (if N < 1 then 1 else N)"
    let ?st = "append_turn (turn_record ''initial task'' task cap u) st1"
    obtain x where "task_loop te ?N ?N 1 ?st (publishTurn te 0 ''initial task'' u ?st w1) = Some x"
      using task_loop_returns [OF publishTurn_live [OF p(2)]] by blast
    then show ?thesis using p(1) None
      by (cases x) (simp_all add: Task_def Let_def, metis surj_pair)
  next
    case (Some e)
    then show ?thesis using p(1) by (auto simp: Task_def Let_def)
  qed
qed

end

section \<open>The loop over a real session\<close>

interpretation pi: returning_session "rpc_task_env jc gate cfg log now" "rp_eof \<circ> fst"
  for jc :: "'f::{plus,zero} agent_codec" and gate :: "'g Gate" and cfg :: "('g, 'f) taskConfig" and log now
proof unfold_locales
  fix w :: "'g agent_world" and m l
  assume "(rp_eof \<circ> fst) w"
  then obtain x r' where "rpc_Prompt jc m l (fst w) = Some (x, r')" "rp_eof r'"
    using rpc_Prompt_returns_eof [of "fst w" jc m l] rpc_Prompt_eof by fastforce
  moreover obtain a b c d e where "x = (a, b, c, d, e)" by (metis surj_pair)
  ultimately show "\<exists>x w'. ps_Prompt (te_sess (rpc_task_env jc gate cfg log now)) m l w = Some (x, w') \<and> (rp_eof \<circ> fst) w'"
    by (cases w) (auto simp: rpc_task_env_def rpc_session_def)
qed (auto simp: rpc_task_env_def lift_cfg_def on_rest_def split: prod.splits)

section \<open>Properties\<close>

lemma transcript_first:
  assumes "promptTurn te ''initial task'' task (start_session te w) w = Some ((cap, u, None), st, w')"
  shows "transcript task (append_turn (turn_record ''initial task'' task cap u) st)"
    and "length (st_turns (append_turn (turn_record ''initial task'' task cap u) st)) = 1"
  using promptTurn_keeps [OF assms]
  by (simp_all add: transcript_def append_turn_def opens_with_def chained_def tokens_add_up_def turn_record_def
      start_session_def usage_add_def TokenUsage0_def Let_def)

definition task_promise :: "string \<Rightarrow> nat \<Rightarrow> 'f AgentOutcome \<Rightarrow> string option \<Rightarrow> bool" where
  "task_promise task N res err \<longleftrightarrow>
     (let ts = sr_Turns (ao_Session res) in
      chained ts \<and> (ts \<noteq> [] \<longrightarrow> opens_with task ts) \<and> length ts \<le> N \<and> ao_Attempts res \<le> N + 1 \<and>
      (ao_Green res \<longrightarrow> err = None) \<and>
      (err = None \<longrightarrow> last_gate ts (ao_Green res) \<and> tokens_add_up (ao_Usage res) ts) \<and>
      (err = None \<and> \<not> ao_Green res \<longrightarrow> ao_Attempts res = N + 1 \<and> length ts = N) \<and>
      sr_Green (ao_Session res) = ao_Green res \<and> sr_TotalUsage (ao_Session res) = ao_Usage res)"

lemma loop_promise: "loop_contract task N (Returned res err w) \<Longrightarrow> task_promise task N res err"
  by (auto simp: loop_contract_def task_promise_def Let_def)

lemma final_promise:
  assumes "loop_contract task N (Fell a st w)" and "final_gate te a st w = ((res, err), w')"
  shows "task_promise task N res err"
proof -
  have f: "a = N" "length (st_turns st) = N" "transcript task st" using assms(1) by (auto simp: loop_contract_def)
  obtain green out e w1 where g: "evalGate te w = ((green, out, e), w1)" by (metis surj_pair)
  obtain st2 w2 where ws: "writeSession te (attach_gate green out st) w1 = (st2, w2)" by fastforce
  note t = transcript_gate [OF f(3) ws]
  show ?thesis
    using assms(2) f g ws t
    by (cases e) (auto simp: final_gate_def task_promise_def outcome_def finalizeSession_def transcript_def
        last_gate_def opens_with_def Let_def)
qed

lemma Task_promise:
  assumes "Task te task N w = Some ((res, err), w')"
  shows "task_promise task (nat (max 1 N)) res err"
proof -
  let ?N = "nat (if N < 1 then 1 else N)"
  have N: "?N = nat (max 1 N)" "0 < ?N" by auto
  obtain cap u e st1 w1
    where p: "promptTurn te ''initial task'' task (start_session te w) w = Some ((cap, u, e), st1, w1)"
    using assms by (auto simp: Task_def Let_def split: option.splits prod.splits)
  show ?thesis
  proof (cases e)
    case (Some x)
    then show ?thesis
      using assms p promptTurn_keeps(1) [OF p]
      by (auto simp: Task_def task_promise_def outcome_def finalizeSession_def start_session_def chained_def Let_def)
  next
    case None
    let ?st = "append_turn (turn_record ''initial task'' task cap u) st1"
    obtain x where x: "task_loop te ?N ?N 1 ?st (publishTurn te 0 ''initial task'' u ?st w1) = Some x"
      using assms p None by (auto simp: Task_def Let_def split: option.splits)
    note first = transcript_first [OF p [unfolded None]]
    have c: "loop_contract task ?N x"
      by (rule task_loop_contract [OF x first]) (use N(2) in simp_all)
    show ?thesis
    proof (cases x)
      case (Returned r e' v)
      then show ?thesis using assms p None x c loop_promise N(1) by (simp add: Task_def Let_def)
    next
      case (Fell a st v)
      then have "final_gate te a st v = ((res, err), w')"
        using assms p None x by (simp add: Task_def Let_def)
      then show ?thesis using final_promise c Fell N(1) by metis
    qed
  qed
qed

text \<open>
  C6. The agent loop accepts only on a green gate and gives up only after its whole budget: an outcome is green
  only without an error, an outcome without an error carries its verdict on the gate of its last turn, and one that
  is not green has run the gate N+1 times over N prompts, where N is the number of fixes raised to at
  least one. In every case each later turn was prompted with the feedback of the red gate recorded on the
  turn before, the first with the task, and without an error the tokens of the session are the sum of those of its turns.
\<close>

theorem agent_task_contract:
  assumes "Task te task N w = Some ((res, err), w')"
  shows "let ts = sr_Turns (ao_Session res); M = nat (max 1 N) in
      (\<forall>i. Suc i < length ts \<longrightarrow>
         (\<exists>out. tr_Gate (ts ! i) = Some \<lparr>gr_Green = False, gr_Output = out\<rparr>
            \<and> tr_Prompt (ts ! Suc i) = buildFeedback out (Suc i)))
      \<and> (ts \<noteq> [] \<longrightarrow> tr_Prompt (hd ts) = task) \<and> length ts \<le> M \<and> ao_Attempts res \<le> M + 1
      \<and> (ao_Green res \<longrightarrow> err = None)
      \<and> (err = None \<longrightarrow> ts \<noteq> [] \<and> (\<exists>out. tr_Gate (last ts) = Some \<lparr>gr_Green = ao_Green res, gr_Output = out\<rparr>)
           \<and> tu_Input (ao_Usage res) = sum_list (map (\<lambda>t. tu_Input (tr_Usage t)) ts)
           \<and> tu_Output (ao_Usage res) = sum_list (map (\<lambda>t. tu_Output (tr_Usage t)) ts))
      \<and> (err = None \<and> \<not> ao_Green res \<longrightarrow> ao_Attempts res = M + 1 \<and> length ts = M)"
  using Task_promise [OF assms]
  by (fastforce simp: task_promise_def chained_def opens_with_def last_gate_def tokens_add_up_def Let_def)

text \<open>A session that answers every prompt, and a gate that is red until the world has been looked at \<open>n\<close> times.\<close>

definition demo_config :: "(nat, int) taskConfig" where
  "demo_config = \<lparr>cf_sessionWriter = None, cf_toolPublisher = None,
     cf_sessionMeta = \<lparr>sm_Workflow = ''wf'', sm_RunID = ''run'', sm_Model = ''m'', sm_Skill = []\<rparr>, cf_turnPublisher = None\<rparr>"

definition demo_gate :: "nat \<Rightarrow> nat Gate" where
  "demo_gate n = \<lparr>gt_Run = (\<lambda>w. ((n \<le> w, ''out'', None), Suc w))\<rparr>"

definition demo_env :: "nat \<Rightarrow> (nat, int) task_env" where
  "demo_env n = \<lparr>te_sess = \<lparr>ps_Prompt = (\<lambda>m l w. Some ((PiEvent0, 0,
       \<lparr>tu_Input = 3, tu_Output = 2, tu_CacheRead = 0, tu_CacheWrite = 0, tu_Cost = 0\<rparr>, TurnCapture0, None), w))\<rparr>,
     te_gate = demo_gate n, te_cfg = demo_config, te_log = None, te_now = int\<rparr>"

lemma demo_env_red:
  "map_option (\<lambda>((res, err), w). (err, ao_Green res)) (Task (demo_env 9) ''do'' 2 0) = Some (None, False)"
  by code_simp

theorem agent_task_contract_witness:
  "\<exists>res w'. Task (demo_env 9) ''do'' 2 0 = Some ((res, None), w')
     \<and> ao_Attempts res = 3 \<and> length (sr_Turns (ao_Session res)) = 2"
proof -
  obtain res w' where t: "Task (demo_env 9) ''do'' 2 0 = Some ((res, None), w')" and g: "\<not> ao_Green res"
    using demo_env_red by (auto split: prod.splits)
  show ?thesis using agent_task_contract [OF t] t g by (auto simp: Let_def)
qed

text \<open>
  C8. A run of the agent over a session whose process starts and whose stream ends returns, whatever the
  stream holds, the gate says and the callbacks do, and leaves the session closed with the abort as the
  last line that it sent when the pipe still worked; the result is that of the loop.
\<close>

theorem agent_run_returns:
  assumes "ph_start host (fst (RPCAgentRunner_Run jc host ru gate log now opts task N g)) = None" and "ph_eof host"
  shows "\<exists>rpc res err r g' r1 g1. snd (RPCAgentRunner_Run jc host ru gate log now opts task N g) = Some ((res, err), Some r, g')
     \<and> rp_closed r \<and> rp_signals rpc = ph_signals host \<and> rp_seenAgentMsgs rpc = 0
     \<and> Task (rpc_task_env jc gate (runner_config ru opts) log now) task N (rpc, g) = Some ((res, err), (r1, g1))
     \<and> (\<not> rp_closed r1 \<and> rp_stdin_error r1 = None \<longrightarrow> rp_stdin r = rp_stdin r1 @ [ph_abort_line host @ [CHR 0x0A]])"
proof -
  obtain cmd started where n: "NewRPC (runner_opts ru) (ph_mkdir_all host) (ph_mkdir_temp host) (ph_nano host)
      (ph_start host) (ph_signals host) (ph_eof host) = (cmd, started)" by fastforce
  have "ph_start host cmd = None" using assms(1) n by (simp add: RPCAgentRunner_Run_def)
  then obtain rpc where rpc: "started = Inr rpc" "rp_signals rpc = ph_signals host" "rp_eof rpc" "rp_seenAgentMsgs rpc = 0"
    using n assms(2) by (auto simp: NewRPC_def Let_def split: prod.splits)
  obtain res err r1 g1
    where t: "Task (rpc_task_env jc gate (runner_config ru opts) log now) task N (rpc, g) = Some ((res, err), (r1, g1))"
    using pi.Task_returns [of "(rpc, g)" jc gate "runner_config ru opts" log now task N] rpc(3) by auto
  then show ?thesis
    using n rpc by (auto simp: RPCAgentRunner_Run_def rpc_Abort_def Let_def)
qed

text \<open>A codec whose snapshots are told apart by their raw text, and a host with three turns in its stream.\<close>

definition demo_message :: "string \<Rightarrow> int \<Rightarrow> int agentEndMessage" where
  "demo_message role n = \<lparr>am_Role = role,
     am_Usage = Some \<lparr>eu_Input = n, eu_Output = 1, eu_CacheRead = 0, eu_CacheWrite = 0, eu_Cost = None\<rparr>,
     am_Content = [\<lparr>cb_Type = ''text'', cb_Text = ''done''\<rparr>]\<rparr>"

definition demo_snapshot :: "string \<Rightarrow> int agentEndMessage list" where
  "demo_snapshot raw = (if raw = ''1'' then [demo_message ''user'' 0, demo_message ''assistant'' 7]
     else if raw = ''2'' then [demo_message ''user'' 0, demo_message ''assistant'' 7, demo_message ''user'' 0,
       demo_message ''assistant'' 5] else [])"

definition demo_codec :: "int agent_codec" where
  "demo_codec = \<lparr>jc_plain = (\<lambda>_. Inl []), jc_string = Inr, jc_end_usage = (\<lambda>_. Inl []), jc_end_content = (\<lambda>_. Inl []),
     jc_tool_end = (\<lambda>_. Inl []), jc_tool_raw = (\<lambda>_. Inl []), jc_details = (\<lambda>_. Inl []), jc_any = (\<lambda>_. Inl []),
     jc_indent = (\<lambda>_. Inl []), jc_verb_v = (\<lambda>_. []), jc_extension = (\<lambda>_. ([], [], [])),
     jc_agent_end = (\<lambda>raw. Inr (demo_snapshot raw)), jc_prompt = Inr\<rparr>"

definition demo_turn :: "string \<Rightarrow> signal list" where
  "demo_turn raw = [SigEvent (PiEvent0\<lparr>ev_Type := EvToolStart, ev_ToolName := ''bash''\<rparr>),
     SigEvent (PiEvent0\<lparr>ev_Type := EvAgentEnd, ev_Raw := raw\<rparr>)]"

definition demo_options :: RPCOptions where
  "demo_options = \<lparr>ro_PiPath = [], ro_Args = [], ro_Workdir = ''/workspace'',
     ro_Env = [''HOME=/root'', ''HARMOSTES_FORGEJO_BOT_TOKEN=t''], ro_SessionRoot = [], ro_LineageDir = [], ro_SessionID = []\<rparr>"

definition demo_host :: pi_host where
  "demo_host = \<lparr>ph_mkdir_all = (\<lambda>_. None), ph_mkdir_temp = Inr, ph_nano = 1, ph_start = (\<lambda>_. None),
     ph_signals = demo_turn ''1'' @ demo_turn ''2'', ph_eof = True, ph_abort_line = ''abort'', ph_wait = None,
     ph_glob = (\<lambda>_. None)\<rparr>"

definition demo_runner :: "(nat, int) RPCAgentRunner" where
  "demo_runner = \<lparr>ru_Opts = demo_options, ru_SessionWriter = None, ru_ToolPublisher = None,
     ru_SessionMeta = cf_sessionMeta demo_config, ru_SessionFiles = None, ru_SpawnEnv = None\<rparr>"

theorem agent_run_returns_witness:
  "\<exists>res err r g'. snd (RPCAgentRunner_Run demo_codec demo_host demo_runner (demo_gate 1) None int [] ''do'' 3 0)
     = Some ((res, err), Some r, g') \<and> rp_closed r"
  using agent_run_returns [of demo_host demo_codec demo_runner "demo_gate 1" None int "[]" "''do''" 3 0]
  by (auto simp: demo_host_def)

text \<open>
  C7. The credential that can approve a change reaches neither the agent nor a gate shell: in the environment of
  the process that a run starts and of the command that a gate runs, both keys of the bot read as
  unset, whatever the hook that extends the environment adds, and every other variable reads as before.
\<close>

theorem agent_children_scrubbed:
  "Getenv (pc_env (fst (RPCAgentRunner_Run jc host ru gate log now opts task N g))) k =
     (if k = BotTokenEnvKey \<or> k = BotHostEnvKey then [] else Getenv (ro_Env (runner_opts ru)) k)
   \<and> (\<exists>env. CmdGate_Run exec environ cg w =
        (let ((ok, out), w') = exec ''sh'' [''-c'', cg_Command cg] (cg_Dir cg) env w in ((ok, TrimSpace out, None), w'))
      \<and> Getenv env k = (if k = BotTokenEnvKey \<or> k = BotHostEnvKey then [] else Getenv environ k)
      \<and> (\<forall>kv. kv \<in> set env \<longleftrightarrow> kv \<in> set environ \<and> env_key kv \<noteq> Some BotTokenEnvKey \<and> env_key kv \<noteq> Some BotHostEnvKey))"
proof
  have c: "Getenv (ChildEnv e) k = (if k = BotTokenEnvKey \<or> k = BotHostEnvKey then [] else Getenv e k)" for e
    by (simp add: ChildEnv_def Getenv_FilterEnv)
  have m: "kv \<in> set (ChildEnv e) \<longleftrightarrow> kv \<in> set e \<and> env_key kv \<noteq> Some BotTokenEnvKey \<and> env_key kv \<noteq> Some BotHostEnvKey" for e kv
    by (auto simp: ChildEnv_def FilterEnv_filter)
  show "Getenv (pc_env (fst (RPCAgentRunner_Run jc host ru gate log now opts task N g))) k =
     (if k = BotTokenEnvKey \<or> k = BotHostEnvKey then [] else Getenv (ro_Env (runner_opts ru)) k)"
    by (simp add: RPCAgentRunner_Run_def NewRPC_def c Let_def split: prod.split)
  show "\<exists>env. CmdGate_Run exec environ cg w =
        (let ((ok, out), w') = exec ''sh'' [''-c'', cg_Command cg] (cg_Dir cg) env w in ((ok, TrimSpace out, None), w'))
      \<and> Getenv env k = (if k = BotTokenEnvKey \<or> k = BotHostEnvKey then [] else Getenv environ k)
      \<and> (\<forall>kv. kv \<in> set env \<longleftrightarrow> kv \<in> set environ \<and> env_key kv \<noteq> Some BotTokenEnvKey \<and> env_key kv \<noteq> Some BotHostEnvKey)"
    by (rule exI [of _ "ChildEnv environ"]) (simp add: CmdGate_Run_def c m)
qed

text \<open>
  C9. In a warm session whose stream has no message boundaries, and whose snapshots each continue the one
  before, every prompt returns and no token is counted twice or missed: over all the turns the reported input, output
  and cache tokens add up to those of the assistant messages of the last snapshot.
\<close>

theorem warm_usage_exact:
  assumes "growing jc [] ts" "length asks = length ts" "\<not> rp_closed r" "rp_stdin_error r = None"
    and "rp_seenAgentMsgs r = 0" "rp_signals r = concat (map fst ts)" "\<forall>m. \<exists>b. jc_prompt jc m = Inr b"
  shows "\<exists>us r'. warm_turns jc asks r = Some (us, r')
     \<and> sum_list (map tu_Input us) = assistant_sum eu_Input (final_snapshot [] ts)
     \<and> sum_list (map tu_Output us) = assistant_sum eu_Output (final_snapshot [] ts)
     \<and> sum_list (map tu_CacheRead us) = assistant_sum eu_CacheRead (final_snapshot [] ts)
     \<and> sum_list (map tu_CacheWrite us) = assistant_sum eu_CacheWrite (final_snapshot [] ts)"
  using warm_turns_sum [OF assms(1,2), of r "[]"] assms(3-) by (auto simp: rpc_open_def)

definition demo_rpc :: rpc where
  "demo_rpc = \<lparr>rp_closed = False, rp_seenAgentMsgs = 0, rp_sessionDir = [], rp_signals = demo_turn ''1'' @ demo_turn ''2'',
     rp_eof = False, rp_stdin = [], rp_stdin_error = None, rp_log = []\<rparr>"

lemma demo_growing:
  "growing demo_codec [] [(demo_turn ''1'', demo_snapshot ''1''), (demo_turn ''2'', demo_snapshot ''2'')]"
  by (simp add: snapshot_turn_def demo_turn_def demo_codec_def quiet_def EvToolStart_def EvAgentEnd_def demo_snapshot_def)

theorem warm_usage_exact_witness:
  "\<exists>us r'. warm_turns demo_codec [(''do'', ''initial task''), (''fix'', ''feedback #1'')] demo_rpc = Some (us, r')
     \<and> sum_list (map tu_Input us) = 12"
  using warm_usage_exact [OF demo_growing, of "[(''do'', ''initial task''), (''fix'', ''feedback #1'')]" demo_rpc]
  by (auto simp: demo_rpc_def demo_codec_def final_snapshot_def demo_snapshot_def demo_message_def assistant_sum_def)

text \<open>
  The guard against silent empty completions sees nothing in a stream without message boundaries: a turn that
  ends in a snapshot with no new text and no new tokens is taken as a completed turn, with an empty
  response and without an error.
\<close>

theorem empty_turn_unnoticed:
  assumes "snapshot_turn jc sigs msgs" "\<not> rp_closed r" "rp_stdin_error r = None" "jc_prompt jc m = Inr b"
    and "rp_signals r = sigs @ rest" "rp_seenAgentMsgs r \<le> length msgs"
    and "\<forall>x \<in> set (drop (rp_seenAgentMsgs r) msgs). am_Usage x = None \<and> am_Content x = []"
  shows "\<exists>cap st' w'. promptTurn (rpc_task_env jc gate cfg log now) l m st (r, g) = Some ((cap, TokenUsage0, None), st', w')
     \<and> cp_Response cap = []"
proof -
  have u: "\<forall>x \<in> set xs. am_Usage x = None \<and> am_Content x = [] \<Longrightarrow> absorb_usage xs v = v" for xs and v :: "'a TokenUsage"
    by (induction xs) auto
  have t: "\<forall>x \<in> set xs. am_Usage x = None \<and> am_Content x = [] \<Longrightarrow> last_response xs = None" for xs :: "'a agentEndMessage list"
    by (induction xs) auto
  obtain ev n cap r' where "rpc_Prompt jc m l r = Some ((ev, n, TokenUsage0, cap, None), r')"
      "cp_Response cap = []" "\<not> cp_AssistantMessageEnd cap"
    using Prompt_snapshot_turn [OF assms(1) _ assms(4-6), of l] assms(2,3) u [OF assms(7)] t [of "rev (drop (rp_seenAgentMsgs r) msgs)"] assms(7)
    by (auto simp: rpc_open_def response_of_def)
  then show ?thesis
    by (simp add: promptTurn_def rpc_task_env_def rpc_session_def is_empty_completion_def Let_def)
qed

theorem empty_turn_unnoticed_witness:
  "\<exists>cap st' w'. promptTurn (rpc_task_env demo_codec (demo_gate 0) demo_config None int) ''initial task'' ''do''
       (start_session (demo_env 0) 0) (demo_rpc\<lparr>rp_signals := demo_turn []\<rparr>, 0) = Some ((cap, TokenUsage0, None), st', w')
     \<and> cp_Response cap = []"
  by (rule empty_turn_unnoticed [of demo_codec "demo_turn []" "[]" _ _ "''do''" "[]"])
    (simp_all add: snapshot_turn_def demo_turn_def demo_codec_def demo_rpc_def demo_snapshot_def quiet_def EvToolStart_def EvAgentEnd_def)

end
