(* ===== verification/Lineage.thy ===== *)
theory Lineage
  imports K8s_Job Go_Time Agent_Session
begin

text \<open>
  The durable memory of a change under review (\<^verbatim>\<open>internal/sessionstore\<close> and the actor
  \<^verbatim>\<open>internal/agentlineage/actor.go\<close>): the identity of a change, the store that reads and publishes over the
  actor, the actor's HTTP host, and the bounded trace (\<^verbatim>\<open>carry.go\<close>) that one round leaves for the next.

  The sidecar that keeps the actor's state and delivers calls is a parameter, as are the JSON decoders. The value of
  a struct after \<^verbatim>\<open>json.Unmarshal\<close> whose error is ignored is a decoder of its own.
\<close>

section \<open>Identity\<close>

definition SanitizePR :: "string \<Rightarrow> bool" where
  "SanitizePR pr \<longleftrightarrow> pr \<noteq> [] \<and> length pr \<le> 8 \<and> list_all is_digit pr"

definition ErrNotAPR :: string where "ErrNotAPR = ''pr pointer is not numeric''"

definition path_join :: "string \<Rightarrow> string \<Rightarrow> string" where
  "path_join a b = (if a = [] then (if b = [] then [] else Clean b) else Clean (a @ ''/'' @ b))"

definition lineage_name :: "string \<Rightarrow> string \<Rightarrow> string" where
  "lineage_name repo pr = SanitizeRepo repo @ ''-'' @ EncodeToString (take 4 (Sum256 repo)) @ ''~'' @ pr"

definition LineageDir :: "string \<Rightarrow> string \<Rightarrow> string \<Rightarrow> string" where
  "LineageDir root repo pr = path_join root (lineage_name repo pr)"

definition ActorID :: "string \<Rightarrow> string \<Rightarrow> string + string" where
  "ActorID repo pr = (if \<not> SanitizePR pr then Inl ErrNotAPR else Inr (lineage_name repo pr))"

definition ValidID :: "string \<Rightarrow> bool" where
  "ValidID aid = (case LastIndexByte aid (CHR ''~'') of
     None \<Rightarrow> False | Some i \<Rightarrow> 0 < i \<and> SanitizePR (drop (i + 1) aid))"

text \<open>
  The session files of a directory, by name. \<open>mkdir\<close> is the outcome of the directory call and
  \<open>names\<close> what the directory then holds.
\<close>

definition ResolveSession ::
  "(string \<Rightarrow> string option) \<Rightarrow> (string \<Rightarrow> string list) \<Rightarrow> string \<Rightarrow> string \<Rightarrow> string \<Rightarrow> string + (string \<times> string \<times> bool)" where
  "ResolveSession mkdir names root repo pr =
     (if \<not> SanitizePR pr then Inl ErrNotAPR
      else
        (let dir = LineageDir root repo pr
         in (case mkdir dir of
               Some e \<Rightarrow> Inl e
             | None \<Rightarrow> Inr (dir, ''harmostes-'' @ pr, list_ex (\<lambda>n. HasSuffix n ''.jsonl'') (names dir)))))"

definition session_of :: "string \<Rightarrow> string \<Rightarrow> bool" where
  "session_of aid name \<longleftrightarrow> HasSuffix name (''_'' @ aid @ ''.jsonl'')"

text \<open>\<^verbatim>\<open>FindLineageSession\<close>, up to the read of the file: the newest name, if there is one.\<close>

definition FindLineageSession :: "string list \<Rightarrow> string \<Rightarrow> string option" where
  "FindLineageSession names aid =
     (let matches = sort (filter (session_of aid) names) in if matches = [] then None else Some (last matches))"

text \<open>
  \<^verbatim>\<open>ResetLineage\<close>: the files of the session and the one with the bare name go, except those that the
  system refuses to remove.
\<close>

definition ResetLineage :: "(string \<Rightarrow> bool) \<Rightarrow> string list \<Rightarrow> string \<Rightarrow> nat \<times> string list" where
  "ResetLineage removable names aid =
     (let gone = (\<lambda>n. (session_of aid n \<or> n = aid @ ''.jsonl'') \<and> removable n)
      in (length (filter gone names), filter (\<lambda>n. \<not> gone n) names))"

section \<open>The lineage and its store\<close>

record Lineage =
  ln_Session :: string
  ln_LastHead :: string
  ln_Generation :: int
  ln_File :: string
  ln_Carry :: string

definition Lineage0 :: Lineage where
  "Lineage0 = \<lparr>ln_Session = [], ln_LastHead = [], ln_Generation = 0, ln_File = [], ln_Carry = []\<rparr>"

record lineage_codec =
  lc_enc :: "Lineage \<Rightarrow> string"
  lc_dec :: "string \<Rightarrow> string + Lineage"
  lc_lenient :: "string \<Rightarrow> Lineage"

definition Advance :: "lineage_codec \<Rightarrow> string \<Rightarrow> bool \<Rightarrow> Lineage \<Rightarrow> string + Lineage" where
  "Advance lc stored ok l =
     (if ok \<and> stored \<noteq> [] then
        (case lc_dec lc stored of
           Inl e \<Rightarrow> Inl (''corrupt session state: '' @ e)
         | Inr cur \<Rightarrow> Inr (l\<lparr>ln_Generation := ln_Generation cur + 1\<rparr>))
      else Inr (l\<lparr>ln_Generation := 1\<rparr>))"

definition ActorType :: string where "ActorType = ''PRLineage''"

text \<open>\<open>invoke\<close> is \<^verbatim>\<open>InvokeActor\<close> for the registered type: id, method, payload.\<close>

definition Store_Fetch ::
  "lineage_codec \<Rightarrow> (string \<Rightarrow> string \<Rightarrow> string \<Rightarrow> 'w \<Rightarrow> (string + string) \<times> 'w) \<Rightarrow> string \<Rightarrow> string \<Rightarrow> 'w \<Rightarrow>
   (string + Lineage) \<times> 'w" where
  "Store_Fetch lc invoke repo pr w =
     (case ActorID repo pr of
        Inl e \<Rightarrow> (Inl e, w)
      | Inr aid \<Rightarrow>
          (case invoke aid ''fetch'' [] w of
             (Inl e, w') \<Rightarrow> (Inl e, w')
           | (Inr raw, w') \<Rightarrow> (Inr (if raw = [] then Lineage0 else lc_lenient lc raw), w')))"

definition Store_Publish ::
  "lineage_codec \<Rightarrow> (string \<Rightarrow> string \<Rightarrow> string \<Rightarrow> 'w \<Rightarrow> (string + string) \<times> 'w) \<Rightarrow> string \<Rightarrow> string \<Rightarrow> Lineage \<Rightarrow> 'w \<Rightarrow>
   string option \<times> 'w" where
  "Store_Publish lc invoke repo pr l w =
     (case ActorID repo pr of
        Inl e \<Rightarrow> (Some e, w)
      | Inr aid \<Rightarrow>
          (case invoke aid ''publish'' (lc_enc lc l) w of
             (Inl e, w') \<Rightarrow> (Some e, w')
           | (Inr _, w') \<Rightarrow> (None, w')))"

definition TailBytes :: "string \<Rightarrow> nat \<Rightarrow> string" where
  "TailBytes s mx =
     (if length s \<le> mx then s
      else
        (let cut = drop (length s - mx) s
         in (case IndexByte cut (CHR 0x0A) of
               Some i \<Rightarrow> if i < length cut - 1 then drop (i + 1) cut else cut
             | None \<Rightarrow> cut)))"

section \<open>The actor's host (actor.go)\<close>

text \<open>The state endpoints of the sidecar for the one key the actor uses; an empty answer is an absent key.\<close>

record 'w sidecar =
  sc_GetActorState :: "string \<Rightarrow> 'w \<Rightarrow> (string + string) \<times> 'w"
  sc_SaveActorState :: "string \<Rightarrow> Lineage \<Rightarrow> 'w \<Rightarrow> string option \<times> 'w"

type_synonym http_reply = "nat \<times> string"

definition error_body :: "nat \<Rightarrow> string \<Rightarrow> http_reply" where
  "error_body code msg = (code, msg @ [CHR 0x0A])"

definition not_found :: http_reply where
  "not_found = error_body 404 ''404 page not found''"

definition host_fetch :: "lineage_codec \<Rightarrow> 'w sidecar \<Rightarrow> string \<Rightarrow> 'w \<Rightarrow> http_reply \<times> 'w" where
  "host_fetch lc sc aid w =
     (let (got, w') = sc_GetActorState sc aid w;
          s = (case got of Inr b \<Rightarrow> if b \<noteq> [] then lc_lenient lc b else Lineage0 | Inl _ \<Rightarrow> Lineage0)
      in ((200, lc_enc lc s @ [CHR 0x0A]), w'))"

definition host_publish :: "lineage_codec \<Rightarrow> 'w sidecar \<Rightarrow> string \<Rightarrow> string \<Rightarrow> 'w \<Rightarrow> http_reply \<times> 'w" where
  "host_publish lc sc aid body w =
     (case lc_dec lc body of
        Inl e \<Rightarrow> (error_body 400 (''bad payload: '' @ e), w)
      | Inr l \<Rightarrow>
          (let (got, w1) = sc_GetActorState sc aid w;
               cur = (case got of Inr b \<Rightarrow> if b \<noteq> [] then lc_dec lc b else Inr Lineage0 | Inl _ \<Rightarrow> Inr Lineage0)
           in (case cur of
                 Inl e \<Rightarrow> (error_body 500 (''corrupt session state: '' @ e), w1)
               | Inr c \<Rightarrow>
                   (let l' = l\<lparr>ln_Generation := ln_Generation c + 1\<rparr>
                    in (case sc_SaveActorState sc aid l' w1 of
                          (Some e, w2) \<Rightarrow> (error_body 500 (e), w2)
                        | (None, w2) \<Rightarrow>
                            ((200, ''{'' @ [CHR 0x22] @ ''generation'' @ [CHR 0x22] @ '':'' @ show_int (ln_Generation l') @ ''}''), w2))))))"

definition host_invoke ::
  "lineage_codec \<Rightarrow> 'w sidecar \<Rightarrow> string \<Rightarrow> string \<Rightarrow> string \<Rightarrow> 'w \<Rightarrow> http_reply \<times> 'w" where
  "host_invoke lc sc aid verb body w =
     (if verb = ''fetch'' then host_fetch lc sc aid w
      else if verb = ''publish'' then host_publish lc sc aid body w
      else (not_found, w))"

text \<open>\<open>config\<close> is the encoded answer to the request for the configuration.\<close>

definition Host_ServeHTTP ::
  "lineage_codec \<Rightarrow> string \<Rightarrow> 'w sidecar \<Rightarrow> string \<Rightarrow> string \<Rightarrow> string \<Rightarrow> 'w \<Rightarrow> http_reply \<times> 'w" where
  "Host_ServeHTTP lc config sc meth path body w =
     (if meth = ''GET'' \<and> path = ''/dapr/config'' then ((200, config), w)
      else if meth = ''PUT'' \<and> HasPrefix path ''/actors/'' then
        (case split_on (CHR ''/'') (TrimPrefix path ''/actors/'') of
           [ty, aid, mword, verb] \<Rightarrow>
             if ty \<noteq> ActorType \<or> mword \<noteq> ''method'' then (not_found, w)
             else if \<not> ValidID aid then (error_body 400 (''invalid actor id''), w)
             else host_invoke lc sc aid verb body w
         | _ \<Rightarrow> (not_found, w))
      else (not_found, w))"

text \<open>
  \<^verbatim>\<open>HTTPClient.InvokeActor\<close> over a sidecar that hands the call to the host, as the Dapr contract quoted in
  \<^verbatim>\<open>actor.go\<close> says; \<open>status\<close> renders a status line.
\<close>

definition InvokeActor ::
  "lineage_codec \<Rightarrow> string \<Rightarrow> (nat \<Rightarrow> string) \<Rightarrow> 'w sidecar \<Rightarrow> string \<Rightarrow> string \<Rightarrow> string \<Rightarrow> 'w \<Rightarrow> (string + string) \<times> 'w" where
  "InvokeActor lc config status sc aid verb payload w =
     (let ((code, body), w') =
            Host_ServeHTTP lc config sc ''PUT'' (''/actors/'' @ ActorType @ ''/'' @ aid @ ''/method/'' @ verb) payload w
      in ((if code \<noteq> 200
           then Inl (''dapr invoke-actor '' @ ActorType @ ''/'' @ aid @ ''.'' @ verb @ '': '' @ status code)
           else Inr body), w'))"

section \<open>The carry (carry.go)\<close>

definition MaxCarryBytes :: nat where "MaxCarryBytes = 24 * 1024"
definition maxCarryPrior :: nat where "maxCarryPrior = MaxCarryBytes div 2"
definition maxCarryFinal :: nat where "maxCarryFinal = 8 * 1024"
definition maxCarryFiles :: nat where "maxCarryFiles = 40"

record carry_block =
  bk_Type :: string
  bk_Text :: string
  bk_Name :: string
  bk_Arguments :: string

record carry_event =
  ce_Type :: string
  ce_Timestamp :: instant
  ce_ModelId :: string
  ce_Role :: string
  ce_Content :: "carry_block list"

record carry_codec =
  cc_event :: "string \<Rightarrow> carry_event option"
  cc_args :: "string \<Rightarrow> (string, json) gomap option"

record carry_round =
  cr_first :: instant
  cr_last :: instant
  cr_models :: "string list"
  cr_assistant :: nat
  cr_toolCalls :: nat
  cr_tools :: "(string, nat) gomap"
  cr_files :: "string list"
  cr_finalText :: string

definition toolCallPaths :: "carry_codec \<Rightarrow> string \<Rightarrow> string \<Rightarrow> string list" where
  "toolCallPaths cc name args =
     (let n = ToLower name
      in if \<not> Contains n ''edit'' \<and> \<not> Contains n ''write'' \<and> \<not> Contains n ''patch'' then []
         else (case cc_args cc args of
                 None \<Rightarrow> []
               | Some a \<Rightarrow> concat (map (\<lambda>k. case map_of a k of
                   Some (JsString v) \<Rightarrow> if v \<noteq> [] then [v] else []
                 | _ \<Rightarrow> []) [''path'', ''file_path'', ''notebook_path''])))"

definition add_file :: "string \<Rightarrow> string list \<Rightarrow> string list" where
  "add_file p files = (if p \<in> set files then files else files @ [p])"

definition carry_content :: "carry_codec \<Rightarrow> carry_block \<Rightarrow> carry_round \<Rightarrow> carry_round" where
  "carry_content cc c r =
     (if bk_Type c = ''toolCall'' then
        r\<lparr>cr_toolCalls := cr_toolCalls r + 1,
          cr_tools := map_set (bk_Name c) (map_get (cr_tools r) (bk_Name c) 0 + 1) (cr_tools r),
          cr_files := fold add_file (toolCallPaths cc (bk_Name c) (bk_Arguments c)) (cr_files r)\<rparr>
      else if bk_Type c = ''text'' then
        (let t = TrimSpace (bk_Text c) in if t \<noteq> [] then r\<lparr>cr_finalText := t\<rparr> else r)
      else r)"

definition carry_time :: "instant \<Rightarrow> carry_round \<Rightarrow> carry_round" where
  "carry_time t r =
     (if t = zero_time then r
      else r\<lparr>cr_first := (if cr_first r = zero_time \<or> t < cr_first r then t else cr_first r),
             cr_last := (if cr_last r < t then t else cr_last r)\<rparr>)"

definition carry_line :: "carry_codec \<Rightarrow> string \<Rightarrow> carry_round \<Rightarrow> carry_round" where
  "carry_line cc raw r0 =
     (let line = TrimSpace raw
      in if line = [] then r0
         else (case cc_event cc line of
                 None \<Rightarrow> r0
               | Some ev \<Rightarrow>
                   (let r = carry_time (ce_Timestamp ev) r0
                    in if ce_Type ev = ''model_change'' then
                         (if ce_ModelId ev \<noteq> [] \<and> ce_ModelId ev \<notin> set (cr_models r)
                          then r\<lparr>cr_models := cr_models r @ [ce_ModelId ev]\<rparr> else r)
                       else if ce_Type ev = ''message'' \<and> ce_Role ev = ''assistant'' then
                         fold (carry_content cc) (ce_Content ev) (r\<lparr>cr_assistant := cr_assistant r + 1\<rparr>)
                       else r)))"

definition carry_round0 :: carry_round where
  "carry_round0 = \<lparr>cr_first = zero_time, cr_last = zero_time, cr_models = [], cr_assistant = 0, cr_toolCalls = 0,
     cr_tools = [], cr_files = [], cr_finalText = []\<rparr>"

definition times_sign :: string where "times_sign = [CHR 0xC3, CHR 0x97]"

definition renderToolHistogram :: "(string, nat) gomap \<Rightarrow> string" where
  "renderToolHistogram tools =
     Join (map (\<lambda>(k, v). k @ times_sign @ show_nat v) (take 8 (sort_key (\<lambda>(k, v). (- int v, k)) tools))) '', ''"

definition truncate_marked :: "string \<Rightarrow> nat \<Rightarrow> string" where
  "truncate_marked s mx = (if length s \<le> mx then s
     else take mx s @ [CHR 0x0A, CHR 0x0A] @ ellipsis @ ''(truncated)'')"

definition truncateHead :: "string \<Rightarrow> nat \<Rightarrow> string" where
  "truncateHead s mx = (if length s \<le> mx then s
     else take mx s @ [CHR 0x0A, CHR 0x0A] @ ellipsis @ ''(older rounds trimmed)'')"

definition render_round :: "string \<Rightarrow> carry_round \<Rightarrow> string" where
  "render_round head r =
     (let nl = [CHR 0x0A]
      in ''## This round'' @ nl @
         (if cr_first r \<noteq> zero_time
          then ''- span: '' @ RFC3339 (cr_first r) @ '' '' @ right_arrow @ '' '' @ RFC3339 (cr_last r) @ nl else []) @
         (if head \<noteq> [] then ''- head: '' @ take 12 head @ nl else []) @
         (if cr_models r \<noteq> [] then ''- models: '' @ Join (cr_models r) '', '' @ nl else []) @
         ''- turns: '' @ show_nat (cr_assistant r) @ '' assistant messages, '' @ show_nat (cr_toolCalls r) @ '' tool calls'' @ nl @
         (if cr_tools r \<noteq> [] then ''- tools: '' @ renderToolHistogram (cr_tools r) @ nl else []) @
         (if cr_files r \<noteq> [] then
            ''- files touched'' @
            (if length (cr_files r) > maxCarryFiles then '' (first '' @ show_nat maxCarryFiles @ '')'' else []) @ '': '' @
            Join (take maxCarryFiles (cr_files r)) ''; '' @ nl else []) @
         (if cr_finalText r \<noteq> []
          then nl @ ''### Closing rationale'' @ nl @ nl @ truncate_marked (cr_finalText r) maxCarryFinal @ nl else []))"

definition render_prior :: "string \<Rightarrow> string" where
  "render_prior prior =
     (let p = TrimSpace prior; nl = [CHR 0x0A]
      in if p \<noteq> [] then nl @ ''## Earlier rounds (newest first)'' @ nl @ nl @ truncateHead p maxCarryPrior @ nl else [])"

definition ExtractCarry :: "carry_codec \<Rightarrow> string \<Rightarrow> string \<Rightarrow> string \<Rightarrow> string" where
  "ExtractCarry cc raw prior head =
     (let r = fold (carry_line cc) (split_on (CHR 0x0A) raw) carry_round0;
          out = render_round head r @ render_prior prior
      in if length out > MaxCarryBytes then truncateHead out MaxCarryBytes else out)"

end
