(* ===== verification/Lineage_Theorems.thy ===== *)
theory Lineage_Theorems
  imports Lineage "HOL-Library.Sublist"
begin

text \<open>
  What the memory of a change promises: an identity that the actor's host accepts and routes, a publish that is
  read back and disturbs no other change, a generation that counts the publishes, and a trace that stays bounded.
\<close>

section \<open>Identities and routes\<close>

lemma map_runes_range: "set (map_runes f s) \<subseteq> range f"
  by (induction f s rule: map_runes.induct) auto

lemma repo_rune_plain: "repo_rune c \<noteq> CHR ''/''" "repo_rune c \<noteq> CHR ''~''"
  by (auto simp: repo_rune_def byte_in_def)

lemma hex_digit_plain:
  assumes "n < 16" shows "hex_digit n \<noteq> CHR ''/''" "hex_digit n \<noteq> CHR ''~''"
proof -
  have "of_char (hex_digit n) = (if n < 10 then 48 + n else 87 + n)"
    using assms by (simp add: hex_digit_def)
  moreover have "of_char (CHR ''/'') = (47 :: nat)" "of_char (CHR ''~'') = (126 :: nat)" by simp_all
  ultimately show "hex_digit n \<noteq> CHR ''/''" "hex_digit n \<noteq> CHR ''~''"
    using assms by (auto split: if_splits)
qed

lemma EncodeToString_digits:
  assumes "\<forall>b \<in> set bs. b < 256" "c \<in> set (EncodeToString bs)"
  shows "\<exists>n < 16. c = hex_digit n"
proof -
  obtain b where b: "b \<in> set bs" "c = hex_digit (b div 16) \<or> c = hex_digit (b mod 16)"
    using assms(2) by (auto simp: EncodeToString_def)
  have "b div 16 < 16" "b mod 16 < 16" using assms(1) b(1) by (auto simp: less_mult_imp_div_less)
  then show ?thesis using b(2) by blast
qed

lemma EncodeToString_plain:
  assumes "\<forall>b \<in> set bs. b < 256"
  shows "CHR ''/'' \<notin> set (EncodeToString bs)" "CHR ''~'' \<notin> set (EncodeToString bs)"
  using EncodeToString_digits [OF assms] hex_digit_plain by metis+

lemma Sum256_bytes: "b \<in> set (Sum256 s) \<Longrightarrow> b < 256"
  by (auto simp: Sum256_def be_bytes_def Let_def)

lemma SanitizeRepo_plain: "CHR ''/'' \<notin> set (SanitizeRepo repo)" "CHR ''~'' \<notin> set (SanitizeRepo repo)"
  using map_runes_range [of repo_rune repo] repo_rune_plain [symmetric] by (auto simp: SanitizeRepo_def)

lemma SanitizePR_plain:
  assumes "SanitizePR pr" shows "CHR ''/'' \<notin> set pr" "CHR ''~'' \<notin> set pr"
  using assms by (auto simp: SanitizePR_def list_all_iff is_digit_def)

lemma lineage_name_plain:
  assumes "SanitizePR pr"
  shows "CHR ''/'' \<notin> set (lineage_name repo pr)"
    and "LastIndexByte (lineage_name repo pr) (CHR ''~'') =
      Some (length (SanitizeRepo repo @ ''-'' @ EncodeToString (take 4 (Sum256 repo))))"
proof -
  have h: "\<forall>b \<in> set (take 4 (Sum256 repo)). b < 256" using Sum256_bytes in_set_takeD by fast
  show "CHR ''/'' \<notin> set (lineage_name repo pr)"
    using SanitizeRepo_plain(1) EncodeToString_plain(1) [OF h] SanitizePR_plain(1) [OF assms]
    by (simp add: lineage_name_def)
  show "LastIndexByte (lineage_name repo pr) (CHR ''~'') =
      Some (length (SanitizeRepo repo @ ''-'' @ EncodeToString (take 4 (Sum256 repo))))"
    using LastIndexByte_append [OF SanitizePR_plain(2) [OF assms],
        of "SanitizeRepo repo @ ''-'' @ EncodeToString (take 4 (Sum256 repo))"]
    by (simp add: lineage_name_def)
qed

lemma ValidID_lineage: "SanitizePR pr \<Longrightarrow> ValidID (lineage_name repo pr)"
  using lineage_name_plain(2) [of pr repo] by (simp add: ValidID_def) (simp add: lineage_name_def)

lemma split_on_first: "c \<notin> set xs \<Longrightarrow> split_on c (xs @ c # ys) = xs # split_on c ys"
  by (induction xs) auto

lemma split_on_none: "c \<notin> set xs \<Longrightarrow> split_on c xs = [xs]"
  by (induction xs) auto

lemma InvokeActor_route:
  assumes "CHR ''/'' \<notin> set aid" "ValidID aid" "CHR ''/'' \<notin> set verb"
  shows "InvokeActor lc config status sc aid verb payload w =
     (let ((code, body), w') = host_invoke lc sc aid verb payload w
      in ((if code \<noteq> 200
           then Inl (''dapr invoke-actor '' @ ActorType @ ''/'' @ aid @ ''.'' @ verb @ '': '' @ status code)
           else Inr body), w'))"
proof -
  let ?rest = "ActorType @ CHR ''/'' # aid @ CHR ''/'' # ''method'' @ CHR ''/'' # verb"
  have "split_on (CHR ''/'') ?rest = [ActorType, aid, ''method'', verb]"
    using assms split_on_first [of "CHR ''/''" ActorType] split_on_first [of "CHR ''/''" aid]
      split_on_first [of "CHR ''/''" "''method''" verb] split_on_none [of "CHR ''/''" verb]
    by (simp add: ActorType_def)
  moreover have "TrimPrefix (''/actors/'' @ ?rest) ''/actors/'' = ?rest" "HasPrefix (''/actors/'' @ ?rest) ''/actors/''"
    by (simp_all add: TrimPrefix_def HasPrefix_def)
  ultimately have "Host_ServeHTTP lc config sc ''PUT'' (''/actors/'' @ ?rest) payload w = host_invoke lc sc aid verb payload w"
    using assms(2) by (simp only: Host_ServeHTTP_def list.case) simp
  moreover have "''/actors/'' @ ActorType @ ''/'' @ aid @ ''/method/'' @ verb = ''/actors/'' @ ?rest" by simp
  ultimately show ?thesis by (simp only: InvokeActor_def)
qed

text \<open>The host advances the generation by the rule that the store documents, when its read succeeds.\<close>

lemma host_publish_advances:
  assumes "lc_dec lc body = Inr l" "sc_GetActorState sc aid w = (Inr b, w1)"
  shows "host_publish lc sc aid body w =
     (case Advance lc b True l of
        Inl e \<Rightarrow> (error_body 500 e, w1)
      | Inr l' \<Rightarrow> (case sc_SaveActorState sc aid l' w1 of
           (Some e, w2) \<Rightarrow> (error_body 500 e, w2)
         | (None, w2) \<Rightarrow> ((200, ''{'' @ [CHR 0x22] @ ''generation'' @ [CHR 0x22] @ '':'' @ show_int (ln_Generation l') @ ''}''), w2)))"
  using assms by (simp add: host_publish_def Advance_def Lineage0_def Let_def split: sum.split prod.split option.split)

section \<open>The state behind the actor\<close>

text \<open>
  What the state endpoints promise: a read that succeeds gives the text kept for the actor and changes
  nothing, a write that succeeds replaces exactly that text, and what fails leaves all as it is.
\<close>

locale actor_state =
  fixes enc :: "Lineage \<Rightarrow> string" and sc :: "'w sidecar" and kept :: "'w \<Rightarrow> string \<Rightarrow> string"
  assumes get_keeps: "kept (snd (sc_GetActorState sc aid w)) = kept w"
    and get_reads: "fst (sc_GetActorState sc aid w) = Inr b \<Longrightarrow> b = kept w aid"
    and save_lands: "sc_SaveActorState sc aid l w = (None, w') \<Longrightarrow> kept w' = (kept w)(aid := enc l)"
    and save_fails: "sc_SaveActorState sc aid l w = (Some e, w') \<Longrightarrow> kept w' = kept w"

text \<open>The law of the JSON codec: what is encoded is decoded again, with and without a final newline.\<close>

definition lineage_law :: "lineage_codec \<Rightarrow> bool" where
  "lineage_law lc \<longleftrightarrow> (\<forall>l. lc_enc lc l \<noteq> [] \<and> lc_dec lc (lc_enc lc l) = Inr l \<and> lc_lenient lc (lc_enc lc l) = l
     \<and> lc_lenient lc (lc_enc lc l @ [CHR 0x0A]) = l)"

text \<open>The lineage a text stands for; nothing is the zero lineage.\<close>

definition lineage_of :: "lineage_codec \<Rightarrow> string \<Rightarrow> Lineage" where
  "lineage_of lc raw = (if raw = [] then Lineage0 else lc_lenient lc raw)"

definition sound_text :: "lineage_codec \<Rightarrow> string \<Rightarrow> bool" where
  "sound_text lc raw \<longleftrightarrow> raw = [] \<or> (\<exists>l. raw = lc_enc lc l)"

context actor_state
begin

lemma fetch_view:
  assumes "lineage_law lc" "SanitizePR pr"
  shows "\<exists>w'. Store_Fetch lc (InvokeActor lc config status sc) repo pr w =
      (Inr (case fst (sc_GetActorState sc (lineage_name repo pr) w) of
              Inl _ \<Rightarrow> Lineage0 | Inr _ \<Rightarrow> lineage_of lc (kept w (lineage_name repo pr))), w') \<and> kept w' = kept w"
proof -
  let ?id = "lineage_name repo pr"
  obtain got w' where g: "sc_GetActorState sc ?id w = (got, w')" by fastforce
  have k: "kept w' = kept w" using get_keeps [of ?id w] g by simp
  have r: "\<And>b. got = Inr b \<Longrightarrow> b = kept w ?id" using get_reads [of ?id w] g by simp
  let ?s = "case got of Inl _ \<Rightarrow> Lineage0 | Inr _ \<Rightarrow> lineage_of lc (kept w ?id)"
  have h: "host_fetch lc sc ?id w = ((200, lc_enc lc ?s @ [CHR 0x0A]), w')"
    using g r by (auto simp: host_fetch_def lineage_of_def split: sum.split)
  have "InvokeActor lc config status sc ?id ''fetch'' [] w = (Inr (lc_enc lc ?s @ [CHR 0x0A]), w')"
    using InvokeActor_route [OF lineage_name_plain(1) [OF assms(2)] ValidID_lineage [OF assms(2)], of "''fetch''" lc config status sc repo "[]" w]
    by (simp add: host_invoke_def h)
  then show ?thesis using assms g k by (simp add: Store_Fetch_def ActorID_def lineage_law_def)
qed

lemma publish_lands:
  assumes "lineage_law lc" "enc = lc_enc lc" "SanitizePR pr" "sound_text lc (kept w (lineage_name repo pr))"
    and "Store_Publish lc (InvokeActor lc config status sc) repo pr l w = (err, w')"
  shows "kept w' = (if err = None then
      (kept w)(lineage_name repo pr := lc_enc lc (l\<lparr>ln_Generation :=
         (case fst (sc_GetActorState sc (lineage_name repo pr) w) of
            Inl _ \<Rightarrow> 1 | Inr _ \<Rightarrow> ln_Generation (lineage_of lc (kept w (lineage_name repo pr))) + 1)\<rparr>))
    else kept w)"
proof -
  let ?id = "lineage_name repo pr"
  obtain got w1 where g: "sc_GetActorState sc ?id w = (got, w1)" by fastforce
  have k: "kept w1 = kept w" using get_keeps [of ?id w] g by simp
  have r: "\<And>b. got = Inr b \<Longrightarrow> b = kept w ?id" using get_reads [of ?id w] g by simp
  let ?cur = "case got of Inl _ \<Rightarrow> Lineage0 | Inr _ \<Rightarrow> lineage_of lc (kept w ?id)"
  let ?l = "l\<lparr>ln_Generation := ln_Generation ?cur + 1\<rparr>"
  obtain e w2 where s: "sc_SaveActorState sc ?id ?l w1 = (e, w2)" by fastforce
  have cur: "(case got of Inr b \<Rightarrow> if b \<noteq> [] then lc_dec lc b else Inr Lineage0 | Inl _ \<Rightarrow> Inr Lineage0) = Inr ?cur"
    using assms(1,4) r by (auto simp: sound_text_def lineage_law_def lineage_of_def split: sum.split)
  have p: "host_publish lc sc ?id (lc_enc lc l) w =
     (case e of Some x \<Rightarrow> (error_body 500 x, w2)
      | None \<Rightarrow> ((200, ''{'' @ [CHR 0x22] @ ''generation'' @ [CHR 0x22] @ '':'' @ show_int (ln_Generation ?l) @ ''}''), w2))"
    using assms(1) g cur s by (simp add: host_publish_def lineage_law_def Let_def split: option.split)
  have "InvokeActor lc config status sc ?id ''publish'' (lc_enc lc l) w =
     (let ((code, body), w') = host_publish lc sc ?id (lc_enc lc l) w
      in ((if code \<noteq> 200
           then Inl (''dapr invoke-actor '' @ ActorType @ ''/'' @ ?id @ ''.'' @ ''publish'' @ '': '' @ status code)
           else Inr body), w'))"
    using InvokeActor_route [OF lineage_name_plain(1) [OF assms(3)] ValidID_lineage [OF assms(3)],
        of "''publish''" lc config status sc repo "lc_enc lc l" w]
    by (simp add: host_invoke_def)
  then have res: "err = None \<longleftrightarrow> e = None" "w' = w2"
    using assms(3,5) p by (auto simp: Store_Publish_def ActorID_def error_body_def split: option.splits)
  have gen: "(case fst (sc_GetActorState sc ?id w) of Inl _ \<Rightarrow> 1 | Inr _ \<Rightarrow> ln_Generation (lineage_of lc (kept w ?id)) + 1)
      = ln_Generation ?cur + 1"
    using g by (simp add: Lineage0_def split: sum.split)
  show ?thesis
    using save_lands [of ?id ?l w1 w2] save_fails [of ?id ?l w1 _ w2] s res k assms(2)
    by (cases e; cases err) (simp_all add: gen)
qed

end

text \<open>
  Cells behind a sidecar: the text of each actor, and what goes wrong, call by call, with reads and writes.
\<close>

record cells =
  cl_texts :: "(string, string) gomap"
  cl_reads :: "string option list"  \<comment> \<open>the error of each coming read, if any\<close>
  cl_writes :: "string option list"

definition cell_text :: "cells \<Rightarrow> string \<Rightarrow> string" where
  "cell_text c aid = map_get (cl_texts c) aid []"

definition next_fault :: "string option list \<Rightarrow> string option" where
  "next_fault fs = (case fs of [] \<Rightarrow> None | f # _ \<Rightarrow> f)"

definition cell_sidecar :: "(Lineage \<Rightarrow> string) \<Rightarrow> cells sidecar" where
  "cell_sidecar enc = \<lparr>
     sc_GetActorState = (\<lambda>aid c. ((case next_fault (cl_reads c) of Some e \<Rightarrow> Inl e | None \<Rightarrow> Inr (cell_text c aid)),
                                  c\<lparr>cl_reads := tl (cl_reads c)\<rparr>)),
     sc_SaveActorState = (\<lambda>aid l c. (case next_fault (cl_writes c) of
         Some e \<Rightarrow> (Some e, c\<lparr>cl_writes := tl (cl_writes c)\<rparr>)
       | None \<Rightarrow> (None, c\<lparr>cl_writes := tl (cl_writes c), cl_texts := map_set aid (enc l) (cl_texts c)\<rparr>)))\<rparr>"

interpretation cells: actor_state enc "cell_sidecar enc" cell_text for enc
  by unfold_locales
    (auto simp: cell_sidecar_def cell_text_def fun_eq_iff split: option.splits)

lemma read_clean: "cl_reads c = [] \<Longrightarrow> fst (sc_GetActorState (cell_sidecar enc) aid c) = Inr (cell_text c aid)"
  by (simp add: cell_sidecar_def next_fault_def)

lemma publish_reads_clean:
  assumes "cl_reads c = []" "Store_Publish lc (InvokeActor lc config status (cell_sidecar enc)) repo pr l c = (err, c')"
  shows "cl_reads c' = []"
  using assms
  by (auto simp: Store_Publish_def InvokeActor_def Host_ServeHTTP_def host_invoke_def host_publish_def host_fetch_def cell_sidecar_def
      next_fault_def Let_def split: sum.splits if_splits option.splits list.splits prod.splits)

abbreviation cell_publish :: "lineage_codec \<Rightarrow> string \<Rightarrow> (nat \<Rightarrow> string) \<Rightarrow> string \<Rightarrow> string \<Rightarrow> Lineage \<Rightarrow> cells \<Rightarrow> string option \<times> cells" where
  "cell_publish lc config status \<equiv> Store_Publish lc (InvokeActor lc config status (cell_sidecar (lc_enc lc)))"

abbreviation cell_fetch :: "lineage_codec \<Rightarrow> string \<Rightarrow> (nat \<Rightarrow> string) \<Rightarrow> string \<Rightarrow> string \<Rightarrow> cells \<Rightarrow> (string + Lineage) \<times> cells" where
  "cell_fetch lc config status \<equiv> Store_Fetch lc (InvokeActor lc config status (cell_sidecar (lc_enc lc)))"

section \<open>Properties\<close>


text \<open>The publishes of any rounds of any changes, one after the other, as the turns of the actors order them.\<close>

fun publish_all :: "lineage_codec \<Rightarrow> string \<Rightarrow> (nat \<Rightarrow> string) \<Rightarrow> (string \<times> string \<times> Lineage) list \<Rightarrow> cells \<Rightarrow> string option list \<times> cells" where
  "publish_all lc config status [] c = ([], c)"
| "publish_all lc config status ((repo, pr, l) # ops) c =
     (let (err, c1) = cell_publish lc config status repo pr l c; (errs, c2) = publish_all lc config status ops c1
      in (err # errs, c2))"

definition landed :: "string \<Rightarrow> (string \<times> string \<times> Lineage) list \<Rightarrow> string option list \<Rightarrow> nat" where
  "landed aid ops errs = length (filter (\<lambda>((repo, pr, l), err). err = None \<and> lineage_name repo pr = aid) (zip ops errs))"

definition generation :: "lineage_codec \<Rightarrow> cells \<Rightarrow> string \<Rightarrow> int" where
  "generation lc c aid = ln_Generation (lineage_of lc (cell_text c aid))"

lemma publish_step:
  assumes "lineage_law lc" "SanitizePR pr" "cl_reads c = []" "\<forall>a. sound_text lc (cell_text c a)"
    and "cell_publish lc config status repo pr l c = (err, c')"
  shows "\<forall>a. sound_text lc (cell_text c' a)"
    and "generation lc c' aid = generation lc c aid + (if err = None \<and> lineage_name repo pr = aid then 1 else 0)"
proof -
  have t: "cell_text c' = (if err = None then
      (cell_text c)(lineage_name repo pr := lc_enc lc (l\<lparr>ln_Generation :=
         ln_Generation (lineage_of lc (cell_text c (lineage_name repo pr))) + 1\<rparr>)) else cell_text c)"
    using cells.publish_lands [OF assms(1) refl assms(2) _ assms(5)] read_clean [OF assms(3)] assms(4) by simp
  show "\<forall>a. sound_text lc (cell_text c' a)" using t assms(4) by (auto simp: sound_text_def)
  show "generation lc c' aid = generation lc c aid + (if err = None \<and> lineage_name repo pr = aid then 1 else 0)"
    using t assms(1) by (auto simp: generation_def lineage_of_def lineage_law_def)
qed


text \<open>A codec that satisfies the law: every field preceded by its length in unary.\<close>

definition enc_text :: "string \<Rightarrow> string" where
  "enc_text s = replicate (length s) (CHR ''x'') @ CHR '':'' # s"

definition dec_text :: "string \<Rightarrow> string \<times> string" where
  "dec_text t = (let n = length (takeWhile (\<lambda>c. c = CHR ''x'') t); r = drop (n + 1) t in (take n r, drop n r))"

lemma dec_enc_text [simp]: "dec_text (enc_text s @ r) = (s, r)"
proof -
  have "takeWhile (\<lambda>c. c = CHR ''x'') (replicate n (CHR ''x'') @ CHR '':'' # u) = replicate n (CHR ''x'')" for n u
    by (simp add: takeWhile_append)
  then show ?thesis by (simp add: dec_text_def enc_text_def Let_def)
qed

definition enc_number :: "int \<Rightarrow> string" where
  "enc_number i = enc_text (replicate (nat i) (CHR ''p'') @ replicate (nat (- i)) (CHR ''m''))"

definition dec_number :: "string \<Rightarrow> int" where
  "dec_number s = int (length (filter (\<lambda>c. c = CHR ''p'') s)) - int (length (filter (\<lambda>c. c = CHR ''m'') s))"

definition unary_codec :: lineage_codec where
  "unary_codec =
     (let dec = (\<lambda>t. let (a, t1) = dec_text t; (b, t2) = dec_text t1; (n, t3) = dec_text t2; (f, t4) = dec_text t3; (c, t5) = dec_text t4
            in \<lparr>ln_Session = a, ln_LastHead = b, ln_Generation = dec_number n, ln_File = f, ln_Carry = c\<rparr>)
      in \<lparr>lc_enc = (\<lambda>l. enc_text (ln_Session l) @ enc_text (ln_LastHead l) @ enc_number (ln_Generation l) @
            enc_text (ln_File l) @ enc_text (ln_Carry l)), lc_dec = Inr \<circ> dec, lc_lenient = dec\<rparr>)"

lemma unary_law: "lineage_law unary_codec"
proof -
  have n: "dec_number (replicate (nat i) (CHR ''p'') @ replicate (nat (- i)) (CHR ''m'')) = i" for i
    by (simp add: dec_number_def filter_replicate)
  have z: "dec_text (enc_text s) = (s, [])" for s using dec_enc_text [of s "[]"] by simp
  show ?thesis
    by (auto simp: lineage_law_def unary_codec_def enc_number_def n z Let_def) (simp add: enc_text_def)
qed

definition demo_cells :: cells where
  "demo_cells = \<lparr>cl_texts = [], cl_reads = [], cl_writes = [None, Some ''down'', None]\<rparr>"

definition demo_lineage :: Lineage where
  "demo_lineage = Lineage0\<lparr>ln_LastHead := ''abc'', ln_Carry := ''trace''\<rparr>"

text \<open>
  A read that fails is taken for an absent lineage, so that the publish after it starts the generation again.
\<close>

lemma failed_read_resets:
  assumes "lineage_law lc" "SanitizePR pr" "cl_reads c = Some e # fs" "sound_text lc (cell_text c (lineage_name repo pr))"
    and "cell_publish lc config status repo pr l c = (None, c')"
  shows "generation lc c' (lineage_name repo pr) = 1"
  using cells.publish_lands [OF assms(1) refl assms(2,4,5)] assms(1,3)
  by (simp add: cell_sidecar_def next_fault_def generation_def lineage_of_def lineage_law_def)


definition demo_ops :: "(string \<times> string \<times> Lineage) list" where
  "demo_ops = [(''r'', ''7'', demo_lineage), (''r'', ''7'', demo_lineage), (''r'', ''7'', demo_lineage)]"


section \<open>The carry\<close>

lemma truncateHead_length: "length (truncateHead s n) \<le> n + 27"
  by (simp add: truncateHead_def ellipsis_def)

lemma truncateHead_within: "length (truncateHead s n) \<le> n \<longleftrightarrow> length s \<le> n"
  by (simp add: truncateHead_def)

lemma truncateHead_take: "take n (truncateHead s n) = take n s"
  by (simp add: truncateHead_def)

text \<open>
  C32. The trace that a round leaves is bounded whatever the transcript and the earlier trace hold, and it never
  gives up the newest content: it has at most the limit and the 27 bytes of the mark, it is within the limit exactly
  when nothing had to be cut, it starts with the rendering of this round up to the limit, and the trace of the
  rounds before takes at most half of the limit and a constant.
\<close>

theorem carry_bounded:
  "let r = fold (carry_line cc) (split_on (CHR 0x0A) raw) carry_round0; whole = render_round head r @ render_prior prior;
       carry = ExtractCarry cc raw prior head in
    length carry \<le> MaxCarryBytes + 27
    \<and> (length carry \<le> MaxCarryBytes \<longleftrightarrow> length whole \<le> MaxCarryBytes)
    \<and> take MaxCarryBytes carry = take MaxCarryBytes whole
    \<and> prefix (take MaxCarryBytes (render_round head r)) carry
    \<and> length (render_prior prior) \<le> maxCarryPrior + 63"
proof -
  let ?r = "fold (carry_line cc) (split_on (CHR 0x0A) raw) carry_round0"
  let ?whole = "render_round head ?r @ render_prior prior"
  let ?carry = "ExtractCarry cc raw prior head"
  have c: "?carry = truncateHead ?whole MaxCarryBytes"
    by (simp add: ExtractCarry_def truncateHead_def Let_def)
  have "length ?carry \<le> MaxCarryBytes + 27" using truncateHead_length c by simp
  moreover have "length ?carry \<le> MaxCarryBytes \<longleftrightarrow> length ?whole \<le> MaxCarryBytes"
    by (simp only: c truncateHead_within)
  moreover have t: "take MaxCarryBytes ?carry = take MaxCarryBytes ?whole"
    by (simp only: c truncateHead_take)
  moreover have "prefix (take MaxCarryBytes (render_round head ?r)) ?carry"
  proof -
    have "prefix (take MaxCarryBytes (render_round head ?r)) (take MaxCarryBytes ?whole)" by simp
    then show ?thesis using t take_is_prefix [of MaxCarryBytes ?carry] by (metis prefix_order.trans)
  qed
  moreover have "length (render_prior prior) \<le> maxCarryPrior + 63"
    using truncateHead_length [of "TrimSpace prior" maxCarryPrior] by (simp add: render_prior_def Let_def)
  ultimately show ?thesis by (simp add: Let_def)
qed

text \<open>The tail of a transcript is a suffix of it within the limit.\<close>

lemma TailBytes_suffix: "suffix (TailBytes s n) s" "length (TailBytes s n) \<le> n"
proof -
  have "suffix (drop k (drop m s)) s" for k m by (metis drop_drop suffix_drop)
  then show "suffix (TailBytes s n) s" by (auto simp: TailBytes_def Let_def suffix_drop split: option.split)
  show "length (TailBytes s n) \<le> n" by (auto simp: TailBytes_def Let_def split: option.split)
qed

text \<open>After a reset that met no refusal there is no session to adopt.\<close>

lemma reset_leaves_none: "FindLineageSession (snd (ResetLineage (\<lambda>_. True) names aid)) aid = None"
proof -
  have "filter (session_of aid) (snd (ResetLineage (\<lambda>_. True) names aid)) = []"
    by (auto simp: ResetLineage_def Let_def filter_empty_conv)
  then show ?thesis by (simp add: FindLineageSession_def)
qed

end
