(* ===== verification/Store_Link.thy ===== *)
theory Store_Link
  imports Lineage Dispatch_Config
begin

text \<open>
  The link from a lineage to the shared store (\<^verbatim>\<open>LinkSharedStore\<close> of \<^verbatim>\<open>internal/sessionstore/sessionstore.go\<close>).
  One name under the lineage directory, the component, is a symbolic link into the store, a real directory, or
  absent; an arm of the store moves it between these. What the file system answers to each call is a parameter,
  so that an arm can fail at every step. The log lines, with the measurement of the store that only feeds
  them, are left out.
\<close>

section \<open>The component and the file system\<close>

text \<open>A real directory is its files by relative path, without the marker, and whether it holds the marker.\<close>

datatype component = CAbsent | CLink string | CDir bool "(string \<times> string) list" | CFile

record link_fs =
  lf_component :: component
  lf_leaf :: "(string, string) gomap option"  \<comment> \<open>the store's leaf for the workflow\<close>
  lf_marks :: "string list"  \<comment> \<open>directories that got a marker through a link\<close>

text \<open>What the calls of one arm answer.\<close>

record link_os =
  lo_mkdir_leaf :: "string option"
  lo_remove :: "string option"
  lo_symlink :: "string option"
  lo_rename :: "string option"
  lo_remove_all :: "(bool \<times> (string \<times> string) list) option"  \<comment> \<open>what is left when it fails\<close>
  lo_stamp_mkdir :: bool
  lo_stamp_write :: bool
  lo_resolves :: "string \<Rightarrow> bool"  \<comment> \<open>the target of a link is a directory\<close>
  lo_hidden :: "string \<Rightarrow> bool"  \<comment> \<open>the walk reports an error instead of the file\<close>
  lo_read :: "string \<Rightarrow> string option"
  lo_write :: "string \<Rightarrow> string option"  \<comment> \<open>the directory or the file in the leaf\<close>

section \<open>The operations\<close>

definition stampFallback :: "link_os \<Rightarrow> link_fs \<Rightarrow> link_fs" where
  "stampFallback os s =
     (case lf_component s of
        CAbsent \<Rightarrow> if lo_stamp_mkdir os then s\<lparr>lf_component := CDir (lo_stamp_write os) []\<rparr> else s
      | CDir m fs \<Rightarrow> s\<lparr>lf_component := CDir (m \<or> lo_stamp_write os) fs\<rparr>
      | CLink t \<Rightarrow> if lo_resolves os t \<and> lo_stamp_write os then s\<lparr>lf_marks := lf_marks s @ [t]\<rparr> else s
      | CFile \<Rightarrow> s)"

record migration =
  mg_moved :: nat
  mg_total :: nat
  mg_err :: "string option"
  mg_leaf :: "(string, string) gomap"

fun migrate_loop :: "link_os \<Rightarrow> (string \<times> string) list \<Rightarrow> migration \<Rightarrow> migration" where
  "migrate_loop os [] m = m"
| "migrate_loop os ((rel, data) # fs) m =
     (if lo_hidden os rel then migrate_loop os fs m
      else
        (let m1 = m\<lparr>mg_total := mg_total m + 1\<rparr>
         in (case lo_read os rel of
               Some e \<Rightarrow> migrate_loop os fs (m1\<lparr>mg_err := Some e\<rparr>)
             | None \<Rightarrow>
                 (case lo_write os rel of
                    Some e \<Rightarrow> migrate_loop os fs (m1\<lparr>mg_err := Some e\<rparr>)
                  | None \<Rightarrow> migrate_loop os fs (m1\<lparr>mg_leaf := map_set rel data (mg_leaf m1), mg_moved := mg_moved m1 + 1\<rparr>)))))"

definition migrateManufactured :: "link_os \<Rightarrow> (string \<times> string) list \<Rightarrow> (string, string) gomap \<Rightarrow> migration" where
  "migrateManufactured os fs leaf = migrate_loop os fs \<lparr>mg_moved = 0, mg_total = 0, mg_err = None, mg_leaf = leaf\<rparr>"

text \<open>The atomic creation: a link under a temporary name, renamed over the component.\<close>

definition relink :: "link_os \<Rightarrow> string \<Rightarrow> link_fs \<Rightarrow> link_fs" where
  "relink os target s =
     (case lo_symlink os of
        Some e \<Rightarrow> if lf_component s = CAbsent then stampFallback os s else s
      | None \<Rightarrow> (case lo_rename os of Some e \<Rightarrow> s | None \<Rightarrow> s\<lparr>lf_component := CLink target\<rparr>))"

definition undeclare :: "link_os \<Rightarrow> link_fs \<Rightarrow> link_fs" where
  "undeclare os s =
     (case lf_component s of
        CLink t \<Rightarrow> if t \<noteq> [] \<and> lo_remove os = None then s\<lparr>lf_component := CAbsent\<rparr> else s
      | _ \<Rightarrow> s)"

definition store_target :: "string \<Rightarrow> string \<Rightarrow> string" where
  "store_target workflow mount = path_join (Clean mount) workflow"

definition LinkSharedStore :: "link_os \<Rightarrow> string \<Rightarrow> string \<Rightarrow> link_fs \<Rightarrow> link_fs" where
  "LinkSharedStore os workflow mount s =
     (if IsReservedStoreName workflow then s
      else if mount = [] then undeclare os s
      else
        (case lo_mkdir_leaf os of
           Some e \<Rightarrow> stampFallback os s
         | None \<Rightarrow>
             (let target = store_target workflow mount;
                  leaf = (case lf_leaf s of None \<Rightarrow> [] | Some fs \<Rightarrow> fs);
                  s1 = s\<lparr>lf_leaf := Some leaf\<rparr>
              in (case lf_component s1 of
                    CLink t \<Rightarrow> if t = target then s1 else relink os target s1
                  | CDir m fs \<Rightarrow>
                      if \<not> m then s1
                      else
                        (let g = migrateManufactured os fs leaf; s2 = s1\<lparr>lf_leaf := Some (mg_leaf g)\<rparr>
                         in if mg_err g \<noteq> None \<or> mg_moved g \<noteq> mg_total g then s2
                            else (case lo_remove_all os of
                                    Some (m', rest) \<Rightarrow> s2\<lparr>lf_component := CDir m' rest\<rparr>
                                  | None \<Rightarrow> relink os target (s2\<lparr>lf_component := CAbsent\<rparr>)))
                  | _ \<Rightarrow> relink os target s1))))"

section \<open>Laws of a migration\<close>

lemma migrate_mono: "mg_err m = Some e \<Longrightarrow> mg_err (migrate_loop os fs m) \<noteq> None"
  by (induction os fs m arbitrary: e rule: migrate_loop.induct) (auto simp: Let_def split: option.splits)

lemma migrate_failed [simp]: "mg_err (migrate_loop os fs (m\<lparr>mg_err := Some e\<rparr>)) = None \<longleftrightarrow> False"
  "mg_err (migrate_loop os fs (m\<lparr>mg_total := k, mg_err := Some e\<rparr>)) = None \<longleftrightarrow> False"
  using migrate_mono [of "m\<lparr>mg_err := Some e\<rparr>" e] migrate_mono [of "m\<lparr>mg_total := k, mg_err := Some e\<rparr>" e] by auto

text \<open>A file that is written keeps its text unless a later file of the same name follows.\<close>

lemma migrate_keeps:
  "r \<notin> fst ` set fs \<Longrightarrow> map_of (mg_leaf (migrate_loop os fs m)) r = map_of (mg_leaf m) r"
  by (induction os fs m rule: migrate_loop.induct) (auto simp: Let_def split: option.splits)

lemma migrate_all:
  assumes "mg_err (migrate_loop os fs m) = None" "distinct (map fst fs)" "(rel, data) \<in> set fs" "\<not> lo_hidden os rel"
  shows "map_of (mg_leaf (migrate_loop os fs m)) rel = Some data"
  using assms
proof (induction fs arbitrary: m)
  case (Cons f fs)
  obtain r d where f: "f = (r, d)" by fastforce
  show ?case
  proof (cases "(rel, data) = f")
    case True
    then have rd: "r = rel" "d = data" using f by auto
    have n: "rel \<notin> fst ` set fs" using Cons.prems(2) f rd by auto
    have "lo_read os rel = None" "lo_write os rel = None"
      using Cons.prems(1,4) f rd by (auto simp: Let_def split: option.splits)
    then show ?thesis using Cons.prems(4) f rd migrate_keeps [OF n] by (simp add: Let_def)
  next
    case False
    then have i: "(rel, data) \<in> set fs" "distinct (map fst fs)" using Cons.prems(2,3) by auto
    show ?thesis
      using Cons.IH [OF _ i(2,1) Cons.prems(4)] Cons.prems(1) f by (auto simp: Let_def split: if_splits option.splits)
  qed
qed simp

text \<open>The text that the extension finds under a name: in the directory, or in the leaf.\<close>

definition dir_files :: "link_fs \<Rightarrow> (string \<times> string) list" where
  "dir_files s = (case lf_component s of CDir m fs \<Rightarrow> fs | _ \<Rightarrow> [])"

definition leaf_files :: "link_fs \<Rightarrow> (string, string) gomap" where
  "leaf_files s = (case lf_leaf s of None \<Rightarrow> [] | Some fs \<Rightarrow> fs)"

definition has_file :: "link_fs \<Rightarrow> string \<Rightarrow> string \<Rightarrow> bool" where
  "has_file s rel data \<longleftrightarrow> (rel, data) \<in> set (dir_files s) \<or> map_of (leaf_files s) rel = Some data"

lemma stampFallback_files [simp]: "dir_files (stampFallback os s) = dir_files s" "lf_leaf (stampFallback os s) = lf_leaf s"
  by (auto simp: stampFallback_def dir_files_def split: component.split)

lemma relink_leaf [simp]: "lf_leaf (relink os t s) = lf_leaf s"
  by (auto simp: relink_def split: option.split)

lemma arm_keeps_file:
  assumes "(rel, data) \<in> set (dir_files s)" "distinct (map fst (dir_files s))" "\<not> lo_hidden os rel"
  shows "has_file (LinkSharedStore os workflow mount s) rel data"
proof -
  obtain m fs where c: "lf_component s = CDir m fs" and i: "(rel, data) \<in> set fs" and d: "distinct (map fst fs)"
    using assms by (auto simp: dir_files_def split: component.splits)
  let ?leaf = "case lf_leaf s of None \<Rightarrow> [] | Some fs \<Rightarrow> fs"
  let ?g = "migrateManufactured os fs ?leaf"
  have mig: "mg_err ?g = None \<Longrightarrow> map_of (mg_leaf ?g) rel = Some data"
    unfolding migrateManufactured_def by (rule migrate_all [OF _ d i assms(3)])
  consider "IsReservedStoreName workflow" | "\<not> IsReservedStoreName workflow" "mount = [] \<or> lo_mkdir_leaf os \<noteq> None \<or> \<not> m"
    | "\<not> IsReservedStoreName workflow" "mount \<noteq> []" "lo_mkdir_leaf os = None" m by blast
  then show ?thesis
  proof cases
    case 3
    then show ?thesis
      using c i mig
      by (cases "mg_err ?g \<noteq> None \<or> mg_moved ?g \<noteq> mg_total ?g")
        (auto simp: LinkSharedStore_def has_file_def dir_files_def leaf_files_def Let_def split: option.splits)
  qed (use c i in \<open>auto simp: LinkSharedStore_def has_file_def dir_files_def undeclare_def stampFallback_def Let_def split: option.splits\<close>)
qed

section \<open>Properties\<close>

lemma arm_keeps_leaf:
  assumes "rel \<notin> fst ` set (dir_files s)"
  shows "map_of (leaf_files (LinkSharedStore os workflow mount s)) rel = map_of (leaf_files s) rel"
proof (cases "lf_component s")
  case (CDir m fs)
  have k: "map_of (mg_leaf (migrateManufactured os fs leaf)) rel = map_of leaf rel" for leaf
    using migrate_keeps [of rel fs] assms CDir by (simp add: dir_files_def migrateManufactured_def)
  show ?thesis
    using CDir k by (auto simp: LinkSharedStore_def leaf_files_def undeclare_def Let_def split: option.split)
qed (auto simp: LinkSharedStore_def leaf_files_def undeclare_def Let_def split: option.split)

lemma arm_keeps_legacy:
  assumes "lf_component s = CDir False fs"
  shows "\<exists>m. lf_component (LinkSharedStore os workflow mount s) = CDir m fs"
  using assms by (auto simp: LinkSharedStore_def undeclare_def stampFallback_def Let_def split: option.split)

text \<open>
  C31. An arm of the shared store loses no file that it can see, whatever fails: every file of the real
  directory under the component that the walk reports is afterwards still in that directory or, with the same
  text, in the leaf of the store; every other file of the leaf is as before; and a directory
  without the marker stays in place with all its files.
\<close>

theorem shared_store_keeps_files:
  assumes "distinct (map fst (dir_files s))"
  shows "(\<forall>(rel, data) \<in> set (dir_files s). \<not> lo_hidden os rel \<longrightarrow> has_file (LinkSharedStore os workflow mount s) rel data)
    \<and> (\<forall>rel. rel \<notin> fst ` set (dir_files s) \<longrightarrow>
          map_of (leaf_files (LinkSharedStore os workflow mount s)) rel = map_of (leaf_files s) rel)
    \<and> (\<forall>fs. lf_component s = CDir False fs \<longrightarrow> (\<exists>m. lf_component (LinkSharedStore os workflow mount s) = CDir m fs))"
  using arm_keeps_file [OF _ assms] arm_keeps_leaf arm_keeps_legacy by blast

text \<open>A file system on which everything works, and one with an outage of the store.\<close>

definition healthy_os :: link_os where
  "healthy_os = \<lparr>lo_mkdir_leaf = None, lo_remove = None, lo_symlink = None, lo_rename = None, lo_remove_all = None,
     lo_stamp_mkdir = True, lo_stamp_write = True, lo_resolves = (\<lambda>_. True), lo_hidden = (\<lambda>_. False),
     lo_read = (\<lambda>_. None), lo_write = (\<lambda>_. None)\<rparr>"

definition outage_os :: link_os where
  "outage_os = healthy_os\<lparr>lo_mkdir_leaf := Some ''not mounted''\<rparr>"

definition demo_dir :: "bool \<Rightarrow> link_fs" where
  "demo_dir m = \<lparr>lf_component = CDir m [(''obs_1.txt'', ''a''), (''obs_2.txt'', ''b'')], lf_leaf = None, lf_marks = []\<rparr>"

theorem shared_store_keeps_files_witness:
  "has_file (LinkSharedStore healthy_os ''wf'' ''/store'' (demo_dir True)) ''obs_1.txt'' ''a''"
  using shared_store_keeps_files [of "demo_dir True" healthy_os "''wf''" "''/store''"]
  by (simp add: dir_files_def demo_dir_def healthy_os_def)

lemma migrate_healthy:
  assumes "\<forall>rel. lo_read os rel = None \<and> lo_write os rel = None" "mg_err m = None" "mg_moved m = mg_total m"
  shows "mg_err (migrate_loop os fs m) = None \<and> mg_moved (migrate_loop os fs m) = mg_total (migrate_loop os fs m)"
  using assms(2,3)
proof (induction fs arbitrary: m)
  case (Cons f fs)
  then show ?case by (cases f) (simp add: assms(1) Let_def)
qed simp

text \<open>
  An arm on a file system that works makes the component the link to the leaf of its workflow, from every state
  except a directory without the marker, with the contents of a marked directory moved into the leaf, and a second arm changes
  nothing. While the store is declared the component is absent after an arm only if it was absent or
  removed in this arm and the rename, or else the creation of the fallback, failed.
\<close>

theorem shared_store_links:
  assumes "\<not> IsReservedStoreName workflow" "mount \<noteq> []"
  shows "(lo_mkdir_leaf os = None \<and> lo_symlink os = None \<and> lo_rename os = None \<and> lo_remove_all os = None
            \<and> (\<forall>rel. lo_read os rel = None \<and> lo_write os rel = None) \<and> (\<forall>fs. lf_component s \<noteq> CDir False fs) \<longrightarrow>
          lf_component (LinkSharedStore os workflow mount s) = CLink (store_target workflow mount)
          \<and> LinkSharedStore os workflow mount (LinkSharedStore os workflow mount s) = LinkSharedStore os workflow mount s)
    \<and> (lf_component (LinkSharedStore os workflow mount s) = CAbsent \<longrightarrow>
          (lf_component s = CAbsent \<or> (\<exists>fs. lf_component s = CDir True fs))
          \<and> (lo_rename os \<noteq> None \<or> \<not> lo_stamp_mkdir os))"
proof (intro conjI impI)
  let ?t = "store_target workflow mount"
  assume h: "lo_mkdir_leaf os = None \<and> lo_symlink os = None \<and> lo_rename os = None \<and> lo_remove_all os = None
            \<and> (\<forall>rel. lo_read os rel = None \<and> lo_write os rel = None) \<and> (\<forall>fs. lf_component s \<noteq> CDir False fs)"
  have m: "mg_err (migrateManufactured os fs leaf) = None \<and> mg_moved (migrateManufactured os fs leaf) = mg_total (migrateManufactured os fs leaf)"
    for fs leaf using migrate_healthy [of os] h by (simp add: migrateManufactured_def)
  show l: "lf_component (LinkSharedStore os workflow mount s) = CLink ?t"
    using h assms m by (cases "lf_component s") (auto simp: LinkSharedStore_def relink_def Let_def)
  have "lf_leaf (LinkSharedStore os workflow mount s) \<noteq> None"
    using h assms m by (cases "lf_component s") (auto simp: LinkSharedStore_def relink_def Let_def)
  then show "LinkSharedStore os workflow mount (LinkSharedStore os workflow mount s) = LinkSharedStore os workflow mount s"
    using h assms l by (auto simp: LinkSharedStore_def [of os workflow mount "LinkSharedStore os workflow mount s"] Let_def)
next
  assume a: "lf_component (LinkSharedStore os workflow mount s) = CAbsent"
  show "lf_component s = CAbsent \<or> (\<exists>fs. lf_component s = CDir True fs)"
    using a assms by (cases "lf_component s") (auto simp: LinkSharedStore_def relink_def stampFallback_def Let_def split: option.splits if_splits)
  show "lo_rename os \<noteq> None \<or> \<not> lo_stamp_mkdir os"
    using a assms by (cases "lf_component s") (auto simp: LinkSharedStore_def relink_def stampFallback_def Let_def split: option.splits if_splits)
qed

theorem shared_store_links_witness:
  "lf_component (LinkSharedStore healthy_os ''wf'' ''/store'' (demo_dir True)) = CLink (store_target ''wf'' ''/store'')"
  using shared_store_links [of "''wf''" "''/store''" healthy_os "demo_dir True"]
  by (simp add: IsReservedStoreName_def ReservedStoreNames_def demo_dir_def healthy_os_def)

text \<open>
  An outage stamps the marker into a directory that had none, so that the next arm on a store that works takes it for
  its own and moves it into the shared store.
\<close>

lemma outage_stamps_legacy:
  "lf_component (LinkSharedStore outage_os ''wf'' ''/store'' (demo_dir False)) = CDir True [(''obs_1.txt'', ''a''), (''obs_2.txt'', ''b'')]"
  "lf_component (LinkSharedStore healthy_os ''wf'' ''/store'' (LinkSharedStore outage_os ''wf'' ''/store'' (demo_dir False))) =
     CLink (store_target ''wf'' ''/store'')"
  by (simp_all add: LinkSharedStore_def outage_os_def healthy_os_def demo_dir_def stampFallback_def IsReservedStoreName_def
      ReservedStoreNames_def migrateManufactured_def relink_def Let_def)

text \<open>A file that the walk cannot report is not counted, so that its directory is removed with it.\<close>

lemma hidden_file_lost:
  "\<not> has_file (LinkSharedStore (healthy_os\<lparr>lo_hidden := (\<lambda>rel. rel = ''obs_2.txt'')\<rparr>) ''wf'' ''/store'' (demo_dir True)) ''obs_2.txt'' ''b''"
  by (simp add: LinkSharedStore_def healthy_os_def demo_dir_def IsReservedStoreName_def ReservedStoreNames_def
      migrateManufactured_def relink_def has_file_def dir_files_def leaf_files_def Let_def)

text \<open>A rename that fails after a migration leaves the component absent.\<close>

lemma rename_leaves_gap:
  "lf_component (LinkSharedStore (healthy_os\<lparr>lo_rename := Some ''busy''\<rparr>) ''wf'' ''/store'' (demo_dir True)) = CAbsent"
  by (simp add: LinkSharedStore_def healthy_os_def demo_dir_def IsReservedStoreName_def ReservedStoreNames_def
      migrateManufactured_def relink_def Let_def)

end
