(* ===== verification/Spec2Isabelle.thy ===== *)
theory Spec2Isabelle
  imports Capability Glob Graph_Props Graph_Compile Ledger_Props Review_Ready Claim_Theorems Attempt_Janitor Gate_Theorems
    Agent_Profile_Props Template_Defaults Controller_Theorems Controller_Janitor Template_History Job_Theorems Trigger_Delivery
    Webhook_Theorems Timeline_Theorems Deploy_Theorems Agent_Theorems
    Lineage_Theorems Store_Link
begin

text \<open>
  Harmostes runs deterministic and agentic workflows on Kubernetes. A \<^emph>\<open>Workflow\<close> object declares a
  source, a prepare plugin, an agent, a gate and an action, mostly inherited from a
  \<^emph>\<open>WorkflowTemplate\<close>. The \<^emph>\<open>controller\<close> decides when a Workflow is due, wins a trigger slot on the
  object and publishes a trigger event. The \<^emph>\<open>worker\<close> consumes the event; for a workflow with the
  Review-Ready Gate it sweeps the pull requests of the host, arms \<^emph>\<open>claims\<close> on them and creates one
  Job per dispatched review. The Job compiles the Workflow to a graph and walks it: every node is
  authorised against the system bindings, executed with a retry budget, and its result is an
  envelope of claims whose trust the kernel enforces. What happened is recorded in the
  \<^emph>\<open>Attempt\<close>, one object per objective, that is at once the run ledger and the claim. Janitors collect
  what is finished.

  \<^bold>\<open>How the sources are modelled.\<close> Paths are under \<^verbatim>\<open>src/\<close>. A struct is a record with the source's field
  names behind a prefix, an enumeration of strings stays a string, a Go map is an association list
  with one entry per key (\<open>gomap\<close>, the iteration order is explicit where it shows), an error is
  \<open>Inl\<close> of an \<open>error\<close> or \<open>Some\<close> of one. Instants and durations are integers of nanoseconds;
  64-bit arithmetic is wrapped where it can overflow (\<open>wrap64\<close>), a hash is computed on words. A function with
  effects takes the world and returns it: what the program calls beyond \<^verbatim>\<open>src/\<close> (the Kubernetes
  client, the host's API, processes, the state store, the clock, cron and semver libraries, the JSON
  codec) is a record of operations on a world \<open>'w\<close> that the definitions take as their argument.
  What the code relies on of them is the \<open>assumes\<close> of a locale or a premise, and each is shown to
  hold of a concrete server.

  \<^bold>\<open>Shared vocabulary.\<close> \<^verbatim>\<open>Prelude\<close> has the Go types and the functions of \<^verbatim>\<open>strings\<close>, \<^verbatim>\<open>strconv\<close> and
  \<^verbatim>\<open>time\<close> that the sources call; \<^verbatim>\<open>Go_Time\<close> how Go prints times; \<^verbatim>\<open>Api_Types\<close> the objects of
  \<^verbatim>\<open>api/v1alpha1\<close> with their zero values.

  \<^bold>\<open>The graph.\<close> \<^verbatim>\<open>Capability\<close> is \<^verbatim>\<open>internal/capability/policy.go\<close>: the policy refuses exactly the unmet
  requirements. \<^verbatim>\<open>Glob\<close> and \<^verbatim>\<open>Claim_Trust\<close> are \<^verbatim>\<open>internal/claim/trust.go\<close>: the index loop of the matcher
  equals the matching relation; enforcement and promotion are two instances of one contract on trust
  decisions. \<^verbatim>\<open>Graph_Node\<close> holds the node executors of \<^verbatim>\<open>internal/graph\<close> and the plugin runner of
  \<^verbatim>\<open>internal/worker/plugin.go\<close>, \<^verbatim>\<open>Graph_Executor\<close> the walk of \<^verbatim>\<open>internal/graph/executor.go\<close>,
  \<^verbatim>\<open>Graph_Compile\<close> the compiler \<^verbatim>\<open>compile.go\<close>. \<^verbatim>\<open>Graph_Walk\<close> states what an invariant of the walk has to
  satisfy as the locale \<open>walk_invariant\<close>; \<^verbatim>\<open>Graph_Props\<close> interprets it four times and derives that no
  producer validates its own claim, that only authorised nodes run, that loop-backs respect the
  retry bound of their edges, and the failure contract. The walk is a total function: its measure counts the
  steps that \<open>maxTotalSteps\<close> leaves, so no fuel is chosen by the model.

  \<^bold>\<open>The Attempt.\<close> \<^verbatim>\<open>Attempt_Identity\<close> is \<^verbatim>\<open>internal/attempt/attempt.go\<close> (objective, FNV-1a name),
  \<^verbatim>\<open>Attempt_Ledger\<close> and \<^verbatim>\<open>Ledger_Props\<close> are \<^verbatim>\<open>lifecycle.go\<close>: the three merges are instances of one keyed
  ledger, compaction bounds the object, the write primitive loses no update. \<^verbatim>\<open>Review_Ready\<close> is the gate's
  configuration, \<^verbatim>\<open>Attempt_Claim\<close> the writers of \<^verbatim>\<open>claim.go\<close>. \<^verbatim>\<open>Api_Store\<close> is the optimistic-locking
  contract of the API server with its instance; \<^verbatim>\<open>Claim_Props\<close> and \<^verbatim>\<open>Claim_Theorems\<close> show that every writer
  refines the step relation \<open>claim_step\<close>, that its invariant holds, and that one pull request has
  one live claim. \<^verbatim>\<open>Attempt_Janitor\<close> is the garbage collector and the reaper.

  \<^bold>\<open>The Review-Ready Gate.\<close> \<^verbatim>\<open>Review_Gate\<close> with \<^verbatim>\<open>Review_Gate_Props\<close> is the decision of
  \<^verbatim>\<open>internal/review/review.go\<close>: when it proceeds, when it releases, that a reviewed head is not
  reviewed again. \<^verbatim>\<open>Gate_Wake\<close> and \<^verbatim>\<open>Gate_Sweep\<close> are \<^verbatim>\<open>internal/gate/sweep.go\<close>, \<^verbatim>\<open>Gate_Props\<close> and
  \<^verbatim>\<open>Gate_Theorems\<close> its frames and properties: bounds on the reviews a sweep hands out, Jobs are
  cancelled only for released claims, claims are released only on an observed fact, a sweep that cannot read
  the Jobs does nothing.

  \<^bold>\<open>Configuration.\<close> \<^verbatim>\<open>Agent_Profile\<close> with \<^verbatim>\<open>Agent_Profile_Props\<close> is the agent's environment (model windows,
  kernel compatibility, pins, composition, manifests); \<^verbatim>\<open>Template_Defaults\<close> is
  \<^verbatim>\<open>api/v1alpha1/template.go\<close>; \<^verbatim>\<open>Template_History\<close> the recorder \<^verbatim>\<open>internal/controller/template_history.go\<close>.

  \<^bold>\<open>The controller.\<close> \<^verbatim>\<open>Controller\<close> is \<^verbatim>\<open>workflow_controller.go\<close>, \<^verbatim>\<open>trigger.go\<close> and \<^verbatim>\<open>attempt_trigger.go\<close> of
  \<^verbatim>\<open>internal/controller\<close>. \<^verbatim>\<open>Trigger_Slot\<close> is the specification of the slot: a step relation in which any number
  of writers interleave on one object and reads may be stale. \<^verbatim>\<open>Controller_Props\<close> shows, in the locale
  \<open>trigger_api\<close>, that a whole reconcile is a trace of it; \<^verbatim>\<open>Controller_Theorems\<close> interprets the
  locale on a server behind a lagging cache and states the properties. \<^verbatim>\<open>Controller_Janitor\<close> is
  \<^verbatim>\<open>janitor.go\<close>.

  \<^bold>\<open>The dispatcher.\<close> \<^verbatim>\<open>Go_Lib\<close> adds what \<^verbatim>\<open>os\<close>, \<^verbatim>\<open>path\<close>, \<^verbatim>\<open>strconv\<close> and \<^verbatim>\<open>crypto/sha256\<close> contribute. \<^verbatim>\<open>K8s_Job\<close> with
  \<^verbatim>\<open>K8s_Job_Props\<close> is \<^verbatim>\<open>internal/k8s/job.go\<close>, the construction of the Job object step by step, with the two
  functions of \<^verbatim>\<open>internal/sessionstore\<close> that name its directories. \<^verbatim>\<open>Dispatch_Config\<close> and \<^verbatim>\<open>Dispatch\<close> are
  \<^verbatim>\<open>internal/worker/dispatch.go\<close>: the configuration from the environment, the validation, the credentials of
  a Job, the gated and the ungated path, the create section. \<^verbatim>\<open>Job_Theorems\<close> shows that an accepted workflow gives
  a pod whose volumes and mounts fit together, that its environment holds only what its workflow declares,
  and that the deadline of the Job and the wall that the run is told agree. \<^verbatim>\<open>Dispatch_Desk\<close> is a cluster to
  dispatch into; \<^verbatim>\<open>Dispatch_Props\<close> has the locales \<open>gate_log\<close> and \<open>dispatch_api\<close>, which
  \<^verbatim>\<open>Dispatch_Theorems\<close> interprets on that cluster: every Job is created after its intent was recorded, at most one per
  handed-out Attempt. \<^verbatim>\<open>Consumer\<close> is \<^verbatim>\<open>internal/worker/consumer.go\<close> with the cadence of the poll, and
  \<^verbatim>\<open>Trigger_Delivery\<close> composes controller, event, consumer and dispatcher.

  \<^bold>\<open>The edges.\<close> \<^verbatim>\<open>Webhook\<close> is \<^verbatim>\<open>internal/webhook\<close>: the signatures with their HMAC, the three shapes of events, the
  landings of templates. \<^verbatim>\<open>Webhook_Theorems\<close> states the merge patch of the API server as the locale
  \<open>webhook_api\<close> and shows that changes are signed, what the controller publishes after a wake and
  that a landing touches one annotation. \<^verbatim>\<open>Timeline\<close> and \<^verbatim>\<open>Timeline_Theorems\<close> are \<^verbatim>\<open>internal/timeline\<close>: what a run emits is
  read back, what later wakes overwrite. \<^verbatim>\<open>Deploy_Executor\<close> and \<^verbatim>\<open>Deploy_Theorems\<close> are
  \<^verbatim>\<open>internal/graph/deploy_executors.go\<close>: a wait returns and says what it saw, an apply lands.

  \<^bold>\<open>The agent.\<close> \<^verbatim>\<open>Agent_Session\<close> is the session with the agent process (\<^verbatim>\<open>rpc.go\<close>, \<^verbatim>\<open>session.go\<close> and
  \<^verbatim>\<open>usage.go\<close> of \<^verbatim>\<open>internal/agent\<close>, the event type of \<^verbatim>\<open>internal/pijsonl\<close>, the arguments of \<^verbatim>\<open>internal/piargs\<close>): what the
  process sends is an input, and a prompt that gets no end is \<^const>\<open>None\<close>. \<^verbatim>\<open>Agent_Warm\<close> shows that the turns of a warm
  session count each message once. \<^verbatim>\<open>Agent_Loop\<close> is \<^verbatim>\<open>agent.go\<close>, the loop of task, gate and feedback, with
  the runner of \<^verbatim>\<open>worker/plugin.go\<close>. \<^verbatim>\<open>Agent_Theorems\<close> has the transcript as the invariant of the loop, the locale
  \<open>returning_session\<close>, interpreted on the session over a stream that ends, and the properties. \<^verbatim>\<open>Lineage\<close> is the memory of a change between
  rounds (\<^verbatim>\<open>internal/sessionstore\<close>, \<^verbatim>\<open>internal/agentlineage\<close>): \<^verbatim>\<open>Lineage_Theorems\<close> states the actor's state as the locale
  \<open>actor_state\<close> and shows that what is published is read back, that generations count and that the trace stays
  bounded. \<^verbatim>\<open>Store_Link\<close> is the link of a lineage to the shared store, in which an arm may fail at every call.

  \<^bold>\<open>Bounds and fuel.\<close> Retries on a write conflict take the five attempts of \<^verbatim>\<open>retry.DefaultRetry\<close>. The listing of
  comments recurses on the pages left below the page limit of the source. The janitor's and the armed poll's endless
  loops are modelled for a number of rounds, and what holds of a round holds for every number. The walk of the timeline
  reader and the wait for readiness are partial functions, and that they return is proved from what they rely on: a batch
  without data, a clock that advances.

  \<^bold>\<open>Not modelled.\<close> Log lines, metrics and tracing spans, which nothing reads back; process wiring in
  \<^verbatim>\<open>cmd\<close>; HTTP transport, JSON decoding and GraphQL, whose decoded replies are the model's inputs; the web UI
  and its views; the materialisation of pinned runtimes (\<^verbatim>\<open>internal/materialize\<close>); the program behind the agent's
  pipe; Dapr's HTTP client; the walk over resource definitions for the UI (\<^verbatim>\<open>internal/crdwalk\<close>).
\<close>

end
